(* ===== verification/Prelude.thy ===== *)
theory Prelude
  imports Complex_Main "HOL-Library.Word" "HOL-Library.Multiset" "HOL-Library.List_Lexorder"
    "HOL-Library.Char_ord" "HOL-Library.Product_Lexorder"
begin

text \<open>
  What every component shares and no component owns: the fallible, state-passing
  computations in which the services are written, the operations of a table (a list of
  rows in insertion order), the decimal rendering of identifiers, and the two collections
  of rewrite rules the component proofs are driven by: \<open>frame\<close> (what an operation leaves
  alone) and \<open>effect\<close> (what it does to the table it owns).
\<close>

named_theorems frame "what an operation leaves unchanged"
named_theorems effect "what an operation does to the table it owns"

section \<open>Identifiers, instants, identifiers as text\<close>

type_synonym uuid = nat
type_synonym instant = int

definition digit_char :: "nat \<Rightarrow> char" where
  "digit_char n = char_of (48 + n)"

fun dec_nat :: "nat \<Rightarrow> string" where
  "dec_nat n = (if n < 10 then [digit_char n] else dec_nat (n div 10) @ [digit_char (n mod 10)])"

declare dec_nat.simps [simp del]

definition dec_int :: "int \<Rightarrow> string" where
  "dec_int i = (if i < 0 then CHR ''-'' # dec_nat (nat (- i)) else dec_nat (nat i))"

definition is_digit_char :: "char \<Rightarrow> bool" where
  "is_digit_char c \<longleftrightarrow> 48 \<le> (of_char c :: nat) \<and> (of_char c :: nat) \<le> 57"

definition digit_value :: "char \<Rightarrow> nat" where
  "digit_value c = of_char c - 48"

definition dec_value :: "string \<Rightarrow> nat" where
  "dec_value = foldl (\<lambda>a c. 10 * a + digit_value c) 0"

lemma of_char_digit [simp]: "n < 10 \<Longrightarrow> (of_char (digit_char n) :: nat) = 48 + n"
  by (simp add: digit_char_def)

lemma is_digit_char_digit [simp]: "n < 10 \<Longrightarrow> is_digit_char (digit_char n)"
  by (simp add: is_digit_char_def)

lemma digit_value_digit [simp]: "n < 10 \<Longrightarrow> digit_value (digit_char n) = n"
  by (simp add: digit_value_def)

lemma dec_value_snoc: "dec_value (xs @ [c]) = 10 * dec_value xs + digit_value c"
  by (simp add: dec_value_def)

lemma dec_value_dec_nat [simp]: "dec_value (dec_nat n) = n"
proof (induction n rule: dec_nat.induct)
  case (1 n)
  then show ?case
    by (cases "n < 10") (simp_all add: dec_nat.simps [of n] dec_value_snoc, simp_all add: dec_value_def)
qed

lemma dec_nat_digits: "c \<in> set (dec_nat n) \<Longrightarrow> is_digit_char c"
proof (induction n rule: dec_nat.induct)
  case (1 n)
  then show ?case
    by (cases "n < 10") (auto simp: dec_nat.simps [of n])
qed

lemma dec_nat_ne [simp]: "dec_nat n \<noteq> []"
  by (cases "n < 10") (simp_all add: dec_nat.simps [of n])

lemma dec_nat_inj [simp]: "dec_nat m = dec_nat n \<longleftrightarrow> m = n"
  by (metis dec_value_dec_nat)

lemma minus_not_digit [simp]: "\<not> is_digit_char (CHR ''-'')"
  by (simp add: is_digit_char_def)

lemma dec_nat_not_minus [simp]: "dec_nat n \<noteq> CHR ''-'' # x" "CHR ''-'' # x \<noteq> dec_nat n"
  by (metis dec_nat_digits list.set_intros(1) minus_not_digit)+

lemma dec_int_inj [simp]: "dec_int i = dec_int j \<longleftrightarrow> i = j"
  by (auto simp: dec_int_def)

lemma dec_int_ne [simp]: "dec_int i \<noteq> []"
  by (simp add: dec_int_def)

text \<open>Identifiers are rendered in decimal; of the rendering only injectivity is used.\<close>

definition uuid_str :: "uuid \<Rightarrow> string" where
  "uuid_str u = dec_nat u"

definition iso :: "instant \<Rightarrow> string" where
  "iso t = dec_int t"

lemma uuid_str_inj [simp]: "uuid_str a = uuid_str b \<longleftrightarrow> a = b"
  by (simp add: uuid_str_def)

lemma iso_inj [simp]: "iso a = iso b \<longleftrightarrow> a = b"
  by (simp add: iso_def)

section \<open>Fallible computations\<close>

text \<open>
  An operation that may raise returns \<open>Inl\<close> the error or \<open>Inr\<close> the result, and always the
  state it left behind: the state at a raise matters, because the caller decides whether the
  transaction around it commits.
\<close>

type_synonym ('s, 'e, 'a) op = "'s \<Rightarrow> ('e + 'a) \<times> 's"

definition ok :: "'a \<Rightarrow> 's \<Rightarrow> ('e + 'a) \<times> 's" where
  "ok a s = (Inr a, s)"

definition raise :: "'e \<Rightarrow> 's \<Rightarrow> ('e + 'a) \<times> 's" where
  "raise e s = (Inl e, s)"

definition bind_err :: "('e + 'a) \<times> 's \<Rightarrow> ('a \<Rightarrow> 's \<Rightarrow> ('e + 'b) \<times> 's) \<Rightarrow> ('e + 'b) \<times> 's" where
  "bind_err r k = (case r of (Inl e, s) \<Rightarrow> (Inl e, s) | (Inr a, s) \<Rightarrow> k a s)"

text \<open>A check that may refuse: \<open>None\<close> lets the caller go on.\<close>

definition require :: "'e option \<Rightarrow> 's \<Rightarrow> ('e + unit) \<times> 's" where
  "require c s = (case c of None \<Rightarrow> ok () s | Some e \<Rightarrow> raise e s)"

lemma ok_sel [simp]: "fst (ok a s) = Inr a" "snd (ok a s) = s"
  by (simp_all add: ok_def)

lemma raise_sel [simp]: "fst (raise e s) = Inl e" "snd (raise e s) = s"
  by (simp_all add: raise_def)

lemma ok_neq_raise [simp]: "ok a s \<noteq> raise e t" "raise e t \<noteq> ok a s"
  by (simp_all add: ok_def raise_def)

lemma ok_eq [simp]: "ok a s = ok b t \<longleftrightarrow> a = b \<and> s = t" "ok a s = (x, t) \<longleftrightarrow> x = Inr a \<and> s = t"
  by (auto simp: ok_def)

lemma raise_eq [simp]: "raise e s = raise f t \<longleftrightarrow> e = f \<and> s = t"
  "raise e s = (x, t) \<longleftrightarrow> x = Inl e \<and> s = t"
  by (auto simp: raise_def)

lemma bind_err_simps [simp]:
  "bind_err (Inl e, s) k = raise e s"
  "bind_err (Inr a, s) k = k a s"
  "bind_err (ok a s) k = k a s"
  "bind_err (raise e s) k = raise e s"
  by (simp_all add: bind_err_def ok_def raise_def)

lemma require_simps [simp]:
  "require None s = ok () s" "require (Some e) s = raise e s"
  by (simp_all add: require_def)

lemma require_ok_iff [simp]:
  "require c s = (Inr u, t) \<longleftrightarrow> c = None \<and> t = s"
  "require c s = (Inl e, t) \<longleftrightarrow> c = Some e \<and> t = s"
  by (auto simp: require_def split: option.splits)

lemma bind_err_ok_iff:
  "bind_err r k = (Inr b, t) \<longleftrightarrow> (\<exists>a s. r = (Inr a, s) \<and> k a s = (Inr b, t))"
  by (auto simp: bind_err_def split: prod.splits sum.splits)

lemma bind_err_err_iff:
  "bind_err r k = (Inl e, t) \<longleftrightarrow> r = (Inl e, t) \<or> (\<exists>a s. r = (Inr a, s) \<and> k a s = (Inl e, t))"
  by (auto simp: bind_err_def split: prod.splits sum.splits)

lemma bind_err_assoc: "bind_err (bind_err r k) h = bind_err r (\<lambda>a s. bind_err (k a s) h)"
  by (auto simp: bind_err_def split: prod.splits sum.splits)

lemma bind_err_snd:
  assumes "P (snd r)" "\<And>a s. r = (Inr a, s) \<Longrightarrow> P s \<Longrightarrow> P (snd (k a s))"
  shows "P (snd (bind_err r k))"
  using assms by (cases r; cases "fst r") (auto simp: bind_err_def)

text \<open>A loop over a list whose body may raise stops at the first raise.\<close>

fun each_err :: "('x \<Rightarrow> 's \<Rightarrow> ('e + 'a) \<times> 's) \<Rightarrow> 'x list \<Rightarrow> 's \<Rightarrow> ('e + 'a list) \<times> 's" where
  "each_err f [] s = ok [] s"
| "each_err f (x # xs) s = bind_err (f x s) (\<lambda>y t. bind_err (each_err f xs t) (\<lambda>ys u. ok (y # ys) u))"

section \<open>Tables\<close>

text \<open>
  A table is the list of its rows in insertion order; \<open>session.get\<close> and a \<open>select\<close> on a
  unique column are \<open>tget\<close>, an assignment to a loaded row followed by a flush is \<open>tupd\<close>, and
  \<open>session.delete\<close> is \<open>tdel\<close>.
\<close>

definition tget :: "('r \<Rightarrow> 'k) \<Rightarrow> 'k \<Rightarrow> 'r list \<Rightarrow> 'r option" where
  "tget key k rows = find (\<lambda>r. key r = k) rows"

definition tupd :: "('r \<Rightarrow> 'k) \<Rightarrow> 'k \<Rightarrow> ('r \<Rightarrow> 'r) \<Rightarrow> 'r list \<Rightarrow> 'r list" where
  "tupd key k f rows = map (\<lambda>r. if key r = k then f r else r) rows"

definition tdel :: "('r \<Rightarrow> 'k) \<Rightarrow> 'k \<Rightarrow> 'r list \<Rightarrow> 'r list" where
  "tdel key k rows = filter (\<lambda>r. key r \<noteq> k) rows"

lemma tget_Nil [simp]: "tget key k [] = None"
  by (simp add: tget_def)

lemma tget_Cons [simp]: "tget key k (r # rs) = (if key r = k then Some r else tget key k rs)"
  by (simp add: tget_def)

lemma tget_append: "tget key k (xs @ ys) = (case tget key k xs of None \<Rightarrow> tget key k ys | Some r \<Rightarrow> Some r)"
  by (induction xs) auto

lemma tget_SomeD: "tget key k rs = Some r \<Longrightarrow> r \<in> set rs \<and> key r = k"
  by (induction rs) (auto split: if_splits)

lemma tget_None_iff: "tget key k rs = None \<longleftrightarrow> k \<notin> key ` set rs"
  by (induction rs) auto

lemma tget_distinct:
  "distinct (map key rs) \<Longrightarrow> r \<in> set rs \<Longrightarrow> tget key (key r) rs = Some r"
  by (induction rs) (auto simp: image_iff)

lemma tget_tupd:
  assumes "\<And>r. key (f r) = key r"
  shows "tget key k (tupd key j f rs) = (if k = j then map_option f (tget key k rs) else tget key k rs)"
  by (induction rs) (auto simp: tupd_def assms)

lemma tget_tupd_same [simp]:
  "(\<And>r. key (f r) = key r) \<Longrightarrow> tget key k (tupd key k f rs) = map_option f (tget key k rs)"
  by (simp add: tget_tupd)

lemma tget_tdel: "tget key k (tdel key j rs) = (if k = j then None else tget key k rs)"
  by (induction rs) (auto simp: tdel_def)

lemma map_key_tupd [simp]:
  "(\<And>r. key (f r) = key r) \<Longrightarrow> map key (tupd key k f rs) = map key rs"
  by (induction rs) (auto simp: tupd_def)

lemma length_tupd [simp]: "length (tupd key k f rs) = length rs"
  by (simp add: tupd_def)

lemma in_set_tupd:
  "r \<in> set (tupd key k f rs) \<longleftrightarrow> (\<exists>q \<in> set rs. r = (if key q = k then f q else q))"
  unfolding tupd_def set_map image_iff by blast

lemma set_tdel [simp]: "set (tdel key k rs) = {r \<in> set rs. key r \<noteq> k}"
  by (auto simp: tdel_def)

lemma tupd_append [simp]: "tupd key k f (xs @ ys) = tupd key k f xs @ tupd key k f ys"
  by (simp add: tupd_def)

lemma tupd_Nil [simp]: "tupd key k f [] = []"
  by (simp add: tupd_def)

lemma tupd_absent: "k \<notin> key ` set rs \<Longrightarrow> tupd key k f rs = rs"
  by (induction rs) (auto simp: tupd_def)

lemma filter_tupd_other:
  assumes "\<And>r. P (f r) = P r"
  shows "filter P (tupd key k f rs) = tupd key k f (filter P rs)"
  by (induction rs) (auto simp: tupd_def assms)

section \<open>Folding a state transformer over a list\<close>

lemma fold_frame:
  assumes "\<And>x s. x \<in> set xs \<Longrightarrow> g (f x s) = g s"
  shows "g (fold f xs s) = g s"
  using assms by (induction xs arbitrary: s) auto

lemma fold_invariant_state:
  assumes "\<And>x s. x \<in> set xs \<Longrightarrow> I s \<Longrightarrow> I (f x s)" "I s"
  shows "I (fold f xs s)"
  using assms by (induction xs arbitrary: s) auto

lemma sorted_map_last_append:
  assumes "sorted (map f xs)" "\<And>x. x \<in> set xs \<Longrightarrow> f x \<le> f y"
  shows "sorted (map f (xs @ [y]))"
  using assms by (simp add: sorted_append)

text \<open>\<open>ORDER BY key\<close> of a table whose rows are already in that order is the table itself.\<close>

lemma sort_key_id_if_sorted: "sorted (map f xs) \<Longrightarrow> sort_key f xs = xs"
  by (induction xs) (auto simp: insort_is_Cons)

section \<open>White space\<close>

text \<open>\<open>str.isspace\<close> on code points below 256, and \<open>str.strip\<close>.\<close>

definition is_space :: "char \<Rightarrow> bool" where
  "is_space c \<longleftrightarrow> (let n = (of_char c :: nat) in (9 \<le> n \<and> n \<le> 13) \<or> (28 \<le> n \<and> n \<le> 32) \<or> n = 133 \<or> n = 160)"

definition py_strip :: "string \<Rightarrow> string" where
  "py_strip s = rev (dropWhile is_space (rev (dropWhile is_space s)))"

end
