(* ===== verification/Json.thy ===== *)
theory Json
  imports Prelude
begin

text \<open>
  \<open>doda/application/hashing.py\<close>: the canonical JSON text of a payload
  (\<open>json.dumps(value, sort_keys=True, separators=(",", ":"), default=str)\<close>) and its hash.
  SHA-256 itself is \<open>hashlib\<close>'s: it is a parameter \<open>sha\<close> of the definitions that use it,
  and nothing is assumed of it: where a property needs collision resistance, its
  conclusion exhibits the collision instead.  Lists of pairs stand for dicts; a dict has
  distinct keys, which \<open>wf_json\<close> says.  Characters are those of HOL (code points below
  256), and numbers are the integers: no payload of the services carries a float.
\<close>

section \<open>JSON values\<close>

datatype json =
    JNull
  | JBool bool
  | JInt int
  | JStr string
  | JArr "json list"
  | JObj "(string \<times> json) list"

type_synonym jdict = "(string \<times> json) list"

fun wf_json :: "json \<Rightarrow> bool" where
  "wf_json (JArr xs) \<longleftrightarrow> (\<forall>x \<in> set xs. wf_json x)"
| "wf_json (JObj kvs) \<longleftrightarrow> distinct (map fst kvs) \<and> (\<forall>kv \<in> set kvs. wf_json (snd kv))"
| "wf_json _ \<longleftrightarrow> True"

section \<open>Rendering\<close>

definition hex_digit :: "nat \<Rightarrow> char" where
  "hex_digit n = (if n < 10 then char_of (48 + n) else char_of (87 + n))"

definition esc_char :: "char \<Rightarrow> string" where
  "esc_char c =
     (let n = (of_char c :: nat) in
      if n = 34 then [CHR 0x5C, CHR 0x22]
      else if n = 92 then [CHR 0x5C, CHR 0x5C]
      else if n = 10 then [CHR 0x5C, CHR ''n'']
      else if n = 13 then [CHR 0x5C, CHR ''r'']
      else if n = 9 then [CHR 0x5C, CHR ''t'']
      else if n = 8 then [CHR 0x5C, CHR ''b'']
      else if n = 12 then [CHR 0x5C, CHR ''f'']
      else if 32 \<le> n \<and> n \<le> 126 then [c]
      else [CHR 0x5C, CHR ''u'', CHR ''0'', CHR ''0'', hex_digit (n div 16), hex_digit (n mod 16)])"

definition json_quote :: "string \<Rightarrow> string" where
  "json_quote s = CHR 0x22 # concat (map esc_char s) @ [CHR 0x22]"

fun join_with :: "string \<Rightarrow> string list \<Rightarrow> string" where
  "join_with sep [] = []"
| "join_with sep [x] = x"
| "join_with sep (x # y # xs) = x @ sep @ join_with sep (y # xs)"

fun render_json :: "json \<Rightarrow> string" where
  "render_json JNull = ''null''"
| "render_json (JBool b) = (if b then ''true'' else ''false'')"
| "render_json (JInt i) = dec_int i"
| "render_json (JStr s) = json_quote s"
| "render_json (JArr xs) = ''['' @ join_with '','' (map render_json xs) @ '']''"
| "render_json (JObj kvs) =
     ''{'' @ join_with '','' (map (\<lambda>kv. json_quote (fst kv) @ '':'' @ render_json (snd kv)) kvs) @ ''}''"

text \<open>\<open>json.dumps\<close> with its default separators.\<close>

fun json_dumps :: "json \<Rightarrow> string" where
  "json_dumps JNull = ''null''"
| "json_dumps (JBool b) = (if b then ''true'' else ''false'')"
| "json_dumps (JInt i) = dec_int i"
| "json_dumps (JStr s) = json_quote s"
| "json_dumps (JArr xs) = ''['' @ join_with '', '' (map json_dumps xs) @ '']''"
| "json_dumps (JObj kvs) =
     ''{'' @ join_with '', '' (map (\<lambda>kv. json_quote (fst kv) @ '': '' @ json_dumps (snd kv)) kvs) @ ''}''"

text \<open>\<open>sort_keys=True\<close>: at every level the items of a dict are visited in key order.\<close>

fun sort_keys :: "json \<Rightarrow> json" where
  "sort_keys (JArr xs) = JArr (map sort_keys xs)"
| "sort_keys (JObj kvs) = JObj (sort_key fst (map (\<lambda>kv. (fst kv, sort_keys (snd kv))) kvs))"
| "sort_keys v = v"

definition canonical_json :: "json \<Rightarrow> string" where
  "canonical_json v = render_json (sort_keys v)"

definition hash_payload :: "(string \<Rightarrow> string) \<Rightarrow> json \<Rightarrow> string" where
  "hash_payload sha v = sha (canonical_json v)"

section \<open>The rendering can be read back\<close>

definition hex_value :: "char \<Rightarrow> nat" where
  "hex_value c = (if of_char c < (58 :: nat) then of_char c - 48 else of_char c - 87)"

lemma hex_value_digit: "n < 16 \<Longrightarrow> hex_value (hex_digit n) = n"
  by (auto simp: hex_value_def hex_digit_def)

fun unesc :: "string \<Rightarrow> (char \<times> string) option" where
  "unesc [] = None"
| "unesc (c # cs) =
     (if c = CHR 0x5C then
        (case cs of
           [] \<Rightarrow> None
         | d # ds \<Rightarrow>
             if d = CHR ''u'' then
               (case ds of z1 # z2 # h # l # r \<Rightarrow> Some (char_of (16 * hex_value h + hex_value l), r) | _ \<Rightarrow> None)
             else if d = CHR ''n'' then Some (CHR 0x0A, ds)
             else if d = CHR ''r'' then Some (CHR 0x0D, ds)
             else if d = CHR ''t'' then Some (CHR 0x09, ds)
             else if d = CHR ''b'' then Some (CHR 0x08, ds)
             else if d = CHR ''f'' then Some (CHR 0x0C, ds)
             else Some (d, ds))
      else Some (c, cs))"

lemma of_char_literals:
  "(of_char c :: nat) = 34 \<longleftrightarrow> c = CHR 0x22" "(of_char c :: nat) = 92 \<longleftrightarrow> c = CHR 0x5C"
  "(of_char c :: nat) = 10 \<longleftrightarrow> c = CHR 0x0A" "(of_char c :: nat) = 13 \<longleftrightarrow> c = CHR 0x0D"
  "(of_char c :: nat) = 9 \<longleftrightarrow> c = CHR 0x09" "(of_char c :: nat) = 8 \<longleftrightarrow> c = CHR 0x08"
  "(of_char c :: nat) = 12 \<longleftrightarrow> c = CHR 0x0C"
proof -
  have lit: "(of_char c :: nat) = n \<longleftrightarrow> c = d" if "of_char d = n" for d n
    using that of_char_eq_iff [of c d, where ?'a = nat] by metis
  show "(of_char c :: nat) = 34 \<longleftrightarrow> c = CHR 0x22" "(of_char c :: nat) = 92 \<longleftrightarrow> c = CHR 0x5C"
    "(of_char c :: nat) = 10 \<longleftrightarrow> c = CHR 0x0A" "(of_char c :: nat) = 13 \<longleftrightarrow> c = CHR 0x0D"
    "(of_char c :: nat) = 9 \<longleftrightarrow> c = CHR 0x09" "(of_char c :: nat) = 8 \<longleftrightarrow> c = CHR 0x08"
    "(of_char c :: nat) = 12 \<longleftrightarrow> c = CHR 0x0C"
    by (rule lit; simp)+
qed

lemma of_char_less_256 [simp]: "(of_char (c :: char) :: nat) < 256"
proof -
  have "(of_char c :: nat) mod 256 = of_char c"
    by (rule of_char_mod_256)
  then show ?thesis
    by (metis mod_less_divisor zero_less_numeral)
qed

lemma of_char_div_16 [simp]: "(of_char (c :: char) :: nat) div 16 < 16"
  using of_char_less_256 [of c] by (simp add: less_mult_imp_div_less)

lemma unesc_esc: "unesc (esc_char c @ r) = Some (c, r)"
proof -
  have hex: "hex_value (hex_digit (of_char c div 16)) = of_char c div 16"
    "hex_value (hex_digit (of_char c mod 16)) = of_char c mod 16"
    by (auto intro!: hex_value_digit)
  have whole: "16 * (of_char c div 16) + of_char c mod 16 = (of_char c :: nat)"
    by simp
  show ?thesis
    unfolding esc_char_def Let_def
    by (auto simp: hex whole of_char_literals)
qed

lemma esc_char_head: "\<exists>h t. esc_char c = h # t \<and> h \<noteq> CHR 0x22"
  unfolding esc_char_def Let_def by (auto simp: of_char_literals)

lemma esc_char_cancel: "esc_char c @ r = esc_char d @ q \<Longrightarrow> c = d \<and> r = q"
  by (metis unesc_esc option.inject prod.inject)

lemma esc_char_not_quote: "esc_char c @ r \<noteq> CHR 0x22 # q" "CHR 0x22 # q \<noteq> esc_char c @ r"
  using esc_char_head [of c] by auto

lemma quoted_cancel:
  "concat (map esc_char a) @ CHR 0x22 # r = concat (map esc_char b) @ CHR 0x22 # q \<Longrightarrow> a = b \<and> r = q"
proof (induction a arbitrary: b)
  case Nil
  then show ?case by (cases b) (auto simp: esc_char_not_quote)
next
  case (Cons c a)
  show ?case
  proof (cases b)
    case Nil
    with Cons.prems show ?thesis by (simp add: esc_char_not_quote)
  next
    case (Cons d b')
    with Cons.prems have "esc_char c @ concat (map esc_char a) @ CHR 0x22 # r
        = esc_char d @ concat (map esc_char b') @ CHR 0x22 # q"
      by simp
    from esc_char_cancel [OF this] Cons.IH Cons show ?thesis by auto
  qed
qed

lemma json_quote_cancel: "json_quote a @ r = json_quote b @ q \<Longrightarrow> a = b \<and> r = q"
  using quoted_cancel [of a r b q] by (simp add: json_quote_def)

lemma json_quote_inj [simp]: "json_quote a = json_quote b \<longleftrightarrow> a = b"
  using json_quote_cancel [of a "[]" b "[]"] by auto

text \<open>
  A number has no closing delimiter: what follows a rendered value must not continue it.
\<close>

definition stops :: "string \<Rightarrow> bool" where
  "stops s \<longleftrightarrow> (case s of [] \<Rightarrow> True | c # _ \<Rightarrow> \<not> is_digit_char c)"

lemma stops_simps [simp]:
  "stops []" "stops (c # s) \<longleftrightarrow> \<not> is_digit_char c"
  by (simp_all add: stops_def)

lemma delimiters_stop [simp]:
  "\<not> is_digit_char (CHR '','')" "\<not> is_digit_char (CHR '']'')" "\<not> is_digit_char (CHR ''}'')"
  by (simp_all add: is_digit_char_def)

lemma takeWhile_dec_nat: "stops s \<Longrightarrow> takeWhile is_digit_char (dec_nat n @ s) = dec_nat n"
proof -
  assume "stops s"
  then have "takeWhile is_digit_char s = []" by (cases s) auto
  then show ?thesis by (simp add: takeWhile_append2 dec_nat_digits)
qed

lemma dec_nat_cancel:
  assumes "dec_nat m @ s = dec_nat n @ t" "stops s" "stops t"
  shows "m = n \<and> s = t"
proof -
  have "dec_nat m = dec_nat n"
    using assms takeWhile_dec_nat by metis
  with assms(1) show ?thesis by simp
qed

lemma dec_nat_head: "\<exists>c u. dec_nat n = c # u \<and> is_digit_char c"
  using dec_nat_digits dec_nat_ne by (metis list.exhaust list.set_intros(1))

lemma dec_nat_append_not_minus [simp]:
  "dec_nat n @ s \<noteq> CHR ''-'' # t" "CHR ''-'' # t \<noteq> dec_nat n @ s"
  by (metis dec_nat_head append_Cons list.inject minus_not_digit)+

lemma dec_int_cancel:
  assumes "dec_int i @ s = dec_int j @ t" "stops s" "stops t"
  shows "i = j \<and> s = t"
proof -
  have "(i < 0) = (j < 0)"
    using assms(1) by (simp add: dec_int_def split: if_splits)
  then show ?thesis
    using assms(1) dec_nat_cancel [OF _ assms(2,3), of "nat (- i)" "nat (- j)"]
      dec_nat_cancel [OF _ assms(2,3), of "nat i" "nat j"]
    by (cases "i < 0") (simp_all add: dec_int_def, linarith+)
qed

text \<open>The first character of a rendered value tells its constructor.\<close>

lemma dec_int_head: "\<exists>c t. dec_int i = c # t \<and> (c = CHR ''-'' \<or> is_digit_char c)"
  using dec_nat_head [of "nat i"] by (cases "i < 0") (auto simp: dec_int_def)

lemma not_digits [simp]:
  "\<not> is_digit_char (CHR ''n'')" "\<not> is_digit_char (CHR ''t'')" "\<not> is_digit_char (CHR ''f'')"
  "\<not> is_digit_char (CHR 0x22)" "\<not> is_digit_char (CHR ''['')" "\<not> is_digit_char (CHR ''{'')"
  by (simp_all add: is_digit_char_def)

definition json_kind :: "char \<Rightarrow> nat" where
  "json_kind c =
     (if c = CHR ''n'' then 0 else if c = CHR ''t'' \<or> c = CHR ''f'' then 1
      else if c = CHR 0x22 then 3 else if c = CHR ''['' then 4 else if c = CHR ''{'' then 5
      else if c = CHR ''-'' \<or> is_digit_char c then 2 else 6)"

primrec json_constructor :: "json \<Rightarrow> nat" where
  "json_constructor JNull = 0"
| "json_constructor (JBool b) = 1"
| "json_constructor (JInt i) = 2"
| "json_constructor (JStr s) = 3"
| "json_constructor (JArr xs) = 4"
| "json_constructor (JObj kvs) = 5"

lemma render_json_ne [simp]: "render_json v \<noteq> []"
  by (cases v) (simp_all add: json_quote_def)

lemma json_kind_head: "json_kind (hd (render_json v @ s)) = json_constructor v"
proof (cases v)
  case (JInt i)
  obtain c t where "dec_int i = c # t" "c = CHR ''-'' \<or> is_digit_char c"
    using dec_int_head by blast
  moreover have "c \<noteq> CHR ''n'' \<and> c \<noteq> CHR ''t'' \<and> c \<noteq> CHR ''f'' \<and> c \<noteq> CHR 0x22 \<and> c \<noteq> CHR ''[''
      \<and> c \<noteq> CHR ''{''"
    using calculation(2) by auto
  ultimately show ?thesis using JInt by (simp add: json_kind_def)
qed (simp_all add: json_kind_def json_quote_def)

lemma render_json_head:
  "render_json v @ s \<noteq> CHR '']'' # t" "CHR '']'' # t \<noteq> render_json v @ s"
proof -
  have "json_kind (CHR '']'') = 6" "json_constructor v \<noteq> 6"
    by (simp_all add: json_kind_def, cases v) simp_all
  then show "render_json v @ s \<noteq> CHR '']'' # t" "CHR '']'' # t \<noteq> render_json v @ s"
    using json_kind_head [of v s] by (metis list.sel(1))+
qed

text \<open>Lists of entries, each of which can be read back, can be read back.\<close>

lemma join_cancel:
  assumes "\<And>x y s t. x \<in> set xs \<Longrightarrow> f x @ s = f y @ t \<Longrightarrow> stops s \<Longrightarrow> stops t \<Longrightarrow> x = y \<and> s = t"
    and "\<And>x s t. f x @ s \<noteq> close # t"
    and "\<not> is_digit_char close" "close \<noteq> CHR '',''"
    and "join_with '','' (map f xs) @ close # s = join_with '','' (map f ys) @ close # t"
  shows "xs = ys \<and> s = t"
  using assms(1,5)
proof (induction xs arbitrary: ys)
  case Nil
  have "ys = []"
  proof (cases ys)
    case (Cons y ys')
    with Nil.prems(2) have "\<exists>r. f y @ r = close # s"
      by (cases ys') auto
    with assms(2) show ?thesis by blast
  qed
  with Nil show ?case by simp
next
  case (Cons x xs)
  have ne: "ys \<noteq> []"
  proof
    assume "ys = []"
    with Cons.prems(2) have "\<exists>r. f x @ r = close # t"
      by (cases xs) auto
    with assms(2) show False by blast
  qed
  then obtain y ys' where ys: "ys = y # ys'" by (cases ys) auto
  define rest where "rest zs u = (if zs = [] then close # u else CHR '','' # join_with '','' (map f zs) @ close # u)"
    for zs u
  have split: "join_with '','' (map f (z # zs)) @ close # u = f z @ rest zs u" for z zs u
    by (cases zs) (simp_all add: rest_def)
  have "f x @ rest xs s = f y @ rest ys' t"
    using Cons.prems(2) unfolding ys split .
  from Cons.prems(1) [OF _ this] have "x = y" and tail: "rest xs s = rest ys' t"
    using assms(3) by (simp_all add: rest_def)
  have "xs = ys' \<and> s = t"
  proof (cases "xs = [] \<or> ys' = []")
    case True
    with tail assms(4) show ?thesis by (auto simp: rest_def split: if_splits)
  next
    case False
    with tail have "join_with '','' (map f xs) @ close # s = join_with '','' (map f ys') @ close # t"
      by (simp add: rest_def)
    with Cons.IH Cons.prems(1) show ?thesis by (metis list.set_intros(2))
  qed
  with \<open>x = y\<close> ys show ?case by simp
qed

definition render_entry :: "string \<times> json \<Rightarrow> string" where
  "render_entry kv = json_quote (fst kv) @ '':'' @ render_json (snd kv)"

lemma render_json_obj: "render_json (JObj kvs) = ''{'' @ join_with '','' (map render_entry kvs) @ ''}''"
  by (simp add: render_entry_def [abs_def])

lemma render_entry_not_close: "render_entry kv @ s \<noteq> CHR ''}'' # t"
  by (simp add: render_entry_def json_quote_def)

lemma render_entry_cancel:
  assumes "\<And>w s t. render_json (snd kv) @ s = render_json w @ t \<Longrightarrow> stops s \<Longrightarrow> stops t \<Longrightarrow> snd kv = w \<and> s = t"
    and "render_entry kv @ s = render_entry kw @ t" "stops s" "stops t"
  shows "kv = kw \<and> s = t"
proof -
  have "fst kv = fst kw \<and> '':'' @ render_json (snd kv) @ s = '':'' @ render_json (snd kw) @ t"
    using assms(2) by (intro json_quote_cancel) (simp add: render_entry_def)
  with assms(1,3,4) show ?thesis by (auto simp: prod_eq_iff)
qed

lemma same_constructor:
  assumes "render_json v @ s = render_json w @ t"
  shows "json_constructor v = json_constructor w"
  using json_kind_head [of v s] json_kind_head [of w t] assms by simp

lemma render_json_cancel:
  "render_json v @ s = render_json w @ t \<Longrightarrow> stops s \<Longrightarrow> stops t \<Longrightarrow> v = w \<and> s = t"
proof (induction v arbitrary: w s t rule: render_json.induct)
  case 1
  with same_constructor [OF 1(1)] show ?case by (cases w) simp_all
next
  case (2 b)
  with same_constructor [OF 2(1)] show ?case by (cases w) (simp_all split: if_splits)
next
  case (3 i)
  then obtain j where w: "w = JInt j"
    using same_constructor [OF 3(1)] by (cases w) simp_all
  show ?case
    using dec_int_cancel [OF _ 3(2,3), of i j] 3(1) unfolding w by simp
next
  case (4 a)
  with same_constructor [OF 4(1)] show ?case by (cases w) (auto dest: json_quote_cancel)
next
  case (5 xs)
  obtain ys where w: "w = JArr ys"
    using same_constructor [OF 5(2)] by (cases w) simp_all
  have "xs = ys \<and> s = t"
    by (rule join_cancel [where f = render_json and close = "CHR '']''"])
      (use 5 in \<open>auto simp: w render_json_head\<close>)
  with w show ?case by simp
next
  case (6 kvs)
  obtain kws where w: "w = JObj kws"
    using same_constructor [OF 6(2)] by (cases w) simp_all
  have "kvs = kws \<and> s = t"
  proof (rule join_cancel [where f = render_entry and close = "CHR ''}''"])
    show "x = y \<and> s' = t'"
      if "x \<in> set kvs" "render_entry x @ s' = render_entry y @ t'" "stops s'" "stops t'" for x y s' t'
      using render_entry_cancel [OF 6(1) [OF that(1)] that(2-4)] .
    show "join_with '','' (map render_entry kvs) @ CHR ''}'' # s
        = join_with '','' (map render_entry kws) @ CHR ''}'' # t"
      using 6(2) unfolding w render_json_obj by simp
  qed (simp_all add: render_entry_not_close)
  with w show ?case by simp
qed

lemma render_json_inj [simp]: "render_json v = render_json w \<longleftrightarrow> v = w"
  using render_json_cancel [of v "[]" w "[]"] by auto

section \<open>Canonical text: the order of keys is irrelevant, everything else is kept\<close>

text \<open>Two payloads are the same when they differ in the order of dict items only.\<close>

lemma canonical_json_eq_iff: "canonical_json v = canonical_json w \<longleftrightarrow> sort_keys v = sort_keys w"
  by (simp add: canonical_json_def)

lemma sort_key_fst_mset:
  assumes "mset xs = mset ys" "distinct (map fst xs)"
  shows "sort_key fst xs = sort_key (fst :: string \<times> 'v \<Rightarrow> string) ys"
proof (rule sort_key_inj_key_eq)
  show "mset xs = mset (sort_key fst ys)" using assms(1) by simp
  show "inj_on fst (set xs)" using assms(2) by (simp add: distinct_map)
  show "sorted (map fst (sort_key (fst :: string \<times> 'v \<Rightarrow> string) ys))" by simp
qed

lemma canonical_json_key_order:
  assumes "mset kvs = mset kws" "wf_json (JObj kvs)"
  shows "canonical_json (JObj kvs) = canonical_json (JObj kws)"
proof -
  let ?h = "\<lambda>kv. (fst kv, sort_keys (snd kv))"
  have "mset (map ?h kvs) = mset (map ?h kws)" using assms(1) by simp
  moreover have "distinct (map fst (map ?h kvs))" using assms(2) by (simp add: comp_def)
  ultimately have "sort_key fst (map ?h kvs) = sort_key fst (map ?h kws)"
    by (rule sort_key_fst_mset)
  then show ?thesis by (simp add: canonical_json_def)
qed

lemma map_of_sort_fst:
  assumes "distinct (map fst xs)"
  shows "map_of (sort_key (fst :: string \<times> 'v \<Rightarrow> string) xs) = map_of xs"
proof -
  have "mset (map fst (sort_key fst xs)) = mset (map fst xs)" by simp
  then have "distinct (map fst (sort_key fst xs))"
    using assms mset_eq_imp_distinct_iff by blast
  moreover have "set (sort_key fst xs) = set xs" by simp
  ultimately show ?thesis
    by (rule map_of_inject_set [THEN iffD2, OF _ assms])
qed

lemma map_of_map_snd: "map_of (map (\<lambda>kv. (fst kv, f (snd kv))) kvs) k = map_option f (map_of kvs k)"
  by (induction kvs) auto

lemma sort_keys_obj_lookup:
  assumes "distinct (map fst kvs)"
  shows "(case sort_keys (JObj kvs) of JObj kws \<Rightarrow> map_of kws k | _ \<Rightarrow> None)
       = map_option sort_keys (map_of kvs k)"
proof -
  have "distinct (map fst (map (\<lambda>kv. (fst kv, sort_keys (snd kv))) kvs))"
    using assms by (simp add: comp_def)
  from map_of_sort_fst [OF this] show ?thesis by (simp add: map_of_map_snd)
qed

end
