(* ===== verification/Schema.thy ===== *)
theory Schema
  imports Json
begin

text \<open>
  The domain models (\<open>doda/domain/*/models.py\<close>): the enumerations, one record per mapped
  class with its columns as fields, and the database as one record with a field per table,
  named by its \<open>__tablename__\<close>.  A table is a list of rows in insertion order; a table whose
  only key is its primary key and which is only read and overwritten through it is a map.
  The last fields of the record are the environment a transaction runs in: the clock, the
  random identifiers and tokens, and SHA-256.
\<close>

section \<open>Action (domain/action/models.py, approval.py, state_machine.py)\<close>

datatype risk_level = R0 | R1 | R2 | R3 | R4 | R5

datatype action_status =
    DRAFT | VALIDATING | AWAITING_APPROVAL | READY | RUNNING | SUCCEEDED | FAILED | RETRYING
  | COMPENSATING | COMPENSATED | DENIED | REJECTED | EXPIRED | CANCELLED

record action_row =
  act_id :: uuid
  act_created_at :: instant
  act_customer_id :: uuid
  act_workspace_id :: uuid
  act_trace_id :: uuid
  act_task_id :: "uuid option"
  act_actor_id :: string
  act_tool_name :: string
  act_risk_level :: risk_level
  act_payload :: json
  act_payload_hash :: string
  act_idempotency_key :: string
  act_status :: action_status

datatype approval_status = A_PENDING | A_APPROVED | A_DENIED | A_EXPIRED

record approval_row =
  apv_id :: uuid
  apv_created_at :: instant
  apv_customer_id :: uuid
  apv_action_id :: uuid
  apv_payload_hash :: string
  apv_approver_id :: "string option"
  apv_nonce :: string
  apv_status :: approval_status
  apv_expires_at :: instant

section \<open>Security (domain/security/kill_switch.py, roles.py)\<close>

record workspace_kill_switch_row =
  wks_customer_id :: uuid
  wks_engaged_at :: instant
  wks_engaged_by :: string
  wks_reason :: string

record customer_kill_switch_row =
  cks_engaged_at :: instant
  cks_engaged_by :: string
  cks_reason :: string

section \<open>Task (domain/task/models.py)\<close>

datatype task_status = T_TODO | T_IN_PROGRESS | T_DONE | T_CANCELLED

record task_row =
  tsk_id :: uuid
  tsk_created_at :: instant
  tsk_customer_id :: uuid
  tsk_workspace_id :: uuid
  tsk_owner_id :: string
  tsk_title :: string
  tsk_parent_task_id :: "uuid option"
  tsk_status :: task_status
  tsk_due_date :: "instant option"

record task_history_row =
  th_id :: uuid
  th_created_at :: instant
  th_customer_id :: uuid
  th_task_id :: uuid
  th_actor_id :: string
  th_from_status :: "task_status option"
  th_to_status :: task_status

datatype reminder_status = R_PENDING_CONFIRMATION | R_CONFIRMED | R_CANCELLED | R_FIRED

record reminder_row =
  rem_id :: uuid
  rem_created_at :: instant
  rem_customer_id :: uuid
  rem_workspace_id :: uuid
  rem_task_id :: uuid
  rem_actor_id :: string
  rem_remind_at :: instant
  rem_status :: reminder_status
  rem_confirmed_at :: "instant option"
  rem_fired_at :: "instant option"

record task_decision_row =
  td_id :: uuid
  td_created_at :: instant
  td_customer_id :: uuid
  td_task_id :: uuid
  td_actor_id :: string
  td_variant :: string
  td_tradeoff :: string
  td_decision :: string
  td_reason :: string

section \<open>Notification (domain/notification/models.py)\<close>

datatype notification_type = PENDING_APPROVAL | FAILED_ACTION | COMPLETED_TASK | SECURITY_ALERT | REMINDER_DUE

record notification_row =
  ntf_id :: uuid
  ntf_created_at :: instant
  ntf_customer_id :: uuid
  ntf_workspace_id :: "uuid option"
  ntf_recipient_id :: string
  ntf_type :: notification_type
  ntf_reference_type :: string
  ntf_reference_id :: uuid
  ntf_safe_metadata :: json
  ntf_read_at :: "instant option"

record notification_preference_row =
  np_id :: uuid
  np_created_at :: instant
  np_customer_id :: uuid
  np_recipient_id :: string
  np_type :: notification_type
  np_enabled :: bool

section \<open>Identity (domain/identity/models.py)\<close>

record user_row =
  usr_id :: uuid
  usr_created_at :: instant
  usr_oidc_subject_hash :: string
  usr_display_name :: string

datatype auth_strength = AAL1 | AAL2

record session_row =
  ses_id :: uuid
  ses_created_at :: instant
  ses_user_id :: uuid
  ses_auth_strength :: auth_strength
  ses_last_seen_at :: instant
  ses_expires_at :: instant
  ses_revoked_at :: "instant option"
  ses_user_agent :: "string option"

section \<open>Customer and workspace (domain/customer/models.py, domain/workspace/models.py)\<close>

record customer_row =
  cus_id :: uuid
  cus_created_at :: instant
  cus_name :: string

record customer_membership_row =
  cm_id :: uuid
  cm_created_at :: instant
  cm_customer_id :: uuid
  cm_user_id :: uuid
  cm_role :: string

record workspace_row =
  ws_id :: uuid
  ws_created_at :: instant
  ws_customer_id :: uuid
  ws_name :: string
  ws_archived_at :: "instant option"

record workspace_membership_row =
  wm_id :: uuid
  wm_created_at :: instant
  wm_customer_id :: uuid
  wm_customer_membership_id :: uuid
  wm_workspace_id :: uuid
  wm_role :: string

record workspace_language_row =
  wl_id :: uuid
  wl_created_at :: instant
  wl_customer_id :: uuid
  wl_workspace_id :: uuid
  wl_actor_id :: string
  wl_language :: "string option"

section \<open>Audit and outbox (domain/audit/models.py, domain/outbox/models.py)\<close>

record audit_event_row =
  ae_id :: uuid
  ae_created_at :: instant
  ae_customer_id :: uuid
  ae_workspace_id :: "uuid option"
  ae_trace_id :: uuid
  ae_actor_id :: string
  ae_event_type :: string
  ae_occurred_at :: instant
  ae_safe_metadata :: json
  ae_prev_hash :: "string option"
  ae_hash :: string

record outbox_message_row =
  om_id :: uuid
  om_created_at :: instant
  om_customer_id :: uuid
  om_aggregate_type :: string
  om_aggregate_id :: uuid
  om_event_type :: string
  om_payload :: json
  om_attempts :: int
  om_published_at :: "instant option"

section \<open>Conversation (domain/conversation/models.py)\<close>

datatype message_role = M_USER | M_ASSISTANT | M_TOOL

record conversation_row =
  cv_id :: uuid
  cv_created_at :: instant
  cv_customer_id :: uuid
  cv_workspace_id :: uuid
  cv_owner_id :: string
  cv_title :: "string option"
  cv_pinned_provider :: "string option"
  cv_pinned_model :: "string option"
  cv_pinned_language :: "string option"

record message_row =
  msg_id :: uuid
  msg_created_at :: instant
  msg_customer_id :: uuid
  msg_conversation_id :: uuid
  msg_role :: message_role
  msg_content :: string
  msg_tool_call_id :: "string option"
  msg_tool_name :: "string option"
  msg_tool_arguments_json :: "string option"
  msg_provider :: "string option"
  msg_model :: "string option"
  msg_finish_reason :: "string option"

section \<open>AI usage, preferences, provider settings\<close>

datatype usage_mode = FAST | STANDARD | DEEP

datatype provider = OPENAI | GEMINI | CLAUDE

datatype usage_event_status = U_RESERVED | U_RECONCILED | U_REFUNDED

record ai_usage_event_row =
  ue_id :: uuid
  ue_created_at :: instant
  ue_customer_id :: uuid
  ue_workspace_id :: uuid
  ue_conversation_id :: "uuid option"
  ue_trace_id :: uuid
  ue_actor_id :: string
  ue_provider :: provider
  ue_mode :: usage_mode
  ue_model :: string
  ue_input_tokens :: int
  ue_output_tokens :: int
  ue_cached_input_tokens :: int
  ue_estimated_cost_cents :: int
  ue_actual_cost_cents :: "int option"
  ue_status :: usage_event_status

record ai_budget_ledger_row =
  bl_reserved_cents :: int
  bl_actual_cents :: int

record user_ai_preference_row =
  uap_created_at :: instant
  uap_provider :: provider
  uap_model :: "string option"

record workspace_ai_preference_row =
  wap_customer_id :: uuid
  wap_provider :: provider
  wap_model :: "string option"

record ai_provider_verification_row =
  pv_last_verified_at :: instant
  pv_last_verified_ok :: bool
  pv_last_error :: "string option"
  pv_last_error_type :: "string option"

section \<open>The database\<close>

record db =
  identity_users :: "user_row list"
  identity_sessions :: "session_row list"
  customer_customers :: "customer_row list"
  customer_memberships :: "customer_membership_row list"
  user_customer_index :: "(uuid \<times> uuid) list"
  workspace_workspaces :: "workspace_row list"
  workspace_memberships :: "workspace_membership_row list"
  workspace_language_settings :: "workspace_language_row list"
  workspace_tenant_index :: "uuid \<rightharpoonup> uuid"
  audit_events :: "audit_event_row list"
  audit_chain_tips :: "uuid \<rightharpoonup> string option"
  outbox_messages :: "outbox_message_row list"
  action_actions :: "action_row list"
  action_approvals :: "approval_row list"
  workspace_kill_switches :: "uuid \<rightharpoonup> workspace_kill_switch_row"
  customer_kill_switches :: "uuid \<rightharpoonup> customer_kill_switch_row"
  notifications :: "notification_row list"
  notification_preferences :: "notification_preference_row list"
  task_tasks :: "task_row list"
  task_history :: "task_history_row list"
  task_reminders :: "reminder_row list"
  task_decisions :: "task_decision_row list"
  conversation_conversations :: "conversation_row list"
  conversation_messages :: "message_row list"
  ai_usage_events :: "ai_usage_event_row list"
  ai_budget_ledgers :: "(uuid \<times> string) \<rightharpoonup> ai_budget_ledger_row"
  user_ai_preferences :: "(uuid \<times> uuid) \<rightharpoonup> user_ai_preference_row"
  workspace_ai_preferences :: "uuid \<rightharpoonup> workspace_ai_preference_row"
  ai_customer_provider_settings :: "(uuid \<times> provider) \<rightharpoonup> bool"
  ai_customer_fallback_settings :: "uuid \<rightharpoonup> bool"
  ai_provider_verifications :: "provider \<rightharpoonup> ai_provider_verification_row"
  sha256 :: "string \<Rightarrow> string"
  clock :: "nat \<Rightarrow> instant"
  ticks :: nat
  uuid_src :: "nat \<Rightarrow> uuid"
  drawn :: nat
  token_src :: "nat \<Rightarrow> string"
  minted :: nat

end
