(* ===== verification/Errors.thy ===== *)
theory Errors
  imports Schema
begin

text \<open>
  The exceptions of the program as one error type, and \<open>doda/api/errors.py\<close>: the response
  each of them becomes at the API boundary.  \<open>HttpException\<close> is FastAPI's own (raised by
  the routes with a status and a detail), \<open>IntegrityError\<close> the violation of a unique
  constraint of the database, and \<open>Unhandled\<close> any other exception.  The messages are the
  program's, with a hyphen where two of them have an em dash, which is no HOL character.
\<close>

datatype decision = ALLOW | DENY | STEP_UP_REQUIRED | APPROVAL_REQUIRED

datatype app_error =
    SessionInvalidError string
  | AuthorizationError decision string
  | InvalidActionTransition action_status action_status
  | InvalidTaskTransition task_status task_status
  | TaskParentNotFoundError
  | ReminderNotPendingError string
  | ReminderConfirmationMismatchError
  | ApprovalInvalidError string
  | ActionNotCancellableError action_status
  | InvalidCompensationOutcomeError action_status
  | MissingProviderReceiptError
  | WorkspaceMembershipError string
  | CustomerMembershipError string
  | DuplicateMembershipError
  | DuplicateWorkspaceMembershipError
  | NotificationPreferenceError
  | KillSwitchEngagedError string
  | OidcNotConfiguredError
  | OidcStateMismatchError
  | GoogleOidcError string
  | BudgetExceededError string
  | OutboundContentBlockedError string
  | DeepRequestCostCeilingExceededError
  | ModelNotConfiguredError
  | ModelAuthenticationError
  | ModelRateLimitedError "rat option"
  | ModelTimeoutError
  | ModelProviderError "int option"
  | UnsupportedModelCapabilityError string
  | ProviderDisabledError provider
  | UnknownModelPricingError string
  | ToolArgumentsInvalidError string
  | ToolNotFoundError string
  | HttpException nat string
  | IntegrityError string
  | Unhandled string

section \<open>The response envelope\<close>

datatype error_body =
    Envelope (body_code: string) (body_message: string) (body_trace_id: string) (body_retryable: bool)
  | Detail string

record error_response =
  er_status :: nat
  er_body :: error_body
  er_headers :: "(string \<times> string) list"

definition envelope :: "nat \<Rightarrow> string \<Rightarrow> string \<Rightarrow> bool \<Rightarrow> string \<Rightarrow> error_response" where
  "envelope status code message retryable trace_id =
     \<lparr>er_status = status, er_body = Envelope code message trace_id retryable, er_headers = []\<rparr>"

primrec decision_value :: "decision \<Rightarrow> string" where
  "decision_value ALLOW = ''ALLOW''"
| "decision_value DENY = ''DENY''"
| "decision_value STEP_UP_REQUIRED = ''STEP_UP_REQUIRED''"
| "decision_value APPROVAL_REQUIRED = ''APPROVAL_REQUIRED''"

primrec provider_value :: "provider \<Rightarrow> string" where
  "provider_value OPENAI = ''OPENAI''"
| "provider_value GEMINI = ''GEMINI''"
| "provider_value CLAUDE = ''CLAUDE''"

text \<open>Python's \<open>round\<close> of a float to an integer: half to even.\<close>

definition py_round :: "rat \<Rightarrow> int" where
  "py_round x =
     (let f = \<lfloor>x\<rfloor>; d = x - of_int f in
      if d < 1 / 2 then f else if d > 1 / 2 then f + 1 else if even f then f else f + 1)"

definition access_error_response :: "string \<Rightarrow> app_error \<Rightarrow> error_response option" where
  "access_error_response trace_id e =
     (case e of
        SessionInvalidError _ \<Rightarrow>
          Some (envelope 401 ''UNAUTHENTICATED'' ''Sessiya yaroqsiz. Qayta tizimga kiring.'' False trace_id)
      | AuthorizationError d _ \<Rightarrow>
          Some (envelope 403 (decision_value d)
            (if d = STEP_UP_REQUIRED
             then ''Ushbu amal uchun qayta autentifikatsiya (MFA) talab qilinadi.''
             else ''Ruxsat berilmadi.'') False trace_id)
      | InvalidActionTransition _ _ \<Rightarrow>
          Some (envelope 409 ''INVALID_STATE'' ''Action holati bu amalni qabul qilmaydi.'' False trace_id)
      | InvalidTaskTransition _ _ \<Rightarrow>
          Some (envelope 409 ''INVALID_STATE'' ''Task holati bu amalni qabul qilmaydi.'' False trace_id)
      | TaskParentNotFoundError \<Rightarrow>
          Some (envelope 404 ''NOT_FOUND'' ''Parent task topilmadi.'' False trace_id)
      | ReminderNotPendingError _ \<Rightarrow>
          Some (envelope 409 ''REMINDER_INVALID'' ''Reminder bu holatda emas.'' False trace_id)
      | ReminderConfirmationMismatchError \<Rightarrow>
          Some (envelope 409 ''REMINDER_INVALID''
            ''Tasdiqlanayotgan vaqt reminder'ning joriy qiymatiga mos kelmadi.'' False trace_id)
      | ApprovalInvalidError _ \<Rightarrow>
          Some (envelope 409 ''APPROVAL_INVALID'' ''Approval qabul qilinmadi.'' False trace_id)
      | _ \<Rightarrow> None)"

definition membership_error_response :: "string \<Rightarrow> app_error \<Rightarrow> error_response option" where
  "membership_error_response trace_id e =
     (case e of
        ActionNotCancellableError _ \<Rightarrow>
          Some (envelope 409 ''ACTION_NOT_CANCELLABLE'' ''Action bu holatda bekor qilinmaydi.'' False trace_id)
      | InvalidCompensationOutcomeError _ \<Rightarrow>
          Some (envelope 400 ''INVALID_COMPENSATION_OUTCOME''
            ''Kompensatsiya natijasi COMPENSATED yoki FAILED bo'lishi kerak.'' False trace_id)
      | WorkspaceMembershipError _ \<Rightarrow>
          Some (envelope 409 ''MEMBERSHIP_INVALID'' ''A'zolik amali bajarilmadi.'' False trace_id)
      | CustomerMembershipError _ \<Rightarrow>
          Some (envelope 409 ''LAST_OWNER_PROTECTED''
            ''Oxirgi Customer Owner'ni chiqarib yoki lavozimini pasaytirib bo'lmaydi.'' False trace_id)
      | DuplicateMembershipError \<Rightarrow>
          Some (envelope 409 ''ALREADY_MEMBER'' ''Bu foydalanuvchi allaqachon a'zo.'' False trace_id)
      | DuplicateWorkspaceMembershipError \<Rightarrow>
          Some (envelope 409 ''ALREADY_MEMBER''
            ''Bu foydalanuvchi allaqachon shu workspace'ning a'zosi.'' False trace_id)
      | NotificationPreferenceError \<Rightarrow>
          Some (envelope 409 ''SECURITY_ALERT_MANDATORY''
            ''Security alert turdagi bildirishnomani o'chirib bo'lmaydi.'' False trace_id)
      | KillSwitchEngagedError scope \<Rightarrow>
          Some (envelope 403 ''KILL_SWITCH_ENGAGED''
            ((if scope = ''workspace'' then ''Workspace'' else if scope = ''customer'' then ''Customer'' else scope)
             @ '' darajasida kill switch faol - yangi actionlar bloklangan.'') False trace_id)
      | _ \<Rightarrow> None)"

definition login_and_cost_error_response :: "string \<Rightarrow> app_error \<Rightarrow> error_response option" where
  "login_and_cost_error_response trace_id e =
     (case e of
        OidcNotConfiguredError \<Rightarrow>
          Some (envelope 503 ''OIDC_NOT_CONFIGURED'' ''Google login bu muhitda sozlanmagan.'' False trace_id)
      | OidcStateMismatchError \<Rightarrow>
          Some (envelope 401 ''OIDC_STATE_MISMATCH''
            ''Login muddati tugagan yoki noto'g'ri so'rov. Qaytadan urinib ko'ring.'' True trace_id)
      | GoogleOidcError _ \<Rightarrow>
          Some (envelope 502 ''OIDC_PROVIDER_ERROR''
            ''Google bilan bog'lanishda xato yuz berdi. Qaytadan urinib ko'ring.'' True trace_id)
      | BudgetExceededError _ \<Rightarrow>
          Some (envelope 402 ''BUDGET_EXCEEDED'' ''Oylik AI byudjeti tugadi.'' False trace_id)
      | OutboundContentBlockedError _ \<Rightarrow>
          Some (envelope 422 ''OUTBOUND_CONTENT_BLOCKED''
            ''Xabar tarkibida maxfiy kalit/tokenga o'xshash matn aniqlandi - xabar yuborilmadi.'' False trace_id)
      | DeepRequestCostCeilingExceededError \<Rightarrow>
          Some (envelope 402 ''DEEP_COST_CEILING_EXCEEDED''
            ''Bu so'rov DEEP rejimning bitta so'rov uchun narx chegarasidan oshadi.'' False trace_id)
      | _ \<Rightarrow> None)"

definition provider_error_response :: "string \<Rightarrow> app_error \<Rightarrow> error_response option" where
  "provider_error_response trace_id e =
     (case e of
        ModelNotConfiguredError \<Rightarrow>
          Some (envelope 503 ''AI_PROVIDER_NOT_CONFIGURED'' ''Tanlangan AI provayder sozlanmagan.'' False trace_id)
      | ModelAuthenticationError \<Rightarrow>
          Some (envelope 502 ''AI_PROVIDER_AUTH_ERROR''
            ''AI provayder kalitini qabul qilmadi. Administrator bilan bog'laning.'' False trace_id)
      | ModelRateLimitedError after \<Rightarrow>
          Some ((envelope 429 ''AI_PROVIDER_RATE_LIMITED''
            ''AI provayder vaqtincha band. Birozdan so'ng qayta urinib ko'ring.'' True trace_id)
            \<lparr>er_headers := (case after of None \<Rightarrow> [] | Some s \<Rightarrow> [(''Retry-After'', dec_int (py_round s))])\<rparr>)
      | ModelTimeoutError \<Rightarrow>
          Some (envelope 504 ''AI_PROVIDER_TIMEOUT''
            ''AI provayderdan javob kutish vaqti tugadi.'' True trace_id)
      | ModelProviderError _ \<Rightarrow>
          Some (envelope 502 ''AI_PROVIDER_ERROR''
            ''AI provayder bilan bog'lanishda xato yuz berdi.'' True trace_id)
      | UnsupportedModelCapabilityError msg \<Rightarrow>
          Some (envelope 422 ''AI_CAPABILITY_UNSUPPORTED'' msg False trace_id)
      | ProviderDisabledError p \<Rightarrow>
          Some (envelope 403 ''AI_PROVIDER_DISABLED'' (provider_value p @ '' bu customer uchun o'chirilgan.'')
            False trace_id)
      | _ \<Rightarrow> None)"

text \<open>
  FastAPI answers its own \<open>HTTPException\<close>; whatever has no handler reaches the catch-all
  one, which also sets the trace header itself.
\<close>

definition error_response :: "string \<Rightarrow> app_error \<Rightarrow> error_response" where
  "error_response trace_id e =
     (case e of
        HttpException status detail \<Rightarrow> \<lparr>er_status = status, er_body = Detail detail, er_headers = []\<rparr>
      | _ \<Rightarrow>
         (case access_error_response trace_id e of Some r \<Rightarrow> r | None \<Rightarrow>
         (case membership_error_response trace_id e of Some r \<Rightarrow> r | None \<Rightarrow>
         (case login_and_cost_error_response trace_id e of Some r \<Rightarrow> r | None \<Rightarrow>
         (case provider_error_response trace_id e of Some r \<Rightarrow> r | None \<Rightarrow>
           (envelope 500 ''INTERNAL_ERROR'' ''Kutilmagan xato yuz berdi.'' True trace_id)
             \<lparr>er_headers := [(''X-Trace-Id'', trace_id)]\<rparr>)))))"

lemmas error_response_defs = error_response_def access_error_response_def membership_error_response_def
  login_and_cost_error_response_def provider_error_response_def envelope_def

end
