(* ===== verification/Runtime.thy ===== *)
theory Runtime
  imports Errors
begin

text \<open>
  What the services take from \<open>doda/domain/base.py\<close> and \<open>doda/db.py\<close>: the clock, the
  identifiers a new row gets at its flush, random tokens, and the transaction of a request,
  which keeps the state of a call that returns and discards that of a call that raises.
\<close>

definition utcnow :: "db \<Rightarrow> instant \<times> db" where
  "utcnow s = (clock s (ticks s), s\<lparr>ticks := Suc (ticks s)\<rparr>)"

definition uuid4 :: "db \<Rightarrow> uuid \<times> db" where
  "uuid4 s = (uuid_src s (drawn s), s\<lparr>drawn := Suc (drawn s)\<rparr>)"

definition token_urlsafe :: "db \<Rightarrow> string \<times> db" where
  "token_urlsafe s = (token_src s (minted s), s\<lparr>minted := Suc (minted s)\<rparr>)"

text \<open>\<open>UUIDPrimaryKeyMixin\<close> and \<open>CreatedAtMixin\<close>: the defaults of a row being inserted.\<close>

definition row_defaults :: "db \<Rightarrow> uuid \<times> instant \<times> db" where
  "row_defaults s =
     (uuid_src s (drawn s), clock s (ticks s), s\<lparr>ticks := Suc (ticks s), drawn := Suc (drawn s)\<rparr>)"

text \<open>
  \<open>async with ... session.begin()\<close>: an exception rolls every table back; time has passed and
  the random numbers drawn are gone all the same.
\<close>

definition rollback :: "db \<Rightarrow> db \<Rightarrow> db" where
  "rollback before after = before\<lparr>ticks := ticks after, drawn := drawn after, minted := minted after\<rparr>"

definition run_tx :: "(db \<Rightarrow> (app_error + 'a) \<times> db) \<Rightarrow> db \<Rightarrow> (app_error + 'a) \<times> db" where
  "run_tx oper s = (case oper s of (Inr a, t) \<Rightarrow> (Inr a, t) | (Inl e, t) \<Rightarrow> (Inl e, rollback s t))"

lemma run_tx_simps [simp]:
  "oper s = ok a t \<Longrightarrow> run_tx oper s = ok a t"
  "oper s = raise e t \<Longrightarrow> run_tx oper s = raise e (rollback s t)"
  by (simp_all add: run_tx_def ok_def raise_def)

lemma run_tx_ok_iff [simp]: "run_tx oper s = (Inr x, t) \<longleftrightarrow> oper s = (Inr x, t)"
  by (auto simp: run_tx_def split: prod.splits sum.splits)

lemma run_tx_err_iff: "run_tx oper s = (Inl e, t) \<longleftrightarrow> (\<exists>u. oper s = (Inl e, u) \<and> t = rollback s u)"
  by (auto simp: run_tx_def split: prod.splits sum.splits)

lemma run_tx_fst [simp]: "fst (run_tx oper s) = fst (oper s)"
  by (simp add: run_tx_def split: prod.splits sum.splits)

lemma rollback_same [simp]: "rollback s s = s"
  by (simp add: rollback_def)

text \<open>Two states that agree on every table and on the random functions, at different times.\<close>

definition same_tables :: "db \<Rightarrow> db \<Rightarrow> bool" where
  "same_tables s t \<longleftrightarrow> rollback s t = t"

lemma run_tx_raises_same_tables: "fst (oper s) = Inl e \<Longrightarrow> same_tables s (snd (run_tx oper s))"
  by (auto simp: run_tx_def same_tables_def rollback_def split: prod.splits)

section \<open>Identifiers and limits\<close>

definition issued :: "db \<Rightarrow> uuid set" where
  "issued s = uuid_src s ` {..<drawn s}"

lemma next_not_issued: "inj (uuid_src s) \<Longrightarrow> uuid_src s (drawn s) \<notin> issued s"
  by (auto simp: issued_def inj_eq)

lemma issued_mono: "uuid_src t = uuid_src s \<Longrightarrow> drawn s \<le> drawn t \<Longrightarrow> issued s \<subseteq> issued t"
  by (auto simp: issued_def)

lemma next_issued: "uuid_src t = uuid_src s \<Longrightarrow> drawn s < drawn t \<Longrightarrow> uuid_src s (drawn s) \<in> issued t"
  by (auto simp: issued_def)

text \<open>\<open>LIMIT\<close>: the routes bound a page size from above only, and PostgreSQL refuses a negative one.\<close>

definition sql_limit :: "int \<Rightarrow> 'r list \<Rightarrow> app_error + 'r list" where
  "sql_limit n rows = (if n < 0 then Inl (Unhandled ''DBAPIError'') else Inr (take (nat n) rows))"

lemma sql_limit_simps [simp]: "0 \<le> n \<Longrightarrow> sql_limit n rows = Inr (take (nat n) rows)"
  "n < 0 \<Longrightarrow> sql_limit n rows = Inl (Unhandled ''DBAPIError'')"
  by (simp_all add: sql_limit_def)

text \<open>\<open>secrets.compare_digest\<close> of two strings, which refuses any that is not ASCII.\<close>

definition is_ascii :: "string \<Rightarrow> bool" where
  "is_ascii t \<longleftrightarrow> (\<forall>c \<in> set t. (of_char c :: nat) < 128)"

definition compare_digest :: "string \<Rightarrow> string \<Rightarrow> app_error + bool" where
  "compare_digest a b = (if is_ascii a \<and> is_ascii b then Inr (a = b) else Inl (Unhandled ''TypeError''))"

lemma compare_digest_True: "compare_digest a b = Inr True \<longleftrightarrow> a = b \<and> is_ascii a"
  by (auto simp: compare_digest_def)

text \<open>The environment of a run: the clock advances and no identifier or token is drawn twice.\<close>

definition good_env :: "db \<Rightarrow> bool" where
  "good_env s \<longleftrightarrow> strict_mono (clock s) \<and> inj (uuid_src s) \<and> inj (token_src s)"

text \<open>An empty database in a concrete environment, where the witnesses start.\<close>

definition empty_db :: db where
  "empty_db = \<lparr>identity_users = [],
     identity_sessions = [],
     customer_customers = [],
     customer_memberships = [],
     user_customer_index = [],
     workspace_workspaces = [],
     workspace_memberships = [],
     workspace_language_settings = [],
     workspace_tenant_index = Map.empty,
     audit_events = [],
     audit_chain_tips = Map.empty,
     outbox_messages = [],
     action_actions = [],
     action_approvals = [],
     workspace_kill_switches = Map.empty,
     customer_kill_switches = Map.empty,
     notifications = [],
     notification_preferences = [],
     task_tasks = [],
     task_history = [],
     task_reminders = [],
     task_decisions = [],
     conversation_conversations = [],
     conversation_messages = [],
     ai_usage_events = [],
     ai_budget_ledgers = Map.empty,
     user_ai_preferences = Map.empty,
     workspace_ai_preferences = Map.empty,
     ai_customer_provider_settings = Map.empty,
     ai_customer_fallback_settings = Map.empty,
     ai_provider_verifications = Map.empty,
     sha256 = (\<lambda>x. x),
     clock = int,
     ticks = 0,
     uuid_src = (\<lambda>n. n),
     drawn = 0,
     token_src = dec_nat,
     minted = 0\<rparr>"

lemma empty_db_sel [simp]:
  "identity_users empty_db = []"
  "identity_sessions empty_db = []"
  "customer_customers empty_db = []"
  "customer_memberships empty_db = []"
  "user_customer_index empty_db = []"
  "workspace_workspaces empty_db = []"
  "workspace_memberships empty_db = []"
  "workspace_language_settings empty_db = []"
  "workspace_tenant_index empty_db = Map.empty"
  "audit_events empty_db = []"
  "audit_chain_tips empty_db = Map.empty"
  "outbox_messages empty_db = []"
  "action_actions empty_db = []"
  "action_approvals empty_db = []"
  "workspace_kill_switches empty_db = Map.empty"
  "customer_kill_switches empty_db = Map.empty"
  "notifications empty_db = []"
  "notification_preferences empty_db = []"
  "task_tasks empty_db = []"
  "task_history empty_db = []"
  "task_reminders empty_db = []"
  "task_decisions empty_db = []"
  "conversation_conversations empty_db = []"
  "conversation_messages empty_db = []"
  "ai_usage_events empty_db = []"
  "ai_budget_ledgers empty_db = Map.empty"
  "user_ai_preferences empty_db = Map.empty"
  "workspace_ai_preferences empty_db = Map.empty"
  "ai_customer_provider_settings empty_db = Map.empty"
  "ai_customer_fallback_settings empty_db = Map.empty"
  "ai_provider_verifications empty_db = Map.empty"
  "sha256 empty_db = (\<lambda>x. x)"
  "clock empty_db = int"
  "ticks empty_db = 0"
  "uuid_src empty_db = (\<lambda>n. n)"
  "drawn empty_db = 0"
  "token_src empty_db = dec_nat"
  "minted empty_db = 0"
  by (simp_all add: empty_db_def)

lemma good_env_empty_db [simp]: "good_env empty_db"
  by (simp add: good_env_def strict_mono_def inj_def)

end
