(* ===== verification/Audit_Log.thy ===== *)
theory Audit_Log
  imports Runtime
begin

text \<open>
  \<open>doda/application/audit_service.py\<close> and \<open>audit_query_service.py\<close>: the append-only,
  hash-chained audit log.  \<open>record_audit_event\<close> extends the chain of one customer under the
  lock of its tip row, \<open>verify_audit_chain\<close> walks it, \<open>build_evidence_package\<close> exports a trace,
  \<open>list_audit_events\<close> pages through it.  The interface other components use is the locale
  \<open>audit_trail\<close>.  SHA-256 is the database's parameter \<open>sha256\<close>; where a property needs it
  to be collision free, the property ends in \<open>or a collision has been found\<close>.
\<close>

section \<open>Recording\<close>

definition opt_json :: "('a \<Rightarrow> string) \<Rightarrow> 'a option \<Rightarrow> json" where
  "opt_json f x = (case x of None \<Rightarrow> JNull | Some a \<Rightarrow> JStr (f a))"

definition event_json ::
  "uuid \<Rightarrow> uuid option \<Rightarrow> uuid \<Rightarrow> string \<Rightarrow> string \<Rightarrow> instant \<Rightarrow> json \<Rightarrow> string option \<Rightarrow> json" where
  "event_json customer_id workspace_id trace_id actor_id event_type occurred_at safe_metadata prev_hash =
     JObj [(''customer_id'', JStr (uuid_str customer_id)),
           (''workspace_id'', opt_json uuid_str workspace_id),
           (''trace_id'', JStr (uuid_str trace_id)),
           (''actor_id'', JStr actor_id),
           (''event_type'', JStr event_type),
           (''occurred_at'', JStr (iso occurred_at)),
           (''safe_metadata'', JStr (canonical_json safe_metadata)),
           (''prev_hash'', opt_json id prev_hash)]"

definition tip_hash :: "db \<Rightarrow> uuid \<Rightarrow> string option" where
  "tip_hash s customer_id = (case audit_chain_tips s customer_id of None \<Rightarrow> None | Some h \<Rightarrow> h)"

definition record_audit_event ::
  "uuid \<Rightarrow> uuid \<Rightarrow> string \<Rightarrow> string \<Rightarrow> uuid option \<Rightarrow> jdict \<Rightarrow> db \<Rightarrow> audit_event_row \<times> db" where
  "record_audit_event customer_id trace_id actor_id event_type workspace_id safe_metadata s =
     (let s1 = (if audit_chain_tips s customer_id = None
                then s\<lparr>audit_chain_tips := (audit_chain_tips s)(customer_id \<mapsto> None)\<rparr> else s);
          prev = tip_hash s1 customer_id;
          (occurred_at, s2) = utcnow s1;
          digest = hash_payload (sha256 s2)
            (event_json customer_id workspace_id trace_id actor_id event_type occurred_at
               (JObj safe_metadata) prev);
          (new_id, created_at, s3) = row_defaults s2;
          event = \<lparr>ae_id = new_id, ae_created_at = created_at, ae_customer_id = customer_id,
                   ae_workspace_id = workspace_id, ae_trace_id = trace_id, ae_actor_id = actor_id,
                   ae_event_type = event_type, ae_occurred_at = occurred_at,
                   ae_safe_metadata = JObj safe_metadata, ae_prev_hash = prev, ae_hash = digest\<rparr>
      in (event, s3\<lparr>audit_events := audit_events s3 @ [event],
                    audit_chain_tips := (audit_chain_tips s3)(customer_id \<mapsto> Some digest)\<rparr>))"

abbreviation log_event ::
  "uuid \<Rightarrow> uuid \<Rightarrow> string \<Rightarrow> string \<Rightarrow> uuid option \<Rightarrow> jdict \<Rightarrow> db \<Rightarrow> db" where
  "log_event customer_id trace_id actor_id event_type workspace_id safe_metadata s \<equiv>
     snd (record_audit_event customer_id trace_id actor_id event_type workspace_id safe_metadata s)"

section \<open>Verification\<close>

definition recompute_event_hash :: "(string \<Rightarrow> string) \<Rightarrow> audit_event_row \<Rightarrow> string" where
  "recompute_event_hash sha event =
     hash_payload sha
       (event_json (ae_customer_id event) (ae_workspace_id event) (ae_trace_id event) (ae_actor_id event)
          (ae_event_type event) (ae_occurred_at event) (ae_safe_metadata event) (ae_prev_hash event))"

record audit_chain_violation =
  acv_event_id :: uuid
  acv_reason :: string

record audit_chain_verification =
  checked_count :: nat
  violations :: "audit_chain_violation list"

definition verification_ok :: "audit_chain_verification \<Rightarrow> bool" where
  "verification_ok r \<longleftrightarrow> length (violations r) = 0"

text \<open>The loop over the events: its state is the previous event's stored hash.\<close>

fun audit_walk :: "(string \<Rightarrow> string) \<Rightarrow> string option \<Rightarrow> audit_event_row list \<Rightarrow> audit_chain_violation list" where
  "audit_walk sha expected [] = []"
| "audit_walk sha expected (event # events) =
     (if ae_prev_hash event \<noteq> expected
      then [\<lparr>acv_event_id = ae_id event, acv_reason = ''prev_hash_mismatch''\<rparr>] else [])
     @ (if recompute_event_hash sha event \<noteq> ae_hash event
        then [\<lparr>acv_event_id = ae_id event, acv_reason = ''hash_mismatch''\<rparr>] else [])
     @ audit_walk sha (Some (ae_hash event)) events"

definition write_order :: "audit_event_row \<Rightarrow> instant \<times> uuid" where
  "write_order e = (ae_created_at e, ae_id e)"

definition customer_log :: "uuid \<Rightarrow> db \<Rightarrow> audit_event_row list" where
  "customer_log customer_id s = filter (\<lambda>e. ae_customer_id e = customer_id) (audit_events s)"

definition verify_audit_chain :: "uuid \<Rightarrow> db \<Rightarrow> audit_chain_verification" where
  "verify_audit_chain customer_id s =
     (let events = sort_key write_order (customer_log customer_id s)
      in \<lparr>checked_count = length events, violations = audit_walk (sha256 s) None events\<rparr>)"

section \<open>Queries (audit_query_service.py)\<close>

definition max_page_size :: nat where
  "max_page_size = 200"

record audit_filter =
  af_workspace_id :: "uuid option"
  af_actor_id :: "string option"
  af_event_type :: "string option"
  af_trace_id :: "uuid option"

definition matches :: "audit_filter \<Rightarrow> audit_event_row \<Rightarrow> bool" where
  "matches f e \<longleftrightarrow>
     (case af_workspace_id f of None \<Rightarrow> True | Some w \<Rightarrow> ae_workspace_id e = Some w)
   \<and> (case af_actor_id f of None \<Rightarrow> True | Some a \<Rightarrow> ae_actor_id e = a)
   \<and> (case af_event_type f of None \<Rightarrow> True | Some t \<Rightarrow> ae_event_type e = t)
   \<and> (case af_trace_id f of None \<Rightarrow> True | Some t \<Rightarrow> ae_trace_id e = t)"

definition list_audit_events ::
  "uuid \<Rightarrow> audit_filter \<Rightarrow> int \<Rightarrow> uuid option \<Rightarrow> db \<Rightarrow> app_error + audit_event_row list" where
  "list_audit_events customer_id f limit before_id s =
     (let rows = filter (matches f) (customer_log customer_id s);
          older = (case before_id of
                     None \<Rightarrow> rows
                   | Some b \<Rightarrow>
                      (case tget ae_id b (audit_events s) of
                         None \<Rightarrow> rows
                       | Some cursor_row \<Rightarrow> filter (\<lambda>e. write_order e < write_order cursor_row) rows))
      in sql_limit (min limit (int max_page_size)) (rev (sort_key write_order older)))"

definition list_audit_events_for_trace :: "uuid \<Rightarrow> uuid \<Rightarrow> db \<Rightarrow> audit_event_row list" where
  "list_audit_events_for_trace customer_id trace_id s =
     take max_page_size
       (sort_key write_order (filter (\<lambda>e. ae_trace_id e = trace_id) (customer_log customer_id s)))"

section \<open>Evidence packages\<close>

record evidence_event =
  ee_event :: audit_event_row
  ee_hash_self_consistent :: bool

record evidence_package =
  ep_customer_id :: uuid
  ep_trace_id :: uuid
  ep_events :: "evidence_event list"
  ep_full_chain_verification :: audit_chain_verification

definition build_evidence_package :: "uuid \<Rightarrow> uuid \<Rightarrow> db \<Rightarrow> evidence_package" where
  "build_evidence_package customer_id trace_id s =
     \<lparr>ep_customer_id = customer_id, ep_trace_id = trace_id,
      ep_events = map (\<lambda>e. \<lparr>ee_event = e,
                           ee_hash_self_consistent = (recompute_event_hash (sha256 s) e = ae_hash e)\<rparr>)
                      (list_audit_events_for_trace customer_id trace_id s),
      ep_full_chain_verification = verify_audit_chain customer_id s\<rparr>"

section \<open>What recording changes\<close>

lemma record_audit_event_frame [simp, frame]:
  "identity_users (log_event c t a ty w m s) = identity_users s"
  "identity_sessions (log_event c t a ty w m s) = identity_sessions s"
  "customer_customers (log_event c t a ty w m s) = customer_customers s"
  "customer_memberships (log_event c t a ty w m s) = customer_memberships s"
  "user_customer_index (log_event c t a ty w m s) = user_customer_index s"
  "workspace_workspaces (log_event c t a ty w m s) = workspace_workspaces s"
  "workspace_memberships (log_event c t a ty w m s) = workspace_memberships s"
  "workspace_language_settings (log_event c t a ty w m s) = workspace_language_settings s"
  "workspace_tenant_index (log_event c t a ty w m s) = workspace_tenant_index s"
  "outbox_messages (log_event c t a ty w m s) = outbox_messages s"
  "action_actions (log_event c t a ty w m s) = action_actions s"
  "action_approvals (log_event c t a ty w m s) = action_approvals s"
  "workspace_kill_switches (log_event c t a ty w m s) = workspace_kill_switches s"
  "customer_kill_switches (log_event c t a ty w m s) = customer_kill_switches s"
  "notifications (log_event c t a ty w m s) = notifications s"
  "notification_preferences (log_event c t a ty w m s) = notification_preferences s"
  "task_tasks (log_event c t a ty w m s) = task_tasks s"
  "task_history (log_event c t a ty w m s) = task_history s"
  "task_reminders (log_event c t a ty w m s) = task_reminders s"
  "task_decisions (log_event c t a ty w m s) = task_decisions s"
  "conversation_conversations (log_event c t a ty w m s) = conversation_conversations s"
  "conversation_messages (log_event c t a ty w m s) = conversation_messages s"
  "ai_usage_events (log_event c t a ty w m s) = ai_usage_events s"
  "ai_budget_ledgers (log_event c t a ty w m s) = ai_budget_ledgers s"
  "user_ai_preferences (log_event c t a ty w m s) = user_ai_preferences s"
  "workspace_ai_preferences (log_event c t a ty w m s) = workspace_ai_preferences s"
  "ai_customer_provider_settings (log_event c t a ty w m s) = ai_customer_provider_settings s"
  "ai_customer_fallback_settings (log_event c t a ty w m s) = ai_customer_fallback_settings s"
  "ai_provider_verifications (log_event c t a ty w m s) = ai_provider_verifications s"
  "sha256 (log_event c t a ty w m s) = sha256 s"
  "clock (log_event c t a ty w m s) = clock s"
  "uuid_src (log_event c t a ty w m s) = uuid_src s"
  "token_src (log_event c t a ty w m s) = token_src s"
  "minted (log_event c t a ty w m s) = minted s"
  by (simp_all add: record_audit_event_def Let_def utcnow_def row_defaults_def)

definition recorded ::
  "uuid \<Rightarrow> uuid \<Rightarrow> string \<Rightarrow> string \<Rightarrow> uuid option \<Rightarrow> jdict \<Rightarrow> db \<Rightarrow> audit_event_row" where
  "recorded c t a ty w m s =
     (let prev = tip_hash s c; now = clock s (ticks s) in
      \<lparr>ae_id = uuid_src s (drawn s), ae_created_at = clock s (Suc (ticks s)), ae_customer_id = c,
       ae_workspace_id = w, ae_trace_id = t, ae_actor_id = a, ae_event_type = ty, ae_occurred_at = now,
       ae_safe_metadata = JObj m, ae_prev_hash = prev,
       ae_hash = hash_payload (sha256 s) (event_json c w t a ty now (JObj m) prev)\<rparr>)"

lemma record_audit_event_effect [effect]:
  "audit_events (log_event c t a ty w m s) = audit_events s @ [recorded c t a ty w m s]"
  "audit_chain_tips (log_event c t a ty w m s)
     = (audit_chain_tips s)(c \<mapsto> Some (ae_hash (recorded c t a ty w m s)))"
  "ticks (log_event c t a ty w m s) = Suc (Suc (ticks s))"
  "drawn (log_event c t a ty w m s) = Suc (drawn s)"
  "fst (record_audit_event c t a ty w m s) = recorded c t a ty w m s"
  by (simp_all add: record_audit_event_def recorded_def Let_def utcnow_def row_defaults_def tip_hash_def)

lemma recorded_sel [simp]:
  "ae_customer_id (recorded c t a ty w m s) = c"
  "ae_workspace_id (recorded c t a ty w m s) = w"
  "ae_trace_id (recorded c t a ty w m s) = t"
  "ae_actor_id (recorded c t a ty w m s) = a"
  "ae_event_type (recorded c t a ty w m s) = ty"
  "ae_safe_metadata (recorded c t a ty w m s) = JObj m"
  "ae_prev_hash (recorded c t a ty w m s) = tip_hash s c"
  "ae_id (recorded c t a ty w m s) = uuid_src s (drawn s)"
  "ae_created_at (recorded c t a ty w m s) = clock s (Suc (ticks s))"
  "ae_occurred_at (recorded c t a ty w m s) = clock s (ticks s)"
  by (simp_all add: recorded_def Let_def)

lemma recorded_hash [simp]:
  "recompute_event_hash (sha256 s) (recorded c t a ty w m s) = ae_hash (recorded c t a ty w m s)"
  by (simp add: recompute_event_hash_def recorded_def Let_def)


section \<open>Linked logs\<close>

fun linked :: "(string \<Rightarrow> string) \<Rightarrow> string option \<Rightarrow> audit_event_row list \<Rightarrow> bool" where
  "linked sha prev [] \<longleftrightarrow> True"
| "linked sha prev (e # es) \<longleftrightarrow>
     ae_prev_hash e = prev \<and> recompute_event_hash sha e = ae_hash e \<and> linked sha (Some (ae_hash e)) es"

definition last_hash :: "string option \<Rightarrow> audit_event_row list \<Rightarrow> string option" where
  "last_hash prev es = (if es = [] then prev else Some (ae_hash (last es)))"

lemma last_hash_simps [simp]:
  "last_hash prev [] = prev"
  "last_hash prev (e # es) = last_hash (Some (ae_hash e)) es"
  "last_hash prev (es @ [e]) = Some (ae_hash e)"
  by (simp_all add: last_hash_def)

lemma audit_walk_Nil_iff: "audit_walk sha prev es = [] \<longleftrightarrow> linked sha prev es"
  by (induction es arbitrary: prev) auto

lemma linked_append:
  "linked sha prev (xs @ ys) \<longleftrightarrow> linked sha prev xs \<and> linked sha (last_hash prev xs) ys"
  by (induction xs arbitrary: prev) (auto simp: last_hash_def)

lemma audit_walk_append:
  "audit_walk sha prev (xs @ ys) = audit_walk sha prev xs @ audit_walk sha (last_hash prev xs) ys"
  by (induction xs arbitrary: prev) (auto simp: last_hash_def)

text \<open>The invariant of the audit tables, under a clock that advances.\<close>

definition audit_inv :: "db \<Rightarrow> bool" where
  "audit_inv s \<longleftrightarrow>
     strict_mono (clock s)
   \<and> sorted_wrt (<) (map ae_created_at (audit_events s))
   \<and> (\<forall>e \<in> set (audit_events s). ae_created_at e < clock s (ticks s))
   \<and> (\<forall>c. linked (sha256 s) None (customer_log c s) \<and> last_hash None (customer_log c s) = tip_hash s c)"

lemma customer_log_record:
  "customer_log c (log_event c' t a ty w m s)
     = (if c = c' then customer_log c s @ [recorded c' t a ty w m s] else customer_log c s)"
  by (simp add: customer_log_def effect)

lemma tip_hash_record:
  "tip_hash (log_event c' t a ty w m s) c
     = (if c = c' then Some (ae_hash (recorded c' t a ty w m s)) else tip_hash s c)"
  by (simp add: tip_hash_def effect)

lemma audit_inv_record:
  assumes "audit_inv s"
  shows "audit_inv (log_event c t a ty w m s)"
proof -
  have mono: "strict_mono (clock s)" using assms by (simp add: audit_inv_def)
  then have later: "clock s (ticks s) < clock s (Suc (ticks s))"
    "clock s (Suc (ticks s)) < clock s (Suc (Suc (ticks s)))"
    by (simp_all add: strict_mono_less)
  have times: "\<forall>e \<in> set (audit_events s). ae_created_at e < clock s (ticks s)"
    using assms by (simp add: audit_inv_def)
  have "sorted_wrt (<) (map ae_created_at (audit_events s @ [recorded c t a ty w m s]))"
    using assms times later by (force simp: audit_inv_def sorted_wrt_append)
  moreover have "\<forall>e \<in> set (audit_events s @ [recorded c t a ty w m s]).
      ae_created_at e < clock s (Suc (Suc (ticks s)))"
    using times later by force
  moreover have "linked (sha256 s) None (customer_log c' s) \<and> last_hash None (customer_log c' s) = tip_hash s c'" for c'
    using assms by (simp add: audit_inv_def)
  ultimately show ?thesis
    using mono
    by (simp add: audit_inv_def effect customer_log_record tip_hash_record linked_append)
qed

lemma sorted_write_order:
  assumes "sorted_wrt (<) (map ae_created_at es)"
  shows "sort_key write_order es = es"
proof -
  have "sorted_wrt (\<lambda>x y. write_order x \<le> write_order y) es"
    using assms unfolding sorted_wrt_map
    by (rule sorted_wrt_mono_rel [rotated]) (simp add: write_order_def less_eq_prod_def)
  then have "sorted (map write_order es)" by (simp add: sorted_wrt_map)
  then show ?thesis by (rule sort_key_id_if_sorted)
qed

lemma sorted_wrt_map_filter: "sorted_wrt (<) (map f xs) \<Longrightarrow> sorted_wrt (<) (map f (filter P xs))"
  by (induction xs) auto

lemma audit_inv_customer_log:
  assumes "audit_inv s"
  shows "sort_key write_order (customer_log c s) = customer_log c s"
    and "linked (sha256 s) None (customer_log c s)"
  using assms sorted_write_order sorted_wrt_map_filter by (auto simp: audit_inv_def customer_log_def)

lemma verify_ok_iff:
  "verification_ok (verify_audit_chain c s) \<longleftrightarrow> linked (sha256 s) None (sort_key write_order (customer_log c s))"
  by (simp add: verification_ok_def verify_audit_chain_def Let_def audit_walk_Nil_iff)

lemma audit_inv_verify_ok: "audit_inv s \<Longrightarrow> verification_ok (verify_audit_chain c s)"
  using audit_inv_customer_log by (simp add: verify_ok_iff)

section \<open>The interface of the audit trail\<close>

locale audit_trail =
  fixes append_event :: "'req \<Rightarrow> 's \<Rightarrow> 's"
    and subject :: "'req \<Rightarrow> 'c"
    and trail :: "'c \<Rightarrow> 's \<Rightarrow> 'e list"
    and good :: "'s \<Rightarrow> bool"
    and intact :: "'c \<Rightarrow> 's \<Rightarrow> bool"
  assumes append_extends: "\<exists>e. trail (subject r) (append_event r s) = trail (subject r) s @ [e]"
    and append_others: "c \<noteq> subject r \<Longrightarrow> trail c (append_event r s) = trail c s"
    and append_good: "good s \<Longrightarrow> good (append_event r s)"
    and good_intact: "good s \<Longrightarrow> intact c s"
begin

lemma run_good: "good s \<Longrightarrow> good (fold append_event rs s)"
  by (induction rs arbitrary: s) (simp_all add: append_good)

lemma run_intact: "good s \<Longrightarrow> intact c (fold append_event rs s)"
  using good_intact run_good by blast

lemma run_length:
  "length (trail c (fold append_event rs s)) = length (trail c s) + length (filter (\<lambda>r. subject r = c) rs)"
proof (induction rs arbitrary: s)
  case (Cons r rs)
  show ?case
  proof (cases "subject r = c")
    case True
    then obtain e where "trail c (append_event r s) = trail c s @ [e]"
      using append_extends by blast
    with True Cons show ?thesis by simp
  next
    case False
    then show ?thesis using Cons append_others [of c r s] by simp
  qed
qed simp

lemma run_keeps_prefix: "take (length (trail c s)) (trail c (fold append_event rs s)) = trail c s"
proof (induction rs arbitrary: s)
  case (Cons r rs)
  obtain tl where tl: "trail c (append_event r s) = trail c s @ tl"
    by (metis append_extends append_others append_Nil2)
  from Cons [of "append_event r s"]
  have "take (length (trail c s)) (take (length (trail c (append_event r s))) (trail c (fold append_event (r # rs) s)))
      = take (length (trail c s)) (trail c s @ tl)"
    by (simp add: tl)
  then show ?case by (simp add: tl min_def)
qed simp

end

record audit_request =
  ar_customer_id :: uuid
  ar_trace_id :: uuid
  ar_actor_id :: string
  ar_event_type :: string
  ar_workspace_id :: "uuid option"
  ar_safe_metadata :: jdict

definition append_request :: "audit_request \<Rightarrow> db \<Rightarrow> db" where
  "append_request r s = log_event (ar_customer_id r) (ar_trace_id r) (ar_actor_id r) (ar_event_type r)
     (ar_workspace_id r) (ar_safe_metadata r) s"

interpretation chain: audit_trail append_request ar_customer_id customer_log audit_inv
    "\<lambda>c s. verification_ok (verify_audit_chain c s)"
  by unfold_locales
    (auto simp: append_request_def customer_log_record audit_inv_record audit_inv_verify_ok)

lemma append_request_sha [simp]: "sha256 (append_request r s) = sha256 s"
  by (simp add: append_request_def)


section \<open>What the hashes commit to\<close>

definition event_text :: "audit_event_row \<Rightarrow> string" where
  "event_text e = canonical_json
     (event_json (ae_customer_id e) (ae_workspace_id e) (ae_trace_id e) (ae_actor_id e) (ae_event_type e)
        (ae_occurred_at e) (ae_safe_metadata e) (ae_prev_hash e))"

text \<open>What a row says: every hashed column, the metadata up to the order of its keys.\<close>

definition event_content ::
  "audit_event_row \<Rightarrow> uuid \<times> uuid option \<times> uuid \<times> string \<times> string \<times> instant \<times> json \<times> string option" where
  "event_content e =
     (ae_customer_id e, ae_workspace_id e, ae_trace_id e, ae_actor_id e, ae_event_type e,
      ae_occurred_at e, sort_keys (ae_safe_metadata e), ae_prev_hash e)"

lemma recompute_event_text: "recompute_event_hash sha e = sha (event_text e)"
  by (simp add: recompute_event_hash_def event_text_def hash_payload_def)

lemma opt_json_inj: "inj f \<Longrightarrow> opt_json f x = opt_json f y \<longleftrightarrow> x = y"
  by (auto simp: opt_json_def inj_eq split: option.splits)

lemma sort_keys_opt_json [simp]: "sort_keys (opt_json f x) = opt_json f x"
  by (simp add: opt_json_def split: option.splits)

lemma uuid_str_is_inj: "inj uuid_str"
  by (simp add: inj_def)

definition event_keys :: "string list" where
  "event_keys = [''customer_id'', ''workspace_id'', ''trace_id'', ''actor_id'', ''event_type'',
     ''occurred_at'', ''safe_metadata'', ''prev_hash'']"

lemma event_json_lookup:
  "(case sort_keys (event_json c w t a ty oc m p) of JObj kws \<Rightarrow> map_of kws k | _ \<Rightarrow> None)
     = map_option sort_keys
         (map_of (zip event_keys [JStr (uuid_str c), opt_json uuid_str w, JStr (uuid_str t), JStr a,
            JStr ty, JStr (iso oc), JStr (canonical_json m), opt_json id p]) k)"
  unfolding event_json_def by (subst sort_keys_obj_lookup) (simp_all add: event_keys_def)

lemma event_text_eq_iff: "event_text e = event_text e' \<longleftrightarrow> event_content e = event_content e'"
proof
  assume "event_text e = event_text e'"
  then have eq: "sort_keys (event_json (ae_customer_id e) (ae_workspace_id e) (ae_trace_id e) (ae_actor_id e)
        (ae_event_type e) (ae_occurred_at e) (ae_safe_metadata e) (ae_prev_hash e))
      = sort_keys (event_json (ae_customer_id e') (ae_workspace_id e') (ae_trace_id e') (ae_actor_id e')
        (ae_event_type e') (ae_occurred_at e') (ae_safe_metadata e') (ae_prev_hash e'))"
    by (simp add: event_text_def canonical_json_eq_iff)
  note same = arg_cong [OF eq, of "\<lambda>v. case v of JObj kws \<Rightarrow> map_of kws k | _ \<Rightarrow> None" for k,
      unfolded event_json_lookup event_keys_def]
  show "event_content e = event_content e'"
    using same [of "''customer_id''"] same [of "''workspace_id''"] same [of "''trace_id''"]
      same [of "''actor_id''"] same [of "''event_type''"] same [of "''occurred_at''"]
      same [of "''safe_metadata''"] same [of "''prev_hash''"]
    by (simp add: event_content_def opt_json_inj [OF uuid_str_is_inj] opt_json_inj canonical_json_eq_iff)
next
  assume "event_content e = event_content e'"
  then show "event_text e = event_text e'"
    by (simp add: event_content_def event_text_def event_json_def canonical_json_eq_iff)
qed

text \<open>Two stored rows that say different things under one hash: a collision of SHA-256.\<close>

definition rows_collide :: "(string \<Rightarrow> string) \<Rightarrow> audit_event_row list \<Rightarrow> audit_event_row list \<Rightarrow> bool" where
  "rows_collide sha es es' \<longleftrightarrow>
     (\<exists>e \<in> set es. \<exists>e' \<in> set es'. event_text e \<noteq> event_text e' \<and> sha (event_text e) = sha (event_text e'))"

lemma linked_head_unique:
  assumes "linked sha None es" "linked sha None es'" "last_hash None es = last_hash None es'"
  shows "map event_content es = map event_content es' \<or> rows_collide sha es es'"
  using assms
proof (induction es arbitrary: es' rule: rev_induct)
  case Nil
  then show ?case by (cases es' rule: rev_cases) auto
next
  case (snoc e es)
  then obtain e' fs where es': "es' = fs @ [e']"
    by (cases es' rule: rev_cases) auto
  have hashes: "sha (event_text e) = sha (event_text e')"
    using snoc.prems by (simp add: es' linked_append recompute_event_text)
  show ?case
  proof (cases "event_text e = event_text e'")
    case False
    with hashes show ?thesis by (auto simp: rows_collide_def es')
  next
    case True
    then have same: "event_content e = event_content e'" by (simp add: event_text_eq_iff)
    then have "ae_prev_hash e = ae_prev_hash e'" by (simp add: event_content_def)
    with snoc.prems have "last_hash None es = last_hash None fs" "linked sha None es" "linked sha None fs"
      by (simp_all add: es' linked_append)
    from snoc.IH [OF this(2,3,1)] same show ?thesis
      by (auto simp: es' rows_collide_def)
  qed
qed

lemma customer_log_in_order:
  assumes "audit_inv s" "customer_log c s = pre @ e # post"
    and "customer_log c t = pre @ e' # post" "ae_created_at e' = ae_created_at e"
  shows "sort_key write_order (customer_log c t) = customer_log c t"
proof -
  have "sorted_wrt (<) (map ae_created_at (customer_log c s))"
    using assms(1) sorted_wrt_map_filter by (auto simp: audit_inv_def customer_log_def)
  moreover have "map ae_created_at (customer_log c t) = map ae_created_at (customer_log c s)"
    by (simp add: assms)
  ultimately show ?thesis by (metis sorted_write_order)
qed

section \<open>Pages\<close>

text \<open>A client that follows the cursor until a page is empty.\<close>

fun read_pages :: "nat \<Rightarrow> uuid \<Rightarrow> audit_filter \<Rightarrow> nat \<Rightarrow> uuid option \<Rightarrow> db \<Rightarrow> audit_event_row list" where
  "read_pages 0 c f n before_id s = []"
| "read_pages (Suc fuel) c f n before_id s =
     (case list_audit_events c f (int n) before_id s of
        Inl _ \<Rightarrow> []
      | Inr page \<Rightarrow>
          if page = [] then [] else page @ read_pages fuel c f n (Some (ae_id (last page))) s)"

definition newest_first :: "uuid \<Rightarrow> audit_filter \<Rightarrow> db \<Rightarrow> audit_event_row list" where
  "newest_first c f s = rev (sort_key write_order (filter (matches f) (customer_log c s)))"

lemma set_newest_first: "set (newest_first c f s) \<subseteq> set (audit_events s)"
  by (auto simp: newest_first_def customer_log_def)

lemma newest_first_descending:
  assumes "distinct (map ae_id (audit_events s))"
  shows "sorted_wrt (\<lambda>x y. write_order y < write_order x) (newest_first c f s)"
proof -
  let ?rows = "filter (matches f) (customer_log c s)"
  have "distinct (map ae_id ?rows)"
    using assms by (simp add: customer_log_def distinct_map_filter)
  then have "distinct (map write_order ?rows)"
    by (auto simp: distinct_map inj_on_def write_order_def)
  then have "distinct (map write_order (sort_key write_order ?rows))"
    by (metis mset_map mset_sort mset_eq_imp_distinct_iff)
  then have "sorted_wrt (<) (map write_order (sort_key write_order ?rows))"
    by (simp add: strict_sorted_iff)
  then show ?thesis
    by (simp add: newest_first_def sorted_wrt_rev sorted_wrt_map)
qed

lemma descending_filter_drop:
  fixes key :: "'a \<Rightarrow> 'k :: linorder"
  assumes "sorted_wrt (\<lambda>x y. key y < key x) xs" "k < length xs"
  shows "filter (\<lambda>x. key x < key (xs ! k)) xs = drop (Suc k) xs"
  using assms
proof (induction xs arbitrary: k)
  case (Cons x xs)
  show ?case
  proof (cases k)
    case 0
    with Cons.prems show ?thesis by simp
  next
    case (Suc j)
    with Cons.prems have "key (xs ! j) < key x" by simp
    then have "\<not> key x < key (xs ! j)" by (rule less_not_sym)
    with Cons Suc show ?thesis by simp
  qed
qed simp

lemma list_audit_events_first:
  "list_audit_events c f (int n) None s = Inr (take (min n max_page_size) (newest_first c f s))"
  by (simp add: list_audit_events_def newest_first_def flip: of_nat_min)

lemma list_audit_events_after:
  assumes "distinct (map ae_id (audit_events s))" "k < length (newest_first c f s)"
  shows "list_audit_events c f (int n) (Some (ae_id (newest_first c f s ! k))) s
       = Inr (take (min n max_page_size) (drop (Suc k) (newest_first c f s)))"
proof -
  let ?row = "newest_first c f s ! k"
  have "?row \<in> set (audit_events s)"
    using assms(2) set_newest_first nth_mem by blast
  then have row: "tget ae_id (ae_id ?row) (audit_events s) = Some ?row"
    using assms(1) by (rule tget_distinct [rotated])
  have "filter (\<lambda>e. write_order e < write_order ?row) (newest_first c f s) = drop (Suc k) (newest_first c f s)"
    by (rule descending_filter_drop [OF newest_first_descending [OF assms(1)] assms(2)])
  then have "rev (sort_key write_order (filter (\<lambda>e. write_order e < write_order ?row)
      (filter (matches f) (customer_log c s)))) = drop (Suc k) (newest_first c f s)"
    unfolding newest_first_def [of c f s] by (simp only: rev_filter [symmetric] filter_sort)
  then show ?thesis
    by (simp only: list_audit_events_def Let_def row option.case of_nat_min [symmetric] sql_limit_simps(1)
        of_nat_0_le_iff nat_int)
qed

lemma last_take_drop:
  assumes "k < length xs" "0 < m"
  shows "last (take m (drop k xs)) = xs ! (min (k + m) (length xs) - 1)"
proof -
  have "last (take m (drop k xs)) = take m (drop k xs) ! (min (length xs - k) m - 1)"
    using assms by (simp add: last_conv_nth)
  also have "\<dots> = xs ! (k + (min (length xs - k) m - 1))"
    using assms by simp
  also have "k + (min (length xs - k) m - 1) = min (k + m) (length xs) - 1"
    using assms by linarith
  finally show ?thesis .
qed

lemma read_pages_after:
  assumes "distinct (map ae_id (audit_events s))" "0 < n"
    and "length (newest_first c f s) \<le> fuel + k" "0 < k" "k \<le> length (newest_first c f s)"
  shows "read_pages fuel c f n (Some (ae_id (newest_first c f s ! (k - 1)))) s = drop k (newest_first c f s)"
  using assms(3-5)
proof (induction fuel arbitrary: k)
  case (Suc fuel)
  let ?D = "newest_first c f s" and ?m = "min n max_page_size"
  have page: "list_audit_events c f (int n) (Some (ae_id (?D ! (k - 1)))) s = Inr (take ?m (drop k ?D))"
    using list_audit_events_after [OF assms(1), of "k - 1"] Suc.prems by simp
  have m: "0 < ?m" using assms(2) by (simp add: max_page_size_def)
  show ?case
  proof (cases "k = length ?D")
    case True
    then show ?thesis using page by simp
  next
    case False
    let ?j = "min (k + ?m) (length ?D)"
    have ne: "take ?m (drop k ?D) \<noteq> []" using False Suc.prems m by simp
    have last: "last (take ?m (drop k ?D)) = ?D ! (?j - 1)"
      using False Suc.prems m by (intro last_take_drop) simp_all
    have "read_pages fuel c f n (Some (ae_id (?D ! (?j - 1)))) s = drop ?j ?D"
      using Suc.prems False m by (intro Suc.IH) auto
    moreover have "take ?m (drop k ?D) @ drop ?j ?D = drop k ?D"
      by (cases "k + ?m \<le> length ?D")
        (simp_all add: min_def add.commute, metis append_take_drop_id drop_drop add.commute)
    ultimately show ?thesis
      using ne by (simp only: read_pages.simps page sum.case last if_False)
  qed
qed simp


section \<open>Properties\<close>

definition sample_request :: "nat \<Rightarrow> audit_request" where
  "sample_request n = \<lparr>ar_customer_id = 7, ar_trace_id = n, ar_actor_id = ''user:1'',
     ar_event_type = ''sample.v1'', ar_workspace_id = None, ar_safe_metadata = [(''n'', JInt (int n))]\<rparr>"

definition sample_log :: "nat \<Rightarrow> db" where
  "sample_log n = fold append_request (map sample_request [0..<n]) empty_db"

lemma audit_inv_empty: "strict_mono (clock s) \<Longrightarrow> audit_events s = [] \<Longrightarrow> audit_chain_tips s = Map.empty \<Longrightarrow> audit_inv s"
  by (simp add: audit_inv_def customer_log_def tip_hash_def)

lemma audit_inv_sample: "audit_inv (sample_log n)"
  unfolding sample_log_def by (rule chain.run_good, rule audit_inv_empty) (simp_all add: strict_mono_def)

lemma fold_append_sha: "sha256 (fold append_request rs s) = sha256 s"
  by (rule fold_frame) simp

lemma fold_append_clock: "clock (fold append_request rs s) = clock s"
  by (rule fold_frame) (simp add: append_request_def)

text \<open>
  C1: however events are recorded, for however many customers interleaved, as long as the clock
  gives every event a later time than the one before, the chain of every customer verifies afterwards and the verifier has looked at exactly the events
  recorded for that customer.
\<close>

theorem recorded_log_verifies:
  assumes "strict_mono (clock s)" "audit_events s = []" "audit_chain_tips s = Map.empty"
  shows "verify_audit_chain c (fold append_request rs s)
       = \<lparr>checked_count = length (filter (\<lambda>r. ar_customer_id r = c) rs), violations = []\<rparr>"
proof -
  let ?t = "fold append_request rs s"
  have inv: "audit_inv ?t" by (intro chain.run_good audit_inv_empty assms)
  have "customer_log c s = []" by (simp add: customer_log_def assms(2))
  with chain.run_length [of c rs s]
  have "length (customer_log c ?t) = length (filter (\<lambda>r. ar_customer_id r = c) rs)" by simp
  then show ?thesis
    by (simp add: verify_audit_chain_def audit_inv_customer_log [OF inv] audit_walk_Nil_iff)
qed

theorem recorded_log_verifies_witness:
  "verify_audit_chain 7 (fold append_request [sample_request 0, sample_request 1] empty_db)
     = \<lparr>checked_count = 2, violations = []\<rparr>"
  by (subst recorded_log_verifies) (simp_all add: strict_mono_def sample_request_def)

lemma linked_content_head:
  assumes "linked sha prev es" "linked sha prev es'" "map event_content es = map event_content es'"
  shows "last_hash prev es = last_hash prev es'"
  using assms
proof (induction es arbitrary: prev es')
  case (Cons e es)
  then obtain e' fs where es': "es' = e' # fs" by (cases es') auto
  with Cons.prems have "event_text e = event_text e'" by (simp add: event_text_eq_iff)
  with Cons.prems es' have "ae_hash e = ae_hash e'" by (simp add: recompute_event_text)
  with Cons es' show ?case by simp
qed simp

lemma sample_log_two: "\<exists>e f. customer_log 7 (sample_log 2) = [e, f]"
proof -
  have "length (customer_log 7 (sample_log 2)) = 2"
    using chain.run_length [of 7 "map sample_request [0..<2]" empty_db]
    by (simp add: sample_log_def customer_log_def sample_request_def numeral_2_eq_2)
  then show ?thesis by (metis length_Suc_conv length_0_conv numeral_2_eq_2)
qed

text \<open>A log under other row identifiers, each row inserted a microsecond later: no hash covers either.\<close>

definition relabelled :: "db \<Rightarrow> db" where
  "relabelled s = s\<lparr>audit_events :=
     map (\<lambda>e. e\<lparr>ae_id := ae_id e + 10, ae_created_at := ae_created_at e + 1\<rparr>) (audit_events s)\<rparr>"

lemma relabelled_linked:
  "linked sha prev (map (\<lambda>e. e\<lparr>ae_id := f e, ae_created_at := g e\<rparr>) es) = linked sha prev es"
  by (induction es arbitrary: prev) (simp_all add: recompute_event_hash_def)

lemma relabelled_log:
  "customer_log c (relabelled s) = map (\<lambda>e. e\<lparr>ae_id := ae_id e + 10, ae_created_at := ae_created_at e + 1\<rparr>) (customer_log c s)"
  by (simp add: customer_log_def relabelled_def filter_map comp_def)

lemma relabelled_sha: "sha256 (relabelled s) = sha256 s"
  by (simp add: relabelled_def)

lemma relabelled_in_order:
  assumes "audit_inv s"
  shows "sort_key write_order (customer_log c (relabelled s)) = customer_log c (relabelled s)"
proof -
  have "sorted_wrt (<) (map ae_created_at (customer_log c s))"
    using assms sorted_wrt_map_filter by (auto simp: audit_inv_def customer_log_def)
  then show ?thesis
    by (intro sorted_write_order) (simp add: relabelled_log sorted_wrt_map add1_zle_eq)
qed

text \<open>
  C2: the newest hash commits to what the history says.  Two verifying logs of a customer end
  in the same hash exactly when they agree, row by row and in order, on every hashed column
  (customer, workspace, trace, actor, event type, time of the event, metadata, previous hash),
  so that nothing was inserted, deleted, altered or reordered in them, unless two of their rows
  are a collision of SHA-256.  A row's identifier and its \<open>created_at\<close> are in no hash: they are
  not committed.
\<close>

theorem newest_hash_commits:
  assumes "sha256 t = sha256 s"
    and "verification_ok (verify_audit_chain c s)" "verification_ok (verify_audit_chain c t)"
  shows "(last_hash None (sort_key write_order (customer_log c s))
        = last_hash None (sort_key write_order (customer_log c t))
       \<longleftrightarrow> map event_content (sort_key write_order (customer_log c s))
        = map event_content (sort_key write_order (customer_log c t)))
     \<or> rows_collide (sha256 s) (customer_log c s) (customer_log c t)"
proof -
  let ?xs = "sort_key write_order (customer_log c s)" and ?ys = "sort_key write_order (customer_log c t)"
  have linked: "linked (sha256 s) None ?xs" "linked (sha256 s) None ?ys"
    using assms by (simp_all add: verify_ok_iff)
  from linked_head_unique [OF linked] linked_content_head [OF linked]
  show ?thesis by (auto simp: rows_collide_def)
qed

theorem newest_hash_commits_witness:
  "customer_log 7 (relabelled (sample_log 2)) \<noteq> customer_log 7 (sample_log 2)
   \<and> ((last_hash None (sort_key write_order (customer_log 7 (sample_log 2)))
        = last_hash None (sort_key write_order (customer_log 7 (relabelled (sample_log 2))))
       \<longleftrightarrow> map event_content (sort_key write_order (customer_log 7 (sample_log 2)))
        = map event_content (sort_key write_order (customer_log 7 (relabelled (sample_log 2)))))
     \<or> rows_collide (sha256 (sample_log 2)) (customer_log 7 (sample_log 2))
         (customer_log 7 (relabelled (sample_log 2))))"
proof
  obtain e f where "customer_log 7 (sample_log 2) = [e, f]" using sample_log_two by blast
  then show "customer_log 7 (relabelled (sample_log 2)) \<noteq> customer_log 7 (sample_log 2)"
    by (auto simp: relabelled_log dest: arg_cong [where f = ae_id])
  have "verification_ok (verify_audit_chain 7 (relabelled (sample_log 2)))"
    using audit_inv_customer_log(2) [OF audit_inv_sample [of 2], of 7]
    by (simp add: verify_ok_iff relabelled_in_order [OF audit_inv_sample])
      (simp add: relabelled_log relabelled_linked relabelled_sha)
  from newest_hash_commits [OF relabelled_sha audit_inv_verify_ok [OF audit_inv_sample] this]
  show "(last_hash None (sort_key write_order (customer_log 7 (sample_log 2)))
        = last_hash None (sort_key write_order (customer_log 7 (relabelled (sample_log 2))))
       \<longleftrightarrow> map event_content (sort_key write_order (customer_log 7 (sample_log 2)))
        = map event_content (sort_key write_order (customer_log 7 (relabelled (sample_log 2)))))
     \<or> rows_collide (sha256 (sample_log 2)) (customer_log 7 (sample_log 2))
         (customer_log 7 (relabelled (sample_log 2)))" .
qed

text \<open>
  C3: deleting a row that is not the newest of its customer breaks verification, or the
  log and its remains hold a collision of SHA-256.
\<close>

theorem deletion_is_detected:
  assumes "audit_inv s" "customer_log c s = pre @ e # post" "post \<noteq> []"
    and "customer_log c t = pre @ post" "sha256 t = sha256 s"
  shows "\<not> verification_ok (verify_audit_chain c t) \<or> rows_collide (sha256 s) (customer_log c s) (customer_log c t)"
proof (rule disjCI)
  assume no: "\<not> rows_collide (sha256 s) (customer_log c s) (customer_log c t)"
  have "sorted_wrt (<) (map ae_created_at (pre @ e # post))"
    using assms(1,2) sorted_wrt_map_filter unfolding audit_inv_def customer_log_def by metis
  then have "sorted_wrt (<) (map ae_created_at (pre @ post))"
    by (simp add: sorted_wrt_append)
  then have sorted: "sort_key write_order (customer_log c t) = pre @ post"
    using sorted_write_order assms(4) by simp
  have same: "last_hash None (pre @ e # post) = last_hash None (pre @ post)"
    using assms(3) by (simp add: last_hash_def)
  show "\<not> verification_ok (verify_audit_chain c t)"
  proof
    assume "verification_ok (verify_audit_chain c t)"
    then have "linked (sha256 s) None (pre @ post)"
      using sorted assms(5) by (simp add: verify_ok_iff)
    from linked_head_unique [OF _ this same] audit_inv_customer_log(2) [OF assms(1), of c] no
    have "map event_content (pre @ e # post) = map event_content (pre @ post)"
      by (simp add: assms(2,4))
    then show False by (metis length_map length_append length_Cons n_not_Suc_n add_Suc_right)
  qed
qed

lemma customer_log_set: "(\<forall>e \<in> set es. ae_customer_id e = c) \<Longrightarrow> customer_log c (s\<lparr>audit_events := es\<rparr>) = es"
  by (simp add: customer_log_def)

lemma customer_log_mem: "e \<in> set (customer_log c s) \<Longrightarrow> ae_customer_id e = c"
  by (simp add: customer_log_def)

theorem deletion_is_detected_witness:
  "\<exists>e f. customer_log 7 (sample_log 2) = [e, f] \<and>
     (\<not> verification_ok (verify_audit_chain 7 ((sample_log 2)\<lparr>audit_events := [f]\<rparr>))
      \<or> rows_collide (sha256 (sample_log 2)) [e, f] [f])"
proof -
  obtain e f where ef: "customer_log 7 (sample_log 2) = [e, f]" using sample_log_two by blast
  then have f: "customer_log 7 ((sample_log 2)\<lparr>audit_events := [f]\<rparr>) = [f]"
    using customer_log_mem [of f 7 "sample_log 2"] by (simp add: customer_log_def)
  show ?thesis
    using deletion_is_detected [of "sample_log 2" 7 "[]" e "[f]" "(sample_log 2)\<lparr>audit_events := [f]\<rparr>"]
    by (simp add: ef f audit_inv_sample)
qed

text \<open>
  Deleting the newest rows of a customer is not noticed: whatever the tip row says,
  every prefix of an intact log verifies (the verifier never reads the tip).
\<close>

theorem truncation_is_accepted:
  assumes "audit_inv s" "customer_log c s = pre @ post" "customer_log c t = pre" "sha256 t = sha256 s"
  shows "verification_ok (verify_audit_chain c t)"
proof -
  have "sorted_wrt (<) (map ae_created_at (pre @ post))"
    using assms(1,2) sorted_wrt_map_filter unfolding audit_inv_def customer_log_def by metis
  then have "sort_key write_order (customer_log c t) = pre"
    using sorted_write_order assms(3) by (simp add: sorted_wrt_append)
  then show ?thesis
    using audit_inv_customer_log(2) [OF assms(1), of c] assms(2,4) by (simp add: verify_ok_iff linked_append)
qed

theorem truncation_is_accepted_witness:
  "verification_ok (verify_audit_chain 7 ((sample_log 2)\<lparr>audit_events := []\<rparr>))
   \<and> tip_hash ((sample_log 2)\<lparr>audit_events := []\<rparr>) 7 \<noteq> None"
proof
  show "verification_ok (verify_audit_chain 7 ((sample_log 2)\<lparr>audit_events := []\<rparr>))"
    by (rule truncation_is_accepted [of "sample_log 2" 7 "[]" "customer_log 7 (sample_log 2)"])
      (simp_all add: audit_inv_sample customer_log_def)
  obtain e f where "customer_log 7 (sample_log 2) = [e, f]" using sample_log_two by blast
  moreover have "tip_hash (sample_log 2) 7 = last_hash None (customer_log 7 (sample_log 2))"
    using audit_inv_sample [of 2] by (simp add: audit_inv_def)
  ultimately show "tip_hash ((sample_log 2)\<lparr>audit_events := []\<rparr>) 7 \<noteq> None"
    by (simp add: tip_hash_def)
qed

text \<open>
  C4: altering what one row of an intact log says, its two hash columns kept, is reported as
  exactly one violation, of that row; the rows after it are not blamed.  Otherwise the old
  and the new row are a collision of SHA-256.
\<close>

theorem tampering_is_reported_once:
  assumes "audit_inv s" "customer_log c s = pre @ e # post" "customer_log c t = pre @ e' # post"
    and "sha256 t = sha256 s" "ae_created_at e' = ae_created_at e"
    and "ae_prev_hash e' = ae_prev_hash e" "ae_hash e' = ae_hash e" "event_content e' \<noteq> event_content e"
  shows "violations (verify_audit_chain c t) = [\<lparr>acv_event_id = ae_id e', acv_reason = ''hash_mismatch''\<rparr>]
     \<or> rows_collide (sha256 s) [e] [e']"
proof -
  have linked: "linked (sha256 s) None (pre @ e # post)"
    using audit_inv_customer_log(2) [OF assms(1), of c] assms(2) by simp
  have walk: "audit_walk (sha256 s) None pre = []"
    "audit_walk (sha256 s) (Some (ae_hash e)) post = []" "ae_prev_hash e = last_hash None pre"
    using linked by (simp_all add: linked_append audit_walk_Nil_iff)
  have "sort_key write_order (customer_log c t) = pre @ e' # post"
    using customer_log_in_order [OF assms(1,2,3,5)] assms(3) by simp
  then have v: "violations (verify_audit_chain c t)
      = (if recompute_event_hash (sha256 s) e' \<noteq> ae_hash e'
         then [\<lparr>acv_event_id = ae_id e', acv_reason = ''hash_mismatch''\<rparr>] else [])"
    using walk assms(6,7) by (simp add: verify_audit_chain_def assms(4) audit_walk_append)
  show ?thesis
  proof (cases "recompute_event_hash (sha256 s) e' = ae_hash e'")
    case True
    have "recompute_event_hash (sha256 s) e = ae_hash e" using linked by (simp add: linked_append)
    with True assms(7,8) have "rows_collide (sha256 s) [e] [e']"
      by (simp add: rows_collide_def recompute_event_text event_text_eq_iff)
    then show ?thesis ..
  qed (simp add: v)
qed

theorem tampering_is_reported_once_witness:
  "\<exists>e f. customer_log 7 (sample_log 2) = [e, f] \<and>
     (violations (verify_audit_chain 7 ((sample_log 2)\<lparr>audit_events := [e\<lparr>ae_actor_id := ''user:2''\<rparr>, f]\<rparr>))
        = [\<lparr>acv_event_id = ae_id e, acv_reason = ''hash_mismatch''\<rparr>]
      \<or> rows_collide (sha256 (sample_log 2)) [e] [e\<lparr>ae_actor_id := ''user:2''\<rparr>])"
proof -
  obtain e f where ef: "customer_log 7 (sample_log 2) = [e, f]" using sample_log_two by blast
  let ?e = "e\<lparr>ae_actor_id := ''user:2''\<rparr>"
  have who: "ae_actor_id e = ''user:1''" "ae_customer_id e = 7" "ae_customer_id f = 7"
  proof -
    have "\<forall>x \<in> set (audit_events (sample_log 2)). ae_actor_id x = ''user:1''"
      by (simp add: sample_log_def numeral_2_eq_2 append_request_def sample_request_def effect)
    moreover have "e \<in> set (audit_events (sample_log 2))"
      using ef by (metis customer_log_def filter_is_subset list.set_intros(1) subsetD)
    ultimately show "ae_actor_id e = ''user:1''" by blast
  qed (use ef customer_log_mem [of _ 7 "sample_log 2"] in simp_all)
  have "customer_log 7 ((sample_log 2)\<lparr>audit_events := [?e, f]\<rparr>) = [] @ ?e # [f]"
    by (simp add: customer_log_def who)
  from tampering_is_reported_once [where e = e, OF audit_inv_sample _ this] ef who
  show ?thesis by (simp add: event_content_def)
qed

text \<open>
  C27: following the cursor page by page, with any page size, shows every event of the
  customer that passes the filter, once, newest first.  A client that follows it until a page is
  empty has seen them all after at most as many pages as there are events, and one more.
\<close>

theorem pages_cover_log:
  assumes "distinct (map ae_id (audit_events s))" "0 < n" "length (newest_first c f s) < fuel"
  shows "read_pages fuel c f n None s = newest_first c f s"
proof -
  let ?D = "newest_first c f s" and ?m = "min n max_page_size"
  obtain fuel' where fuel: "fuel = Suc fuel'" using assms(3) by (cases fuel) auto
  show ?thesis
  proof (cases "?D = []")
    case True
    then show ?thesis by (simp add: fuel list_audit_events_first)
  next
    case False
    let ?j = "min ?m (length ?D)"
    have pos: "0 < ?m" using assms(2) by (simp add: max_page_size_def)
    have last: "last (take ?m ?D) = ?D ! (?j - 1)"
      using last_take_drop [of 0 ?D ?m] False pos by simp
    have "read_pages fuel' c f n (Some (ae_id (?D ! (?j - 1)))) s = drop ?j ?D"
      using assms fuel False pos by (intro read_pages_after) auto
    moreover have "take ?m ?D @ drop ?j ?D = ?D"
      by (cases "?m \<le> length ?D") (simp_all add: min_def)
    moreover have "take ?m ?D \<noteq> []" using False pos by simp
    ultimately show ?thesis
      by (simp only: fuel read_pages.simps list_audit_events_first sum.case last if_False)
  qed
qed

definition no_filter :: audit_filter where
  "no_filter = \<lparr>af_workspace_id = None, af_actor_id = None, af_event_type = None, af_trace_id = None\<rparr>"

theorem pages_cover_log_witness:
  "read_pages 3 7 no_filter 1 None (sample_log 2) = newest_first 7 no_filter (sample_log 2)"
proof (rule pages_cover_log)
  show "distinct (map ae_id (audit_events (sample_log 2)))"
    by (simp add: sample_log_def numeral_2_eq_2 append_request_def sample_request_def effect)
  obtain e f where "customer_log 7 (sample_log 2) = [e, f]" using sample_log_two by blast
  then show "length (newest_first 7 no_filter (sample_log 2)) < 3"
    using length_filter_le [of "matches no_filter" "customer_log 7 (sample_log 2)"]
    by (simp add: newest_first_def)
qed simp

end
