(* ===== verification/Access.thy ===== *)
theory Access
  imports Runtime
begin

text \<open>
  \<open>doda/domain/security/roles.py\<close> and \<open>doda/application/authz_service.py\<close>: who a user is in
  a workspace or a customer, and what each role may do.  A check returns \<open>None\<close> to let the
  caller go on or the error it raises.
\<close>

section \<open>Roles\<close>

datatype customer_role = CR_OWNER | CR_MEMBER | CR_AUDITOR

datatype workspace_role = WR_ADMIN | WR_MEMBER

primrec customer_role_value :: "customer_role \<Rightarrow> string" where
  "customer_role_value CR_OWNER = ''customer_owner''"
| "customer_role_value CR_MEMBER = ''member''"
| "customer_role_value CR_AUDITOR = ''auditor''"

primrec workspace_role_value :: "workspace_role \<Rightarrow> string" where
  "workspace_role_value WR_ADMIN = ''workspace_admin''"
| "workspace_role_value WR_MEMBER = ''member''"

definition parse_customer_role :: "string \<Rightarrow> customer_role option" where
  "parse_customer_role v =
     (if v = ''customer_owner'' then Some CR_OWNER
      else if v = ''member'' then Some CR_MEMBER
      else if v = ''auditor'' then Some CR_AUDITOR else None)"

definition parse_workspace_role :: "string \<Rightarrow> workspace_role option" where
  "parse_workspace_role v =
     (if v = ''workspace_admin'' then Some WR_ADMIN
      else if v = ''member'' then Some WR_MEMBER else None)"

definition roles_that_may_propose_actions :: "workspace_role list" where
  "roles_that_may_propose_actions = [WR_MEMBER, WR_ADMIN]"

definition roles_that_may_approve_another_actors_action :: "workspace_role list" where
  "roles_that_may_approve_another_actors_action = [WR_ADMIN]"

definition user_actor :: "uuid \<Rightarrow> string" where
  "user_actor user_id = ''user:'' @ uuid_str user_id"

lemma user_actor_inj [simp]: "user_actor a = user_actor b \<longleftrightarrow> a = b"
  by (simp add: user_actor_def)

section \<open>Contexts\<close>

record workspace_context =
  wc_customer_id :: uuid
  wc_workspace_id :: uuid
  wc_user_id :: uuid
  wc_role :: workspace_role

record customer_context =
  cc_customer_id :: uuid
  cc_user_id :: uuid
  cc_role :: customer_role

definition customer_role_string :: "uuid \<Rightarrow> uuid \<Rightarrow> db \<Rightarrow> string option" where
  "customer_role_string user_id customer_id s =
     map_option cm_role
       (tget (\<lambda>m. (cm_customer_id m, cm_user_id m)) (customer_id, user_id) (customer_memberships s))"

definition is_customer_owner :: "uuid \<Rightarrow> uuid \<Rightarrow> db \<Rightarrow> bool" where
  "is_customer_owner user_id customer_id s \<longleftrightarrow>
     customer_role_string user_id customer_id s = Some (customer_role_value CR_OWNER)"

text \<open>The join of \<open>workspace_memberships\<close> with \<open>customer_memberships\<close>.\<close>

definition membership_join ::
  "uuid \<Rightarrow> uuid \<Rightarrow> db \<Rightarrow> (workspace_membership_row \<times> customer_membership_row) list" where
  "membership_join user_id workspace_id s =
     [(m, cm). m \<leftarrow> workspace_memberships s, cm \<leftarrow> customer_memberships s,
        cm_id cm = wm_customer_membership_id m \<and> wm_workspace_id m = workspace_id
        \<and> cm_user_id cm = user_id]"

definition get_workspace_context ::
  "uuid \<Rightarrow> uuid \<Rightarrow> bool \<Rightarrow> db \<Rightarrow> app_error + workspace_context" where
  "get_workspace_context user_id workspace_id allow_archived s =
     (case tget ws_id workspace_id (workspace_workspaces s) of
        None \<Rightarrow> Inl (AuthorizationError DENY ''workspace not found or archived'')
      | Some workspace \<Rightarrow>
          if ws_archived_at workspace \<noteq> None \<and> \<not> allow_archived
          then Inl (AuthorizationError DENY ''workspace not found or archived'')
          else if is_customer_owner user_id (ws_customer_id workspace) s
          then Inr \<lparr>wc_customer_id = ws_customer_id workspace, wc_workspace_id = workspace_id,
                    wc_user_id = user_id, wc_role = WR_ADMIN\<rparr>
          else (case membership_join user_id workspace_id s of
                  [] \<Rightarrow> Inl (AuthorizationError DENY ''no workspace membership'')
                | (membership, cm) # _ \<Rightarrow>
                    if cm_role cm = customer_role_value CR_AUDITOR
                    then Inl (AuthorizationError DENY ''auditor holds no workspace role'')
                    else (case parse_workspace_role (wm_role membership) of
                            None \<Rightarrow> Inl (Unhandled ''ValueError'')
                          | Some role \<Rightarrow>
                              Inr \<lparr>wc_customer_id = ws_customer_id workspace, wc_workspace_id = workspace_id,
                                   wc_user_id = user_id, wc_role = role\<rparr>)))"

definition get_customer_context :: "uuid \<Rightarrow> uuid \<Rightarrow> db \<Rightarrow> app_error + customer_context" where
  "get_customer_context user_id customer_id s =
     (case tget cus_id customer_id (customer_customers s) of
        None \<Rightarrow> Inl (AuthorizationError DENY ''customer not found'')
      | Some _ \<Rightarrow>
          (case customer_role_string user_id customer_id s of
             None \<Rightarrow> Inl (AuthorizationError DENY ''no customer membership'')
           | Some r \<Rightarrow>
               (case parse_customer_role r of
                  None \<Rightarrow> Inl (Unhandled ''ValueError'')
                | Some role \<Rightarrow> Inr \<lparr>cc_customer_id = customer_id, cc_user_id = user_id, cc_role = role\<rparr>)))"

section \<open>Checks of a workspace context\<close>

definition deny :: "string \<Rightarrow> app_error option" where
  "deny reason = Some (AuthorizationError DENY reason)"

abbreviation role_text :: "workspace_context \<Rightarrow> string" where
  "role_text ctx \<equiv> workspace_role_value (wc_role ctx)"

definition authorize_propose_action :: "workspace_context \<Rightarrow> app_error option" where
  "authorize_propose_action ctx =
     (if wc_role ctx \<notin> set roles_that_may_propose_actions
      then deny (''role '' @ role_text ctx @ '' may not propose actions'') else None)"

definition authorize_consume_approval ::
  "workspace_context \<Rightarrow> action_row \<Rightarrow> auth_strength \<Rightarrow> app_error option" where
  "authorize_consume_approval ctx action strength =
     (let is_self_approval = (act_actor_id action = user_actor (wc_user_id ctx)) in
      if \<not> is_self_approval \<and> wc_role ctx \<notin> set roles_that_may_approve_another_actors_action
      then deny (''role '' @ role_text ctx @ '' may not approve this action'')
      else if strength \<noteq> AAL2
      then Some (AuthorizationError STEP_UP_REQUIRED ''R3+ approval requires fresh MFA (FR-AUTH-004)'')
      else None)"

definition authorize_cancel_action :: "workspace_context \<Rightarrow> action_row \<Rightarrow> app_error option" where
  "authorize_cancel_action ctx action =
     (let is_own_action = (act_actor_id action = user_actor (wc_user_id ctx)) in
      if \<not> is_own_action \<and> wc_role ctx \<notin> set roles_that_may_approve_another_actors_action
      then deny (''role '' @ role_text ctx @ '' may not cancel this action'') else None)"

definition authorize_complete_compensation :: "workspace_context \<Rightarrow> app_error option" where
  "authorize_complete_compensation ctx =
     (if wc_role ctx \<noteq> WR_ADMIN
      then deny (''role '' @ role_text ctx @ '' may not complete a compensation'') else None)"

definition authorize_create_task :: "workspace_context \<Rightarrow> app_error option" where
  "authorize_create_task ctx =
     (if wc_role ctx \<notin> set [WR_MEMBER, WR_ADMIN]
      then deny (''role '' @ role_text ctx @ '' may not create tasks'') else None)"

definition authorize_use_chat :: "workspace_context \<Rightarrow> app_error option" where
  "authorize_use_chat ctx =
     (if wc_role ctx \<notin> set [WR_MEMBER, WR_ADMIN]
      then deny (''role '' @ role_text ctx @ '' may not use chat'') else None)"

definition authorize_manage_workspace_members :: "workspace_context \<Rightarrow> app_error option" where
  "authorize_manage_workspace_members ctx =
     (if wc_role ctx \<noteq> WR_ADMIN
      then deny (''role '' @ role_text ctx @ '' may not manage workspace members'') else None)"

definition authorize_archive_workspace :: "workspace_context \<Rightarrow> app_error option" where
  "authorize_archive_workspace ctx =
     (if wc_role ctx \<noteq> WR_ADMIN
      then deny (''role '' @ role_text ctx @ '' may not archive this workspace'') else None)"

definition authorize_manage_workspace_settings :: "workspace_context \<Rightarrow> app_error option" where
  "authorize_manage_workspace_settings ctx =
     (if wc_role ctx \<noteq> WR_ADMIN
      then deny (''role '' @ role_text ctx @ '' may not manage workspace settings'') else None)"

definition authorize_task_mutation :: "workspace_context \<Rightarrow> task_row \<Rightarrow> app_error option" where
  "authorize_task_mutation ctx task =
     (let is_owner = (tsk_owner_id task = user_actor (wc_user_id ctx)) in
      if \<not> is_owner \<and> wc_role ctx \<noteq> WR_ADMIN
      then deny ''only the task owner or a workspace admin may change this task'' else None)"

definition authorize_engage_workspace_kill_switch :: "workspace_context \<Rightarrow> app_error option" where
  "authorize_engage_workspace_kill_switch ctx =
     (if wc_role ctx \<noteq> WR_ADMIN
      then deny (''role '' @ role_text ctx @ '' may not operate the workspace kill switch'') else None)"

definition authorize_manage_workspace_ai_preference :: "workspace_context \<Rightarrow> app_error option" where
  "authorize_manage_workspace_ai_preference ctx =
     (if wc_role ctx \<noteq> WR_ADMIN
      then deny (''role '' @ role_text ctx @ '' may not set the workspace's AI preference'') else None)"

section \<open>Checks of a customer context\<close>

abbreviation customer_role_text :: "customer_context \<Rightarrow> string" where
  "customer_role_text ctx \<equiv> customer_role_value (cc_role ctx)"

definition authorize_manage_customer_members :: "customer_context \<Rightarrow> app_error option" where
  "authorize_manage_customer_members ctx =
     (if cc_role ctx \<noteq> CR_OWNER
      then deny (''role '' @ customer_role_text ctx @ '' may not manage customer members'') else None)"

definition authorize_engage_customer_kill_switch :: "customer_context \<Rightarrow> app_error option" where
  "authorize_engage_customer_kill_switch ctx =
     (if cc_role ctx \<noteq> CR_OWNER
      then deny (''role '' @ customer_role_text ctx @ '' may not operate the customer kill switch'') else None)"

definition authorize_view_customer_audit :: "customer_context \<Rightarrow> app_error option" where
  "authorize_view_customer_audit ctx =
     (if cc_role ctx \<notin> set [CR_OWNER, CR_AUDITOR]
      then deny (''role '' @ customer_role_text ctx @ '' may not view customer-wide audit'') else None)"

definition authorize_view_archived_workspaces :: "customer_context \<Rightarrow> app_error option" where
  "authorize_view_archived_workspaces ctx =
     (if cc_role ctx \<noteq> CR_OWNER
      then deny (''role '' @ customer_role_text ctx @ '' may not view archived workspaces'') else None)"

definition authorize_manage_ai_provider_settings :: "customer_context \<Rightarrow> app_error option" where
  "authorize_manage_ai_provider_settings ctx =
     (if cc_role ctx \<noteq> CR_OWNER
      then deny (''role '' @ customer_role_text ctx @ '' may not manage AI provider settings'') else None)"

definition authorize_view_ai_budget :: "customer_context \<Rightarrow> app_error option" where
  "authorize_view_ai_budget ctx =
     (if cc_role ctx \<notin> set [CR_OWNER, CR_AUDITOR]
      then deny (''role '' @ customer_role_text ctx @ '' may not view the AI budget'') else None)"

section \<open>Lemmas\<close>

lemma customer_role_value_inj [simp]: "customer_role_value a = customer_role_value b \<longleftrightarrow> a = b"
  by (cases a; cases b) simp_all

lemma parse_customer_role_value [simp]: "parse_customer_role (customer_role_value r) = Some r"
  by (cases r) (simp_all add: parse_customer_role_def)

lemma parse_workspace_role_value [simp]: "parse_workspace_role (workspace_role_value r) = Some r"
  by (cases r) (simp_all add: parse_workspace_role_def)

lemma parse_workspace_role_SomeD: "parse_workspace_role v = Some r \<Longrightarrow> v = workspace_role_value r"
  by (auto simp: parse_workspace_role_def split: if_splits)

lemma parse_customer_role_SomeD: "parse_customer_role v = Some r \<Longrightarrow> v = customer_role_value r"
  by (auto simp: parse_customer_role_def split: if_splits)

text \<open>The unique constraints of the membership tables.\<close>

definition memberships_unique :: "db \<Rightarrow> bool" where
  "memberships_unique s \<longleftrightarrow>
     distinct (map cm_id (customer_memberships s))
   \<and> distinct (map (\<lambda>m. (cm_customer_id m, cm_user_id m)) (customer_memberships s))
   \<and> distinct (map (\<lambda>m. (wm_customer_membership_id m, wm_workspace_id m)) (workspace_memberships s))
   \<and> distinct (map ws_id (workspace_workspaces s))"

text \<open>
  A workspace membership refers to a customer membership of the workspace's own customer
  (every operation that inserts one checks it).
\<close>

definition memberships_in_tenant :: "db \<Rightarrow> bool" where
  "memberships_in_tenant s \<longleftrightarrow>
     (\<forall>m \<in> set (workspace_memberships s). \<forall>cm \<in> set (customer_memberships s).
        \<forall>w \<in> set (workspace_workspaces s).
          cm_id cm = wm_customer_membership_id m \<longrightarrow> ws_id w = wm_workspace_id m \<longrightarrow>
          cm_customer_id cm = ws_customer_id w)"

lemma membership_join_mem:
  "(m, cm) \<in> set (membership_join u w s) \<longleftrightarrow>
     m \<in> set (workspace_memberships s) \<and> cm \<in> set (customer_memberships s)
   \<and> cm_id cm = wm_customer_membership_id m \<and> wm_workspace_id m = w \<and> cm_user_id cm = u"
  by (auto simp: membership_join_def)

lemma unique_by_key: "distinct (map f xs) \<Longrightarrow> x \<in> set xs \<Longrightarrow> y \<in> set xs \<Longrightarrow> f x = f y \<Longrightarrow> x = y"
  by (auto simp: distinct_map inj_on_def)

lemma membership_join_unique:
  assumes "memberships_unique s" "memberships_in_tenant s"
    and "w \<in> set (workspace_workspaces s)"
    and "(m, cm) \<in> set (membership_join u (ws_id w) s)" "(m', cm') \<in> set (membership_join u (ws_id w) s)"
  shows "m = m' \<and> cm = cm'"
proof -
  have "cm_customer_id cm = ws_customer_id w" "cm_customer_id cm' = ws_customer_id w"
    using assms(2-5) unfolding memberships_in_tenant_def membership_join_mem by metis+
  then have "cm = cm'"
    using assms(1,4,5) unique_by_key [of "\<lambda>m. (cm_customer_id m, cm_user_id m)" "customer_memberships s" cm cm']
    by (simp add: memberships_unique_def membership_join_mem)
  then show ?thesis
    using assms(1,4,5)
      unique_by_key [of "\<lambda>m. (wm_customer_membership_id m, wm_workspace_id m)" "workspace_memberships s" m m']
    by (simp add: memberships_unique_def membership_join_mem)
qed


lemma is_customer_owner_iff:
  assumes "memberships_unique s"
  shows "is_customer_owner u c s \<longleftrightarrow>
     (\<exists>m \<in> set (customer_memberships s).
        cm_customer_id m = c \<and> cm_user_id m = u \<and> cm_role m = customer_role_value CR_OWNER)"
proof -
  let ?key = "\<lambda>m. (cm_customer_id m, cm_user_id m)"
  have "distinct (map ?key (customer_memberships s))"
    using assms by (simp add: memberships_unique_def)
  from tget_distinct [OF this] show ?thesis
    unfolding is_customer_owner_def customer_role_string_def by (force dest: tget_SomeD)
qed

text \<open>What gives a user a role in a workspace: the abstract specification.\<close>

definition holds_workspace_role :: "uuid \<Rightarrow> workspace_row \<Rightarrow> workspace_role \<Rightarrow> db \<Rightarrow> bool" where
  "holds_workspace_role u w r s \<longleftrightarrow>
     (if \<exists>cm \<in> set (customer_memberships s). cm_customer_id cm = ws_customer_id w \<and> cm_user_id cm = u
             \<and> cm_role cm = customer_role_value CR_OWNER
      then r = WR_ADMIN
      else \<exists>m \<in> set (workspace_memberships s). \<exists>cm \<in> set (customer_memberships s).
             wm_workspace_id m = ws_id w \<and> wm_customer_membership_id m = cm_id cm \<and> cm_user_id cm = u
           \<and> cm_role cm \<noteq> customer_role_value CR_AUDITOR \<and> wm_role m = workspace_role_value r)"

lemma holds_workspace_role_owner:
  assumes "memberships_unique s"
  shows "holds_workspace_role u w r s \<longleftrightarrow>
     (if is_customer_owner u (ws_customer_id w) s then r = WR_ADMIN
      else \<exists>m \<in> set (workspace_memberships s). \<exists>cm \<in> set (customer_memberships s).
             wm_workspace_id m = ws_id w \<and> wm_customer_membership_id m = cm_id cm \<and> cm_user_id cm = u
           \<and> cm_role cm \<noteq> customer_role_value CR_AUDITOR \<and> wm_role m = workspace_role_value r)"
  unfolding holds_workspace_role_def is_customer_owner_iff [OF assms] by (rule refl)

lemma get_workspace_context_spec:
  assumes "memberships_unique s" "memberships_in_tenant s"
  shows "get_workspace_context u w allow s = Inr ctx \<longleftrightarrow>
     (\<exists>ws \<in> set (workspace_workspaces s). \<exists>r.
        ws_id ws = w \<and> (ws_archived_at ws = None \<or> allow) \<and> holds_workspace_role u ws r s
      \<and> ctx = \<lparr>wc_customer_id = ws_customer_id ws, wc_workspace_id = w, wc_user_id = u, wc_role = r\<rparr>)"
    (is "?lhs \<longleftrightarrow> ?rhs")
proof
  assume ?lhs
  then show ?rhs
    unfolding get_workspace_context_def holds_workspace_role_owner [OF assms(1)]
    by (auto split: option.splits if_splits list.splits prod.splits dest!: tget_SomeD
        parse_workspace_role_SomeD intro!: membership_join_mem [THEN iffD1])
      (metis list.set_intros(1) membership_join_mem)+
next
  assume ?rhs
  then obtain ws r where ws: "ws \<in> set (workspace_workspaces s)" "ws_id ws = w"
      "ws_archived_at ws = None \<or> allow" and role: "holds_workspace_role u ws r s"
    and ctx: "ctx = \<lparr>wc_customer_id = ws_customer_id ws, wc_workspace_id = w, wc_user_id = u, wc_role = r\<rparr>"
    by blast
  have row: "tget ws_id w (workspace_workspaces s) = Some ws"
    using assms(1) ws(1,2) tget_distinct [of ws_id "workspace_workspaces s" ws]
    by (simp add: memberships_unique_def)
  show ?lhs
  proof (cases "is_customer_owner u (ws_customer_id ws) s")
    case True
    with role ws(3) show ?thesis
      by (auto simp: get_workspace_context_def row ctx holds_workspace_role_owner [OF assms(1)])
  next
    case False
    with role obtain m cm where mem: "m \<in> set (workspace_memberships s)" "cm \<in> set (customer_memberships s)"
        "wm_workspace_id m = w" "wm_customer_membership_id m = cm_id cm" "cm_user_id cm = u"
      and m: "cm_role cm \<noteq> customer_role_value CR_AUDITOR" "wm_role m = workspace_role_value r"
      unfolding holds_workspace_role_owner [OF assms(1)] ws(2) by auto
    then have in_join: "(m, cm) \<in> set (membership_join u w s)"
      by (simp add: membership_join_mem)
    then obtain m' cm' rest where join: "membership_join u w s = (m', cm') # rest"
      by (cases "membership_join u w s") auto
    have "m' = m \<and> cm' = cm"
      using membership_join_unique [OF assms ws(1), of m' cm' u m cm] in_join join ws(2) by simp
    with m False ws(3) show ?thesis
      by (auto simp: get_workspace_context_def row ctx join)
  qed
qed

section \<open>Properties\<close>

text \<open>
  C5: a user gets a context in a workspace exactly when the workspace exists, is not
  archived (unless the restore flow asks), and the user owns its customer, then as an
  administrator, or holds a membership of it and is not an auditor of the customer, then in
  the membership's role.  Whatever is not granted is refused.
\<close>

theorem workspace_context_iff:
  assumes "memberships_unique s" "memberships_in_tenant s"
  shows "get_workspace_context u w allow s = Inr ctx \<longleftrightarrow>
     (\<exists>ws \<in> set (workspace_workspaces s). \<exists>r.
        ws_id ws = w \<and> (ws_archived_at ws = None \<or> allow) \<and> holds_workspace_role u ws r s
      \<and> ctx = \<lparr>wc_customer_id = ws_customer_id ws, wc_workspace_id = w, wc_user_id = u, wc_role = r\<rparr>)"
  by (rule get_workspace_context_spec [OF assms])

definition sample_access :: db where
  "sample_access = empty_db\<lparr>
     workspace_workspaces := [\<lparr>ws_id = 1, ws_created_at = 0, ws_customer_id = 7, ws_name = ''w'', ws_archived_at = None\<rparr>],
     customer_memberships := [\<lparr>cm_id = 2, cm_created_at = 0, cm_customer_id = 7, cm_user_id = 3, cm_role = ''member''\<rparr>,
       \<lparr>cm_id = 4, cm_created_at = 0, cm_customer_id = 7, cm_user_id = 5, cm_role = ''auditor''\<rparr>],
     workspace_memberships := [\<lparr>wm_id = 6, wm_created_at = 0, wm_customer_id = 7, wm_customer_membership_id = 2,
       wm_workspace_id = 1, wm_role = ''member''\<rparr>, \<lparr>wm_id = 8, wm_created_at = 0, wm_customer_id = 7,
       wm_customer_membership_id = 4, wm_workspace_id = 1, wm_role = ''workspace_admin''\<rparr>]\<rparr>"

text \<open>The same with an owner of the customer and an owner of another one.\<close>

definition sample_owners :: db where
  "sample_owners = sample_access\<lparr>customer_memberships := customer_memberships sample_access @
     [\<lparr>cm_id = 10, cm_created_at = 0, cm_customer_id = 7, cm_user_id = 9, cm_role = ''customer_owner''\<rparr>,
      \<lparr>cm_id = 12, cm_created_at = 0, cm_customer_id = 8, cm_user_id = 11, cm_role = ''customer_owner''\<rparr>]\<rparr>"

theorem workspace_context_iff_witness:
  "get_workspace_context 3 1 False sample_owners
     = Inr \<lparr>wc_customer_id = 7, wc_workspace_id = 1, wc_user_id = 3, wc_role = WR_MEMBER\<rparr>
   \<and> get_workspace_context 9 1 False sample_owners
     = Inr \<lparr>wc_customer_id = 7, wc_workspace_id = 1, wc_user_id = 9, wc_role = WR_ADMIN\<rparr>
   \<and> (\<forall>ctx. get_workspace_context 5 1 False sample_owners \<noteq> Inr ctx)
   \<and> (\<forall>ctx. get_workspace_context 11 1 False sample_owners \<noteq> Inr ctx)"
proof -
  have unique: "memberships_unique sample_owners" and tenant: "memberships_in_tenant sample_owners"
    by (simp_all add: sample_owners_def sample_access_def memberships_unique_def memberships_in_tenant_def)
  note iff = workspace_context_iff [OF unique tenant]
  show ?thesis
    unfolding iff by (auto simp: holds_workspace_role_def sample_owners_def sample_access_def)
qed

end
