(* ===== verification/Interfaces.thy ===== *)
theory Interfaces
  imports Prelude
begin

text \<open>
  Interfaces that several components provide or rely on, as locales: a store of settings
  whose last write wins, a state machine driven by a table of allowed transitions, and a
  table whose rows a caller may reach only inside one tenant.  Each is interpreted on the
  model's own operations in the theory of the component that provides it.
\<close>

section \<open>Settings\<close>

locale setting_store =
  fixes put :: "'k \<Rightarrow> 'v \<Rightarrow> 's \<Rightarrow> 's"
    and get :: "'k \<Rightarrow> 's \<Rightarrow> 'v"
    and allowed :: "'k \<Rightarrow> 'v \<Rightarrow> bool"
    and good :: "'s \<Rightarrow> bool"
  assumes get_put: "good s \<Longrightarrow> allowed k v \<Longrightarrow> get k (put k v s) = v"
    and get_put_other: "good s \<Longrightarrow> j \<noteq> k \<Longrightarrow> get j (put k v s) = get j s"
    and put_refused: "good s \<Longrightarrow> \<not> allowed k v \<Longrightarrow> get k (put k v s) = get k s"
    and put_good: "good s \<Longrightarrow> good (put k v s)"
begin

definition puts :: "('k \<times> 'v) list \<Rightarrow> 's \<Rightarrow> 's" where
  "puts kvs = fold (\<lambda>kv. put (fst kv) (snd kv)) kvs"

text \<open>The last accepted value written for a key, if any.\<close>

definition last_written :: "'k \<Rightarrow> ('k \<times> 'v) list \<Rightarrow> 'v option" where
  "last_written k kvs = map_of (rev (filter (\<lambda>kv. allowed (fst kv) (snd kv)) kvs)) k"

lemma puts_good: "good s \<Longrightarrow> good (puts kvs s)"
  by (induction kvs arbitrary: s) (simp_all add: puts_def put_good)

lemma get_put_if:
  "good s \<Longrightarrow> get j (put k v s) = (if j = k \<and> allowed k v then v else get j s)"
  using get_put get_put_other put_refused by metis

lemma get_puts:
  "good s \<Longrightarrow> get k (puts kvs s) = (case last_written k kvs of None \<Rightarrow> get k s | Some v \<Rightarrow> v)"
proof (induction kvs rule: rev_induct)
  case (snoc kv kvs)
  have "puts (kvs @ [kv]) s = put (fst kv) (snd kv) (puts kvs s)"
    by (simp add: puts_def)
  then show ?case
    using snoc.IH [OF snoc.prems] get_put_if [OF puts_good [OF snoc.prems, of kvs], of k "fst kv" "snd kv"]
    by (auto simp: last_written_def)
qed (simp add: puts_def last_written_def)

lemma get_puts_untouched:
  "good s \<Longrightarrow> k \<notin> fst ` set kvs \<Longrightarrow> get k (puts kvs s) = get k s"
  by (induction kvs arbitrary: s) (auto simp: puts_def get_put_if put_good)

end

section \<open>State machines\<close>

text \<open>
  \<open>allowed\<close> is the transition table, \<open>final\<close> the states nothing leaves for good; what moves
  follows the table, so the states of a run follow its reflexive transitive closure.
\<close>

locale state_machine =
  fixes allowed :: "'st \<Rightarrow> 'st \<Rightarrow> bool"
    and move :: "'st \<Rightarrow> 'st \<Rightarrow> 'st option"
  assumes move_iff: "move a b = (if allowed a b then Some b else None)"
begin

fun moves :: "'st \<Rightarrow> 'st list \<Rightarrow> 'st option" where
  "moves a [] = Some a"
| "moves a (b # bs) = (case move a b of None \<Rightarrow> None | Some c \<Rightarrow> moves c bs)"

lemma moves_reach: "moves a bs = Some c \<Longrightarrow> allowed\<^sup>*\<^sup>* a c"
  by (induction a bs rule: moves.induct)
    (auto simp: move_iff split: option.splits if_splits intro: converse_rtranclp_into_rtranclp)

lemma reach_moves: "allowed\<^sup>*\<^sup>* a c \<Longrightarrow> \<exists>bs. moves a bs = Some c"
proof (induction rule: converse_rtranclp_induct)
  case base
  show ?case by (rule exI [of _ "[]"]) simp
next
  case (step a b)
  then obtain bs where "moves b bs = Some c" by blast
  with step(1) have "moves a (b # bs) = Some c" by (simp add: move_iff)
  then show ?case ..
qed

lemma moves_iff: "(\<exists>bs. moves a bs = Some c) \<longleftrightarrow> allowed\<^sup>*\<^sup>* a c"
  using moves_reach reach_moves by blast

lemma moves_Cons_iff [simp]: "moves a (b # bs) = Some c \<longleftrightarrow> allowed a b \<and> moves b bs = Some c"
  by (simp add: move_iff)

text \<open>A set of states closed under the table is never left.\<close>

lemma moves_closed:
  assumes "\<And>x y. x \<in> S \<Longrightarrow> allowed x y \<Longrightarrow> y \<in> S"
  shows "moves a bs = Some c \<Longrightarrow> a \<in> S \<Longrightarrow> c \<in> S"
  by (induction a bs rule: moves.induct)
    (auto simp: move_iff split: option.splits if_splits intro: assms)

lemma no_way_out: "(\<And>y. \<not> allowed a y) \<Longrightarrow> moves a bs = Some c \<Longrightarrow> c = a"
  by (cases bs) (auto simp: move_iff)

lemmas moves_simps = moves.simps(1) moves_Cons_iff

declare moves.simps(2) [simp del]

end

section \<open>Tenant guards\<close>

text \<open>
  A lookup by identifier inside one tenant: a row of another tenant is answered exactly as a row
  that does not exist, before anything else is looked at, and nothing is written.
\<close>

locale tenant_guard =
  fixes row_of :: "'i \<Rightarrow> 's \<Rightarrow> 'r option"
    and tenant :: "'r \<Rightarrow> 't"
    and scope :: "'c \<Rightarrow> 't"
    and guard :: "'c \<Rightarrow> 'i \<Rightarrow> 's \<Rightarrow> ('e + 'r) \<times> 's"
    and not_found :: 'e
  assumes guard_missing: "row_of i s = None \<Longrightarrow> guard c i s = raise not_found s"
    and guard_foreign: "row_of i s = Some r \<Longrightarrow> tenant r \<noteq> scope c \<Longrightarrow> guard c i s = raise not_found s"
    and guard_own: "row_of i s = Some r \<Longrightarrow> tenant r = scope c \<Longrightarrow> guard c i s = ok r s"
begin

lemma guard_refuses:
  "(\<And>r. row_of i s = Some r \<Longrightarrow> tenant r \<noteq> scope c) \<Longrightarrow> bind_err (guard c i s) k = raise not_found s"
  by (cases "row_of i s") (simp_all add: guard_missing guard_foreign)

lemma guard_ok_iff: "guard c i s = (Inr r, u) \<longleftrightarrow> row_of i s = Some r \<and> tenant r = scope c \<and> u = s"
proof (cases "row_of i s")
  case (Some q)
  then show ?thesis
    by (cases "tenant q = scope c") (auto simp: guard_foreign guard_own ok_def raise_def)
qed (auto simp: guard_missing raise_def)

end

section \<open>Invariants of a step relation\<close>

text \<open>
  A step relation with the states it starts from and a predicate every step keeps: what holds
  of the reachable states.  The requests on actions, the connector, the memberships, the tasks
  and the budget each interpret it.
\<close>

locale invariant_system =
  fixes step :: "'s \<Rightarrow> 's \<Rightarrow> bool"
    and start :: "'s \<Rightarrow> bool"
    and inv :: "'s \<Rightarrow> bool"
  assumes start_inv: "start s \<Longrightarrow> inv s"
    and step_inv: "step s t \<Longrightarrow> inv s \<Longrightarrow> inv t"
begin

lemma steps_inv: "step\<^sup>*\<^sup>* s t \<Longrightarrow> inv s \<Longrightarrow> inv t"
  by (induction rule: rtranclp_induct) (auto intro: step_inv)

lemma reachable: "start s \<Longrightarrow> step\<^sup>*\<^sup>* s t \<Longrightarrow> inv t"
  by (rule steps_inv [OF _ start_inv])

end

end
