(* ===== verification/Notifications.thy ===== *)
theory Notifications
  imports Audit_Log Access Interfaces
begin

text \<open>
  \<open>doda/application/notification_service.py\<close>: the preferences a recipient sets per
  notification type, and delivery, which is the insert of a row together with its audit
  event.  The preferences are a \<open>setting_store\<close>.
\<close>

section \<open>Preferences\<close>

primrec notification_type_value :: "notification_type \<Rightarrow> string" where
  "notification_type_value PENDING_APPROVAL = ''PENDING_APPROVAL''"
| "notification_type_value FAILED_ACTION = ''FAILED_ACTION''"
| "notification_type_value COMPLETED_TASK = ''COMPLETED_TASK''"
| "notification_type_value SECURITY_ALERT = ''SECURITY_ALERT''"
| "notification_type_value REMINDER_DUE = ''REMINDER_DUE''"

definition all_notification_types :: "notification_type list" where
  "all_notification_types = [PENDING_APPROVAL, FAILED_ACTION, COMPLETED_TASK, SECURITY_ALERT, REMINDER_DUE]"

definition always_on_types :: "notification_type list" where
  "always_on_types = [SECURITY_ALERT]"

definition pref_scope :: "notification_preference_row \<Rightarrow> uuid \<times> string \<times> notification_type" where
  "pref_scope p = (np_customer_id p, np_recipient_id p, np_type p)"

definition is_notification_type_enabled :: "uuid \<Rightarrow> string \<Rightarrow> notification_type \<Rightarrow> db \<Rightarrow> bool" where
  "is_notification_type_enabled customer_id recipient_id ty s \<longleftrightarrow>
     (if ty \<in> set always_on_types then True
      else case tget pref_scope (customer_id, recipient_id, ty) (notification_preferences s) of
             None \<Rightarrow> True | Some p \<Rightarrow> np_enabled p)"

definition list_notification_preferences :: "uuid \<Rightarrow> string \<Rightarrow> db \<Rightarrow> (notification_type \<times> bool) list" where
  "list_notification_preferences customer_id recipient_id s =
     (let rows = filter (\<lambda>p. np_customer_id p = customer_id \<and> np_recipient_id p = recipient_id)
                   (notification_preferences s);
          overrides = map_of (rev (map (\<lambda>p. (np_type p, np_enabled p)) rows))
      in map (\<lambda>t. (t, case overrides t of None \<Rightarrow> True | Some e \<Rightarrow> e)) all_notification_types)"

text \<open>
  \<open>seen\<close> is what the first \<open>select\<close> returned: a concurrent request may have inserted the row
  since, and then the insert fails on the unique scope and this caller's value is written
  over the other's.
\<close>

definition set_notification_preference_after ::
  "notification_preference_row option \<Rightarrow> uuid \<Rightarrow> string \<Rightarrow> notification_type \<Rightarrow> bool \<Rightarrow> db
     \<Rightarrow> (app_error + unit) \<times> db" where
  "set_notification_preference_after seen customer_id recipient_id ty enabled s =
     (if \<not> enabled \<and> ty \<in> set always_on_types then raise NotificationPreferenceError s
      else case seen of
        None \<Rightarrow>
          let (new_id, created, s1) = row_defaults s;
              scope = (customer_id, recipient_id, ty)
          in if scope \<in> pref_scope ` set (notification_preferences s1)
             then ok () (s1\<lparr>notification_preferences :=
                    tupd pref_scope scope (\<lambda>p. p\<lparr>np_enabled := enabled\<rparr>) (notification_preferences s1)\<rparr>)
             else ok () (s1\<lparr>notification_preferences := notification_preferences s1 @
                    [\<lparr>np_id = new_id, np_created_at = created, np_customer_id = customer_id,
                      np_recipient_id = recipient_id, np_type = ty, np_enabled = enabled\<rparr>]\<rparr>)
      | Some p \<Rightarrow>
          ok () (s\<lparr>notification_preferences :=
                    tupd pref_scope (pref_scope p) (\<lambda>p. p\<lparr>np_enabled := enabled\<rparr>) (notification_preferences s)\<rparr>))"

definition set_notification_preference ::
  "uuid \<Rightarrow> string \<Rightarrow> notification_type \<Rightarrow> bool \<Rightarrow> db \<Rightarrow> (app_error + unit) \<times> db" where
  "set_notification_preference customer_id recipient_id ty enabled s =
     set_notification_preference_after
       (tget pref_scope (customer_id, recipient_id, ty) (notification_preferences s))
       customer_id recipient_id ty enabled s"

section \<open>Delivery\<close>

definition create_notification ::
  "uuid \<Rightarrow> string \<Rightarrow> notification_type \<Rightarrow> string \<Rightarrow> uuid \<Rightarrow> uuid option \<Rightarrow> jdict \<Rightarrow> db
     \<Rightarrow> notification_row option \<times> db" where
  "create_notification customer_id recipient_id ty reference_type reference_id workspace_id safe_metadata s =
     (if \<not> is_notification_type_enabled customer_id recipient_id ty s then (None, s)
      else
        let (new_id, created, s1) = row_defaults s;
            notification = \<lparr>ntf_id = new_id, ntf_created_at = created, ntf_customer_id = customer_id,
              ntf_workspace_id = workspace_id, ntf_recipient_id = recipient_id, ntf_type = ty,
              ntf_reference_type = reference_type, ntf_reference_id = reference_id,
              ntf_safe_metadata = JObj safe_metadata, ntf_read_at = None\<rparr>;
            s2 = s1\<lparr>notifications := notifications s1 @ [notification]\<rparr>;
            (trace_id, s3) = uuid4 s2;
            s4 = log_event customer_id trace_id ''system:notifier'' ''notification.delivered.v1'' workspace_id
                   [(''notification_id'', JStr (uuid_str new_id)),
                    (''recipient_id'', JStr recipient_id),
                    (''notification_type'', JStr (notification_type_value ty)),
                    (''reference_type'', JStr reference_type),
                    (''reference_id'', JStr (uuid_str reference_id))] s3
        in (Some notification, s4))"

abbreviation notify ::
  "uuid \<Rightarrow> string \<Rightarrow> notification_type \<Rightarrow> string \<Rightarrow> uuid \<Rightarrow> uuid option \<Rightarrow> jdict \<Rightarrow> db \<Rightarrow> db" where
  "notify customer_id recipient_id ty reference_type reference_id workspace_id safe_metadata s \<equiv>
     snd (create_notification customer_id recipient_id ty reference_type reference_id workspace_id safe_metadata s)"

definition list_notifications_for_user ::
  "uuid \<Rightarrow> string \<Rightarrow> uuid option \<Rightarrow> bool \<Rightarrow> int \<Rightarrow> db \<Rightarrow> app_error + notification_row list" where
  "list_notifications_for_user customer_id recipient_id workspace_id unread_only limit s =
     sql_limit (min limit 200) (rev (sort_key ntf_created_at
       (filter (\<lambda>n. ntf_customer_id n = customer_id \<and> ntf_recipient_id n = recipient_id
            \<and> (case workspace_id of None \<Rightarrow> True
               | Some w \<Rightarrow> ntf_workspace_id n = Some w \<or> ntf_workspace_id n = None)
            \<and> (unread_only \<longrightarrow> ntf_read_at n = None)) (notifications s))))"

definition mark_notification_read :: "notification_row \<Rightarrow> db \<Rightarrow> notification_row \<times> db" where
  "mark_notification_read n s =
     (if ntf_read_at n = None then
        let (now, s1) = utcnow s in
        (n\<lparr>ntf_read_at := Some now\<rparr>,
         s1\<lparr>notifications := tupd ntf_id (ntf_id n) (\<lambda>x. x\<lparr>ntf_read_at := Some now\<rparr>) (notifications s1)\<rparr>)
      else (n, s))"

text \<open>\<open>customer_service.customer_ids_for_user\<close>, read outside every tenant.\<close>

definition customer_ids_for_user :: "uuid \<Rightarrow> db \<Rightarrow> uuid list" where
  "customer_ids_for_user user_id s = map snd (filter (\<lambda>r. fst r = user_id) (user_customer_index s))"

definition notify_new_device_login :: "uuid \<Rightarrow> uuid \<Rightarrow> db \<Rightarrow> db" where
  "notify_new_device_login user_id session_id s =
     fold (\<lambda>customer_id. notify customer_id (user_actor user_id) SECURITY_ALERT ''session'' session_id None
             [(''reason'', JStr ''new_device_login'')])
       (customer_ids_for_user user_id s) s"

section \<open>What delivery changes\<close>

lemma create_notification_frame [simp, frame]:
  "identity_users (notify c r ty rt ri w m s) = identity_users s"
  "identity_sessions (notify c r ty rt ri w m s) = identity_sessions s"
  "customer_customers (notify c r ty rt ri w m s) = customer_customers s"
  "customer_memberships (notify c r ty rt ri w m s) = customer_memberships s"
  "user_customer_index (notify c r ty rt ri w m s) = user_customer_index s"
  "workspace_workspaces (notify c r ty rt ri w m s) = workspace_workspaces s"
  "workspace_memberships (notify c r ty rt ri w m s) = workspace_memberships s"
  "workspace_language_settings (notify c r ty rt ri w m s) = workspace_language_settings s"
  "workspace_tenant_index (notify c r ty rt ri w m s) = workspace_tenant_index s"
  "outbox_messages (notify c r ty rt ri w m s) = outbox_messages s"
  "action_actions (notify c r ty rt ri w m s) = action_actions s"
  "action_approvals (notify c r ty rt ri w m s) = action_approvals s"
  "workspace_kill_switches (notify c r ty rt ri w m s) = workspace_kill_switches s"
  "customer_kill_switches (notify c r ty rt ri w m s) = customer_kill_switches s"
  "notification_preferences (notify c r ty rt ri w m s) = notification_preferences s"
  "task_tasks (notify c r ty rt ri w m s) = task_tasks s"
  "task_history (notify c r ty rt ri w m s) = task_history s"
  "task_reminders (notify c r ty rt ri w m s) = task_reminders s"
  "task_decisions (notify c r ty rt ri w m s) = task_decisions s"
  "conversation_conversations (notify c r ty rt ri w m s) = conversation_conversations s"
  "conversation_messages (notify c r ty rt ri w m s) = conversation_messages s"
  "ai_usage_events (notify c r ty rt ri w m s) = ai_usage_events s"
  "ai_budget_ledgers (notify c r ty rt ri w m s) = ai_budget_ledgers s"
  "user_ai_preferences (notify c r ty rt ri w m s) = user_ai_preferences s"
  "workspace_ai_preferences (notify c r ty rt ri w m s) = workspace_ai_preferences s"
  "ai_customer_provider_settings (notify c r ty rt ri w m s) = ai_customer_provider_settings s"
  "ai_customer_fallback_settings (notify c r ty rt ri w m s) = ai_customer_fallback_settings s"
  "ai_provider_verifications (notify c r ty rt ri w m s) = ai_provider_verifications s"
  "sha256 (notify c r ty rt ri w m s) = sha256 s"
  "clock (notify c r ty rt ri w m s) = clock s"
  "uuid_src (notify c r ty rt ri w m s) = uuid_src s"
  "token_src (notify c r ty rt ri w m s) = token_src s"
  "minted (notify c r ty rt ri w m s) = minted s"
  by (simp_all add: create_notification_def Let_def row_defaults_def uuid4_def)

lemma create_notification_None_iff:
  "fst (create_notification c r ty rt ri w m s) = None \<longleftrightarrow> \<not> is_notification_type_enabled c r ty s"
  by (simp add: create_notification_def Let_def row_defaults_def uuid4_def)

lemma notify_disabled: "\<not> is_notification_type_enabled c r ty s \<Longrightarrow> notify c r ty rt ri w m s = s"
  by (simp add: create_notification_def)

definition delivered ::
  "uuid \<Rightarrow> string \<Rightarrow> notification_type \<Rightarrow> string \<Rightarrow> uuid \<Rightarrow> uuid option \<Rightarrow> jdict \<Rightarrow> db \<Rightarrow> notification_row" where
  "delivered c r ty rt ri w m s =
     \<lparr>ntf_id = uuid_src s (drawn s), ntf_created_at = clock s (ticks s), ntf_customer_id = c,
      ntf_workspace_id = w, ntf_recipient_id = r, ntf_type = ty, ntf_reference_type = rt,
      ntf_reference_id = ri, ntf_safe_metadata = JObj m, ntf_read_at = None\<rparr>"

lemma delivered_sel [simp]:
  "ntf_customer_id (delivered c r ty rt ri w m s) = c" "ntf_recipient_id (delivered c r ty rt ri w m s) = r"
  "ntf_type (delivered c r ty rt ri w m s) = ty" "ntf_workspace_id (delivered c r ty rt ri w m s) = w"
  "ntf_reference_type (delivered c r ty rt ri w m s) = rt" "ntf_reference_id (delivered c r ty rt ri w m s) = ri"
  "ntf_read_at (delivered c r ty rt ri w m s) = None"
  by (simp_all add: delivered_def)

lemma create_notification_effect [effect]:
  "notifications (notify c r ty rt ri w m s)
     = notifications s @ (if is_notification_type_enabled c r ty s then [delivered c r ty rt ri w m s] else [])"
  "fst (create_notification c r ty rt ri w m s)
     = (if is_notification_type_enabled c r ty s then Some (delivered c r ty rt ri w m s) else None)"
  by (simp_all add: create_notification_def Let_def row_defaults_def uuid4_def delivered_def)

lemma notify_counters [effect]:
  "ticks (notify c r ty rt ri w m s) = (if is_notification_type_enabled c r ty s then 3 else 0) + ticks s"
  "drawn (notify c r ty rt ri w m s) = (if is_notification_type_enabled c r ty s then 3 else 0) + drawn s"
  by (simp_all add: create_notification_def Let_def row_defaults_def uuid4_def effect)

lemma audit_inv_cong:
  assumes "audit_events t = audit_events s" "audit_chain_tips t = audit_chain_tips s"
    "sha256 t = sha256 s" "clock t = clock s" "ticks s \<le> ticks t" "audit_inv s"
  shows "audit_inv t"
proof -
  have "clock s (ticks s) \<le> clock s (ticks t)"
    using assms(5,6) by (simp add: audit_inv_def strict_mono_less_eq)
  then have "\<forall>e \<in> set (audit_events s). ae_created_at e < clock s (ticks t)"
    using assms(6) unfolding audit_inv_def by force
  then show ?thesis
    using assms by (simp add: audit_inv_def customer_log_def tip_hash_def)
qed

lemma audit_inv_notify: "audit_inv s \<Longrightarrow> audit_inv (notify c r ty rt ri w m s)"
  unfolding create_notification_def Let_def row_defaults_def uuid4_def
  by (auto intro!: audit_inv_record elim!: audit_inv_cong [rotated -1])

section \<open>Preferences are a setting store\<close>

type_synonym pref_key = "uuid \<times> string \<times> notification_type"

definition put_preference :: "pref_key \<Rightarrow> bool \<Rightarrow> db \<Rightarrow> db" where
  "put_preference k enabled s =
     snd (set_notification_preference (fst k) (fst (snd k)) (snd (snd k)) enabled s)"

definition get_preference :: "pref_key \<Rightarrow> db \<Rightarrow> bool" where
  "get_preference k s = is_notification_type_enabled (fst k) (fst (snd k)) (snd (snd k)) s"

definition may_set :: "pref_key \<Rightarrow> bool \<Rightarrow> bool" where
  "may_set k enabled \<longleftrightarrow> enabled \<or> snd (snd k) \<notin> set always_on_types"

lemma pref_scope_enabled [simp]: "pref_scope (p\<lparr>np_enabled := e\<rparr>) = pref_scope p"
  by (simp add: pref_scope_def)

lemma get_put_preference:
  "get_preference j (put_preference k e s) = (if j = k \<and> may_set k e then e else get_preference j s)"
proof -
  obtain c r ty where k: "k = (c, r, ty)" by (metis prod_cases3)
  obtain c' r' ty' where j: "j = (c', r', ty')" by (metis prod_cases3)
  show ?thesis
  proof (cases "tget pref_scope (c, r, ty) (notification_preferences s)")
    case None
    then have "(c, r, ty) \<notin> pref_scope ` set (notification_preferences s)" by (simp add: tget_None_iff)
    with None show ?thesis
      by (auto simp: k j put_preference_def get_preference_def may_set_def set_notification_preference_def
          set_notification_preference_after_def is_notification_type_enabled_def row_defaults_def
          tget_append pref_scope_def split: option.splits)
  next
    case (Some p)
    then have "pref_scope p = (c, r, ty)" by (auto dest: tget_SomeD)
    with Some show ?thesis
      by (auto simp: k j put_preference_def get_preference_def may_set_def set_notification_preference_def
          set_notification_preference_after_def is_notification_type_enabled_def tget_tupd split: option.splits)
  qed
qed

interpretation preference: setting_store put_preference get_preference may_set "\<lambda>_. True"
  by unfold_locales (auto simp: get_put_preference)


lemma puts_frame:
  "notifications (preference.puts kvs s) = notifications s \<and> audit_events (preference.puts kvs s) = audit_events s"
proof (induction kvs arbitrary: s)
  case (Cons kv kvs)
  have "notifications (put_preference k e t) = notifications t \<and> audit_events (put_preference k e t) = audit_events t"
    for k e t
    by (auto simp: put_preference_def set_notification_preference_def set_notification_preference_after_def
        row_defaults_def Let_def split: option.splits)
  with Cons [of "put_preference (fst kv) (snd kv) s"] show ?case by (simp add: preference.puts_def)
qed (simp add: preference.puts_def)

section \<open>Properties\<close>

text \<open>
  C11: whether a notification is delivered is decided by the last preference its recipient
  was able to set for its type, and delivered it is unless that was off.  Delivery appends
  exactly one row and one audit event of the customer; otherwise nothing changes at all.
  A security alert is therefore delivered whatever anyone has tried to set.
\<close>

theorem delivery_follows_last_preference:
  assumes "notification_preferences s = []"
    and t: "t = fold (\<lambda>kv. put_preference (fst kv) (snd kv)) settings s"
  shows "case map_of (rev (filter (\<lambda>kv. snd kv \<or> snd (snd (fst kv)) \<noteq> SECURITY_ALERT) settings)) (c, r, ty) of
     Some False \<Rightarrow> create_notification c r ty rt ri w m t = (None, t)
   | _ \<Rightarrow> \<exists>n. fst (create_notification c r ty rt ri w m t) = Some n
        \<and> notifications (notify c r ty rt ri w m t) = notifications s @ [n]
        \<and> ntf_recipient_id n = r \<and> ntf_type n = ty \<and> ntf_customer_id n = c
        \<and> length (customer_log c (notify c r ty rt ri w m t)) = Suc (length (customer_log c s))"
proof -
  let ?wanted = "map_of (rev (filter (\<lambda>kv. snd kv \<or> snd (snd (fst kv)) \<noteq> SECURITY_ALERT) settings)) (c, r, ty)"
  have puts: "t = preference.puts settings s" by (simp add: t preference.puts_def)
  have wanted: "?wanted = preference.last_written (c, r, ty) settings"
    by (simp add: preference.last_written_def may_set_def always_on_types_def)
  have "get_preference (c, r, ty) s" by (simp add: get_preference_def is_notification_type_enabled_def assms(1))
  then have enabled: "is_notification_type_enabled c r ty t = (?wanted \<noteq> Some False)"
    using preference.get_puts [where s = s and k = "(c, r, ty)" and kvs = settings]
    by (auto simp: puts wanted get_preference_def split: option.splits)
  have frame: "notifications t = notifications s" "audit_events t = audit_events s"
    by (simp_all add: puts puts_frame)
  have log: "length (customer_log c (notify c r ty rt ri w m t)) = Suc (length (customer_log c s))"
    if "is_notification_type_enabled c r ty t"
    using that by (simp add: create_notification_def row_defaults_def uuid4_def Let_def customer_log_record)
      (simp add: customer_log_def frame)
  show ?thesis
  proof (cases "?wanted = Some False")
    case True
    then show ?thesis using enabled by (simp add: create_notification_def)
  next
    case False
    then have "\<exists>n. fst (create_notification c r ty rt ri w m t) = Some n
        \<and> notifications (notify c r ty rt ri w m t) = notifications s @ [n]
        \<and> ntf_recipient_id n = r \<and> ntf_type n = ty \<and> ntf_customer_id n = c
        \<and> length (customer_log c (notify c r ty rt ri w m t)) = Suc (length (customer_log c s))"
      using enabled log frame by (simp add: effect)
    with False show ?thesis by (auto split: option.splits bool.splits)
  qed
qed

theorem delivery_follows_last_preference_witness:
  "\<exists>n. fst (create_notification 7 ''user:1'' SECURITY_ALERT ''x'' 5 None []
         (put_preference (7, ''user:1'', SECURITY_ALERT) False empty_db)) = Some n
     \<and> notifications (notify 7 ''user:1'' SECURITY_ALERT ''x'' 5 None []
         (put_preference (7, ''user:1'', SECURITY_ALERT) False empty_db)) = [n]"
  using delivery_follows_last_preference
    [OF _ refl, where s = empty_db and settings = "[((7, ''user:1'', SECURITY_ALERT), False)]" and c = 7
      and r = "''user:1''" and ty = SECURITY_ALERT and rt = "''x''" and ri = 5 and w = None and m = "[]"]
  by auto

end
