(* ===== verification/Kill_Switch.thy ===== *)
theory Kill_Switch
  imports Notifications
begin

text \<open>
  \<open>doda/application/kill_switch_service.py\<close>: the existence of a row is the switch being on.
  Engaging takes what its first read saw as an argument, so that two concurrent engages can be
  stated: the loser's insert fails on the primary key and it returns the winner's row.
\<close>

definition assert_not_killed :: "uuid \<Rightarrow> uuid \<Rightarrow> db \<Rightarrow> app_error option" where
  "assert_not_killed customer_id workspace_id s =
     (if customer_kill_switches s customer_id \<noteq> None then Some (KillSwitchEngagedError ''customer'')
      else if workspace_kill_switches s workspace_id \<noteq> None then Some (KillSwitchEngagedError ''workspace'')
      else None)"

definition get_workspace_kill_switch_status :: "uuid \<Rightarrow> db \<Rightarrow> workspace_kill_switch_row option" where
  "get_workspace_kill_switch_status workspace_id s = workspace_kill_switches s workspace_id"

definition get_customer_kill_switch_status :: "uuid \<Rightarrow> db \<Rightarrow> customer_kill_switch_row option" where
  "get_customer_kill_switch_status customer_id s = customer_kill_switches s customer_id"

section \<open>Workspace scope\<close>

definition workspace_member_user_ids :: "uuid \<Rightarrow> db \<Rightarrow> uuid list" where
  "workspace_member_user_ids workspace_id s =
     [cm_user_id cm. m \<leftarrow> workspace_memberships s, cm \<leftarrow> customer_memberships s,
        wm_customer_membership_id m = cm_id cm \<and> wm_workspace_id m = workspace_id]"

definition engage_workspace_kill_switch_after ::
  "workspace_kill_switch_row option \<Rightarrow> uuid \<Rightarrow> uuid \<Rightarrow> string \<Rightarrow> string \<Rightarrow> db
     \<Rightarrow> workspace_kill_switch_row \<times> db" where
  "engage_workspace_kill_switch_after seen workspace_id customer_id actor_id reason s =
     (case seen of
        Some switch \<Rightarrow> (switch, s)
      | None \<Rightarrow>
          let (now, s1) = utcnow s;
              switch = \<lparr>wks_customer_id = customer_id, wks_engaged_at = now, wks_engaged_by = actor_id,
                        wks_reason = reason\<rparr>
          in case workspace_kill_switches s1 workspace_id of
               Some existing \<Rightarrow> (existing, s1)
             | None \<Rightarrow>
                 let s2 = s1\<lparr>workspace_kill_switches := (workspace_kill_switches s1)(workspace_id \<mapsto> switch)\<rparr>;
                     (trace_id, s3) = uuid4 s2;
                     s4 = log_event customer_id trace_id actor_id ''killswitch.workspace.engaged.v1'' (Some workspace_id)
                            [(''workspace_id'', JStr (uuid_str workspace_id)), (''reason'', JStr reason)] s3
                 in (switch,
                     fold (\<lambda>user_id. notify customer_id (user_actor user_id) SECURITY_ALERT
                              ''workspace_kill_switch'' workspace_id (Some workspace_id)
                              [(''scope'', JStr ''workspace''), (''reason'', JStr reason)])
                       (workspace_member_user_ids workspace_id s4) s4))"

definition engage_workspace_kill_switch ::
  "uuid \<Rightarrow> uuid \<Rightarrow> string \<Rightarrow> string \<Rightarrow> db \<Rightarrow> workspace_kill_switch_row \<times> db" where
  "engage_workspace_kill_switch workspace_id customer_id actor_id reason s =
     engage_workspace_kill_switch_after (workspace_kill_switches s workspace_id)
       workspace_id customer_id actor_id reason s"

definition disengage_workspace_kill_switch :: "uuid \<Rightarrow> uuid \<Rightarrow> string \<Rightarrow> db \<Rightarrow> db" where
  "disengage_workspace_kill_switch workspace_id customer_id actor_id s =
     (case workspace_kill_switches s workspace_id of
        None \<Rightarrow> s
      | Some _ \<Rightarrow>
          let s1 = s\<lparr>workspace_kill_switches := (workspace_kill_switches s)(workspace_id := None)\<rparr>;
              (trace_id, s2) = uuid4 s1
          in log_event customer_id trace_id actor_id ''killswitch.workspace.disengaged.v1'' (Some workspace_id)
               [(''workspace_id'', JStr (uuid_str workspace_id))] s2)"

section \<open>Customer scope\<close>

definition customer_member_user_ids :: "uuid \<Rightarrow> db \<Rightarrow> uuid list" where
  "customer_member_user_ids customer_id s =
     map cm_user_id (filter (\<lambda>m. cm_customer_id m = customer_id) (customer_memberships s))"

definition engage_customer_kill_switch_after ::
  "customer_kill_switch_row option \<Rightarrow> uuid \<Rightarrow> string \<Rightarrow> string \<Rightarrow> db
     \<Rightarrow> customer_kill_switch_row \<times> db" where
  "engage_customer_kill_switch_after seen customer_id actor_id reason s =
     (case seen of
        Some switch \<Rightarrow> (switch, s)
      | None \<Rightarrow>
          let (now, s1) = utcnow s;
              switch = \<lparr>cks_engaged_at = now, cks_engaged_by = actor_id, cks_reason = reason\<rparr>
          in case customer_kill_switches s1 customer_id of
               Some existing \<Rightarrow> (existing, s1)
             | None \<Rightarrow>
                 let s2 = s1\<lparr>customer_kill_switches := (customer_kill_switches s1)(customer_id \<mapsto> switch)\<rparr>;
                     (trace_id, s3) = uuid4 s2;
                     s4 = log_event customer_id trace_id actor_id ''killswitch.customer.engaged.v1'' None
                            [(''reason'', JStr reason)] s3
                 in (switch,
                     fold (\<lambda>user_id. notify customer_id (user_actor user_id) SECURITY_ALERT
                              ''customer_kill_switch'' customer_id None
                              [(''scope'', JStr ''customer''), (''reason'', JStr reason)])
                       (customer_member_user_ids customer_id s4) s4))"

definition engage_customer_kill_switch ::
  "uuid \<Rightarrow> string \<Rightarrow> string \<Rightarrow> db \<Rightarrow> customer_kill_switch_row \<times> db" where
  "engage_customer_kill_switch customer_id actor_id reason s =
     engage_customer_kill_switch_after (customer_kill_switches s customer_id) customer_id actor_id reason s"

definition disengage_customer_kill_switch :: "uuid \<Rightarrow> string \<Rightarrow> db \<Rightarrow> db" where
  "disengage_customer_kill_switch customer_id actor_id s =
     (case customer_kill_switches s customer_id of
        None \<Rightarrow> s
      | Some _ \<Rightarrow>
          let s1 = s\<lparr>customer_kill_switches := (customer_kill_switches s)(customer_id := None)\<rparr>;
              (trace_id, s2) = uuid4 s1
          in log_event customer_id trace_id actor_id ''killswitch.customer.disengaged.v1'' None [] s2)"

section \<open>Lemmas\<close>

lemma fold_notify_alerts:
  "map (\<lambda>n. (ntf_recipient_id n, ntf_type n, ntf_customer_id n))
     (notifications (fold (\<lambda>u. notify c (f u) SECURITY_ALERT rt ri w m) us s))
   = map (\<lambda>n. (ntf_recipient_id n, ntf_type n, ntf_customer_id n)) (notifications s)
     @ map (\<lambda>u. (f u, SECURITY_ALERT, c)) us"
proof (induction us arbitrary: s)
  case (Cons u us)
  have "is_notification_type_enabled c (f u) SECURITY_ALERT s"
    by (simp add: is_notification_type_enabled_def always_on_types_def)
  with Cons [of "notify c (f u) SECURITY_ALERT rt ri w m s"] show ?case by (simp add: effect)
qed simp

lemma fold_notify_frame:
  "workspace_kill_switches (fold (\<lambda>u. notify c (f u) ty rt ri w m) us s) = workspace_kill_switches s"
  "customer_kill_switches (fold (\<lambda>u. notify c (f u) ty rt ri w m) us s) = customer_kill_switches s"
  "action_actions (fold (\<lambda>u. notify c (f u) ty rt ri w m) us s) = action_actions s"
  by (rule fold_frame, simp)+

lemma assert_not_killed_None:
  "assert_not_killed c w s = None \<longleftrightarrow> customer_kill_switches s c = None \<and> workspace_kill_switches s w = None"
  by (simp add: assert_not_killed_def)

lemma engaged_blocks:
  "workspace_kill_switches s w \<noteq> None \<or> customer_kill_switches s c \<noteq> None
     \<longleftrightarrow> assert_not_killed c w s \<noteq> None"
  by (auto simp: assert_not_killed_def)

lemma engage_workspace_switch:
  "workspace_kill_switches (snd (engage_workspace_kill_switch w c a r s)) w \<noteq> None"
  by (simp add: engage_workspace_kill_switch_def engage_workspace_kill_switch_after_def utcnow_def uuid4_def
      Let_def fold_notify_frame split: option.splits)

lemma engage_customer_switch:
  "customer_kill_switches (snd (engage_customer_kill_switch c a r s)) c \<noteq> None"
  by (simp add: engage_customer_kill_switch_def engage_customer_kill_switch_after_def utcnow_def uuid4_def
      Let_def fold_notify_frame split: option.splits)

section \<open>Properties\<close>

text \<open>
  Engaging a workspace switch that is off turns it on, blocks the workspace until it is
  disengaged, and sends one security alert to each member of the workspace, in order; the
  alerts cannot be turned off.  Engaging it again, or losing the race to another engage,
  returns the row that is there and sends nothing; disengaging unblocks the workspace unless
  its customer is blocked.
\<close>

theorem workspace_kill_switch_spec:
  assumes "workspace_kill_switches s w = None"
    and t: "t = snd (engage_workspace_kill_switch w c a r s)"
  shows "assert_not_killed c w t \<noteq> None
   \<and> map (\<lambda>n. (ntf_recipient_id n, ntf_type n, ntf_customer_id n)) (notifications t)
      = map (\<lambda>n. (ntf_recipient_id n, ntf_type n, ntf_customer_id n)) (notifications s)
        @ map (\<lambda>u. (user_actor u, SECURITY_ALERT, c)) (workspace_member_user_ids w s)
   \<and> (\<exists>row. workspace_kill_switches t w = Some row \<and> wks_engaged_by row = a \<and> wks_reason row = r
       \<and> engage_workspace_kill_switch w c a' r' t = (row, t)
       \<and> fst (engage_workspace_kill_switch_after None w c a' r' t) = row
       \<and> notifications (snd (engage_workspace_kill_switch_after None w c a' r' t)) = notifications t)
   \<and> (assert_not_killed c w (disengage_workspace_kill_switch w c a' t) = None
       \<longleftrightarrow> customer_kill_switches s c = None)"
proof (intro conjI)
  show "assert_not_killed c w t \<noteq> None"
    using engage_workspace_switch engaged_blocks t by metis
  show "map (\<lambda>n. (ntf_recipient_id n, ntf_type n, ntf_customer_id n)) (notifications t)
      = map (\<lambda>n. (ntf_recipient_id n, ntf_type n, ntf_customer_id n)) (notifications s)
        @ map (\<lambda>u. (user_actor u, SECURITY_ALERT, c)) (workspace_member_user_ids w s)"
    using assms(1)
    by (simp add: t engage_workspace_kill_switch_def engage_workspace_kill_switch_after_def utcnow_def
        uuid4_def Let_def fold_notify_alerts workspace_member_user_ids_def)
  have row: "workspace_kill_switches t w = Some \<lparr>wks_customer_id = c, wks_engaged_at = clock s (ticks s),
      wks_engaged_by = a, wks_reason = r\<rparr>" and cust: "customer_kill_switches t = customer_kill_switches s"
    using assms(1)
    by (simp_all add: t engage_workspace_kill_switch_def engage_workspace_kill_switch_after_def utcnow_def
        uuid4_def Let_def fold_notify_frame)
  then show "\<exists>row. workspace_kill_switches t w = Some row \<and> wks_engaged_by row = a \<and> wks_reason row = r
       \<and> engage_workspace_kill_switch w c a' r' t = (row, t)
       \<and> fst (engage_workspace_kill_switch_after None w c a' r' t) = row
       \<and> notifications (snd (engage_workspace_kill_switch_after None w c a' r' t)) = notifications t"
    by (simp add: engage_workspace_kill_switch_def engage_workspace_kill_switch_after_def utcnow_def Let_def)
  show "assert_not_killed c w (disengage_workspace_kill_switch w c a' t) = None
       \<longleftrightarrow> customer_kill_switches s c = None"
    by (simp add: disengage_workspace_kill_switch_def row cust uuid4_def Let_def assert_not_killed_def)
qed

theorem workspace_kill_switch_spec_witness:
  "map (\<lambda>n. (ntf_recipient_id n, ntf_type n))
     (notifications (snd (engage_workspace_kill_switch 1 7 ''user:3'' ''incident'' sample_access)))
   = [(user_actor 3, SECURITY_ALERT), (user_actor 5, SECURITY_ALERT)]"
proof -
  have "workspace_kill_switches sample_access 1 = None" by (simp add: sample_access_def)
  from workspace_kill_switch_spec [OF this refl, of 7 "''user:3''" "''incident''"]
  have "map (\<lambda>n. (ntf_recipient_id n, ntf_type n, ntf_customer_id n))
      (notifications (snd (engage_workspace_kill_switch 1 7 ''user:3'' ''incident'' sample_access)))
    = [(user_actor 3, SECURITY_ALERT, 7), (user_actor 5, SECURITY_ALERT, 7)]"
    by (simp add: sample_access_def workspace_member_user_ids_def)
  from arg_cong [OF this, of "map (\<lambda>x. (fst x, fst (snd x)))"] show ?thesis by (simp add: comp_def)
qed

end
