(* ===== verification/Action_Policy.thy ===== *)
theory Action_Policy
  imports Runtime Interfaces
begin

text \<open>
  The pure part of the action context: \<open>doda/domain/action/state_machine.py\<close> (the transition
  table), \<open>tool_policy.py\<close> (the least risk of a registered tool, the dry-run preview) and
  \<open>AUTO_APPROVED_RISK_LEVELS\<close> of \<open>models.py\<close>.  The table is interpreted as a \<open>state_machine\<close>.
\<close>

section \<open>The state machine\<close>

definition all_action_statuses :: "action_status list" where
  "all_action_statuses = [DRAFT, VALIDATING, AWAITING_APPROVAL, READY, RUNNING, SUCCEEDED, FAILED,
     RETRYING, COMPENSATING, COMPENSATED, DENIED, REJECTED, EXPIRED, CANCELLED]"

primrec action_status_value :: "action_status \<Rightarrow> string" where
  "action_status_value DRAFT = ''DRAFT''"
| "action_status_value VALIDATING = ''VALIDATING''"
| "action_status_value AWAITING_APPROVAL = ''AWAITING_APPROVAL''"
| "action_status_value READY = ''READY''"
| "action_status_value RUNNING = ''RUNNING''"
| "action_status_value SUCCEEDED = ''SUCCEEDED''"
| "action_status_value FAILED = ''FAILED''"
| "action_status_value RETRYING = ''RETRYING''"
| "action_status_value COMPENSATING = ''COMPENSATING''"
| "action_status_value COMPENSATED = ''COMPENSATED''"
| "action_status_value DENIED = ''DENIED''"
| "action_status_value REJECTED = ''REJECTED''"
| "action_status_value EXPIRED = ''EXPIRED''"
| "action_status_value CANCELLED = ''CANCELLED''"

fun allowed_transitions :: "action_status \<Rightarrow> action_status list" where
  "allowed_transitions DRAFT = [VALIDATING, CANCELLED]"
| "allowed_transitions VALIDATING = [AWAITING_APPROVAL, READY, DENIED]"
| "allowed_transitions AWAITING_APPROVAL = [READY, EXPIRED, REJECTED]"
| "allowed_transitions READY = [RUNNING, CANCELLED]"
| "allowed_transitions RUNNING = [SUCCEEDED, FAILED, COMPENSATING]"
| "allowed_transitions FAILED = [RETRYING]"
| "allowed_transitions RETRYING = [READY]"
| "allowed_transitions COMPENSATING = [COMPENSATED, FAILED]"
| "allowed_transitions _ = []"

definition terminal_statuses :: "action_status list" where
  "terminal_statuses = [SUCCEEDED, COMPENSATED, DENIED, REJECTED, EXPIRED, CANCELLED, FAILED]"

definition transition :: "action_status \<Rightarrow> action_status \<Rightarrow> app_error + action_status" where
  "transition current target =
     (if target \<notin> set (allowed_transitions current) then Inl (InvalidActionTransition current target)
      else Inr target)"

definition is_terminal :: "action_status \<Rightarrow> bool" where
  "is_terminal status \<longleftrightarrow> status \<in> set terminal_statuses"

definition allowed_edge :: "action_status \<Rightarrow> action_status \<Rightarrow> bool" where
  "allowed_edge a b \<longleftrightarrow> b \<in> set (allowed_transitions a)"

definition transition_opt :: "action_status \<Rightarrow> action_status \<Rightarrow> action_status option" where
  "transition_opt a b = (case transition a b of Inl _ \<Rightarrow> None | Inr c \<Rightarrow> Some c)"

interpretation lifecycle: state_machine allowed_edge transition_opt
  by unfold_locales (simp add: transition_opt_def transition_def allowed_edge_def)

lemma transition_Inr_iff [simp]: "transition a b = Inr c \<longleftrightarrow> allowed_edge a b \<and> c = b"
  by (auto simp: transition_def allowed_edge_def)

lemma transition_Inl_iff [simp]:
  "transition a b = Inl e \<longleftrightarrow> \<not> allowed_edge a b \<and> e = InvalidActionTransition a b"
  by (auto simp: transition_def allowed_edge_def)

lemma allowed_edge_simps [simp]:
  "allowed_edge DRAFT b \<longleftrightarrow> b = VALIDATING \<or> b = CANCELLED"
  "allowed_edge VALIDATING b \<longleftrightarrow> b = AWAITING_APPROVAL \<or> b = READY \<or> b = DENIED"
  "allowed_edge AWAITING_APPROVAL b \<longleftrightarrow> b = READY \<or> b = EXPIRED \<or> b = REJECTED"
  "allowed_edge READY b \<longleftrightarrow> b = RUNNING \<or> b = CANCELLED"
  "allowed_edge RUNNING b \<longleftrightarrow> b = SUCCEEDED \<or> b = FAILED \<or> b = COMPENSATING"
  "allowed_edge FAILED b \<longleftrightarrow> b = RETRYING"
  "allowed_edge RETRYING b \<longleftrightarrow> b = READY"
  "allowed_edge COMPENSATING b \<longleftrightarrow> b = COMPENSATED \<or> b = FAILED"
  "\<not> allowed_edge SUCCEEDED b" "\<not> allowed_edge COMPENSATED b" "\<not> allowed_edge DENIED b"
  "\<not> allowed_edge REJECTED b" "\<not> allowed_edge EXPIRED b" "\<not> allowed_edge CANCELLED b"
  by (auto simp: allowed_edge_def)

section \<open>Risk levels\<close>

definition risk_order :: "risk_level \<Rightarrow> nat" where
  "risk_order r = (case r of R0 \<Rightarrow> 0 | R1 \<Rightarrow> 1 | R2 \<Rightarrow> 2 | R3 \<Rightarrow> 3 | R4 \<Rightarrow> 4 | R5 \<Rightarrow> 5)"

instantiation risk_level :: linorder
begin

definition less_eq_risk_level :: "risk_level \<Rightarrow> risk_level \<Rightarrow> bool" where
  "less_eq_risk_level a b \<longleftrightarrow> risk_order a \<le> risk_order b"

definition less_risk_level :: "risk_level \<Rightarrow> risk_level \<Rightarrow> bool" where
  "less_risk_level a b \<longleftrightarrow> risk_order a < risk_order b"

instance
  by standard (auto simp: less_eq_risk_level_def less_risk_level_def risk_order_def split: risk_level.splits)

end

primrec risk_level_value :: "risk_level \<Rightarrow> string" where
  "risk_level_value R0 = ''R0''"
| "risk_level_value R1 = ''R1''"
| "risk_level_value R2 = ''R2''"
| "risk_level_value R3 = ''R3''"
| "risk_level_value R4 = ''R4''"
| "risk_level_value R5 = ''R5''"

definition auto_approved_risk_levels :: "risk_level list" where
  "auto_approved_risk_levels = [R0, R1, R2]"

definition needs_approval :: "risk_level \<Rightarrow> bool" where
  "needs_approval r \<longleftrightarrow> r \<notin> set auto_approved_risk_levels"

lemma needs_approval_iff: "needs_approval r \<longleftrightarrow> R3 \<le> r"
  by (cases r) (simp_all add: needs_approval_def auto_approved_risk_levels_def less_eq_risk_level_def risk_order_def)

definition telegram_tool :: string where
  "telegram_tool = ''telegram.send_message''"

definition tool_minimum_risk_level :: "string \<Rightarrow> risk_level option" where
  "tool_minimum_risk_level = [telegram_tool \<mapsto> R3]"

definition enforce_minimum_risk_level :: "string \<Rightarrow> risk_level \<Rightarrow> risk_level" where
  "enforce_minimum_risk_level tool_name requested =
     (case tool_minimum_risk_level tool_name of
        None \<Rightarrow> requested
      | Some minimum \<Rightarrow> if risk_order requested \<ge> risk_order minimum then requested else minimum)"

lemma enforce_minimum_never_lowers: "requested \<le> enforce_minimum_risk_level tool requested"
  by (auto simp: enforce_minimum_risk_level_def less_eq_risk_level_def split: option.splits)

lemma enforce_minimum_is_max:
  "enforce_minimum_risk_level tool r = (case tool_minimum_risk_level tool of None \<Rightarrow> r | Some m \<Rightarrow> max r m)"
  by (auto simp: enforce_minimum_risk_level_def max_def less_eq_risk_level_def split: option.splits)
    (metis antisym less_eq_risk_level_def nle_le)

section \<open>Previews\<close>

text \<open>
  Python's \<open>str\<close> and \<open>repr\<close> of the values a payload may hold.  The preview's typographic
  quotes and dash are no HOL characters and stand as their ASCII counterparts.
\<close>

definition py_printable :: "char \<Rightarrow> bool" where
  "py_printable c \<longleftrightarrow> (let n = (of_char c :: nat) in (32 \<le> n \<and> n \<le> 126) \<or> (161 \<le> n \<and> n \<noteq> 173))"

definition repr_char :: "char \<Rightarrow> char \<Rightarrow> string" where
  "repr_char quote c =
     (if c = quote \<or> c = CHR 0x5C then [CHR 0x5C, c]
      else if c = CHR 0x0A then [CHR 0x5C, CHR ''n'']
      else if c = CHR 0x0D then [CHR 0x5C, CHR ''r'']
      else if c = CHR 0x09 then [CHR 0x5C, CHR ''t'']
      else if py_printable c then [c]
      else [CHR 0x5C, CHR ''x'', hex_digit (of_char c div 16), hex_digit (of_char c mod 16)])"

definition repr_string :: "string \<Rightarrow> string" where
  "repr_string s =
     (let quote = (if CHR 0x27 \<in> set s \<and> CHR 0x22 \<notin> set s then CHR 0x22 else CHR 0x27)
      in quote # concat (map (repr_char quote) s) @ [quote])"

fun py_repr :: "json \<Rightarrow> string" where
  "py_repr JNull = ''None''"
| "py_repr (JBool b) = (if b then ''True'' else ''False'')"
| "py_repr (JInt i) = dec_int i"
| "py_repr (JStr s) = repr_string s"
| "py_repr (JArr xs) = ''['' @ join_with '', '' (map py_repr xs) @ '']''"
| "py_repr (JObj kvs) =
     ''{'' @ join_with '', '' (map (\<lambda>kv. repr_string (fst kv) @ '': '' @ py_repr (snd kv)) kvs) @ ''}''"

definition py_str :: "json \<Rightarrow> string" where
  "py_str v = (case v of JStr s \<Rightarrow> s | _ \<Rightarrow> py_repr v)"

definition dict_get :: "json \<Rightarrow> string \<Rightarrow> json option" where
  "dict_get v k = (case v of JObj kvs \<Rightarrow> map_of kvs k | _ \<Rightarrow> None)"

definition describe_telegram_send_message :: "json \<Rightarrow> string" where
  "describe_telegram_send_message payload =
     (let chat_id = (case dict_get payload ''chat_id'' of None \<Rightarrow> ''?'' | Some v \<Rightarrow> py_str v);
          txt = (case dict_get payload ''text'' of None \<Rightarrow> '''' | Some v \<Rightarrow> py_str v)
      in ''Telegram orqali chat '' @ chat_id @ ''ga xabar yuboradi: '' @ [CHR 0x22] @ txt @ [CHR 0x22])"

definition describe_action_preview :: "string \<Rightarrow> json \<Rightarrow> string" where
  "describe_action_preview tool_name payload =
     (if tool_name = telegram_tool then describe_telegram_send_message payload
      else [CHR 0x27] @ tool_name @ [CHR 0x27] @ '' tool'i uchun tayyor preview yo'q - xom payload: ''
           @ py_str payload)"

section \<open>Properties\<close>

text \<open>A path from a draft to each status.\<close>

primrec path_to :: "action_status \<Rightarrow> action_status list" where
  "path_to DRAFT = []"
| "path_to VALIDATING = [VALIDATING]"
| "path_to AWAITING_APPROVAL = [VALIDATING, AWAITING_APPROVAL]"
| "path_to READY = [VALIDATING, READY]"
| "path_to RUNNING = [VALIDATING, READY, RUNNING]"
| "path_to SUCCEEDED = [VALIDATING, READY, RUNNING, SUCCEEDED]"
| "path_to FAILED = [VALIDATING, READY, RUNNING, FAILED]"
| "path_to RETRYING = [VALIDATING, READY, RUNNING, FAILED, RETRYING]"
| "path_to COMPENSATING = [VALIDATING, READY, RUNNING, COMPENSATING]"
| "path_to COMPENSATED = [VALIDATING, READY, RUNNING, COMPENSATING, COMPENSATED]"
| "path_to DENIED = [VALIDATING, DENIED]"
| "path_to REJECTED = [VALIDATING, AWAITING_APPROVAL, REJECTED]"
| "path_to EXPIRED = [VALIDATING, AWAITING_APPROVAL, EXPIRED]"
| "path_to CANCELLED = [CANCELLED]"

text \<open>
  From a draft an action can reach every status; from a terminal status other than
  FAILED it can never reach another; an action that succeeded, failed or was compensated has
  been running; and one that runs has been ready.
\<close>

theorem action_lifecycle:
  "(\<forall>c. \<exists>bs. lifecycle.moves DRAFT bs = Some c)
   \<and> (\<forall>a bs c. is_terminal a \<and> a \<noteq> FAILED \<longrightarrow> lifecycle.moves a bs = Some c \<longrightarrow> c = a)
   \<and> (\<forall>a bs c. c \<in> {SUCCEEDED, FAILED, COMPENSATED, RETRYING, COMPENSATING} \<longrightarrow>
        a \<in> {DRAFT, VALIDATING, AWAITING_APPROVAL, READY} \<longrightarrow>
        lifecycle.moves a bs = Some c \<longrightarrow> RUNNING \<in> set bs)
   \<and> (\<forall>a bs. a \<in> {DRAFT, VALIDATING, AWAITING_APPROVAL} \<longrightarrow>
        lifecycle.moves a bs = Some RUNNING \<longrightarrow> READY \<in> set bs)"
proof (intro conjI allI impI)
  fix c
  have "lifecycle.moves DRAFT (path_to c) = Some c"
    by (cases c) simp_all
  then show "\<exists>bs. lifecycle.moves DRAFT bs = Some c" ..
next
  fix a bs c
  assume "is_terminal a \<and> a \<noteq> FAILED" and moves: "lifecycle.moves a bs = Some c"
  then have "\<And>y. \<not> allowed_edge a y"
    by (auto simp: is_terminal_def terminal_statuses_def)
  then show "c = a" using moves by (rule lifecycle.no_way_out)
next
  fix a bs c
  assume "c \<in> {SUCCEEDED, FAILED, COMPENSATED, RETRYING, COMPENSATING}"
    "a \<in> {DRAFT, VALIDATING, AWAITING_APPROVAL, READY}" "lifecycle.moves a bs = Some c"
  then show "RUNNING \<in> set bs"
  proof (induction bs arbitrary: a)
    case (Cons b bs)
    from Cons.prems(3) have edge: "allowed_edge a b" and rest: "lifecycle.moves b bs = Some c"
      by simp_all
    show ?case
    proof (cases "b \<in> {DRAFT, VALIDATING, AWAITING_APPROVAL, READY, RUNNING}")
      case True
      with Cons.IH [OF Cons.prems(1) _ rest] show ?thesis by auto
    next
      case False
      with edge Cons.prems(2) have b: "b \<in> {CANCELLED, DENIED, EXPIRED, REJECTED}" by auto
      then have "\<And>y. \<not> allowed_edge b y" by auto
      from lifecycle.no_way_out [OF this rest] b Cons.prems(1) show ?thesis by auto
    qed
  qed auto
next
  fix a bs
  assume "a \<in> {DRAFT, VALIDATING, AWAITING_APPROVAL}" "lifecycle.moves a bs = Some RUNNING"
  then show "READY \<in> set bs"
  proof (induction bs arbitrary: a)
    case (Cons b bs)
    from Cons.prems(2) have edge: "allowed_edge a b" and rest: "lifecycle.moves b bs = Some RUNNING"
      by simp_all
    show ?case
    proof (cases "b \<in> {DRAFT, VALIDATING, AWAITING_APPROVAL, READY}")
      case True
      with Cons.IH [OF _ rest] show ?thesis by auto
    next
      case False
      with edge Cons.prems(1) have b: "b \<in> {CANCELLED, DENIED, EXPIRED, REJECTED}" by auto
      then have "\<And>y. \<not> allowed_edge b y" by auto
      from lifecycle.no_way_out [OF this rest] b show ?thesis by auto
    qed
  qed auto
qed

theorem action_lifecycle_witness:
  "lifecycle.moves DRAFT [VALIDATING, READY, RUNNING, SUCCEEDED] = Some SUCCEEDED
   \<and> RUNNING \<in> set [VALIDATING, READY, RUNNING, SUCCEEDED]"
proof -
  have m: "lifecycle.moves DRAFT [VALIDATING, READY, RUNNING, SUCCEEDED] = Some SUCCEEDED"
    by simp
  with action_lifecycle show ?thesis by blast
qed

end
