(* ===== verification/Actions.thy ===== *)
theory Actions
  imports Kill_Switch Action_Policy
begin

text \<open>
  \<open>doda/application/action_service.py\<close> and \<open>outbox_service.py\<close>: proposing, validating, approving,
  cancelling and compensating actions.  An action or approval object loaded earlier in the
  request is passed as the row it was loaded as, which may be stale; \<open>apply_transition\<close> locks
  and re-reads the action row, and an assignment to a loaded object writes that column of the
  stored row.
\<close>

section \<open>Outbox (outbox_service.py)\<close>

definition enqueue_outbox_message ::
  "uuid \<Rightarrow> string \<Rightarrow> uuid \<Rightarrow> string \<Rightarrow> jdict \<Rightarrow> db \<Rightarrow> outbox_message_row \<times> db" where
  "enqueue_outbox_message customer_id aggregate_type aggregate_id event_type payload s =
     (let (new_id, created, s1) = row_defaults s;
          message = \<lparr>om_id = new_id, om_created_at = created, om_customer_id = customer_id,
            om_aggregate_type = aggregate_type, om_aggregate_id = aggregate_id,
            om_event_type = event_type, om_payload = JObj payload, om_attempts = 0,
            om_published_at = None\<rparr>
      in (message, s1\<lparr>outbox_messages := outbox_messages s1 @ [message]\<rparr>))"

section \<open>Proposing\<close>

definition action_key :: "action_row \<Rightarrow> uuid \<times> uuid \<times> string" where
  "action_key a = (act_customer_id a, act_workspace_id a, act_idempotency_key a)"

definition propose_action ::
  "uuid \<Rightarrow> uuid \<Rightarrow> uuid \<Rightarrow> string \<Rightarrow> string \<Rightarrow> risk_level \<Rightarrow> json \<Rightarrow> string \<Rightarrow> uuid option \<Rightarrow> db
     \<Rightarrow> (app_error + action_row \<times> bool) \<times> db" where
  "propose_action customer_id workspace_id trace_id actor_id tool_name requested payload idempotency_key task_id s =
     (case assert_not_killed customer_id workspace_id s of
        Some e \<Rightarrow> raise e s
      | None \<Rightarrow>
          let risk = enforce_minimum_risk_level tool_name requested;
              (new_id, created, s1) = row_defaults s;
              action = \<lparr>act_id = new_id, act_created_at = created, act_customer_id = customer_id,
                act_workspace_id = workspace_id, act_trace_id = trace_id, act_task_id = task_id,
                act_actor_id = actor_id, act_tool_name = tool_name, act_risk_level = risk,
                act_payload = payload, act_payload_hash = hash_payload (sha256 s) payload,
                act_idempotency_key = idempotency_key, act_status = DRAFT\<rparr>
          in case tget action_key (customer_id, workspace_id, idempotency_key) (action_actions s1) of
               Some existing \<Rightarrow> ok (existing, False) s1
             | None \<Rightarrow>
                 let s2 = s1\<lparr>action_actions := action_actions s1 @ [action]\<rparr>
                 in ok (action, True)
                      (log_event customer_id trace_id actor_id ''action.proposed.v1'' (Some workspace_id)
                        [(''action_id'', JStr (uuid_str new_id)), (''tool_name'', JStr tool_name),
                         (''risk_level'', JStr (risk_level_value risk))] s2))"

definition resolve_replay_approval :: "action_row \<Rightarrow> string \<Rightarrow> db \<Rightarrow> approval_row option" where
  "resolve_replay_approval action actor_id s =
     (if act_status action \<noteq> AWAITING_APPROVAL \<or> act_actor_id action \<noteq> actor_id then None
      else case rev (sort_key apv_created_at
                  (filter (\<lambda>p. apv_action_id p = act_id action) (action_approvals s))) of
             [] \<Rightarrow> None | p # _ \<Rightarrow> Some p)"

section \<open>Transitions\<close>

definition lower_char :: "char \<Rightarrow> char" where
  "lower_char c = (let n = (of_char c :: nat) in if 65 \<le> n \<and> n \<le> 90 then char_of (n + 32) else c)"

definition transition_event :: "action_status \<Rightarrow> string" where
  "transition_event target = ''action.'' @ map lower_char (action_status_value target) @ ''.v1''"

definition current_action :: "action_row \<Rightarrow> db \<Rightarrow> action_row" where
  "current_action action s =
     (case tget act_id (act_id action) (action_actions s) of None \<Rightarrow> action | Some r \<Rightarrow> r)"

definition notify_transition :: "action_row \<Rightarrow> action_status \<Rightarrow> db \<Rightarrow> db" where
  "notify_transition action target s =
     (if target = AWAITING_APPROVAL
      then notify (act_customer_id action) (act_actor_id action) PENDING_APPROVAL ''action'' (act_id action)
             (Some (act_workspace_id action))
             [(''tool_name'', JStr (act_tool_name action)),
              (''risk_level'', JStr (risk_level_value (act_risk_level action)))] s
      else if target = FAILED
      then notify (act_customer_id action) (act_actor_id action) FAILED_ACTION ''action'' (act_id action)
             (Some (act_workspace_id action)) [(''tool_name'', JStr (act_tool_name action))] s
      else s)"

definition apply_transition ::
  "action_row \<Rightarrow> action_status \<Rightarrow> string \<Rightarrow> jdict option \<Rightarrow> db \<Rightarrow> (app_error + action_row) \<times> db" where
  "apply_transition loaded target actor_id receipt s =
     (if target = SUCCEEDED \<and> receipt = None then raise MissingProviderReceiptError s
      else
        let action = current_action loaded s;
            previous = act_status action
        in case transition previous target of
             Inl e \<Rightarrow>
               raise e (log_event (act_customer_id action) (act_trace_id action) actor_id
                 ''action.transition_rejected.v1'' (Some (act_workspace_id action))
                 [(''action_id'', JStr (uuid_str (act_id action))),
                  (''from'', JStr (action_status_value previous)),
                  (''to'', JStr (action_status_value target))] s)
           | Inr status \<Rightarrow>
               let action = action\<lparr>act_status := status\<rparr>;
                   s1 = s\<lparr>action_actions :=
                          tupd act_id (act_id action) (\<lambda>a. a\<lparr>act_status := status\<rparr>) (action_actions s)\<rparr>;
                   s2 = log_event (act_customer_id action) (act_trace_id action) actor_id
                          (transition_event target) (Some (act_workspace_id action))
                          [(''action_id'', JStr (uuid_str (act_id action))),
                           (''from'', JStr (action_status_value previous)),
                           (''to'', JStr (action_status_value target)),
                           (''provider_receipt'', case receipt of None \<Rightarrow> JNull | Some r \<Rightarrow> JObj r)] s1
               in ok action (notify_transition action target s2))"

definition request_cancellation :: "action_row \<Rightarrow> string \<Rightarrow> db \<Rightarrow> (app_error + action_row) \<times> db" where
  "request_cancellation action actor_id s =
     (if act_status action = READY then apply_transition action CANCELLED actor_id None s
      else if act_status action = RUNNING then apply_transition action COMPENSATING actor_id None s
      else raise (ActionNotCancellableError (act_status action)) s)"

definition complete_compensation ::
  "action_row \<Rightarrow> action_status \<Rightarrow> string \<Rightarrow> db \<Rightarrow> (app_error + action_row) \<times> db" where
  "complete_compensation action outcome actor_id s =
     (if outcome \<notin> set [COMPENSATED, FAILED] then raise (InvalidCompensationOutcomeError outcome) s
      else apply_transition action outcome actor_id None s)"

definition ready_payload :: "action_row \<Rightarrow> jdict" where
  "ready_payload action =
     [(''action_id'', JStr (uuid_str (act_id action))), (''tool_name'', JStr (act_tool_name action))]"

definition enqueue_ready :: "action_row \<Rightarrow> jdict \<Rightarrow> db \<Rightarrow> db" where
  "enqueue_ready action extra s =
     snd (enqueue_outbox_message (act_customer_id action) ''action'' (act_id action) ''action.ready.v1''
            (ready_payload action @ extra) s)"

definition validate_action :: "action_row \<Rightarrow> string \<Rightarrow> db \<Rightarrow> (app_error + action_row) \<times> db" where
  "validate_action action actor_id s =
     bind_err (apply_transition action VALIDATING actor_id None s) (\<lambda>action s.
       if act_risk_level action \<in> set auto_approved_risk_levels
       then bind_err (apply_transition action READY actor_id None s) (\<lambda>action s.
              ok action (enqueue_ready action [] s))
       else apply_transition action AWAITING_APPROVAL actor_id None s)"

section \<open>Approval\<close>

definition default_approval_ttl :: int where
  "default_approval_ttl = 10 * 60 * 1000000"

definition request_approval :: "action_row \<Rightarrow> db \<Rightarrow> (app_error + approval_row) \<times> db" where
  "request_approval action s =
     (if act_status action \<noteq> AWAITING_APPROVAL
      then raise (ApprovalInvalidError (''cannot request approval for action in status ''
              @ action_status_value (act_status action))) s
      else
        let (nonce, s1) = token_urlsafe s;
            (now, s2) = utcnow s1;
            (new_id, created, s3) = row_defaults s2;
            approval = \<lparr>apv_id = new_id, apv_created_at = created, apv_customer_id = act_customer_id action,
              apv_action_id = act_id action, apv_payload_hash = act_payload_hash action,
              apv_approver_id = None, apv_nonce = nonce, apv_status = A_PENDING,
              apv_expires_at = now + default_approval_ttl\<rparr>
        in ok approval (s3\<lparr>action_approvals := action_approvals s3 @ [approval]\<rparr>))"

definition submit_action_for_execution ::
  "action_row \<Rightarrow> string \<Rightarrow> db \<Rightarrow> (app_error + action_row \<times> approval_row option) \<times> db" where
  "submit_action_for_execution action actor_id s =
     bind_err (validate_action action actor_id s) (\<lambda>action s.
       if act_status action = AWAITING_APPROVAL
       then bind_err (request_approval action s) (\<lambda>approval s. ok (action, Some approval) s)
       else ok (action, None) s)"

primrec approval_status_value :: "approval_status \<Rightarrow> string" where
  "approval_status_value A_PENDING = ''PENDING''"
| "approval_status_value A_APPROVED = ''APPROVED''"
| "approval_status_value A_DENIED = ''DENIED''"
| "approval_status_value A_EXPIRED = ''EXPIRED''"

definition set_approval :: "approval_row \<Rightarrow> (approval_row \<Rightarrow> approval_row) \<Rightarrow> db \<Rightarrow> db" where
  "set_approval approval f s =
     s\<lparr>action_approvals := tupd apv_id (apv_id approval) f (action_approvals s)\<rparr>"

definition consume_approval ::
  "action_row \<Rightarrow> approval_row \<Rightarrow> string \<Rightarrow> string \<Rightarrow> db \<Rightarrow> (app_error + action_row) \<times> db" where
  "consume_approval action approval approver_id nonce s =
     (if apv_status approval \<noteq> A_PENDING
      then raise (ApprovalInvalidError (''approval already '' @ approval_status_value (apv_status approval))) s
      else case compare_digest (apv_nonce approval) nonce of
        Inl e \<Rightarrow> raise e s
      | Inr equal \<Rightarrow>
        if \<not> equal then raise (ApprovalInvalidError ''nonce mismatch'') s
        else
        let (now, s1) = utcnow s in
        if now > apv_expires_at approval
        then bind_err (apply_transition action EXPIRED approver_id None
                        (set_approval approval (\<lambda>p. p\<lparr>apv_status := A_EXPIRED\<rparr>) s1))
               (\<lambda>_ s. raise (ApprovalInvalidError ''approval expired'') s)
        else if apv_payload_hash approval \<noteq> act_payload_hash action
        then bind_err (apply_transition action REJECTED approver_id None
                        (set_approval approval (\<lambda>p. p\<lparr>apv_status := A_DENIED\<rparr>) s1))
               (\<lambda>_ s. raise (ApprovalInvalidError ''action payload changed since approval was requested'') s)
        else bind_err (apply_transition action READY approver_id None
                        (set_approval approval
                           (\<lambda>p. p\<lparr>apv_status := A_APPROVED, apv_approver_id := Some approver_id\<rparr>) s1))
               (\<lambda>action s. ok action
                  (enqueue_ready action [(''approval_id'', JStr (uuid_str (apv_id approval)))] s)))"

definition list_actions_for_workspace ::
  "uuid \<Rightarrow> action_status option \<Rightarrow> int \<Rightarrow> db \<Rightarrow> app_error + action_row list" where
  "list_actions_for_workspace workspace_id status limit s =
     sql_limit (min limit 200) (rev (sort_key act_created_at
       (filter (\<lambda>a. act_workspace_id a = workspace_id
                  \<and> (case status of None \<Rightarrow> True | Some st \<Rightarrow> act_status a = st)) (action_actions s))))"

section \<open>What the operations change\<close>

lemma notify_transition_frame [simp, frame]:
  "identity_users (notify_transition a target s) = identity_users s"
  "identity_sessions (notify_transition a target s) = identity_sessions s"
  "customer_customers (notify_transition a target s) = customer_customers s"
  "customer_memberships (notify_transition a target s) = customer_memberships s"
  "user_customer_index (notify_transition a target s) = user_customer_index s"
  "workspace_workspaces (notify_transition a target s) = workspace_workspaces s"
  "workspace_memberships (notify_transition a target s) = workspace_memberships s"
  "workspace_language_settings (notify_transition a target s) = workspace_language_settings s"
  "workspace_tenant_index (notify_transition a target s) = workspace_tenant_index s"
  "outbox_messages (notify_transition a target s) = outbox_messages s"
  "action_actions (notify_transition a target s) = action_actions s"
  "action_approvals (notify_transition a target s) = action_approvals s"
  "workspace_kill_switches (notify_transition a target s) = workspace_kill_switches s"
  "customer_kill_switches (notify_transition a target s) = customer_kill_switches s"
  "notification_preferences (notify_transition a target s) = notification_preferences s"
  "task_tasks (notify_transition a target s) = task_tasks s"
  "task_history (notify_transition a target s) = task_history s"
  "task_reminders (notify_transition a target s) = task_reminders s"
  "task_decisions (notify_transition a target s) = task_decisions s"
  "conversation_conversations (notify_transition a target s) = conversation_conversations s"
  "conversation_messages (notify_transition a target s) = conversation_messages s"
  "ai_usage_events (notify_transition a target s) = ai_usage_events s"
  "ai_budget_ledgers (notify_transition a target s) = ai_budget_ledgers s"
  "user_ai_preferences (notify_transition a target s) = user_ai_preferences s"
  "workspace_ai_preferences (notify_transition a target s) = workspace_ai_preferences s"
  "ai_customer_provider_settings (notify_transition a target s) = ai_customer_provider_settings s"
  "ai_customer_fallback_settings (notify_transition a target s) = ai_customer_fallback_settings s"
  "ai_provider_verifications (notify_transition a target s) = ai_provider_verifications s"
  "sha256 (notify_transition a target s) = sha256 s"
  "clock (notify_transition a target s) = clock s"
  "uuid_src (notify_transition a target s) = uuid_src s"
  "token_src (notify_transition a target s) = token_src s"
  "minted (notify_transition a target s) = minted s"
  by (simp_all add: notify_transition_def)

lemma enqueue_ready_frame [simp, frame]:
  "identity_users (enqueue_ready a x s) = identity_users s"
  "identity_sessions (enqueue_ready a x s) = identity_sessions s"
  "customer_customers (enqueue_ready a x s) = customer_customers s"
  "customer_memberships (enqueue_ready a x s) = customer_memberships s"
  "user_customer_index (enqueue_ready a x s) = user_customer_index s"
  "workspace_workspaces (enqueue_ready a x s) = workspace_workspaces s"
  "workspace_memberships (enqueue_ready a x s) = workspace_memberships s"
  "workspace_language_settings (enqueue_ready a x s) = workspace_language_settings s"
  "workspace_tenant_index (enqueue_ready a x s) = workspace_tenant_index s"
  "audit_events (enqueue_ready a x s) = audit_events s"
  "audit_chain_tips (enqueue_ready a x s) = audit_chain_tips s"
  "action_actions (enqueue_ready a x s) = action_actions s"
  "action_approvals (enqueue_ready a x s) = action_approvals s"
  "workspace_kill_switches (enqueue_ready a x s) = workspace_kill_switches s"
  "customer_kill_switches (enqueue_ready a x s) = customer_kill_switches s"
  "notifications (enqueue_ready a x s) = notifications s"
  "notification_preferences (enqueue_ready a x s) = notification_preferences s"
  "task_tasks (enqueue_ready a x s) = task_tasks s"
  "task_history (enqueue_ready a x s) = task_history s"
  "task_reminders (enqueue_ready a x s) = task_reminders s"
  "task_decisions (enqueue_ready a x s) = task_decisions s"
  "conversation_conversations (enqueue_ready a x s) = conversation_conversations s"
  "conversation_messages (enqueue_ready a x s) = conversation_messages s"
  "ai_usage_events (enqueue_ready a x s) = ai_usage_events s"
  "ai_budget_ledgers (enqueue_ready a x s) = ai_budget_ledgers s"
  "user_ai_preferences (enqueue_ready a x s) = user_ai_preferences s"
  "workspace_ai_preferences (enqueue_ready a x s) = workspace_ai_preferences s"
  "ai_customer_provider_settings (enqueue_ready a x s) = ai_customer_provider_settings s"
  "ai_customer_fallback_settings (enqueue_ready a x s) = ai_customer_fallback_settings s"
  "ai_provider_verifications (enqueue_ready a x s) = ai_provider_verifications s"
  "sha256 (enqueue_ready a x s) = sha256 s"
  "clock (enqueue_ready a x s) = clock s"
  "uuid_src (enqueue_ready a x s) = uuid_src s"
  "token_src (enqueue_ready a x s) = token_src s"
  "minted (enqueue_ready a x s) = minted s"
  by (simp_all add: enqueue_ready_def enqueue_outbox_message_def row_defaults_def Let_def)

lemma enqueue_ready_effect [effect]:
  "outbox_messages (enqueue_ready a x s) = outbox_messages s @
     [\<lparr>om_id = uuid_src s (drawn s), om_created_at = clock s (ticks s), om_customer_id = act_customer_id a,
       om_aggregate_type = ''action'', om_aggregate_id = act_id a, om_event_type = ''action.ready.v1'',
       om_payload = JObj (ready_payload a @ x), om_attempts = 0, om_published_at = None\<rparr>]"
  by (simp add: enqueue_ready_def enqueue_outbox_message_def row_defaults_def Let_def)

text \<open>The tables a transition writes, on both outcomes.\<close>

lemma apply_transition_ok_iff:
  "apply_transition a target who receipt s = (Inr b, t) \<longleftrightarrow>
     (target = SUCCEEDED \<longrightarrow> receipt \<noteq> None) \<and> allowed_edge (act_status (current_action a s)) target
   \<and> b = (current_action a s)\<lparr>act_status := target\<rparr>
   \<and> t = notify_transition b target (log_event (act_customer_id b) (act_trace_id b) who
            (transition_event target) (Some (act_workspace_id b))
            [(''action_id'', JStr (uuid_str (act_id b))),
             (''from'', JStr (action_status_value (act_status (current_action a s)))),
             (''to'', JStr (action_status_value target)),
             (''provider_receipt'', case receipt of None \<Rightarrow> JNull | Some r \<Rightarrow> JObj r)]
            (s\<lparr>action_actions := tupd act_id (act_id b) (\<lambda>x. x\<lparr>act_status := target\<rparr>) (action_actions s)\<rparr>))"
  by (auto simp: apply_transition_def Let_def transition_def allowed_edge_def)

lemma apply_transition_err_iff:
  "apply_transition a target who receipt s = (Inl e, t) \<Longrightarrow>
     action_actions t = action_actions s \<and> outbox_messages t = outbox_messages s
   \<and> action_approvals t = action_approvals s
   \<and> (e = MissingProviderReceiptError \<or> e = InvalidActionTransition (act_status (current_action a s)) target)"
  by (auto simp: apply_transition_def Let_def transition_def split: if_splits)

end
