(* ===== verification/Sessions.thy ===== *)
theory Sessions
  imports Access
begin

text \<open>
  \<open>doda/application/session_service.py\<close> and \<open>identity_service.py\<close>: sessions with their idle
  and absolute timeouts, and the one user row per login subject.  Instants are microseconds.
\<close>

section \<open>Sessions\<close>

definition idle_timeout :: int where "idle_timeout = 30 * 60 * 1000000"

definition absolute_timeout :: int where "absolute_timeout = 12 * 60 * 60 * 1000000"

definition create_session :: "uuid \<Rightarrow> auth_strength \<Rightarrow> string option \<Rightarrow> db \<Rightarrow> session_row \<times> db" where
  "create_session user_id strength user_agent s =
     (let (now, s1) = utcnow s;
          (new_id, created, s2) = row_defaults s1;
          rec = \<lparr>ses_id = new_id, ses_created_at = created, ses_user_id = user_id,
                 ses_auth_strength = strength, ses_last_seen_at = now,
                 ses_expires_at = now + absolute_timeout, ses_revoked_at = None,
                 ses_user_agent = user_agent\<rparr>
      in (rec, s2\<lparr>identity_sessions := identity_sessions s2 @ [rec]\<rparr>))"

definition is_new_device_login :: "uuid \<Rightarrow> string \<Rightarrow> db \<Rightarrow> bool" where
  "is_new_device_login user_id user_agent s =
     (let has_any_known_device =
            find (\<lambda>r. ses_user_id r = user_id \<and> ses_user_agent r \<noteq> None) (identity_sessions s);
          matches_a_known_device =
            find (\<lambda>r. ses_user_id r = user_id \<and> ses_user_agent r = Some user_agent) (identity_sessions s)
      in if has_any_known_device = None then False else matches_a_known_device = None)"

definition resolve_session :: "uuid \<Rightarrow> db \<Rightarrow> (app_error + session_row) \<times> db" where
  "resolve_session session_id s =
     (let rec = tget ses_id session_id (identity_sessions s);
          (now, s1) = utcnow s
      in case rec of
           None \<Rightarrow> raise (SessionInvalidError ''no such session'') s1
         | Some r \<Rightarrow>
             if ses_revoked_at r \<noteq> None then raise (SessionInvalidError ''session revoked'') s1
             else if now > ses_expires_at r
             then raise (SessionInvalidError ''session past absolute timeout'') s1
             else if now - ses_last_seen_at r > idle_timeout
             then raise (SessionInvalidError ''session idle timeout'') s1
             else ok (r\<lparr>ses_last_seen_at := now\<rparr>)
               (s1\<lparr>identity_sessions :=
                     tupd ses_id session_id (\<lambda>x. x\<lparr>ses_last_seen_at := now\<rparr>) (identity_sessions s1)\<rparr>))"

definition list_active_sessions_for_user :: "uuid \<Rightarrow> db \<Rightarrow> session_row list \<times> db" where
  "list_active_sessions_for_user user_id s =
     (let (now, s1) = utcnow s in
      (rev (sort_key ses_last_seen_at
         (filter (\<lambda>r. ses_user_id r = user_id \<and> ses_revoked_at r = None
                    \<and> ses_expires_at r > now \<and> ses_last_seen_at r > now - idle_timeout)
            (identity_sessions s1))), s1))"

definition revoke_session :: "uuid \<Rightarrow> db \<Rightarrow> db" where
  "revoke_session session_id s =
     (case tget ses_id session_id (identity_sessions s) of
        None \<Rightarrow> s
      | Some r \<Rightarrow>
          if ses_revoked_at r \<noteq> None then s
          else let (now, s1) = utcnow s in
               s1\<lparr>identity_sessions :=
                    tupd ses_id session_id (\<lambda>x. x\<lparr>ses_revoked_at := Some now\<rparr>) (identity_sessions s1)\<rparr>)"

section \<open>Users\<close>

definition hash_oidc_subject :: "string \<Rightarrow> string \<Rightarrow> (string \<Rightarrow> string) \<Rightarrow> string" where
  "hash_oidc_subject provider subject sha = sha (provider @ '':'' @ subject)"

text \<open>
  The row the first \<open>select\<close> saw is an argument: another transaction may insert the user
  between the \<open>select\<close> and the insert, whose unique constraint then fails and makes the loser
  read the winner's row.
\<close>

definition get_or_create_user_after ::
  "user_row option \<Rightarrow> string \<Rightarrow> string \<Rightarrow> db \<Rightarrow> (app_error + user_row) \<times> db" where
  "get_or_create_user_after existing subject_hash display_name s =
     (case existing of
        Some u \<Rightarrow> ok u s
      | None \<Rightarrow>
          let (new_id, created, s1) = row_defaults s in
          if subject_hash \<in> usr_oidc_subject_hash ` set (identity_users s1)
          then (case tget usr_oidc_subject_hash subject_hash (identity_users s1) of
                  None \<Rightarrow> raise (IntegrityError ''identity_users'') s1
                | Some winner \<Rightarrow> ok winner s1)
          else let u = \<lparr>usr_id = new_id, usr_created_at = created, usr_oidc_subject_hash = subject_hash,
                        usr_display_name = display_name\<rparr>
               in ok u (s1\<lparr>identity_users := identity_users s1 @ [u]\<rparr>))"

definition get_or_create_user :: "string \<Rightarrow> string \<Rightarrow> db \<Rightarrow> (app_error + user_row) \<times> db" where
  "get_or_create_user subject_hash display_name s =
     get_or_create_user_after (tget usr_oidc_subject_hash subject_hash (identity_users s))
       subject_hash display_name s"

section \<open>Lemmas\<close>

lemma create_session_table:
  "identity_sessions (snd (create_session u a g s)) = identity_sessions s @ [fst (create_session u a g s)]"
  "clock (snd (create_session u a g s)) = clock s"
  "ticks (snd (create_session u a g s)) = Suc (Suc (ticks s))"
  by (simp_all add: create_session_def utcnow_def row_defaults_def Let_def)

text \<open>A session that must not be trusted any more at an instant.\<close>

definition dead_at :: "instant \<Rightarrow> session_row \<Rightarrow> bool" where
  "dead_at now r \<longleftrightarrow>
     ses_revoked_at r \<noteq> None \<or> now > ses_expires_at r \<or> now - ses_last_seen_at r > idle_timeout"

lemma resolve_session_dead:
  "tget ses_id i (identity_sessions s) = Some r \<Longrightarrow> dead_at (clock s (ticks s)) r \<Longrightarrow>
     \<exists>why. resolve_session i s = raise (SessionInvalidError why) (s\<lparr>ticks := Suc (ticks s)\<rparr>)"
  by (auto simp: resolve_session_def utcnow_def dead_at_def Let_def)

lemma resolve_session_live:
  "tget ses_id i (identity_sessions s) = Some r \<Longrightarrow> \<not> dead_at (clock s (ticks s)) r \<Longrightarrow>
     resolve_session i s = ok (r\<lparr>ses_last_seen_at := clock s (ticks s)\<rparr>)
       (s\<lparr>ticks := Suc (ticks s),
          identity_sessions := tupd ses_id i (\<lambda>x. x\<lparr>ses_last_seen_at := clock s (ticks s)\<rparr>) (identity_sessions s)\<rparr>)"
  by (auto simp: resolve_session_def utcnow_def dead_at_def Let_def)

lemma resolve_session_missing:
  "tget ses_id i (identity_sessions s) = None \<Longrightarrow>
     resolve_session i s = raise (SessionInvalidError ''no such session'') (s\<lparr>ticks := Suc (ticks s)\<rparr>)"
  by (simp add: resolve_session_def utcnow_def Let_def)

text \<open>The operations of other requests that touch the session table, in any order.\<close>

datatype session_event =
    S_CREATE uuid auth_strength "string option"
  | S_RESOLVE uuid
  | S_LIST uuid
  | S_REVOKE uuid

primrec session_step :: "session_event \<Rightarrow> db \<Rightarrow> db" where
  "session_step (S_CREATE u a g) s = snd (create_session u a g s)"
| "session_step (S_RESOLVE i) s = snd (resolve_session i s)"
| "session_step (S_LIST u) s = snd (list_active_sessions_for_user u s)"
| "session_step (S_REVOKE i) s = revoke_session i s"

lemma session_step_clock [simp]: "clock (session_step e s) = clock s"
proof (cases e)
  case (S_RESOLVE i)
  then show ?thesis
    by (cases "tget ses_id i (identity_sessions s)")
      (auto simp: resolve_session_def utcnow_def Let_def)
qed (auto simp: create_session_table list_active_sessions_for_user_def revoke_session_def utcnow_def Let_def
    split: option.splits)

lemma session_step_ticks: "ticks s \<le> ticks (session_step e s)"
proof (cases e)
  case (S_RESOLVE i)
  then show ?thesis
    by (cases "tget ses_id i (identity_sessions s)")
      (auto simp: resolve_session_def utcnow_def Let_def)
qed (auto simp: create_session_table list_active_sessions_for_user_def revoke_session_def utcnow_def Let_def
    split: option.splits)

lemma tget_tupd_session:
  "tget ses_id i (tupd ses_id j (\<lambda>x. x\<lparr>ses_last_seen_at := t\<rparr>) rs)
     = (if i = j then map_option (\<lambda>x. x\<lparr>ses_last_seen_at := t\<rparr>) (tget ses_id i rs) else tget ses_id i rs)"
  "tget ses_id i (tupd ses_id j (\<lambda>x. x\<lparr>ses_revoked_at := v\<rparr>) rs)
     = (if i = j then map_option (\<lambda>x. x\<lparr>ses_revoked_at := v\<rparr>) (tget ses_id i rs) else tget ses_id i rs)"
  by (simp_all add: tget_tupd)

text \<open>
  One step keeps a session's row, but for the last-seen instant of a live session that is
  being used and the revocation mark.
\<close>

lemma session_step_row:
  assumes "tget ses_id i (identity_sessions s) = Some r"
  shows "\<exists>r'. tget ses_id i (identity_sessions (session_step e s)) = Some r'
     \<and> ses_expires_at r' = ses_expires_at r \<and> ses_user_id r' = ses_user_id r
     \<and> (ses_revoked_at r \<noteq> None \<longrightarrow> ses_revoked_at r' = ses_revoked_at r)
     \<and> (dead_at (clock s (ticks s)) r \<longrightarrow> ses_last_seen_at r' = ses_last_seen_at r)"
proof (cases e)
  case (S_CREATE u a g)
  with assms show ?thesis by (simp add: create_session_table tget_append)
next
  case (S_RESOLVE j)
  show ?thesis
  proof (cases "tget ses_id j (identity_sessions s)")
    case None
    with assms S_RESOLVE show ?thesis by (simp add: resolve_session_missing)
  next
    case (Some q)
    show ?thesis
    proof (cases "dead_at (clock s (ticks s)) q")
      case True
      with resolve_session_dead [OF Some] S_RESOLVE assms show ?thesis by auto
    next
      case False
      with Some S_RESOLVE assms show ?thesis
        by (auto simp: resolve_session_live tget_tupd_session)
    qed
  qed
next
  case (S_LIST u)
  with assms show ?thesis by (simp add: list_active_sessions_for_user_def utcnow_def)
next
  case (S_REVOKE j)
  with assms show ?thesis
    by (auto simp: revoke_session_def utcnow_def tget_tupd_session Let_def split: option.splits)
qed

lemma dead_stays_dead:
  assumes "mono (clock s)" "tget ses_id i (identity_sessions s) = Some r" "dead_at (clock s (ticks s)) r"
  shows "\<exists>r'. tget ses_id i (identity_sessions (fold session_step es s)) = Some r'
     \<and> dead_at (clock s (ticks (fold session_step es s))) r'"
  using assms
proof (induction es arbitrary: s r)
  case (Cons e es)
  obtain r' where r': "tget ses_id i (identity_sessions (session_step e s)) = Some r'"
      "ses_expires_at r' = ses_expires_at r"
      "ses_revoked_at r \<noteq> None \<longrightarrow> ses_revoked_at r' = ses_revoked_at r"
      "ses_last_seen_at r' = ses_last_seen_at r"
    using session_step_row [OF Cons.prems(2), of e] Cons.prems(3) by blast
  have "clock s (ticks s) \<le> clock s (ticks (session_step e s))"
    using Cons.prems(1) session_step_ticks by (rule monoD)
  then have "dead_at (clock s (ticks (session_step e s))) r'"
    using Cons.prems(3) r' by (auto simp: dead_at_def)
  from Cons.IH [OF _ r'(1)] this Cons.prems(1) show ?case by simp
qed auto


lemma resolve_session_refused_iff:
  "(\<exists>e. fst (resolve_session i s) = Inl e) \<longleftrightarrow>
     (case tget ses_id i (identity_sessions s) of None \<Rightarrow> True | Some r \<Rightarrow> dead_at (clock s (ticks s)) r)"
proof (cases "tget ses_id i (identity_sessions s)")
  case None
  then show ?thesis by (simp add: resolve_session_missing)
next
  case (Some r)
  show ?thesis
    by (cases "dead_at (clock s (ticks s)) r")
      (use Some resolve_session_live [OF Some] resolve_session_dead [OF Some] in auto)
qed

lemma fold_session_clock: "clock (fold session_step es s) = clock s"
  by (rule fold_frame) simp

lemma fold_session_row:
  assumes "tget ses_id i (identity_sessions s) = Some r"
  shows "\<exists>r'. tget ses_id i (identity_sessions (fold session_step es s)) = Some r'
     \<and> ses_expires_at r' = ses_expires_at r \<and> ses_user_id r' = ses_user_id r"
  using assms
proof (induction es arbitrary: s r)
  case (Cons e es)
  from session_step_row [OF Cons.prems, of e] obtain r'
    where "tget ses_id i (identity_sessions (session_step e s)) = Some r'"
      "ses_expires_at r' = ses_expires_at r" "ses_user_id r' = ses_user_id r" by blast
  with Cons.IH [of "session_step e s" r'] show ?case by simp
qed simp

lemma revoke_session_row:
  assumes "tget ses_id i (identity_sessions s) = Some r"
  shows "\<exists>r'. tget ses_id i (identity_sessions (revoke_session i s)) = Some r' \<and> ses_revoked_at r' \<noteq> None"
  using assms by (auto simp: revoke_session_def utcnow_def Let_def tget_tupd_session)

section \<open>Properties\<close>

definition sample_session :: "session_row \<times> db" where
  "sample_session = create_session 3 AAL2 None empty_db"

lemma sample_session_row: "tget ses_id 0 (identity_sessions (snd sample_session)) = Some (fst sample_session)"
  by (simp add: sample_session_def create_session_def utcnow_def row_defaults_def Let_def)

lemma sample_session_clock: "clock (snd sample_session) = int"
  by (simp add: sample_session_def create_session_table)

text \<open>
  C8: a session once refused (revoked, idle or expired) is refused forever, and so is a
  session once revoked, whatever other requests do in between: create, use, list or revoke
  any session of any user.
\<close>

theorem refused_session_stays_refused:
  assumes "mono (clock s)" "tget ses_id i (identity_sessions s) = Some r"
    and "(\<exists>e. fst (resolve_session i s) = Inl e) \<and> t = fold session_step es s
       \<or> t = fold session_step es (revoke_session i s)"
  shows "\<exists>e. fst (resolve_session i t) = Inl e"
proof -
  have clock: "clock (revoke_session i s) = clock s"
    by (metis session_step.simps(4) session_step_clock)
  obtain q where "tget ses_id i (identity_sessions (revoke_session i s)) = Some q" "ses_revoked_at q \<noteq> None"
    using revoke_session_row [OF assms(2)] by blast
  then have "\<exists>r'. tget ses_id i (identity_sessions (fold session_step es (revoke_session i s))) = Some r'
      \<and> dead_at (clock s (ticks (fold session_step es (revoke_session i s)))) r'"
    using dead_stays_dead [of "revoke_session i s" i q es] assms(1) by (simp add: clock dead_at_def)
  moreover have "\<exists>r'. tget ses_id i (identity_sessions (fold session_step es s)) = Some r'
      \<and> dead_at (clock s (ticks (fold session_step es s))) r'" if "\<exists>e. fst (resolve_session i s) = Inl e"
    using dead_stays_dead [OF assms(1,2)] that assms(2) by (simp add: resolve_session_refused_iff)
  ultimately show ?thesis
    using assms(3) by (auto simp: resolve_session_refused_iff fold_session_clock clock)
qed

theorem refused_session_stays_refused_witness:
  "\<exists>e. fst (resolve_session 0 (fold session_step [S_RESOLVE 0, S_CREATE 3 AAL1 None] (revoke_session 0 (snd sample_session)))) = Inl e"
  by (rule refused_session_stays_refused [where s = "snd sample_session" and es = "[S_RESOLVE 0, S_CREATE 3 AAL1 None]"])
    (simp_all only: sample_session_row sample_session_clock, simp_all add: mono_def)

text \<open>
  C9: using a session does not prolong its life past the absolute timeout: a session created
  at an instant is never accepted more than twelve hours after it.
\<close>

theorem absolute_timeout_is_final:
  assumes "create_session u a g s = (rec, s')" "ses_id rec \<notin> ses_id ` set (identity_sessions s)"
    and "fst (resolve_session (ses_id rec) (fold session_step es s')) = Inr r"
  shows "clock s (ticks (fold session_step es s')) \<le> clock s (ticks s) + absolute_timeout"
proof -
  have row: "tget ses_id (ses_id rec) (identity_sessions s') = Some rec"
    using assms(1,2) create_session_table(1) [of u a g s] by (simp add: tget_append tget_None_iff [THEN iffD2])
  have exp: "ses_expires_at rec = clock s (ticks s) + absolute_timeout"
    using assms(1) by (auto simp: create_session_def utcnow_def row_defaults_def Let_def)
  have clock: "clock s' = clock s"
    using assms(1) create_session_table(2) [of u a g s] by simp
  obtain r' where "tget ses_id (ses_id rec) (identity_sessions (fold session_step es s')) = Some r'"
      "ses_expires_at r' = ses_expires_at rec"
    using fold_session_row [OF row] by blast
  moreover have "\<not> (\<exists>e. fst (resolve_session (ses_id rec) (fold session_step es s')) = Inl e)"
    using assms(3) by simp
  ultimately show ?thesis
    unfolding resolve_session_refused_iff by (simp add: dead_at_def exp fold_session_clock clock)
qed

theorem absolute_timeout_is_final_witness:
  "clock empty_db (ticks (fold session_step [S_LIST 3] (snd sample_session)))
     \<le> clock empty_db (ticks empty_db) + absolute_timeout"
  by (rule absolute_timeout_is_final [of 3 AAL2 None empty_db "fst sample_session"])
    (simp_all add: sample_session_def create_session_def utcnow_def row_defaults_def Let_def
      list_active_sessions_for_user_def resolve_session_def idle_timeout_def absolute_timeout_def)

text \<open>
  C10: the sessions a user is shown as active are exactly those of theirs a request would be
  accepted with at that instant, except for one reaching a timeout at that very instant, which
  is accepted and not shown.
\<close>

theorem listed_sessions_are_usable:
  assumes "distinct (map ses_id (identity_sessions s))" "r \<in> set (identity_sessions s)"
  shows "r \<in> set (fst (list_active_sessions_for_user u s)) \<longleftrightarrow>
     ses_user_id r = u \<and> fst (resolve_session (ses_id r) s) = Inr (r\<lparr>ses_last_seen_at := clock s (ticks s)\<rparr>)
   \<and> clock s (ticks s) \<noteq> ses_expires_at r \<and> clock s (ticks s) \<noteq> ses_last_seen_at r + idle_timeout"
proof -
  have row: "tget ses_id (ses_id r) (identity_sessions s) = Some r"
    by (rule tget_distinct [OF assms])
  have listed: "r \<in> set (fst (list_active_sessions_for_user u s)) \<longleftrightarrow>
      ses_user_id r = u \<and> ses_revoked_at r = None \<and> ses_expires_at r > clock s (ticks s)
      \<and> ses_last_seen_at r > clock s (ticks s) - idle_timeout"
    using assms(2) by (simp add: list_active_sessions_for_user_def utcnow_def)
  show ?thesis
  proof (cases "dead_at (clock s (ticks s)) r")
    case True
    with resolve_session_dead [OF row True] show ?thesis
      unfolding listed by (auto simp: dead_at_def)
  next
    case False
    with resolve_session_live [OF row False] show ?thesis
      unfolding listed by (auto simp: dead_at_def)
  qed
qed

theorem listed_sessions_are_usable_witness:
  "fst sample_session \<in> set (fst (list_active_sessions_for_user 3 (snd sample_session)))"
  by (subst listed_sessions_are_usable)
    (simp_all add: sample_session_def create_session_def utcnow_def row_defaults_def Let_def
      resolve_session_def idle_timeout_def absolute_timeout_def)

text \<open>
  Logging in with one subject gives one user: the row returned carries the subject's
  hash, hashes stay unique, and every later login with that subject returns that row and
  changes no table, also when two first logins race and the second one's insert fails.
\<close>

theorem one_user_per_subject:
  assumes "distinct (map usr_oidc_subject_hash (identity_users s))"
    and "seen = None \<or> seen = tget usr_oidc_subject_hash h (identity_users s)"
  shows "\<exists>u t. get_or_create_user_after seen h name s = ok u t \<and> usr_oidc_subject_hash u = h
     \<and> distinct (map usr_oidc_subject_hash (identity_users t)) \<and> get_or_create_user h name' t = ok u t"
proof (cases "tget usr_oidc_subject_hash h (identity_users s)")
  case None
  then have "h \<notin> usr_oidc_subject_hash ` set (identity_users s)" by (simp add: tget_None_iff)
  with None assms show ?thesis
    by (auto simp: get_or_create_user_after_def get_or_create_user_def row_defaults_def Let_def tget_append)
next
  case (Some u)
  then have "h \<in> usr_oidc_subject_hash ` set (identity_users s)" "usr_oidc_subject_hash u = h"
    by (auto dest: tget_SomeD)
  with Some assms show ?thesis
    by (auto simp: get_or_create_user_after_def get_or_create_user_def row_defaults_def Let_def)
qed

theorem one_user_per_subject_witness:
  "\<exists>u t. get_or_create_user_after None ''h'' ''A'' empty_db = ok u t \<and> usr_oidc_subject_hash u = ''h''
     \<and> distinct (map usr_oidc_subject_hash (identity_users t)) \<and> get_or_create_user ''h'' ''B'' t = ok u t"
  by (rule one_user_per_subject) simp_all

end
