(* ===== verification/Api_Context.thy ===== *)
theory Api_Context
  imports Sessions
begin

text \<open>
  \<open>doda/api/dependencies.py\<close>: the chain every request goes through before its handler runs:
  bearer token, session, tenant bootstrap, membership.  A handler is a function of the context;
  it runs in one transaction, which an exception rolls back.  The session's touch is committed
  before, in a transaction of its own.
\<close>

section \<open>Bearer tokens\<close>

definition parse_uuid :: "string \<Rightarrow> uuid option" where
  "parse_uuid t = (if t \<noteq> [] \<and> (\<forall>c \<in> set t. is_digit_char c) then Some (dec_value t) else None)"

definition bearer_prefix :: string where
  "bearer_prefix = ''Bearer ''"

definition parse_bearer_session_id :: "string option \<Rightarrow> app_error + uuid" where
  "parse_bearer_session_id authorization =
     (case authorization of
        None \<Rightarrow> Inl (SessionInvalidError ''missing bearer session token'')
      | Some a \<Rightarrow>
          if a = [] \<or> take (length bearer_prefix) a \<noteq> bearer_prefix
          then Inl (SessionInvalidError ''missing bearer session token'')
          else (case parse_uuid (py_strip (drop (length bearer_prefix) a)) of
                  None \<Rightarrow> Inl (SessionInvalidError ''malformed session token'')
                | Some u \<Rightarrow> Inr u))"

section \<open>Contexts\<close>

record request_context =
  rc_workspace :: workspace_context
  rc_auth_strength :: auth_strength

record current_identity =
  ci_user_id :: uuid
  ci_session_id :: uuid
  ci_auth_strength :: auth_strength

abbreviation ctx_actor :: "request_context \<Rightarrow> string" where
  "ctx_actor ctx \<equiv> user_actor (wc_user_id (rc_workspace ctx))"

type_synonym 'a response = "(app_error + 'a) \<times> db"

definition resolve_request_context ::
  "bool \<Rightarrow> uuid \<Rightarrow> string option \<Rightarrow> (request_context \<Rightarrow> db \<Rightarrow> 'a response) \<Rightarrow> db \<Rightarrow> 'a response" where
  "resolve_request_context allow_archived workspace_id authorization handler s =
     (case parse_bearer_session_id authorization of
        Inl e \<Rightarrow> raise e s
      | Inr session_id \<Rightarrow>
          bind_err (run_tx (resolve_session session_id) s) (\<lambda>rec s.
            case workspace_tenant_index s workspace_id of
              None \<Rightarrow> raise (AuthorizationError DENY ''workspace not found'') s
            | Some _ \<Rightarrow>
                run_tx (\<lambda>s. case get_workspace_context (ses_user_id rec) workspace_id allow_archived s of
                               Inl e \<Rightarrow> raise e s
                             | Inr context \<Rightarrow>
                                 handler \<lparr>rc_workspace = context, rc_auth_strength = ses_auth_strength rec\<rparr> s) s))"

definition get_request_context ::
  "uuid \<Rightarrow> string option \<Rightarrow> (request_context \<Rightarrow> db \<Rightarrow> 'a response) \<Rightarrow> db \<Rightarrow> 'a response" where
  "get_request_context workspace_id authorization handler s =
     resolve_request_context False workspace_id authorization handler s"

definition get_request_context_allow_archived ::
  "uuid \<Rightarrow> string option \<Rightarrow> (request_context \<Rightarrow> db \<Rightarrow> 'a response) \<Rightarrow> db \<Rightarrow> 'a response" where
  "get_request_context_allow_archived workspace_id authorization handler s =
     resolve_request_context True workspace_id authorization handler s"

definition get_customer_request_context ::
  "uuid \<Rightarrow> string option \<Rightarrow> (customer_context \<Rightarrow> db \<Rightarrow> 'a response) \<Rightarrow> db \<Rightarrow> 'a response" where
  "get_customer_request_context customer_id authorization handler s =
     (case parse_bearer_session_id authorization of
        Inl e \<Rightarrow> raise e s
      | Inr session_id \<Rightarrow>
          bind_err (run_tx (resolve_session session_id) s) (\<lambda>rec s.
            run_tx (\<lambda>s. case get_customer_context (ses_user_id rec) customer_id s of
                           Inl e \<Rightarrow> raise e s
                         | Inr context \<Rightarrow> handler context s) s))"

definition get_current_identity :: "string option \<Rightarrow> db \<Rightarrow> current_identity response" where
  "get_current_identity authorization s =
     (case parse_bearer_session_id authorization of
        Inl e \<Rightarrow> raise e s
      | Inr session_id \<Rightarrow>
          bind_err (run_tx (resolve_session session_id) s) (\<lambda>rec s.
            ok \<lparr>ci_user_id = ses_user_id rec, ci_session_id = session_id,
                 ci_auth_strength = ses_auth_strength rec\<rparr> s))"

section \<open>Lemmas\<close>

lemma parse_uuid_str [simp]: "parse_uuid (uuid_str u) = Some u"
  by (simp add: parse_uuid_def uuid_str_def dec_nat_digits)

lemma digit_not_space [simp]: "is_digit_char c \<Longrightarrow> \<not> is_space c"
  by (auto simp: is_digit_char_def is_space_def Let_def)

lemma py_strip_uuid_str [simp]: "py_strip (uuid_str u) = uuid_str u"
proof -
  have no_space: "\<not> is_space c" if "c \<in> set (uuid_str u)" for c
    using that unfolding uuid_str_def by (intro digit_not_space dec_nat_digits)
  have keep: "dropWhile is_space xs = xs" if "set xs = set (uuid_str u)" for xs
    using that no_space by (cases xs) auto
  show ?thesis by (simp add: py_strip_def keep)
qed

definition bearer :: "uuid \<Rightarrow> string option" where
  "bearer session_id = Some (bearer_prefix @ uuid_str session_id)"

lemma parse_bearer [simp]: "parse_bearer_session_id (bearer u) = Inr u"
  by (simp add: parse_bearer_session_id_def bearer_def bearer_prefix_def)

lemma case_sum_ok_iff:
  "(case x of Inl e \<Rightarrow> raise e s | Inr c \<Rightarrow> h c) = (Inr y, t) \<longleftrightarrow> (\<exists>c. x = Inr c \<and> h c = (Inr y, t))"
  by (cases x) auto

lemma resolve_request_context_Inr:
  assumes "resolve_request_context allow w auth h s = (Inr x, t)"
  shows "\<exists>sid rec s1 ctx c. parse_bearer_session_id auth = Inr sid
     \<and> resolve_session sid s = (Inr rec, s1) \<and> workspace_tenant_index s1 w = Some c
     \<and> get_workspace_context (ses_user_id rec) w allow s1 = Inr ctx
     \<and> h \<lparr>rc_workspace = ctx, rc_auth_strength = ses_auth_strength rec\<rparr> s1 = (Inr x, t)"
  using assms
  by (auto simp: resolve_request_context_def bind_err_ok_iff case_sum_ok_iff split: option.splits)

lemma get_customer_request_context_Inr:
  assumes "get_customer_request_context c auth h s = (Inr x, t)"
  shows "\<exists>sid rec s1 ctx. parse_bearer_session_id auth = Inr sid
     \<and> resolve_session sid s = (Inr rec, s1)
     \<and> get_customer_context (ses_user_id rec) c s1 = Inr ctx \<and> h ctx s1 = (Inr x, t)"
  using assms
  by (auto simp: get_customer_request_context_def bind_err_ok_iff case_sum_ok_iff)


section \<open>A session to start witnesses from\<close>

definition sample_login :: db where
  "sample_login = sample_access\<lparr>
     identity_sessions := [\<lparr>ses_id = 5, ses_created_at = 0, ses_user_id = 3, ses_auth_strength = AAL1,
       ses_last_seen_at = 0, ses_expires_at = absolute_timeout, ses_revoked_at = None, ses_user_agent = None\<rparr>],
     workspace_tenant_index := [1 \<mapsto> 7]\<rparr>"

definition sample_login_ctx :: request_context where
  "sample_login_ctx = \<lparr>rc_workspace = \<lparr>wc_customer_id = 7, wc_workspace_id = 1, wc_user_id = 3, wc_role = WR_MEMBER\<rparr>,
     rc_auth_strength = AAL1\<rparr>"

definition login_touched :: "db \<Rightarrow> db" where
  "login_touched s = s\<lparr>ticks := Suc (ticks s),
     identity_sessions := tupd ses_id 5 (\<lambda>r. r\<lparr>ses_last_seen_at := clock s (ticks s)\<rparr>) (identity_sessions s)\<rparr>"

text \<open>A request of user 3 in workspace 1, in a database that holds these access tables.\<close>

lemma sample_login_request:
  assumes "identity_sessions s = identity_sessions sample_login" "workspace_tenant_index s = workspace_tenant_index sample_login"
    "workspace_workspaces s = workspace_workspaces sample_login" "customer_memberships s = customer_memberships sample_login"
    "workspace_memberships s = workspace_memberships sample_login" "clock s = int" "ticks s = 0"
  shows "get_request_context 1 (bearer 5) h s = run_tx (h sample_login_ctx) (login_touched s)"
proof -
  have ses: "resolve_session 5 s = ok (hd (identity_sessions (login_touched s))) (login_touched s)"
    using assms(1,6,7)
    by (simp add: resolve_session_def login_touched_def sample_login_def utcnow_def Let_def absolute_timeout_def
        idle_timeout_def tupd_def)
  have tables: "workspace_workspaces (login_touched s) = workspace_workspaces sample_access"
    "customer_memberships (login_touched s) = customer_memberships sample_access"
    "workspace_memberships (login_touched s) = workspace_memberships sample_access"
    "workspace_tenant_index (login_touched s) 1 = Some 7"
    using assms(2-5) by (simp_all add: login_touched_def sample_login_def)
  have hd_ses: "ses_user_id (hd (identity_sessions (login_touched s))) = 3"
    "ses_auth_strength (hd (identity_sessions (login_touched s))) = AAL1"
    using assms(1) by (simp_all add: login_touched_def sample_login_def tupd_def)
  have "get_workspace_context 3 1 False (login_touched s) = Inr (rc_workspace sample_login_ctx)"
    by (simp add: get_workspace_context_def is_customer_owner_def tables sample_access_def customer_role_string_def
        membership_join_def parse_workspace_role_def sample_login_ctx_def)
  moreover have "\<lparr>rc_workspace = rc_workspace sample_login_ctx, rc_auth_strength = AAL1\<rparr> = sample_login_ctx"
    by (simp add: sample_login_ctx_def)
  ultimately show ?thesis
    by (simp add: get_request_context_def resolve_request_context_def ses hd_ses tables(4) del: One_nat_def)
      (simp add: run_tx_def hd_ses del: One_nat_def)
qed

end
