(* ===== verification/Actions_Api.thy ===== *)
theory Actions_Api
  imports Actions Api_Context
begin

text \<open>
  \<open>doda/api/actions.py\<close>: the handlers of the action endpoints, functions of the request
  context the chain of \<open>Api_Context\<close> hands them.  A record of another workspace and a record
  that does not exist get the same 404, before any authorization check.
\<close>

record action_out =
  ao_id :: uuid
  ao_workspace_id :: uuid
  ao_trace_id :: uuid
  ao_tool_name :: string
  ao_risk_level :: risk_level
  ao_status :: action_status
  ao_payload :: json
  ao_preview :: string

definition to_action_out :: "action_row \<Rightarrow> action_out" where
  "to_action_out action =
     \<lparr>ao_id = act_id action, ao_workspace_id = act_workspace_id action, ao_trace_id = act_trace_id action,
      ao_tool_name = act_tool_name action, ao_risk_level = act_risk_level action,
      ao_status = act_status action, ao_payload = act_payload action,
      ao_preview = describe_action_preview (act_tool_name action) (act_payload action)\<rparr>"

record approval_out =
  po_id :: uuid
  po_status :: approval_status
  po_expires_at :: instant
  po_nonce :: string

definition to_approval_out :: "approval_row \<Rightarrow> approval_out" where
  "to_approval_out approval =
     \<lparr>po_id = apv_id approval, po_status = apv_status approval, po_expires_at = apv_expires_at approval,
      po_nonce = apv_nonce approval\<rparr>"

definition get_workspace_action :: "request_context \<Rightarrow> uuid \<Rightarrow> db \<Rightarrow> action_row response" where
  "get_workspace_action ctx action_id s =
     (case tget act_id action_id (action_actions s) of
        None \<Rightarrow> raise (HttpException 404 ''action not found'') s
      | Some action \<Rightarrow>
          if act_workspace_id action \<noteq> wc_workspace_id (rc_workspace ctx)
          then raise (HttpException 404 ''action not found'') s
          else ok action s)"

definition propose_and_submit_action ::
  "uuid \<Rightarrow> string \<Rightarrow> risk_level \<Rightarrow> json \<Rightarrow> uuid option \<Rightarrow> string \<Rightarrow> request_context \<Rightarrow> db
     \<Rightarrow> (action_out \<times> approval_out option) response" where
  "propose_and_submit_action trace_id tool_name risk payload task_id idempotency_key ctx s =
     bind_err (require (authorize_propose_action (rc_workspace ctx)) s) (\<lambda>_ s.
     bind_err (propose_action (wc_customer_id (rc_workspace ctx)) (wc_workspace_id (rc_workspace ctx))
                 trace_id (ctx_actor ctx) tool_name risk payload idempotency_key task_id s) (\<lambda>(action, created) s.
     bind_err (if created then submit_action_for_execution action (ctx_actor ctx) s
               else ok (action, resolve_replay_approval action (ctx_actor ctx) s) s) (\<lambda>(action, approval) s.
     ok (to_action_out action, map_option to_approval_out approval) s)))"

definition get_action :: "uuid \<Rightarrow> request_context \<Rightarrow> db \<Rightarrow> action_out response" where
  "get_action action_id ctx s =
     bind_err (get_workspace_action ctx action_id s) (\<lambda>action s. ok (to_action_out action) s)"

definition list_workspace_actions ::
  "action_status option \<Rightarrow> int \<Rightarrow> request_context \<Rightarrow> db \<Rightarrow> action_out list response" where
  "list_workspace_actions status limit ctx s =
     (case list_actions_for_workspace (wc_workspace_id (rc_workspace ctx)) status limit s of
        Inl e \<Rightarrow> raise e s
      | Inr actions \<Rightarrow> ok (map to_action_out actions) s)"

definition consume_action_approval :: "uuid \<Rightarrow> string \<Rightarrow> request_context \<Rightarrow> db \<Rightarrow> action_out response" where
  "consume_action_approval approval_id nonce ctx s =
     (case tget apv_id approval_id (action_approvals s) of
        None \<Rightarrow> raise (HttpException 404 ''approval not found'') s
      | Some approval \<Rightarrow>
          if apv_customer_id approval \<noteq> wc_customer_id (rc_workspace ctx)
          then raise (HttpException 404 ''approval not found'') s
          else
            bind_err (get_workspace_action ctx (apv_action_id approval) s) (\<lambda>action s.
            bind_err (require (authorize_consume_approval (rc_workspace ctx) action (rc_auth_strength ctx)) s) (\<lambda>_ s.
            bind_err (consume_approval action approval (ctx_actor ctx) nonce s) (\<lambda>action s.
            ok (to_action_out action) s))))"

definition cancel_action :: "uuid \<Rightarrow> request_context \<Rightarrow> db \<Rightarrow> action_out response" where
  "cancel_action action_id ctx s =
     bind_err (get_workspace_action ctx action_id s) (\<lambda>action s.
     bind_err (require (authorize_cancel_action (rc_workspace ctx) action) s) (\<lambda>_ s.
     bind_err (request_cancellation action (ctx_actor ctx) s) (\<lambda>action s.
     ok (to_action_out action) s)))"

definition complete_action_compensation ::
  "uuid \<Rightarrow> action_status \<Rightarrow> request_context \<Rightarrow> db \<Rightarrow> action_out response" where
  "complete_action_compensation action_id outcome ctx s =
     bind_err (get_workspace_action ctx action_id s) (\<lambda>action s.
     bind_err (require (authorize_complete_compensation (rc_workspace ctx)) s) (\<lambda>_ s.
     bind_err (complete_compensation action outcome (ctx_actor ctx) s) (\<lambda>action s.
     ok (to_action_out action) s)))"


section \<open>The lookup is a tenant guard\<close>

interpretation action_guard: tenant_guard "\<lambda>i s. tget act_id i (action_actions s)" act_workspace_id
    "\<lambda>ctx. wc_workspace_id (rc_workspace ctx)" get_workspace_action "HttpException 404 ''action not found''"
  by unfold_locales (simp_all add: get_workspace_action_def)

section \<open>Properties\<close>

text \<open>
  C17: to a caller in one workspace an action of another workspace does not exist: reading,
  cancelling and compensating it, and consuming its approval, whatever the caller's role and
  nonce, all answer 404 and write nothing, and reading answers the same as for an unknown id.
\<close>

theorem foreign_action_is_not_found:
  assumes "\<forall>a. tget act_id i (action_actions s) = Some a \<longrightarrow> act_workspace_id a \<noteq> wc_workspace_id (rc_workspace ctx)"
    and "tget apv_id j (action_approvals s) = Some p" "apv_action_id p = i"
  shows "get_action i ctx s = raise (HttpException 404 ''action not found'') s
   \<and> cancel_action i ctx s = raise (HttpException 404 ''action not found'') s
   \<and> complete_action_compensation i outcome ctx s = raise (HttpException 404 ''action not found'') s
   \<and> (\<exists>d. consume_action_approval j nonce ctx s = raise (HttpException 404 d) s)"
proof -
  have refuse: "bind_err (get_workspace_action ctx i s) k = raise (HttpException 404 ''action not found'') s"
    for k :: "action_row \<Rightarrow> db \<Rightarrow> action_out response"
    by (rule action_guard.guard_refuses) (use assms(1) in blast)
  show ?thesis
    using assms(2,3)
    by (simp add: get_action_def cancel_action_def complete_action_compensation_def consume_action_approval_def
        refuse)
qed

definition foreign_ctx :: request_context where
  "foreign_ctx = \<lparr>rc_workspace = \<lparr>wc_customer_id = 8, wc_workspace_id = 2, wc_user_id = 4, wc_role = WR_ADMIN\<rparr>,
     rc_auth_strength = AAL2\<rparr>"

definition sample_admin_ctx :: request_context where
  "sample_admin_ctx = \<lparr>rc_workspace = \<lparr>wc_customer_id = 7, wc_workspace_id = 1, wc_user_id = 4, wc_role = WR_ADMIN\<rparr>,
     rc_auth_strength = AAL1\<rparr>"

definition some_action :: "action_status \<Rightarrow> action_row" where
  "some_action st = \<lparr>act_id = 0, act_created_at = 0, act_customer_id = 7, act_workspace_id = 1, act_trace_id = 9,
     act_task_id = None, act_actor_id = user_actor 3, act_tool_name = ''t'', act_risk_level = R3,
     act_payload = JObj [], act_payload_hash = ''h'', act_idempotency_key = ''k'', act_status = st\<rparr>"

definition some_approval :: approval_row where
  "some_approval = \<lparr>apv_id = 5, apv_created_at = 1, apv_customer_id = 7, apv_action_id = 0, apv_payload_hash = ''h'',
     apv_approver_id = None, apv_nonce = ''n'', apv_status = A_PENDING, apv_expires_at = 100\<rparr>"

theorem foreign_action_is_not_found_witness:
  "cancel_action 0 foreign_ctx (empty_db\<lparr>action_actions := [some_action READY], action_approvals := [some_approval]\<rparr>)
     = raise (HttpException 404 ''action not found'')
         (empty_db\<lparr>action_actions := [some_action READY], action_approvals := [some_approval]\<rparr>)"
  using foreign_action_is_not_found [of 0 "empty_db\<lparr>action_actions := [some_action READY], action_approvals := [some_approval]\<rparr>"
      foreign_ctx 5 some_approval]
  by (simp add: some_action_def some_approval_def foreign_ctx_def)

text \<open>
  C18: proposing under a kill switch fails without writing anything; otherwise the risk is
  raised to the tool's floor and never lowered, and a second proposal with the same key in the
  same workspace, whatever else it says, returns the first action, inserts nothing, and hands
  the pending approval with its nonce to the action's own proposer only.
\<close>

theorem propose_spec:
  "case assert_not_killed c w s of
     Some e \<Rightarrow> propose_action c w tr who tool risk payload key task s = raise e s
   | None \<Rightarrow>
       (\<exists>a created t. propose_action c w tr who tool risk payload key task s = ok (a, created) t
        \<and> action_key a = (c, w, key)
        \<and> (created \<longrightarrow> act_status a = DRAFT \<and> risk \<le> act_risk_level a
             \<and> (tool = telegram_tool \<longrightarrow> R3 \<le> act_risk_level a)
             \<and> act_payload_hash a = hash_payload (sha256 s) payload)
        \<and> (\<exists>u. propose_action c w tr' who' tool' risk' payload' key task' t = ok (a, False) u
             \<and> action_actions u = action_actions t \<and> outbox_messages u = outbox_messages t
             \<and> audit_events u = audit_events t
             \<and> (resolve_replay_approval a who' u \<noteq> None \<longrightarrow> who' = act_actor_id a)))"
proof (cases "assert_not_killed c w s")
  case (Some e)
  then show ?thesis by (simp add: propose_action_def)
next
  case None
  have replay: "\<exists>u. propose_action c w tr' who' tool' risk' payload' key task' t = ok (a, False) u
      \<and> action_actions u = action_actions t \<and> outbox_messages u = outbox_messages t
      \<and> audit_events u = audit_events t
      \<and> (resolve_replay_approval a who' u \<noteq> None \<longrightarrow> who' = act_actor_id a)"
    if "assert_not_killed c w t = None" "tget action_key (c, w, key) (action_actions t) = Some a" for a t
    using that by (simp add: propose_action_def row_defaults_def Let_def resolve_replay_approval_def)
  have floor: "risk \<le> enforce_minimum_risk_level tool risk"
    "tool = telegram_tool \<Longrightarrow> R3 \<le> enforce_minimum_risk_level tool risk"
    by (rule enforce_minimum_never_lowers, simp add: enforce_minimum_is_max tool_minimum_risk_level_def)
  show ?thesis
  proof (cases "tget action_key (c, w, key) (action_actions s)")
    case new: None
    obtain a t where t: "propose_action c w tr who tool risk payload key task s = ok (a, True) t"
      and a: "act_status a = DRAFT" "act_risk_level a = enforce_minimum_risk_level tool risk"
        "act_payload_hash a = hash_payload (sha256 s) payload" "action_key a = (c, w, key)"
      and live: "assert_not_killed c w t = None" "action_actions t = action_actions s @ [a]"
    proof
      show "propose_action c w tr who tool risk payload key task s
        = ok (fst (projr (fst (propose_action c w tr who tool risk payload key task s))), True)
            (snd (propose_action c w tr who tool risk payload key task s))"
        using None new by (simp add: propose_action_def row_defaults_def Let_def)
    qed (use None new in \<open>simp_all add: propose_action_def row_defaults_def Let_def action_key_def
          assert_not_killed_None assert_not_killed_None [THEN iffD2]\<close>)
    have "tget action_key (c, w, key) (action_actions t) = Some a"
      using new live(2) a(4) by (simp add: tget_append)
    from replay [OF live(1) this] None t a floor show ?thesis by auto
  next
    case (Some a)
    then have "action_key a = (c, w, key)" by (auto dest: tget_SomeD)
    with Some None replay [of "s\<lparr>ticks := Suc (ticks s), drawn := Suc (drawn s)\<rparr>" a] show ?thesis
      by (auto simp: propose_action_def row_defaults_def Let_def assert_not_killed_None
          assert_not_killed_None [THEN iffD2])
  qed
qed


theorem propose_spec_witness:
  "\<exists>a t. propose_action 7 1 9 ''user:3'' telegram_tool R0 (JObj []) ''k'' None empty_db = ok (a, True) t
     \<and> R3 \<le> act_risk_level a
     \<and> (\<exists>u. propose_action 7 1 8 ''user:4'' telegram_tool R5 (JObj []) ''k'' None t = ok (a, False) u)"
proof -
  have "assert_not_killed 7 1 empty_db = None" by (simp add: assert_not_killed_def)
  with propose_spec [where c = 7 and w = 1 and s = empty_db and tr = 9 and who = "''user:3''" and
      tool = telegram_tool and risk = R0 and payload = "JObj []" and key = "''k''" and task = None and tr' = 8 and
      who' = "''user:4''" and tool' = telegram_tool and risk' = R5 and payload' = "JObj []" and task' = None]
  obtain a created t where a: "propose_action 7 1 9 ''user:3'' telegram_tool R0 (JObj []) ''k'' None empty_db
      = ok (a, created) t" "created \<longrightarrow> R3 \<le> act_risk_level a"
    and u: "\<exists>u. propose_action 7 1 8 ''user:4'' telegram_tool R5 (JObj []) ''k'' None t = ok (a, False) u"
    by auto
  have created
    using a(1) by (simp add: propose_action_def row_defaults_def Let_def assert_not_killed_def)
  with a u show ?thesis by auto
qed

text \<open>
  An action that is running, and of which nobody asked the cancellation, is failed by
  completing a compensation with the outcome FAILED: the state machine allows RUNNING to
  FAILED, and nothing checks that the action is being compensated.
\<close>

theorem compensation_fails_running_action:
  assumes "tget act_id (act_id a) (action_actions s) = Some a" "act_status a = RUNNING"
    and "act_workspace_id a = wc_workspace_id (rc_workspace ctx)" "wc_role (rc_workspace ctx) = WR_ADMIN"
  shows "\<exists>t. complete_action_compensation (act_id a) FAILED ctx s = ok (to_action_out (a\<lparr>act_status := FAILED\<rparr>)) t
     \<and> tget act_id (act_id a) (action_actions t) = Some (a\<lparr>act_status := FAILED\<rparr>)"
  using assms
  by (simp add: complete_action_compensation_def get_workspace_action_def authorize_complete_compensation_def
      complete_compensation_def apply_transition_def current_action_def transition_def Let_def tget_tupd)

theorem compensation_fails_running_action_witness:
  "\<exists>t. complete_action_compensation 0 FAILED
      (sample_admin_ctx) (empty_db\<lparr>action_actions := [some_action RUNNING]\<rparr>)
      = ok (to_action_out (some_action FAILED)) t"
  using compensation_fails_running_action
    [of "some_action RUNNING" "empty_db\<lparr>action_actions := [some_action RUNNING]\<rparr>" sample_admin_ctx]
  by (auto simp: some_action_def sample_admin_ctx_def)

end
