(* ===== verification/Action_System.thy ===== *)
theory Action_System
  imports Actions_Api
begin

text \<open>
  All requests that touch actions, as a step relation on the database, with the objects a
  request loaded before its transaction's locks possibly stale, and the invariant of the
  reachable states: an action of a risk that needs approval leaves AWAITING_APPROVAL only with
  an approval on file, and announces its readiness in the outbox exactly once.
\<close>

section \<open>Steps\<close>

text \<open>An object loaded at some point: the stored row, but for the columns that change.\<close>

definition loaded :: "action_row \<Rightarrow> db \<Rightarrow> bool" where
  "loaded a s \<longleftrightarrow> (\<exists>r \<in> set (action_actions s). \<exists>st. a = r\<lparr>act_status := st\<rparr>)"

definition loaded_approval :: "approval_row \<Rightarrow> db \<Rightarrow> bool" where
  "loaded_approval p s \<longleftrightarrow>
     (\<exists>r \<in> set (action_approvals s). \<exists>st who. p = r\<lparr>apv_status := st, apv_approver_id := who\<rparr>)"

definition is_ready_message :: "uuid \<Rightarrow> outbox_message_row \<Rightarrow> bool" where
  "is_ready_message i m \<longleftrightarrow> om_aggregate_id m = i \<and> om_event_type m = ''action.ready.v1''"

definition ready_count :: "db \<Rightarrow> uuid \<Rightarrow> nat" where
  "ready_count s i = length (filter (is_ready_message i) (outbox_messages s))"

definition announced :: "outbox_message_row \<Rightarrow> uuid \<times> string" where
  "announced m = (om_aggregate_id m, om_event_type m)"

inductive action_step :: "db \<Rightarrow> db \<Rightarrow> bool" where
  propose: "t = snd (run_tx (propose_and_submit_action trace tool risk payload task key ctx) s)
     \<Longrightarrow> action_step s t"
| consume: "loaded a s \<Longrightarrow> loaded_approval p s \<Longrightarrow> apv_action_id p = act_id a
     \<Longrightarrow> t = snd (run_tx (consume_approval a p who nonce) s) \<Longrightarrow> action_step s t"
| cancel: "loaded a s \<Longrightarrow> t = snd (run_tx (request_cancellation a who) s) \<Longrightarrow> action_step s t"
| compensate: "loaded a s \<Longrightarrow> t = snd (run_tx (complete_compensation a outcome who) s) \<Longrightarrow> action_step s t"
| connector: "loaded a s \<Longrightarrow> target \<in> {RUNNING, SUCCEEDED, FAILED}
     \<Longrightarrow> t = snd (run_tx (apply_transition a target who receipt) s) \<Longrightarrow> action_step s t"
| elsewhere: "action_actions t = action_actions s \<Longrightarrow> action_approvals t = action_approvals s
     \<Longrightarrow> map announced (outbox_messages t) = map announced (outbox_messages s)
     \<Longrightarrow> uuid_src t = uuid_src s \<Longrightarrow> drawn s \<le> drawn t \<Longrightarrow> action_step s t"

inductive_cases action_stepE: "action_step s t"

section \<open>What the operations do to the three tables\<close>

lemma drawn_mono [simp]:
  "drawn s \<le> drawn (log_event c t a ty w m s)"
  "drawn s \<le> drawn (notify c r nt rt ri w m s)"
  "drawn s \<le> drawn (notify_transition x target s)"
  "drawn s \<le> drawn (enqueue_ready x e s)"
  by (simp_all add: effect create_notification_def row_defaults_def uuid4_def Let_def notify_transition_def
      enqueue_ready_def enqueue_outbox_message_def)

definition tables_kept :: "db \<Rightarrow> db \<Rightarrow> bool" where
  "tables_kept s t \<longleftrightarrow> action_actions t = action_actions s \<and> action_approvals t = action_approvals s
     \<and> outbox_messages t = outbox_messages s \<and> uuid_src t = uuid_src s \<and> drawn s \<le> drawn t"

lemma apply_transition_ok:
  assumes "apply_transition a target who receipt s = (Inr b, t)"
  shows "b = (current_action a s)\<lparr>act_status := target\<rparr>"
    "allowed_edge (act_status (current_action a s)) target"
    "action_actions t = tupd act_id (act_id b) (\<lambda>x. x\<lparr>act_status := target\<rparr>) (action_actions s)"
    "action_approvals t = action_approvals s" "outbox_messages t = outbox_messages s"
    "uuid_src t = uuid_src s" "drawn s \<le> drawn t" "sha256 t = sha256 s"
  using assms by (auto simp: apply_transition_ok_iff intro: order_trans [OF _ drawn_mono(3)] simp: effect)

lemma apply_transition_err:
  assumes "apply_transition a target who receipt s = (Inl e, t)"
  shows "tables_kept s t"
  using assms by (auto simp: apply_transition_def Let_def tables_kept_def effect split: if_splits sum.splits)

lemma current_action_loaded:
  assumes "loaded a s" "distinct (map act_id (action_actions s))"
  obtains r st where "r \<in> set (action_actions s)" "a = r\<lparr>act_status := st\<rparr>" "current_action a s = r"
proof -
  from assms(1) obtain r st where r: "r \<in> set (action_actions s)" "a = r\<lparr>act_status := st\<rparr>"
    by (auto simp: loaded_def)
  have "tget act_id (act_id r) (action_actions s) = Some r"
    by (rule tget_distinct [OF assms(2) r(1)])
  with r that show thesis by (simp add: current_action_def)
qed

section \<open>The invariant\<close>

definition approved :: "db \<Rightarrow> action_row \<Rightarrow> bool" where
  "approved s a \<longleftrightarrow>
     (\<exists>p \<in> set (action_approvals s). apv_action_id p = act_id a \<and> apv_status p = A_APPROVED
        \<and> apv_payload_hash p = act_payload_hash a \<and> apv_approver_id p \<noteq> None)"

definition settled :: "action_status list" where
  "settled = [AWAITING_APPROVAL, READY, RUNNING, SUCCEEDED, FAILED, COMPENSATING, COMPENSATED, CANCELLED]"

definition action_ok :: "db \<Rightarrow> action_row \<Rightarrow> bool" where
  "action_ok s a \<longleftrightarrow> act_status a \<in> set settled
     \<and> ready_count s (act_id a) = (if act_status a = AWAITING_APPROVAL then 0 else 1)
     \<and> (needs_approval (act_risk_level a) \<longrightarrow> act_status a \<noteq> AWAITING_APPROVAL \<longrightarrow> approved s a)"

definition action_inv :: "db \<Rightarrow> bool" where
  "action_inv s \<longleftrightarrow>
     inj (uuid_src s) \<and> distinct (map act_id (action_actions s))
   \<and> (\<forall>a \<in> set (action_actions s). act_id a \<in> uuid_src s ` {..<drawn s})
   \<and> (\<forall>a \<in> set (action_actions s). action_ok s a)
   \<and> (\<forall>m \<in> set (outbox_messages s). om_event_type m = ''action.ready.v1'' \<longrightarrow>
        om_aggregate_id m \<in> act_id ` set (action_actions s))"

lemma ready_count_announced:
  "map announced (outbox_messages t) = map announced (outbox_messages s) \<Longrightarrow> ready_count t i = ready_count s i"
proof -
  assume eq: "map announced (outbox_messages t) = map announced (outbox_messages s)"
  have count: "ready_count u i = length (filter (\<lambda>x. x = (i, ''action.ready.v1'')) (map announced (outbox_messages u)))"
    for u
    by (simp add: ready_count_def filter_map comp_def announced_def is_ready_message_def [abs_def])
  show ?thesis by (simp only: count eq)
qed

lemma action_inv_elsewhere:
  assumes "action_inv s" "action_actions t = action_actions s" "action_approvals t = action_approvals s"
    "map announced (outbox_messages t) = map announced (outbox_messages s)"
    "uuid_src t = uuid_src s" "drawn s \<le> drawn t"
  shows "action_inv t"
proof -
  have "\<forall>m \<in> set (outbox_messages t). om_event_type m = ''action.ready.v1'' \<longrightarrow>
      om_aggregate_id m \<in> act_id ` set (action_actions s)"
  proof
    fix m
    assume "m \<in> set (outbox_messages t)"
    then have "announced m \<in> set (map announced (outbox_messages s))"
      using assms(4) by (metis image_eqI list.set_map)
    then obtain m' where m': "m' \<in> set (outbox_messages s)" "announced m' = announced m" by auto
    have "om_event_type m' = ''action.ready.v1'' \<longrightarrow> om_aggregate_id m' \<in> act_id ` set (action_actions s)"
      using assms(1) m'(1) by (simp add: action_inv_def)
    with m'(2) show "om_event_type m = ''action.ready.v1'' \<longrightarrow> om_aggregate_id m \<in> act_id ` set (action_actions s)"
      by (simp add: announced_def)
  qed
  moreover have "uuid_src s ` {..<drawn s} \<subseteq> uuid_src s ` {..<drawn t}"
    using assms(6) by auto
  ultimately show ?thesis
    using assms(1) ready_count_announced [OF assms(4)]
    by (auto simp: action_inv_def action_ok_def approved_def assms(2,3,5))
qed

lemma action_inv_rollback:
  assumes "action_inv s" "drawn s \<le> drawn t"
  shows "action_inv (rollback s t)"
  by (rule action_inv_elsewhere [OF assms(1)]) (simp_all add: rollback_def assms(2))

text \<open>Moving one action along an allowed edge that does not announce it.\<close>

lemma action_inv_move:
  assumes inv: "action_inv s" and load: "loaded a s"
    and ok: "apply_transition a target who receipt s = (Inr b, t)"
    and target: "target \<in> set settled" "target \<noteq> READY"
  shows "action_inv t"
proof -
  from inv have dist: "distinct (map act_id (action_actions s))" by (simp add: action_inv_def)
  obtain r st where r: "r \<in> set (action_actions s)" "current_action a s = r"
    by (rule current_action_loaded [OF load dist]) blast
  note T = apply_transition_ok [OF ok, unfolded r(2)]
  have edge: "act_status r \<in> {READY, RUNNING, COMPENSATING} \<and> target \<noteq> AWAITING_APPROVAL"
  proof -
    have "action_ok s r" using inv r(1) by (simp add: action_inv_def)
    then show ?thesis using T(2) target by (auto simp: action_ok_def settled_def)
  qed
  have moved: "action_ok t x" if "x \<in> set (action_actions t)" for x
  proof -
    from that obtain y where y: "y \<in> set (action_actions s)"
        "x = (if act_id y = act_id b then y\<lparr>act_status := target\<rparr> else y)"
      unfolding T(3) in_set_tupd by blast
    have "action_ok s y" using inv y(1) by (simp add: action_inv_def)
    moreover have "y = r" if "act_id y = act_id b"
      using that unique_by_key [OF dist y(1) r(1)] T(1) by simp
    ultimately show ?thesis
      using target edge y(2)
      by (auto simp: action_ok_def ready_count_def approved_def T(4,5) settled_def split: if_splits)
  qed
  have same: "map act_id (action_actions t) = map act_id (action_actions s)"
    by (simp add: T(3))
  then have ids: "act_id ` set (action_actions t) = act_id ` set (action_actions s)"
    by (metis list.set_map)
  have "uuid_src s ` {..<drawn s} \<subseteq> uuid_src s ` {..<drawn t}" using T(7) by auto
  then have "act_id ` set (action_actions t) \<subseteq> uuid_src s ` {..<drawn t}"
    using inv by (auto simp: ids action_inv_def)
  then have "\<forall>x \<in> set (action_actions t). act_id x \<in> uuid_src s ` {..<drawn t}"
    by (simp add: image_subset_iff)
  then show ?thesis
    using inv moved same ids by (simp add: action_inv_def T(5,6))
qed


section \<open>Proposing and submitting\<close>

lemma propose_action_cases:
  assumes "propose_action c w tr who tool risk payload key task s = (Inr (a, created), t)"
  shows "(created \<and> tget action_key (c, w, key) (action_actions s) = None
          \<and> action_actions t = action_actions s @ [a] \<and> act_status a = DRAFT
          \<and> act_id a = uuid_src s (drawn s) \<and> drawn s < drawn t
          \<and> act_tool_name a = tool
          \<and> act_risk_level a = enforce_minimum_risk_level tool risk \<and> action_key a = (c, w, key))
       \<or> (\<not> created \<and> tget action_key (c, w, key) (action_actions s) = Some a
          \<and> action_actions t = action_actions s \<and> drawn s \<le> drawn t)"
    and "action_approvals t = action_approvals s" "outbox_messages t = outbox_messages s"
    "uuid_src t = uuid_src s" "assert_not_killed c w s = None"
  using assms
  by (auto simp: propose_action_def Let_def row_defaults_def effect action_key_def split: option.splits)

lemma propose_action_err:
  assumes "propose_action c w tr who tool risk payload key task s = (Inl e, t)"
  shows "t = s \<and> assert_not_killed c w s = Some e"
  using assms by (auto simp: propose_action_def Let_def row_defaults_def split: option.splits)

lemma request_approval_ok:
  assumes "request_approval a s = (Inr p, t)"
  shows "action_actions t = action_actions s" "action_approvals t = action_approvals s @ [p]"
    "outbox_messages t = outbox_messages s" "uuid_src t = uuid_src s" "drawn s \<le> drawn t"
    "apv_action_id p = act_id a" "apv_payload_hash p = act_payload_hash a" "apv_status p = A_PENDING"
    "apv_approver_id p = None"
  using assms
  by (auto simp: request_approval_def token_urlsafe_def utcnow_def row_defaults_def Let_def split: if_splits)

text \<open>What one transition does to an action that has just been inserted.\<close>

lemma transition_new:
  assumes "action_actions s = old @ [a]" "act_id a \<notin> act_id ` set old"
    "allowed_edge (act_status a) target" "target \<noteq> SUCCEEDED"
  obtains t where "apply_transition (a\<lparr>act_status := st\<rparr>) target who receipt s = (Inr (a\<lparr>act_status := target\<rparr>), t)"
    "action_actions t = old @ [a\<lparr>act_status := target\<rparr>]" "action_approvals t = action_approvals s"
    "outbox_messages t = outbox_messages s" "uuid_src t = uuid_src s" "drawn s \<le> drawn t"
proof -
  have cur: "current_action (a\<lparr>act_status := st\<rparr>) s = a"
    using assms(1,2) by (simp add: current_action_def tget_append tget_None_iff [THEN iffD2])
  obtain b t where ok: "apply_transition (a\<lparr>act_status := st\<rparr>) target who receipt s = (Inr b, t)"
    using assms(3,4) cur by (simp add: apply_transition_ok_iff)
  note T = apply_transition_ok [OF ok, unfolded cur]
  have "action_actions t = old @ [a\<lparr>act_status := target\<rparr>]"
    using assms(1,2) by (simp add: T(1,3) tupd_absent) (simp add: tupd_def)
  with ok T that show thesis by simp
qed

text \<open>An approval that is asked for and that nobody has given.\<close>

definition asks_for :: "approval_row \<Rightarrow> action_row \<Rightarrow> bool" where
  "asks_for q a \<longleftrightarrow> apv_action_id q = act_id a \<and> apv_payload_hash q = act_payload_hash a
     \<and> apv_status q = A_PENDING \<and> apv_approver_id q = None"

lemma submit_new:
  assumes "action_actions s = old @ [a]" "act_id a \<notin> act_id ` set old" "act_status a = DRAFT"
  shows "\<exists>b p t. submit_action_for_execution a who s = (Inr (b, p), t)
     \<and> action_actions t = old @ [b] \<and> uuid_src t = uuid_src s \<and> drawn s \<le> drawn t
     \<and> (if needs_approval (act_risk_level a)
         then b = a\<lparr>act_status := AWAITING_APPROVAL\<rparr> \<and> outbox_messages t = outbox_messages s
            \<and> (\<exists>q. p = Some q \<and> action_approvals t = action_approvals s @ [q] \<and> asks_for q b)
         else b = a\<lparr>act_status := READY\<rparr> \<and> p = None \<and> action_approvals t = action_approvals s
            \<and> (\<exists>m. outbox_messages t = outbox_messages s @ [m] \<and> announced m = (act_id a, ''action.ready.v1'')))"
proof -
  let ?v = "a\<lparr>act_status := VALIDATING\<rparr>"
  have same: "a\<lparr>act_status := DRAFT\<rparr> = a" using assms(3) by simp
  obtain s1 where v: "apply_transition a VALIDATING who None s = (Inr ?v, s1)"
      "action_actions s1 = old @ [?v]" "action_approvals s1 = action_approvals s"
      "outbox_messages s1 = outbox_messages s" "uuid_src s1 = uuid_src s" "drawn s \<le> drawn s1"
    using transition_new [OF assms(1,2), of VALIDATING DRAFT who None] assms(3) same by auto
  have fresh: "act_id ?v \<notin> act_id ` set old" using assms(2) by simp
  show ?thesis
  proof (cases "needs_approval (act_risk_level a)")
    case True
    obtain s2 where w: "apply_transition ?v AWAITING_APPROVAL who None s1 = (Inr (a\<lparr>act_status := AWAITING_APPROVAL\<rparr>), s2)"
        "action_actions s2 = old @ [a\<lparr>act_status := AWAITING_APPROVAL\<rparr>]" "action_approvals s2 = action_approvals s1"
        "outbox_messages s2 = outbox_messages s1" "uuid_src s2 = uuid_src s1" "drawn s1 \<le> drawn s2"
      using transition_new [OF v(2) fresh, of AWAITING_APPROVAL VALIDATING who None] by auto
    have "\<exists>q s3. request_approval (a\<lparr>act_status := AWAITING_APPROVAL\<rparr>) s2 = (Inr q, s3)"
      by (simp add: request_approval_def token_urlsafe_def utcnow_def row_defaults_def Let_def)
    then obtain q s3 where q: "request_approval (a\<lparr>act_status := AWAITING_APPROVAL\<rparr>) s2 = (Inr q, s3)"
      by blast
    have "submit_action_for_execution a who s = (Inr (a\<lparr>act_status := AWAITING_APPROVAL\<rparr>, Some q), s3)"
      using True by (simp add: submit_action_for_execution_def validate_action_def v(1) w(1) q needs_approval_def)
    moreover have "asks_for q (a\<lparr>act_status := AWAITING_APPROVAL\<rparr>)"
      using request_approval_ok [OF q] by (simp add: asks_for_def)
    ultimately show ?thesis using request_approval_ok [OF q] v w True by auto
  next
    case False
    obtain s2 where w: "apply_transition ?v READY who None s1 = (Inr (a\<lparr>act_status := READY\<rparr>), s2)"
        "action_actions s2 = old @ [a\<lparr>act_status := READY\<rparr>]" "action_approvals s2 = action_approvals s1"
        "outbox_messages s2 = outbox_messages s1" "uuid_src s2 = uuid_src s1" "drawn s1 \<le> drawn s2"
      using transition_new [OF v(2) fresh, of READY VALIDATING who None] by auto
    let ?t = "enqueue_ready (a\<lparr>act_status := READY\<rparr>) [] s2"
    have sub: "submit_action_for_execution a who s = (Inr (a\<lparr>act_status := READY\<rparr>, None), ?t)"
      using False by (simp add: submit_action_for_execution_def validate_action_def v(1) w(1) needs_approval_def)
    have "drawn s \<le> drawn ?t"
      by (rule order_trans [OF v(6) order_trans [OF w(6) drawn_mono(4)]])
    moreover have "outbox_messages ?t = outbox_messages s @ [last (outbox_messages ?t)]
        \<and> announced (last (outbox_messages ?t)) = (act_id a, ''action.ready.v1'')"
      using v(4) w(4) by (simp add: effect announced_def)
    ultimately show ?thesis
      using sub v(3,5) w(2,3,5) False
      by (intro exI [of _ "a\<lparr>act_status := READY\<rparr>"] exI [of _ None] exI [of _ ?t]) auto
  qed
qed


lemma ready_count_append:
  "outbox_messages t = outbox_messages s @ [m] \<Longrightarrow> announced m = (j, ''action.ready.v1'') \<Longrightarrow>
     ready_count t i = ready_count s i + (if i = j then 1 else 0)"
  by (auto simp: ready_count_def is_ready_message_def announced_def)

lemma ready_count_unknown:
  assumes "action_inv s" "i \<notin> act_id ` set (action_actions s)"
  shows "ready_count s i = 0"
  using assms by (auto simp: action_inv_def ready_count_def is_ready_message_def filter_empty_conv)

lemma fresh_id:
  assumes "action_inv s"
  shows "uuid_src s (drawn s) \<notin> act_id ` set (action_actions s)"
proof
  assume "uuid_src s (drawn s) \<in> act_id ` set (action_actions s)"
  then have "uuid_src s (drawn s) \<in> uuid_src s ` {..<drawn s}"
    using assms by (auto simp: action_inv_def)
  then show False using assms by (auto simp: action_inv_def inj_eq)
qed

lemma approved_mono: "set (action_approvals s) \<subseteq> set (action_approvals t) \<Longrightarrow> approved s a \<Longrightarrow> approved t a"
  by (auto simp: approved_def)

lemma action_inv_new:
  assumes inv: "action_inv s" and a: "act_id a = uuid_src s (drawn s)"
    and t: "action_actions t = action_actions s @ [b]" "uuid_src t = uuid_src s" "drawn s < drawn t"
      "set (action_approvals s) \<subseteq> set (action_approvals t)"
    and b: "if needs_approval (act_risk_level a)
        then b = a\<lparr>act_status := AWAITING_APPROVAL\<rparr> \<and> outbox_messages t = outbox_messages s
        else b = a\<lparr>act_status := READY\<rparr>
          \<and> (\<exists>m. outbox_messages t = outbox_messages s @ [m] \<and> announced m = (act_id a, ''action.ready.v1''))"
  shows "action_inv t"
proof -
  have new: "act_id b = act_id a" "act_id b \<notin> act_id ` set (action_actions s)"
    using b fresh_id [OF inv] a by (auto split: if_splits)
  have count: "ready_count t i = ready_count s i + (if i = act_id b \<and> \<not> needs_approval (act_risk_level a) then 1 else 0)" for i
  proof (cases "needs_approval (act_risk_level a)")
    case True
    with b show ?thesis by (simp add: ready_count_def)
  next
    case False
    with b obtain m where "outbox_messages t = outbox_messages s @ [m]" "announced m = (act_id a, ''action.ready.v1'')"
      by auto
    from ready_count_append [OF this, of i] False new(1) show ?thesis by simp
  qed
  have old: "action_ok t x" if "x \<in> set (action_actions s)" for x
  proof -
    have "act_id x \<noteq> act_id b" using that new(2) by (metis image_eqI)
    moreover have "action_ok s x" using inv that by (simp add: action_inv_def)
    ultimately show ?thesis
      using approved_mono [OF t(4)] by (simp add: action_ok_def count)
  qed
  have "ready_count s (act_id b) = 0" by (rule ready_count_unknown [OF inv new(2)])
  then have this_one: "action_ok t b"
    using b by (auto simp: action_ok_def count settled_def split: if_splits)
  have "set (outbox_messages t) \<subseteq> set (outbox_messages s) \<union> {m. announced m = (act_id b, ''action.ready.v1'')}"
    using b new(1) by (auto split: if_splits)
  then have msgs: "\<forall>m \<in> set (outbox_messages t). om_event_type m = ''action.ready.v1'' \<longrightarrow>
      om_aggregate_id m \<in> act_id ` set (action_actions t)"
    using inv by (force simp: action_inv_def announced_def t(1))
  have "uuid_src s ` {..<drawn s} \<subseteq> uuid_src s ` {..<drawn t}" "act_id b \<in> uuid_src s ` {..<drawn t}"
    using t(3) a new(1) by auto
  then have "\<forall>x \<in> set (action_actions t). act_id x \<in> uuid_src s ` {..<drawn t}"
    using inv by (auto simp: action_inv_def t(1))
  then show ?thesis
    using inv new old this_one msgs by (simp add: action_inv_def t(1,2))
qed

lemma propose_run:
  assumes inv: "action_inv s" and t: "t = snd (run_tx (propose_and_submit_action trace tool risk payload task key ctx) s)"
  obtains (same) "tables_kept s t"
    | (new) a b where "act_id a = uuid_src s (drawn s)" "act_tool_name a = tool"
        "act_risk_level a = enforce_minimum_risk_level tool risk"
        "action_actions t = action_actions s @ [b]" "uuid_src t = uuid_src s" "drawn s < drawn t"
        "set (action_approvals s) \<subseteq> set (action_approvals t)"
        "if needs_approval (act_risk_level a)
         then b = a\<lparr>act_status := AWAITING_APPROVAL\<rparr> \<and> outbox_messages t = outbox_messages s
         else b = a\<lparr>act_status := READY\<rparr>
           \<and> (\<exists>m. outbox_messages t = outbox_messages s @ [m] \<and> announced m = (act_id a, ''action.ready.v1''))"
        "needs_approval (act_risk_level a) \<Longrightarrow> \<exists>q. action_approvals t = action_approvals s @ [q] \<and> asks_for q b"
proof (cases "authorize_propose_action (rc_workspace ctx)")
  case (Some e)
  then have "tables_kept s t"
    by (simp add: t propose_and_submit_action_def run_tx_def raise_def tables_kept_def rollback_def)
  then show thesis by (rule same)
next
  case None
  let ?op = "propose_and_submit_action trace tool risk payload task key ctx"
  obtain r s1 where pr: "propose_action (wc_customer_id (rc_workspace ctx)) (wc_workspace_id (rc_workspace ctx))
      trace (ctx_actor ctx) tool risk payload key task s = (r, s1)" by fastforce
  show thesis
  proof (cases r)
    case (Inl e)
    with propose_action_err pr have "s1 = s" by blast
    with None pr Inl have "tables_kept s t"
      by (simp add: t propose_and_submit_action_def run_tx_def raise_def tables_kept_def rollback_def)
    then show thesis by (rule same)
  next
    case (Inr ac)
    then obtain a created where ac: "r = Inr (a, created)" by (cases ac) auto
    note P = propose_action_cases [OF pr [unfolded ac]]
    show thesis
    proof (cases created)
      case False
      then have "?op s = (Inr (to_action_out a, map_option to_approval_out (resolve_replay_approval a (ctx_actor ctx) s1)), s1)"
        using None pr ac by (simp add: propose_and_submit_action_def ok_def)
      then have "tables_kept s t"
        using P False by (simp add: t run_tx_def tables_kept_def)
      then show thesis by (rule same)
    next
      case True
      then have a: "action_actions s1 = action_actions s @ [a]" "act_status a = DRAFT"
        "act_id a = uuid_src s (drawn s)" "drawn s < drawn s1" using P(1) by auto
      have "act_id a \<notin> act_id ` set (action_actions s)" using fresh_id [OF inv] a(3) by simp
      from submit_new [OF a(1) this a(2), of "ctx_actor ctx"] obtain b p u where
        sub: "submit_action_for_execution a (ctx_actor ctx) s1 = (Inr (b, p), u)"
        and u: "action_actions u = action_actions s @ [b]" "uuid_src u = uuid_src s1" "drawn s1 \<le> drawn u"
        and b: "if needs_approval (act_risk_level a)
         then b = a\<lparr>act_status := AWAITING_APPROVAL\<rparr> \<and> outbox_messages u = outbox_messages s1
            \<and> (\<exists>q. p = Some q \<and> action_approvals u = action_approvals s1 @ [q] \<and> asks_for q b)
         else b = a\<lparr>act_status := READY\<rparr> \<and> p = None \<and> action_approvals u = action_approvals s1
            \<and> (\<exists>m. outbox_messages u = outbox_messages s1 @ [m] \<and> announced m = (act_id a, ''action.ready.v1''))"
        by blast
      have tu: "t = u"
        using None pr ac True sub by (simp add: t propose_and_submit_action_def run_tx_def ok_def)
      show thesis
        by (rule new [of a b]) (use tu u a b P True in \<open>auto split: if_splits\<close>)
    qed
  qed
qed

lemma action_inv_propose:
  assumes inv: "action_inv s"
  shows "action_inv (snd (run_tx (propose_and_submit_action trace tool risk payload task key ctx) s))"
  by (rule propose_run [OF inv refl])
    (auto simp: tables_kept_def intro: action_inv_elsewhere [OF inv] action_inv_new [OF inv])

section \<open>Consuming an approval\<close>

text \<open>The one branch of \<open>consume_approval\<close> that returns.\<close>

lemma consume_approval_ok:
  assumes "consume_approval a p who nonce s = (Inr b, t)"
  shows "apv_status p = A_PENDING" "apv_nonce p = nonce" "clock s (ticks s) \<le> apv_expires_at p"
    "apv_payload_hash p = act_payload_hash a"
    "act_status (current_action a s) = AWAITING_APPROVAL \<or> act_status (current_action a s) = VALIDATING
      \<or> act_status (current_action a s) = RETRYING"
    "b = (current_action a s)\<lparr>act_status := READY\<rparr>"
    "action_actions t = tupd act_id (act_id b) (\<lambda>x. x\<lparr>act_status := READY\<rparr>) (action_actions s)"
    "action_approvals t = tupd apv_id (apv_id p)
      (\<lambda>q. q\<lparr>apv_status := A_APPROVED, apv_approver_id := Some who\<rparr>) (action_approvals s)"
    "\<exists>m. outbox_messages t = outbox_messages s @ [m] \<and> announced m = (act_id b, ''action.ready.v1'')"
    "uuid_src t = uuid_src s" "drawn s \<le> drawn t"
proof -
  let ?s1 = "set_approval p (\<lambda>q. q\<lparr>apv_status := A_APPROVED, apv_approver_id := Some who\<rparr>)
    (s\<lparr>ticks := Suc (ticks s)\<rparr>)"
  have cur: "current_action a ?s1 = current_action a s"
    by (simp add: current_action_def set_approval_def)
  obtain s2 where checks: "apv_status p = A_PENDING" "apv_nonce p = nonce"
      "\<not> clock s (ticks s) > apv_expires_at p" "apv_payload_hash p = act_payload_hash a"
    and ok: "apply_transition a READY who None ?s1 = (Inr b, s2)"
    and t: "t = enqueue_ready b [(''approval_id'', JStr (uuid_str (apv_id p)))] s2"
    using assms by (auto simp: consume_approval_def utcnow_def bind_err_ok_iff compare_digest_True split: if_splits sum.splits)
  note T = apply_transition_ok [OF ok, unfolded cur]
  show "apv_status p = A_PENDING" "apv_nonce p = nonce" "clock s (ticks s) \<le> apv_expires_at p"
    "apv_payload_hash p = act_payload_hash a"
    using checks by simp_all
  show "act_status (current_action a s) = AWAITING_APPROVAL \<or> act_status (current_action a s) = VALIDATING
      \<or> act_status (current_action a s) = RETRYING"
    using T(2) by (cases "act_status (current_action a s)") simp_all
  show "b = (current_action a s)\<lparr>act_status := READY\<rparr>" by (rule T(1))
  show "action_actions t = tupd act_id (act_id b) (\<lambda>x. x\<lparr>act_status := READY\<rparr>) (action_actions s)"
    using T(3) by (simp add: t set_approval_def)
  show "action_approvals t = tupd apv_id (apv_id p)
      (\<lambda>q. q\<lparr>apv_status := A_APPROVED, apv_approver_id := Some who\<rparr>) (action_approvals s)"
    using T(4) by (simp add: t set_approval_def)
  show "\<exists>m. outbox_messages t = outbox_messages s @ [m] \<and> announced m = (act_id b, ''action.ready.v1'')"
    using T(5) by (simp add: t effect announced_def set_approval_def)
  show "uuid_src t = uuid_src s" using T(6) by (simp add: t set_approval_def)
  have "drawn s \<le> drawn s2" using T(7) by (simp add: set_approval_def)
  then show "drawn s \<le> drawn t" using drawn_mono(4) order_trans unfolding t by meson
qed

lemma consume_approval_drawn: "drawn s \<le> drawn (snd (consume_approval a p who nonce s))"
proof (cases "consume_approval a p who nonce s")
  case (Pair r t)
  have step: "drawn s \<le> drawn u"
    if "apply_transition a tg who None (set_approval p f (s\<lparr>ticks := n\<rparr>)) = (x, u)" for tg f n x u
  proof (cases x)
    case (Inl e)
    with apply_transition_err that have "tables_kept (set_approval p f (s\<lparr>ticks := n\<rparr>)) u" by blast
    then show ?thesis by (simp add: tables_kept_def set_approval_def)
  next
    case (Inr b)
    with apply_transition_ok(7) that have "drawn (set_approval p f (s\<lparr>ticks := n\<rparr>)) \<le> drawn u" by blast
    then show ?thesis by (simp add: set_approval_def)
  qed
  show ?thesis
  proof (cases r)
    case (Inr b)
    with consume_approval_ok(11) Pair show ?thesis by simp
  next
    case (Inl e)
    with Pair step show ?thesis
      by (auto simp: consume_approval_def utcnow_def bind_err_err_iff Let_def split: if_splits sum.splits)
  qed
qed

lemma action_inv_consume:
  assumes inv: "action_inv s" and load: "loaded a s" "loaded_approval p s" "apv_action_id p = act_id a"
    and ok: "consume_approval a p who nonce s = (Inr b, t)"
  shows "action_inv t"
proof -
  from inv have dist: "distinct (map act_id (action_actions s))" by (simp add: action_inv_def)
  obtain r st where r: "r \<in> set (action_actions s)" "a = r\<lparr>act_status := st\<rparr>" "current_action a s = r"
    by (rule current_action_loaded [OF load(1) dist])
  note C = consume_approval_ok [OF ok, unfolded r(3)]
  have awaiting: "act_status r = AWAITING_APPROVAL" and none_yet: "ready_count s (act_id r) = 0"
    using inv r(1) C(5) by (auto simp: action_inv_def action_ok_def settled_def split: if_splits)
  obtain m where m: "outbox_messages t = outbox_messages s @ [m]" "announced m = (act_id r, ''action.ready.v1'')"
    using C(9) C(6) by auto
  obtain q st' w' where q: "q \<in> set (action_approvals s)" "p = q\<lparr>apv_status := st', apv_approver_id := w'\<rparr>"
    using load(2) by (auto simp: loaded_approval_def)
  have in_t: "(if apv_id x = apv_id p then x\<lparr>apv_status := A_APPROVED, apv_approver_id := Some who\<rparr> else x)
      \<in> set (action_approvals t)" if "x \<in> set (action_approvals s)" for x
    using that unfolding C(8) in_set_tupd by blast
  have keeps: "approved t y" if "approved s y" for y
  proof -
    from that obtain z where z: "z \<in> set (action_approvals s)" "apv_action_id z = act_id y"
        "apv_status z = A_APPROVED" "apv_payload_hash z = act_payload_hash y" "apv_approver_id z \<noteq> None"
      by (auto simp: approved_def)
    show ?thesis
      unfolding approved_def by (rule bexI [OF _ in_t [OF z(1)]]) (use z in simp)
  qed
  have "approved t r"
    using in_t [OF q(1)] q(2) load(3) C(4) r(2) unfolding approved_def by (intro bexI [rotated]) auto
  then have this_one: "action_ok t (r\<lparr>act_status := READY\<rparr>)"
    using none_yet ready_count_append [OF m, of "act_id r"]
    by (simp add: action_ok_def settled_def approved_def)
  have others: "action_ok t y" if "y \<in> set (action_actions s)" "act_id y \<noteq> act_id r" for y
  proof -
    have "action_ok s y" using inv that(1) by (simp add: action_inv_def)
    then show ?thesis
      using that(2) keeps ready_count_append [OF m, of "act_id y"] by (simp add: action_ok_def)
  qed
  have "action_ok t x" if x: "x \<in> set (action_actions t)" for x
  proof -
    from x obtain y where y: "y \<in> set (action_actions s)"
        "x = (if act_id y = act_id b then y\<lparr>act_status := READY\<rparr> else y)"
      unfolding C(7) in_set_tupd by blast
    show ?thesis
    proof (cases "act_id y = act_id r")
      case True
      then have "y = r" using unique_by_key [OF dist y(1) r(1)] by simp
      with y this_one C(6) show ?thesis by simp
    next
      case False
      with y others C(6) show ?thesis by simp
    qed
  qed
  moreover have same: "map act_id (action_actions t) = map act_id (action_actions s)"
    by (simp add: C(7))
  then have ids: "act_id ` set (action_actions t) = act_id ` set (action_actions s)"
    by (metis list.set_map)
  moreover have "uuid_src s ` {..<drawn s} \<subseteq> uuid_src s ` {..<drawn t}" using C(11) by auto
  then have "act_id ` set (action_actions t) \<subseteq> uuid_src s ` {..<drawn t}"
    using inv by (auto simp: ids action_inv_def)
  then have "\<forall>x \<in> set (action_actions t). act_id x \<in> uuid_src s ` {..<drawn t}"
    by (simp add: image_subset_iff)
  moreover have "\<forall>x \<in> set (outbox_messages t). om_event_type x = ''action.ready.v1'' \<longrightarrow>
      om_aggregate_id x \<in> act_id ` set (action_actions s)"
    using inv r(1) m by (auto simp: action_inv_def announced_def)
  ultimately show ?thesis
    using inv same by (simp add: action_inv_def C(10))
qed


section \<open>Every step keeps the invariant\<close>

lemma action_inv_run_tx:
  assumes "action_inv s" "\<And>b t. oper s = (Inr b, t) \<Longrightarrow> action_inv t" "drawn s \<le> drawn (snd (oper s))"
  shows "action_inv (snd (run_tx oper s))"
proof (cases "oper s")
  case (Pair r t)
  show ?thesis
  proof (cases r)
    case (Inl e)
    with Pair assms(1,3) show ?thesis by (simp add: run_tx_def action_inv_rollback)
  next
    case (Inr b)
    with Pair assms(2) show ?thesis by (simp add: run_tx_def)
  qed
qed

lemma apply_transition_drawn: "drawn s \<le> drawn (snd (apply_transition a target who receipt s))"
proof (cases "apply_transition a target who receipt s")
  case (Pair r t)
  show ?thesis
  proof (cases r)
    case (Inl e)
    with Pair apply_transition_err [of a target who receipt s e t] show ?thesis by (simp add: tables_kept_def)
  next
    case (Inr b)
    with Pair apply_transition_ok(7) [of a target who receipt s b t] show ?thesis by simp
  qed
qed

lemma action_inv_transition:
  assumes "action_inv s" "loaded a s" "target \<in> set settled" "target \<noteq> READY"
  shows "action_inv (snd (run_tx (apply_transition a target who receipt) s))"
  by (rule action_inv_run_tx [OF assms(1)])
    (auto intro: action_inv_move [OF assms(1,2) _ assms(3,4)] apply_transition_drawn)

lemma run_tx_raise [simp]: "snd (run_tx (raise e) s) = s"
  by (simp add: run_tx_def raise_def)

lemma action_step_inv:
  assumes "action_step s t" "action_inv s"
  shows "action_inv t"
  using assms
proof (induction rule: action_step.induct)
  case (propose t trace tool risk payload task key ctx s)
  then show ?case by (simp add: action_inv_propose)
next
  case (consume a s p t who nonce)
  have "action_inv (snd (run_tx (consume_approval a p who nonce) s))"
    by (rule action_inv_run_tx [OF consume.prems])
      (auto intro: action_inv_consume [OF consume.prems consume.hyps(1-3)] consume_approval_drawn)
  with consume show ?case by simp
next
  case (cancel a s t who)
  have "request_cancellation a who = apply_transition a CANCELLED who None
      \<or> request_cancellation a who = apply_transition a COMPENSATING who None
      \<or> request_cancellation a who = raise (ActionNotCancellableError (act_status a))"
    by (auto simp: request_cancellation_def fun_eq_iff)
  with cancel show ?case
    by (auto simp: settled_def intro!: action_inv_transition)
next
  case (compensate a s t outcome who)
  have "complete_compensation a outcome who = apply_transition a outcome who None \<and> outcome \<in> {COMPENSATED, FAILED}
      \<or> complete_compensation a outcome who = raise (InvalidCompensationOutcomeError outcome)"
    by (auto simp: complete_compensation_def fun_eq_iff)
  with compensate show ?case
    by (auto simp: settled_def intro!: action_inv_transition)
next
  case (connector a s target t who receipt)
  then show ?case by (auto simp: settled_def intro!: action_inv_transition)
next
  case (elsewhere t s)
  then show ?case by (auto intro: action_inv_elsewhere)
qed

definition no_actions :: "db \<Rightarrow> bool" where
  "no_actions s \<longleftrightarrow> inj (uuid_src s) \<and> action_actions s = []
     \<and> (\<forall>m \<in> set (outbox_messages s). om_event_type m \<noteq> ''action.ready.v1'')"

lemma action_inv_initial: "no_actions s \<Longrightarrow> action_inv s"
  by (simp add: no_actions_def action_inv_def)

interpretation action_run: invariant_system action_step no_actions action_inv
  by unfold_locales (fact action_inv_initial action_step_inv)+


section \<open>What a step does to the rows\<close>

definition tool_gated :: "action_row \<Rightarrow> bool" where
  "tool_gated a \<longleftrightarrow> act_risk_level a = enforce_minimum_risk_level (act_tool_name a) (act_risk_level a)"

definition evolves :: "db \<Rightarrow> db \<Rightarrow> bool" where
  "evolves s t \<longleftrightarrow> (\<exists>f new. action_actions t = map f (action_actions s) @ new
     \<and> (\<forall>y \<in> set (action_actions s). f y = y \<or> (\<exists>st. f y = y\<lparr>act_status := st\<rparr> \<and> allowed_edge (act_status y) st))
     \<and> (\<forall>b \<in> set new. tool_gated b \<and> act_status b \<in> {AWAITING_APPROVAL, READY}))"

lemma evolves_same: "action_actions t = action_actions s \<Longrightarrow> evolves s t"
  unfolding evolves_def by (intro exI [of _ "\<lambda>y. y"] exI [of _ "[]"]) simp

lemma evolves_tupd:
  assumes "distinct (map act_id (action_actions s))" "r \<in> set (action_actions s)" "allowed_edge (act_status r) target"
    and "action_actions t = tupd act_id (act_id r) (\<lambda>x. x\<lparr>act_status := target\<rparr>) (action_actions s)"
  shows "evolves s t"
proof -
  have "y = r" if "y \<in> set (action_actions s)" "act_id y = act_id r" for y
    using unique_by_key [OF assms(1) that(1) assms(2)] that(2) by simp
  then show ?thesis
    unfolding evolves_def assms(4) tupd_def
    by (intro exI [of _ "\<lambda>y. if act_id y = act_id r then y\<lparr>act_status := target\<rparr> else y"] exI [of _ "[]"])
      (use assms(3) in auto)
qed

lemma enforce_idem [simp]:
  "enforce_minimum_risk_level tool (enforce_minimum_risk_level tool r) = enforce_minimum_risk_level tool r"
  by (simp add: enforce_minimum_risk_level_def split: option.splits)

lemma transition_evolves:
  assumes "action_inv s" "loaded a s"
  shows "evolves s (snd (run_tx (apply_transition a target who receipt) s))"
proof (cases "apply_transition a target who receipt s")
  case (Pair x t)
  from assms(1) have dist: "distinct (map act_id (action_actions s))" by (simp add: action_inv_def)
  obtain r st where r: "r \<in> set (action_actions s)" "current_action a s = r"
    by (rule current_action_loaded [OF assms(2) dist]) blast
  show ?thesis
  proof (cases x)
    case (Inl e)
    with Pair show ?thesis by (intro evolves_same) (simp add: run_tx_def rollback_def)
  next
    case (Inr b)
    note T = apply_transition_ok [OF Pair [unfolded Inr], unfolded r(2)]
    from evolves_tupd [OF dist r(1) T(2)] T(1,3) Pair Inr show ?thesis by (simp add: run_tx_def)
  qed
qed

lemma consume_evolves:
  assumes inv: "action_inv s" and "loaded a s"
  shows "evolves s (snd (run_tx (consume_approval a p who nonce) s))"
proof (cases "consume_approval a p who nonce s")
  case (Pair x t)
  from inv have dist: "distinct (map act_id (action_actions s))" by (simp add: action_inv_def)
  obtain r st where r: "r \<in> set (action_actions s)" "current_action a s = r"
    by (rule current_action_loaded [OF assms(2) dist]) blast
  show ?thesis
  proof (cases x)
    case (Inl e)
    with Pair show ?thesis by (intro evolves_same) (simp add: run_tx_def rollback_def)
  next
    case (Inr b)
    note C = consume_approval_ok [OF Pair [unfolded Inr], unfolded r(2)]
    have "allowed_edge (act_status r) READY" using C(5) by auto
    from evolves_tupd [OF dist r(1) this] C(6,7) Pair Inr show ?thesis by (simp add: run_tx_def)
  qed
qed

lemma action_step_evolves:
  assumes "action_step s t" "action_inv s"
  shows "evolves s t"
  using assms
proof (induction rule: action_step.induct)
  case (propose t trace tool risk payload task key ctx s)
  show ?case
  proof (rule propose_run [OF propose.prems propose.hyps])
    assume "tables_kept s t"
    then show ?thesis by (intro evolves_same) (simp add: tables_kept_def)
  next
    fix a b
    assume ab: "act_tool_name a = tool" "act_risk_level a = enforce_minimum_risk_level tool risk"
      "action_actions t = action_actions s @ [b]"
      "if needs_approval (act_risk_level a)
         then b = a\<lparr>act_status := AWAITING_APPROVAL\<rparr> \<and> outbox_messages t = outbox_messages s
         else b = a\<lparr>act_status := READY\<rparr>
           \<and> (\<exists>m. outbox_messages t = outbox_messages s @ [m] \<and> announced m = (act_id a, ''action.ready.v1''))"
    then show ?thesis
      unfolding evolves_def
      by (intro exI [of _ "\<lambda>y. y"] exI [of _ "[b]"]) (auto simp: tool_gated_def split: if_splits)
  qed
next
  case (consume a s p t who nonce)
  then show ?case by (simp add: consume_evolves)
next
  case (cancel a s t who)
  then show ?case
    using transition_evolves [OF cancel.prems cancel.hyps(1)]
    by (auto simp: request_cancellation_def run_tx_def raise_def rollback_def intro: evolves_same)
next
  case (compensate a s t outcome who)
  then show ?case
    using transition_evolves [OF compensate.prems compensate.hyps(1)]
    by (auto simp: complete_compensation_def run_tx_def raise_def rollback_def intro: evolves_same)
next
  case (connector a s target t who receipt)
  then show ?case by (simp add: transition_evolves)
next
  case (elsewhere t s)
  then show ?case by (simp add: evolves_same)
qed

section \<open>A concrete run\<close>

definition sample_ctx :: request_context where
  "sample_ctx = \<lparr>rc_workspace = \<lparr>wc_customer_id = 7, wc_workspace_id = 1, wc_user_id = 3, wc_role = WR_MEMBER\<rparr>,
     rc_auth_strength = AAL2\<rparr>"

definition sample_propose :: "db \<Rightarrow> (action_out \<times> approval_out option) response" where
  "sample_propose = propose_and_submit_action 9 telegram_tool R0
     (JObj [(''chat_id'', JStr ''c''), (''text'', JStr ''hi'')]) None ''k1'' sample_ctx"

definition sample_pending :: db where
  "sample_pending = snd (run_tx sample_propose empty_db)"

lemma sample_pending_step: "action_step empty_db sample_pending"
  unfolding sample_pending_def sample_propose_def by (rule action_step.propose) (rule refl)

lemma no_actions_empty_db: "no_actions empty_db"
  by (simp add: no_actions_def inj_def)

definition sample_action :: "action_status \<Rightarrow> action_row" where
  "sample_action st = \<lparr>act_id = 0, act_created_at = 0, act_customer_id = 7, act_workspace_id = 1,
     act_trace_id = 9, act_task_id = None, act_actor_id = user_actor 3, act_tool_name = telegram_tool,
     act_risk_level = R3, act_payload = JObj [(''chat_id'', JStr ''c''), (''text'', JStr ''hi'')],
     act_payload_hash = hash_payload (\<lambda>x. x) (JObj [(''chat_id'', JStr ''c''), (''text'', JStr ''hi'')]),
     act_idempotency_key = ''k1'', act_status = st\<rparr>"

definition sample_approval :: approval_row where
  "sample_approval = \<lparr>apv_id = 7, apv_created_at = 11, apv_customer_id = 7, apv_action_id = 0,
     apv_payload_hash = act_payload_hash (sample_action DRAFT), apv_approver_id = None, apv_nonce = ''0'',
     apv_status = A_PENDING, apv_expires_at = 10 + default_approval_ttl\<rparr>"

lemma dec_nat_0 [simp]: "dec_nat 0 = ''0''"
  by (simp add: dec_nat.simps digit_char_def) code_simp

lemma sample_pending_tables:
  "action_actions sample_pending = [sample_action AWAITING_APPROVAL]
   \<and> action_approvals sample_pending = [sample_approval] \<and> ticks sample_pending = 12 \<and> clock sample_pending = int"
  by (simp add: sample_pending_def sample_propose_def run_tx_def propose_and_submit_action_def sample_ctx_def
      authorize_propose_action_def roles_that_may_propose_actions_def propose_action_def assert_not_killed_def
      row_defaults_def Let_def enforce_minimum_risk_level_def tool_minimum_risk_level_def risk_order_def
      submit_action_for_execution_def validate_action_def apply_transition_def current_action_def effect
      transition_def notify_transition_def is_notification_type_enabled_def always_on_types_def
      auto_approved_risk_levels_def request_approval_def token_urlsafe_def utcnow_def tupd_def ok_def
      sample_action_def sample_approval_def)

section \<open>Properties\<close>

definition sample_approved :: db where
  "sample_approved = snd (run_tx (consume_approval (sample_action AWAITING_APPROVAL) sample_approval
     (user_actor 3) ''0'') sample_pending)"

lemma sample_consume_steps: "action_step\<^sup>*\<^sup>* sample_pending sample_approved"
proof -
  have "sample_action AWAITING_APPROVAL = (sample_action AWAITING_APPROVAL)\<lparr>act_status := AWAITING_APPROVAL\<rparr>"
    "sample_approval = sample_approval\<lparr>apv_status := A_PENDING, apv_approver_id := None\<rparr>"
    by (simp_all add: sample_action_def sample_approval_def)
  then have "loaded (sample_action AWAITING_APPROVAL) sample_pending" "loaded_approval sample_approval sample_pending"
    by (auto simp: loaded_def loaded_approval_def sample_pending_tables)
  then have "action_step sample_pending sample_approved"
    unfolding sample_approved_def
    by (rule action_step.consume) (simp_all add: sample_action_def sample_approval_def)
  then show ?thesis by (rule r_into_rtranclp [of action_step])
qed

lemma sample_approved_steps: "action_step\<^sup>*\<^sup>* empty_db sample_approved"
  by (rule converse_rtranclp_into_rtranclp [of action_step, OF sample_pending_step sample_consume_steps])

lemma sample_approved_actions: "action_actions sample_approved = [sample_action READY]"
  by (simp add: sample_approved_def run_tx_def consume_approval_def compare_digest_def is_ascii_def sample_approval_def utcnow_def
      sample_pending_tables default_approval_ttl_def apply_transition_def Let_def current_action_def
      set_approval_def transition_def notify_transition_def tupd_def ok_def)
    (simp add: sample_action_def)

text \<open>
  C12: in every state the requests can reach, whatever stale objects they hold and however
  they interleave, an action whose risk needs approval and that is no longer waiting for it
  has an approved approval of its payload on file, with the approver's name.
\<close>

theorem approval_before_execution:
  assumes "no_actions s" "action_step\<^sup>*\<^sup>* s t" "a \<in> set (action_actions t)"
    and "R3 \<le> act_risk_level a" "act_status a \<noteq> AWAITING_APPROVAL"
  shows "\<exists>p \<in> set (action_approvals t). apv_action_id p = act_id a \<and> apv_status p = A_APPROVED
     \<and> apv_payload_hash p = act_payload_hash a \<and> apv_approver_id p \<noteq> None"
  using action_run.reachable [OF assms(1,2)] assms(3-5)
  by (simp add: action_inv_def action_ok_def needs_approval_iff approved_def)

theorem approval_before_execution_witness:
  "\<exists>p \<in> set (action_approvals sample_approved). apv_action_id p = 0 \<and> apv_status p = A_APPROVED"
proof -
  have "sample_action READY \<in> set (action_actions sample_approved)" by (simp add: sample_approved_actions)
  from approval_before_execution [OF no_actions_empty_db sample_approved_steps this] show ?thesis
    by (auto simp: sample_action_def)
qed

text \<open>
  C13: in every reachable state each action has announced its readiness exactly once if it
  has ever been ready, and never before: an approval consumed twice, by two requests that both
  loaded it pending, does not queue the side effect twice.
\<close>

theorem ready_announced_exactly_once:
  assumes "no_actions s" "action_step\<^sup>*\<^sup>* s t" "a \<in> set (action_actions t)"
  shows "length (filter (\<lambda>m. om_aggregate_id m = act_id a \<and> om_event_type m = ''action.ready.v1'')
       (outbox_messages t)) = (if act_status a = AWAITING_APPROVAL then 0 else 1)"
  using action_run.reachable [OF assms(1,2)] assms(3)
  by (simp add: action_inv_def action_ok_def ready_count_def is_ready_message_def [abs_def])

theorem ready_announced_exactly_once_witness:
  "length (filter (\<lambda>m. om_aggregate_id m = 0 \<and> om_event_type m = ''action.ready.v1'')
       (outbox_messages sample_approved)) = 1"
proof -
  have "sample_action READY \<in> set (action_actions sample_approved)" by (simp add: sample_approved_actions)
  from ready_announced_exactly_once [OF no_actions_empty_db sample_approved_steps this] show ?thesis
    by (simp add: sample_action_def)
qed

text \<open>
  C14: no reachable state holds an action that is EXPIRED, REJECTED or DENIED, nor one being
  retried: an approval refused because it expired or because the payload changed raises, the
  transaction rolls back, and the terminal status it had written is lost.
\<close>

theorem refusal_leaves_no_status:
  assumes "no_actions s" "action_step\<^sup>*\<^sup>* s t" "a \<in> set (action_actions t)"
  shows "act_status a \<notin> {EXPIRED, REJECTED, DENIED, RETRYING, DRAFT, VALIDATING}"
  using action_run.reachable [OF assms(1,2)] assms(3)
  by (auto simp: action_inv_def action_ok_def settled_def)


theorem refusal_leaves_no_status_witness:
  "act_status (hd (action_actions sample_pending)) \<notin> {EXPIRED, REJECTED, DENIED, RETRYING, DRAFT, VALIDATING}"
proof -
  have "sample_action AWAITING_APPROVAL \<in> set (action_actions sample_pending)" by (simp add: sample_pending_tables)
  from refusal_leaves_no_status [OF no_actions_empty_db r_into_rtranclp [of action_step, OF sample_pending_step] this]
  show ?thesis by (simp add: sample_pending_tables)
qed

text \<open>
  C15: once proposed, an action's tool, risk, payload, payload hash, proposer and idempotency key
  never change, and its status only moves along the edges of the transition table, whatever
  requests and workers run in between.
\<close>

theorem proposal_is_immutable:
  assumes "no_actions s\<^sub>0" "action_step\<^sup>*\<^sup>* s\<^sub>0 s" "action_step\<^sup>*\<^sup>* s t" "a \<in> set (action_actions s)"
  shows "\<exists>b \<in> set (action_actions t). b = a\<lparr>act_status := act_status b\<rparr>
     \<and> allowed_edge\<^sup>*\<^sup>* (act_status a) (act_status b)"
  using assms(3)
proof (induction rule: rtranclp_induct)
  case base
  show ?case using assms(4) by (intro bexI [of _ a]) auto
next
  case (step t u)
  have "action_inv t"
    by (rule action_run.reachable [OF assms(1) rtranclp_trans [OF assms(2) step.hyps(1)]])
  then obtain f new where f: "action_actions u = map f (action_actions t) @ new"
      "\<forall>y \<in> set (action_actions t). f y = y \<or> (\<exists>st. f y = y\<lparr>act_status := st\<rparr> \<and> allowed_edge (act_status y) st)"
    using action_step_evolves [OF step.hyps(2)] unfolding evolves_def by blast
  obtain b where b: "b \<in> set (action_actions t)" "b = a\<lparr>act_status := act_status b\<rparr>"
      "allowed_edge\<^sup>*\<^sup>* (act_status a) (act_status b)"
    using step.IH by blast
  have "f b \<in> set (action_actions u)" using b(1) f(1) by simp
  moreover consider "f b = b" | st where "f b = b\<lparr>act_status := st\<rparr>" "allowed_edge (act_status b) st"
    using f(2) b(1) by blast
  then have "f b = a\<lparr>act_status := act_status (f b)\<rparr> \<and> allowed_edge\<^sup>*\<^sup>* (act_status a) (act_status (f b))"
  proof cases
    case 1
    with b show ?thesis by simp
  next
    case 2
    have "f b = a\<lparr>act_status := st\<rparr>" by (subst 2(1), subst b(2)) simp
    with 2 b(3) show ?thesis by (auto intro: rtranclp.rtrancl_into_rtrancl)
  qed
  ultimately show ?case by blast
qed

theorem proposal_is_immutable_witness:
  "\<exists>b \<in> set (action_actions sample_approved). b = (sample_action AWAITING_APPROVAL)\<lparr>act_status := act_status b\<rparr>
     \<and> allowed_edge\<^sup>*\<^sup>* AWAITING_APPROVAL (act_status b)"
proof -
  have "sample_action AWAITING_APPROVAL \<in> set (action_actions sample_pending)" by (simp add: sample_pending_tables)
  from proposal_is_immutable [OF no_actions_empty_db r_into_rtranclp [of action_step, OF sample_pending_step]
      sample_consume_steps this]
  show ?thesis by (simp add: sample_action_def)
qed

text \<open>
  C16: consuming an approval over HTTP succeeds only for a live session with fresh MFA, whose
  user has a role in the workspace and is the action's own proposer or an administrator; only
  with the right nonce, while the approval is pending, unexpired and for this payload, and
  only an action that is waiting for it, which is then READY.
\<close>

theorem consume_over_http_requires:
  assumes "get_request_context w auth (consume_action_approval i nonce) s = (Inr x, t)"
  shows "\<exists>sid rec ctx p a.
     parse_bearer_session_id auth = Inr sid \<and> fst (resolve_session sid s) = Inr rec
   \<and> ses_auth_strength rec = AAL2
   \<and> get_workspace_context (ses_user_id rec) w False (snd (resolve_session sid s)) = Inr ctx
   \<and> tget apv_id i (action_approvals s) = Some p \<and> tget act_id (apv_action_id p) (action_actions s) = Some a
   \<and> act_workspace_id a = w \<and> apv_customer_id p = wc_customer_id ctx
   \<and> (act_actor_id a = user_actor (ses_user_id rec) \<or> wc_role ctx = WR_ADMIN)
   \<and> apv_status p = A_PENDING \<and> apv_nonce p = nonce \<and> apv_payload_hash p = act_payload_hash a
   \<and> act_status a \<in> {AWAITING_APPROVAL, VALIDATING, RETRYING} \<and> ao_status x = READY
   \<and> tget act_id (act_id a) (action_actions t) = Some (a\<lparr>act_status := READY\<rparr>)"
proof -
  obtain sid rec s1 ctx where base: "parse_bearer_session_id auth = Inr sid" "resolve_session sid s = (Inr rec, s1)"
      "get_workspace_context (ses_user_id rec) w False s1 = Inr ctx"
    and handler: "consume_action_approval i nonce \<lparr>rc_workspace = ctx, rc_auth_strength = ses_auth_strength rec\<rparr> s1
        = (Inr x, t)"
    using resolve_request_context_Inr [OF assms [unfolded get_request_context_def]] by blast
  have same: "action_actions s1 = action_actions s" "action_approvals s1 = action_approvals s"
    using base(2) by (auto simp: resolve_session_def utcnow_def Let_def split: option.splits if_splits)
  have ctx: "wc_workspace_id ctx = w" "wc_user_id ctx = ses_user_id rec"
    using base(3) by (auto simp: get_workspace_context_def split: option.splits if_splits list.splits prod.splits)
  from handler obtain p a b where p: "tget apv_id i (action_approvals s) = Some p"
      "apv_customer_id p = wc_customer_id ctx"
    and a: "tget act_id (apv_action_id p) (action_actions s) = Some a" "act_workspace_id a = w"
    and auth: "authorize_consume_approval ctx a (ses_auth_strength rec) = None"
    and ok: "consume_approval a p (user_actor (ses_user_id rec)) nonce s1 = (Inr b, t)" and x: "x = to_action_out b"
    by (auto simp: consume_action_approval_def get_workspace_action_def bind_err_ok_iff ctx same
        split: option.splits if_splits)
  have id: "act_id a = apv_action_id p" using a(1) by (auto dest: tget_SomeD)
  then have cur: "current_action a s1 = a" using a(1) by (simp add: current_action_def same)
  note C = consume_approval_ok [OF ok, unfolded cur]
  have "tget act_id (act_id a) (action_actions t) = Some (a\<lparr>act_status := READY\<rparr>)"
    using a(1) id by (simp add: C(6,7) same)
  moreover have "act_actor_id a = user_actor (ses_user_id rec) \<or> wc_role ctx = WR_ADMIN" "ses_auth_strength rec = AAL2"
    using auth by (auto simp: authorize_consume_approval_def deny_def Let_def ctx
        roles_that_may_approve_another_actors_action_def split: if_splits)
  ultimately show ?thesis
    using base p a C x by (intro exI conjI) (auto simp: to_action_out_def)
qed


definition sample_http :: db where
  "sample_http = sample_pending\<lparr>
     identity_sessions := [\<lparr>ses_id = 5, ses_created_at = 0, ses_user_id = 3, ses_auth_strength = AAL2,
       ses_last_seen_at = 0, ses_expires_at = absolute_timeout, ses_revoked_at = None, ses_user_agent = None\<rparr>],
     workspace_tenant_index := [1 \<mapsto> 7],
     workspace_workspaces := workspace_workspaces sample_access,
     customer_memberships := customer_memberships sample_access,
     workspace_memberships := workspace_memberships sample_access\<rparr>"

lemma sample_http_consume:
  "\<exists>x t. get_request_context 1 (bearer 5) (consume_action_approval 7 ''0'') sample_http = (Inr x, t)"
proof -
  have sess: "\<exists>s1. resolve_session 5 sample_http = (Inr ((hd (identity_sessions sample_http))\<lparr>ses_last_seen_at := 12\<rparr>), s1)
      \<and> s1 = sample_http\<lparr>ticks := 13, identity_sessions := identity_sessions s1\<rparr>"
    by (simp add: resolve_session_def sample_http_def utcnow_def Let_def sample_pending_tables absolute_timeout_def
        idle_timeout_def)
  then obtain s1 where s1: "resolve_session 5 sample_http = (Inr ((hd (identity_sessions sample_http))\<lparr>ses_last_seen_at := 12\<rparr>), s1)"
      "s1 = sample_http\<lparr>ticks := 13, identity_sessions := identity_sessions s1\<rparr>" by blast
  define ctx where "ctx = \<lparr>wc_customer_id = 7, wc_workspace_id = 1, wc_user_id = 3, wc_role = WR_MEMBER\<rparr>"
  have sel: "workspace_tenant_index s1 1 = Some 7" "action_actions s1 = [sample_action AWAITING_APPROVAL]"
    "action_approvals s1 = [sample_approval]" "clock s1 = int" "ticks s1 = 13"
    by (subst s1(2), simp add: sample_http_def sample_pending_tables)+
  have "get_workspace_context 3 1 False s1 = get_workspace_context 3 1 False sample_access"
    by (subst s1(2)) (simp add: sample_http_def sample_access_def get_workspace_context_def is_customer_owner_def
        customer_role_string_def membership_join_def)
  also have "\<dots> = Inr ctx"
    by (simp add: get_workspace_context_def is_customer_owner_def sample_access_def customer_role_string_def
        membership_join_def parse_workspace_role_def ctx_def)
  finally have c: "get_workspace_context 3 1 False s1 = Inr ctx" .
  have "\<exists>x t. consume_action_approval 7 ''0'' \<lparr>rc_workspace = ctx, rc_auth_strength = AAL2\<rparr> s1 = (Inr x, t)"
    by (simp add: consume_action_approval_def sel sample_approval_def get_workspace_action_def sample_action_def
        authorize_consume_approval_def ctx_def consume_approval_def compare_digest_def is_ascii_def utcnow_def default_approval_ttl_def
        apply_transition_def current_action_def set_approval_def transition_def Let_def)
  then show ?thesis
    using s1(1) sel(1) c
    by (auto simp: get_request_context_def resolve_request_context_def sample_http_def run_tx_def)
qed

theorem consume_over_http_requires_witness:
  "\<exists>x t. get_request_context 1 (bearer 5) (consume_action_approval 7 ''0'') sample_http = (Inr x, t)
     \<and> ao_status x = READY"
  using sample_http_consume consume_over_http_requires by blast

end
