(* ===== verification/Outbox_Relay.thy ===== *)
theory Outbox_Relay
  imports Action_System
begin

text \<open>
  The outbox relay, \<open>doda/infrastructure/outbox_relay.py\<close>: it publishes the outbox rows to Redis
  streams.  Redis is not under src/: for which message \<open>xadd\<close> fails, which rows another worker
  holds and whether the commit goes through are parameters, arbitrary in the properties.
\<close>

record stream_entry =
  se_stream :: string
  se_id :: string
  se_customer_id :: string
  se_aggregate_type :: string
  se_aggregate_id :: string
  se_payload :: string

text \<open>\<open>json.dumps\<close> with its default separators.\<close>

fun dumps :: "json \<Rightarrow> string" where
  "dumps JNull = ''null''"
| "dumps (JBool b) = (if b then ''true'' else ''false'')"
| "dumps (JInt i) = dec_int i"
| "dumps (JStr s) = json_quote s"
| "dumps (JArr xs) = ''['' @ join_with '', '' (map dumps xs) @ '']''"
| "dumps (JObj kvs) =
     ''{'' @ join_with '', '' (map (\<lambda>kv. json_quote (fst kv) @ '': '' @ dumps (snd kv)) kvs) @ ''}''"

definition entry_of :: "outbox_message_row \<Rightarrow> stream_entry" where
  "entry_of message =
     \<lparr>se_stream = ''doda:outbox:'' @ om_event_type message, se_id = uuid_str (om_id message),
      se_customer_id = uuid_str (om_customer_id message),
      se_aggregate_type = om_aggregate_type message, se_aggregate_id = uuid_str (om_aggregate_id message),
      se_payload = dumps (om_payload message)\<rparr>"

definition default_batch_size :: nat where
  "default_batch_size = 50"

definition mark_published :: "outbox_message_row \<Rightarrow> db \<Rightarrow> db" where
  "mark_published message s =
     (let (now, s1) = utcnow s
      in s1\<lparr>outbox_messages := tupd om_id (om_id message)
            (\<lambda>m. m\<lparr>om_published_at := Some now, om_attempts := om_attempts m + 1\<rparr>) (outbox_messages s1)\<rparr>)"

text \<open>
  The loop over the selected messages: the transaction's state, the stream (which no rollback
  reverts) and the number sent.  \<open>fails\<close> says for which message \<open>xadd\<close> raises.
\<close>

fun publish_all ::
  "(uuid \<Rightarrow> bool) \<Rightarrow> outbox_message_row list \<Rightarrow> nat \<Rightarrow> db \<Rightarrow> stream_entry list
     \<Rightarrow> ((app_error + nat) \<times> db) \<times> stream_entry list" where
  "publish_all fails [] published s redis = (ok published s, redis)"
| "publish_all fails (message # messages) published s redis =
     (if fails (om_id message) then (raise (Unhandled ''RedisError'') s, redis)
      else publish_all fails messages (Suc published) (mark_published message s) (redis @ [entry_of message]))"

definition pending :: "db \<Rightarrow> outbox_message_row list" where
  "pending s = filter (\<lambda>m. om_published_at m = None) (outbox_messages s)"

text \<open>
  One poll.  \<open>locked\<close> are the rows another worker holds (\<open>SKIP LOCKED\<close>); \<open>commits\<close> is whether
  the transaction's commit goes through.
\<close>

definition relay_once ::
  "(uuid \<Rightarrow> bool) \<Rightarrow> (uuid \<Rightarrow> bool) \<Rightarrow> bool \<Rightarrow> nat \<Rightarrow> db \<times> stream_entry list
     \<Rightarrow> (app_error + nat) \<times> db \<times> stream_entry list" where
  "relay_once fails locked commits batch_size w =
     (let s = fst w;
          selected = take batch_size (sort_key om_created_at (filter (\<lambda>m. \<not> locked (om_id m)) (pending s)));
          r = publish_all fails selected 0 s (snd w)
      in case fst (fst r) of
           Inl e \<Rightarrow> (Inl e, rollback s (snd (fst r)), snd r)
         | Inr n \<Rightarrow> if commits then (Inr n, snd (fst r), snd r)
                    else (Inl (Unhandled ''commit failed''), rollback s (snd (fst r)), snd r))"

section \<open>Publishing\<close>

lemma entry_of_update [simp]:
  "entry_of (m\<lparr>om_published_at := x, om_attempts := y\<rparr>) = entry_of m"
  by (simp add: entry_of_def)

lemma filter_mark:
  "filter (\<lambda>x. om_published_at x = None)
     (tupd om_id i (\<lambda>x. x\<lparr>om_published_at := Some now, om_attempts := om_attempts x + 1\<rparr>) rows)
   = filter (\<lambda>x. om_id x \<noteq> i) (filter (\<lambda>x. om_published_at x = None) rows)"
  by (induction rows) (auto simp: tupd_def)

lemma mark_published_simps [simp]:
  "pending (mark_published m s) = filter (\<lambda>x. om_id x \<noteq> om_id m) (pending s)"
  "map om_id (outbox_messages (mark_published m s)) = map om_id (outbox_messages s)"
  "drawn (mark_published m s) = drawn s" "uuid_src (mark_published m s) = uuid_src s"
  by (simp_all add: mark_published_def utcnow_def pending_def filter_mark)

lemma mark_published_rows:
  assumes "x \<in> set (outbox_messages (mark_published m s))"
  obtains q where "q \<in> set (outbox_messages s)" "om_id q = om_id x" "entry_of q = entry_of x"
    "om_published_at x = om_published_at q \<or> om_id q = om_id m"
  using assms by (auto simp: mark_published_def utcnow_def in_set_tupd split: if_splits)

lemma publish_all_clean:
  "\<exists>t. publish_all (\<lambda>_. False) ms k s redis = (ok (k + length ms) t, redis @ map entry_of ms)
     \<and> pending t = filter (\<lambda>m. om_id m \<notin> om_id ` set ms) (pending s)
     \<and> map om_id (outbox_messages t) = map om_id (outbox_messages s)"
proof (induction ms arbitrary: k s redis)
  case (Cons m ms)
  show ?case
    using Cons [of "Suc k" "mark_published m s" "redis @ [entry_of m]"]
    by (auto simp: conj_commute intro!: filter_cong)
qed (simp add: pending_def)

definition stream_inv :: "db \<times> stream_entry list \<Rightarrow> bool" where
  "stream_inv w \<longleftrightarrow>
     (\<forall>m \<in> set (outbox_messages (fst w)). om_published_at m \<noteq> None \<longrightarrow> entry_of m \<in> set (snd w))"

lemma publish_all_inv:
  assumes "publish_all fails ms k s redis = ((r, t), redis')"
    and "stream_inv (s, redis)"
    and "\<forall>msg \<in> set ms. \<forall>m \<in> set (outbox_messages s). om_id m = om_id msg \<longrightarrow> entry_of m = entry_of msg"
  shows "stream_inv (t, redis') \<and> set redis \<subseteq> set redis'"
  using assms
proof (induction ms arbitrary: k s redis)
  case (Cons m ms)
  show ?case
  proof (cases "fails (om_id m)")
    case True
    with Cons.prems show ?thesis by (auto simp: raise_def)
  next
    case False
    have "stream_inv (mark_published m s, redis @ [entry_of m])"
      unfolding stream_inv_def
    proof (intro ballI impI)
      fix x
      assume "x \<in> set (outbox_messages (fst (mark_published m s, redis @ [entry_of m])))" "om_published_at x \<noteq> None"
      then obtain q where "q \<in> set (outbox_messages s)" "entry_of q = entry_of x"
          "om_published_at q \<noteq> None \<or> om_id q = om_id m"
        by (auto elim!: mark_published_rows)
      with Cons.prems(2,3) show "entry_of x \<in> set (snd (mark_published m s, redis @ [entry_of m]))"
        by (auto simp: stream_inv_def)
    qed
    moreover have "\<forall>msg \<in> set ms. \<forall>x \<in> set (outbox_messages (mark_published m s)).
        om_id x = om_id msg \<longrightarrow> entry_of x = entry_of msg"
    proof (intro ballI impI)
      fix msg x
      assume msg: "msg \<in> set ms" "om_id x = om_id msg" and x: "x \<in> set (outbox_messages (mark_published m s))"
      obtain q where "q \<in> set (outbox_messages s)" "om_id q = om_id x" "entry_of q = entry_of x"
        by (rule mark_published_rows [OF x])
      with Cons.prems(3) msg show "entry_of x = entry_of msg" by simp
    qed
    moreover have "publish_all fails ms (Suc k) (mark_published m s) (redis @ [entry_of m]) = ((r, t), redis')"
      using Cons.prems(1) False by simp
    ultimately have "stream_inv (t, redis') \<and> set (redis @ [entry_of m]) \<subseteq> set redis'"
      using Cons.IH by blast
    then show ?thesis by simp
  qed
qed (auto simp: ok_def)

lemma relay_once_inv:
  assumes "stream_inv w" "distinct (map om_id (outbox_messages (fst w)))"
  shows "stream_inv (snd (relay_once fails locked commits n w))"
proof -
  let ?sel = "take n (sort_key om_created_at (filter (\<lambda>m. \<not> locked (om_id m)) (pending (fst w))))"
  have "set ?sel \<subseteq> set (outbox_messages (fst w))"
    using set_take_subset [of n "sort_key om_created_at (filter (\<lambda>m. \<not> locked (om_id m)) (pending (fst w)))"]
    by (auto simp: pending_def)
  then have same: "\<forall>msg \<in> set ?sel. \<forall>m \<in> set (outbox_messages (fst w)). om_id m = om_id msg \<longrightarrow> entry_of m = entry_of msg"
    using unique_by_key [OF assms(2)] by blast
  obtain r t redis where p: "publish_all fails ?sel 0 (fst w) (snd w) = ((r, t), redis)"
    by (metis surj_pair)
  have inv: "stream_inv (t, redis)" "set (snd w) \<subseteq> set redis"
    using publish_all_inv [OF p _ same] assms(1) by simp_all
  then have "stream_inv (rollback (fst w) t, redis)"
    using assms(1) by (auto simp: stream_inv_def rollback_def)
  with inv p show ?thesis
    by (auto simp: relay_once_def Let_def split: sum.splits)
qed

lemma publish_all_ids:
  "map om_id (outbox_messages (snd (fst (publish_all fails ms k s redis)))) = map om_id (outbox_messages s)
   \<and> drawn (snd (fst (publish_all fails ms k s redis))) = drawn s
   \<and> uuid_src (snd (fst (publish_all fails ms k s redis))) = uuid_src s"
  by (induction ms arbitrary: k s redis) simp_all

lemma relay_once_ids:
  "map om_id (outbox_messages (fst (snd (relay_once fails locked commits n w)))) = map om_id (outbox_messages (fst w))
   \<and> drawn (fst (snd (relay_once fails locked commits n w))) = drawn (fst w)
   \<and> uuid_src (fst (snd (relay_once fails locked commits n w))) = uuid_src (fst w)"
  using publish_all_ids
  by (auto simp: relay_once_def Let_def rollback_def split: sum.splits)

text \<open>What happens to the outbox: polls by any worker, and messages being enqueued.\<close>

datatype outbox_event =
    POLL "uuid \<Rightarrow> bool" "uuid \<Rightarrow> bool" bool nat
  | ENQUEUE uuid string uuid string jdict

primrec outbox_step :: "outbox_event \<Rightarrow> db \<times> stream_entry list \<Rightarrow> db \<times> stream_entry list" where
  "outbox_step (POLL fails locked commits n) w = snd (relay_once fails locked commits n w)"
| "outbox_step (ENQUEUE c aty aid ety payload) w =
     (snd (enqueue_outbox_message c aty aid ety payload (fst w)), snd w)"

definition outbox_good :: "db \<times> stream_entry list \<Rightarrow> bool" where
  "outbox_good w \<longleftrightarrow> stream_inv w \<and> distinct (map om_id (outbox_messages (fst w))) \<and> inj (uuid_src (fst w))
     \<and> set (map om_id (outbox_messages (fst w))) \<subseteq> uuid_src (fst w) ` {..<drawn (fst w)}"

lemma outbox_good_step:
  assumes "outbox_good w"
  shows "outbox_good (outbox_step e w)"
proof (cases e)
  case (POLL fails locked commits n)
  with assms relay_once_inv [of w] relay_once_ids [of fails locked commits n w] show ?thesis
    by (simp add: outbox_good_def del: set_map)
next
  case (ENQUEUE c aty aid ety payload)
  let ?s = "fst w"
  have "uuid_src ?s (drawn ?s) \<notin> uuid_src ?s ` {..<drawn ?s}"
    using assms by (auto simp: outbox_good_def inj_eq)
  then have "uuid_src ?s (drawn ?s) \<notin> set (map om_id (outbox_messages ?s))"
    using assms unfolding outbox_good_def by blast
  with assms ENQUEUE show ?thesis
    by (auto simp: outbox_good_def enqueue_outbox_message_def row_defaults_def Let_def stream_inv_def
        lessThan_Suc)
qed

lemma outbox_good_run: "outbox_good w \<Longrightarrow> outbox_good (fold outbox_step es w)"
  by (induction es arbitrary: w) (simp_all add: outbox_good_step)

text \<open>
  C22: a message marked as published really is in the stream (at-least-once delivery), whatever
  polls ran, over which rows, with which failures of Redis and of the commit, and whatever was
  enqueued in between.
\<close>

theorem published_means_streamed:
  assumes "outbox_messages s = []" "inj (uuid_src s)"
    and "m \<in> set (outbox_messages (fst (fold outbox_step es (s, redis))))" "om_published_at m \<noteq> None"
  shows "entry_of m \<in> set (snd (fold outbox_step es (s, redis)))"
proof -
  have "outbox_good (s, redis)"
    using assms(1,2) by (simp add: outbox_good_def stream_inv_def)
  from outbox_good_run [OF this, of es] assms(3,4) show ?thesis
    by (simp add: outbox_good_def stream_inv_def)
qed

definition sample_outbox :: db where
  "sample_outbox = snd (enqueue_outbox_message 1 ''action'' 8 ''action.ready.v1'' [(''k'', JInt 1)]
     (snd (enqueue_outbox_message 1 ''action'' 7 ''action.ready.v1'' [] empty_db)))"

theorem published_means_streamed_witness:
  "\<exists>m \<in> set (outbox_messages (fst (fold outbox_step
       [ENQUEUE 1 ''action'' 7 ''action.ready.v1'' [], POLL (\<lambda>_. False) (\<lambda>_. False) True 50] (empty_db, [])))).
     om_published_at m \<noteq> None \<and> entry_of m \<in> set (snd (fold outbox_step
       [ENQUEUE 1 ''action'' 7 ''action.ready.v1'' [], POLL (\<lambda>_. False) (\<lambda>_. False) True 50] (empty_db, [])))"
proof -
  let ?w = "fold outbox_step
       [ENQUEUE 1 ''action'' 7 ''action.ready.v1'' [], POLL (\<lambda>_. False) (\<lambda>_. False) True 50] (empty_db, [])"
  have *: "\<exists>m \<in> set (outbox_messages (fst ?w)). om_published_at m \<noteq> None"
    by (simp add: relay_once_def enqueue_outbox_message_def row_defaults_def pending_def mark_published_def
        Let_def utcnow_def uuid4_def ok_def tupd_def empty_db_def)
  have "outbox_messages empty_db = []" "inj (uuid_src empty_db)"
    by (simp_all add: empty_db_def inj_def)
  with * show ?thesis using published_means_streamed [of empty_db] by blast
qed

section \<open>Draining\<close>

definition poll :: "nat \<Rightarrow> db \<times> stream_entry list \<Rightarrow> db \<times> stream_entry list" where
  "poll n w = snd (relay_once (\<lambda>_. False) (\<lambda>_. False) True n w)"

lemma poll_spec:
  assumes "distinct (map om_id (outbox_messages s))"
  obtains t sel where "poll n (s, redis) = (t, redis @ map entry_of sel)"
    "mset (pending s) = mset sel + mset (pending t)" "length sel = min n (length (pending s))"
    "map om_id (outbox_messages t) = map om_id (outbox_messages s)"
proof -
  let ?all = "sort_key om_created_at (pending s)"
  let ?sel = "take n ?all" and ?rest = "drop n ?all"
  obtain t where t: "publish_all (\<lambda>_. False) ?sel 0 s redis = (ok (0 + length ?sel) t, redis @ map entry_of ?sel)"
      "pending t = filter (\<lambda>m. om_id m \<notin> om_id ` set ?sel) (pending s)"
      "map om_id (outbox_messages t) = map om_id (outbox_messages s)"
    using publish_all_clean by blast
  have split: "mset (pending s) = mset ?sel + mset ?rest"
    by (metis append_take_drop_id mset_append mset_sort)
  have "distinct (map om_id (pending s))"
    using assms by (simp add: pending_def distinct_map_filter)
  then have "distinct (map om_id ?all)"
    by (simp add: distinct_map)
  then have apart: "om_id ` set ?sel \<inter> om_id ` set ?rest = {}"
    by (metis append_take_drop_id distinct_append list.set_map map_append)
  have "mset (pending t) = filter_mset (\<lambda>m. om_id m \<notin> om_id ` set ?sel) (mset ?sel + mset ?rest)"
    by (simp only: t(2) mset_filter split)
  also have "\<dots> = mset (filter (\<lambda>m. om_id m \<notin> om_id ` set ?sel) ?sel) + mset (filter (\<lambda>m. om_id m \<notin> om_id ` set ?sel) ?rest)"
    by simp
  also have "filter (\<lambda>m. om_id m \<notin> om_id ` set ?sel) ?sel = []"
    by (simp add: filter_empty_conv)
  also have "filter (\<lambda>m. om_id m \<notin> om_id ` set ?sel) ?rest = ?rest"
    using apart by (intro filter_True) blast
  finally have "mset (pending s) = mset ?sel + mset (pending t)" by (simp add: split)
  moreover have "poll n (s, redis) = (t, redis @ map entry_of ?sel)"
    using t(1) by (simp add: poll_def relay_once_def Let_def)
  ultimately show thesis using that [of t ?sel] t(3) by simp
qed

text \<open>
  Once Redis is up and no other worker interferes, k polls of n messages publish everything
  that was pending, up to k * n messages, each of them once.
\<close>

theorem outbox_is_drained:
  assumes "distinct (map om_id (outbox_messages s))" "length (pending s) \<le> k * n"
  shows "pending (fst ((poll n ^^ k) (s, redis))) = []
    \<and> mset (snd ((poll n ^^ k) (s, redis))) = mset redis + mset (map entry_of (pending s))"
  using assms
proof (induction k arbitrary: s redis)
  case (Suc k)
  obtain t sel where t: "poll n (s, redis) = (t, redis @ map entry_of sel)"
    "mset (pending s) = mset sel + mset (pending t)" "length sel = min n (length (pending s))"
    "map om_id (outbox_messages t) = map om_id (outbox_messages s)"
    by (rule poll_spec [OF Suc.prems(1)])
  have "length (pending s) = length sel + length (pending t)"
    using arg_cong [OF t(2), of size] by simp
  with t(3) Suc.prems(2) have "length (pending t) \<le> k * n" by auto
  with Suc.IH [of t "redis @ map entry_of sel"] Suc.prems(1) t(4)
  have "pending (fst ((poll n ^^ k) (poll n (s, redis)))) = []"
    "mset (snd ((poll n ^^ k) (poll n (s, redis)))) = mset (redis @ map entry_of sel) + mset (map entry_of (pending t))"
    by (simp_all add: t(1))
  then show ?case
    by (simp add: funpow_swap1 t(2))
qed simp

theorem outbox_is_drained_witness:
  "length (pending sample_outbox) = 2
   \<and> pending (fst ((poll 1 ^^ 2) (sample_outbox, []))) = []
   \<and> mset (snd ((poll 1 ^^ 2) (sample_outbox, []))) = mset (map entry_of (pending sample_outbox))"
proof -
  have "distinct (map om_id (outbox_messages sample_outbox))" "length (pending sample_outbox) = 2"
    by (simp_all add: sample_outbox_def enqueue_outbox_message_def row_defaults_def pending_def
        Let_def utcnow_def uuid4_def empty_db_def)
  then show ?thesis using outbox_is_drained [of sample_outbox 2 1 "[]"] by simp
qed

end
