(* ===== verification/Telegram.thy ===== *)
theory Telegram
  imports Action_System
begin

text \<open>
  The Telegram connector: \<open>doda/infrastructure/telegram_client.py\<close> and \<open>telegram_relay.py\<close>, which
  carries out the ready actions.  The HTTP client and Redis are not under src/: what each
  request gave, which entries are delivered (and how often) and where the process crashes are
  parameters, arbitrary in the properties.
\<close>

section \<open>Telegram client (telegram_client.py)\<close>

datatype http_outcome =
    Connect_Failure
  | Http_Error
  | Response (http_status: int) (http_body: "json option")

datatype send_result = Sent json | Transient_Error | Send_Error | Send_Crash

definition truthy :: "json option \<Rightarrow> bool" where
  "truthy v = (case v of
     None \<Rightarrow> False | Some JNull \<Rightarrow> False | Some (JBool b) \<Rightarrow> b | Some (JInt i) \<Rightarrow> i \<noteq> 0
   | Some (JStr t) \<Rightarrow> t \<noteq> [] | Some (JArr xs) \<Rightarrow> xs \<noteq> [] | Some (JObj kvs) \<Rightarrow> kvs \<noteq> [])"

text \<open>
  \<open>httpx\<close>'s \<open>is_success\<close> is a status of the 2xx range.  A body that is not a dict, or a result
  without a message id, raises something the callers do not catch (\<open>Send_Crash\<close>).
\<close>

definition send_message :: "http_outcome \<Rightarrow> send_result" where
  "send_message outcome =
     (case outcome of
        Connect_Failure \<Rightarrow> Transient_Error
      | Http_Error \<Rightarrow> Send_Error
      | Response status body \<Rightarrow>
          if status = 429 then Transient_Error
          else (case body of
                  None \<Rightarrow> Send_Error
                | Some b \<Rightarrow>
                    if \<not> (200 \<le> status \<and> status \<le> 299) then
                      (case b of JObj _ \<Rightarrow> Send_Error | _ \<Rightarrow> Send_Crash)
                    else (case b of
                            JObj _ \<Rightarrow>
                              if \<not> truthy (dict_get b ''ok'') then Send_Error
                              else (case dict_get b ''result'' of
                                      Some r \<Rightarrow> (case dict_get r ''message_id'' of
                                                   Some i \<Rightarrow> Sent i | None \<Rightarrow> Send_Crash)
                                    | None \<Rightarrow> Send_Crash)
                          | _ \<Rightarrow> Send_Crash)))"

section \<open>Telegram relay\<close>

definition connector_actor :: string where
  "connector_actor = ''system:telegram_connector''"

definition telegram_send_attempts :: nat where
  "telegram_send_attempts = 3"

text \<open>
  The world of the connector: the database, and the log of the requests made to Telegram,
  each with the action it is for and what came of it.
\<close>

type_synonym send_log = "(uuid \<times> send_result) list"

text \<open>
  \<open>_after\<close>: what the first \<open>session.get\<close> found is an argument, since another session may commit
  before this one's transition takes its lock.
\<close>

definition drive_to_running_after :: "action_row option \<Rightarrow> db \<Rightarrow> (app_error + action_row option) \<times> db" where
  "drive_to_running_after seen s =
     (case seen of
        None \<Rightarrow> ok None s
      | Some action \<Rightarrow>
          if act_tool_name action \<noteq> telegram_tool then ok None s
          else if act_status action \<noteq> READY then ok None s
          else bind_err (apply_transition action RUNNING connector_actor None s) (\<lambda>action s. ok (Some action) s))"

definition drive_to_running :: "uuid \<Rightarrow> db \<Rightarrow> (app_error + action_row option) \<times> db" where
  "drive_to_running action_id s = drive_to_running_after (tget act_id action_id (action_actions s)) s"

definition resolve_action_after ::
  "action_row option \<Rightarrow> action_status \<Rightarrow> jdict option \<Rightarrow> db \<Rightarrow> (app_error + unit) \<times> db" where
  "resolve_action_after seen target receipt s =
     (case seen of
        None \<Rightarrow> raise (Unhandled ''AssertionError'') s
      | Some action \<Rightarrow>
          bind_err (apply_transition action target connector_actor receipt s) (\<lambda>_ s. ok () s))"

definition resolve_action ::
  "uuid \<Rightarrow> action_status \<Rightarrow> jdict option \<Rightarrow> db \<Rightarrow> (app_error + unit) \<times> db" where
  "resolve_action action_id target receipt s =
     resolve_action_after (tget act_id action_id (action_actions s)) target receipt s"

text \<open>At most \<open>n\<close> attempts, each answered by the next outcome; a transient error is retried.\<close>

fun send_attempts :: "nat \<Rightarrow> uuid \<Rightarrow> http_outcome list \<Rightarrow> send_log \<Rightarrow> send_result \<times> send_log" where
  "send_attempts 0 action_id outcomes sends = (Transient_Error, sends)"
| "send_attempts (Suc n) action_id [] sends = (Send_Crash, sends)"
| "send_attempts (Suc n) action_id (outcome # outcomes) sends =
     (let r = send_message outcome; sends = sends @ [(action_id, r)] in
      if r = Transient_Error then send_attempts n action_id outcomes sends else (r, sends))"

definition send_with_retries :: "uuid \<Rightarrow> http_outcome list \<Rightarrow> send_log \<Rightarrow> send_result \<times> send_log" where
  "send_with_retries action_id outcomes sends = send_attempts telegram_send_attempts action_id outcomes sends"

text \<open>
  Where the process stops: nowhere, after the commit of RUNNING, or after the send and before
  its resolution is committed.
\<close>

datatype crash = No_Crash | After_Running | After_Send

definition finish ::
  "uuid \<Rightarrow> action_status \<Rightarrow> jdict option \<Rightarrow> db \<times> send_log \<Rightarrow> (app_error + unit) \<times> db \<times> send_log" where
  "finish action_id target receipt w =
     (let r = run_tx (resolve_action action_id target receipt) (fst w) in (fst r, snd r, snd w))"

definition well_formed_payload :: "action_row \<Rightarrow> bool" where
  "well_formed_payload action \<longleftrightarrow>
     (case (dict_get (act_payload action) ''chat_id'', dict_get (act_payload action) ''text'') of
        (Some (JStr chat_id), Some (JStr txt)) \<Rightarrow> True | _ \<Rightarrow> False)"

definition process_entry ::
  "bool \<Rightarrow> uuid \<Rightarrow> http_outcome list \<Rightarrow> crash \<Rightarrow> db \<times> send_log \<Rightarrow> (app_error + unit) \<times> db \<times> send_log" where
  "process_entry bot_token_set action_id outcomes crash w =
     (let r = run_tx (drive_to_running action_id) (fst w); w1 = (snd r, snd w) in
      case fst r of
        Inl e \<Rightarrow> (Inl e, w1)
      | Inr None \<Rightarrow> (Inr (), w1)
      | Inr (Some action) \<Rightarrow>
          if crash = After_Running then (Inl (Unhandled ''crash''), w1)
          else if \<not> bot_token_set then finish action_id FAILED None w1
          else if \<not> well_formed_payload action then finish action_id FAILED None w1
          else (let (result, sends) = send_with_retries action_id outcomes (snd w1);
                    w2 = (fst w1, sends)
                in if crash = After_Send then (Inl (Unhandled ''crash''), w2)
                   else (case result of
                           Sent i \<Rightarrow> finish action_id SUCCEEDED (Some [(''message_id'', i)]) w2
                         | Send_Crash \<Rightarrow> (Inl (Unhandled ''exception''), w2)
                         | _ \<Rightarrow> finish action_id FAILED None w2)))"

section \<open>Interleaved workers\<close>

text \<open>
  The same phases, one at a time, by any number of workers and for entries delivered any number
  of times: a job is an action some worker has driven to RUNNING, or the answer to its request.
  A worker that stops loses its job.
\<close>

datatype job = Claimed action_row | Answered action_row send_result

record connector_world =
  cw_db :: db
  cw_jobs :: "job list"
  cw_sends :: send_log

inductive connector_step :: "connector_world \<Rightarrow> connector_world \<Rightarrow> bool" where
  others: "action_step (cw_db w) t \<Longrightarrow> connector_step w (w\<lparr>cw_db := t\<rparr>)"
| claim: "seen = None \<or> loaded (the seen) (cw_db w)
     \<Longrightarrow> run_tx (drive_to_running_after seen) (cw_db w) = (r, t)
     \<Longrightarrow> connector_step w (w\<lparr>cw_db := t,
           cw_jobs := (case r of Inr (Some action) \<Rightarrow> [Claimed action] | _ \<Rightarrow> []) @ cw_jobs w\<rparr>)"
| send: "cw_jobs w = xs @ Claimed action # ys
     \<Longrightarrow> send_with_retries (act_id action) outcomes (cw_sends w) = (result, sends)
     \<Longrightarrow> connector_step w (w\<lparr>cw_jobs := xs @ Answered action result # ys, cw_sends := sends\<rparr>)"
| give_up: "cw_jobs w = xs @ Claimed action # ys \<Longrightarrow> loaded seen (cw_db w)
     \<Longrightarrow> connector_step w (w\<lparr>cw_db := snd (run_tx (resolve_action_after (Some seen) FAILED None) (cw_db w)),
           cw_jobs := xs @ ys\<rparr>)"
| resolve: "cw_jobs w = xs @ Answered action result # ys \<Longrightarrow> loaded seen (cw_db w)
     \<Longrightarrow> (target, receipt) = (case result of Sent i \<Rightarrow> (SUCCEEDED, Some [(''message_id'', i)]) | _ \<Rightarrow> (FAILED, None))
     \<Longrightarrow> connector_step w (w\<lparr>cw_db := snd (run_tx (resolve_action_after (Some seen) target receipt) (cw_db w)),
           cw_jobs := xs @ ys\<rparr>)"
| stop: "cw_jobs w = xs @ j # ys \<Longrightarrow> connector_step w (w\<lparr>cw_jobs := xs @ ys\<rparr>)"

text \<open>The sequential \<open>process_entry\<close> is such a run.\<close>

lemma tget_loaded: "tget act_id i (action_actions s) = Some a \<Longrightarrow> loaded a s"
  unfolding loaded_def by (rule bexI [of _ a], rule exI [of _ "act_status a"]) (auto dest: tget_SomeD)

lemma current_action_id: "act_id (current_action a s) = act_id a"
  by (auto simp: current_action_def dest: tget_SomeD split: option.splits)

lemma drive_to_running_Some:
  assumes "drive_to_running_after seen s = (Inr (Some b), t)"
  obtains a where "seen = Some a" "act_tool_name a = telegram_tool" "act_status a = READY"
    "apply_transition a RUNNING connector_actor None s = (Inr b, t)"
  using assms by (auto simp: drive_to_running_after_def bind_err_ok_iff ok_def split: option.splits if_splits)

lemma resolve_step:
  assumes "seen = Some a" "loaded a s" "target \<in> {SUCCEEDED, FAILED}"
  shows "action_step s (snd (run_tx (resolve_action_after seen target receipt) s))"
proof -
  have "snd (run_tx (resolve_action_after seen target receipt) s)
      = snd (run_tx (apply_transition a target connector_actor receipt) s)"
    using assms(1) by (simp add: run_tx_def resolve_action_after_def bind_err_def ok_def split: sum.split prod.split)
  then show ?thesis
    using assms by (intro action_step.connector [of a s target]) auto
qed

lemma finish_steps:
  assumes "cw_jobs w = xs @ j # ys" "w' = w\<lparr>cw_db := fst (snd (finish i target receipt (cw_db w, sends))), cw_jobs := xs @ ys\<rparr>"
    and "target = FAILED \<and> receipt = None \<and> (\<exists>a. j = Claimed a \<or> (\<exists>r. j = Answered a r \<and> (\<forall>x. r \<noteq> Sent x)))
      \<or> target = SUCCEEDED \<and> (\<exists>a x. j = Answered a (Sent x) \<and> receipt = Some [(''message_id'', x)])"
  shows "connector_step w w'"
proof (cases "tget act_id i (action_actions (cw_db w))")
  case None
  then have "w' = w\<lparr>cw_jobs := xs @ ys\<rparr>"
    by (simp add: assms(2) finish_def resolve_action_def resolve_action_after_def run_tx_raise)
  then show ?thesis using stop [OF assms(1)] by simp
next
  case (Some a)
  have w': "w' = w\<lparr>cw_db := snd (run_tx (resolve_action_after (Some a) target receipt) (cw_db w)), cw_jobs := xs @ ys\<rparr>"
    by (simp add: assms(2) finish_def Let_def resolve_action_def [abs_def] run_tx_def Some)
  from assms(3) show ?thesis
  proof (elim disjE conjE exE)
    fix b assume "target = FAILED" "receipt = None" "j = Claimed b"
    then show ?thesis
      unfolding w' using assms(1) give_up [OF _ tget_loaded [OF Some]] by simp
  next
    fix b r assume "target = FAILED" "receipt = None" "j = Answered b r" "\<forall>x. r \<noteq> Sent x"
    then show ?thesis
      unfolding w' using assms(1) by (intro resolve [OF _ tget_loaded [OF Some]]) (auto split: send_result.splits)
  next
    fix b x assume "target = SUCCEEDED" "j = Answered b (Sent x)" "receipt = Some [(''message_id'', x)]"
    then show ?thesis
      unfolding w' using assms(1) by (intro resolve [OF _ tget_loaded [OF Some]]) auto
  qed
qed


lemma process_entry_runs:
  assumes "process_entry token i outcomes crash (cw_db w, cw_sends w) = (r, t, sends)"
  shows "connector_step\<^sup>*\<^sup>* w (w\<lparr>cw_db := t, cw_sends := sends\<rparr>)"
proof -
  let ?seen = "tget act_id i (action_actions (cw_db w))"
  obtain x u where drive: "run_tx (drive_to_running i) (cw_db w) = (x, u)" by fastforce
  then have after: "run_tx (drive_to_running_after ?seen) (cw_db w) = (x, u)"
    by (simp add: run_tx_def drive_to_running_def)
  have seen: "?seen = None \<or> loaded (the ?seen) (cw_db w)"
    by (cases ?seen) (auto dest: tget_loaded)
  note claimed = claim [OF seen after]
  show ?thesis
  proof (cases "\<exists>a. x = Inr (Some a)")
    case False
    then have "(case x of Inr (Some action) \<Rightarrow> [Claimed action] | _ \<Rightarrow> []) = []"
      by (auto split: sum.splits option.splits)
    moreover have "t = u" "sends = cw_sends w"
      using assms drive False by (auto simp: process_entry_def Let_def split: sum.splits option.splits)
    ultimately show ?thesis using claimed by (auto intro: r_into_rtranclp [of connector_step])
  next
    case True
    then obtain a where a: "x = Inr (Some a)" by blast
    let ?w1 = "w\<lparr>cw_db := u, cw_jobs := Claimed a # cw_jobs w\<rparr>"
    have first: "connector_step w ?w1" using claimed a by simp
    have jobs: "cw_jobs ?w1 = [] @ Claimed a # cw_jobs w" by simp
    have via: "connector_step\<^sup>*\<^sup>* w v" if "connector_step\<^sup>*\<^sup>* ?w1 v" for v
      by (rule converse_rtranclp_into_rtranclp [of connector_step, OF first that])
    consider (stopped) "t = u" "sends = cw_sends w"
      | (failed) "(r, t, sends) = finish i FAILED None (u, cw_sends w)"
      | (sent) result where "send_with_retries i outcomes (cw_sends w) = (result, sends)"
          "t = u \<or> (\<exists>x. result = Sent x \<and> (r, t, sends) = finish i SUCCEEDED (Some [(''message_id'', x)]) (u, sends))
             \<or> ((\<forall>x. result \<noteq> Sent x) \<and> (r, t, sends) = finish i FAILED None (u, sends))"
      using assms drive a
      by (auto simp: process_entry_def Let_def finish_def split: prod.splits if_splits send_result.splits)
    then show ?thesis
    proof cases
      case stopped
      then show ?thesis
        using stop [OF jobs] by (intro via r_into_rtranclp [of connector_step]) simp
    next
      case failed
      then have "connector_step ?w1 (w\<lparr>cw_db := t, cw_sends := sends\<rparr>)"
        by (intro finish_steps [OF jobs, of _ i FAILED None "cw_sends w"]) (auto simp: finish_def Let_def)
      then show ?thesis by (intro via r_into_rtranclp [of connector_step])
    next
      case sent
      have ida: "act_id a = i"
      proof -
        obtain b where "?seen = Some b" "apply_transition b RUNNING connector_actor None (cw_db w) = (Inr a, u)"
          using after a by (auto elim!: drive_to_running_Some)
        then show ?thesis by (auto dest!: apply_transition_ok(1) tget_SomeD simp: current_action_id)
      qed
      let ?w2 = "w\<lparr>cw_db := u, cw_jobs := Answered a result # cw_jobs w, cw_sends := sends\<rparr>"
      have "connector_step ?w1 ?w2"
        using send [OF jobs, of outcomes result sends] sent(1) ida by simp
      moreover have "connector_step ?w2 (w\<lparr>cw_db := t, cw_sends := sends\<rparr>)"
      proof -
        have jobs2: "cw_jobs ?w2 = [] @ Answered a result # cw_jobs w" by simp
        from sent(2) show ?thesis
        proof (elim disjE exE conjE)
          assume "t = u"
          then show ?thesis using stop [OF jobs2] by simp
        next
          fix x assume "result = Sent x" "(r, t, sends) = finish i SUCCEEDED (Some [(''message_id'', x)]) (u, sends)"
          then show ?thesis
            by (intro finish_steps [OF jobs2, of _ i SUCCEEDED "Some [(''message_id'', x)]" sends])
              (auto simp: finish_def Let_def)
        next
          assume "\<forall>x. result \<noteq> Sent x" "(r, t, sends) = finish i FAILED None (u, sends)"
          then show ?thesis
            by (intro finish_steps [OF jobs2, of _ i FAILED None sends]) (auto simp: finish_def Let_def)
        qed
      qed
      ultimately show ?thesis by (intro via) (meson converse_rtranclp_into_rtranclp rtranclp.rtrancl_refl)
    qed
  qed
qed


section \<open>The invariant of the connector\<close>

definition started_statuses :: "action_status list" where
  "started_statuses = [RUNNING, SUCCEEDED, FAILED, COMPENSATING, COMPENSATED]"

definition started :: "db \<Rightarrow> uuid \<Rightarrow> bool" where
  "started s i \<longleftrightarrow> (\<exists>a \<in> set (action_actions s). act_id a = i \<and> act_tool_name a = telegram_tool
     \<and> act_status a \<in> set started_statuses)"

primrec claimed_id :: "job \<Rightarrow> uuid list" where
  "claimed_id (Claimed a) = [act_id a]"
| "claimed_id (Answered a r) = []"

definition claimed_ids :: "job list \<Rightarrow> uuid list" where
  "claimed_ids js = concat (map claimed_id js)"

definition sends_of :: "uuid \<Rightarrow> send_log \<Rightarrow> send_result list" where
  "sends_of i sends = map snd (filter (\<lambda>e. fst e = i) sends)"

definition orderly :: "send_result list \<Rightarrow> bool" where
  "orderly rs \<longleftrightarrow> length rs \<le> telegram_send_attempts \<and> (\<forall>r \<in> set (butlast rs). r = Transient_Error)"

definition all_gated :: "db \<Rightarrow> bool" where
  "all_gated s \<longleftrightarrow> (\<forall>a \<in> set (action_actions s). tool_gated a)"

definition connector_inv :: "connector_world \<Rightarrow> bool" where
  "connector_inv w \<longleftrightarrow> action_inv (cw_db w) \<and> all_gated (cw_db w)
   \<and> distinct (claimed_ids (cw_jobs w))
   \<and> (\<forall>i \<in> set (claimed_ids (cw_jobs w)). started (cw_db w) i \<and> sends_of i (cw_sends w) = [])
   \<and> (\<forall>i. sends_of i (cw_sends w) \<noteq> [] \<longrightarrow> started (cw_db w) i)
   \<and> (\<forall>i. orderly (sends_of i (cw_sends w)))"

lemma claimed_ids_simps [simp]:
  "claimed_ids [] = []" "claimed_ids (j # js) = claimed_id j @ claimed_ids js"
  "claimed_ids (xs @ ys) = claimed_ids xs @ claimed_ids ys"
  by (simp_all add: claimed_ids_def)

lemma sends_of_append [simp]: "sends_of i (xs @ ys) = sends_of i xs @ sends_of i ys"
  by (simp add: sends_of_def)

lemma started_evolves:
  assumes "evolves s t" "action_inv t" "started s i"
  shows "started t i"
proof -
  obtain f new where f: "action_actions t = map f (action_actions s) @ new"
      "\<forall>y \<in> set (action_actions s). f y = y \<or> (\<exists>st. f y = y\<lparr>act_status := st\<rparr> \<and> allowed_edge (act_status y) st)"
    using assms(1) unfolding evolves_def by blast
  obtain y where y: "y \<in> set (action_actions s)" "act_id y = i" "act_tool_name y = telegram_tool"
      "act_status y \<in> set started_statuses"
    using assms(3) by (auto simp: started_def)
  have in_t: "f y \<in> set (action_actions t)" using y(1) f(1) by simp
  then have "act_status (f y) \<noteq> RETRYING"
    using assms(2) by (auto simp: action_inv_def action_ok_def settled_def)
  moreover have "f y = y \<or> (\<exists>st. f y = y\<lparr>act_status := st\<rparr> \<and> allowed_edge (act_status y) st)"
    using f(2) y(1) by blast
  ultimately have "act_id (f y) = i \<and> act_tool_name (f y) = telegram_tool \<and> act_status (f y) \<in> set started_statuses"
    using y(2-4) by (auto simp: started_statuses_def)
  with in_t show ?thesis by (auto simp: started_def)
qed

lemma all_gated_evolves:
  assumes "evolves s t" "all_gated s"
  shows "all_gated t"
  using assms by (fastforce simp: evolves_def all_gated_def tool_gated_def)

text \<open>Any step of the database leaves the connector's part of the invariant alone.\<close>

lemma connector_inv_db:
  assumes "connector_inv w" "evolves (cw_db w) t" "action_inv t"
  shows "connector_inv (w\<lparr>cw_db := t\<rparr>)"
  using assms started_evolves [OF assms(2,3)] all_gated_evolves [OF assms(2)]
  by (auto simp: connector_inv_def)

lemma connector_inv_action_step:
  assumes "connector_inv w" "action_step (cw_db w) t"
  shows "connector_inv (w\<lparr>cw_db := t\<rparr>)"
proof -
  have "action_inv (cw_db w)" using assms(1) by (simp add: connector_inv_def)
  then show ?thesis
    using connector_inv_db [OF assms(1)] action_step_evolves [OF assms(2)] action_step_inv [OF assms(2)] by blast
qed

lemma connector_inv_drop:
  assumes "connector_inv w" "cw_jobs w = xs @ j # ys"
  shows "connector_inv (w\<lparr>cw_jobs := xs @ ys\<rparr>)"
  using assms by (auto simp: connector_inv_def)

lemma orderly_attempts:
  "send_attempts n i outcomes sends = (r, sends') \<Longrightarrow>
     \<exists>new. sends' = sends @ map (Pair i) new \<and> length new \<le> n \<and> (\<forall>x \<in> set (butlast new). x = Transient_Error)"
proof (induction n i outcomes sends rule: send_attempts.induct)
  case (3 n i outcome outcomes sends)
  show ?case
  proof (cases "send_message outcome = Transient_Error")
    case True
    with 3 obtain new where "sends' = (sends @ [(i, send_message outcome)]) @ map (Pair i) new" "length new \<le> n"
        "\<forall>x \<in> set (butlast new). x = Transient_Error"
      by (auto simp: Let_def)
    with True show ?thesis by (intro exI [of _ "Transient_Error # new"]) auto
  next
    case False
    with 3 show ?thesis by (intro exI [of _ "[send_message outcome]"]) (auto simp: Let_def)
  qed
qed (auto intro: exI [of _ "[]"])


lemma connector_inv_send:
  assumes inv: "connector_inv w" and jobs: "cw_jobs w = xs @ Claimed a # ys"
    and send: "send_with_retries (act_id a) outcomes (cw_sends w) = (result, sends)"
  shows "connector_inv (w\<lparr>cw_jobs := xs @ Answered a result # ys, cw_sends := sends\<rparr>)"
proof -
  obtain new where new: "sends = cw_sends w @ map (Pair (act_id a)) new" "length new \<le> telegram_send_attempts"
      "\<forall>x \<in> set (butlast new). x = Transient_Error"
    using orderly_attempts send [unfolded send_with_retries_def] by blast
  have none: "sends_of (act_id a) (cw_sends w) = []" and run: "started (cw_db w) (act_id a)"
    and fresh: "act_id a \<notin> set (claimed_ids (xs @ ys))"
    using inv by (auto simp: connector_inv_def jobs)
  have sends: "sends_of i sends = (if i = act_id a then new else sends_of i (cw_sends w))" for i
    using none by (auto simp: new(1)) (auto simp: sends_of_def filter_map comp_def)
  show ?thesis
    using inv new(2,3) run fresh by (auto simp: connector_inv_def jobs sends orderly_def)
qed

lemma connector_inv_claim:
  assumes inv: "connector_inv w" and seen: "seen = None \<or> loaded (the seen) (cw_db w)"
    and run: "run_tx (drive_to_running_after seen) (cw_db w) = (r, t)"
  shows "connector_inv (w\<lparr>cw_db := t,
           cw_jobs := (case r of Inr (Some action) \<Rightarrow> [Claimed action] | _ \<Rightarrow> []) @ cw_jobs w\<rparr>)"
proof -
  let ?s = "cw_db w"
  from inv have ai: "action_inv ?s" by (simp add: connector_inv_def)
  then have dist: "distinct (map act_id (action_actions ?s))" by (simp add: action_inv_def)
  have step: "action_step ?s t"
  proof (cases "\<exists>a. seen = Some a \<and> act_tool_name a = telegram_tool \<and> act_status a = READY")
    case True
    then obtain a where a: "seen = Some a" "act_tool_name a = telegram_tool" "act_status a = READY" by blast
    then have "snd (run_tx (apply_transition a RUNNING connector_actor None) ?s) = t"
      using run by (auto simp: run_tx_def drive_to_running_after_def bind_err_def ok_def split: sum.splits prod.splits)
    then show ?thesis
      using seen a(1) by (intro action_step.connector [of a ?s RUNNING t connector_actor None]) auto
  next
    case False
    then have "t = ?s"
      using run by (auto simp: run_tx_def drive_to_running_after_def ok_def split: option.splits if_splits)
    then show ?thesis by (intro action_step.elsewhere) simp_all
  qed
  have db: "connector_inv (w\<lparr>cw_db := t\<rparr>)" by (rule connector_inv_action_step [OF inv step])
  show ?thesis
  proof (cases "\<exists>b. r = Inr (Some b)")
    case False
    then have "(case r of Inr (Some action) \<Rightarrow> [Claimed action] | _ \<Rightarrow> []) = []"
      by (auto split: sum.splits option.splits)
    with db show ?thesis by simp
  next
    case True
    then obtain b where b: "r = Inr (Some b)" by blast
    obtain a where a: "seen = Some a" "act_tool_name a = telegram_tool"
        "apply_transition a RUNNING connector_actor None ?s = (Inr b, t)"
      using run b by (auto elim!: drive_to_running_Some)
    obtain q st where q: "q \<in> set (action_actions ?s)" "a = q\<lparr>act_status := st\<rparr>" "current_action a ?s = q"
      using current_action_loaded [OF _ dist, of a] seen a(1) by auto
    note T = apply_transition_ok [OF a(3), unfolded q(3)]
    have ready: "act_status q = READY" using T(2) by (cases "act_status q") simp_all
    have "\<not> started ?s (act_id q)"
    proof
      assume "started ?s (act_id q)"
      then obtain y where y: "y \<in> set (action_actions ?s)" "act_id y = act_id q" "act_status y \<in> set started_statuses"
        by (auto simp: started_def)
      have "y = q" by (rule unique_by_key [OF dist y(1) q(1) y(2)])
      with y(3) ready show False by (simp add: started_statuses_def)
    qed
    then have new: "sends_of (act_id q) (cw_sends w) = []" "act_id q \<notin> set (claimed_ids (cw_jobs w))"
      using inv by (auto simp: connector_inv_def)
    have "started t (act_id q)"
      unfolding started_def T(3) using q(1) a(2) q(2) T(1)
      by (intro bexI [of _ "q\<lparr>act_status := RUNNING\<rparr>"]) (auto simp: in_set_tupd started_statuses_def)
    with db new T(1) show ?thesis by (auto simp: connector_inv_def b)
  qed
qed

lemma connector_step_inv:
  assumes "connector_step w v" "connector_inv w"
  shows "connector_inv v"
  using assms
proof (induction rule: connector_step.induct)
  case (others w t)
  then show ?case by (rule connector_inv_action_step [rotated])
next
  case (claim seen w r t)
  then show ?case by (intro connector_inv_claim)
next
  case (send w xs action ys outcomes result sends)
  then show ?case by (intro connector_inv_send)
next
  case (give_up w xs action ys seen)
  from resolve_step [OF refl give_up.hyps(2), of FAILED None]
  have "connector_inv (w\<lparr>cw_db := snd (run_tx (resolve_action_after (Some seen) FAILED None) (cw_db w))\<rparr>)"
    by (intro connector_inv_action_step [OF give_up.prems]) simp
  from connector_inv_drop [OF this, of xs "Claimed action" ys] give_up.hyps(1) show ?case by simp
next
  case (resolve w xs action result ys seen target receipt)
  have "target \<in> {SUCCEEDED, FAILED}" using resolve.hyps(3) by (auto split: send_result.splits)
  from resolve_step [OF refl resolve.hyps(2) this, of receipt]
  have "connector_inv (w\<lparr>cw_db := snd (run_tx (resolve_action_after (Some seen) target receipt) (cw_db w))\<rparr>)"
    by (intro connector_inv_action_step [OF resolve.prems])
  from connector_inv_drop [OF this, of xs "Answered action result" ys] resolve.hyps(1) show ?case by simp
next
  case (stop w xs j ys)
  then show ?case by (intro connector_inv_drop)
qed

definition idle_connector :: "db \<Rightarrow> connector_world" where
  "idle_connector s = \<lparr>cw_db = s, cw_jobs = [], cw_sends = []\<rparr>"

lemma connector_inv_initial: "no_actions s \<Longrightarrow> connector_inv (idle_connector s)"
  using action_inv_initial [of s]
  by (simp add: connector_inv_def idle_connector_def all_gated_def no_actions_def sends_of_def orderly_def)

interpretation connector_run: invariant_system connector_step "\<lambda>w. \<exists>s. no_actions s \<and> w = idle_connector s" connector_inv
  by unfold_locales (auto intro: connector_inv_initial connector_step_inv)

lemma connector_reachable:
  "no_actions s \<Longrightarrow> connector_step\<^sup>*\<^sup>* (idle_connector s) w \<Longrightarrow> connector_inv w"
  by (rule connector_run.reachable) blast


section \<open>Properties\<close>

definition sample_answer :: http_outcome where
  "sample_answer = Response 200 (Some (JObj [(''ok'', JBool True), (''result'', JObj [(''message_id'', JInt 5)])]))"

definition sample_sent :: connector_world where
  "sample_sent = (let r = snd (process_entry True 0 [Connect_Failure, sample_answer] No_Crash (sample_approved, []))
     in \<lparr>cw_db = fst r, cw_jobs = [], cw_sends = snd r\<rparr>)"

lemma connector_others: "action_step\<^sup>*\<^sup>* s t \<Longrightarrow> connector_step\<^sup>*\<^sup>* (idle_connector s) (idle_connector t)"
proof (induction rule: rtranclp_induct)
  case (step t u)
  have "connector_step (idle_connector t) (idle_connector u)"
    using others [of "idle_connector t" u] step.hyps(2) by (simp add: idle_connector_def)
  with step.IH show ?case by (rule rtranclp.rtrancl_into_rtrancl)
qed simp

lemma sample_sent_is:
  obtains r t sends where
    "process_entry True 0 [Connect_Failure, sample_answer] No_Crash
       (cw_db (idle_connector sample_approved), cw_sends (idle_connector sample_approved)) = (r, t, sends)"
    "sample_sent = (idle_connector sample_approved)\<lparr>cw_db := t, cw_sends := sends\<rparr>"
proof (cases "process_entry True 0 [Connect_Failure, sample_answer] No_Crash (sample_approved, [])")
  case (fields r t sends)
  with that show thesis by (simp add: idle_connector_def sample_sent_def Let_def)
qed

lemma sample_sent_reachable: "connector_step\<^sup>*\<^sup>* (idle_connector empty_db) sample_sent"
  using sample_sent_is process_entry_runs connector_others [OF sample_approved_steps]
  by (metis rtranclp_trans)

lemma sample_sent_log: "cw_sends sample_sent = [(0, Transient_Error), (0, Sent (JInt 5))]"
proof -
  obtain b u where ok: "apply_transition (sample_action READY) RUNNING connector_actor None sample_approved = (Inr b, u)"
    by (simp add: apply_transition_ok_iff current_action_def sample_approved_actions) (simp add: sample_action_def)
  have cur: "current_action (sample_action READY) sample_approved = sample_action READY"
    by (simp add: current_action_def sample_approved_actions)
  have b: "b = (sample_action READY)\<lparr>act_status := RUNNING\<rparr>"
    using apply_transition_ok(1) [OF ok] by (simp add: cur)
  have drive: "run_tx (drive_to_running 0) sample_approved = (Inr (Some b), u)"
  proof -
    have "act_id (sample_action READY) = 0" "act_tool_name (sample_action READY) = telegram_tool"
      "act_status (sample_action READY) = READY" by (simp_all add: sample_action_def)
    then show ?thesis
      using ok by (simp add: run_tx_def drive_to_running_def drive_to_running_after_def sample_approved_actions ok_def)
  qed
  have "well_formed_payload b" by (simp add: b well_formed_payload_def sample_action_def dict_get_def)
  moreover have "send_with_retries 0 [Connect_Failure, sample_answer] [] = (Sent (JInt 5), [(0, Transient_Error), (0, Sent (JInt 5))])"
    by (simp add: send_with_retries_def telegram_send_attempts_def numeral_3_eq_3 send_message_def sample_answer_def
        dict_get_def truthy_def Let_def)
  ultimately show ?thesis
    by (simp add: sample_sent_def process_entry_def drive Let_def finish_def)
qed

text \<open>
  Handling a delivered entry in one go, with whatever crash, is a run of the interleaved
  system that starts and ends with the worker holding nothing.
\<close>

theorem process_entry_refines:
  assumes "process_entry token i outcomes crash (cw_db w, cw_sends w) = (r, t, sends)"
  shows "connector_step\<^sup>*\<^sup>* w (w\<lparr>cw_db := t, cw_sends := sends\<rparr>)"
  by (rule process_entry_runs [OF assms])

theorem process_entry_refines_witness:
  "connector_step\<^sup>*\<^sup>* (idle_connector sample_approved) sample_sent"
  using sample_sent_is process_entry_refines by metis

text \<open>
  C19: whatever is redelivered, however the workers interleave and wherever they crash, one action
  makes at most three requests to Telegram, and only the last can be anything but a transient
  failure: no message is sent twice.
\<close>

theorem no_message_is_sent_twice:
  assumes "no_actions s" "connector_step\<^sup>*\<^sup>* (idle_connector s) w"
  shows "length (filter (\<lambda>e. fst e = i) (cw_sends w)) \<le> 3
    \<and> length (filter (\<lambda>e. fst e = i \<and> snd e \<noteq> Transient_Error) (cw_sends w)) \<le> 1"
proof -
  let ?rs = "sends_of i (cw_sends w)"
  have ord: "orderly ?rs"
    using connector_reachable [OF assms(1,2)] by (simp add: connector_inv_def)
  have "filter (\<lambda>r. r \<noteq> Transient_Error) (butlast ?rs) = []"
    using ord by (simp add: orderly_def filter_empty_conv)
  then have "length (filter (\<lambda>r. r \<noteq> Transient_Error) ?rs) \<le> 1"
    by (cases ?rs rule: rev_cases) auto
  moreover have "length (filter (\<lambda>r. r \<noteq> Transient_Error) ?rs)
      = length (filter (\<lambda>e. fst e = i \<and> snd e \<noteq> Transient_Error) (cw_sends w))"
    by (simp add: sends_of_def filter_map comp_def conj_commute)
  ultimately show ?thesis
    using ord by (simp add: orderly_def sends_of_def telegram_send_attempts_def)
qed

theorem no_message_is_sent_twice_witness:
  "cw_sends sample_sent = [(0, Transient_Error), (0, Sent (JInt 5))]
   \<and> length (filter (\<lambda>e. fst e = 0 \<and> snd e \<noteq> Transient_Error) (cw_sends sample_sent)) \<le> 1"
  using no_message_is_sent_twice [OF no_actions_empty_db sample_sent_reachable] sample_sent_log by blast

text \<open>
  C20: no request is made to Telegram for an action a human has not approved: behind each there is
  a Telegram action that has started and an approved approval of its payload, with the approver.
\<close>

theorem nothing_is_sent_unapproved:
  assumes "no_actions s" "connector_step\<^sup>*\<^sup>* (idle_connector s) w" "(i, r) \<in> set (cw_sends w)"
  shows "\<exists>a \<in> set (action_actions (cw_db w)). act_id a = i \<and> act_tool_name a = telegram_tool
     \<and> act_status a \<in> {RUNNING, SUCCEEDED, FAILED, COMPENSATING, COMPENSATED}
     \<and> (\<exists>p \<in> set (action_approvals (cw_db w)). apv_action_id p = i \<and> apv_status p = A_APPROVED
          \<and> apv_payload_hash p = act_payload_hash a \<and> apv_approver_id p \<noteq> None)"
proof -
  have inv: "connector_inv w"
    by (rule connector_reachable [OF assms(1,2)])
  have "sends_of i (cw_sends w) \<noteq> []" using assms(3) by (force simp: sends_of_def filter_empty_conv)
  then obtain a where a: "a \<in> set (action_actions (cw_db w))" "act_id a = i" "act_tool_name a = telegram_tool"
      "act_status a \<in> set started_statuses"
    using inv by (auto simp: connector_inv_def started_def)
  have "tool_gated a" "action_ok (cw_db w) a"
    using inv a(1) by (auto simp: connector_inv_def all_gated_def action_inv_def)
  moreover have "needs_approval (act_risk_level a)" if "tool_gated a"
    using that a(3) unfolding tool_gated_def
    by (cases "act_risk_level a")
      (simp_all add: enforce_minimum_risk_level_def tool_minimum_risk_level_def risk_order_def
        needs_approval_def auto_approved_risk_levels_def)
  ultimately have "approved (cw_db w) a"
    using a(4) by (auto simp: action_ok_def started_statuses_def)
  with a show ?thesis by (auto simp: approved_def started_statuses_def)
qed

theorem nothing_is_sent_unapproved_witness:
  "\<exists>p \<in> set (action_approvals (cw_db sample_sent)). apv_action_id p = 0 \<and> apv_status p = A_APPROVED"
proof -
  have "(0, Sent (JInt 5)) \<in> set (cw_sends sample_sent)" by (simp add: sample_sent_log)
  from nothing_is_sent_unapproved [OF no_actions_empty_db sample_sent_reachable this] show ?thesis by blast
qed

end
