(* ===== verification/Customers.thy ===== *)
theory Customers
  imports Audit_Log Access Notifications
begin

text \<open>
  \<open>doda/application/customer_service.py\<close>: customers, their members, and the index from users to
  customers that is read before a tenant is known.  A membership a request loaded is passed
  as a value: \<open>with_for_update\<close> locks the rows it counts but does not refresh the objects
  the session holds, so the value's role may be older than the row's.
\<close>

section \<open>Operations\<close>

definition create_customer_with_owner ::
  "uuid \<Rightarrow> string \<Rightarrow> uuid \<Rightarrow> string \<Rightarrow> db \<Rightarrow> (app_error + customer_row \<times> customer_membership_row) \<times> db" where
  "create_customer_with_owner customer_id name owner_user_id actor_id s =
     (if tget cus_id customer_id (customer_customers s) \<noteq> None
      then raise (IntegrityError ''customer_customers_pkey'') s
      else
        let (created, s1) = utcnow s;
            customer = \<lparr>cus_id = customer_id, cus_created_at = created, cus_name = name\<rparr>;
            s2 = s1\<lparr>customer_customers := customer_customers s1 @ [customer]\<rparr>;
            (new_id, joined, s3) = row_defaults s2;
            membership = \<lparr>cm_id = new_id, cm_created_at = joined, cm_customer_id = customer_id,
                          cm_user_id = owner_user_id, cm_role = customer_role_value CR_OWNER\<rparr>;
            s4 = s3\<lparr>customer_memberships := customer_memberships s3 @ [membership],
                    user_customer_index := user_customer_index s3 @ [(owner_user_id, customer_id)]\<rparr>;
            (trace_id, s5) = uuid4 s4
        in ok (customer, membership)
             (log_event customer_id trace_id actor_id ''customer.created.v1'' None
               [(''customer_id'', JStr (uuid_str customer_id)), (''name'', JStr name)] s5))"

definition member_key :: "customer_membership_row \<Rightarrow> uuid \<times> uuid" where
  "member_key m = (cm_customer_id m, cm_user_id m)"

definition customer_owners :: "uuid \<Rightarrow> db \<Rightarrow> customer_membership_row list" where
  "customer_owners customer_id s =
     filter (\<lambda>m. cm_customer_id m = customer_id \<and> cm_role m = customer_role_value CR_OWNER)
       (customer_memberships s)"

definition count_customer_owners :: "uuid \<Rightarrow> db \<Rightarrow> nat" where
  "count_customer_owners customer_id s = length (customer_owners customer_id s)"

definition invite_customer_member ::
  "uuid \<Rightarrow> uuid \<Rightarrow> customer_role \<Rightarrow> string \<Rightarrow> db \<Rightarrow> (app_error + customer_membership_row) \<times> db" where
  "invite_customer_member customer_id user_id role actor_id s =
     (let (new_id, created, s1) = row_defaults s;
          membership = \<lparr>cm_id = new_id, cm_created_at = created, cm_customer_id = customer_id,
                        cm_user_id = user_id, cm_role = customer_role_value role\<rparr>
      in if tget member_key (customer_id, user_id) (customer_memberships s1) \<noteq> None
         then raise DuplicateMembershipError s1
         else
           let s2 = s1\<lparr>customer_memberships := customer_memberships s1 @ [membership]\<rparr>;
               s3 = (if (user_id, customer_id) \<in> set (user_customer_index s2) then s2
                     else s2\<lparr>user_customer_index := user_customer_index s2 @ [(user_id, customer_id)]\<rparr>);
               (trace_id, s4) = uuid4 s3
           in ok membership
                (log_event customer_id trace_id actor_id ''customer.member_invited.v1'' None
                  [(''customer_membership_id'', JStr (uuid_str new_id)),
                   (''role'', JStr (customer_role_value role))] s4))"

text \<open>
  The flush of a changed role: nothing is written when the value loaded is already the new
  one, and an UPDATE that finds no row raises.
\<close>

definition change_customer_member_role ::
  "customer_membership_row \<Rightarrow> customer_role \<Rightarrow> string \<Rightarrow> db \<Rightarrow> (app_error + customer_membership_row) \<times> db" where
  "change_customer_member_role membership new_role actor_id s =
     (if cm_role membership = customer_role_value CR_OWNER \<and> new_role \<noteq> CR_OWNER
         \<and> count_customer_owners (cm_customer_id membership) s \<le> 1
      then raise (CustomerMembershipError ''cannot demote the last customer_owner'') s
      else if cm_role membership \<noteq> customer_role_value new_role
         \<and> tget cm_id (cm_id membership) (customer_memberships s) = None
      then raise (Unhandled ''StaleDataError'') s
      else
        let previous_role = cm_role membership;
            s1 = (if cm_role membership = customer_role_value new_role then s
                  else s\<lparr>customer_memberships := tupd cm_id (cm_id membership)
                         (\<lambda>m. m\<lparr>cm_role := customer_role_value new_role\<rparr>) (customer_memberships s)\<rparr>);
            (trace_id, s2) = uuid4 s1
        in ok (membership\<lparr>cm_role := customer_role_value new_role\<rparr>)
             (log_event (cm_customer_id membership) trace_id actor_id ''customer.member_role_changed.v1'' None
               [(''customer_membership_id'', JStr (uuid_str (cm_id membership))),
                (''from_role'', JStr previous_role),
                (''to_role'', JStr (customer_role_value new_role))] s2))"

definition remove_customer_member ::
  "customer_membership_row \<Rightarrow> string \<Rightarrow> db \<Rightarrow> (app_error + unit) \<times> db" where
  "remove_customer_member membership actor_id s =
     (if cm_role membership = customer_role_value CR_OWNER
         \<and> count_customer_owners (cm_customer_id membership) s \<le> 1
      then raise (CustomerMembershipError ''cannot remove the last customer_owner'') s
      else
        let s1 = s\<lparr>workspace_memberships :=
                     filter (\<lambda>m. wm_customer_membership_id m \<noteq> cm_id membership) (workspace_memberships s)\<rparr>;
            (trace_id, s2) = uuid4 s1;
            s3 = log_event (cm_customer_id membership) trace_id actor_id ''customer.member_removed.v1'' None
                   [(''customer_membership_id'', JStr (uuid_str (cm_id membership))),
                    (''role'', JStr (cm_role membership))] s2;
            s4 = s3\<lparr>customer_memberships := tdel cm_id (cm_id membership) (customer_memberships s3)\<rparr>
        in ok ()
             (if \<exists>m \<in> set (customer_memberships s4). member_key m = member_key membership then s4
              else s4\<lparr>user_customer_index :=
                     filter (\<lambda>r. r \<noteq> (cm_user_id membership, cm_customer_id membership))
                       (user_customer_index s4)\<rparr>))"

record customer_member_entry =
  cme_membership_id :: uuid
  cme_user_id :: uuid
  cme_display_name :: string
  cme_role :: string

definition list_customer_members :: "uuid \<Rightarrow> db \<Rightarrow> customer_member_entry list" where
  "list_customer_members customer_id s =
     [\<lparr>cme_membership_id = cm_id m, cme_user_id = cm_user_id m, cme_display_name = usr_display_name u,
       cme_role = cm_role m\<rparr>.
        m \<leftarrow> customer_memberships s, u \<leftarrow> identity_users s,
        usr_id u = cm_user_id m \<and> cm_customer_id m = customer_id]"

definition list_all_customer_ids :: "db \<Rightarrow> uuid list" where
  "list_all_customer_ids s = remdups (map snd (user_customer_index s))"

record my_customer_entry =
  mce_customer_id :: uuid
  mce_customer_name :: string
  mce_role :: string

text \<open>The first row of the join, for each customer of the index.\<close>

definition my_customer_rows :: "uuid \<Rightarrow> uuid \<Rightarrow> db \<Rightarrow> my_customer_entry list" where
  "my_customer_rows user_id customer_id s =
     [\<lparr>mce_customer_id = customer_id, mce_customer_name = cus_name c, mce_role = cm_role m\<rparr>.
        c \<leftarrow> customer_customers s, m \<leftarrow> customer_memberships s,
        cm_customer_id m = cus_id c \<and> cus_id c = customer_id \<and> cm_customer_id m = customer_id
        \<and> cm_user_id m = user_id]"

definition list_my_customers :: "uuid \<Rightarrow> db \<Rightarrow> my_customer_entry list" where
  "list_my_customers user_id s =
     concat (map (\<lambda>customer_id. take 1 (my_customer_rows user_id customer_id s))
       (customer_ids_for_user user_id s))"

section \<open>The last owner\<close>

lemma member_key_update [simp]: "member_key (m\<lparr>cm_role := r\<rparr>) = member_key m"
  by (simp add: member_key_def)

lemma customer_owners_log [simp]:
  "customer_owners c (log_event c' t a ty w m s) = customer_owners c s"
  by (simp add: customer_owners_def)

text \<open>What a request may do to members, its membership object loaded as the row is now.\<close>

datatype member_request =
    CREATE uuid string uuid string
  | INVITE uuid uuid customer_role string
  | CHANGE uuid customer_role string
  | REMOVE uuid string

definition member_run :: "member_request \<Rightarrow> db \<Rightarrow> db" where
  "member_run r s =
     (case r of
        CREATE c name owner who \<Rightarrow> snd (run_tx (create_customer_with_owner c name owner who) s)
      | INVITE c u role who \<Rightarrow> snd (run_tx (invite_customer_member c u role who) s)
      | CHANGE i role who \<Rightarrow>
          (case tget cm_id i (customer_memberships s) of None \<Rightarrow> s
           | Some m \<Rightarrow> snd (run_tx (change_customer_member_role m role who) s))
      | REMOVE i who \<Rightarrow>
          (case tget cm_id i (customer_memberships s) of None \<Rightarrow> s
           | Some m \<Rightarrow> snd (run_tx (remove_customer_member m who) s)))"

definition has_owner :: "uuid \<Rightarrow> db \<Rightarrow> bool" where
  "has_owner c s \<longleftrightarrow> (\<exists>m \<in> set (customer_memberships s).
     cm_customer_id m = c \<and> cm_role m = customer_role_value CR_OWNER)"

definition owners_inv :: "db \<Rightarrow> bool" where
  "owners_inv s \<longleftrightarrow> inj (uuid_src s) \<and> distinct (map cm_id (customer_memberships s))
   \<and> cm_id ` set (customer_memberships s) \<subseteq> issued s
   \<and> (\<forall>c \<in> set (customer_customers s). has_owner (cus_id c) s)"

lemma another_owner:
  assumes "distinct (map key xs)" "\<not> length (filter P xs) \<le> 1"
  shows "\<exists>x \<in> set xs. P x \<and> key x \<noteq> k"
proof (rule ccontr)
  assume "\<not> ?thesis"
  then have "set (map key (filter P xs)) \<subseteq> {k}" by auto
  then have "card (set (map key (filter P xs))) \<le> 1" by (metis card_mono finite.simps is_singletonI is_singleton_altdef)
  moreover have "distinct (map key (filter P xs))" using assms(1) by (simp add: distinct_map_filter)
  ultimately show False using assms(2) by (metis distinct_card length_map)
qed

lemma another_owner_row:
  assumes "distinct (map cm_id (customer_memberships s))" "\<not> count_customer_owners c s \<le> 1"
  obtains m where "m \<in> set (customer_memberships s)" "cm_customer_id m = c"
    "cm_role m = customer_role_value CR_OWNER" "cm_id m \<noteq> i"
  using another_owner [OF assms(1) assms(2) [unfolded count_customer_owners_def customer_owners_def], of i] by blast

lemma owners_inv_CREATE:
  assumes "owners_inv s"
  shows "owners_inv (member_run (CREATE c name owner who) s)"
proof (cases "tget cus_id c (customer_customers s)")
  case None
  with assms show ?thesis
    using next_not_issued [of s]
    by (auto simp: member_run_def run_tx_def create_customer_with_owner_def row_defaults_def utcnow_def uuid4_def
        Let_def owners_inv_def has_owner_def issued_def effect lessThan_Suc ok_def)
next
  case (Some x)
  with assms show ?thesis
    by (simp add: member_run_def run_tx_def create_customer_with_owner_def raise_def rollback_def)
qed

lemma owners_inv_rollback: "owners_inv s \<Longrightarrow> drawn s \<le> drawn t \<Longrightarrow> owners_inv (rollback s t)"
  using issued_mono [of "rollback s t" s]
  by (auto simp: owners_inv_def has_owner_def rollback_def)

lemma owners_inv_INVITE:
  assumes "owners_inv s"
  shows "owners_inv (member_run (INVITE c u role who) s)"
proof (cases "tget member_key (c, u) (customer_memberships s)")
  case None
  have fresh: "uuid_src s (drawn s) \<notin> cm_id ` set (customer_memberships s)"
    using assms next_not_issued [of s] by (auto simp: owners_inv_def)
  with None assms show ?thesis
    by (auto simp: member_run_def run_tx_def invite_customer_member_def row_defaults_def uuid4_def
        Let_def owners_inv_def has_owner_def issued_def effect lessThan_Suc ok_def)
next
  case (Some m)
  with assms show ?thesis
    by (simp add: member_run_def run_tx_def invite_customer_member_def row_defaults_def raise_def Let_def
        owners_inv_rollback)
qed

text \<open>The one thing the guards are for: what is changed or removed is not the last owner.\<close>

lemma change_keeps_owner:
  assumes dist: "distinct (map cm_id (customer_memberships s))" and owner: "has_owner c s"
    and m: "tget cm_id (cm_id m) (customer_memberships s) = Some m"
    and ok: "change_customer_member_role m role who s = (Inr x, t)"
  shows "has_owner c t"
proof -
  have rows: "customer_memberships t = (if cm_role m = customer_role_value role then customer_memberships s
      else tupd cm_id (cm_id m) (\<lambda>y. y\<lparr>cm_role := customer_role_value role\<rparr>) (customer_memberships s))"
    and guard: "cm_role m = customer_role_value CR_OWNER \<and> role \<noteq> CR_OWNER \<longrightarrow> \<not> count_customer_owners (cm_customer_id m) s \<le> 1"
    using ok by (auto simp: change_customer_member_role_def uuid4_def Let_def ok_def raise_def split: if_splits)
  obtain o1 where o1: "o1 \<in> set (customer_memberships s)" "cm_customer_id o1 = c"
      "cm_role o1 = customer_role_value CR_OWNER" "cm_id o1 \<noteq> cm_id m \<or> role = CR_OWNER \<or> cm_role m \<noteq> cm_role o1"
  proof (cases "cm_role m = customer_role_value CR_OWNER \<and> role \<noteq> CR_OWNER \<and> cm_customer_id m = c")
    case True
    with guard obtain q where "q \<in> set (customer_memberships s)" "cm_customer_id q = c"
        "cm_role q = customer_role_value CR_OWNER" "cm_id q \<noteq> cm_id m"
      using another_owner_row [OF dist] by blast
    then show thesis using that by blast
  next
    case False
    from owner obtain q where q: "q \<in> set (customer_memberships s)" "cm_customer_id q = c"
        "cm_role q = customer_role_value CR_OWNER" by (auto simp: has_owner_def)
    from m have "m \<in> set (customer_memberships s)" by (auto dest: tget_SomeD)
    then have "q = m" if "cm_id q = cm_id m" using unique_by_key [OF dist q(1) _ that] by blast
    with False q show thesis using that by metis
  qed
  have same: "o1 = m" if "cm_id o1 = cm_id m"
    using unique_by_key [OF dist o1(1) _ that] m by (auto dest: tget_SomeD)
  show ?thesis
  proof (cases "cm_role m = customer_role_value role \<or> cm_id o1 \<noteq> cm_id m")
    case True
    with o1 show ?thesis
      unfolding has_owner_def rows by (intro bexI [of _ o1]) (auto simp: in_set_tupd)
  next
    case False
    with same o1 have "role = CR_OWNER" by auto
    with o1 False show ?thesis
      unfolding has_owner_def rows
      by (intro bexI [of _ "o1\<lparr>cm_role := customer_role_value CR_OWNER\<rparr>"]) (auto simp: in_set_tupd)
  qed
qed

lemma remove_keeps_owner:
  assumes dist: "distinct (map cm_id (customer_memberships s))" and owner: "has_owner c s"
    and m: "tget cm_id (cm_id m) (customer_memberships s) = Some m"
    and ok: "remove_customer_member m who s = (Inr x, t)"
  shows "has_owner c t"
proof -
  have rows: "customer_memberships t = tdel cm_id (cm_id m) (customer_memberships s)"
    and guard: "cm_role m = customer_role_value CR_OWNER \<longrightarrow> \<not> count_customer_owners (cm_customer_id m) s \<le> 1"
    using ok by (auto simp: remove_customer_member_def uuid4_def Let_def ok_def raise_def split: if_splits)
  from owner obtain q where q: "q \<in> set (customer_memberships s)" "cm_customer_id q = c"
      "cm_role q = customer_role_value CR_OWNER" by (auto simp: has_owner_def)
  show ?thesis
  proof (cases "cm_id q = cm_id m")
    case False
    with q show ?thesis by (auto simp: has_owner_def rows)
  next
    case True
    then have "q = m" using unique_by_key [OF dist q(1) _ True] m by (auto dest: tget_SomeD)
    with guard q obtain o1 where "o1 \<in> set (customer_memberships s)" "cm_customer_id o1 = c"
        "cm_role o1 = customer_role_value CR_OWNER" "cm_id o1 \<noteq> cm_id m"
      using another_owner_row [OF dist] by metis
    then show ?thesis by (auto simp: has_owner_def rows)
  qed
qed

lemma change_frame:
  assumes "change_customer_member_role m role who s = (r, t)"
  shows "customer_customers t = customer_customers s" "uuid_src t = uuid_src s" "drawn s \<le> drawn t"
    "map cm_id (customer_memberships t) = map cm_id (customer_memberships s)"
  using assms
  by (auto simp: change_customer_member_role_def uuid4_def Let_def ok_def raise_def effect split: if_splits)

lemma remove_frame:
  assumes "remove_customer_member m who s = (r, t)"
  shows "customer_customers t = customer_customers s" "uuid_src t = uuid_src s" "drawn s \<le> drawn t"
    "customer_memberships t = customer_memberships s \<or> customer_memberships t = tdel cm_id (cm_id m) (customer_memberships s)"
  using assms
  by (auto simp: remove_customer_member_def uuid4_def Let_def ok_def raise_def effect split: if_splits)

lemma owners_inv_fewer:
  assumes "owners_inv s" "customer_customers t = customer_customers s" "uuid_src t = uuid_src s" "drawn s \<le> drawn t"
    and "distinct (map cm_id (customer_memberships t))"
    and "cm_id ` set (customer_memberships t) \<subseteq> cm_id ` set (customer_memberships s)"
    and "\<And>c. has_owner c s \<Longrightarrow> has_owner c t"
  shows "owners_inv t"
proof -
  have "cm_id ` set (customer_memberships t) \<subseteq> issued t"
    using assms(1,6) issued_mono [OF assms(3,4)] by (meson owners_inv_def order_trans)
  with assms show ?thesis by (simp add: owners_inv_def)
qed

lemma owners_inv_CHANGE:
  assumes inv: "owners_inv s"
  shows "owners_inv (member_run (CHANGE i role who) s)"
proof (cases "tget cm_id i (customer_memberships s)")
  case None
  with inv show ?thesis by (simp add: member_run_def)
next
  case (Some m)
  obtain r t where op: "change_customer_member_role m role who s = (r, t)" by fastforce
  have dist: "distinct (map cm_id (customer_memberships s))" using inv by (simp add: owners_inv_def)
  have m: "tget cm_id (cm_id m) (customer_memberships s) = Some m" using Some by (auto dest: tget_SomeD)
  note F = change_frame [OF op]
  show ?thesis
  proof (cases r)
    case (Inl e)
    with Some op F(3) inv show ?thesis by (simp add: member_run_def run_tx_def owners_inv_rollback)
  next
    case (Inr x)
    have "cm_id ` set (customer_memberships t) = cm_id ` set (customer_memberships s)"
      using F(4) by (metis list.set_map)
    then have "owners_inv t"
      by (intro owners_inv_fewer [OF inv F(1-3)] change_keeps_owner [OF dist _ m op [unfolded Inr]])
        (simp_all only: F(4) dist order_refl)
    with Some op Inr show ?thesis by (simp add: member_run_def run_tx_def)
  qed
qed

lemma owners_inv_REMOVE:
  assumes inv: "owners_inv s"
  shows "owners_inv (member_run (REMOVE i who) s)"
proof (cases "tget cm_id i (customer_memberships s)")
  case None
  with inv show ?thesis by (simp add: member_run_def)
next
  case (Some m)
  obtain r t where op: "remove_customer_member m who s = (r, t)" by fastforce
  have dist: "distinct (map cm_id (customer_memberships s))" using inv by (simp add: owners_inv_def)
  have m: "tget cm_id (cm_id m) (customer_memberships s) = Some m" using Some by (auto dest: tget_SomeD)
  note F = remove_frame [OF op]
  show ?thesis
  proof (cases r)
    case (Inl e)
    with Some op F(3) inv show ?thesis by (simp add: member_run_def run_tx_def owners_inv_rollback)
  next
    case (Inr x)
    have "owners_inv t"
      by (rule owners_inv_fewer [OF inv F(1-3)])
        (use F(4) dist remove_keeps_owner [OF dist _ m op [unfolded Inr]] in \<open>auto simp: tdel_def distinct_map_filter\<close>)
    with Some op Inr show ?thesis by (simp add: member_run_def run_tx_def)
  qed
qed

lemma owners_inv_run: "owners_inv s \<Longrightarrow> owners_inv (fold member_run rs s)"
proof (induction rs arbitrary: s)
  case (Cons r rs)
  have "owners_inv (member_run r s)"
    using Cons.prems by (cases r) (simp_all add: owners_inv_CREATE owners_inv_INVITE owners_inv_CHANGE owners_inv_REMOVE)
  with Cons.IH show ?case by simp
qed simp

section \<open>Properties\<close>

text \<open>
  C24: as long as the membership a request works on is the row as it is, every customer always
  has an owner, whatever invitations, role changes and removals are requested: the ones that
  would take the last owner are refused.
\<close>

theorem last_owner_is_kept:
  assumes "customer_customers s = []" "customer_memberships s = []" "inj (uuid_src s)"
    and "c \<in> set (customer_customers (fold member_run rs s))"
  shows "\<exists>m \<in> set (customer_memberships (fold member_run rs s)).
     cm_customer_id m = cus_id c \<and> cm_role m = customer_role_value CR_OWNER"
proof -
  have "owners_inv s" using assms(1-3) by (simp add: owners_inv_def)
  from owners_inv_run [OF this, of rs] assms(4) show ?thesis
    by (simp add: owners_inv_def has_owner_def)
qed

definition sample_members :: db where
  "sample_members = fold member_run [CREATE 7 ''acme'' 3 ''op'', INVITE 7 4 CR_MEMBER ''user:3''] empty_db"

lemma sample_members_rows:
  "customer_customers sample_members = [\<lparr>cus_id = 7, cus_created_at = 0, cus_name = ''acme''\<rparr>]"
  "customer_memberships sample_members =
     [\<lparr>cm_id = 0, cm_created_at = 1, cm_customer_id = 7, cm_user_id = 3, cm_role = ''customer_owner''\<rparr>,
      \<lparr>cm_id = 3, cm_created_at = 4, cm_customer_id = 7, cm_user_id = 4, cm_role = ''member''\<rparr>]"
  "user_customer_index sample_members = [(3, 7), (4, 7)]"
  by (simp_all add: sample_members_def member_run_def run_tx_def create_customer_with_owner_def
      invite_customer_member_def row_defaults_def utcnow_def uuid4_def Let_def ok_def effect member_key_def
      recorded_def empty_db_def)

theorem last_owner_is_kept_witness:
  "\<exists>m \<in> set (customer_memberships (fold member_run [CREATE 7 ''acme'' 3 ''op'', INVITE 7 4 CR_MEMBER ''user:3''] empty_db)).
     cm_customer_id m = 7 \<and> cm_role m = customer_role_value CR_OWNER"
proof -
  have "\<lparr>cus_id = 7, cus_created_at = 0, cus_name = ''acme''\<rparr> \<in> set (customer_customers
      (fold member_run [CREATE 7 ''acme'' 3 ''op'', INVITE 7 4 CR_MEMBER ''user:3''] empty_db))"
    using sample_members_rows(1) by (simp add: sample_members_def)
  from last_owner_is_kept [OF _ _ _ this] show ?thesis by (simp add: inj_def empty_db_def)
qed

text \<open>
  With a membership object loaded earlier the guard fails.  In a customer with one owner and
  one member, a request loads the member to remove it; before it goes on, others promote the
  member and demote the first owner, both allowed; the removal then still sees a member, does
  not count the owners, and leaves the customer without one.
\<close>

theorem stale_role_loses_last_owner:
  assumes "customer_memberships s = [a, b]" "cm_customer_id a = c" "cm_customer_id b = c" "cm_id a \<noteq> cm_id b"
    and "cm_role a = customer_role_value CR_OWNER" "cm_role b = customer_role_value CR_MEMBER"
  shows "\<exists>x y s1 s2 t.
     change_customer_member_role b CR_OWNER who s = ok x s1
   \<and> change_customer_member_role a CR_MEMBER who s1 = ok y s2
   \<and> remove_customer_member b who s2 = ok () t
   \<and> customer_memberships t \<noteq> [] \<and> count_customer_owners c t = 0"
proof -
  let ?b = "b\<lparr>cm_role := customer_role_value CR_OWNER\<rparr>" and ?a = "a\<lparr>cm_role := customer_role_value CR_MEMBER\<rparr>"
  obtain x s1 where s1: "change_customer_member_role b CR_OWNER who s = ok x s1" "customer_memberships s1 = [a, ?b]"
    using assms by (simp add: change_customer_member_role_def uuid4_def Let_def ok_def tupd_def)
  obtain y s2 where s2: "change_customer_member_role a CR_MEMBER who s1 = ok y s2" "customer_memberships s2 = [?a, ?b]"
    using assms s1(2)
    by (simp add: change_customer_member_role_def uuid4_def Let_def ok_def tupd_def count_customer_owners_def
        customer_owners_def)
  have "fst (remove_customer_member b who s2) = Inr ()"
    "customer_memberships (snd (remove_customer_member b who s2)) = [?a]"
    using assms s2(2) by (simp_all add: remove_customer_member_def uuid4_def Let_def ok_def tdel_def)
  then obtain t where "remove_customer_member b who s2 = ok () t" "customer_memberships t = [?a]"
    by (metis ok_def prod.collapse)
  with s1(1) s2(1) show ?thesis
    by (intro exI [of _ x] exI [of _ y] exI [of _ s1] exI [of _ s2] exI [of _ t])
      (simp add: count_customer_owners_def customer_owners_def)
qed

theorem stale_role_loses_last_owner_witness:
  "\<exists>t. count_customer_owners 7 t = 0 \<and> customer_memberships t \<noteq> []
     \<and> (\<exists>s. remove_customer_member (customer_memberships sample_members ! 1) ''user:3'' s = ok () t)"
  using stale_role_loses_last_owner [OF sample_members_rows(2), of 7 "''user:3''"] by (auto simp: sample_members_rows(2))

end
