(* ===== verification/Workspaces.thy ===== *)
theory Workspaces
  imports Customers
begin

text \<open>
  \<open>doda/application/workspace_service.py\<close>: workspaces, their members and language setting, the
  index from workspaces to customers, and what a user is shown of them; and the invariant
  that ties the two indexes, the memberships and the authorization together.
\<close>

section \<open>Operations\<close>

definition create_workspace :: "uuid \<Rightarrow> string \<Rightarrow> string \<Rightarrow> db \<Rightarrow> workspace_row \<times> db" where
  "create_workspace customer_id name actor_id s =
     (let (new_id, created, s1) = row_defaults s;
          workspace = \<lparr>ws_id = new_id, ws_created_at = created, ws_customer_id = customer_id, ws_name = name,
                       ws_archived_at = None\<rparr>;
          s2 = s1\<lparr>workspace_workspaces := workspace_workspaces s1 @ [workspace],
                  workspace_tenant_index := (workspace_tenant_index s1)(new_id \<mapsto> customer_id)\<rparr>;
          (trace_id, s3) = uuid4 s2
      in (workspace,
          log_event customer_id trace_id actor_id ''workspace.created.v1'' (Some new_id)
            [(''workspace_id'', JStr (uuid_str new_id)), (''name'', JStr name)] s3))"

definition workspace_member_key :: "workspace_membership_row \<Rightarrow> uuid \<times> uuid" where
  "workspace_member_key m = (wm_customer_membership_id m, wm_workspace_id m)"

definition add_workspace_member ::
  "workspace_row \<Rightarrow> customer_membership_row \<Rightarrow> string \<Rightarrow> string \<Rightarrow> db
     \<Rightarrow> (app_error + workspace_membership_row) \<times> db" where
  "add_workspace_member workspace customer_membership role actor_id s =
     (if cm_customer_id customer_membership \<noteq> ws_customer_id workspace
      then raise (WorkspaceMembershipError
             ''customer_membership belongs to a different customer than this workspace'') s
      else if cm_role customer_membership = customer_role_value CR_AUDITOR
      then raise (WorkspaceMembershipError ''an auditor cannot hold a workspace role'') s
      else
        let (new_id, created, s1) = row_defaults s;
            membership = \<lparr>wm_id = new_id, wm_created_at = created, wm_customer_id = ws_customer_id workspace,
              wm_customer_membership_id = cm_id customer_membership, wm_workspace_id = ws_id workspace,
              wm_role = role\<rparr>
        in if tget workspace_member_key (workspace_member_key membership) (workspace_memberships s1) \<noteq> None
           then raise DuplicateWorkspaceMembershipError s1
           else
             let s2 = s1\<lparr>workspace_memberships := workspace_memberships s1 @ [membership]\<rparr>;
                 (trace_id, s3) = uuid4 s2
             in ok membership
                  (log_event (ws_customer_id workspace) trace_id actor_id ''workspace.member_added.v1''
                    (Some (ws_id workspace))
                    [(''workspace_id'', JStr (uuid_str (ws_id workspace))),
                     (''workspace_membership_id'', JStr (uuid_str new_id)), (''role'', JStr role)] s3))"

definition change_workspace_member_role ::
  "workspace_membership_row \<Rightarrow> string \<Rightarrow> string \<Rightarrow> db \<Rightarrow> (app_error + workspace_membership_row) \<times> db" where
  "change_workspace_member_role membership new_role actor_id s =
     (if wm_role membership \<noteq> new_role \<and> tget wm_id (wm_id membership) (workspace_memberships s) = None
      then raise (Unhandled ''StaleDataError'') s
      else
        let s1 = (if wm_role membership = new_role then s
                  else s\<lparr>workspace_memberships := tupd wm_id (wm_id membership) (\<lambda>m. m\<lparr>wm_role := new_role\<rparr>)
                         (workspace_memberships s)\<rparr>);
            (trace_id, s2) = uuid4 s1
        in ok (membership\<lparr>wm_role := new_role\<rparr>)
             (log_event (wm_customer_id membership) trace_id actor_id ''workspace.member_role_changed.v1''
               (Some (wm_workspace_id membership))
               [(''workspace_membership_id'', JStr (uuid_str (wm_id membership))),
                (''from_role'', JStr (wm_role membership)), (''to_role'', JStr new_role)] s2))"

definition remove_workspace_member :: "workspace_membership_row \<Rightarrow> string \<Rightarrow> db \<Rightarrow> db" where
  "remove_workspace_member membership actor_id s =
     (let (trace_id, s1) = uuid4 s;
          s2 = log_event (wm_customer_id membership) trace_id actor_id ''workspace.member_removed.v1''
                 (Some (wm_workspace_id membership))
                 [(''workspace_membership_id'', JStr (uuid_str (wm_id membership))),
                  (''role'', JStr (wm_role membership))] s1
      in s2\<lparr>workspace_memberships := tdel wm_id (wm_id membership) (workspace_memberships s2)\<rparr>)"

text \<open>
  The column an archive or restore writes; \<open>restore\<close> of an object that is not archived writes
  nothing.
\<close>

definition archive_workspace :: "workspace_row \<Rightarrow> string \<Rightarrow> db \<Rightarrow> workspace_row \<times> db" where
  "archive_workspace workspace actor_id s =
     (let (now, s1) = utcnow s;
          s2 = s1\<lparr>workspace_workspaces :=
                 tupd ws_id (ws_id workspace) (\<lambda>w. w\<lparr>ws_archived_at := Some now\<rparr>) (workspace_workspaces s1)\<rparr>;
          (trace_id, s3) = uuid4 s2
      in (workspace\<lparr>ws_archived_at := Some now\<rparr>,
          log_event (ws_customer_id workspace) trace_id actor_id ''workspace.archived.v1'' (Some (ws_id workspace))
            [(''workspace_id'', JStr (uuid_str (ws_id workspace)))] s3))"

definition restore_workspace :: "workspace_row \<Rightarrow> string \<Rightarrow> db \<Rightarrow> workspace_row \<times> db" where
  "restore_workspace workspace actor_id s =
     (let s1 = (if ws_archived_at workspace = None then s
                else s\<lparr>workspace_workspaces :=
                       tupd ws_id (ws_id workspace) (\<lambda>w. w\<lparr>ws_archived_at := None\<rparr>) (workspace_workspaces s)\<rparr>);
          (trace_id, s2) = uuid4 s1
      in (workspace\<lparr>ws_archived_at := None\<rparr>,
          log_event (ws_customer_id workspace) trace_id actor_id ''workspace.restored.v1'' (Some (ws_id workspace))
            [(''workspace_id'', JStr (uuid_str (ws_id workspace)))] s2))"

definition get_workspace_language :: "uuid \<Rightarrow> db \<Rightarrow> string option" where
  "get_workspace_language workspace_id s =
     (case rev (sort_key wl_created_at
             (filter (\<lambda>r. wl_workspace_id r = workspace_id) (workspace_language_settings s))) of
        [] \<Rightarrow> None | setting # _ \<Rightarrow> wl_language setting)"

definition set_workspace_language ::
  "uuid \<Rightarrow> uuid \<Rightarrow> string \<Rightarrow> string option \<Rightarrow> db \<Rightarrow> workspace_language_row \<times> db" where
  "set_workspace_language customer_id workspace_id actor_id language s =
     (let (new_id, created, s1) = row_defaults s;
          setting = \<lparr>wl_id = new_id, wl_created_at = created, wl_customer_id = customer_id,
                     wl_workspace_id = workspace_id, wl_actor_id = actor_id, wl_language = language\<rparr>;
          s2 = s1\<lparr>workspace_language_settings := workspace_language_settings s1 @ [setting]\<rparr>;
          (trace_id, s3) = uuid4 s2
      in (setting,
          log_event customer_id trace_id actor_id ''workspace.language_setting_changed.v1'' (Some workspace_id)
            [(''workspace_id'', JStr (uuid_str workspace_id)),
             (''language'', case language of None \<Rightarrow> JNull | Some l \<Rightarrow> JStr l)] s3))"

record my_workspace_entry =
  mwe_customer_id :: uuid
  mwe_customer_name :: string
  mwe_workspace_id :: uuid
  mwe_workspace_name :: string
  mwe_role :: string

definition my_workspaces_in :: "uuid \<Rightarrow> uuid \<Rightarrow> customer_row \<Rightarrow> db \<Rightarrow> my_workspace_entry list" where
  "my_workspaces_in user_id customer_id customer s =
     (let role = customer_role_string user_id customer_id s in
      if role = Some (customer_role_value CR_AUDITOR) then []
      else if role = Some (customer_role_value CR_OWNER)
      then [\<lparr>mwe_customer_id = customer_id, mwe_customer_name = cus_name customer, mwe_workspace_id = ws_id w,
             mwe_workspace_name = ws_name w, mwe_role = workspace_role_value WR_ADMIN\<rparr>.
              w \<leftarrow> workspace_workspaces s, ws_customer_id w = customer_id \<and> ws_archived_at w = None]
      else [\<lparr>mwe_customer_id = customer_id, mwe_customer_name = cus_name customer, mwe_workspace_id = ws_id w,
             mwe_workspace_name = ws_name w, mwe_role = wm_role m\<rparr>.
              w \<leftarrow> workspace_workspaces s, m \<leftarrow> workspace_memberships s, cm \<leftarrow> customer_memberships s,
              wm_workspace_id m = ws_id w \<and> cm_id cm = wm_customer_membership_id m
              \<and> cm_customer_id cm = customer_id \<and> cm_user_id cm = user_id \<and> ws_archived_at w = None])"

definition list_my_workspaces :: "uuid \<Rightarrow> db \<Rightarrow> app_error + my_workspace_entry list" where
  "list_my_workspaces user_id s =
     fold (\<lambda>customer_id r. case r of
             Inl e \<Rightarrow> Inl e
           | Inr entries \<Rightarrow>
               (case tget cus_id customer_id (customer_customers s) of
                  None \<Rightarrow> Inl (Unhandled ''AssertionError'')
                | Some customer \<Rightarrow> Inr (entries @ my_workspaces_in user_id customer_id customer s)))
       (customer_ids_for_user user_id s) (Inr [])"

definition list_archived_workspaces :: "uuid \<Rightarrow> db \<Rightarrow> workspace_row list" where
  "list_archived_workspaces customer_id s =
     rev (sort_key (\<lambda>w. the (ws_archived_at w))
       (filter (\<lambda>w. ws_customer_id w = customer_id \<and> ws_archived_at w \<noteq> None) (workspace_workspaces s)))"

record workspace_member_entry =
  wme_membership_id :: "uuid option"
  wme_user_id :: uuid
  wme_display_name :: string
  wme_role :: string

definition explicit_members :: "uuid \<Rightarrow> db \<Rightarrow> workspace_member_entry list" where
  "explicit_members workspace_id s =
     [\<lparr>wme_membership_id = Some (wm_id m), wme_user_id = cm_user_id cm, wme_display_name = usr_display_name u,
       wme_role = wm_role m\<rparr>.
        m \<leftarrow> workspace_memberships s, cm \<leftarrow> customer_memberships s, u \<leftarrow> identity_users s,
        cm_id cm = wm_customer_membership_id m \<and> usr_id u = cm_user_id cm \<and> wm_workspace_id m = workspace_id]"

definition list_workspace_members :: "uuid \<Rightarrow> db \<Rightarrow> app_error + workspace_member_entry list" where
  "list_workspace_members workspace_id s =
     (let entries = explicit_members workspace_id s in
      case tget ws_id workspace_id (workspace_workspaces s) of
        None \<Rightarrow> Inl (Unhandled ''AssertionError'')
      | Some workspace \<Rightarrow>
          Inr (entries @
            [\<lparr>wme_membership_id = None, wme_user_id = cm_user_id cm, wme_display_name = usr_display_name u,
              wme_role = workspace_role_value WR_ADMIN\<rparr>.
               cm \<leftarrow> customer_memberships s, u \<leftarrow> identity_users s,
               usr_id u = cm_user_id cm \<and> cm_customer_id cm = ws_customer_id workspace
               \<and> cm_role cm = customer_role_value CR_OWNER
               \<and> cm_user_id cm \<notin> set (map wme_user_id entries)]))"

section \<open>Every request that touches memberships\<close>

text \<open>A membership loaded at some point: the row, if it is still there, but for its role.\<close>

definition loaded_member :: "customer_membership_row \<Rightarrow> db \<Rightarrow> bool" where
  "loaded_member m s \<longleftrightarrow> cm_id m \<in> issued s
     \<and> (\<forall>r \<in> set (customer_memberships s). cm_id r = cm_id m \<longrightarrow> (\<exists>x. m = r\<lparr>cm_role := x\<rparr>))"

definition loaded_workspace :: "workspace_row \<Rightarrow> db \<Rightarrow> bool" where
  "loaded_workspace w s \<longleftrightarrow> (\<exists>r \<in> set (workspace_workspaces s). \<exists>x. w = r\<lparr>ws_archived_at := x\<rparr>)"

definition in_customer :: "uuid \<Rightarrow> db \<Rightarrow> bool" where
  "in_customer c s \<longleftrightarrow> c \<in> cus_id ` set (customer_customers s)"

inductive membership_step :: "db \<Rightarrow> db \<Rightarrow> bool" where
  new_customer: "t = snd (run_tx (create_customer_with_owner c name owner who) s) \<Longrightarrow> membership_step s t"
| invite: "in_customer c s \<Longrightarrow> t = snd (run_tx (invite_customer_member c u role who) s) \<Longrightarrow> membership_step s t"
| change: "loaded_member m s \<Longrightarrow> t = snd (run_tx (change_customer_member_role m role who) s)
     \<Longrightarrow> membership_step s t"
| remove: "loaded_member m s \<Longrightarrow> t = snd (run_tx (remove_customer_member m who) s) \<Longrightarrow> membership_step s t"
| new_workspace: "in_customer c s \<Longrightarrow> t = snd (create_workspace c name who s) \<Longrightarrow> membership_step s t"
| add: "loaded_workspace w s \<Longrightarrow> loaded_member m s
     \<Longrightarrow> t = snd (run_tx (add_workspace_member w m (workspace_role_value r) who) s) \<Longrightarrow> membership_step s t"
| change_role: "t = snd (run_tx (change_workspace_member_role wm (workspace_role_value r) who) s)
     \<Longrightarrow> membership_step s t"
| drop: "t = remove_workspace_member wm who s \<Longrightarrow> membership_step s t"
| archive: "t = snd (archive_workspace w who s) \<Longrightarrow> membership_step s t"
| restore: "t = snd (restore_workspace w who s) \<Longrightarrow> membership_step s t"
| elsewhere: "customer_customers t = customer_customers s \<Longrightarrow> customer_memberships t = customer_memberships s
     \<Longrightarrow> user_customer_index t = user_customer_index s \<Longrightarrow> workspace_workspaces t = workspace_workspaces s
     \<Longrightarrow> workspace_memberships t = workspace_memberships s
     \<Longrightarrow> workspace_tenant_index t = workspace_tenant_index s
     \<Longrightarrow> uuid_src t = uuid_src s \<Longrightarrow> drawn s \<le> drawn t \<Longrightarrow> membership_step s t"

section \<open>The invariant\<close>

definition index_pair :: "customer_membership_row \<Rightarrow> uuid \<times> uuid" where
  "index_pair m = (cm_user_id m, cm_customer_id m)"

definition membership_inv :: "db \<Rightarrow> bool" where
  "membership_inv s \<longleftrightarrow> inj (uuid_src s)
   \<and> (memberships_unique s \<and> memberships_in_tenant s)
   \<and> (cm_id ` set (customer_memberships s) \<subseteq> issued s
      \<and> ws_id ` set (workspace_workspaces s) \<subseteq> issued s
      \<and> wm_customer_membership_id ` set (workspace_memberships s) \<subseteq> issued s)
   \<and> wm_workspace_id ` set (workspace_memberships s) \<subseteq> ws_id ` set (workspace_workspaces s)
   \<and> wm_role ` set (workspace_memberships s) \<subseteq> range workspace_role_value
   \<and> (distinct (user_customer_index s) \<and> set (user_customer_index s) = index_pair ` set (customer_memberships s))
   \<and> (distinct (map cus_id (customer_customers s)) \<and> (\<forall>m \<in> set (customer_memberships s). in_customer (cm_customer_id m) s))
   \<and> workspace_tenant_index s = (\<lambda>w. map_option ws_customer_id (tget ws_id w (workspace_workspaces s)))"

definition same_members :: "db \<Rightarrow> db \<Rightarrow> bool" where
  "same_members s t \<longleftrightarrow> customer_customers t = customer_customers s \<and> customer_memberships t = customer_memberships s
     \<and> user_customer_index t = user_customer_index s \<and> workspace_workspaces t = workspace_workspaces s
     \<and> workspace_memberships t = workspace_memberships s
     \<and> workspace_tenant_index t = workspace_tenant_index s
     \<and> uuid_src t = uuid_src s \<and> drawn s \<le> drawn t"

lemma membership_inv_same:
  assumes "membership_inv s" "same_members s t"
  shows "membership_inv t"
proof -
  have "issued s \<subseteq> issued t" using assms(2) issued_mono by (simp add: same_members_def)
  with assms show ?thesis
    unfolding membership_inv_def same_members_def memberships_unique_def memberships_in_tenant_def in_customer_def
    by (elim conjE) (simp only:, blast)
qed

lemma membership_inv_run_tx:
  assumes "membership_inv s" "drawn s \<le> drawn (snd (oper s))" "\<And>x t. oper s = (Inr x, t) \<Longrightarrow> membership_inv t"
  shows "membership_inv (snd (run_tx oper s))"
proof (cases "oper s")
  case (Pair r t)
  show ?thesis
  proof (cases r)
    case (Inl e)
    with Pair assms(1,2) show ?thesis
      by (auto simp: run_tx_def intro!: membership_inv_same [OF assms(1)]) (simp add: same_members_def rollback_def)
  next
    case (Inr x)
    with Pair assms(3) show ?thesis by (simp add: run_tx_def)
  qed
qed

text \<open>A new customer membership.\<close>

lemma membership_inv_join:
  assumes inv: "membership_inv s" and m: "cm_id m = uuid_src s (drawn s)"
    and new: "member_key m \<notin> member_key ` set (customer_memberships s)"
    and t: "customer_memberships t = customer_memberships s @ [m]"
      "user_customer_index t = user_customer_index s @ [index_pair m]"
      "customer_customers t = customer_customers s @ cs" "distinct (map cus_id (customer_customers t))"
      "in_customer (cm_customer_id m) t"
      "workspace_workspaces t = workspace_workspaces s" "workspace_memberships t = workspace_memberships s"
      "workspace_tenant_index t = workspace_tenant_index s" "uuid_src t = uuid_src s" "drawn s < drawn t"
  shows "membership_inv t"
proof -
  note I = inv [unfolded membership_inv_def memberships_unique_def]
  have fresh: "uuid_src s (drawn s) \<notin> issued s" using I by (simp add: next_not_issued)
  have iss: "issued s \<subseteq> issued t" "cm_id m \<in> issued t"
    using t(9,10) m next_issued issued_mono by auto
  have "memberships_unique t"
    using I fresh new m by (auto simp: memberships_unique_def t(1,6,7) member_key_def [abs_def])
  moreover have "cm_id m \<noteq> wm_customer_membership_id w" if "w \<in> set (workspace_memberships s)" for w
    using that I fresh m by auto
  then have "memberships_in_tenant t"
    using I by (auto simp: memberships_in_tenant_def t(1,6,7))
  moreover have "index_pair m \<notin> set (user_customer_index s)"
    using I new by (auto simp: index_pair_def member_key_def)
  moreover have "in_customer (cm_customer_id x) t" if "x \<in> set (customer_memberships s)" for x
    using that I by (auto simp: in_customer_def t(3))
  ultimately show ?thesis
    using I iss t(4,5)
    by (auto simp: membership_inv_def t(1,2,6,7,8,9))
qed

lemma membership_inv_new_customer:
  assumes inv: "membership_inv s" and op: "create_customer_with_owner c name owner who s = (Inr x, t)"
  shows "membership_inv t"
proof -
  have c: "c \<notin> cus_id ` set (customer_customers s)"
    using op by (auto simp: create_customer_with_owner_def tget_None_iff raise_def split: if_splits)
  then have c': "tget cus_id c (customer_customers s) = None" by (simp add: tget_None_iff)
  let ?m = "\<lparr>cm_id = uuid_src s (drawn s), cm_created_at = clock s (Suc (ticks s)), cm_customer_id = c,
      cm_user_id = owner, cm_role = customer_role_value CR_OWNER\<rparr>"
  have "member_key ?m \<notin> member_key ` set (customer_memberships s)"
    using inv c by (auto simp: membership_inv_def in_customer_def member_key_def)
  moreover have "distinct (map cus_id (customer_customers s))" using inv by (simp add: membership_inv_def)
  ultimately show ?thesis
    using op c c'
    by (intro membership_inv_join [OF inv, of ?m t "[\<lparr>cus_id = c, cus_created_at = clock s (ticks s), cus_name = name\<rparr>]"])
      (auto simp: create_customer_with_owner_def row_defaults_def utcnow_def uuid4_def Let_def ok_def effect
        index_pair_def in_customer_def)
qed

lemma membership_inv_invite:
  assumes inv: "membership_inv s" and c: "in_customer c s"
    and op: "invite_customer_member c u role who s = (Inr x, t)"
  shows "membership_inv t"
proof -
  have key: "tget member_key (c, u) (customer_memberships s) = None"
    using op by (auto simp: invite_customer_member_def row_defaults_def Let_def raise_def split: if_splits)
  let ?m = "\<lparr>cm_id = uuid_src s (drawn s), cm_created_at = clock s (ticks s), cm_customer_id = c,
      cm_user_id = u, cm_role = customer_role_value role\<rparr>"
  have new: "member_key ?m \<notin> member_key ` set (customer_memberships s)"
    using key by (simp add: tget_None_iff member_key_def [of ?m])
  then have "(u, c) \<notin> set (user_customer_index s)"
    using inv by (auto simp: membership_inv_def index_pair_def member_key_def)
  moreover have "distinct (map cus_id (customer_customers s))" using inv by (simp add: membership_inv_def)
  ultimately show ?thesis
    using op key c
    by (intro membership_inv_join [OF inv _ new, of t "[]"])
      (auto simp: invite_customer_member_def row_defaults_def uuid4_def Let_def ok_def effect
        index_pair_def in_customer_def)
qed

text \<open>A role written into a customer membership.\<close>

lemma map_tupd: "(\<And>r. g (f r) = g r) \<Longrightarrow> map g (tupd key k f rs) = map g rs"
  by (induction rs) (auto simp: tupd_def)

lemma membership_inv_role:
  assumes inv: "membership_inv s"
    and t: "customer_memberships t = tupd cm_id i (\<lambda>m. m\<lparr>cm_role := r\<rparr>) (customer_memberships s)"
      "user_customer_index t = user_customer_index s" "customer_customers t = customer_customers s"
      "workspace_workspaces t = workspace_workspaces s" "workspace_memberships t = workspace_memberships s"
      "workspace_tenant_index t = workspace_tenant_index s" "uuid_src t = uuid_src s" "drawn s \<le> drawn t"
  shows "membership_inv t"
proof -
  note I = inv [unfolded membership_inv_def memberships_unique_def]
  have maps: "map cm_id (customer_memberships t) = map cm_id (customer_memberships s)"
    "map (\<lambda>m. (cm_customer_id m, cm_user_id m)) (customer_memberships t)
      = map (\<lambda>m. (cm_customer_id m, cm_user_id m)) (customer_memberships s)"
    "map index_pair (customer_memberships t) = map index_pair (customer_memberships s)"
    by (simp_all add: t(1) index_pair_def map_tupd)
  have rows: "\<exists>y \<in> set (customer_memberships s). cm_id x = cm_id y \<and> cm_customer_id x = cm_customer_id y"
    if "x \<in> set (customer_memberships t)" for x
    using that by (auto simp: t(1) in_set_tupd split: if_splits)
  have unique: "memberships_unique t"
    using I by (simp add: memberships_unique_def maps t(4,5))
  have tenant: "memberships_in_tenant t"
    unfolding memberships_in_tenant_def t(4,5)
  proof (intro ballI impI)
    fix m x w
    assume "m \<in> set (workspace_memberships s)" "x \<in> set (customer_memberships t)" "w \<in> set (workspace_workspaces s)"
      "cm_id x = wm_customer_membership_id m" "ws_id w = wm_workspace_id m"
    moreover obtain y where "y \<in> set (customer_memberships s)" "cm_id x = cm_id y" "cm_customer_id x = cm_customer_id y"
      using rows \<open>x \<in> set (customer_memberships t)\<close> by blast
    ultimately show "cm_customer_id x = ws_customer_id w"
      using I unfolding memberships_in_tenant_def by auto
  qed
  have "issued s \<subseteq> issued t" by (rule issued_mono [OF t(7,8)])
  moreover have "cm_id ` set (customer_memberships t) = cm_id ` set (customer_memberships s)"
    "index_pair ` set (customer_memberships t) = index_pair ` set (customer_memberships s)"
    using maps(1,3) by (metis list.set_map)+
  moreover have "in_customer (cm_customer_id x) t" if "x \<in> set (customer_memberships t)" for x
    using rows [OF that] I by (auto simp: in_customer_def t(3))
  ultimately show ?thesis
    using I unique tenant by (auto simp: membership_inv_def t(2-7))
qed

lemma membership_inv_change:
  assumes inv: "membership_inv s" and op: "change_customer_member_role m role who s = (Inr x, t)"
  shows "membership_inv t"
proof (cases "cm_role m = customer_role_value role")
  case True
  with op show ?thesis
    by (intro membership_inv_same [OF inv])
      (auto simp: same_members_def change_customer_member_role_def uuid4_def Let_def ok_def raise_def effect
        split: if_splits)
next
  case False
  with op show ?thesis
    by (intro membership_inv_role [OF inv, of t "cm_id m" "customer_role_value role"])
      (auto simp: change_customer_member_role_def uuid4_def Let_def ok_def raise_def effect split: if_splits)
qed

lemma remove_effect:
  assumes "remove_customer_member m who s = (Inr x, t)"
  shows "customer_memberships t = tdel cm_id (cm_id m) (customer_memberships s)"
    "user_customer_index t = (if \<exists>r \<in> set (tdel cm_id (cm_id m) (customer_memberships s)). member_key r = member_key m
       then user_customer_index s else filter (\<lambda>r. r \<noteq> index_pair m) (user_customer_index s))"
    "workspace_memberships t = filter (\<lambda>r. wm_customer_membership_id r \<noteq> cm_id m) (workspace_memberships s)"
    "customer_customers t = customer_customers s" "workspace_workspaces t = workspace_workspaces s"
    "workspace_tenant_index t = workspace_tenant_index s" "uuid_src t = uuid_src s" "drawn s \<le> drawn t"
  using assms
  by (auto simp: remove_customer_member_def uuid4_def Let_def ok_def raise_def effect index_pair_def split: if_splits)

lemma membership_inv_remove:
  assumes inv: "membership_inv s" and load: "loaded_member m s"
    and op: "remove_customer_member m who s = (Inr x, t)"
  shows "membership_inv t"
proof -
  note I = inv [unfolded membership_inv_def memberships_unique_def]
  note T = remove_effect [OF op]
  let ?cms = "customer_memberships s" and ?left = "tdel cm_id (cm_id m) (customer_memberships s)"
  have key: "distinct (map member_key ?cms)" using I by (simp add: member_key_def [abs_def])
  have pair: "index_pair a = index_pair b \<longleftrightarrow> member_key a = member_key b" for a b
    by (auto simp: index_pair_def member_key_def)
  have gone: "member_key r = member_key m" if "r \<in> set ?cms" "cm_id r = cm_id m" for r
    using load that by (auto simp: loaded_member_def)
  have index: "set (user_customer_index t) = index_pair ` set ?left"
  proof (cases "\<exists>r \<in> set ?left. member_key r = member_key m")
    case True
    then obtain r where r: "r \<in> set ?cms" "cm_id r \<noteq> cm_id m" "member_key r = member_key m" by auto
    have "?left = ?cms"
      unfolding tdel_def using gone unique_by_key [OF key _ r(1)] r(2,3) by (intro filter_True) metis
    with True I show ?thesis by (simp add: T(2))
  next
    case False
    then have "index_pair ` set ?left = index_pair ` set ?cms - {index_pair m}"
      using gone by (auto simp: pair)
    with False I show ?thesis by (auto simp: T(2))
  qed
  have "issued s \<subseteq> issued t" by (rule issued_mono [OF T(7,8)])
  moreover have "memberships_unique t"
    using I by (simp add: memberships_unique_def T(1,3,5) tdel_def distinct_map_filter)
  moreover have "memberships_in_tenant t"
    using I unfolding memberships_in_tenant_def T(1,3,5) by auto
  moreover have "distinct (user_customer_index t)"
    using I by (simp add: T(2))
  ultimately show ?thesis
    using I index unfolding membership_inv_def T(1,3,4,5,6,7) in_customer_def by auto
qed

text \<open>A new workspace, a new workspace membership, and the columns of either.\<close>

lemma membership_inv_new_workspace:
  assumes inv: "membership_inv s"
  shows "membership_inv (snd (create_workspace c name who s))"
proof -
  note I = inv [unfolded membership_inv_def memberships_unique_def]
  let ?t = "snd (create_workspace c name who s)"
  let ?w = "\<lparr>ws_id = uuid_src s (drawn s), ws_created_at = clock s (ticks s), ws_customer_id = c, ws_name = name,
      ws_archived_at = None\<rparr>"
  have t: "workspace_workspaces ?t = workspace_workspaces s @ [?w]"
    "workspace_tenant_index ?t = (workspace_tenant_index s)(uuid_src s (drawn s) \<mapsto> c)"
    "customer_memberships ?t = customer_memberships s" "user_customer_index ?t = user_customer_index s"
    "customer_customers ?t = customer_customers s" "workspace_memberships ?t = workspace_memberships s"
    "uuid_src ?t = uuid_src s" "drawn s < drawn ?t"
    by (simp_all add: create_workspace_def row_defaults_def uuid4_def Let_def effect)
  have fresh: "uuid_src s (drawn s) \<notin> ws_id ` set (workspace_workspaces s)"
  proof -
    have "uuid_src s (drawn s) \<notin> issued s" using I by (simp add: next_not_issued)
    moreover have "ws_id ` set (workspace_workspaces s) \<subseteq> issued s" using I by simp
    ultimately show ?thesis by blast
  qed
  have iss: "issued s \<subseteq> issued ?t" "uuid_src s (drawn s) \<in> issued ?t"
    using t(7,8) next_issued issued_mono by auto
  have "memberships_unique ?t" using I fresh by (simp add: memberships_unique_def t)
  moreover have "memberships_in_tenant ?t"
    unfolding memberships_in_tenant_def t(1,3,6)
  proof (intro ballI impI)
    fix m cm w
    assume mem: "m \<in> set (workspace_memberships s)" "cm \<in> set (customer_memberships s)"
      "w \<in> set (workspace_workspaces s @ [?w])" "cm_id cm = wm_customer_membership_id m" "ws_id w = wm_workspace_id m"
    have "wm_workspace_id ` set (workspace_memberships s) \<subseteq> ws_id ` set (workspace_workspaces s)" using I by simp
    with mem(1) have "wm_workspace_id m \<in> ws_id ` set (workspace_workspaces s)" by blast
    then have "w \<in> set (workspace_workspaces s)" using mem(3,5) fresh by auto
    moreover have "memberships_in_tenant s" using I by simp
    ultimately show "cm_customer_id cm = ws_customer_id w" using mem unfolding memberships_in_tenant_def by blast
  qed
  moreover have "tget ws_id (uuid_src s (drawn s)) (workspace_workspaces s) = None"
    using fresh by (simp add: tget_None_iff)
  then have "workspace_tenant_index ?t = (\<lambda>w. map_option ws_customer_id (tget ws_id w (workspace_workspaces ?t)))"
    using I by (auto simp: t(1,2) tget_append fun_eq_iff split: option.splits)
  ultimately show ?thesis
    using I iss unfolding membership_inv_def in_customer_def t(1,3-7) by auto
qed

text \<open>A new workspace membership.\<close>

lemma membership_inv_staff:
  assumes inv: "membership_inv s" and w: "loaded_workspace w s" and m: "loaded_member m s"
    and same: "cm_customer_id m = ws_customer_id w"
    and new: "(cm_id m, ws_id w) \<notin> workspace_member_key ` set (workspace_memberships s)"
    and p: "workspace_member_key p = (cm_id m, ws_id w)" "wm_role p = workspace_role_value r"
    and t: "workspace_memberships t = workspace_memberships s @ [p]"
    "workspace_workspaces t = workspace_workspaces s" "workspace_tenant_index t = workspace_tenant_index s"
    "customer_memberships t = customer_memberships s" "user_customer_index t = user_customer_index s"
    "customer_customers t = customer_customers s" "uuid_src t = uuid_src s" "drawn s \<le> drawn t"
  shows "membership_inv t"
proof -
  note I = inv [unfolded membership_inv_def memberships_unique_def]
  have key: "wm_customer_membership_id p = cm_id m" "wm_workspace_id p = ws_id w"
    using p(1) by (simp_all add: workspace_member_key_def)
  have iss: "issued s \<subseteq> issued t" by (rule issued_mono [OF t(7,8)])
  have "memberships_unique t"
    using I new p(1) by (auto simp: memberships_unique_def t workspace_member_key_def)
  moreover have "cm_customer_id q = ws_customer_id v"
    if "q \<in> set (customer_memberships s)" "v \<in> set (workspace_workspaces s)" "cm_id q = cm_id m" "ws_id v = ws_id w"
    for q v
  proof -
    from w obtain u where u: "u \<in> set (workspace_workspaces s)" "ws_id u = ws_id w" "ws_customer_id u = ws_customer_id w"
      by (auto simp: loaded_workspace_def)
    have "v = u" using unique_by_key [of ws_id "workspace_workspaces s" v u] I that(2,4) u by simp
    moreover have "cm_customer_id q = cm_customer_id m"
      using m that(1,3) by (auto simp: loaded_member_def)
    ultimately show ?thesis using same u by simp
  qed
  then have "memberships_in_tenant t"
    using I by (auto simp: memberships_in_tenant_def t key)
  moreover have "cm_id m \<in> issued t" using m iss by (auto simp: loaded_member_def)
  moreover have "ws_id w \<in> ws_id ` set (workspace_workspaces s)"
    using w by (force simp: loaded_workspace_def)
  ultimately show ?thesis
    using I iss p(2) unfolding membership_inv_def in_customer_def t(1-7) by (auto simp: key)
qed

lemma membership_inv_add:
  assumes inv: "membership_inv s" and w: "loaded_workspace w s" and m: "loaded_member m s"
    and op: "add_workspace_member w m (workspace_role_value r) who s = (Inr x, t)"
  shows "membership_inv t"
proof -
  let ?m = "\<lparr>wm_id = uuid_src s (drawn s), wm_created_at = clock s (ticks s), wm_customer_id = ws_customer_id w,
      wm_customer_membership_id = cm_id m, wm_workspace_id = ws_id w, wm_role = workspace_role_value r\<rparr>"
  have new: "tget workspace_member_key (cm_id m, ws_id w) (workspace_memberships s) = None"
    and same: "cm_customer_id m = ws_customer_id w"
    using op by (auto simp: add_workspace_member_def row_defaults_def workspace_member_key_def Let_def raise_def
        split: if_splits)
  have t: "workspace_memberships t = workspace_memberships s @ [?m]"
    "workspace_workspaces t = workspace_workspaces s" "workspace_tenant_index t = workspace_tenant_index s"
    "customer_memberships t = customer_memberships s" "user_customer_index t = user_customer_index s"
    "customer_customers t = customer_customers s" "uuid_src t = uuid_src s" "drawn s \<le> drawn t"
    using op by (auto simp: add_workspace_member_def row_defaults_def uuid4_def workspace_member_key_def Let_def
        raise_def ok_def effect split: if_splits)
  from new have "(cm_id m, ws_id w) \<notin> workspace_member_key ` set (workspace_memberships s)"
    by (simp add: tget_None_iff)
  from membership_inv_staff [OF inv w m same this _ _ t] show ?thesis
    by (simp add: workspace_member_key_def)
qed

text \<open>Workspace memberships that lose rows or change their roles, workspaces that change a column.\<close>

lemma membership_inv_fewer_members:
  assumes inv: "membership_inv s"
    and t: "distinct (map workspace_member_key (workspace_memberships t))"
      "workspace_member_key ` set (workspace_memberships t) \<subseteq> workspace_member_key ` set (workspace_memberships s)"
      "wm_role ` set (workspace_memberships t) \<subseteq> range workspace_role_value"
    and same: "customer_customers t = customer_customers s" "customer_memberships t = customer_memberships s"
      "user_customer_index t = user_customer_index s" "workspace_workspaces t = workspace_workspaces s"
      "workspace_tenant_index t = workspace_tenant_index s" "uuid_src t = uuid_src s" "drawn s \<le> drawn t"
  shows "membership_inv t"
proof -
  note I = inv [unfolded membership_inv_def memberships_unique_def]
  have old: "\<exists>q \<in> set (workspace_memberships s). wm_customer_membership_id q = wm_customer_membership_id m
      \<and> wm_workspace_id q = wm_workspace_id m" if "m \<in> set (workspace_memberships t)" for m
    using t(2) that by (force simp: workspace_member_key_def)
  have iss: "issued s \<subseteq> issued t" by (rule issued_mono [OF same(6,7)])
  have "memberships_unique t"
    using I t(1) by (simp add: memberships_unique_def same workspace_member_key_def [abs_def])
  moreover have "memberships_in_tenant t"
    unfolding memberships_in_tenant_def same(2,4)
  proof (intro ballI impI)
    fix m cm w
    assume m: "m \<in> set (workspace_memberships t)" and cm: "cm \<in> set (customer_memberships s)"
      "w \<in> set (workspace_workspaces s)" "cm_id cm = wm_customer_membership_id m" "ws_id w = wm_workspace_id m"
    obtain q where "q \<in> set (workspace_memberships s)" "wm_customer_membership_id q = wm_customer_membership_id m"
        "wm_workspace_id q = wm_workspace_id m"
      using old [OF m] by blast
    with I cm show "cm_customer_id cm = ws_customer_id w" unfolding memberships_in_tenant_def by auto
  qed
  moreover have "wm_customer_membership_id m \<in> issued t \<and> wm_workspace_id m \<in> ws_id ` set (workspace_workspaces s)"
    if m: "m \<in> set (workspace_memberships t)" for m
    using old [OF m] I iss by (metis (no_types, lifting) image_subset_iff subset_iff)
  ultimately show ?thesis
    using I t(3) iss unfolding membership_inv_def in_customer_def same(1-6) by auto
qed

lemma membership_inv_change_role:
  assumes inv: "membership_inv s" and op: "change_workspace_member_role m (workspace_role_value r) who s = (Inr x, t)"
  shows "membership_inv t"
proof (cases "wm_role m = workspace_role_value r")
  case True
  with op show ?thesis
    by (intro membership_inv_same [OF inv])
      (auto simp: same_members_def change_workspace_member_role_def uuid4_def Let_def ok_def raise_def effect
        split: if_splits)
next
  case False
  with op have rows: "workspace_memberships t = tupd wm_id (wm_id m) (\<lambda>m. m\<lparr>wm_role := workspace_role_value r\<rparr>)
      (workspace_memberships s)"
    by (auto simp: change_workspace_member_role_def uuid4_def Let_def ok_def raise_def split: if_splits)
  have keys: "map workspace_member_key (workspace_memberships t) = map workspace_member_key (workspace_memberships s)"
    by (simp add: rows workspace_member_key_def map_tupd)
  have "distinct (map workspace_member_key (workspace_memberships t))"
    unfolding keys using inv
    by (simp add: membership_inv_def memberships_unique_def workspace_member_key_def [abs_def])
  moreover have "workspace_member_key ` set (workspace_memberships t) = workspace_member_key ` set (workspace_memberships s)"
    using keys by (metis list.set_map)
  moreover have "wm_role ` set (workspace_memberships t) \<subseteq> range workspace_role_value"
  proof -
    have "wm_role ` set (workspace_memberships s) \<subseteq> range workspace_role_value" using inv by (simp add: membership_inv_def)
    then show ?thesis by (auto simp: rows in_set_tupd image_subset_iff)
  qed
  ultimately show ?thesis
    using op False
    by (intro membership_inv_fewer_members [OF inv])
      (auto simp: change_workspace_member_role_def uuid4_def Let_def ok_def raise_def effect split: if_splits)
qed

lemma membership_inv_drop:
  assumes inv: "membership_inv s"
  shows "membership_inv (remove_workspace_member m who s)"
proof -
  have "distinct (map workspace_member_key (workspace_memberships s))"
    using inv by (simp add: membership_inv_def memberships_unique_def workspace_member_key_def [abs_def])
  with inv show ?thesis
    by (intro membership_inv_fewer_members [OF inv])
      (auto simp: remove_workspace_member_def uuid4_def Let_def effect tdel_def distinct_map_filter membership_inv_def)
qed

lemma membership_inv_archived_at:
  assumes inv: "membership_inv s"
    and t: "workspace_workspaces t = tupd ws_id i (\<lambda>w. w\<lparr>ws_archived_at := x\<rparr>) (workspace_workspaces s)"
      "workspace_memberships t = workspace_memberships s"
      "customer_customers t = customer_customers s" "customer_memberships t = customer_memberships s"
      "user_customer_index t = user_customer_index s"
      "workspace_tenant_index t = workspace_tenant_index s" "uuid_src t = uuid_src s" "drawn s \<le> drawn t"
  shows "membership_inv t"
proof -
  note I = inv [unfolded membership_inv_def memberships_unique_def]
  have maps: "map ws_id (workspace_workspaces t) = map ws_id (workspace_workspaces s)" by (simp add: t(1))
  then have ids: "ws_id ` set (workspace_workspaces t) = ws_id ` set (workspace_workspaces s)"
    by (metis list.set_map)
  have "issued s \<subseteq> issued t" by (rule issued_mono [OF t(7,8)])
  moreover have "memberships_unique t" using I by (simp add: memberships_unique_def maps t(2,4))
  moreover have "memberships_in_tenant t"
    using I unfolding memberships_in_tenant_def t(1,2,4) by (auto simp: in_set_tupd split: if_splits)
  moreover have "map_option ws_customer_id (tget ws_id j (workspace_workspaces t))
      = map_option ws_customer_id (tget ws_id j (workspace_workspaces s))" for j
    by (simp add: t(1) tget_tupd option.map_comp comp_def)
  ultimately show ?thesis
    using I ids unfolding membership_inv_def in_customer_def t(2-7) by auto
qed

lemma membership_step_inv:
  assumes "membership_step s t" "membership_inv s"
  shows "membership_inv t"
  using assms
proof (induction rule: membership_step.induct)
  case (new_customer t c name owner who s)
  show ?case
    unfolding new_customer.hyps
    by (rule membership_inv_run_tx [OF new_customer.prems _ membership_inv_new_customer [OF new_customer.prems]])
      (auto simp: create_customer_with_owner_def row_defaults_def utcnow_def uuid4_def Let_def effect)
next
  case (invite c s t u role who)
  show ?case
    unfolding invite.hyps(2)
    by (rule membership_inv_run_tx [OF invite.prems _ membership_inv_invite [OF invite.prems invite.hyps(1)]])
      (auto simp: invite_customer_member_def row_defaults_def uuid4_def Let_def effect)
next
  case (change m s t role who)
  show ?case
    unfolding change.hyps(2)
    by (rule membership_inv_run_tx [OF change.prems _ membership_inv_change [OF change.prems]])
      (metis change_frame(3) prod.collapse)
next
  case (remove m s t who)
  show ?case
    unfolding remove.hyps(2)
    by (rule membership_inv_run_tx [OF remove.prems _ membership_inv_remove [OF remove.prems remove.hyps(1)]])
      (metis remove_frame(3) prod.collapse)
next
  case (new_workspace c s t name who)
  then show ?case by (simp add: membership_inv_new_workspace)
next
  case (add w s m t r who)
  show ?case
    unfolding add.hyps(3)
    by (rule membership_inv_run_tx [OF add.prems _ membership_inv_add [OF add.prems add.hyps(1,2)]])
      (auto simp: add_workspace_member_def row_defaults_def uuid4_def Let_def effect)
next
  case (change_role t wm r who s)
  show ?case
    unfolding change_role.hyps
    by (rule membership_inv_run_tx [OF change_role.prems _ membership_inv_change_role [OF change_role.prems]])
      (auto simp: change_workspace_member_role_def uuid4_def Let_def effect)
next
  case (drop t wm who s)
  then show ?case by (simp add: membership_inv_drop)
next
  case (archive t w who s)
  then show ?case
    by (intro membership_inv_archived_at [OF archive.prems, of t "ws_id w" "Some (clock s (ticks s))"])
      (simp_all add: archive_workspace_def utcnow_def uuid4_def Let_def effect)
next
  case (restore t w who s)
  show ?case
  proof (cases "ws_archived_at w")
    case None
    with restore show ?thesis
      by (intro membership_inv_same [OF restore.prems])
        (simp add: same_members_def restore_workspace_def uuid4_def Let_def effect)
  next
    case (Some x)
    with restore show ?thesis
      by (intro membership_inv_archived_at [OF restore.prems, of t "ws_id w" None])
        (simp_all add: restore_workspace_def uuid4_def Let_def effect)
  qed
next
  case (elsewhere t s)
  then show ?case by (intro membership_inv_same [OF elsewhere.prems]) (simp add: same_members_def)
qed

section \<open>What a user is shown\<close>

lemma distinct_concat_tagged:
  assumes "distinct is" "\<And>i. length (f i) \<le> 1 \<and> g ` set (f i) \<subseteq> {i}"
  shows "distinct (map g (concat (map f is)))"
  using assms(1)
proof (induction "is")
  case (Cons i js)
  have "distinct (map g (f i))" using assms(2) [of i] by (cases "f i") auto
  moreover have "g ` set (f i) \<subseteq> {i}" "g ` (\<Union>j \<in> set js. set (f j)) \<subseteq> set js"
    using assms(2) by auto
  moreover have "i \<notin> set js" "distinct (map g (concat (map f js)))" using Cons by simp_all
  ultimately have "distinct (map g (f i))" "g ` set (f i) \<inter> g ` (\<Union>j \<in> set js. set (f j)) = {}"
      "distinct (map g (concat (map f js)))"
    by blast+
  then show ?case by simp
qed simp

definition no_members :: "db \<Rightarrow> bool" where
  "no_members s \<longleftrightarrow> inj (uuid_src s) \<and> customer_customers s = [] \<and> customer_memberships s = []
     \<and> user_customer_index s = [] \<and> workspace_workspaces s = [] \<and> workspace_memberships s = []
     \<and> workspace_tenant_index s = Map.empty"

lemma membership_inv_initial: "no_members s \<Longrightarrow> membership_inv s"
  by (simp add: no_members_def membership_inv_def memberships_unique_def memberships_in_tenant_def fun_eq_iff)

interpretation membership_run: invariant_system membership_step no_members membership_inv
  by unfold_locales (fact membership_inv_initial membership_step_inv)+

text \<open>
  The customer a workspace membership names is the customer of its workspace, and a customer
  membership that is gone never comes back: identifiers are not drawn twice.
\<close>

definition members_owned :: "db \<Rightarrow> bool" where
  "members_owned s \<longleftrightarrow> (\<lambda>m. (wm_workspace_id m, wm_customer_id m)) ` set (workspace_memberships s)
     \<subseteq> (\<lambda>w. (ws_id w, ws_customer_id w)) ` set (workspace_workspaces s)"

lemma members_owned_mono:
  assumes "members_owned s"
    and "(\<lambda>m. (wm_workspace_id m, wm_customer_id m)) ` set (workspace_memberships t)
       \<subseteq> (\<lambda>m. (wm_workspace_id m, wm_customer_id m)) ` set (workspace_memberships s)"
    and "(\<lambda>w. (ws_id w, ws_customer_id w)) ` set (workspace_workspaces s)
       \<subseteq> (\<lambda>w. (ws_id w, ws_customer_id w)) ` set (workspace_workspaces t)"
  shows "members_owned t"
  using subset_trans [OF subset_trans [OF assms(2) assms(1) [unfolded members_owned_def]] assms(3)]
  by (simp only: members_owned_def)

lemma members_owned_same:
  "members_owned s \<Longrightarrow> workspace_memberships t = workspace_memberships s
     \<Longrightarrow> workspace_workspaces t = workspace_workspaces s \<Longrightarrow> members_owned t"
  by (simp add: members_owned_def)

lemma members_owned_run_tx:
  assumes "members_owned s" "\<And>x t. oper s = (Inr x, t) \<Longrightarrow> members_owned t"
  shows "members_owned (snd (run_tx oper s))"
proof (cases "oper s")
  case (Pair r t)
  show ?thesis
  proof (cases r)
    case (Inl e)
    with Pair show ?thesis
      by (intro members_owned_same [OF assms(1)]) (simp_all add: run_tx_def rollback_def)
  next
    case (Inr x)
    with Pair assms(2) show ?thesis by (simp add: run_tx_def)
  qed
qed

lemma image_tupd_same:
  assumes "\<And>r. g (f r) = g r"
  shows "g ` set (tupd key k f rs) = g ` set rs"
  using map_tupd [of g f key k rs] assms by (metis list.set_map)

lemma members_owned_add:
  assumes "members_owned s" "loaded_workspace w s" "add_workspace_member w m r who s = (Inr x, t)"
  shows "members_owned t"
proof -
  obtain u y where "u \<in> set (workspace_workspaces s)" "w = u\<lparr>ws_archived_at := y\<rparr>"
    using assms(2) by (auto simp: loaded_workspace_def)
  then have "(ws_id w, ws_customer_id w) \<in> (\<lambda>w. (ws_id w, ws_customer_id w)) ` set (workspace_workspaces s)"
    by force
  with assms(1,3) show ?thesis
    by (auto simp: members_owned_def image_subset_iff add_workspace_member_def row_defaults_def uuid4_def Let_def raise_def ok_def
        effect split: if_splits)
qed

lemma membership_step_owned:
  assumes "membership_step s t" "members_owned s"
  shows "members_owned t"
  using assms
proof (induction rule: membership_step.induct)
  case (new_customer t c name owner who s)
  show ?case
    unfolding new_customer.hyps
    by (rule members_owned_run_tx [OF new_customer.prems], rule members_owned_same [OF new_customer.prems])
      (auto simp: create_customer_with_owner_def row_defaults_def utcnow_def uuid4_def Let_def ok_def raise_def effect
        split: if_splits)
next
  case (invite c s t u role who)
  show ?case
    unfolding invite.hyps(2)
    by (rule members_owned_run_tx [OF invite.prems], rule members_owned_same [OF invite.prems])
      (auto simp: invite_customer_member_def row_defaults_def uuid4_def Let_def ok_def raise_def effect
        split: if_splits)
next
  case (change m s t role who)
  show ?case
    unfolding change.hyps(2)
    by (rule members_owned_run_tx [OF change.prems], rule members_owned_same [OF change.prems])
      (auto simp: change_customer_member_role_def uuid4_def Let_def ok_def raise_def effect split: if_splits)
next
  case (remove m s t who)
  show ?case
    unfolding remove.hyps(2)
    by (rule members_owned_run_tx [OF remove.prems], rule members_owned_mono [OF remove.prems])
      (auto simp: remove_effect)
next
  case (new_workspace c s t name who)
  then show ?case
    by (intro members_owned_mono [OF new_workspace.prems])
      (auto simp: create_workspace_def row_defaults_def uuid4_def Let_def effect)
next
  case (add w s m t r who)
  show ?case
    unfolding add.hyps(3)
    by (rule members_owned_run_tx [OF add.prems], rule members_owned_add [OF add.prems add.hyps(1)])
next
  case (change_role t wm r who s)
  show ?case
    unfolding change_role.hyps
    by (rule members_owned_run_tx [OF change_role.prems], rule members_owned_mono [OF change_role.prems])
      (auto simp: change_workspace_member_role_def uuid4_def Let_def ok_def raise_def effect image_tupd_same
        split: if_splits)
next
  case (drop t wm who s)
  then show ?case
    by (intro members_owned_mono [OF drop.prems])
      (auto simp: remove_workspace_member_def uuid4_def Let_def effect)
next
  case (archive t w who s)
  then show ?case
    by (intro members_owned_mono [OF archive.prems])
      (auto simp: archive_workspace_def utcnow_def uuid4_def Let_def effect image_tupd_same)
next
  case (restore t w who s)
  then show ?case
    by (intro members_owned_mono [OF restore.prems])
      (auto simp: restore_workspace_def uuid4_def Let_def effect image_tupd_same)
next
  case (elsewhere t s)
  then show ?case by (intro members_owned_same [OF elsewhere.prems])
qed

interpretation owned_run: invariant_system membership_step no_members members_owned
  by unfold_locales (simp add: no_members_def members_owned_def, rule membership_step_owned)

lemma membership_step_ids:
  assumes "membership_step s t"
  shows "cm_id ` set (customer_memberships t) \<subseteq> insert (uuid_src s (drawn s)) (cm_id ` set (customer_memberships s))
     \<and> uuid_src t = uuid_src s
     \<and> (cm_id ` set (customer_memberships t) \<subseteq> cm_id ` set (customer_memberships s) \<or> drawn s < drawn t)
     \<and> drawn s \<le> drawn t"
  using assms
proof (induction rule: membership_step.induct)
  case (new_customer t c name owner who s)
  then show ?case
    by (auto simp: run_tx_def rollback_def create_customer_with_owner_def row_defaults_def utcnow_def uuid4_def
        Let_def ok_def raise_def effect split: if_splits prod.splits sum.splits)
next
  case (invite c s t u role who)
  then show ?case
    by (auto simp: run_tx_def rollback_def invite_customer_member_def row_defaults_def uuid4_def
        Let_def ok_def raise_def effect split: if_splits prod.splits sum.splits)
next
  case (change m s t role who)
  then show ?case
    by (auto simp: run_tx_def rollback_def change_customer_member_role_def uuid4_def image_tupd_same
        Let_def ok_def raise_def effect split: if_splits prod.splits sum.splits)
next
  case (remove m s t who)
  show ?case
  proof (cases "remove_customer_member m who s")
    case (Pair r u)
    show ?thesis
    proof (cases r)
      case (Inl e)
      with Pair remove_frame(3) [of m who s r u] show ?thesis
        by (auto simp: remove.hyps(2) run_tx_def rollback_def)
    next
      case (Inr x)
      with Pair remove_effect [OF Pair [unfolded Inr]] show ?thesis
        by (auto simp: remove.hyps(2) run_tx_def)
    qed
  qed
next
  case (new_workspace c s t name who)
  then show ?case by (auto simp: create_workspace_def row_defaults_def uuid4_def Let_def effect)
next
  case (add w s m t r who)
  then show ?case
    by (auto simp: run_tx_def rollback_def add_workspace_member_def row_defaults_def uuid4_def
        Let_def ok_def raise_def effect split: if_splits prod.splits sum.splits)
next
  case (change_role t wm r who s)
  then show ?case
    by (auto simp: run_tx_def rollback_def change_workspace_member_role_def uuid4_def
        Let_def ok_def raise_def effect split: if_splits prod.splits sum.splits)
next
  case (drop t wm who s)
  then show ?case by (auto simp: remove_workspace_member_def uuid4_def Let_def effect)
next
  case (archive t w who s)
  then show ?case by (auto simp: archive_workspace_def utcnow_def uuid4_def Let_def effect)
next
  case (restore t w who s)
  then show ?case by (auto simp: restore_workspace_def uuid4_def Let_def effect)
qed auto

lemma gone_for_good:
  assumes "membership_step\<^sup>*\<^sup>* s t" "inj (uuid_src s)"
    and "i \<in> issued s" "i \<notin> cm_id ` set (customer_memberships s)"
  shows "i \<in> issued t \<and> i \<notin> cm_id ` set (customer_memberships t) \<and> uuid_src t = uuid_src s"
  using assms(1)
proof (induction rule: rtranclp_induct)
  case base
  with assms show ?case by simp
next
  case (step t u)
  note ids = membership_step_ids [OF step(2)]
  then have "uuid_src u = uuid_src t" "drawn t \<le> drawn u" by simp_all
  from issued_mono [OF this] step.IH have "i \<in> issued u" by blast
  moreover have "i \<noteq> uuid_src t (drawn t)"
    using step.IH next_not_issued [of t] assms(2) by auto
  ultimately show ?case using ids step.IH by auto
qed

lemma in_customer_tget:
  "in_customer c s \<longleftrightarrow> (\<exists>r. tget cus_id c (customer_customers s) = Some r)"
  using tget_None_iff [of cus_id c "customer_customers s"]
  by (cases "tget cus_id c (customer_customers s)") (auto simp: in_customer_def)

lemma customer_role_string_iff:
  assumes "memberships_unique s"
  shows "customer_role_string u c s = Some r \<longleftrightarrow>
     (\<exists>m \<in> set (customer_memberships s). cm_customer_id m = c \<and> cm_user_id m = u \<and> cm_role m = r)"
proof -
  let ?key = "\<lambda>m. (cm_customer_id m, cm_user_id m)"
  have "distinct (map ?key (customer_memberships s))"
    using assms by (simp add: memberships_unique_def)
  from tget_distinct [OF this] show ?thesis
    unfolding customer_role_string_def by (force dest: tget_SomeD)
qed

lemma customer_ids_for_user_iff:
  assumes "membership_inv s"
  shows "c \<in> set (customer_ids_for_user u s) \<longleftrightarrow>
     (\<exists>m \<in> set (customer_memberships s). cm_customer_id m = c \<and> cm_user_id m = u)"
proof -
  have "c \<in> set (customer_ids_for_user u s) \<longleftrightarrow> (u, c) \<in> set (user_customer_index s)"
    by (force simp: customer_ids_for_user_def)
  also have "set (user_customer_index s) = index_pair ` set (customer_memberships s)"
    using assms by (simp add: membership_inv_def)
  finally show ?thesis by (auto simp: index_pair_def image_iff)
qed

lemma list_my_workspaces_fold:
  assumes "\<forall>c \<in> set cs. in_customer c s"
  shows "\<exists>es. fold (\<lambda>c r. case r of Inl e \<Rightarrow> Inl e | Inr entries \<Rightarrow>
       (case tget cus_id c (customer_customers s) of None \<Rightarrow> Inl (Unhandled ''AssertionError'')
        | Some customer \<Rightarrow> Inr (entries @ my_workspaces_in u c customer s))) cs (Inr acc) = Inr es
     \<and> set es = set acc \<union> (\<Union>c \<in> set cs. set (my_workspaces_in u c (the (tget cus_id c (customer_customers s))) s))"
  using assms
proof (induction cs arbitrary: acc)
  case (Cons c cs)
  then obtain r where "tget cus_id c (customer_customers s) = Some r" by (auto simp: in_customer_tget)
  with Cons.IH [of "acc @ my_workspaces_in u c r s"] Cons.prems show ?case by (auto simp: Un_assoc)
qed simp

lemma my_workspaces_in_iff:
  assumes inv: "membership_inv s" and mem: "customer_role_string u c s \<noteq> None"
  shows "(\<exists>e \<in> set (my_workspaces_in u c cr s). mwe_workspace_id e = w \<and> mwe_role e = workspace_role_value r)
     \<longleftrightarrow> (\<exists>ws \<in> set (workspace_workspaces s). ws_id ws = w \<and> ws_customer_id ws = c \<and> ws_archived_at ws = None
          \<and> holds_workspace_role u ws r s)"
proof -
  have uni: "memberships_unique s" and ten: "memberships_in_tenant s" using inv by (simp_all add: membership_inv_def)
  have is_owner: "is_customer_owner u c s \<longleftrightarrow> customer_role_string u c s = Some (customer_role_value CR_OWNER)"
    by (simp add: is_customer_owner_def)
  have the_role: "cm_role m = q" if "m \<in> set (customer_memberships s)" "cm_customer_id m = c" "cm_user_id m = u"
    "customer_role_string u c s = Some q" for m q
    using that customer_role_string_iff [OF uni, of u c "cm_role m"] by auto
  have same: "cm_customer_id cm = ws_customer_id ws" if "m \<in> set (workspace_memberships s)"
    "cm \<in> set (customer_memberships s)" "ws \<in> set (workspace_workspaces s)" "wm_workspace_id m = ws_id ws"
    "wm_customer_membership_id m = cm_id cm" for m cm ws
    using ten that unfolding memberships_in_tenant_def by metis
  consider (owner) "customer_role_string u c s = Some (customer_role_value CR_OWNER)"
    | (auditor) "customer_role_string u c s = Some (customer_role_value CR_AUDITOR)"
    | (other) "\<not> is_customer_owner u c s" "customer_role_string u c s \<noteq> Some (customer_role_value CR_AUDITOR)"
    using is_owner by blast
  then show ?thesis
  proof cases
    case owner
    then show ?thesis
      by (cases r) (auto simp: my_workspaces_in_def holds_workspace_role_owner [OF uni] is_customer_owner_def)
  next
    case auditor
    then have "\<not> holds_workspace_role u ws r s" if "ws \<in> set (workspace_workspaces s)" "ws_customer_id ws = c" for ws
      using same [OF _ _ that(1)] the_role that(2)
      by (force simp: holds_workspace_role_owner [OF uni] is_customer_owner_def)
    with auditor show ?thesis by (auto simp: my_workspaces_in_def)
  next
    case other
    have "(\<exists>e \<in> set (my_workspaces_in u c cr s). mwe_workspace_id e = w \<and> mwe_role e = workspace_role_value r)
        \<longleftrightarrow> (\<exists>ws \<in> set (workspace_workspaces s). \<exists>m \<in> set (workspace_memberships s). \<exists>cm \<in> set (customer_memberships s).
              ws_id ws = w \<and> ws_archived_at ws = None \<and> wm_workspace_id m = ws_id ws
              \<and> cm_id cm = wm_customer_membership_id m \<and> cm_customer_id cm = c \<and> cm_user_id cm = u
              \<and> wm_role m = workspace_role_value r)"
      using other is_owner by (auto simp: my_workspaces_in_def)
    also have "\<dots> \<longleftrightarrow> (\<exists>ws \<in> set (workspace_workspaces s). ws_id ws = w \<and> ws_customer_id ws = c \<and> ws_archived_at ws = None
          \<and> holds_workspace_role u ws r s)" (is "?l \<longleftrightarrow> ?r")
    proof
      assume ?l
      then obtain ws m cm where *: "ws \<in> set (workspace_workspaces s)" "m \<in> set (workspace_memberships s)"
          "cm \<in> set (customer_memberships s)" "ws_id ws = w" "ws_archived_at ws = None" "wm_workspace_id m = ws_id ws"
          "cm_id cm = wm_customer_membership_id m" "cm_customer_id cm = c" "cm_user_id cm = u"
          "wm_role m = workspace_role_value r" by blast
      have "ws_customer_id ws = c" using same [OF *(2,3,1,6)] *(7,8) by simp
      moreover have "cm_role cm \<noteq> customer_role_value CR_AUDITOR"
        using customer_role_string_iff [OF uni, of u c "customer_role_value CR_AUDITOR"] other(2) * by auto
      ultimately have "holds_workspace_role u ws r s"
        unfolding holds_workspace_role_owner [OF uni] using * other(1) by (simp only: if_False) (intro bexI [of _ m] bexI [of _ cm], auto)
      with * \<open>ws_customer_id ws = c\<close> show ?r by blast
    next
      assume ?r
      then obtain ws where ws: "ws \<in> set (workspace_workspaces s)" "ws_id ws = w" "ws_customer_id ws = c"
          "ws_archived_at ws = None" "holds_workspace_role u ws r s" by blast
      then obtain m cm where *: "m \<in> set (workspace_memberships s)" "cm \<in> set (customer_memberships s)"
          "wm_workspace_id m = ws_id ws" "wm_customer_membership_id m = cm_id cm" "cm_user_id cm = u"
          "wm_role m = workspace_role_value r"
        using other(1) by (auto simp: holds_workspace_role_owner [OF uni])
      have "cm_customer_id cm = c" using same [OF *(1,2) ws(1) *(3,4)] ws(3) by simp
      with ws * show ?l by (intro bexI [of _ ws] bexI [of _ m] bexI [of _ cm]) auto
    qed
    finally show ?thesis .
  qed
qed

section \<open>Properties\<close>

text \<open>
  C25: a user is shown a workspace, with a role, exactly when a request of theirs in it would be
  let in, with that role: in every state the requests can reach, with memberships loaded at any
  time, the listing built from the two indexes agrees with the authorization.
\<close>

theorem my_workspaces_are_accessible:
  assumes "no_members s\<^sub>0" "membership_step\<^sup>*\<^sup>* s\<^sub>0 s"
  shows "\<exists>es. list_my_workspaces u s = Inr es
     \<and> (\<forall>w r. (\<exists>e \<in> set es. mwe_workspace_id e = w \<and> mwe_role e = workspace_role_value r)
          \<longleftrightarrow> (\<exists>ctx. get_workspace_context u w False s = Inr ctx \<and> wc_role ctx = r))"
proof -
  have inv: "membership_inv s" by (rule membership_run.reachable [OF assms(1,2)])
  then have uni: "memberships_unique s" and ten: "memberships_in_tenant s"
    and cust: "\<forall>m \<in> set (customer_memberships s). in_customer (cm_customer_id m) s"
    by (simp_all add: membership_inv_def)
  have "\<forall>c \<in> set (customer_ids_for_user u s). in_customer c s"
    using cust by (auto simp: customer_ids_for_user_iff [OF inv])
  from list_my_workspaces_fold [OF this, of u "[]"] obtain es where es: "list_my_workspaces u s = Inr es"
      "set es = (\<Union>c \<in> set (customer_ids_for_user u s).
         set (my_workspaces_in u c (the (tget cus_id c (customer_customers s))) s))"
    by (auto simp: list_my_workspaces_def)
  have member: "c \<in> set (customer_ids_for_user u s) \<longleftrightarrow> customer_role_string u c s \<noteq> None" for c
    using customer_role_string_iff [OF uni, of u c] by (auto simp: customer_ids_for_user_iff [OF inv])
  have "(\<exists>e \<in> set es. mwe_workspace_id e = w \<and> mwe_role e = workspace_role_value r)
      \<longleftrightarrow> (\<exists>ctx. get_workspace_context u w False s = Inr ctx \<and> wc_role ctx = r)" for w r
  proof -
    have role: "customer_role_string u (ws_customer_id ws) s \<noteq> None"
      if held: "ws \<in> set (workspace_workspaces s)" "holds_workspace_role u ws r s" for ws
    proof (cases "is_customer_owner u (ws_customer_id ws) s")
      case False
      then obtain m cm where *: "m \<in> set (workspace_memberships s)" "cm \<in> set (customer_memberships s)"
          "wm_workspace_id m = ws_id ws" "wm_customer_membership_id m = cm_id cm" "cm_user_id cm = u"
        using held(2) by (auto simp: holds_workspace_role_owner [OF uni])
      then have "cm_customer_id cm = ws_customer_id ws"
        using ten held(1) unfolding memberships_in_tenant_def by metis
      with * show ?thesis using customer_role_string_iff [OF uni] by blast
    qed (simp add: is_customer_owner_def)
    have "(\<exists>e \<in> set es. mwe_workspace_id e = w \<and> mwe_role e = workspace_role_value r) \<longleftrightarrow>
        (\<exists>c. customer_role_string u c s \<noteq> None \<and> (\<exists>ws \<in> set (workspace_workspaces s). ws_id ws = w
           \<and> ws_customer_id ws = c \<and> ws_archived_at ws = None \<and> holds_workspace_role u ws r s))"
    proof -
      have "(\<exists>e \<in> set es. mwe_workspace_id e = w \<and> mwe_role e = workspace_role_value r) \<longleftrightarrow>
          (\<exists>c \<in> set (customer_ids_for_user u s). \<exists>e \<in> set (my_workspaces_in u c (the (tget cus_id c (customer_customers s))) s).
             mwe_workspace_id e = w \<and> mwe_role e = workspace_role_value r)"
        unfolding es(2) by blast
      with my_workspaces_in_iff [OF inv] member show ?thesis by metis
    qed
    also have "\<dots> \<longleftrightarrow> (\<exists>ws \<in> set (workspace_workspaces s). ws_id ws = w \<and> ws_archived_at ws = None
           \<and> holds_workspace_role u ws r s)"
      using role by blast
    also have "\<dots> \<longleftrightarrow> (\<exists>ctx. get_workspace_context u w False s = Inr ctx \<and> wc_role ctx = r)"
    proof
      assume "\<exists>ws \<in> set (workspace_workspaces s). ws_id ws = w \<and> ws_archived_at ws = None \<and> holds_workspace_role u ws r s"
      then obtain ws where "ws \<in> set (workspace_workspaces s)" "ws_id ws = w" "ws_archived_at ws = None"
        "holds_workspace_role u ws r s" by blast
      then have "get_workspace_context u w False s = Inr \<lparr>wc_customer_id = ws_customer_id ws, wc_workspace_id = w,
          wc_user_id = u, wc_role = r\<rparr>"
        unfolding get_workspace_context_spec [OF uni ten] by blast
      then show "\<exists>ctx. get_workspace_context u w False s = Inr ctx \<and> wc_role ctx = r" by auto
    qed (auto simp: get_workspace_context_spec [OF uni ten])
    finally show ?thesis .
  qed
  with es(1) show ?thesis by blast
qed

text \<open>
  The index read before a tenant is known is exact: in every reachable state a user is shown
  each customer they are a member of once, under its name and with their role there, and no
  other.
\<close>

theorem my_customers_are_memberships:
  assumes "no_members s\<^sub>0" "membership_step\<^sup>*\<^sup>* s\<^sub>0 s"
  shows "(e \<in> set (list_my_customers u s) \<longleftrightarrow>
       (\<exists>m \<in> set (customer_memberships s). \<exists>c \<in> set (customer_customers s).
          cm_user_id m = u \<and> cm_customer_id m = cus_id c
        \<and> e = \<lparr>mce_customer_id = cus_id c, mce_customer_name = cus_name c, mce_role = cm_role m\<rparr>))
     \<and> distinct (map mce_customer_id (list_my_customers u s))"
proof -
  have inv: "membership_inv s" by (rule membership_run.reachable [OF assms(1,2)])
  note I = inv [unfolded membership_inv_def memberships_unique_def]
  let ?ids = "customer_ids_for_user u s"
  have row: "e \<in> set (my_customer_rows u i s) \<longleftrightarrow> (\<exists>m \<in> set (customer_memberships s). \<exists>c \<in> set (customer_customers s).
      cm_user_id m = u \<and> cm_customer_id m = i \<and> cus_id c = i
    \<and> e = \<lparr>mce_customer_id = i, mce_customer_name = cus_name c, mce_role = cm_role m\<rparr>)" for e i
  proof
    assume "\<exists>m \<in> set (customer_memberships s). \<exists>c \<in> set (customer_customers s).
      cm_user_id m = u \<and> cm_customer_id m = i \<and> cus_id c = i
    \<and> e = \<lparr>mce_customer_id = i, mce_customer_name = cus_name c, mce_role = cm_role m\<rparr>"
    then obtain m c where "m \<in> set (customer_memberships s)" "c \<in> set (customer_customers s)"
      "cm_user_id m = u" "cm_customer_id m = i" "cus_id c = i"
      "e = \<lparr>mce_customer_id = i, mce_customer_name = cus_name c, mce_role = cm_role m\<rparr>" by blast
    then show "e \<in> set (my_customer_rows u i s)"
      by (auto simp: my_customer_rows_def intro!: bexI [of _ c] bexI [of _ m])
  qed (auto simp: my_customer_rows_def)
  have "e = e'" if two: "e \<in> set (my_customer_rows u i s)" "e' \<in> set (my_customer_rows u i s)" for e e' i
  proof -
    from two obtain m c m' c' where *: "m \<in> set (customer_memberships s)" "m' \<in> set (customer_memberships s)"
        "c \<in> set (customer_customers s)" "c' \<in> set (customer_customers s)" "cus_id c = i" "cus_id c' = i"
        "cm_user_id m = u" "cm_user_id m' = u" "cm_customer_id m = i" "cm_customer_id m' = i"
        "e = \<lparr>mce_customer_id = i, mce_customer_name = cus_name c, mce_role = cm_role m\<rparr>"
        "e' = \<lparr>mce_customer_id = i, mce_customer_name = cus_name c', mce_role = cm_role m'\<rparr>"
      unfolding row by blast
    have "c = c'" using unique_by_key [of cus_id "customer_customers s" c c'] I * by simp
    moreover have "m = m'"
      using unique_by_key [of "\<lambda>m. (cm_customer_id m, cm_user_id m)" "customer_memberships s" m m'] I * by simp
    ultimately show ?thesis using * by simp
  qed
  then have all_eq: "\<forall>e \<in> set (my_customer_rows u i s). \<forall>e' \<in> set (my_customer_rows u i s). e = e'" for i
    by blast
  have one: "set (take 1 (my_customer_rows u i s)) = set (my_customer_rows u i s)" for i
    using all_eq [of i] by (cases "my_customer_rows u i s") auto
  have "e \<in> set (list_my_customers u s) \<longleftrightarrow> (\<exists>i \<in> set ?ids. e \<in> set (my_customer_rows u i s))"
    unfolding list_my_customers_def set_concat set_map image_image one by blast
  also have "\<dots> \<longleftrightarrow>
       (\<exists>m \<in> set (customer_memberships s). \<exists>c \<in> set (customer_customers s).
          cm_user_id m = u \<and> cm_customer_id m = cus_id c
        \<and> e = \<lparr>mce_customer_id = cus_id c, mce_customer_name = cus_name c, mce_role = cm_role m\<rparr>)"
    unfolding row Bex_def customer_ids_for_user_iff [OF inv, unfolded Bex_def] by metis
  finally have "e \<in> set (list_my_customers u s) \<longleftrightarrow>
       (\<exists>m \<in> set (customer_memberships s). \<exists>c \<in> set (customer_customers s).
          cm_user_id m = u \<and> cm_customer_id m = cus_id c
        \<and> e = \<lparr>mce_customer_id = cus_id c, mce_customer_name = cus_name c, mce_role = cm_role m\<rparr>)" .
  moreover have "distinct ?ids"
  proof -
    have "distinct (filter (\<lambda>r. fst r = u) (user_customer_index s))" using I by simp
    moreover have "inj_on snd (set (filter (\<lambda>r. fst r = u) (user_customer_index s)))"
      by (auto simp: inj_on_def)
    ultimately show ?thesis by (simp add: customer_ids_for_user_def distinct_map)
  qed
  then have "distinct (map mce_customer_id (list_my_customers u s))"
    unfolding list_my_customers_def
  proof (rule distinct_concat_tagged)
    show "length (take 1 (my_customer_rows u i s)) \<le> 1 \<and> mce_customer_id ` set (take 1 (my_customer_rows u i s)) \<subseteq> {i}" for i
    proof
      show "length (take 1 (my_customer_rows u i s)) \<le> 1" by simp
      show "mce_customer_id ` set (take 1 (my_customer_rows u i s)) \<subseteq> {i}"
        unfolding one by (auto simp: my_customer_rows_def)
    qed
  qed
  ultimately show ?thesis by blast
qed

definition sample_team :: db where
  "sample_team = snd (create_workspace 7 ''w'' ''op'' sample_members)"

lemma sample_members_workspaces: "workspace_workspaces sample_members = []"
  by (simp add: sample_members_def member_run_def run_tx_def create_customer_with_owner_def
      invite_customer_member_def row_defaults_def utcnow_def uuid4_def Let_def ok_def member_key_def)

lemma sample_team_reachable: "no_members empty_db \<and> membership_step\<^sup>*\<^sup>* empty_db sample_team"
proof -
  let ?s1 = "member_run (CREATE 7 ''acme'' 3 ''op'') empty_db"
  have "membership_step empty_db ?s1"
    unfolding member_run_def member_request.case by (rule new_customer) (rule refl)
  moreover have "in_customer 7 ?s1"
    by (simp add: in_customer_def member_run_def run_tx_def create_customer_with_owner_def row_defaults_def utcnow_def
        uuid4_def Let_def ok_def)
  then have "membership_step ?s1 sample_members"
    unfolding sample_members_def fold_simps comp_apply id_apply
    by (subst member_run_def [of "INVITE _ _ _ _"], unfold member_request.case, intro invite [OF _ refl]) simp
  moreover have "membership_step sample_members sample_team"
    unfolding sample_team_def by (rule new_workspace [OF _ refl]) (simp add: in_customer_def sample_members_rows)
  moreover have "no_members empty_db" by (simp add: no_members_def inj_def empty_db_def)
  ultimately show ?thesis by (meson converse_rtranclp_into_rtranclp rtranclp.rtrancl_refl)
qed

text \<open>
  C40: in every state the requests can reach the workspace memberships are well-typed.  The role
  column always holds the text of a workspace role; the customer a row names is the customer of its
  workspace, which exists, and is what the index of tenants answers for it; the customer membership
  it refers to is one of that customer, or it is gone and no later state holds one of that
  identifier (nothing but the services removes the row, there is no foreign key).  So resolving a
  context never fails on a stored role.
\<close>

theorem memberships_are_well_typed:
  assumes "no_members s\<^sub>0" "membership_step\<^sup>*\<^sup>* s\<^sub>0 s" "membership_step\<^sup>*\<^sup>* s t"
  shows "(\<forall>m \<in> set (workspace_memberships s). parse_workspace_role (wm_role m) \<noteq> None
        \<and> (\<exists>w \<in> set (workspace_workspaces s). ws_id w = wm_workspace_id m \<and> ws_customer_id w = wm_customer_id m)
        \<and> workspace_tenant_index s (wm_workspace_id m) = Some (wm_customer_id m)
        \<and> ((\<exists>cm \<in> set (customer_memberships s). cm_id cm = wm_customer_membership_id m
                \<and> cm_customer_id cm = wm_customer_id m)
           \<or> wm_customer_membership_id m \<notin> cm_id ` (set (customer_memberships s) \<union> set (customer_memberships t))))
     \<and> get_workspace_context u v archived s \<noteq> Inl (Unhandled ''ValueError'')"
proof -
  have inv: "membership_inv s" by (rule membership_run.reachable [OF assms(1,2)])
  have owned: "members_owned s" by (rule owned_run.reachable [OF assms(1,2)])
  from inv have ten: "memberships_in_tenant s" and uni: "distinct (map ws_id (workspace_workspaces s))"
    and role: "wm_role ` set (workspace_memberships s) \<subseteq> range workspace_role_value"
    and iss: "inj (uuid_src s)" "wm_customer_membership_id ` set (workspace_memberships s) \<subseteq> issued s"
    and index: "workspace_tenant_index s = (\<lambda>w. map_option ws_customer_id (tget ws_id w (workspace_workspaces s)))"
    by (simp_all add: membership_inv_def memberships_unique_def)
  have typed: "parse_workspace_role (wm_role m) \<noteq> None" if "m \<in> set (workspace_memberships s)" for m
    using role that by force
  have row: "(\<exists>w \<in> set (workspace_workspaces s). ws_id w = wm_workspace_id m \<and> ws_customer_id w = wm_customer_id m)
      \<and> workspace_tenant_index s (wm_workspace_id m) = Some (wm_customer_id m)
      \<and> ((\<exists>cm \<in> set (customer_memberships s). cm_id cm = wm_customer_membership_id m \<and> cm_customer_id cm = wm_customer_id m)
         \<or> wm_customer_membership_id m \<notin> cm_id ` (set (customer_memberships s) \<union> set (customer_memberships t)))"
    if m: "m \<in> set (workspace_memberships s)" for m
  proof (intro conjI)
    obtain w where w: "w \<in> set (workspace_workspaces s)" "ws_id w = wm_workspace_id m" "ws_customer_id w = wm_customer_id m"
      using owned m by (force simp: members_owned_def)
    then show "\<exists>w \<in> set (workspace_workspaces s). ws_id w = wm_workspace_id m \<and> ws_customer_id w = wm_customer_id m"
      by blast
    show "workspace_tenant_index s (wm_workspace_id m) = Some (wm_customer_id m)"
      using tget_distinct [OF uni w(1)] w(2,3) by (simp add: index)
    show "(\<exists>cm \<in> set (customer_memberships s). cm_id cm = wm_customer_membership_id m \<and> cm_customer_id cm = wm_customer_id m)
        \<or> wm_customer_membership_id m \<notin> cm_id ` (set (customer_memberships s) \<union> set (customer_memberships t))"
    proof (cases "wm_customer_membership_id m \<in> cm_id ` set (customer_memberships s)")
      case True
      then obtain cm where cm: "cm \<in> set (customer_memberships s)" "cm_id cm = wm_customer_membership_id m" by force
      then have "cm_customer_id cm = ws_customer_id w"
        using ten m w(1,2) unfolding memberships_in_tenant_def by simp
      with cm w(3) show ?thesis by auto
    next
      case False
      moreover have "wm_customer_membership_id m \<in> issued s" using iss(2) m by blast
      ultimately show ?thesis using gone_for_good [OF assms(3) iss(1)] by (simp add: image_Un)
    qed
  qed
  have "get_workspace_context u v archived s \<noteq> Inl (Unhandled ''ValueError'')"
  proof -
    have "parse_workspace_role (wm_role m) \<noteq> None" if "membership_join u v s = (m, cm) # rest" for m cm rest
      using membership_join_mem [of m cm u v s] typed [of m] by (simp add: that)
    then show ?thesis by (auto simp: get_workspace_context_def split: option.splits list.splits)
  qed
  then show ?thesis using row typed by blast
qed

theorem my_workspaces_are_accessible_witness:
  "\<exists>es. list_my_workspaces 3 sample_team = Inr es \<and> mwe_role ` set es = {''workspace_admin''}
     \<and> (\<exists>e \<in> set es. \<exists>ctx. get_workspace_context 3 (mwe_workspace_id e) False sample_team = Inr ctx)"
proof -
  let ?e = "\<lparr>mwe_customer_id = 7, mwe_customer_name = ''acme'',
      mwe_workspace_id = uuid_src sample_members (drawn sample_members), mwe_workspace_name = ''w'',
      mwe_role = ''workspace_admin''\<rparr>"
  have listed: "list_my_workspaces 3 sample_team = Inr [?e]"
    by (simp add: sample_team_def create_workspace_def row_defaults_def uuid4_def Let_def list_my_workspaces_def
        customer_ids_for_user_def sample_members_rows sample_members_workspaces my_workspaces_in_def
        customer_role_string_def)
  note shown = my_workspaces_are_accessible [OF conjunct1 [OF sample_team_reachable] conjunct2 [OF sample_team_reachable], of 3]
  have role: "mwe_role ?e = workspace_role_value WR_ADMIN" by simp
  obtain es where es: "list_my_workspaces 3 sample_team = Inr es"
    and ctx: "(\<exists>e \<in> set es. mwe_workspace_id e = mwe_workspace_id ?e \<and> mwe_role e = workspace_role_value WR_ADMIN)
      \<longleftrightarrow> (\<exists>ctx. get_workspace_context 3 (mwe_workspace_id ?e) False sample_team = Inr ctx \<and> wc_role ctx = WR_ADMIN)"
    using shown by blast
  have "es = [?e]" using es listed by simp
  then have "?e \<in> set es" by simp
  with ctx role have "\<exists>ctx. get_workspace_context 3 (mwe_workspace_id ?e) False sample_team = Inr ctx" by blast
  with listed show ?thesis by auto
qed

theorem my_customers_are_memberships_witness:
  "\<lparr>mce_customer_id = 7, mce_customer_name = ''acme'', mce_role = ''member''\<rparr> \<in> set (list_my_customers 4 sample_team)"
proof -
  have rows: "customer_memberships sample_team = customer_memberships sample_members"
    "customer_customers sample_team = customer_customers sample_members"
    by (simp_all add: sample_team_def create_workspace_def row_defaults_def uuid4_def Let_def)
  show ?thesis
    using my_customers_are_memberships [OF conjunct1 [OF sample_team_reachable] conjunct2 [OF sample_team_reachable],
        of "\<lparr>mce_customer_id = 7, mce_customer_name = ''acme'', mce_role = ''member''\<rparr>" 4]
    by (simp add: rows sample_members_rows)
qed

text \<open>User 4 joins the workspace.\<close>

definition sample_member :: customer_membership_row where
  "sample_member = \<lparr>cm_id = 3, cm_created_at = 4, cm_customer_id = 7, cm_user_id = 4, cm_role = ''member''\<rparr>"

definition sample_staffed :: db where
  "sample_staffed = snd (run_tx (add_workspace_member (hd (workspace_workspaces sample_team)) sample_member
     (workspace_role_value WR_MEMBER) ''op'') sample_team)"

lemma sample_team_rows:
  "customer_memberships sample_team = customer_memberships sample_members"
  "\<exists>w. workspace_workspaces sample_team = [w] \<and> ws_customer_id w = 7"
  "workspace_memberships sample_team = []"
proof -
  have "workspace_memberships sample_members = []"
    by (simp add: sample_members_def member_run_def run_tx_def create_customer_with_owner_def
        invite_customer_member_def row_defaults_def utcnow_def uuid4_def Let_def ok_def member_key_def)
  then show "workspace_memberships sample_team = []"
    by (simp add: sample_team_def create_workspace_def row_defaults_def uuid4_def Let_def)
qed (simp_all add: sample_team_def create_workspace_def row_defaults_def uuid4_def Let_def sample_members_workspaces)

lemma sample_staffed_reachable: "membership_step\<^sup>*\<^sup>* empty_db sample_staffed"
proof -
  obtain w where w: "workspace_workspaces sample_team = [w]" "ws_customer_id w = 7" using sample_team_rows(2) by blast
  have "membership_inv sample_team"
    by (rule membership_run.reachable [OF conjunct1 [OF sample_team_reachable] conjunct2 [OF sample_team_reachable]])
  then have "cm_id sample_member \<in> issued sample_team"
    by (simp add: membership_inv_def sample_team_rows sample_members_rows sample_member_def)
  then have "loaded_member sample_member sample_team"
    by (auto simp: loaded_member_def sample_team_rows sample_members_rows sample_member_def)
  moreover have "loaded_workspace (hd (workspace_workspaces sample_team)) sample_team"
    by (auto simp: loaded_workspace_def w intro: exI [of _ "ws_archived_at w"])
  ultimately have "membership_step sample_team sample_staffed"
    unfolding sample_staffed_def by (intro membership_step.add [OF _ _ refl])
  with conjunct2 [OF sample_team_reachable] show ?thesis by (rule rtranclp.rtrancl_into_rtrancl)
qed

theorem memberships_are_well_typed_witness:
  "\<exists>m \<in> set (workspace_memberships sample_staffed). wm_customer_id m = 7 \<and> parse_workspace_role (wm_role m) \<noteq> None
     \<and> workspace_tenant_index sample_staffed (wm_workspace_id m) = Some 7
     \<and> (\<exists>cm \<in> set (customer_memberships sample_staffed). cm_id cm = wm_customer_membership_id m \<and> cm_customer_id cm = 7)"
proof -
  obtain w where w: "workspace_workspaces sample_team = [w]" "ws_customer_id w = 7" using sample_team_rows(2) by blast
  obtain m where m: "m \<in> set (workspace_memberships sample_staffed)" "wm_customer_id m = 7"
      "wm_customer_membership_id m = 3"
    by (simp add: sample_staffed_def run_tx_def add_workspace_member_def w sample_member_def Let_def row_defaults_def
        sample_team_rows uuid4_def ok_def)
  have there: "3 \<in> cm_id ` set (customer_memberships sample_staffed)"
    by (simp add: sample_staffed_def run_tx_def add_workspace_member_def w sample_member_def Let_def row_defaults_def
        sample_team_rows sample_members_rows uuid4_def ok_def)
  note typed = memberships_are_well_typed [OF conjunct1 [OF sample_team_reachable] sample_staffed_reachable
      rtranclp.rtrancl_refl, of 4 0 False]
  from bspec [OF conjunct1 [OF typed] m(1)] m(2,3) there show ?thesis by (intro bexI [OF _ m(1)]) auto
qed

end
