(* ===== verification/Members_Api.thy ===== *)
theory Members_Api
  imports Workspaces Api_Context
begin

text \<open>
  \<open>doda/api/customer_admin.py\<close> and \<open>doda/api/workspace_admin.py\<close> with their schemas: the handlers
  that manage the members of a customer and of a workspace, archive and restore a workspace and set
  its language.  Every lookup by identifier is a tenant guard behind an authorization check.
\<close>

section \<open>Customers\<close>

abbreviation customer_actor :: "customer_context \<Rightarrow> string" where
  "customer_actor ctx \<equiv> user_actor (cc_user_id ctx)"

record customer_membership_out =
  cmo_id :: uuid
  cmo_customer_id :: uuid
  cmo_user_id :: uuid
  cmo_role :: string

definition to_customer_membership_out :: "customer_membership_row \<Rightarrow> customer_membership_out" where
  "to_customer_membership_out membership =
     \<lparr>cmo_id = cm_id membership, cmo_customer_id = cm_customer_id membership, cmo_user_id = cm_user_id membership,
      cmo_role = cm_role membership\<rparr>"

definition invite_member :: "uuid \<Rightarrow> customer_role \<Rightarrow> customer_context \<Rightarrow> db \<Rightarrow> customer_membership_out response" where
  "invite_member user_id role ctx s =
     bind_err (require (authorize_manage_customer_members ctx) s) (\<lambda>_ s.
     if tget usr_id user_id (identity_users s) = None then raise (HttpException 404 ''user not found'') s
     else bind_err (invite_customer_member (cc_customer_id ctx) user_id role (customer_actor ctx) s) (\<lambda>membership s.
          ok (to_customer_membership_out membership) s))"

definition list_customer_roster :: "customer_context \<Rightarrow> db \<Rightarrow> customer_member_entry list response" where
  "list_customer_roster ctx s = ok (list_customer_members (cc_customer_id ctx) s) s"

definition get_customer_membership :: "customer_context \<Rightarrow> uuid \<Rightarrow> db \<Rightarrow> customer_membership_row response" where
  "get_customer_membership ctx membership_id s =
     (case tget cm_id membership_id (customer_memberships s) of
        None \<Rightarrow> raise (HttpException 404 ''customer membership not found'') s
      | Some membership \<Rightarrow>
          if cm_customer_id membership \<noteq> cc_customer_id ctx
          then raise (HttpException 404 ''customer membership not found'') s
          else ok membership s)"

definition change_customer_role ::
  "uuid \<Rightarrow> customer_role \<Rightarrow> customer_context \<Rightarrow> db \<Rightarrow> customer_membership_out response" where
  "change_customer_role membership_id role ctx s =
     bind_err (require (authorize_manage_customer_members ctx) s) (\<lambda>_ s.
     bind_err (get_customer_membership ctx membership_id s) (\<lambda>membership s.
     bind_err (change_customer_member_role membership role (customer_actor ctx) s) (\<lambda>membership s.
     ok (to_customer_membership_out membership) s)))"

definition remove_from_customer :: "uuid \<Rightarrow> customer_context \<Rightarrow> db \<Rightarrow> unit response" where
  "remove_from_customer membership_id ctx s =
     bind_err (require (authorize_manage_customer_members ctx) s) (\<lambda>_ s.
     bind_err (get_customer_membership ctx membership_id s) (\<lambda>membership s.
     remove_customer_member membership (customer_actor ctx) s))"

section \<open>Workspaces\<close>

record workspace_out =
  wo_id :: uuid
  wo_customer_id :: uuid
  wo_name :: string
  wo_archived_at :: "instant option"

definition to_workspace_out :: "workspace_row \<Rightarrow> workspace_out" where
  "to_workspace_out workspace =
     \<lparr>wo_id = ws_id workspace, wo_customer_id = ws_customer_id workspace, wo_name = ws_name workspace,
      wo_archived_at = ws_archived_at workspace\<rparr>"

definition list_archived :: "customer_context \<Rightarrow> db \<Rightarrow> workspace_out list response" where
  "list_archived ctx s =
     bind_err (require (authorize_view_archived_workspaces ctx) s) (\<lambda>_ s.
     ok (map to_workspace_out (list_archived_workspaces (cc_customer_id ctx) s)) s)"

record workspace_membership_out =
  wmo_id :: uuid
  wmo_customer_membership_id :: uuid
  wmo_workspace_id :: uuid
  wmo_role :: string

definition to_workspace_membership_out :: "workspace_membership_row \<Rightarrow> workspace_membership_out" where
  "to_workspace_membership_out membership =
     \<lparr>wmo_id = wm_id membership, wmo_customer_membership_id = wm_customer_membership_id membership,
      wmo_workspace_id = wm_workspace_id membership, wmo_role = wm_role membership\<rparr>"

definition get_current_workspace :: "request_context \<Rightarrow> db \<Rightarrow> workspace_row response" where
  "get_current_workspace ctx s =
     (case tget ws_id (wc_workspace_id (rc_workspace ctx)) (workspace_workspaces s) of
        None \<Rightarrow> raise (Unhandled ''AssertionError'') s
      | Some workspace \<Rightarrow> ok workspace s)"

text \<open>
  \<open>add_member\<close> looks the membership up by its identifier alone and relies on row level security
  to hide another customer's row, so the lookup sees the tenant's rows.
\<close>

definition add_member :: "uuid \<Rightarrow> workspace_role \<Rightarrow> request_context \<Rightarrow> db \<Rightarrow> workspace_membership_out response" where
  "add_member customer_membership_id role ctx s =
     bind_err (require (authorize_manage_workspace_members (rc_workspace ctx)) s) (\<lambda>_ s.
     case tget cm_id customer_membership_id
            (filter (\<lambda>m. cm_customer_id m = wc_customer_id (rc_workspace ctx)) (customer_memberships s)) of
       None \<Rightarrow> raise (HttpException 404 ''customer membership not found'') s
     | Some customer_membership \<Rightarrow>
         bind_err (get_current_workspace ctx s) (\<lambda>workspace s.
         bind_err (add_workspace_member workspace customer_membership (workspace_role_value role) (ctx_actor ctx) s)
           (\<lambda>membership s. ok (to_workspace_membership_out membership) s)))"

definition list_workspace_roster :: "request_context \<Rightarrow> db \<Rightarrow> workspace_member_entry list response" where
  "list_workspace_roster ctx s =
     (case list_workspace_members (wc_workspace_id (rc_workspace ctx)) s of
        Inl e \<Rightarrow> raise e s
      | Inr entries \<Rightarrow> ok entries s)"

definition get_workspace_membership :: "request_context \<Rightarrow> uuid \<Rightarrow> db \<Rightarrow> workspace_membership_row response" where
  "get_workspace_membership ctx membership_id s =
     (case tget wm_id membership_id (workspace_memberships s) of
        None \<Rightarrow> raise (HttpException 404 ''workspace membership not found'') s
      | Some membership \<Rightarrow>
          if wm_workspace_id membership \<noteq> wc_workspace_id (rc_workspace ctx)
          then raise (HttpException 404 ''workspace membership not found'') s
          else ok membership s)"

definition change_workspace_role ::
  "uuid \<Rightarrow> workspace_role \<Rightarrow> request_context \<Rightarrow> db \<Rightarrow> workspace_membership_out response" where
  "change_workspace_role membership_id role ctx s =
     bind_err (require (authorize_manage_workspace_members (rc_workspace ctx)) s) (\<lambda>_ s.
     bind_err (get_workspace_membership ctx membership_id s) (\<lambda>membership s.
     bind_err (change_workspace_member_role membership (workspace_role_value role) (ctx_actor ctx) s) (\<lambda>membership s.
     ok (to_workspace_membership_out membership) s)))"

definition remove_from_workspace :: "uuid \<Rightarrow> request_context \<Rightarrow> db \<Rightarrow> unit response" where
  "remove_from_workspace membership_id ctx s =
     bind_err (require (authorize_manage_workspace_members (rc_workspace ctx)) s) (\<lambda>_ s.
     bind_err (get_workspace_membership ctx membership_id s) (\<lambda>membership s.
     ok () (remove_workspace_member membership (ctx_actor ctx) s)))"

definition archive_current_workspace :: "request_context \<Rightarrow> db \<Rightarrow> workspace_out response" where
  "archive_current_workspace ctx s =
     bind_err (require (authorize_archive_workspace (rc_workspace ctx)) s) (\<lambda>_ s.
     bind_err (get_current_workspace ctx s) (\<lambda>workspace s.
     (let (w, t) = archive_workspace workspace (ctx_actor ctx) s in ok (to_workspace_out w) t)))"

definition restore_current_workspace :: "request_context \<Rightarrow> db \<Rightarrow> workspace_out response" where
  "restore_current_workspace ctx s =
     bind_err (require (authorize_archive_workspace (rc_workspace ctx)) s) (\<lambda>_ s.
     bind_err (get_current_workspace ctx s) (\<lambda>workspace s.
     (let (w, t) = restore_workspace workspace (ctx_actor ctx) s in ok (to_workspace_out w) t)))"

definition get_current_workspace_language :: "request_context \<Rightarrow> db \<Rightarrow> string option response" where
  "get_current_workspace_language ctx s =
     ok (get_workspace_language (wc_workspace_id (rc_workspace ctx)) s) s"

text \<open>The body's language is one of the literals \<open>UZ\<close>, \<open>RU\<close>, \<open>EN\<close> or null.\<close>

definition set_current_workspace_language :: "string option \<Rightarrow> request_context \<Rightarrow> db \<Rightarrow> string option response" where
  "set_current_workspace_language language ctx s =
     bind_err (require (authorize_manage_workspace_settings (rc_workspace ctx)) s) (\<lambda>_ s.
     (let (setting, t) = set_workspace_language (wc_customer_id (rc_workspace ctx)) (wc_workspace_id (rc_workspace ctx))
                           (ctx_actor ctx) language s
      in ok (wl_language setting) t))"

section \<open>The lookups are tenant guards\<close>

interpretation customer_member_guard: tenant_guard "\<lambda>i s. tget cm_id i (customer_memberships s)" cm_customer_id
    cc_customer_id get_customer_membership "HttpException 404 ''customer membership not found''"
  by unfold_locales (simp_all add: get_customer_membership_def)

interpretation workspace_member_guard: tenant_guard "\<lambda>i s. tget wm_id i (workspace_memberships s)" wm_workspace_id
    "\<lambda>ctx. wc_workspace_id (rc_workspace ctx)" get_workspace_membership
    "HttpException 404 ''workspace membership not found''"
  by unfold_locales (simp_all add: get_workspace_membership_def)

end
