(* ===== verification/Tasks.thy ===== *)
theory Tasks
  imports Notifications
begin

text \<open>
  \<open>doda/application/task_service.py\<close>: tasks with their status history, decisions, reminders and
  plans.  A task is re-read under its lock before its status changes; a reminder is not, so the
  reminder a request works on is passed as the value it loaded.
\<close>

section \<open>Tasks and their history\<close>

definition all_task_statuses :: "task_status list" where
  "all_task_statuses = [T_TODO, T_IN_PROGRESS, T_DONE, T_CANCELLED]"

primrec allowed_task_transitions :: "task_status \<Rightarrow> task_status list" where
  "allowed_task_transitions T_TODO = [T_IN_PROGRESS, T_CANCELLED]"
| "allowed_task_transitions T_IN_PROGRESS = [T_DONE, T_CANCELLED]"
| "allowed_task_transitions T_DONE = []"
| "allowed_task_transitions T_CANCELLED = []"

definition add_history :: "task_row \<Rightarrow> string \<Rightarrow> task_status option \<Rightarrow> task_status \<Rightarrow> db \<Rightarrow> db" where
  "add_history task actor_id from_status to_status s =
     (let (new_id, created, s1) = row_defaults s;
          entry = \<lparr>th_id = new_id, th_created_at = created, th_customer_id = tsk_customer_id task,
                   th_task_id = tsk_id task, th_actor_id = actor_id, th_from_status = from_status,
                   th_to_status = to_status\<rparr>
      in s1\<lparr>task_history := task_history s1 @ [entry]\<rparr>)"

definition create_task ::
  "uuid \<Rightarrow> uuid \<Rightarrow> string \<Rightarrow> string \<Rightarrow> instant option \<Rightarrow> uuid option \<Rightarrow> db \<Rightarrow> (app_error + task_row) \<times> db" where
  "create_task customer_id workspace_id owner_id title due_date parent_task_id s =
     (if (case parent_task_id of
            None \<Rightarrow> False
          | Some p \<Rightarrow> (case tget tsk_id p (task_tasks s) of
                         None \<Rightarrow> True | Some parent \<Rightarrow> tsk_workspace_id parent \<noteq> workspace_id))
      then raise TaskParentNotFoundError s
      else
        let (new_id, created, s1) = row_defaults s;
            task = \<lparr>tsk_id = new_id, tsk_created_at = created, tsk_customer_id = customer_id,
                    tsk_workspace_id = workspace_id, tsk_owner_id = owner_id, tsk_title = title,
                    tsk_parent_task_id = parent_task_id, tsk_status = T_TODO, tsk_due_date = due_date\<rparr>;
            s2 = s1\<lparr>task_tasks := task_tasks s1 @ [task]\<rparr>
        in ok task (add_history task owner_id None T_TODO s2))"

text \<open>The object after the locking, refreshing select.\<close>

definition current_task :: "task_row \<Rightarrow> db \<Rightarrow> task_row" where
  "current_task task s = (case tget tsk_id (tsk_id task) (task_tasks s) of None \<Rightarrow> task | Some r \<Rightarrow> r)"

definition change_task_status ::
  "task_row \<Rightarrow> task_status \<Rightarrow> string \<Rightarrow> db \<Rightarrow> (app_error + task_row) \<times> db" where
  "change_task_status loaded target actor_id s =
     (let task = current_task loaded s; previous = tsk_status task in
      if target \<notin> set (allowed_task_transitions previous) then raise (InvalidTaskTransition previous target) s
      else
        let task = task\<lparr>tsk_status := target\<rparr>;
            s1 = s\<lparr>task_tasks := tupd tsk_id (tsk_id task) (\<lambda>t. t\<lparr>tsk_status := target\<rparr>) (task_tasks s)\<rparr>;
            s2 = add_history task actor_id (Some previous) target s1
        in ok task
             (if target = T_DONE
              then notify (tsk_customer_id task) (tsk_owner_id task) COMPLETED_TASK ''task'' (tsk_id task)
                     (Some (tsk_workspace_id task)) [(''title'', JStr (tsk_title task))] s2
              else s2))"

definition list_task_history :: "uuid \<Rightarrow> db \<Rightarrow> task_history_row list" where
  "list_task_history task_id s =
     sort_key th_created_at (filter (\<lambda>h. th_task_id h = task_id) (task_history s))"

section \<open>Decisions\<close>

definition record_task_decision ::
  "task_row \<Rightarrow> string \<Rightarrow> string \<Rightarrow> string \<Rightarrow> string \<Rightarrow> string \<Rightarrow> db \<Rightarrow> task_decision_row \<times> db" where
  "record_task_decision task actor_id variant tradeoff decision reason s =
     (let (new_id, created, s1) = row_defaults s;
          record = \<lparr>td_id = new_id, td_created_at = created, td_customer_id = tsk_customer_id task,
                    td_task_id = tsk_id task, td_actor_id = actor_id, td_variant = variant,
                    td_tradeoff = tradeoff, td_decision = decision, td_reason = reason\<rparr>
      in (record, s1\<lparr>task_decisions := task_decisions s1 @ [record]\<rparr>))"

definition list_task_decisions :: "uuid \<Rightarrow> db \<Rightarrow> task_decision_row list" where
  "list_task_decisions task_id s =
     sort_key td_created_at (filter (\<lambda>d. td_task_id d = task_id) (task_decisions s))"

section \<open>Reminders\<close>

primrec reminder_status_value :: "reminder_status \<Rightarrow> string" where
  "reminder_status_value R_PENDING_CONFIRMATION = ''PENDING_CONFIRMATION''"
| "reminder_status_value R_CONFIRMED = ''CONFIRMED''"
| "reminder_status_value R_CANCELLED = ''CANCELLED''"
| "reminder_status_value R_FIRED = ''FIRED''"

definition request_reminder :: "task_row \<Rightarrow> string \<Rightarrow> instant \<Rightarrow> db \<Rightarrow> reminder_row \<times> db" where
  "request_reminder task actor_id remind_at s =
     (let (new_id, created, s1) = row_defaults s;
          reminder = \<lparr>rem_id = new_id, rem_created_at = created, rem_customer_id = tsk_customer_id task,
                      rem_workspace_id = tsk_workspace_id task, rem_task_id = tsk_id task,
                      rem_actor_id = actor_id, rem_remind_at = remind_at,
                      rem_status = R_PENDING_CONFIRMATION, rem_confirmed_at = None, rem_fired_at = None\<rparr>
      in (reminder, s1\<lparr>task_reminders := task_reminders s1 @ [reminder]\<rparr>))"

definition set_reminder :: "reminder_row \<Rightarrow> (reminder_row \<Rightarrow> reminder_row) \<Rightarrow> db \<Rightarrow> db" where
  "set_reminder reminder f s = s\<lparr>task_reminders := tupd rem_id (rem_id reminder) f (task_reminders s)\<rparr>"

definition confirm_reminder :: "reminder_row \<Rightarrow> instant \<Rightarrow> db \<Rightarrow> (app_error + reminder_row) \<times> db" where
  "confirm_reminder reminder remind_at s =
     (if rem_status reminder \<noteq> R_PENDING_CONFIRMATION
      then raise (ReminderNotPendingError (''reminder '' @ uuid_str (rem_id reminder) @ '' is ''
             @ reminder_status_value (rem_status reminder) @ '', not pending'')) s
      else if rem_remind_at reminder \<noteq> remind_at then raise ReminderConfirmationMismatchError s
      else
        let (now, s1) = utcnow s;
            confirm = (\<lambda>r. r\<lparr>rem_status := R_CONFIRMED, rem_confirmed_at := Some now\<rparr>)
        in ok (confirm reminder) (set_reminder reminder confirm s1))"

definition cancel_reminder :: "reminder_row \<Rightarrow> db \<Rightarrow> (app_error + reminder_row) \<times> db" where
  "cancel_reminder reminder s =
     (if rem_status reminder \<notin> set [R_PENDING_CONFIRMATION, R_CONFIRMED]
      then raise (ReminderNotPendingError (''reminder '' @ uuid_str (rem_id reminder) @ '' is ''
             @ reminder_status_value (rem_status reminder) @ '', cannot be cancelled'')) s
      else ok (reminder\<lparr>rem_status := R_CANCELLED\<rparr>)
             (set_reminder reminder (\<lambda>r. r\<lparr>rem_status := R_CANCELLED\<rparr>) s))"

definition list_reminders_for_task :: "uuid \<Rightarrow> db \<Rightarrow> reminder_row list" where
  "list_reminders_for_task task_id s =
     sort_key rem_created_at (filter (\<lambda>r. rem_task_id r = task_id) (task_reminders s))"

text \<open>
  The firing job runs in the tenant's session and has no customer predicate of its own: what it
  sees is what row level security leaves, the rows of \<open>tenant\<close>.
\<close>

definition due_reminders :: "uuid \<Rightarrow> instant \<Rightarrow> db \<Rightarrow> reminder_row list" where
  "due_reminders tenant now s =
     filter (\<lambda>r. rem_customer_id r = tenant \<and> rem_status r = R_CONFIRMED \<and> rem_remind_at r \<le> now)
       (task_reminders s)"

definition fire_reminder :: "instant \<Rightarrow> task_row \<Rightarrow> reminder_row \<Rightarrow> db \<Rightarrow> db" where
  "fire_reminder now task reminder s =
     set_reminder reminder (\<lambda>r. r\<lparr>rem_status := R_FIRED, rem_fired_at := Some now\<rparr>)
       (notify (rem_customer_id reminder) (rem_actor_id reminder) REMINDER_DUE ''task'' (tsk_id task)
          (Some (rem_workspace_id reminder)) [(''title'', JStr (tsk_title task))] s)"

fun fire_all ::
  "(uuid \<Rightarrow> task_row option) \<Rightarrow> instant \<Rightarrow> reminder_row list \<Rightarrow> db \<Rightarrow> (app_error + unit) \<times> db" where
  "fire_all tasks_by_id now [] s = ok () s"
| "fire_all tasks_by_id now (reminder # due) s =
     (case tasks_by_id (rem_task_id reminder) of
        None \<Rightarrow> raise (Unhandled ''KeyError'') s
      | Some task \<Rightarrow> fire_all tasks_by_id now due (fire_reminder now task reminder s))"

definition fire_due_reminders ::
  "uuid \<Rightarrow> instant option \<Rightarrow> db \<Rightarrow> (app_error + reminder_row list) \<times> db" where
  "fire_due_reminders tenant given s =
     (let (now, s1) = (case given of Some t \<Rightarrow> (t, s) | None \<Rightarrow> utcnow s);
          due = due_reminders tenant now s1;
          tasks_by_id = (\<lambda>i. tget tsk_id i (filter (\<lambda>t. tsk_customer_id t = tenant) (task_tasks s1)))
      in bind_err (fire_all tasks_by_id now due s1) (\<lambda>_ s.
           ok (map (\<lambda>r. r\<lparr>rem_status := R_FIRED, rem_fired_at := Some now\<rparr>) due) s))"

section \<open>Listing and planning\<close>

definition list_tasks_for_workspace ::
  "uuid \<Rightarrow> task_status option \<Rightarrow> int \<Rightarrow> db \<Rightarrow> app_error + task_row list" where
  "list_tasks_for_workspace workspace_id status limit s =
     sql_limit (min limit 200) (rev (sort_key tsk_created_at
       (filter (\<lambda>t. tsk_workspace_id t = workspace_id
                  \<and> (case status of None \<Rightarrow> True | Some st \<Rightarrow> tsk_status t = st)) (task_tasks s))))"

definition plan_windows :: "string \<Rightarrow> int option" where
  "plan_windows = [''daily'' \<mapsto> 24 * 60 * 60 * 1000000, ''weekly'' \<mapsto> 7 * 24 * 60 * 60 * 1000000]"

definition generate_task_plan ::
  "uuid \<Rightarrow> string \<Rightarrow> int \<Rightarrow> db \<Rightarrow> (app_error + task_row list) \<times> db" where
  "generate_task_plan workspace_id period limit s =
     (case plan_windows period of
        None \<Rightarrow> raise (Unhandled ''KeyError'') s
      | Some window \<Rightarrow>
          let (now, s1) = utcnow s; horizon = now + window in
          (sql_limit (min limit 200) (sort_key (\<lambda>t. the (tsk_due_date t))
             (filter (\<lambda>t. tsk_workspace_id t = workspace_id
                        \<and> (case tsk_due_date t of None \<Rightarrow> False | Some due \<Rightarrow> due \<le> horizon)
                        \<and> tsk_status t \<notin> set [T_DONE, T_CANCELLED]) (task_tasks s1))), s1))"

section \<open>The task state machine\<close>

definition task_edge :: "task_status \<Rightarrow> task_status \<Rightarrow> bool" where
  "task_edge a b \<longleftrightarrow> b \<in> set (allowed_task_transitions a)"

definition task_move :: "task_status \<Rightarrow> task_status \<Rightarrow> task_status option" where
  "task_move a b = (if b \<in> set (allowed_task_transitions a) then Some b else None)"

interpretation task_life: state_machine task_edge task_move
  by unfold_locales (simp add: task_move_def task_edge_def)

lemma task_edge_simps [simp]:
  "task_edge T_TODO b \<longleftrightarrow> b = T_IN_PROGRESS \<or> b = T_CANCELLED"
  "task_edge T_IN_PROGRESS b \<longleftrightarrow> b = T_DONE \<or> b = T_CANCELLED"
  "\<not> task_edge T_DONE b" "\<not> task_edge T_CANCELLED b"
  by (auto simp: task_edge_def)


section \<open>Interleaved requests on tasks\<close>

text \<open>
  A request that creates a task, one that moves a task through whatever object it loaded earlier,
  or anything that touches neither table.
\<close>

inductive task_step :: "db \<Rightarrow> db \<Rightarrow> bool" where
  created: "create_task c w owner title due parent s = (Inr t, u) \<Longrightarrow> task_step s u"
| changed: "tget tsk_id (tsk_id task) (task_tasks s) = Some row \<Longrightarrow>
    change_task_status task target actor s = (Inr t, u) \<Longrightarrow> task_step s u"
| elsewhere: "task_tasks u = task_tasks s \<Longrightarrow> task_history u = task_history s \<Longrightarrow>
    uuid_src u = uuid_src s \<Longrightarrow> clock u = clock s \<Longrightarrow> drawn s \<le> drawn u \<Longrightarrow> ticks s \<le> ticks u \<Longrightarrow> task_step s u"

inductive_cases task_stepE: "task_step s u"

text \<open>What the history of one task should look like: a path in the table from its creation.\<close>

fun history_chain :: "task_status option \<Rightarrow> task_history_row list \<Rightarrow> task_status \<Rightarrow> bool" where
  "history_chain prev [] st \<longleftrightarrow> prev = Some st"
| "history_chain prev (h # hs) st \<longleftrightarrow> th_from_status h = prev
     \<and> (case prev of None \<Rightarrow> th_to_status h = T_TODO | Some a \<Rightarrow> task_edge a (th_to_status h))
     \<and> history_chain (Some (th_to_status h)) hs st"

lemma history_chain_snoc:
  "history_chain prev hs a \<Longrightarrow> th_from_status h = Some a \<Longrightarrow> task_edge a (th_to_status h)
   \<Longrightarrow> history_chain prev (hs @ [h]) (th_to_status h)"
  by (induction prev hs a rule: history_chain.induct) auto

primrec moves_left :: "task_status \<Rightarrow> nat" where
  "moves_left T_TODO = 2" | "moves_left T_IN_PROGRESS = 1" | "moves_left T_DONE = 0" | "moves_left T_CANCELLED = 0"

lemma task_edge_moves_left: "task_edge a b \<Longrightarrow> moves_left b < moves_left a"
  by (cases a) auto

lemma history_chain_length: "history_chain (Some a) hs st \<Longrightarrow> length hs \<le> moves_left a"
proof (induction hs arbitrary: a)
  case (Cons h hs)
  then show ?case using task_edge_moves_left [of a "th_to_status h"] by fastforce
qed simp

lemma history_chain_bound: "history_chain None hs st \<Longrightarrow> 1 \<le> length hs \<and> length hs \<le> 3"
  by (cases hs) (auto dest!: history_chain_length)

definition history_of :: "uuid \<Rightarrow> db \<Rightarrow> task_history_row list" where
  "history_of i s = filter (\<lambda>h. th_task_id h = i) (task_history s)"

definition parent_edges :: "task_row list \<Rightarrow> (uuid \<times> uuid) set" where
  "parent_edges ts = {(tsk_id t, p) | t p. t \<in> set ts \<and> tsk_parent_task_id t = Some p}"

definition parents_ok :: "task_row list \<Rightarrow> bool" where
  "parents_ok ts \<longleftrightarrow> acyclic (parent_edges ts)
   \<and> (\<forall>t \<in> set ts. \<forall>p. tsk_parent_task_id t = Some p \<longrightarrow>
        (\<exists>q \<in> set ts. tsk_id q = p \<and> tsk_workspace_id q = tsk_workspace_id t))"

definition histories_ok :: "db \<Rightarrow> bool" where
  "histories_ok s \<longleftrightarrow> (\<forall>t \<in> set (task_tasks s). history_chain None (history_of (tsk_id t) s) (tsk_status t))
   \<and> th_task_id ` set (task_history s) \<subseteq> tsk_id ` set (task_tasks s)"

definition history_times_ok :: "db \<Rightarrow> bool" where
  "history_times_ok s \<longleftrightarrow> sorted (map th_created_at (task_history s))
   \<and> (\<forall>h \<in> set (task_history s). th_created_at h \<le> clock s (ticks s))"

definition tasks_inv :: "db \<Rightarrow> bool" where
  "tasks_inv s \<longleftrightarrow> inj (uuid_src s) \<and> mono (clock s) \<and> distinct (map tsk_id (task_tasks s))
   \<and> tsk_id ` set (task_tasks s) \<subseteq> issued s \<and> histories_ok s \<and> history_times_ok s \<and> parents_ok (task_tasks s)"

definition no_tasks :: "db \<Rightarrow> bool" where
  "no_tasks s \<longleftrightarrow> inj (uuid_src s) \<and> mono (clock s) \<and> task_tasks s = [] \<and> task_history s = []"

lemma no_tasks_inv: "no_tasks s \<Longrightarrow> tasks_inv s"
  by (simp add: no_tasks_def tasks_inv_def histories_ok_def history_times_ok_def parents_ok_def parent_edges_def acyclic_def)

text \<open>The two operations as what they do to the tables.\<close>

lemma add_history_effect:
  "task_tasks (add_history task actor a b s) = task_tasks s"
  "uuid_src (add_history task actor a b s) = uuid_src s" "clock (add_history task actor a b s) = clock s"
  "drawn (add_history task actor a b s) = Suc (drawn s)" "ticks (add_history task actor a b s) = Suc (ticks s)"
  "task_history (add_history task actor a b s) = task_history s @
     [\<lparr>th_id = uuid_src s (drawn s), th_created_at = clock s (ticks s), th_customer_id = tsk_customer_id task,
       th_task_id = tsk_id task, th_actor_id = actor, th_from_status = a, th_to_status = b\<rparr>]"
  by (simp_all add: add_history_def row_defaults_def)

lemma create_task_effect:
  assumes "create_task c w owner title due parent s = (Inr t, u)"
  shows "tsk_id t = uuid_src s (drawn s)" "tsk_status t = T_TODO" "tsk_parent_task_id t = parent" "tsk_workspace_id t = w"
    "parent = Some p \<Longrightarrow> \<exists>q \<in> set (task_tasks s). tsk_id q = p \<and> tsk_workspace_id q = w"
    "task_tasks u = task_tasks s @ [t]"
    "\<exists>h. task_history u = task_history s @ [h] \<and> th_task_id h = tsk_id t \<and> th_from_status h = None
       \<and> th_to_status h = T_TODO \<and> th_created_at h = clock s (Suc (ticks s))"
    "uuid_src u = uuid_src s" "clock u = clock s" "drawn u = Suc (Suc (drawn s))" "ticks u = Suc (Suc (ticks s))"
  using assms
  by (auto simp: create_task_def row_defaults_def Let_def add_history_effect raise_def ok_def
      split: if_splits option.splits dest!: tget_SomeD)

lemma change_task_effect:
  assumes "change_task_status task target actor s = (Inr t, u)" "tget tsk_id (tsk_id task) (task_tasks s) = Some row"
  shows "task_edge (tsk_status row) target" "t = row\<lparr>tsk_status := target\<rparr>"
    "task_tasks u = tupd tsk_id (tsk_id task) (\<lambda>t. t\<lparr>tsk_status := target\<rparr>) (task_tasks s)"
    "\<exists>h. task_history u = task_history s @ [h] \<and> th_task_id h = tsk_id task \<and> th_from_status h = Some (tsk_status row)
       \<and> th_to_status h = target \<and> th_created_at h = clock s (ticks s)"
    "uuid_src u = uuid_src s" "clock u = clock s" "drawn s \<le> drawn u" "ticks s < ticks u"
  using assms tget_SomeD [OF assms(2)]
  by (auto simp: change_task_status_def current_task_def task_edge_def Let_def add_history_effect raise_def ok_def
      notify_counters less_Suc_eq_le split: if_splits)


text \<open>What a row appended to the history of one task does to the invariant.\<close>

lemma history_of_append:
  "task_history u = task_history s @ [h] \<Longrightarrow>
     history_of i u = history_of i s @ (if th_task_id h = i then [h] else [])"
  by (simp add: history_of_def)

lemma history_times_ok_append:
  assumes "history_times_ok s" "mono (clock s)" "clock u = clock s" "ticks s \<le> k" "k \<le> ticks u"
    and "task_history u = task_history s @ [h]" "th_created_at h = clock s k"
  shows "history_times_ok u"
proof -
  have up: "clock s (ticks s) \<le> clock s k" "clock s k \<le> clock s (ticks u)"
    using assms(2,4,5) by (auto dest: monoD)
  have "\<forall>h \<in> set (task_history s). th_created_at h \<le> clock s (ticks s)"
    using assms(1) by (simp add: history_times_ok_def)
  then have "\<forall>h \<in> set (task_history s). th_created_at h \<le> clock s k"
    using up(1) by force
  with up assms(1,3,6,7) show ?thesis
    by (fastforce simp: history_times_ok_def sorted_append)
qed

lemma parents_ok_append:
  assumes "parents_ok ts" "tsk_id t \<notin> tsk_id ` set ts"
    and "\<And>p. tsk_parent_task_id t = Some p \<Longrightarrow> \<exists>q \<in> set ts. tsk_id q = p \<and> tsk_workspace_id q = tsk_workspace_id t"
  shows "parents_ok (ts @ [t])"
proof (cases "tsk_parent_task_id t")
  case None
  then have "parent_edges (ts @ [t]) = parent_edges ts" by (auto simp: parent_edges_def)
  with None assms(1) show ?thesis by (auto simp: parents_ok_def)
next
  case (Some p)
  then obtain q where q: "q \<in> set ts" "tsk_id q = p" "tsk_workspace_id q = tsk_workspace_id t"
    using assms(3) by blast
  have edges: "parent_edges (ts @ [t]) = insert (tsk_id t, p) (parent_edges ts)"
    using Some by (auto simp: parent_edges_def)
  have no_edge: "(x, tsk_id t) \<notin> parent_edges ts" for x
    using assms(1,2) by (fastforce simp: parents_ok_def parent_edges_def image_iff)
  have "p \<noteq> tsk_id t" using q(1,2) assms(2) by (metis imageI)
  then have "(p, tsk_id t) \<notin> (parent_edges ts)\<^sup>*"
    using no_edge by (auto elim: rtranclE)
  then have "acyclic (parent_edges (ts @ [t]))"
    using assms(1) by (simp add: edges parents_ok_def)
  then show ?thesis
    using assms(1) q Some by (auto simp: parents_ok_def)
qed

definition parent_view :: "task_row \<Rightarrow> uuid \<times> uuid option \<times> uuid" where
  "parent_view t = (tsk_id t, tsk_parent_task_id t, tsk_workspace_id t)"

lemma parents_ok_view:
  "parents_ok ts \<longleftrightarrow> acyclic {(i, p). \<exists>w. (i, Some p, w) \<in> parent_view ` set ts}
   \<and> (\<forall>i p w. (i, Some p, w) \<in> parent_view ` set ts \<longrightarrow> (\<exists>g. (p, g, w) \<in> parent_view ` set ts))"
proof -
  have "parent_edges ts = {(i, p). \<exists>w. (i, Some p, w) \<in> parent_view ` set ts}"
    by (auto simp: parent_edges_def parent_view_def image_iff) metis
  then show ?thesis
    unfolding parents_ok_def by (auto simp: parent_view_def image_iff) metis+
qed

lemma parents_ok_status:
  assumes "parents_ok ts"
  shows "parents_ok (tupd tsk_id i (\<lambda>t. t\<lparr>tsk_status := st\<rparr>) ts)"
proof -
  have "map parent_view (tupd tsk_id i (\<lambda>t. t\<lparr>tsk_status := st\<rparr>) ts) = map parent_view ts"
    by (simp add: tupd_def parent_view_def)
  then have "parent_view ` set (tupd tsk_id i (\<lambda>t. t\<lparr>tsk_status := st\<rparr>) ts) = parent_view ` set ts"
    by (metis list.set_map)
  with assms show ?thesis unfolding parents_ok_view by metis
qed

lemma tasks_inv_created:
  assumes inv: "tasks_inv s" and new: "create_task c w owner title due parent s = (Inr t, u)"
  shows "tasks_inv u"
proof -
  note E = create_task_effect [OF new]
  have env: "inj (uuid_src s)" "mono (clock s)" "distinct (map tsk_id (task_tasks s))"
    "tsk_id ` set (task_tasks s) \<subseteq> issued s" "histories_ok s" "history_times_ok s" "parents_ok (task_tasks s)"
    using inv by (simp_all add: tasks_inv_def)
  have fresh: "tsk_id t \<notin> tsk_id ` set (task_tasks s)"
    using env(1,4) next_not_issued [of s] E(1) by auto
  obtain h where h: "task_history u = task_history s @ [h]" "th_task_id h = tsk_id t" "th_from_status h = None"
      "th_to_status h = T_TODO" "th_created_at h = clock s (Suc (ticks s))"
    using E(7) by blast
  have none: "history_of (tsk_id t) s = []"
  proof -
    have "th_task_id ` set (task_history s) \<subseteq> tsk_id ` set (task_tasks s)"
      using env(5) by (simp add: histories_ok_def)
    with fresh have "tsk_id t \<notin> th_task_id ` set (task_history s)" by blast
    then show ?thesis by (force simp: history_of_def filter_empty_conv)
  qed
  have "history_of (tsk_id x) u = history_of (tsk_id x) s" if "x \<in> set (task_tasks s)" for x
    using that fresh h(2) by (auto simp: history_of_append [OF h(1)])
  moreover have "history_of (tsk_id t) u = [h]"
    by (simp add: history_of_append [OF h(1)] none h(2))
  ultimately have "histories_ok u"
    using env(5) h by (auto simp: histories_ok_def E(2,6))
  moreover have "history_times_ok u"
    by (rule history_times_ok_append [OF env(6,2) E(9) _ _ h(1,5)]) (simp_all add: E(11))
  moreover have "parents_ok (task_tasks u)"
    unfolding E(6) using parents_ok_append [OF env(7) fresh] E(3,4,5) by metis
  moreover have "tsk_id ` set (task_tasks u) \<subseteq> issued u"
    using env(4) issued_mono [of u s] next_issued [of u s] E(8,10) by (auto simp: E(1,6))
  ultimately show ?thesis
    using env(1,2,3) fresh by (simp add: tasks_inv_def E(6,8,9))
qed

lemma tasks_inv_changed:
  assumes inv: "tasks_inv s" and row: "tget tsk_id (tsk_id task) (task_tasks s) = Some row"
    and new: "change_task_status task target actor s = (Inr t, u)"
  shows "tasks_inv u"
proof -
  note E = change_task_effect [OF new row]
  have env: "inj (uuid_src s)" "mono (clock s)" "distinct (map tsk_id (task_tasks s))"
    "tsk_id ` set (task_tasks s) \<subseteq> issued s" "histories_ok s" "history_times_ok s" "parents_ok (task_tasks s)"
    using inv by (simp_all add: tasks_inv_def)
  have this_row: "row \<in> set (task_tasks s)" "tsk_id row = tsk_id task"
    using row by (auto dest: tget_SomeD)
  obtain h where h: "task_history u = task_history s @ [h]" "th_task_id h = tsk_id task"
      "th_from_status h = Some (tsk_status row)" "th_to_status h = target" "th_created_at h = clock s (ticks s)"
    using E(4) by blast
  have ids: "map tsk_id (task_tasks u) = map tsk_id (task_tasks s)"
    unfolding E(3) by simp
  then have ids': "tsk_id ` set (task_tasks u) = tsk_id ` set (task_tasks s)"
    by (metis list.set_map)
  have "history_chain None (history_of (tsk_id x) u) (tsk_status x)" if x: "x \<in> set (task_tasks u)" for x
  proof -
    from x obtain y where y: "y \<in> set (task_tasks s)" "x = (if tsk_id y = tsk_id task then y\<lparr>tsk_status := target\<rparr> else y)"
      by (auto simp: E(3) in_set_tupd)
    have chain: "history_chain None (history_of (tsk_id y) s) (tsk_status y)"
      using env(5) y(1) by (simp add: histories_ok_def)
    show ?thesis
    proof (cases "tsk_id y = tsk_id task")
      case True
      then have "y = row" using unique_by_key [OF env(3) y(1) this_row(1)] this_row(2) by simp
      with chain True y(2) h E(1) this_row show ?thesis
        using history_chain_snoc [OF chain, of h] by (simp add: history_of_append [OF h(1)])
    next
      case False
      with chain y(2) h(2) show ?thesis by (auto simp: history_of_append [OF h(1)])
    qed
  qed
  moreover have "th_task_id ` set (task_history u) \<subseteq> tsk_id ` set (task_tasks u)"
  proof -
    have "th_task_id ` set (task_history s) \<subseteq> tsk_id ` set (task_tasks s)"
      using env(5) by (simp add: histories_ok_def)
    then show ?thesis
      unfolding ids' h(1) using this_row by (simp add: h(2) image_iff) metis
  qed
  ultimately have "histories_ok u"
    by (simp add: histories_ok_def)
  moreover have "history_times_ok u"
    by (rule history_times_ok_append [OF env(6,2) E(6) _ _ h(1,5)]) (use E(8) in simp_all)
  moreover have "tsk_id ` set (task_tasks u) \<subseteq> issued u"
    using env(4) issued_mono [OF E(5,7)] ids' by simp
  ultimately show ?thesis
    using env(1,2,3,7) by (simp add: tasks_inv_def ids E(5,6) parents_ok_status E(3))
qed

lemma tasks_inv_elsewhere:
  assumes "tasks_inv s" "task_tasks u = task_tasks s" "task_history u = task_history s"
    "uuid_src u = uuid_src s" "clock u = clock s" "drawn s \<le> drawn u" "ticks s \<le> ticks u"
  shows "tasks_inv u"
proof -
  have "clock s (ticks s) \<le> clock s (ticks u)" using assms(1,7) by (auto simp: tasks_inv_def dest: monoD)
  with assms issued_mono [of u s] show ?thesis
    by (force simp: tasks_inv_def histories_ok_def history_times_ok_def history_of_def)
qed

lemma tasks_inv_step: "task_step s u \<Longrightarrow> tasks_inv s \<Longrightarrow> tasks_inv u"
  by (induction rule: task_step.induct) (auto intro: tasks_inv_created tasks_inv_changed tasks_inv_elsewhere)

interpretation task_run: invariant_system task_step no_tasks tasks_inv
  by unfold_locales (fact no_tasks_inv tasks_inv_step)+

lemma list_task_history_eq: "tasks_inv s \<Longrightarrow> list_task_history i s = history_of i s"
  unfolding list_task_history_def history_of_def
  by (intro sort_key_id_if_sorted)
    (auto simp: tasks_inv_def history_times_ok_def intro: sorted_filter)

section \<open>Properties of tasks\<close>

text \<open>
  C28: in every state the requests can reach, in any interleaving and through however old loaded
  objects, the history the API lists of a task is one unbroken path along the transition table
  from its creation to the status it has: one to three entries, each leaving the status the one
  before it entered.
\<close>

theorem task_history_explains_status:
  assumes "no_tasks s" "task_step\<^sup>*\<^sup>* s u" "t \<in> set (task_tasks u)"
  shows "history_chain None (list_task_history (tsk_id t) u) (tsk_status t)
    \<and> 1 \<le> length (list_task_history (tsk_id t) u) \<and> length (list_task_history (tsk_id t) u) \<le> 3"
proof -
  have inv: "tasks_inv u" using assms(1,2) by (rule task_run.reachable)
  then have "histories_ok u" by (simp add: tasks_inv_def)
  with assms(3) have "history_chain None (history_of (tsk_id t) u) (tsk_status t)"
    by (simp add: histories_ok_def)
  with history_chain_bound [OF this] show ?thesis
    by (simp add: list_task_history_eq [OF inv])
qed

text \<open>
  The parent relation of the tasks is a forest inside each workspace: no task is its own
  ancestor, and the parent of a task is a task of the same workspace.
\<close>

theorem tasks_form_a_forest:
  assumes "no_tasks s" "task_step\<^sup>*\<^sup>* s u"
  shows "acyclic (parent_edges (task_tasks u))
    \<and> (\<forall>t \<in> set (task_tasks u). \<forall>p. tsk_parent_task_id t = Some p \<longrightarrow>
         (\<exists>q \<in> set (task_tasks u). tsk_id q = p \<and> tsk_workspace_id q = tsk_workspace_id t))"
proof -
  have "tasks_inv u" using assms by (rule task_run.reachable)
  then show ?thesis by (simp add: tasks_inv_def parents_ok_def)
qed


section \<open>Firing reminders\<close>

definition fired :: "instant \<Rightarrow> reminder_row \<Rightarrow> reminder_row" where
  "fired now r = r\<lparr>rem_status := R_FIRED, rem_fired_at := Some now\<rparr>"

definition is_due :: "uuid \<Rightarrow> instant \<Rightarrow> reminder_row \<Rightarrow> bool" where
  "is_due tenant now r \<longleftrightarrow> rem_customer_id r = tenant \<and> rem_status r = R_CONFIRMED \<and> rem_remind_at r \<le> now"

lemma due_reminders_eq: "due_reminders tenant now s = filter (is_due tenant now) (task_reminders s)"
  by (simp add: due_reminders_def is_due_def [abs_def])

lemma fired_sel [simp]: "rem_id (fired now r) = rem_id r" "\<not> is_due tenant later (fired now r)"
  by (simp_all add: fired_def is_due_def)

text \<open>Who was told what, and about which task.\<close>

definition notice :: "notification_row \<Rightarrow> uuid \<times> string \<times> notification_type \<times> uuid" where
  "notice n = (ntf_customer_id n, ntf_recipient_id n, ntf_type n, ntf_reference_id n)"

definition reminder_notices :: "db \<Rightarrow> reminder_row list \<Rightarrow> (uuid \<times> string \<times> notification_type \<times> uuid) list" where
  "reminder_notices s due =
     map (\<lambda>r. (rem_customer_id r, rem_actor_id r, REMINDER_DUE, rem_task_id r))
       (filter (\<lambda>r. is_notification_type_enabled (rem_customer_id r) (rem_actor_id r) REMINDER_DUE s) due)"

lemma fire_reminder_eq:
  "fire_reminder now task r s = set_reminder r (fired now)
     (notify (rem_customer_id r) (rem_actor_id r) REMINDER_DUE ''task'' (tsk_id task)
        (Some (rem_workspace_id r)) [(''title'', JStr (tsk_title task))] s)"
  by (simp add: fire_reminder_def fired_def [abs_def])

lemma fire_reminder_effect:
  "task_reminders (fire_reminder now task r s) = tupd rem_id (rem_id r) (fired now) (task_reminders s)"
  "notification_preferences (fire_reminder now task r s) = notification_preferences s"
  "task_tasks (fire_reminder now task r s) = task_tasks s"
  by (simp_all add: fire_reminder_eq set_reminder_def)

lemma fire_reminder_notice:
  "tsk_id task = rem_task_id r \<Longrightarrow>
     map notice (notifications (fire_reminder now task r s)) = map notice (notifications s) @ reminder_notices s [r]"
  by (simp add: fire_reminder_eq set_reminder_def create_notification_effect notice_def reminder_notices_def)

lemma reminder_notices_cong:
  "notification_preferences t = notification_preferences s \<Longrightarrow> reminder_notices t due = reminder_notices s due"
  by (simp add: reminder_notices_def is_notification_type_enabled_def)

lemma fire_all_ok:
  assumes "\<forall>r \<in> set due. \<exists>t. tasks (rem_task_id r) = Some t \<and> tsk_id t = rem_task_id r"
  shows "\<exists>u. fire_all tasks now due s = ok () u
     \<and> task_reminders u = map (\<lambda>r. if rem_id r \<in> rem_id ` set due then fired now r else r) (task_reminders s)
     \<and> task_tasks u = task_tasks s \<and> notification_preferences u = notification_preferences s
     \<and> map notice (notifications u) = map notice (notifications s) @ reminder_notices s due"
  using assms
proof (induction due arbitrary: s)
  case (Cons r due)
  then obtain t where t: "tasks (rem_task_id r) = Some t" "tsk_id t = rem_task_id r" by auto
  define s1 where "s1 = fire_reminder now t r s"
  note E = fire_reminder_effect [where now = now and task = t and r = r and s = s, folded s1_def]
  obtain u where u: "fire_all tasks now due s1 = ok () u"
      "task_reminders u = map (\<lambda>r. if rem_id r \<in> rem_id ` set due then fired now r else r) (task_reminders s1)"
      "task_tasks u = task_tasks s1" "notification_preferences u = notification_preferences s1"
      "map notice (notifications u) = map notice (notifications s1) @ reminder_notices s1 due"
    using Cons by auto
  have "reminder_notices s [r] @ reminder_notices s due = reminder_notices s (r # due)"
    by (simp add: reminder_notices_def)
  moreover have "task_reminders u = map (\<lambda>q. if rem_id q \<in> rem_id ` set (r # due) then fired now q else q) (task_reminders s)"
    by (auto simp: u(2) E(1) tupd_def fired_def)
  ultimately show ?case
    using u t E fire_reminder_notice [OF t(2), of now s]
    by (simp add: s1_def [symmetric] reminder_notices_cong [OF E(2)])
qed (simp add: reminder_notices_def)

lemma fire_all_missing:
  "r \<in> set due \<Longrightarrow> tasks (rem_task_id r) = None \<Longrightarrow> fst (fire_all tasks now due s) = Inl (Unhandled ''KeyError'')"
  by (induction due arbitrary: s) (auto split: option.splits)

lemma filter_due_id:
  assumes "distinct (map rem_id rs)" "r \<in> set rs"
  shows "rem_id r \<in> rem_id ` set (filter P rs) \<longleftrightarrow> P r"
  using unique_by_key [OF assms(1) assms(2)] assms(2) by auto

text \<open>
  C29: a run of the firing job fires exactly the confirmed reminders of its tenant whose time has
  come, leaves every other reminder as it is, puts one notice per fired reminder to its requester,
  unless that requester has switched off the notices of due reminders, and leaves nothing for a second run at the same time; one due reminder whose task is
  not visible stops the whole run, which then changes no reminder and tells nobody.
\<close>

theorem due_reminders_fire_once:
  assumes "distinct (map rem_id (task_reminders s))"
  shows "if \<forall>r \<in> set (task_reminders s). is_due tenant now r \<longrightarrow>
              (\<exists>t \<in> set (task_tasks s). tsk_customer_id t = tenant \<and> tsk_id t = rem_task_id r)
     then \<exists>rs u. run_tx (fire_due_reminders tenant (Some now)) s = ok rs u
       \<and> task_reminders u = map (\<lambda>r. if is_due tenant now r then fired now r else r) (task_reminders s)
       \<and> map notice (notifications u)
           = map notice (notifications s) @ reminder_notices s (filter (is_due tenant now) (task_reminders s))
       \<and> run_tx (fire_due_reminders tenant (Some now)) u = ok [] u
     else fst (run_tx (fire_due_reminders tenant (Some now)) s) = Inl (Unhandled ''KeyError'')
       \<and> same_tables s (snd (run_tx (fire_due_reminders tenant (Some now)) s))"
proof -
  define tasks where "tasks = (\<lambda>i. tget tsk_id i (filter (\<lambda>t. tsk_customer_id t = tenant) (task_tasks s)))"
  let ?due = "filter (is_due tenant now) (task_reminders s)"
  have run: "fire_due_reminders tenant (Some now) s
      = bind_err (fire_all tasks now ?due s) (\<lambda>_ u. ok (map (fired now) ?due) u)"
    by (simp add: fire_due_reminders_def due_reminders_eq tasks_def fired_def [abs_def] Let_def)
  show ?thesis
  proof (cases "\<forall>r \<in> set ?due. tasks (rem_task_id r) \<noteq> None")
    case True
    then have known: "\<forall>r \<in> set ?due. \<exists>t. tasks (rem_task_id r) = Some t \<and> tsk_id t = rem_task_id r"
      by (auto simp: tasks_def dest: tget_SomeD)
    obtain u where u: "fire_all tasks now ?due s = ok () u"
      "task_reminders u = map (\<lambda>r. if rem_id r \<in> rem_id ` set ?due then fired now r else r) (task_reminders s)"
      "map notice (notifications u) = map notice (notifications s) @ reminder_notices s ?due"
      using fire_all_ok [OF known, of now s] by blast
    have rows: "task_reminders u = map (\<lambda>r. if is_due tenant now r then fired now r else r) (task_reminders s)"
      unfolding u(2) using filter_due_id [OF assms, of _ "is_due tenant now"] by (intro map_cong) simp_all
    then have "filter (is_due tenant now) (task_reminders u) = []"
      by (auto simp: filter_empty_conv)
    then have "run_tx (fire_due_reminders tenant (Some now)) u = ok [] u"
      by (simp add: run_tx_def fire_due_reminders_def due_reminders_eq ok_def Let_def)
    moreover have "\<forall>r \<in> set (task_reminders s). is_due tenant now r \<longrightarrow>
        (\<exists>t \<in> set (task_tasks s). tsk_customer_id t = tenant \<and> tsk_id t = rem_task_id r)"
      using True by (force simp: tasks_def tget_None_iff image_iff)
    ultimately show ?thesis
      using u rows run by (auto simp: run_tx_def ok_def)
  next
    case False
    then obtain r where r: "r \<in> set ?due" "tasks (rem_task_id r) = None" by blast
    have "fst (fire_due_reminders tenant (Some now) s) = Inl (Unhandled ''KeyError'')"
      unfolding run using fire_all_missing [of r ?due tasks now s, OF r]
      by (cases "fire_all tasks now ?due s") (simp add: bind_err_def)
    moreover have "\<not> (\<forall>r \<in> set (task_reminders s). is_due tenant now r \<longrightarrow>
        (\<exists>t \<in> set (task_tasks s). tsk_customer_id t = tenant \<and> tsk_id t = rem_task_id r))"
      using r by (simp add: tasks_def tget_None_iff image_iff) metis
    ultimately show ?thesis
      by (simp only: if_False run_tx_fst, simp add: run_tx_raises_same_tables)
  qed
qed


section \<open>Interleaved requests on reminders\<close>

text \<open>
  The state of a run is the set of reminder rows ever stored and the database: a request works on
  a row somebody read at some time, the firing job on a list of rows that were due when it read
  them.
\<close>

inductive reminder_step :: "reminder_row set \<times> db \<Rightarrow> reminder_row set \<times> db \<Rightarrow> bool" where
  request: "u = snd (request_reminder task actor remind_at s)
    \<Longrightarrow> reminder_step (seen, s) (seen \<union> set (task_reminders u), u)"
| confirm: "r \<in> seen \<Longrightarrow> u = snd (confirm_reminder r remind_at s)
    \<Longrightarrow> reminder_step (seen, s) (seen \<union> set (task_reminders u), u)"
| cancel: "r \<in> seen \<Longrightarrow> u = snd (cancel_reminder r s)
    \<Longrightarrow> reminder_step (seen, s) (seen \<union> set (task_reminders u), u)"
| fire: "set due \<subseteq> seen \<Longrightarrow> \<forall>r \<in> set due. is_due tenant now r \<Longrightarrow> fire_all tasks now due s = (Inr (), u)
    \<Longrightarrow> reminder_step (seen, s) (seen \<union> set (task_reminders u), u)"
| elsewhere: "task_reminders u = task_reminders s \<Longrightarrow> uuid_src u = uuid_src s \<Longrightarrow> drawn s \<le> drawn u
    \<Longrightarrow> reminder_step (seen, s) (seen, u)"

definition sound_reminder :: "reminder_row \<Rightarrow> bool" where
  "sound_reminder r \<longleftrightarrow> (rem_status r \<in> {R_CONFIRMED, R_FIRED} \<longrightarrow> rem_confirmed_at r \<noteq> None)
   \<and> (rem_status r = R_FIRED \<longrightarrow> (\<exists>f. rem_fired_at r = Some f \<and> rem_remind_at r \<le> f))"

text \<open>\<open>r\<close> is an earlier version of \<open>q\<close>.\<close>

definition older :: "reminder_row \<Rightarrow> reminder_row \<Rightarrow> bool" where
  "older r q \<longleftrightarrow> rem_remind_at r = rem_remind_at q \<and> (rem_confirmed_at r \<noteq> None \<longrightarrow> rem_confirmed_at q \<noteq> None)"

definition reminders_inv :: "reminder_row set \<times> db \<Rightarrow> bool" where
  "reminders_inv w \<longleftrightarrow> inj (uuid_src (snd w)) \<and> distinct (map rem_id (task_reminders (snd w)))
   \<and> set (task_reminders (snd w)) \<subseteq> fst w
   \<and> rem_id ` fst w \<subseteq> issued (snd w) \<and> (\<forall>r \<in> fst w. sound_reminder r)
   \<and> (\<forall>r \<in> fst w. \<forall>q \<in> set (task_reminders (snd w)). rem_id r = rem_id q \<longrightarrow> older r q)"

definition no_reminders :: "reminder_row set \<times> db \<Rightarrow> bool" where
  "no_reminders w \<longleftrightarrow> inj (uuid_src (snd w)) \<and> fst w = {} \<and> task_reminders (snd w) = []"

lemma no_reminders_inv: "no_reminders w \<Longrightarrow> reminders_inv w"
  by (simp add: no_reminders_def reminders_inv_def)

lemma reminders_invD:
  assumes "reminders_inv (seen, s)"
  shows "inj (uuid_src s)" "set (task_reminders s) \<subseteq> seen" "rem_id ` seen \<subseteq> issued s"
    "r \<in> seen \<Longrightarrow> sound_reminder r"
    "r \<in> seen \<Longrightarrow> q \<in> set (task_reminders s) \<Longrightarrow> rem_id r = rem_id q \<Longrightarrow> older r q"
    "distinct (map rem_id (task_reminders s))"
  using assms by (simp_all add: reminders_inv_def)

lemma reminders_invI:
  assumes "inj (uuid_src s)" "distinct (map rem_id (task_reminders s))"
    "set (task_reminders s) \<subseteq> seen" "rem_id ` seen \<subseteq> issued s"
    "\<And>r. r \<in> seen \<Longrightarrow> sound_reminder r"
    "\<And>r q. r \<in> seen \<Longrightarrow> q \<in> set (task_reminders s) \<Longrightarrow> rem_id r = rem_id q \<Longrightarrow> older r q"
  shows "reminders_inv (seen, s)"
  using assms by (simp add: reminders_inv_def)

lemma older_trans: "older r q \<Longrightarrow> older q p \<Longrightarrow> older r p"
  by (simp add: older_def)

lemma older_refl [simp]: "older r r"
  by (simp add: older_def)

text \<open>An update of one row that keeps the reminder sound, and the same without its new rows.\<close>

lemma reminders_inv_update:
  assumes inv: "reminders_inv (seen, s)" and env: "uuid_src u = uuid_src s" "drawn s \<le> drawn u"
    and rows: "task_reminders u = tupd rem_id i f (task_reminders s)"
    and f: "\<And>q. q \<in> set (task_reminders s) \<Longrightarrow> rem_id q = i \<Longrightarrow> rem_id (f q) = i \<and> sound_reminder (f q) \<and> older q (f q)"
  shows "reminders_inv (seen \<union> set (task_reminders u), u)"
proof -
  note I = reminders_invD [OF inv]
  have new: "\<exists>q \<in> set (task_reminders s). rem_id p = rem_id q \<and> older q p \<and> sound_reminder p
      \<and> (rem_id p = i \<longrightarrow> p = f q) \<and> (rem_id p \<noteq> i \<longrightarrow> p = q)"
    if "p \<in> set (task_reminders u)" for p
  proof -
    from that obtain q where q: "q \<in> set (task_reminders s)" "p = (if rem_id q = i then f q else q)"
      by (auto simp: rows in_set_tupd)
    with I(2,4) f show ?thesis by (intro bexI [OF _ q(1)]) auto
  qed
  show ?thesis
  proof (rule reminders_invI)
    show "inj (uuid_src u)" using I(1) env(1) by simp
    have "map rem_id (task_reminders u) = map rem_id (task_reminders s)"
      using f by (auto simp: rows tupd_def)
    then show dist: "distinct (map rem_id (task_reminders u))" using I(6) by simp
    show "set (task_reminders u) \<subseteq> seen \<union> set (task_reminders u)" by blast
    have "rem_id ` set (task_reminders u) \<subseteq> rem_id ` seen" using new I(2) by (simp add: image_subset_iff) (metis imageI subsetD)
    then show "rem_id ` (seen \<union> set (task_reminders u)) \<subseteq> issued u"
      using I(3) issued_mono [OF env] by blast
    show "sound_reminder r" if "r \<in> seen \<union> set (task_reminders u)" for r
      using that I(4) new by blast
    show "older r p" if r: "r \<in> seen \<union> set (task_reminders u)" and p: "p \<in> set (task_reminders u)"
      and same: "rem_id r = rem_id p" for r p
    proof -
      from new [OF p] obtain q where q: "q \<in> set (task_reminders s)" "rem_id p = rem_id q" "older q p" by blast
      from r show ?thesis
      proof
        assume "r \<in> seen"
        with I(5) [OF _ q(1)] q(2,3) same show ?thesis using older_trans [of r q p] by simp
      next
        assume "r \<in> set (task_reminders u)"
        then show ?thesis using unique_by_key [OF dist _ p same] by simp
      qed
    qed
  qed
qed

lemma reminders_inv_elsewhere:
  assumes "reminders_inv (seen, s)" "task_reminders u = task_reminders s" "uuid_src u = uuid_src s" "drawn s \<le> drawn u"
  shows "reminders_inv (seen, u)"
  using assms issued_mono [of u s] by (auto simp: reminders_inv_def)

lemma reminders_inv_fewer:
  "reminders_inv (seen, s) \<Longrightarrow> set (task_reminders s) \<subseteq> old \<Longrightarrow> old \<subseteq> seen \<Longrightarrow> reminders_inv (old, s)"
  unfolding reminders_inv_def by (simp add: image_subset_iff) blast

lemma reminders_inv_same: "reminders_inv (seen, s) \<Longrightarrow> reminders_inv (seen \<union> set (task_reminders s), s)"
  by (metis Un_absorb2 reminders_invD(2))

lemma reminders_inv_request:
  assumes inv: "reminders_inv (seen, s)"
  shows "reminders_inv (seen \<union> set (task_reminders (snd (request_reminder task actor when s))), snd (request_reminder task actor when s))"
proof -
  note I = reminders_invD [OF inv]
  define u where "u = snd (request_reminder task actor when s)"
  obtain r where r: "task_reminders u = task_reminders s @ [r]" "rem_id r = uuid_src s (drawn s)"
      "rem_status r = R_PENDING_CONFIRMATION"
    by (simp add: u_def request_reminder_def row_defaults_def Let_def)
  have env: "uuid_src u = uuid_src s" "drawn u = Suc (drawn s)"
    by (simp_all add: u_def request_reminder_def row_defaults_def Let_def)
  have fresh: "rem_id r \<notin> rem_id ` seen" using I(1,3) r(2) next_not_issued [of s] by auto
  have "reminders_inv (seen \<union> set (task_reminders u), u)"
  proof (rule reminders_invI)
    show "inj (uuid_src u)" using I(1) env by simp
    show "distinct (map rem_id (task_reminders u))" using I(2,6) fresh by (auto simp: r(1))
    show "rem_id ` (seen \<union> set (task_reminders u)) \<subseteq> issued u"
      using I(2,3) issued_mono [of u s] next_issued [of u s] env by (auto simp: r(1,2))
    show "sound_reminder p" if "p \<in> seen \<union> set (task_reminders u)" for p
      using that I(2,4) r by (auto simp: sound_reminder_def)
    show "older p q" if "p \<in> seen \<union> set (task_reminders u)" "q \<in> set (task_reminders u)" "rem_id p = rem_id q" for p q
    proof -
      have "rem_id x \<noteq> rem_id r" if "x \<in> seen" for x using that fresh by (metis imageI)
      moreover have "p \<in> seen \<or> p = r" "q \<in> set (task_reminders s) \<or> q = r" using that(1,2) I(2) r(1) by auto
      ultimately show ?thesis using that(3) I(2) I(5) [of p q] older_refl by (metis subsetD)
    qed
  qed simp
  then show ?thesis by (simp add: u_def)
qed

lemma reminders_inv_confirm:
  assumes inv: "reminders_inv (seen, s)" and r: "r \<in> seen"
  shows "reminders_inv (seen \<union> set (task_reminders (snd (confirm_reminder r when s))), snd (confirm_reminder r when s))"
proof (cases "rem_status r \<noteq> R_PENDING_CONFIRMATION \<or> rem_remind_at r \<noteq> when")
  case True
  then show ?thesis using reminders_inv_same [OF inv] by (auto simp: confirm_reminder_def)
next
  case False
  then show ?thesis
    by (intro reminders_inv_update [OF inv, where i = "rem_id r"
          and f = "\<lambda>r. r\<lparr>rem_status := R_CONFIRMED, rem_confirmed_at := Some (clock s (ticks s))\<rparr>"])
      (simp_all add: confirm_reminder_def utcnow_def set_reminder_def sound_reminder_def older_def)
qed

lemma reminders_inv_cancel:
  assumes inv: "reminders_inv (seen, s)" and r: "r \<in> seen"
  shows "reminders_inv (seen \<union> set (task_reminders (snd (cancel_reminder r s))), snd (cancel_reminder r s))"
proof (cases "rem_status r \<in> set [R_PENDING_CONFIRMATION, R_CONFIRMED]")
  case False
  then show ?thesis using reminders_inv_same [OF inv] by (simp add: cancel_reminder_def)
next
  case True
  then show ?thesis
    by (intro reminders_inv_update [OF inv, where i = "rem_id r" and f = "\<lambda>r. r\<lparr>rem_status := R_CANCELLED\<rparr>"])
      (auto simp: cancel_reminder_def set_reminder_def sound_reminder_def older_def)
qed

lemma reminders_inv_fire_one:
  assumes inv: "reminders_inv (seen, s)" and r: "r \<in> seen" "is_due tenant now r"
  shows "reminders_inv (seen \<union> set (task_reminders (fire_reminder now task r s)), fire_reminder now task r s)"
proof (rule reminders_inv_update [OF inv _ _ fire_reminder_effect(1)])
  show "uuid_src (fire_reminder now task r s) = uuid_src s" "drawn s \<le> drawn (fire_reminder now task r s)"
    by (simp_all add: fire_reminder_eq set_reminder_def notify_counters)
  show "rem_id (fired now q) = rem_id r \<and> sound_reminder (fired now q) \<and> older q (fired now q)"
    if "q \<in> set (task_reminders s)" "rem_id q = rem_id r" for q
    using that r reminders_invD(4) [OF inv r(1)] reminders_invD(5) [OF inv r(1) that(1)]
    by (auto simp: fired_def sound_reminder_def older_def is_due_def)
qed

lemma reminders_inv_fire:
  "reminders_inv (seen, s) \<Longrightarrow> set due \<subseteq> seen \<Longrightarrow> \<forall>r \<in> set due. is_due tenant now r
   \<Longrightarrow> fire_all tasks now due s = (Inr (), u) \<Longrightarrow> reminders_inv (seen \<union> set (task_reminders u), u)"
proof (induction due arbitrary: s seen)
  case Nil
  then show ?case using reminders_inv_same by simp
next
  case (Cons r due)
  then obtain t where t: "fire_all tasks now due (fire_reminder now t r s) = (Inr (), u)"
    by (auto split: option.splits)
  define seen1 where "seen1 = seen \<union> set (task_reminders (fire_reminder now t r s))"
  have "reminders_inv (seen1, fire_reminder now t r s)"
    unfolding seen1_def using Cons.prems by (intro reminders_inv_fire_one) auto
  then have "reminders_inv (seen1 \<union> set (task_reminders u), u)"
    using Cons.IH [OF _ _ _ t] Cons.prems by (auto simp: seen1_def)
  then show ?case
    by (rule reminders_inv_fewer) (auto simp: seen1_def)
qed

lemma reminders_inv_step: "reminder_step w v \<Longrightarrow> reminders_inv w \<Longrightarrow> reminders_inv v"
  by (induction rule: reminder_step.induct)
    (auto intro: reminders_inv_request reminders_inv_confirm reminders_inv_cancel reminders_inv_fire reminders_inv_elsewhere)

interpretation reminder_run: invariant_system reminder_step no_reminders reminders_inv
  by unfold_locales (fact no_reminders_inv reminders_inv_step)+

text \<open>
  Nobody is reminded of what was not confirmed.  In every state the requests and the firing
  job can reach, in any interleaving and on rows read at any earlier time, a fired reminder was
  confirmed, and it was fired no earlier than the time it was set for.
\<close>

theorem fired_reminder_was_confirmed:
  assumes "no_reminders ({}, s)" "reminder_step\<^sup>*\<^sup>* ({}, s) (seen, u)" "r \<in> set (task_reminders u)" "rem_status r = R_FIRED"
  shows "rem_confirmed_at r \<noteq> None \<and> (\<exists>f. rem_fired_at r = Some f \<and> rem_remind_at r \<le> f)"
proof -
  have inv: "reminders_inv (seen, u)" using assms(1,2) by (rule reminder_run.reachable)
  have "sound_reminder r" using reminders_invD(2,4) [OF inv] assms(3) by blast
  with assms(4) show ?thesis by (simp add: sound_reminder_def)
qed

text \<open>
  A cancelled reminder can still fire.  A request that loaded the reminder while it was pending
  confirms it after another has cancelled it, without an error, and the next run of the job then
  finds it due.
\<close>

theorem cancelled_reminder_still_fires:
  assumes "task_reminders s = [r]" "rem_status r = R_PENDING_CONFIRMATION" "rem_remind_at r \<le> now"
  shows "\<exists>a b s1 s2. cancel_reminder r s = ok a s1 \<and> map rem_status (task_reminders s1) = [R_CANCELLED]
     \<and> confirm_reminder r (rem_remind_at r) s1 = ok b s2
     \<and> map rem_id (due_reminders (rem_customer_id r) now s2) = [rem_id r]"
  using assms by (simp add: cancel_reminder_def confirm_reminder_def set_reminder_def utcnow_def tupd_def due_reminders_eq is_due_def)


section \<open>Witnesses\<close>

definition sample_create :: "uuid option \<Rightarrow> db \<Rightarrow> (app_error + task_row) \<times> db" where
  "sample_create = create_task 7 1 ''user:3'' ''report'' None"

definition sample_task :: task_row where
  "sample_task = \<lparr>tsk_id = 0, tsk_created_at = 0, tsk_customer_id = 7, tsk_workspace_id = 1,
     tsk_owner_id = ''user:3'', tsk_title = ''report'', tsk_parent_task_id = None, tsk_status = T_TODO,
     tsk_due_date = None\<rparr>"

definition sample_tasks :: db where
  "sample_tasks = snd (change_task_status sample_task T_IN_PROGRESS ''user:3''
     (snd (sample_create (Some 0) (snd (sample_create None empty_db)))))"

lemmas task_ops = sample_create_def create_task_def add_history_def row_defaults_def Let_def
  change_task_status_def current_task_def sample_task_def

lemma sample_tasks_rows:
  "task_tasks sample_tasks = [sample_task\<lparr>tsk_status := T_IN_PROGRESS\<rparr>,
     sample_task\<lparr>tsk_id := 2, tsk_created_at := 2, tsk_parent_task_id := Some 0\<rparr>]"
  by (simp add: sample_tasks_def task_ops ok_def raise_def tupd_def)

lemma sample_tasks_reached: "task_step\<^sup>*\<^sup>* empty_db sample_tasks"
proof -
  define s1 where "s1 = snd (sample_create None empty_db)"
  define s2 where "s2 = snd (sample_create (Some 0) s1)"
  have "fst (sample_create None empty_db) = Inr sample_task"
    by (simp add: task_ops ok_def)
  then have "task_step empty_db s1"
    unfolding s1_def sample_create_def by (metis task_step.created prod.collapse)
  moreover have "\<exists>t. fst (sample_create (Some 0) s1) = Inr t"
    by (simp add: s1_def task_ops ok_def)
  then have "task_step s1 s2"
    unfolding s2_def sample_create_def by (metis task_step.created prod.collapse)
  moreover have "\<exists>t. change_task_status sample_task T_IN_PROGRESS ''user:3'' s2 = (Inr t, sample_tasks)"
    "tget tsk_id (tsk_id sample_task) (task_tasks s2) \<noteq> None"
    by (simp_all add: sample_tasks_def s2_def s1_def task_ops ok_def raise_def)
  then have "task_step s2 sample_tasks"
    by (blast intro: task_step.changed)
  ultimately show ?thesis
    by (meson rtranclp.rtrancl_refl rtranclp.rtrancl_into_rtrancl)
qed

lemma no_tasks_empty_db: "no_tasks empty_db"
  by (simp add: no_tasks_def inj_def mono_def)

theorem task_history_explains_status_witness:
  "\<exists>t \<in> set (task_tasks sample_tasks). tsk_status t = T_IN_PROGRESS
     \<and> history_chain None (list_task_history (tsk_id t) sample_tasks) T_IN_PROGRESS"
  using task_history_explains_status [OF no_tasks_empty_db sample_tasks_reached, of "sample_task\<lparr>tsk_status := T_IN_PROGRESS\<rparr>"]
  by (simp add: sample_tasks_rows sample_task_def)

theorem tasks_form_a_forest_witness:
  "acyclic (parent_edges (task_tasks sample_tasks)) \<and> (2, 0) \<in> parent_edges (task_tasks sample_tasks)"
proof -
  have "(2, 0) \<in> parent_edges (task_tasks sample_tasks)"
    unfolding parent_edges_def sample_tasks_rows
    by (rule CollectI, intro exI [of _ "sample_task\<lparr>tsk_id := 2, tsk_created_at := 2, tsk_parent_task_id := Some 0\<rparr>"])
      simp
  then show ?thesis
    using tasks_form_a_forest [OF no_tasks_empty_db sample_tasks_reached] by blast
qed

definition sample_requested :: db where
  "sample_requested = snd (request_reminder sample_task ''user:3'' 5 sample_tasks)"

definition sample_reminder :: reminder_row where
  "sample_reminder = \<lparr>rem_id = 5, rem_created_at = 5, rem_customer_id = 7, rem_workspace_id = 1,
     rem_task_id = 0, rem_actor_id = ''user:3'', rem_remind_at = 5, rem_status = R_PENDING_CONFIRMATION,
     rem_confirmed_at = None, rem_fired_at = None\<rparr>"

definition sample_confirmed :: db where
  "sample_confirmed = snd (confirm_reminder sample_reminder 5 sample_requested)"

lemma sample_requested_rows: "task_reminders sample_requested = [sample_reminder]"
  "task_tasks sample_requested = task_tasks sample_tasks"
  by (simp_all add: sample_requested_def request_reminder_def sample_tasks_def task_ops ok_def raise_def
      sample_reminder_def)

lemma clock_ticks_requested: "clock sample_requested (ticks sample_requested) = 6"
  by (simp add: sample_requested_def request_reminder_def sample_tasks_def task_ops ok_def raise_def)

lemma sample_confirmed_rows:
  "task_reminders sample_confirmed = [sample_reminder\<lparr>rem_status := R_CONFIRMED, rem_confirmed_at := Some 6\<rparr>]"
  "task_tasks sample_confirmed = task_tasks sample_tasks"
  by (simp_all add: sample_confirmed_def confirm_reminder_def utcnow_def set_reminder_def sample_requested_rows
      sample_reminder_def tupd_def clock_ticks_requested)

abbreviation sample_confirmed_reminder :: reminder_row where
  "sample_confirmed_reminder \<equiv> sample_reminder\<lparr>rem_status := R_CONFIRMED, rem_confirmed_at := Some 6\<rparr>"

lemma sample_is_due: "is_due 7 9 sample_confirmed_reminder"
  by (simp add: is_due_def sample_reminder_def)

theorem due_reminders_fire_once_witness:
  "\<exists>rs u. run_tx (fire_due_reminders 7 (Some 9)) sample_confirmed = ok rs u
     \<and> task_reminders u = [fired 9 sample_confirmed_reminder]
     \<and> run_tx (fire_due_reminders 7 (Some 9)) u = ok [] u"
proof -
  have due: "\<forall>r \<in> set (task_reminders sample_confirmed). is_due 7 9 r \<longrightarrow>
      (\<exists>t \<in> set (task_tasks sample_confirmed). tsk_customer_id t = 7 \<and> tsk_id t = rem_task_id r)"
    by (simp add: sample_confirmed_rows sample_tasks_rows sample_reminder_def sample_task_def)
  have dist: "distinct (map rem_id (task_reminders sample_confirmed))"
    by (simp add: sample_confirmed_rows)
  obtain rs u where u: "run_tx (fire_due_reminders 7 (Some 9)) sample_confirmed = ok rs u"
      "task_reminders u = map (\<lambda>r. if is_due 7 9 r then fired 9 r else r) (task_reminders sample_confirmed)"
      "run_tx (fire_due_reminders 7 (Some 9)) u = ok [] u"
    using due_reminders_fire_once [OF dist, of 7 9, unfolded if_P [OF due]] by blast
  moreover have "map (\<lambda>r. if is_due 7 9 r then fired 9 r else r) (task_reminders sample_confirmed)
      = [fired 9 sample_confirmed_reminder]"
    using sample_is_due by (simp add: sample_confirmed_rows)
  ultimately show ?thesis by metis
qed

lemma sample_confirmed_reached:
  "reminder_step\<^sup>*\<^sup>* ({}, empty_db) ({sample_reminder, sample_confirmed_reminder}, sample_confirmed)"
proof -
  have "reminder_step ({}, empty_db) ({}, sample_tasks)"
    by (rule reminder_step.elsewhere) (simp_all add: sample_tasks_def task_ops ok_def raise_def)
  moreover have "reminder_step ({}, sample_tasks) ({sample_reminder}, sample_requested)"
    using reminder_step.request [OF sample_requested_def, of "{}"] by (simp add: sample_requested_rows)
  moreover have "reminder_step ({sample_reminder}, sample_requested)
      ({sample_reminder, sample_confirmed_reminder}, sample_confirmed)"
    using reminder_step.confirm [OF _ sample_confirmed_def, of "{sample_reminder}"]
    by (simp add: sample_confirmed_rows insert_commute)
  ultimately show ?thesis
    by (meson rtranclp.rtrancl_refl rtranclp.rtrancl_into_rtrancl)
qed

theorem fired_reminder_was_confirmed_witness:
  "\<exists>(u :: db) (r :: reminder_row). task_reminders u = [r] \<and> rem_status r = R_FIRED \<and> rem_confirmed_at r \<noteq> None"
proof -
  define tasks where "tasks = (\<lambda>i. tget tsk_id i (task_tasks sample_tasks))"
  have known: "\<forall>r \<in> set [sample_confirmed_reminder]. \<exists>t. tasks (rem_task_id r) = Some t \<and> tsk_id t = rem_task_id r"
    by (simp add: tasks_def sample_tasks_rows sample_task_def sample_reminder_def)
  obtain u where u: "fire_all tasks 9 [sample_confirmed_reminder] sample_confirmed = ok () u"
      "task_reminders u = [fired 9 sample_confirmed_reminder]"
    using fire_all_ok [OF known, of 9 sample_confirmed] by (auto simp: sample_confirmed_rows)
  have "reminder_step ({sample_reminder, sample_confirmed_reminder}, sample_confirmed)
      ({sample_reminder, sample_confirmed_reminder} \<union> set (task_reminders u), u)"
    using u(1) sample_is_due by (intro reminder_step.fire [of "[sample_confirmed_reminder]" _ 7 9 tasks]) (simp_all add: ok_def)
  with sample_confirmed_reached have "reminder_step\<^sup>*\<^sup>* ({}, empty_db)
      ({sample_reminder, sample_confirmed_reminder} \<union> set (task_reminders u), u)"
    by (rule rtranclp.rtrancl_into_rtrancl)
  from fired_reminder_was_confirmed [OF _ this, of "fired 9 sample_confirmed_reminder"]
  have confirmed: "rem_confirmed_at (fired 9 sample_confirmed_reminder) \<noteq> None"
    by (simp add: no_reminders_def inj_def fired_def u(2))
  show ?thesis
    by (rule exI [of _ u], rule exI [of _ "fired 9 sample_confirmed_reminder"]) (simp add: u(2) confirmed, simp add: fired_def)
qed

theorem cancelled_reminder_still_fires_witness:
  "\<exists>a b s1 s2. cancel_reminder sample_reminder sample_requested = ok a s1
     \<and> confirm_reminder sample_reminder 5 s1 = ok b s2 \<and> map rem_id (due_reminders 7 9 s2) = [5]"
  using cancelled_reminder_still_fires [OF sample_requested_rows(1), of 9]
  by (simp add: sample_reminder_def) metis

end
