(* ===== verification/Tasks_Api.thy ===== *)
theory Tasks_Api
  imports Tasks Api_Context
begin

text \<open>
  \<open>doda/api/tasks.py\<close> with the bodies and responses of \<open>doda/api/task_schemas.py\<close>: the handlers of
  the task, decision and reminder endpoints.  A task of another workspace and a task that does not
  exist get the same 404, before any authorization check; so does a reminder under another task.
\<close>

section \<open>Responses\<close>

record task_out =
  to_id :: uuid
  to_workspace_id :: uuid
  to_owner_id :: string
  to_title :: string
  to_status :: task_status
  to_due_date :: "instant option"
  to_parent_task_id :: "uuid option"

definition to_task_out :: "task_row \<Rightarrow> task_out" where
  "to_task_out task =
     \<lparr>to_id = tsk_id task, to_workspace_id = tsk_workspace_id task, to_owner_id = tsk_owner_id task,
      to_title = tsk_title task, to_status = tsk_status task, to_due_date = tsk_due_date task,
      to_parent_task_id = tsk_parent_task_id task\<rparr>"

record task_history_entry_out =
  tho_id :: uuid
  tho_actor_id :: string
  tho_from_status :: "task_status option"
  tho_to_status :: task_status
  tho_created_at :: instant

record task_decision_out =
  tdo_id :: uuid
  tdo_actor_id :: string
  tdo_variant :: string
  tdo_tradeoff :: string
  tdo_decision :: string
  tdo_reason :: string
  tdo_created_at :: instant

definition to_task_decision_out :: "task_decision_row \<Rightarrow> task_decision_out" where
  "to_task_decision_out record =
     \<lparr>tdo_id = td_id record, tdo_actor_id = td_actor_id record, tdo_variant = td_variant record,
      tdo_tradeoff = td_tradeoff record, tdo_decision = td_decision record, tdo_reason = td_reason record,
      tdo_created_at = td_created_at record\<rparr>"

record reminder_out =
  ro_id :: uuid
  ro_task_id :: uuid
  ro_actor_id :: string
  ro_remind_at :: instant
  ro_status :: reminder_status
  ro_confirmed_at :: "instant option"
  ro_fired_at :: "instant option"
  ro_created_at :: instant

definition to_reminder_out :: "reminder_row \<Rightarrow> reminder_out" where
  "to_reminder_out reminder =
     \<lparr>ro_id = rem_id reminder, ro_task_id = rem_task_id reminder, ro_actor_id = rem_actor_id reminder,
      ro_remind_at = rem_remind_at reminder, ro_status = rem_status reminder,
      ro_confirmed_at = rem_confirmed_at reminder, ro_fired_at = rem_fired_at reminder,
      ro_created_at = rem_created_at reminder\<rparr>"

section \<open>Tasks\<close>

definition create_workspace_task ::
  "string \<Rightarrow> instant option \<Rightarrow> uuid option \<Rightarrow> request_context \<Rightarrow> db \<Rightarrow> task_out response" where
  "create_workspace_task title due_date parent_task_id ctx s =
     bind_err (require (authorize_create_task (rc_workspace ctx)) s) (\<lambda>_ s.
     bind_err (create_task (wc_customer_id (rc_workspace ctx)) (wc_workspace_id (rc_workspace ctx))
                 (ctx_actor ctx) title due_date parent_task_id s) (\<lambda>task s.
     ok (to_task_out task) s))"

definition list_workspace_tasks ::
  "task_status option \<Rightarrow> int \<Rightarrow> request_context \<Rightarrow> db \<Rightarrow> task_out list response" where
  "list_workspace_tasks status limit ctx s =
     (case list_tasks_for_workspace (wc_workspace_id (rc_workspace ctx)) status limit s of
        Inl e \<Rightarrow> raise e s
      | Inr tasks \<Rightarrow> ok (map to_task_out tasks) s)"

text \<open>The query parameter \<open>period\<close> is one of the two keys of the windows.\<close>

datatype plan_period = DAILY | WEEKLY

primrec plan_period_value :: "plan_period \<Rightarrow> string" where
  "plan_period_value DAILY = ''daily''"
| "plan_period_value WEEKLY = ''weekly''"

definition get_workspace_task_plan :: "plan_period \<Rightarrow> request_context \<Rightarrow> db \<Rightarrow> task_out list response" where
  "get_workspace_task_plan period ctx s =
     bind_err (generate_task_plan (wc_workspace_id (rc_workspace ctx)) (plan_period_value period) 100 s) (\<lambda>tasks s.
     ok (map to_task_out tasks) s)"

definition get_owned_task :: "request_context \<Rightarrow> uuid \<Rightarrow> db \<Rightarrow> task_row response" where
  "get_owned_task ctx task_id s =
     (case tget tsk_id task_id (task_tasks s) of
        None \<Rightarrow> raise (HttpException 404 ''task not found'') s
      | Some task \<Rightarrow>
          if tsk_workspace_id task \<noteq> wc_workspace_id (rc_workspace ctx)
          then raise (HttpException 404 ''task not found'') s
          else ok task s)"

definition get_task :: "uuid \<Rightarrow> request_context \<Rightarrow> db \<Rightarrow> task_out response" where
  "get_task task_id ctx s =
     bind_err (get_owned_task ctx task_id s) (\<lambda>task s. ok (to_task_out task) s)"

definition change_workspace_task_status ::
  "uuid \<Rightarrow> task_status \<Rightarrow> request_context \<Rightarrow> db \<Rightarrow> task_out response" where
  "change_workspace_task_status task_id target_status ctx s =
     bind_err (get_owned_task ctx task_id s) (\<lambda>task s.
     bind_err (require (authorize_task_mutation (rc_workspace ctx) task) s) (\<lambda>_ s.
     bind_err (change_task_status task target_status (ctx_actor ctx) s) (\<lambda>task s.
     ok (to_task_out task) s)))"

definition get_task_history ::
  "uuid \<Rightarrow> request_context \<Rightarrow> db \<Rightarrow> task_history_entry_out list response" where
  "get_task_history task_id ctx s =
     bind_err (get_owned_task ctx task_id s) (\<lambda>_ s.
     ok (map (\<lambda>entry. \<lparr>tho_id = th_id entry, tho_actor_id = th_actor_id entry,
                tho_from_status = th_from_status entry, tho_to_status = th_to_status entry,
                tho_created_at = th_created_at entry\<rparr>) (list_task_history task_id s)) s)"

section \<open>Decisions\<close>

definition record_workspace_task_decision ::
  "uuid \<Rightarrow> string \<Rightarrow> string \<Rightarrow> string \<Rightarrow> string \<Rightarrow> request_context \<Rightarrow> db \<Rightarrow> task_decision_out response" where
  "record_workspace_task_decision task_id variant tradeoff decision reason ctx s =
     bind_err (get_owned_task ctx task_id s) (\<lambda>task s.
     bind_err (require (authorize_task_mutation (rc_workspace ctx) task) s) (\<lambda>_ s.
     (let (record, t) = record_task_decision task (ctx_actor ctx) variant tradeoff decision reason s
      in ok (to_task_decision_out record) t)))"

definition get_task_decisions :: "uuid \<Rightarrow> request_context \<Rightarrow> db \<Rightarrow> task_decision_out list response" where
  "get_task_decisions task_id ctx s =
     bind_err (get_owned_task ctx task_id s) (\<lambda>_ s.
     ok (map to_task_decision_out (list_task_decisions task_id s)) s)"

section \<open>Reminders\<close>

definition get_owned_reminder :: "request_context \<Rightarrow> uuid \<Rightarrow> uuid \<Rightarrow> db \<Rightarrow> reminder_row response" where
  "get_owned_reminder ctx task_id reminder_id s =
     (case tget rem_id reminder_id (task_reminders s) of
        None \<Rightarrow> raise (HttpException 404 ''reminder not found'') s
      | Some reminder \<Rightarrow>
          if rem_task_id reminder \<noteq> task_id \<or> rem_workspace_id reminder \<noteq> wc_workspace_id (rc_workspace ctx)
          then raise (HttpException 404 ''reminder not found'') s
          else ok reminder s)"

definition request_task_reminder :: "uuid \<Rightarrow> instant \<Rightarrow> request_context \<Rightarrow> db \<Rightarrow> reminder_out response" where
  "request_task_reminder task_id remind_at ctx s =
     bind_err (get_owned_task ctx task_id s) (\<lambda>task s.
     bind_err (require (authorize_task_mutation (rc_workspace ctx) task) s) (\<lambda>_ s.
     (let (reminder, t) = request_reminder task (ctx_actor ctx) remind_at s
      in ok (to_reminder_out reminder) t)))"

definition get_task_reminders :: "uuid \<Rightarrow> request_context \<Rightarrow> db \<Rightarrow> reminder_out list response" where
  "get_task_reminders task_id ctx s =
     bind_err (get_owned_task ctx task_id s) (\<lambda>_ s.
     ok (map to_reminder_out (list_reminders_for_task task_id s)) s)"

definition confirm_task_reminder ::
  "uuid \<Rightarrow> uuid \<Rightarrow> instant \<Rightarrow> request_context \<Rightarrow> db \<Rightarrow> reminder_out response" where
  "confirm_task_reminder task_id reminder_id remind_at ctx s =
     bind_err (get_owned_task ctx task_id s) (\<lambda>task s.
     bind_err (require (authorize_task_mutation (rc_workspace ctx) task) s) (\<lambda>_ s.
     bind_err (get_owned_reminder ctx task_id reminder_id s) (\<lambda>reminder s.
     bind_err (confirm_reminder reminder remind_at s) (\<lambda>reminder s.
     ok (to_reminder_out reminder) s))))"

definition cancel_task_reminder :: "uuid \<Rightarrow> uuid \<Rightarrow> request_context \<Rightarrow> db \<Rightarrow> reminder_out response" where
  "cancel_task_reminder task_id reminder_id ctx s =
     bind_err (get_owned_task ctx task_id s) (\<lambda>task s.
     bind_err (require (authorize_task_mutation (rc_workspace ctx) task) s) (\<lambda>_ s.
     bind_err (get_owned_reminder ctx task_id reminder_id s) (\<lambda>reminder s.
     bind_err (cancel_reminder reminder s) (\<lambda>reminder s.
     ok (to_reminder_out reminder) s))))"

section \<open>The lookups are tenant guards\<close>

interpretation task_guard: tenant_guard "\<lambda>i s. tget tsk_id i (task_tasks s)" tsk_workspace_id
    "\<lambda>ctx. wc_workspace_id (rc_workspace ctx)" get_owned_task "HttpException 404 ''task not found''"
  by unfold_locales (simp_all add: get_owned_task_def)

interpretation reminder_guard: tenant_guard "\<lambda>i s. tget rem_id i (task_reminders s)"
    "\<lambda>r. (rem_task_id r, rem_workspace_id r)" "\<lambda>(ctx, task_id). (task_id, wc_workspace_id (rc_workspace ctx))"
    "\<lambda>(ctx, task_id). get_owned_reminder ctx task_id" "HttpException 404 ''reminder not found''"
  by unfold_locales (auto simp: get_owned_reminder_def split: if_split_asm)


section \<open>What a change to a task over HTTP requires\<close>

datatype task_mutation =
    STATUS task_status
  | DECISION string string string string
  | REMIND instant
  | CONFIRM uuid instant
  | CANCEL uuid

definition mutate_task :: "uuid \<Rightarrow> task_mutation \<Rightarrow> request_context \<Rightarrow> db \<Rightarrow> unit response" where
  "mutate_task i m ctx s =
     (case m of
        STATUS st \<Rightarrow> bind_err (change_workspace_task_status i st ctx s) (\<lambda>_. ok ())
      | DECISION v tr d why \<Rightarrow> bind_err (record_workspace_task_decision i v tr d why ctx s) (\<lambda>_. ok ())
      | REMIND at_time \<Rightarrow> bind_err (request_task_reminder i at_time ctx s) (\<lambda>_. ok ())
      | CONFIRM j at_time \<Rightarrow> bind_err (confirm_task_reminder i j at_time ctx s) (\<lambda>_. ok ())
      | CANCEL j \<Rightarrow> bind_err (cancel_task_reminder i j ctx s) (\<lambda>_. ok ()))"

text \<open>Every one of the handlers is this check followed by the service.\<close>

definition checked_task :: "request_context \<Rightarrow> uuid \<Rightarrow> db \<Rightarrow> task_row response" where
  "checked_task ctx i s =
     bind_err (get_owned_task ctx i s) (\<lambda>task s.
     bind_err (require (authorize_task_mutation (rc_workspace ctx) task) s) (\<lambda>_ s. ok task s))"

lemma mutate_task_checked:
  "mutate_task i m ctx s =
     bind_err (checked_task ctx i s) (\<lambda>task s.
       case m of
         STATUS st \<Rightarrow> bind_err (change_task_status task st (ctx_actor ctx) s) (\<lambda>_. ok ())
       | DECISION v tr d why \<Rightarrow> ok () (snd (record_task_decision task (ctx_actor ctx) v tr d why s))
       | REMIND at_time \<Rightarrow> ok () (snd (request_reminder task (ctx_actor ctx) at_time s))
       | CONFIRM j at_time \<Rightarrow> bind_err (get_owned_reminder ctx i j s) (\<lambda>r s.
            bind_err (confirm_reminder r at_time s) (\<lambda>_. ok ()))
       | CANCEL j \<Rightarrow> bind_err (get_owned_reminder ctx i j s) (\<lambda>r s. bind_err (cancel_reminder r s) (\<lambda>_. ok ())))"
  by (cases m)
    (simp_all add: mutate_task_def checked_task_def change_workspace_task_status_def record_workspace_task_decision_def
      request_task_reminder_def confirm_task_reminder_def cancel_task_reminder_def bind_err_assoc case_prod_unfold Let_def)

lemma checked_task_ok_iff:
  "checked_task ctx i s = (Inr task, t) \<longleftrightarrow> t = s \<and> tget tsk_id i (task_tasks s) = Some task
     \<and> tsk_workspace_id task = wc_workspace_id (rc_workspace ctx)
     \<and> (tsk_owner_id task = ctx_actor ctx \<or> wc_role (rc_workspace ctx) = WR_ADMIN)"
  by (auto simp: checked_task_def bind_err_ok_iff task_guard.guard_ok_iff authorize_task_mutation_def deny_def Let_def
      split: if_splits)

text \<open>
  C30: a task is changed over HTTP (its status, a decision, a reminder requested, confirmed or
  cancelled) only in a live session whose user owns the task or administers its workspace; the
  status then moves along an edge of the table, and what is confirmed is a pending reminder of
  that task, at exactly the time it is set for.
\<close>

theorem task_change_over_http_requires:
  assumes "get_request_context w auth (mutate_task i m) s = (Inr u, t)"
  shows "\<exists>sid rec ctx task.
     parse_bearer_session_id auth = Inr sid \<and> fst (resolve_session sid s) = Inr rec
   \<and> get_workspace_context (ses_user_id rec) w False (snd (resolve_session sid s)) = Inr ctx
   \<and> tget tsk_id i (task_tasks s) = Some task \<and> tsk_workspace_id task = w
   \<and> (tsk_owner_id task = user_actor (ses_user_id rec) \<or> wc_role ctx = WR_ADMIN)
   \<and> (case m of
        STATUS st \<Rightarrow> task_edge (tsk_status task) st
          \<and> tget tsk_id i (task_tasks t) = Some (task\<lparr>tsk_status := st\<rparr>)
      | CONFIRM j at_time \<Rightarrow> (\<exists>r. tget rem_id j (task_reminders s) = Some r \<and> rem_task_id r = i
          \<and> rem_status r = R_PENDING_CONFIRMATION \<and> rem_remind_at r = at_time)
      | _ \<Rightarrow> True)"
proof -
  obtain sid rec s1 ctx where base: "parse_bearer_session_id auth = Inr sid" "resolve_session sid s = (Inr rec, s1)"
      "get_workspace_context (ses_user_id rec) w False s1 = Inr ctx"
    and handler: "mutate_task i m \<lparr>rc_workspace = ctx, rc_auth_strength = ses_auth_strength rec\<rparr> s1 = (Inr u, t)"
    using resolve_request_context_Inr [OF assms [unfolded get_request_context_def]] by blast
  have same: "task_tasks s1 = task_tasks s" "task_reminders s1 = task_reminders s"
    using base(2) by (auto simp: resolve_session_def utcnow_def Let_def split: option.splits if_splits)
  have ctx: "wc_workspace_id ctx = w" "wc_user_id ctx = ses_user_id rec"
    using base(3) by (auto simp: get_workspace_context_def split: option.splits if_splits list.splits prod.splits)
  from handler obtain task where task: "tget tsk_id i (task_tasks s) = Some task" "tsk_workspace_id task = w"
      "tsk_owner_id task = user_actor (ses_user_id rec) \<or> wc_role ctx = WR_ADMIN"
    by (auto simp: mutate_task_checked bind_err_ok_iff checked_task_ok_iff same ctx)
  have id: "tsk_id task = i" using task(1) by (auto dest: tget_SomeD)
  have "case m of
        STATUS st \<Rightarrow> task_edge (tsk_status task) st
          \<and> tget tsk_id i (task_tasks t) = Some (task\<lparr>tsk_status := st\<rparr>)
      | CONFIRM j at_time \<Rightarrow> (\<exists>r. tget rem_id j (task_reminders s) = Some r \<and> rem_task_id r = i
          \<and> rem_status r = R_PENDING_CONFIRMATION \<and> rem_remind_at r = at_time)
      | _ \<Rightarrow> True"
  proof (cases m)
    case (STATUS st)
    with handler task(1) obtain x where "change_task_status task st (user_actor (ses_user_id rec)) s1 = (Inr x, t)"
      by (auto simp: mutate_task_checked bind_err_ok_iff checked_task_ok_iff same ctx)
    from change_task_effect(1,3) [OF this, of task] task(1) id STATUS show ?thesis
      by (simp add: same tget_tupd)
  next
    case (CONFIRM j at_time)
    with handler show ?thesis
      by (auto simp: mutate_task_checked bind_err_ok_iff checked_task_ok_iff same confirm_reminder_def
          get_owned_reminder_def split: option.splits if_splits)
  qed simp_all
  with base task show ?thesis by auto
qed

theorem task_change_over_http_requires_witness:
  "\<exists>t. get_request_context 1 (bearer 5) (mutate_task 0 (CONFIRM 5 5))
       (sample_login\<lparr>task_tasks := [sample_task], task_reminders := [sample_reminder]\<rparr>) = ok () t
   \<and> tsk_owner_id sample_task = user_actor 3"
proof -
  define s0 where "s0 = sample_login\<lparr>task_tasks := [sample_task], task_reminders := [sample_reminder]\<rparr>"
  have env: "clock s0 = int" "ticks s0 = 0" by (simp_all add: s0_def sample_login_def sample_access_def)
  have run: "get_request_context 1 (bearer 5) h s0 = run_tx (h sample_login_ctx) (login_touched s0)" for h
    by (rule sample_login_request) (simp_all add: env, simp_all add: s0_def)
  have rows: "task_tasks (login_touched s0) = [sample_task]" "task_reminders (login_touched s0) = [sample_reminder]"
    by (simp_all add: login_touched_def s0_def)
  have "user_actor 3 = ''user:3''" by code_simp
  then have "checked_task sample_login_ctx 0 (login_touched s0) = ok sample_task (login_touched s0)"
    by (simp add: ok_def checked_task_ok_iff rows, simp add: sample_task_def sample_login_ctx_def)
  then have "\<exists>t. mutate_task 0 (CONFIRM 5 5) sample_login_ctx (login_touched s0) = ok () t"
    by (simp add: mutate_task_checked get_owned_reminder_def rows sample_reminder_def sample_login_ctx_def
        confirm_reminder_def utcnow_def)
  then obtain t where t: "get_request_context 1 (bearer 5) (mutate_task 0 (CONFIRM 5 5)) s0 = ok () t"
    by (auto simp: run run_tx_def ok_def simp del: One_nat_def)
  from task_change_over_http_requires [OF t [unfolded ok_def]] t show ?thesis
    using \<open>user_actor 3 = _\<close> by (auto simp: sample_task_def s0_def)
qed

end
