(* ===== verification/Tenant_Api.thy ===== *)
theory Tenant_Api
  imports Kill_Switch Api_Context
begin

text \<open>
  \<open>doda/api/kill_switch.py\<close>, \<open>doda/api/notifications.py\<close> and \<open>doda/api/audit.py\<close> with their
  schemas: the switches of a workspace and a customer, the caller's own notifications and
  preferences, and the audit viewer, which records that it was used.
\<close>

section \<open>Kill switches (api/kill_switch.py)\<close>

record kill_switch_status_out =
  kso_engaged :: bool
  kso_reason :: "string option"
  kso_engaged_at :: "instant option"
  kso_engaged_by :: "string option"

definition switch_is :: "bool \<Rightarrow> kill_switch_status_out" where
  "switch_is engaged = \<lparr>kso_engaged = engaged, kso_reason = None, kso_engaged_at = None, kso_engaged_by = None\<rparr>"

definition get_workspace_kill_switch :: "request_context \<Rightarrow> db \<Rightarrow> kill_switch_status_out response" where
  "get_workspace_kill_switch ctx s =
     ok (case get_workspace_kill_switch_status (wc_workspace_id (rc_workspace ctx)) s of
           None \<Rightarrow> switch_is False
         | Some switch \<Rightarrow>
             \<lparr>kso_engaged = True, kso_reason = Some (wks_reason switch),
              kso_engaged_at = Some (wks_engaged_at switch), kso_engaged_by = Some (wks_engaged_by switch)\<rparr>) s"

definition get_customer_kill_switch :: "customer_context \<Rightarrow> db \<Rightarrow> kill_switch_status_out response" where
  "get_customer_kill_switch ctx s =
     ok (case get_customer_kill_switch_status (cc_customer_id ctx) s of
           None \<Rightarrow> switch_is False
         | Some switch \<Rightarrow>
             \<lparr>kso_engaged = True, kso_reason = Some (cks_reason switch),
              kso_engaged_at = Some (cks_engaged_at switch), kso_engaged_by = Some (cks_engaged_by switch)\<rparr>) s"

definition engage_workspace :: "string \<Rightarrow> request_context \<Rightarrow> db \<Rightarrow> kill_switch_status_out response" where
  "engage_workspace reason ctx s =
     bind_err (require (authorize_engage_workspace_kill_switch (rc_workspace ctx)) s) (\<lambda>_ s.
     ok (switch_is True)
       (snd (engage_workspace_kill_switch (wc_workspace_id (rc_workspace ctx)) (wc_customer_id (rc_workspace ctx))
               (ctx_actor ctx) reason s)))"

definition disengage_workspace :: "request_context \<Rightarrow> db \<Rightarrow> kill_switch_status_out response" where
  "disengage_workspace ctx s =
     bind_err (require (authorize_engage_workspace_kill_switch (rc_workspace ctx)) s) (\<lambda>_ s.
     ok (switch_is False)
       (disengage_workspace_kill_switch (wc_workspace_id (rc_workspace ctx)) (wc_customer_id (rc_workspace ctx))
          (ctx_actor ctx) s))"

definition engage_customer :: "string \<Rightarrow> customer_context \<Rightarrow> db \<Rightarrow> kill_switch_status_out response" where
  "engage_customer reason ctx s =
     bind_err (require (authorize_engage_customer_kill_switch ctx) s) (\<lambda>_ s.
     ok (switch_is True)
       (snd (engage_customer_kill_switch (cc_customer_id ctx) (user_actor (cc_user_id ctx)) reason s)))"

definition disengage_customer :: "customer_context \<Rightarrow> db \<Rightarrow> kill_switch_status_out response" where
  "disengage_customer ctx s =
     bind_err (require (authorize_engage_customer_kill_switch ctx) s) (\<lambda>_ s.
     ok (switch_is False)
       (disengage_customer_kill_switch (cc_customer_id ctx) (user_actor (cc_user_id ctx)) s))"

section \<open>Notifications (api/notifications.py)\<close>

record notification_out =
  no_id :: uuid
  no_workspace_id :: "uuid option"
  no_notification_type :: notification_type
  no_reference_type :: string
  no_reference_id :: uuid
  no_safe_metadata :: json
  no_created_at :: instant
  no_read_at :: "instant option"

definition to_notification_out :: "notification_row \<Rightarrow> notification_out" where
  "to_notification_out n =
     \<lparr>no_id = ntf_id n, no_workspace_id = ntf_workspace_id n, no_notification_type = ntf_type n,
      no_reference_type = ntf_reference_type n, no_reference_id = ntf_reference_id n,
      no_safe_metadata = ntf_safe_metadata n, no_created_at = ntf_created_at n, no_read_at = ntf_read_at n\<rparr>"

definition list_my_notifications ::
  "bool \<Rightarrow> int \<Rightarrow> request_context \<Rightarrow> db \<Rightarrow> notification_out list response" where
  "list_my_notifications unread_only limit ctx s =
     (case list_notifications_for_user (wc_customer_id (rc_workspace ctx)) (ctx_actor ctx)
             (Some (wc_workspace_id (rc_workspace ctx))) unread_only limit s of
        Inl e \<Rightarrow> raise e s
      | Inr ns \<Rightarrow> ok (map to_notification_out ns) s)"

text \<open>
  The lookup by identifier of both read endpoints checks the recipient; of which tenant the row is,
  is left to row level security, so it sees the tenant's rows.
\<close>

definition own_notification :: "uuid \<Rightarrow> string \<Rightarrow> uuid \<Rightarrow> db \<Rightarrow> notification_row response" where
  "own_notification tenant me notification_id s =
     (case tget ntf_id notification_id (filter (\<lambda>n. ntf_customer_id n = tenant) (notifications s)) of
        None \<Rightarrow> raise (HttpException 404 ''notification not found'') s
      | Some n \<Rightarrow>
          if ntf_recipient_id n \<noteq> me then raise (HttpException 404 ''notification not found'') s else ok n s)"

definition mark_read :: "uuid \<Rightarrow> request_context \<Rightarrow> db \<Rightarrow> notification_out response" where
  "mark_read notification_id ctx s =
     bind_err (own_notification (wc_customer_id (rc_workspace ctx)) (ctx_actor ctx) notification_id s) (\<lambda>n s.
     (let (n, t) = mark_notification_read n s in ok (to_notification_out n) t))"

definition list_my_notification_preferences :: "customer_context \<Rightarrow> db \<Rightarrow> (notification_type \<times> bool) list response" where
  "list_my_notification_preferences ctx s =
     ok (list_notification_preferences (cc_customer_id ctx) (user_actor (cc_user_id ctx)) s) s"

definition set_my_notification_preference ::
  "notification_type \<Rightarrow> bool \<Rightarrow> customer_context \<Rightarrow> db \<Rightarrow> (notification_type \<times> bool) response" where
  "set_my_notification_preference ty enabled ctx s =
     bind_err (set_notification_preference (cc_customer_id ctx) (user_actor (cc_user_id ctx)) ty enabled s) (\<lambda>_ s.
     ok (ty, enabled) s)"

definition list_my_notifications_across_workspaces ::
  "bool \<Rightarrow> int \<Rightarrow> customer_context \<Rightarrow> db \<Rightarrow> notification_out list response" where
  "list_my_notifications_across_workspaces unread_only limit ctx s =
     (case list_notifications_for_user (cc_customer_id ctx) (user_actor (cc_user_id ctx)) None unread_only limit s of
        Inl e \<Rightarrow> raise e s
      | Inr ns \<Rightarrow> ok (map to_notification_out ns) s)"

definition mark_read_across_workspaces :: "uuid \<Rightarrow> customer_context \<Rightarrow> db \<Rightarrow> notification_out response" where
  "mark_read_across_workspaces notification_id ctx s =
     bind_err (own_notification (cc_customer_id ctx) (user_actor (cc_user_id ctx)) notification_id s) (\<lambda>n s.
     (let (n, t) = mark_notification_read n s in ok (to_notification_out n) t))"

section \<open>The audit viewer (api/audit.py)\<close>

text \<open>An event as it is returned is its row without the column \<open>created_at\<close>.\<close>

record audit_event_out =
  aeo_id :: uuid
  aeo_customer_id :: uuid
  aeo_workspace_id :: "uuid option"
  aeo_trace_id :: uuid
  aeo_actor_id :: string
  aeo_event_type :: string
  aeo_occurred_at :: instant
  aeo_safe_metadata :: json
  aeo_prev_hash :: "string option"
  aeo_hash :: string

definition to_audit_event_out :: "audit_event_row \<Rightarrow> audit_event_out" where
  "to_audit_event_out e =
     \<lparr>aeo_id = ae_id e, aeo_customer_id = ae_customer_id e, aeo_workspace_id = ae_workspace_id e,
      aeo_trace_id = ae_trace_id e, aeo_actor_id = ae_actor_id e, aeo_event_type = ae_event_type e,
      aeo_occurred_at = ae_occurred_at e, aeo_safe_metadata = ae_safe_metadata e,
      aeo_prev_hash = ae_prev_hash e, aeo_hash = ae_hash e\<rparr>"

text \<open>The query as an operation of the request.\<close>

definition query_audit_events ::
  "uuid \<Rightarrow> audit_filter \<Rightarrow> int \<Rightarrow> uuid option \<Rightarrow> db \<Rightarrow> audit_event_row list response" where
  "query_audit_events customer_id f limit before_id s =
     (case list_audit_events customer_id f limit before_id s of
        Inl e \<Rightarrow> raise e s
      | Inr events \<Rightarrow> ok events s)"

definition opt_str :: "string option \<Rightarrow> json" where
  "opt_str v = (case v of None \<Rightarrow> JNull | Some t \<Rightarrow> JStr t)"

definition list_workspace_audit ::
  "string option \<Rightarrow> uuid option \<Rightarrow> int \<Rightarrow> uuid option \<Rightarrow> request_context \<Rightarrow> db \<Rightarrow> audit_event_out list response" where
  "list_workspace_audit event_type trace_id limit before_id ctx s =
     (let customer_id = wc_customer_id (rc_workspace ctx);
          workspace_id = wc_workspace_id (rc_workspace ctx);
          actor_filter = (if wc_role (rc_workspace ctx) = WR_MEMBER then Some (ctx_actor ctx) else None)
      in bind_err (query_audit_events customer_id
                     \<lparr>af_workspace_id = Some workspace_id, af_actor_id = actor_filter, af_event_type = event_type,
                      af_trace_id = trace_id\<rparr> limit before_id s) (\<lambda>events s.
         (let (new_trace, s1) = uuid4 s
          in ok (map to_audit_event_out events)
               (log_event customer_id new_trace (ctx_actor ctx) ''audit.viewed.v1'' (Some workspace_id)
                  [(''scope'', JStr ''workspace''), (''result_count'', JInt (int (length events))),
                   (''event_type_filter'', opt_str event_type)] s1))))"

definition list_customer_audit ::
  "string option \<Rightarrow> uuid option \<Rightarrow> uuid option \<Rightarrow> int \<Rightarrow> uuid option \<Rightarrow> customer_context \<Rightarrow> db
     \<Rightarrow> audit_event_out list response" where
  "list_customer_audit event_type trace_id workspace_id limit before_id ctx s =
     bind_err (require (authorize_view_customer_audit ctx) s) (\<lambda>_ s.
     bind_err (query_audit_events (cc_customer_id ctx)
                 \<lparr>af_workspace_id = workspace_id, af_actor_id = None, af_event_type = event_type,
                  af_trace_id = trace_id\<rparr> limit before_id s) (\<lambda>events s.
     (let (new_trace, s1) = uuid4 s
      in ok (map to_audit_event_out events)
           (log_event (cc_customer_id ctx) new_trace (user_actor (cc_user_id ctx)) ''audit.viewed.v1'' None
              [(''scope'', JStr ''customer''), (''role'', JStr (customer_role_value (cc_role ctx))),
               (''result_count'', JInt (int (length events))), (''event_type_filter'', opt_str event_type)] s1))))"

definition verify_customer_audit_chain :: "customer_context \<Rightarrow> db \<Rightarrow> (bool \<times> audit_chain_verification) response" where
  "verify_customer_audit_chain ctx s =
     bind_err (require (authorize_view_customer_audit ctx) s) (\<lambda>_ s.
     (let result = verify_audit_chain (cc_customer_id ctx) s;
          (new_trace, s1) = uuid4 s
      in ok (verification_ok result, result)
           (log_event (cc_customer_id ctx) new_trace (user_actor (cc_user_id ctx)) ''audit.chain_verified.v1'' None
              [(''role'', JStr (customer_role_value (cc_role ctx))),
               (''checked_count'', JInt (int (checked_count result))),
               (''violation_count'', JInt (int (length (violations result))))] s1)))"

definition get_customer_audit_evidence_package ::
  "uuid \<Rightarrow> customer_context \<Rightarrow> db \<Rightarrow> evidence_package response" where
  "get_customer_audit_evidence_package trace_id ctx s =
     bind_err (require (authorize_view_customer_audit ctx) s) (\<lambda>_ s.
     (let package = build_evidence_package (cc_customer_id ctx) trace_id s;
          (new_trace, s1) = uuid4 s
      in ok package
           (log_event (cc_customer_id ctx) new_trace (user_actor (cc_user_id ctx)) ''audit.evidence_exported.v1'' None
              [(''role'', JStr (customer_role_value (cc_role ctx))),
               (''exported_trace_id'', JStr (uuid_str trace_id)),
               (''event_count'', JInt (int (length (ep_events package))))] s1)))"

end
