(* ===== verification/Me_Api.thy ===== *)
theory Me_Api
  imports Members_Api Tasks_Api Tenant_Api
begin

text \<open>
  What a user reaches with nothing but a session: \<open>doda/api/sessions.py\<close>, \<open>doda/api/me.py\<close> and
  \<open>doda/application/export_service.py\<close>.  The identity is resolved first; the handlers then open the
  transactions they need, one per tenant.
\<close>

definition with_identity :: "string option \<Rightarrow> (current_identity \<Rightarrow> db \<Rightarrow> 'a response) \<Rightarrow> db \<Rightarrow> 'a response" where
  "with_identity authorization handler s = bind_err (get_current_identity authorization s) handler"

section \<open>Sessions (api/sessions.py)\<close>

record session_out =
  so_id :: uuid
  so_created_at :: instant
  so_last_seen_at :: instant
  so_expires_at :: instant
  so_auth_strength :: auth_strength
  so_is_current :: bool

definition to_session_out :: "uuid \<Rightarrow> session_row \<Rightarrow> session_out" where
  "to_session_out current_session_id r =
     \<lparr>so_id = ses_id r, so_created_at = ses_created_at r, so_last_seen_at = ses_last_seen_at r,
      so_expires_at = ses_expires_at r, so_auth_strength = ses_auth_strength r,
      so_is_current = (ses_id r = current_session_id)\<rparr>"

definition list_my_sessions :: "current_identity \<Rightarrow> db \<Rightarrow> session_out list response" where
  "list_my_sessions identity s =
     (let (sessions, t) = list_active_sessions_for_user (ci_user_id identity) s
      in ok (map (to_session_out (ci_session_id identity)) sessions) t)"

definition revoke_my_session :: "uuid \<Rightarrow> current_identity \<Rightarrow> db \<Rightarrow> unit response" where
  "revoke_my_session session_id identity s =
     (case tget ses_id session_id (identity_sessions s) of
        None \<Rightarrow> raise (HttpException 404 ''session not found'') s
      | Some target \<Rightarrow>
          if ses_user_id target \<noteq> ci_user_id identity then raise (HttpException 404 ''session not found'') s
          else ok () (revoke_session session_id s))"

section \<open>The export (export_service.py)\<close>

definition export_page_size :: int where "export_page_size = 200"

record my_data_export =
  ex_user_id :: uuid
  ex_display_name :: string
  ex_memberships :: "my_workspace_entry list"
  ex_tasks :: "task_row list"
  ex_notifications :: "notification_row list"
  ex_audit_events :: "audit_event_row list"

text \<open>The caller's own tasks, workspace by workspace, each workspace once.\<close>

fun export_tasks :: "string \<Rightarrow> uuid list \<Rightarrow> my_workspace_entry list \<Rightarrow> db \<Rightarrow> app_error + task_row list" where
  "export_tasks actor_id seen [] s = Inr []"
| "export_tasks actor_id seen (membership # memberships) s =
     (if mwe_workspace_id membership \<in> set seen then export_tasks actor_id seen memberships s
      else case list_tasks_for_workspace (mwe_workspace_id membership) None export_page_size s of
             Inl e \<Rightarrow> Inl e
           | Inr workspace_tasks \<Rightarrow>
               (case export_tasks actor_id (mwe_workspace_id membership # seen) memberships s of
                  Inl e \<Rightarrow> Inl e
                | Inr rest \<Rightarrow> Inr (filter (\<lambda>t. tsk_owner_id t = actor_id) workspace_tasks @ rest)))"

definition export_customer ::
  "string \<Rightarrow> uuid \<Rightarrow> uuid \<Rightarrow> db \<Rightarrow> (app_error + notification_row list \<times> audit_event_row list) \<times> db" where
  "export_customer actor_id trace_id customer_id s =
     (case list_notifications_for_user customer_id actor_id None False export_page_size s of
        Inl e \<Rightarrow> raise e s
      | Inr ns \<Rightarrow>
          bind_err (query_audit_events customer_id
                      \<lparr>af_workspace_id = None, af_actor_id = Some actor_id, af_event_type = None,
                       af_trace_id = None\<rparr> export_page_size None s) (\<lambda>events s.
          ok (ns, events)
            (log_event customer_id trace_id actor_id ''user.data_exported.v1'' None
               [(''scope'', JStr ''customer'')] s)))"

definition export_my_data :: "uuid \<Rightarrow> uuid \<Rightarrow> db \<Rightarrow> my_data_export response" where
  "export_my_data user_id trace_id s =
     (case list_my_workspaces user_id s of
        Inl e \<Rightarrow> raise e s
      | Inr memberships \<Rightarrow>
          (case tget usr_id user_id (identity_users s) of
             None \<Rightarrow> raise (Unhandled ''AssertionError'') s
           | Some user \<Rightarrow>
               (case export_tasks (user_actor user_id) [] memberships s of
                  Inl e \<Rightarrow> raise e s
                | Inr tasks \<Rightarrow>
                    bind_err (each_err (\<lambda>customer_id. run_tx (export_customer (user_actor user_id) trace_id customer_id))
                                (customer_ids_for_user user_id s) s) (\<lambda>parts s.
                    ok \<lparr>ex_user_id = user_id, ex_display_name = usr_display_name user, ex_memberships = memberships,
                         ex_tasks = tasks, ex_notifications = concat (map fst parts),
                         ex_audit_events = concat (map snd parts)\<rparr> s))))"

section \<open>The endpoints (api/me.py)\<close>

definition list_my_workspaces_endpoint :: "current_identity \<Rightarrow> db \<Rightarrow> my_workspace_entry list response" where
  "list_my_workspaces_endpoint identity s =
     (case list_my_workspaces (ci_user_id identity) s of Inl e \<Rightarrow> raise e s | Inr entries \<Rightarrow> ok entries s)"

definition list_my_customers_endpoint :: "current_identity \<Rightarrow> db \<Rightarrow> my_customer_entry list response" where
  "list_my_customers_endpoint identity s = ok (list_my_customers (ci_user_id identity) s) s"

record my_data_export_out =
  xo_user_id :: uuid
  xo_display_name :: string
  xo_memberships :: "my_workspace_entry list"
  xo_tasks :: "task_out list"
  xo_notifications :: "notification_out list"
  xo_audit_events :: "audit_event_out list"

definition export_my_data_endpoint :: "uuid \<Rightarrow> current_identity \<Rightarrow> db \<Rightarrow> my_data_export_out response" where
  "export_my_data_endpoint trace_id identity s =
     bind_err (export_my_data (ci_user_id identity) trace_id s) (\<lambda>export s.
     ok \<lparr>xo_user_id = ex_user_id export, xo_display_name = ex_display_name export,
         xo_memberships = ex_memberships export, xo_tasks = map to_task_out (ex_tasks export),
         xo_notifications = map to_notification_out (ex_notifications export),
         xo_audit_events = map to_audit_event_out (ex_audit_events export)\<rparr> s)"

text \<open>\<open>TraceIdMiddleware\<close>: a header that is no UUID is replaced, not refused.\<close>

definition request_trace_id :: "string option \<Rightarrow> db \<Rightarrow> uuid \<times> db" where
  "request_trace_id client_supplied s =
     (case client_supplied of
        None \<Rightarrow> uuid4 s
      | Some text \<Rightarrow>
          if text = [] then uuid4 s
          else (case parse_uuid text of None \<Rightarrow> uuid4 s | Some u \<Rightarrow> (u, s)))"

section \<open>The lookup of a session is a guard, of which the user is the tenant\<close>

definition own_session :: "current_identity \<Rightarrow> uuid \<Rightarrow> db \<Rightarrow> session_row response" where
  "own_session identity session_id s =
     (case tget ses_id session_id (identity_sessions s) of
        None \<Rightarrow> raise (HttpException 404 ''session not found'') s
      | Some target \<Rightarrow>
          if ses_user_id target \<noteq> ci_user_id identity then raise (HttpException 404 ''session not found'') s
          else ok target s)"

interpretation session_guard: tenant_guard "\<lambda>i s. tget ses_id i (identity_sessions s)" ses_user_id ci_user_id
    own_session "HttpException 404 ''session not found''"
  by unfold_locales (simp_all add: own_session_def)

lemma revoke_my_session_guarded:
  "revoke_my_session i identity s = bind_err (own_session identity i s) (\<lambda>_ s. ok () (revoke_session i s))"
  by (simp add: revoke_my_session_def own_session_def split: option.splits)

end
