(* ===== verification/Jobs.thy ===== *)
theory Jobs
  imports Action_System Customers Tasks
begin

text \<open>
  The scheduled jobs of \<open>backend/scripts\<close>: firing reminders, verifying the audit chains, finding
  actions stuck in a status and checking that traces are complete.  Each walks the customers of the
  index and opens one transaction per customer; what a job prints is the report it returns, and its
  exit status the number beside it.
\<close>

section \<open>Firing reminders (fire_due_reminders_job.py)\<close>

text \<open>The count of each customer with something fired; an exception of one customer ends the job.\<close>

fun fire_reminders_for :: "uuid list \<Rightarrow> db \<Rightarrow> (app_error + (uuid \<times> nat) list) \<times> db" where
  "fire_reminders_for [] s = ok [] s"
| "fire_reminders_for (customer_id # customer_ids) s =
     bind_err (run_tx (fire_due_reminders customer_id None) s) (\<lambda>fired s.
     bind_err (fire_reminders_for customer_ids s) (\<lambda>lines s.
     ok (if fired = [] then lines else (customer_id, length fired) # lines) s))"

definition fire_due_reminders_job :: "db \<Rightarrow> (app_error + nat \<times> (uuid \<times> nat) list) \<times> db" where
  "fire_due_reminders_job s =
     bind_err (fire_reminders_for (list_all_customer_ids s) s) (\<lambda>lines s.
     ok (sum_list (map snd lines), lines) s)"

section \<open>Verifying the chains (verify_audit_chain_job.py)\<close>

definition verify_audit_chain_job :: "db \<Rightarrow> nat \<times> (uuid \<times> audit_chain_verification) list" where
  "verify_audit_chain_job s =
     (let results = map (\<lambda>c. (c, verify_audit_chain c s)) (list_all_customer_ids s)
      in (if \<forall>r \<in> set results. verification_ok (snd r) then 0 else 1, results))"

section \<open>Stuck actions (_ops_lib.py, find_stuck_*_actions.py)\<close>

text \<open>\<open>safe_metadata.get("action_id")\<close>, of an event whose metadata is an object.\<close>

definition event_action_id :: "audit_event_row \<Rightarrow> json option" where
  "event_action_id e = (case ae_safe_metadata e of JObj kvs \<Rightarrow> map_of (rev kvs) ''action_id'' | _ \<Rightarrow> None)"

definition find_actions_stuck_in_status ::
  "uuid \<Rightarrow> action_status \<Rightarrow> string \<Rightarrow> db \<Rightarrow> (action_row \<times> instant option) list" where
  "find_actions_stuck_in_status tenant status entered_status_event_type s =
     (let actions = filter (\<lambda>a. act_customer_id a = tenant \<and> act_status a = status) (action_actions s);
          events = filter (\<lambda>e. ae_customer_id e = tenant \<and> ae_event_type e = entered_status_event_type) (audit_events s);
          since_by_action_id = map_of (rev (map (\<lambda>e. (event_action_id e, ae_occurred_at e)) events))
      in map (\<lambda>a. (a, since_by_action_id (Some (JStr (uuid_str (act_id a)))))) actions)"

datatype stuck_line = StuckUnknown uuid | StuckSince uuid instant | NotStuck uuid

definition stuck_line :: "instant \<Rightarrow> action_row \<times> instant option \<Rightarrow> stuck_line" where
  "stuck_line cutoff p =
     (case snd p of
        None \<Rightarrow> StuckUnknown (act_id (fst p))
      | Some since \<Rightarrow> if since < cutoff then StuckSince (act_id (fst p)) since else NotStuck (act_id (fst p)))"

primrec is_stuck :: "stuck_line \<Rightarrow> bool" where
  "is_stuck (StuckUnknown i) = True"
| "is_stuck (StuckSince i t) = True"
| "is_stuck (NotStuck i) = False"

definition report_stuck_actions :: "(action_row \<times> instant option) list \<Rightarrow> instant \<Rightarrow> bool \<times> stuck_line list" where
  "report_stuck_actions pairs cutoff =
     (let lines = map (stuck_line cutoff) pairs in (list_ex is_stuck lines, lines))"

definition find_stuck_actions ::
  "action_status \<Rightarrow> string \<Rightarrow> int \<Rightarrow> db \<Rightarrow> nat \<times> stuck_line list" where
  "find_stuck_actions status entered threshold s =
     (let (now, s1) = utcnow s;
          reports = map (\<lambda>c. report_stuck_actions (find_actions_stuck_in_status c status entered s1) (now - threshold))
                        (list_all_customer_ids s1)
      in (if list_ex fst reports then 1 else 0, concat (map snd reports)))"

definition find_stuck_running_actions :: "db \<Rightarrow> nat \<times> stuck_line list" where
  "find_stuck_running_actions s = find_stuck_actions RUNNING ''action.running.v1'' (15 * 60 * 1000000) s"

definition find_stuck_compensating_actions :: "db \<Rightarrow> nat \<times> stuck_line list" where
  "find_stuck_compensating_actions s =
     find_stuck_actions COMPENSATING ''action.compensating.v1'' (60 * 60 * 1000000) s"

section \<open>Complete traces (verify_trace_completeness_job.py)\<close>

text \<open>A violation: the event, with the identifier of its action and the trace the action has.\<close>

definition check_customer_trace_completeness :: "uuid \<Rightarrow> db \<Rightarrow> (uuid \<times> string \<times> uuid) list" where
  "check_customer_trace_completeness tenant s =
     (let actions = filter (\<lambda>a. act_customer_id a = tenant) (action_actions s);
          action_trace_by_id = map_of (rev (map (\<lambda>a. (uuid_str (act_id a), act_trace_id a)) actions));
          events = filter (\<lambda>e. ae_customer_id e = tenant) (audit_events s)
      in concat (map (\<lambda>e.
           case event_action_id e of
             Some (JStr action_id) \<Rightarrow>
               (case action_trace_by_id action_id of
                  None \<Rightarrow> []
                | Some expected \<Rightarrow> if ae_trace_id e \<noteq> expected then [(ae_id e, action_id, expected)] else [])
           | _ \<Rightarrow> []) events))"

definition verify_trace_completeness_job :: "db \<Rightarrow> nat \<times> (uuid \<times> string \<times> uuid) list" where
  "verify_trace_completeness_job s =
     (let lines = concat (map (\<lambda>c. check_customer_trace_completeness c s) (list_all_customer_ids s))
      in (if lines = [] then 0 else 1, lines))"

end
