(* ===== verification/Login.thy ===== *)
theory Login
  imports Notifications Api_Context
begin

text \<open>
  The login: \<open>doda/infrastructure/google_oidc_client.py\<close>,
  \<open>doda/application/oidc_login_service.py\<close> and \<open>doda/api/auth.py\<close>.  Google's two endpoints are
  parameters, functions from what the request carries to a reply; everything the program does with
  a reply, whatever it is, is modelled.
\<close>

section \<open>The Google client\<close>

text \<open>
  A request either fails before there is a JSON body (a network error, or a body that is none),
  with the name of the exception, or has a status and a JSON body.
\<close>

datatype http_reply = NoReply string | Reply (reply_status: int) (reply_body: json)

definition is_success :: "int \<Rightarrow> bool" where
  "is_success status \<longleftrightarrow> 200 \<le> status \<and> status \<le> 299"

text \<open>\<open>body.get(key)\<close>, which only a JSON object has.\<close>

definition body_get :: "string \<Rightarrow> json \<Rightarrow> app_error + json" where
  "body_get key body =
     (case body of
        JObj kvs \<Rightarrow> Inr (case map_of (rev kvs) key of None \<Rightarrow> JNull | Some v \<Rightarrow> v)
      | _ \<Rightarrow> Inl (Unhandled ''AttributeError''))"

definition json_truthy :: "json \<Rightarrow> bool" where
  "json_truthy v =
     (case v of JNull \<Rightarrow> False | JBool b \<Rightarrow> b | JInt i \<Rightarrow> i \<noteq> 0 | JStr t \<Rightarrow> t \<noteq> []
      | JArr xs \<Rightarrow> xs \<noteq> [] | JObj fs \<Rightarrow> fs \<noteq> [])"

text \<open>A field that has to be a string that is not empty.\<close>

definition required_text :: "string \<Rightarrow> string \<Rightarrow> json \<Rightarrow> app_error + string" where
  "required_text key message body =
     (case body_get key body of
        Inl e \<Rightarrow> Inl e
      | Inr (JStr t) \<Rightarrow> if t = [] then Inl (GoogleOidcError message) else Inr t
      | Inr _ \<Rightarrow> Inl (GoogleOidcError message))"

text \<open>The message of a rejected exchange also quotes the body's \<open>error\<close>, which is left out here.\<close>

definition exchange_code_for_access_token :: "http_reply \<Rightarrow> app_error + string" where
  "exchange_code_for_access_token reply =
     (case reply of
        NoReply exc \<Rightarrow> Inl (GoogleOidcError (''token exchange request failed: '' @ exc))
      | Reply status body \<Rightarrow>
          if \<not> is_success status
          then (case body_get ''error'' body of
                  Inl e \<Rightarrow> Inl e
                | Inr _ \<Rightarrow> Inl (GoogleOidcError (''token exchange rejected: HTTP '' @ dec_int status)))
          else required_text ''access_token'' ''token exchange response missing access_token'' body)"

record google_user_info =
  gui_subject :: string
  gui_display_name :: json

text \<open>\<open>body.get("name") or body.get("email") or "Google user"\<close>, of whatever type the reply has it.\<close>

definition fetch_userinfo :: "http_reply \<Rightarrow> app_error + google_user_info" where
  "fetch_userinfo reply =
     (case reply of
        NoReply exc \<Rightarrow> Inl (GoogleOidcError (''userinfo request failed: '' @ exc))
      | Reply status body \<Rightarrow>
          if \<not> is_success status then Inl (GoogleOidcError (''userinfo request rejected: HTTP '' @ dec_int status))
          else (case (required_text ''sub'' ''userinfo response missing sub'' body,
                      body_get ''name'' body, body_get ''email'' body) of
                  (Inr subject, Inr name, Inr email) \<Rightarrow>
                    Inr \<lparr>gui_subject = subject,
                         gui_display_name = (if json_truthy name then name else if json_truthy email then email
                                             else JStr ''Google user'')\<rparr>
                | (Inl e, _) \<Rightarrow> Inl e
                | _ \<Rightarrow> Inl (Unhandled ''AttributeError'')))"

text \<open>The exchange sends the code, and the user information the token the exchange returned.\<close>

record google =
  token_endpoint :: "string \<Rightarrow> http_reply"
  userinfo_endpoint :: "string \<Rightarrow> http_reply"

definition login_with_google :: "google \<Rightarrow> string \<Rightarrow> app_error + google_user_info" where
  "login_with_google g code =
     (case exchange_code_for_access_token (token_endpoint g code) of
        Inl e \<Rightarrow> Inl e
      | Inr access_token \<Rightarrow> fetch_userinfo (userinfo_endpoint g access_token))"

text \<open>\<open>urllib.parse.urlencode\<close>, the text being its UTF-8 bytes.\<close>

definition url_safe_char :: "char \<Rightarrow> bool" where
  "url_safe_char c \<longleftrightarrow>
     (let n = (of_char c :: nat) in (48 \<le> n \<and> n \<le> 57) \<or> (65 \<le> n \<and> n \<le> 90) \<or> (97 \<le> n \<and> n \<le> 122)
        \<or> c \<in> set ''_.-~'')"

definition hex_digit :: "nat \<Rightarrow> char" where
  "hex_digit n = ''0123456789ABCDEF'' ! n"

definition quote_plus :: "string \<Rightarrow> string" where
  "quote_plus t = concat (map (\<lambda>c.
     if url_safe_char c then [c] else if c = CHR '' '' then ''+''
     else [CHR ''%'', hex_digit (of_char c div 16), hex_digit (of_char c mod 16)]) t)"

fun urlencode :: "(string \<times> string) list \<Rightarrow> string" where
  "urlencode [] = ''''"
| "urlencode [(k, v)] = quote_plus k @ ''='' @ quote_plus v"
| "urlencode ((k, v) # p # ps) = quote_plus k @ ''='' @ quote_plus v @ ''&'' @ urlencode (p # ps)"

definition build_authorization_url :: "string \<Rightarrow> string \<Rightarrow> string \<Rightarrow> string" where
  "build_authorization_url client_id redirect_uri state =
     ''https://accounts.google.com/o/oauth2/v2/auth?'' @ urlencode
       [(''client_id'', client_id), (''redirect_uri'', redirect_uri), (''response_type'', ''code''),
        (''scope'', ''openid email profile''), (''state'', state), (''access_type'', ''online''),
        (''prompt'', ''select_account'')]"

section \<open>The login service\<close>

definition check_state :: "string option \<Rightarrow> string \<Rightarrow> app_error option" where
  "check_state cookie_state state =
     (case cookie_state of
        None \<Rightarrow> Some OidcStateMismatchError
      | Some c \<Rightarrow>
          if c = [] then Some OidcStateMismatchError
          else (case compare_digest c state of
                  Inl e \<Rightarrow> Some e
                | Inr equal \<Rightarrow> if equal then None else Some OidcStateMismatchError))"

text \<open>
  A display name that is no string fails when the user row is inserted, and is not looked at when
  the user exists.
\<close>

definition login_user :: "string \<Rightarrow> json \<Rightarrow> db \<Rightarrow> (app_error + user_row) \<times> db" where
  "login_user subject_hash display_name s =
     (case display_name of
        JStr d \<Rightarrow> get_or_create_user subject_hash d s
      | _ \<Rightarrow> (case tget usr_oidc_subject_hash subject_hash (identity_users s) of
                None \<Rightarrow> raise (Unhandled ''DBAPIError'') s
              | Some u \<Rightarrow> ok u s))"

definition complete_google_login ::
  "google \<Rightarrow> string \<Rightarrow> string \<Rightarrow> string option \<Rightarrow> string option \<Rightarrow> db \<Rightarrow> (app_error + session_row \<times> bool) \<times> db" where
  "complete_google_login g code state cookie_state user_agent s =
     bind_err (require (check_state cookie_state state) s) (\<lambda>_ s.
     case login_with_google g code of
       Inl e \<Rightarrow> raise e s
     | Inr userinfo \<Rightarrow>
         bind_err (login_user (hash_oidc_subject ''google'' (gui_subject userinfo) (sha256 s))
                     (gui_display_name userinfo) s) (\<lambda>user s.
         (let is_new_device = (case user_agent of
                None \<Rightarrow> False
              | Some agent \<Rightarrow> agent \<noteq> [] \<and> is_new_device_login (usr_id user) agent s);
              (session_record, s) = create_session (usr_id user) AAL1 user_agent s
          in ok (session_record, is_new_device) s)))"

section \<open>The endpoints\<close>

record google_settings =
  google_oauth_client_id :: "string option"
  google_oauth_client_secret :: "string option"
  google_oauth_redirect_uri :: string
  frontend_base_url :: string

definition google_configured :: "google_settings \<Rightarrow> app_error option" where
  "google_configured settings =
     (if google_oauth_client_id settings = None \<or> google_oauth_client_secret settings = None
      then Some OidcNotConfiguredError else None)"

text \<open>What the browser is told: where to go, and what becomes of the state cookie.\<close>

datatype cookie_change = SetStateCookie (cookie_value: string) (cookie_secure: bool) | DeleteStateCookie

record redirect =
  rd_location :: string
  rd_cookie :: cookie_change

definition start_google_login :: "google_settings \<Rightarrow> db \<Rightarrow> (app_error + redirect) \<times> db" where
  "start_google_login settings s =
     bind_err (require (google_configured settings) s) (\<lambda>_ s.
     (let (state, s1) = token_urlsafe s
      in ok \<lparr>rd_location = build_authorization_url (the (google_oauth_client_id settings))
               (google_oauth_redirect_uri settings) state,
             rd_cookie = SetStateCookie state (take 8 (google_oauth_redirect_uri settings) = ''https://'')\<rparr> s1))"

definition session_location :: "google_settings \<Rightarrow> uuid \<Rightarrow> string" where
  "session_location settings session_id =
     frontend_base_url settings @ ''/auth/callback?session_id='' @ uuid_str session_id"

text \<open>The alert of a new device is written after the login has committed, in transactions of its own.\<close>

definition google_login_callback ::
  "google_settings \<Rightarrow> google \<Rightarrow> string \<Rightarrow> string \<Rightarrow> string option \<Rightarrow> string option \<Rightarrow> db
     \<Rightarrow> (app_error + redirect) \<times> db" where
  "google_login_callback settings g code state cookie_state user_agent s =
     bind_err (require (google_configured settings) s) (\<lambda>_ s.
     bind_err (run_tx (complete_google_login g code state cookie_state user_agent) s) (\<lambda>(rec, is_new_device) s.
     (let s1 = (if is_new_device then notify_new_device_login (ses_user_id rec) (ses_id rec) s else s)
      in ok \<lparr>rd_location = session_location settings (ses_id rec), rd_cookie = DeleteStateCookie\<rparr> s1)))"


section \<open>What Google reads in the URL\<close>

text \<open>
  The other side of \<open>urlencode\<close>: the query of a URL split into its parameters and unquoted, as the
  server it is sent to does.
\<close>

definition hex_value :: "char \<Rightarrow> nat" where
  "hex_value c = (let n = (of_char c :: nat) in if n < 58 then n - 48 else n - 55)"

fun unquote_plus :: "string \<Rightarrow> string" where
  "unquote_plus [] = []"
| "unquote_plus [c] = [if c = CHR ''+'' then CHR '' '' else c]"
| "unquote_plus [c, d] = map (\<lambda>x. if x = CHR ''+'' then CHR '' '' else x) [c, d]"
| "unquote_plus (c # d # e # t) =
     (if c = CHR ''%'' then char_of (16 * hex_value d + hex_value e) # unquote_plus t
      else (if c = CHR ''+'' then CHR '' '' else c) # unquote_plus (d # e # t))"

fun split_at :: "char \<Rightarrow> string \<Rightarrow> string list" where
  "split_at c [] = [[]]"
| "split_at c (x # xs) =
     (if x = c then [] # split_at c xs else (x # hd (split_at c xs)) # tl (split_at c xs))"

definition before :: "char \<Rightarrow> string \<Rightarrow> string" where
  "before c t = takeWhile (\<lambda>x. x \<noteq> c) t"

definition after :: "char \<Rightarrow> string \<Rightarrow> string" where
  "after c t = drop 1 (dropWhile (\<lambda>x. x \<noteq> c) t)"

definition query_value :: "string \<Rightarrow> string \<Rightarrow> string option" where
  "query_value name url =
     map_of (map (\<lambda>f. (unquote_plus (before (CHR ''='') f), unquote_plus (after (CHR ''='') f)))
       (split_at (CHR ''&'') (after (CHR ''?'') url))) name"

lemma hex_digit_cases:
  assumes "n < 16"
  shows "hex_value (hex_digit n) = n \<and> url_safe_char (hex_digit n)"
proof -
  have "list_all (\<lambda>n. hex_value (hex_digit n) = n \<and> url_safe_char (hex_digit n)) [0..<16]" by code_simp
  with assms show ?thesis by (simp add: list_all_iff)
qed

lemma unquote_plain: "c \<noteq> CHR ''%'' \<Longrightarrow> unquote_plus (c # t) = (if c = CHR ''+'' then CHR '' '' else c) # unquote_plus t"
proof (cases t rule: unquote_plus.cases)
  case (3 d e)
  assume "c \<noteq> CHR ''%''"
  with 3 show ?thesis by simp
qed auto

lemma unquote_hex:
  assumes "d < 16" "e < 16"
  shows "unquote_plus (CHR ''%'' # hex_digit d # hex_digit e # t) = char_of (16 * d + e) # unquote_plus t"
  using hex_digit_cases [OF assms(1)] hex_digit_cases [OF assms(2)] by simp

lemma char_halves: "char_of (16 * (of_char c div 16) + of_char c mod 16 :: nat) = c"
proof -
  have "16 * (of_char c div 16) + of_char c mod 16 = (of_char c :: nat)"
    by (rule mult_div_mod_eq)
  then show ?thesis by simp
qed

lemma unquote_quote [simp]: "unquote_plus (quote_plus t) = t"
proof (induction t)
  case (Cons c t)
  let ?q = "if url_safe_char c then [c] else if c = CHR '' '' then ''+''
     else [CHR ''%'', hex_digit (of_char c div 16), hex_digit (of_char c mod 16)]"
  have q: "quote_plus (c # t) = ?q @ quote_plus t" by (simp add: quote_plus_def)
  have safe: "c \<noteq> CHR ''%''" "c \<noteq> CHR ''+''" if "url_safe_char c"
    using that by (auto simp: url_safe_char_def Let_def)
  have "of_char c < (256 :: nat)" by simp
  then have "of_char c div 16 < (16 :: nat)" "of_char c mod 16 < (16 :: nat)" by simp_all
  from unquote_hex [OF this, of "quote_plus t"] Cons safe show ?case
    by (auto simp: q unquote_plain char_halves)
qed (simp add: quote_plus_def)

lemma quote_plus_chars: "x \<in> set (quote_plus t) \<Longrightarrow> url_safe_char x \<or> x = CHR ''+'' \<or> x = CHR ''%''"
proof -
  have hex: "url_safe_char (hex_digit (of_char c div 16))" "url_safe_char (hex_digit (of_char c mod 16))" for c
  proof -
    have "of_char c < (256 :: nat)" by simp
    then have "of_char c div 16 < (16 :: nat)" "of_char c mod 16 < (16 :: nat)" by simp_all
    then show "url_safe_char (hex_digit (of_char c div 16))" "url_safe_char (hex_digit (of_char c mod 16))"
      using hex_digit_cases by blast+
  qed
  assume "x \<in> set (quote_plus t)"
  then show ?thesis by (auto simp: quote_plus_def hex split: if_splits)
qed

lemma quote_plus_no [simp]: "CHR ''&'' \<notin> set (quote_plus t)" "CHR ''='' \<notin> set (quote_plus t)"
  using quote_plus_chars [of _ t] by (force simp: url_safe_char_def Let_def)+

lemma split_at_append: "c \<notin> set u \<Longrightarrow> split_at c (u @ c # v) = u # split_at c v"
  by (induction u) auto

lemma split_at_none: "c \<notin> set u \<Longrightarrow> split_at c u = [u]"
  by (induction u) auto

lemma halves: "c \<notin> set u \<Longrightarrow> before c (u @ c # v) = u \<and> after c (u @ c # v) = v"
  by (induction u) (auto simp: before_def after_def)

lemma field_halves:
  "before (CHR ''='') (quote_plus k @ CHR ''='' # v) = quote_plus k"
  "after (CHR ''='') (quote_plus k @ CHR ''='' # v) = v"
  using halves [OF quote_plus_no(2), of k v] by simp_all

lemma split_urlencode:
  "ps \<noteq> [] \<Longrightarrow> map (\<lambda>f. (unquote_plus (before (CHR ''='') f), unquote_plus (after (CHR ''='') f)))
     (split_at (CHR ''&'') (urlencode ps)) = ps"
proof (induction ps rule: urlencode.induct)
  case (2 k v)
  show ?case by (simp add: split_at_none field_halves)
next
  case (3 k v p ps)
  have "urlencode ((k, v) # p # ps) = (quote_plus k @ ''='' @ quote_plus v) @ CHR ''&'' # urlencode (p # ps)" by simp
  then show ?case using 3 by (simp only: split_at_append) (subst split_at_append, auto simp: field_halves)
qed simp

text \<open>The parameters of the URL that a login sends.\<close>

lemma authorization_url_query:
  "query_value name (build_authorization_url client_id redirect_uri state)
     = map_of [(''client_id'', client_id), (''redirect_uri'', redirect_uri), (''response_type'', ''code''),
        (''scope'', ''openid email profile''), (''state'', state), (''access_type'', ''online''),
        (''prompt'', ''select_account'')] name"
proof -
  have "after (CHR ''?'') (''https://accounts.google.com/o/oauth2/v2/auth?'' @ q) = q" for q
    by (simp add: after_def)
  then show ?thesis
    unfolding query_value_def build_authorization_url_def by (simp only: split_urlencode list.simps not_False_eq_True)
qed

lemma state_of_authorization_url: "query_value ''state'' (build_authorization_url c r state) = Some state"
  by (simp add: authorization_url_query)

section \<open>The round trip of a login\<close>

lemma check_state_None [simp]: "state \<noteq> [] \<Longrightarrow> is_ascii state \<Longrightarrow> check_state (Some state) state = None"
  by (simp add: check_state_def compare_digest_def)

lemma check_state_refuses:
  "c \<noteq> Some state \<Longrightarrow> \<exists>e. check_state c state = Some e \<and> e \<in> {OidcStateMismatchError, Unhandled ''TypeError''}"
  by (auto simp: check_state_def compare_digest_def split: option.splits)

lemma login_user_row:
  assumes "login_user h (JStr d) s = (Inr u, t)"
  shows "usr_oidc_subject_hash u = h" "u \<in> set (identity_users t)"
    "identity_sessions t = identity_sessions s" "uuid_src t = uuid_src s" "drawn s \<le> drawn t" "clock t = clock s"
    "ticks s \<le> ticks t"
  using assms
  by (auto simp: login_user_def get_or_create_user_def get_or_create_user_after_def row_defaults_def Let_def
      tget_None_iff dest: tget_SomeD split: option.splits if_splits)

lemma login_user_ok: "\<exists>u t. login_user h (JStr d) s = ok u t"
  by (auto simp: login_user_def get_or_create_user_def get_or_create_user_after_def row_defaults_def Let_def
      tget_None_iff split: option.splits)

lemma notify_new_device_login_frame:
  "identity_sessions (notify_new_device_login u i s) = identity_sessions s \<and> identity_users (notify_new_device_login u i s) = identity_users s
   \<and> clock (notify_new_device_login u i s) = clock s"
  unfolding notify_new_device_login_def by (intro conjI fold_frame) simp_all

definition google_session :: "google_settings \<Rightarrow> string \<Rightarrow> string option" where
  "google_session settings location =
     Some (bearer_prefix @ drop (length (frontend_base_url settings @ ''/auth/callback?session_id='')) location)"

lemma google_session_location [simp]: "google_session settings (session_location settings i) = bearer i"
  by (simp add: google_session_def session_location_def bearer_def)

text \<open>The callbacks of a login whose state is known: with its cookie, and with another or none.\<close>

lemma login_callbacks:
  assumes start: "start_google_login settings s = ok sent s1"
    and state: "is_ascii state" "state \<noteq> []"
    and google: "login_with_google g code = Inr info" "gui_display_name info = JStr name"
    and env: "inj (uuid_src s2)" "ses_id ` set (identity_sessions s2) \<subseteq> issued s2"
  shows "(\<exists>back t u rec. google_login_callback settings g code state (Some state) agent s2 = ok back t
       \<and> u \<in> set (identity_users t)
       \<and> usr_oidc_subject_hash u = hash_oidc_subject ''google'' (gui_subject info) (sha256 s2)
       \<and> identity_sessions t = identity_sessions s2 @ [rec] \<and> ses_user_id rec = usr_id u
       \<and> rd_location back = session_location settings (ses_id rec)
       \<and> (clock t (ticks t) \<le> ses_last_seen_at rec + idle_timeout
            \<longrightarrow> fst (get_current_identity (google_session settings (rd_location back)) t)
                 = Inr \<lparr>ci_user_id = usr_id u, ci_session_id = ses_id rec, ci_auth_strength = AAL1\<rparr>))
   \<and> (\<forall>c g'. c \<noteq> Some state \<longrightarrow>
        (\<exists>e. e \<in> {OidcStateMismatchError, Unhandled ''TypeError''}
          \<and> google_login_callback settings g' code state c agent s2 = raise e s2))"
proof
  have conf: "google_configured settings = None"
    using start by (cases "google_configured settings") (simp_all add: start_google_login_def)
  show "\<forall>c g'. c \<noteq> Some state \<longrightarrow> (\<exists>e. e \<in> {OidcStateMismatchError, Unhandled ''TypeError''}
      \<and> google_login_callback settings g' code state c agent s2 = raise e s2)"
  proof (intro allI impI)
    fix c g'
    assume "c \<noteq> Some state"
    then obtain e where "check_state c state = Some e" "e \<in> {OidcStateMismatchError, Unhandled ''TypeError''}"
      using check_state_refuses by blast
    then show "\<exists>e. e \<in> {OidcStateMismatchError, Unhandled ''TypeError''}
        \<and> google_login_callback settings g' code state c agent s2 = raise e s2"
      by (intro exI [of _ e]) (simp add: google_login_callback_def conf complete_google_login_def)
  qed
  let ?h = "hash_oidc_subject ''google'' (gui_subject info) (sha256 s2)"
  obtain u v where user: "login_user ?h (JStr name) s2 = ok u v" using login_user_ok by blast
  note U = login_user_row [OF user [unfolded ok_def]]
  define rec where "rec = fst (create_session (usr_id u) AAL1 agent v)"
  define w where "w = snd (create_session (usr_id u) AAL1 agent v)"
  define new where "new = (case agent of None \<Rightarrow> False | Some a \<Rightarrow> a \<noteq> [] \<and> is_new_device_login (usr_id u) a v)"
  define t where "t = (if new then notify_new_device_login (ses_user_id rec) (ses_id rec) w else w)"
  have rec: "ses_user_id rec = usr_id u" "ses_auth_strength rec = AAL1" "ses_revoked_at rec = None"
    "ses_expires_at rec = ses_last_seen_at rec + absolute_timeout" "ses_id rec = uuid_src v (drawn v)"
    by (simp_all add: rec_def create_session_def utcnow_def row_defaults_def Let_def)
  have w: "identity_sessions w = identity_sessions s2 @ [rec]" "identity_users w = identity_users v"
    using create_session_table(1) [of "usr_id u" AAL1 agent v]
    by (simp_all add: w_def rec_def U(3)) (simp add: create_session_def utcnow_def row_defaults_def Let_def)
  have t: "identity_sessions t = identity_sessions s2 @ [rec]" "identity_users t = identity_users v"
    using w notify_new_device_login_frame by (simp_all add: t_def)
  have fresh: "ses_id rec \<notin> ses_id ` set (identity_sessions s2)"
    using env U(4,5) rec(5) by (auto simp: issued_def inj_eq)
  have "complete_google_login g code state (Some state) agent s2 = ok (rec, new) w"
    by (simp add: complete_google_login_def state google user rec_def w_def new_def case_prod_unfold Let_def)
  then have run: "google_login_callback settings g code state (Some state) agent s2
      = ok \<lparr>rd_location = session_location settings (ses_id rec), rd_cookie = DeleteStateCookie\<rparr> t"
    by (simp add: google_login_callback_def conf t_def)
  have "tget ses_id (ses_id rec) (identity_sessions t) = Some rec"
    using fresh by (simp add: t tget_append tget_None_iff [THEN iffD2])
  then have "fst (get_current_identity (bearer (ses_id rec)) t)
      = Inr \<lparr>ci_user_id = usr_id u, ci_session_id = ses_id rec, ci_auth_strength = AAL1\<rparr>"
    if "clock t (ticks t) \<le> ses_last_seen_at rec + idle_timeout"
    using that rec
    by (simp add: get_current_identity_def resolve_session_def utcnow_def Let_def absolute_timeout_def idle_timeout_def)
  with run t U(1,2) rec(1) show "\<exists>back t u rec. google_login_callback settings g code state (Some state) agent s2 = ok back t
       \<and> u \<in> set (identity_users t) \<and> usr_oidc_subject_hash u = ?h
       \<and> identity_sessions t = identity_sessions s2 @ [rec] \<and> ses_user_id rec = usr_id u
       \<and> rd_location back = session_location settings (ses_id rec)
       \<and> (clock t (ticks t) \<le> ses_last_seen_at rec + idle_timeout
            \<longrightarrow> fst (get_current_identity (google_session settings (rd_location back)) t)
                 = Inr \<lparr>ci_user_id = usr_id u, ci_session_id = ses_id rec, ci_auth_strength = AAL1\<rparr>)"
    by (intro exI [of _ "\<lparr>rd_location = session_location settings (ses_id rec), rd_cookie = DeleteStateCookie\<rparr>"]
        exI [of _ t] exI [of _ u] exI [of _ rec]) simp
qed

text \<open>
  C31: the login round trip.  The URL a login sends the browser to carries a state; a callback that
  brings that state, as Google reads it in the URL, and the cookie the login set, and a code Google
  accepts, returns a location whose session identifier, sent back as a bearer token, is accepted and
  identifies the one user whose row carries the hash of the Google subject, at strength AAL1.  A
  callback whose cookie is missing or differs from the state is refused before Google is asked for
  anything, whatever Google would answer, and writes nothing.
\<close>

theorem login_round_trip:
  assumes start: "start_google_login settings s = ok sent s1" "rd_cookie sent = SetStateCookie cookie secure"
    and token: "is_ascii cookie" "cookie \<noteq> []"
    and google: "login_with_google g code = Inr info" "gui_display_name info = JStr name"
    and env: "inj (uuid_src s2)" "ses_id ` set (identity_sessions s2) \<subseteq> issued s2"
  shows "\<exists>state. query_value ''state'' (rd_location sent) = Some state
   \<and> (\<exists>back t u rec. google_login_callback settings g code state (Some cookie) agent s2 = ok back t
       \<and> u \<in> set (identity_users t)
       \<and> usr_oidc_subject_hash u = hash_oidc_subject ''google'' (gui_subject info) (sha256 s2)
       \<and> identity_sessions t = identity_sessions s2 @ [rec] \<and> ses_user_id rec = usr_id u
       \<and> rd_location back = session_location settings (ses_id rec)
       \<and> (clock t (ticks t) \<le> ses_last_seen_at rec + idle_timeout
            \<longrightarrow> fst (get_current_identity (google_session settings (rd_location back)) t)
                 = Inr \<lparr>ci_user_id = usr_id u, ci_session_id = ses_id rec, ci_auth_strength = AAL1\<rparr>))
   \<and> (\<forall>c g'. c \<noteq> Some state \<longrightarrow>
        (\<exists>e. e \<in> {OidcStateMismatchError, Unhandled ''TypeError''}
          \<and> google_login_callback settings g' code state c agent s2 = raise e s2))"
proof (rule exI [of _ cookie], intro conjI)
  show "query_value ''state'' (rd_location sent) = Some cookie"
    using start
    by (auto simp: start_google_login_def bind_err_ok_iff ok_def Let_def state_of_authorization_url split: prod.splits)
  from login_callbacks [OF start(1) token google env, of agent]
  show "\<exists>back t u rec. google_login_callback settings g code cookie (Some cookie) agent s2 = ok back t
       \<and> u \<in> set (identity_users t)
       \<and> usr_oidc_subject_hash u = hash_oidc_subject ''google'' (gui_subject info) (sha256 s2)
       \<and> identity_sessions t = identity_sessions s2 @ [rec] \<and> ses_user_id rec = usr_id u
       \<and> rd_location back = session_location settings (ses_id rec)
       \<and> (clock t (ticks t) \<le> ses_last_seen_at rec + idle_timeout
            \<longrightarrow> fst (get_current_identity (google_session settings (rd_location back)) t)
                 = Inr \<lparr>ci_user_id = usr_id u, ci_session_id = ses_id rec, ci_auth_strength = AAL1\<rparr>)"
    "\<forall>c g'. c \<noteq> Some cookie \<longrightarrow>
        (\<exists>e. e \<in> {OidcStateMismatchError, Unhandled ''TypeError''}
          \<and> google_login_callback settings g' code cookie c agent s2 = raise e s2)"
    by blast+
qed

definition sample_settings :: google_settings where
  "sample_settings = \<lparr>google_oauth_client_id = Some ''id'', google_oauth_client_secret = Some ''secret'',
     google_oauth_redirect_uri = ''https://doda/cb'', frontend_base_url = ''https://doda''\<rparr>"

definition sample_google :: google where
  "sample_google = \<lparr>token_endpoint = (\<lambda>code. Reply 200 (JObj [(''access_token'', JStr ''tok'')])),
     userinfo_endpoint = (\<lambda>token. Reply 200 (JObj [(''sub'', JStr ''g-1''), (''email'', JStr ''a@b'')]))\<rparr>"

theorem login_round_trip_witness:
  "\<exists>sent s1 state. start_google_login sample_settings empty_db = ok sent s1
   \<and> query_value ''state'' (rd_location sent) = Some state \<and> rd_cookie sent = SetStateCookie state True
   \<and> (\<exists>back t u. google_login_callback sample_settings sample_google ''c'' state (Some state) (Some ''ua'') empty_db = ok back t
        \<and> u \<in> set (identity_users t) \<and> usr_oidc_subject_hash u = ''google:g-1'')
   \<and> (\<exists>e. google_login_callback sample_settings sample_google ''c'' state (Some ''1'') (Some ''ua'') empty_db
         = raise e empty_db)"
proof -
  have state: "dec_nat 0 = ''0''" by code_simp
  let ?sent = "\<lparr>rd_location = build_authorization_url ''id'' ''https://doda/cb'' ''0'', rd_cookie = SetStateCookie ''0'' True\<rparr>"
  have start: "start_google_login sample_settings empty_db = ok ?sent (empty_db\<lparr>minted := 1\<rparr>)"
    by (simp add: start_google_login_def google_configured_def sample_settings_def token_urlsafe_def state)
  have cookie: "rd_cookie ?sent = SetStateCookie ''0'' True" by simp
  have ascii: "is_ascii ''0''" "''0'' \<noteq> []" by (simp_all add: is_ascii_def)
  have google: "login_with_google sample_google ''c''
      = Inr \<lparr>gui_subject = ''g-1'', gui_display_name = JStr ''a@b''\<rparr>"
    by (simp add: login_with_google_def sample_google_def exchange_code_for_access_token_def fetch_userinfo_def
        is_success_def required_text_def body_get_def json_truthy_def)
  have name: "gui_display_name \<lparr>gui_subject = ''g-1'', gui_display_name = JStr ''a@b''\<rparr> = JStr ''a@b''" by simp
  have env: "inj (uuid_src empty_db)" "ses_id ` set (identity_sessions empty_db) \<subseteq> issued empty_db"
    by (simp_all add: inj_def)
  have hash: "hash_oidc_subject ''google'' ''g-1'' (\<lambda>x. x) = ''google:g-1''"
    by (simp add: hash_oidc_subject_def)
  have read: "query_value ''state'' (rd_location ?sent) = Some ''0''" by (simp add: state_of_authorization_url)
  note trip = login_round_trip [OF start cookie ascii google name env, of "Some ''ua''"]
  from trip read obtain dest t u where "google_login_callback sample_settings sample_google ''c'' ''0'' (Some ''0'') (Some ''ua'') empty_db = ok dest t"
      "u \<in> set (identity_users t)" "usr_oidc_subject_hash u = ''google:g-1''"
    by (auto simp: hash)
  moreover have "\<exists>e. google_login_callback sample_settings sample_google ''c'' ''0'' (Some ''1'') (Some ''ua'') empty_db
      = raise e empty_db"
  proof -
    from trip read have "\<forall>c g'. c \<noteq> Some ''0'' \<longrightarrow> (\<exists>e. e \<in> {OidcStateMismatchError, Unhandled ''TypeError''}
          \<and> google_login_callback sample_settings g' ''c'' ''0'' c (Some ''ua'') empty_db = raise e empty_db)"
      by (elim exE conjE) (simp only: option.inject)
    from this [rule_format, of "Some ''1''" sample_google] show ?thesis by auto
  qed
  ultimately show ?thesis using start read by (intro exI [of _ ?sent] exI [of _ "empty_db\<lparr>minted := 1\<rparr>"] exI [of _ "''0''"]) auto
qed

end
