(* ===== verification/Ai_Settings.thy ===== *)
theory Ai_Settings
  imports Interfaces Runtime
begin

text \<open>
  The provider-neutral side of the language models: \<open>doda/ai/types.py\<close>, \<open>port.py\<close>,
  \<open>factory.py\<close>, \<open>capabilities.py\<close>, \<open>doda/infrastructure/ai_pricing.py\<close>, and the two services
  that decide which provider a turn uses, \<open>doda/application/ai_preference_service.py\<close> and
  \<open>ai_provider_settings_service.py\<close>.  The adapters that speak to a provider are a parameter:
  a function from the number of the call, the provider and the request to the events it
  yields and the exception it ends with, if any.
\<close>

section \<open>Settings the model uses (config.py)\<close>

record ai_settings =
  openai_api_key :: "string option"
  gemini_api_key :: "string option"
  claude_api_key :: "string option"
  ai_default_provider :: provider
  ai_model_openai :: string
  ai_model_claude :: string
  ai_model_gemini :: string
  ai_max_output_tokens_fast :: int
  ai_max_output_tokens_standard :: int
  ai_max_output_tokens_deep :: int
  ai_max_tool_rounds :: int
  ai_max_context_chars :: int
  ai_budget_soft_usd_per_customer_month :: rat
  ai_budget_hard_usd_per_customer_month :: rat
  ai_deep_request_cost_ceiling_usd :: rat

definition default_ai_settings :: ai_settings where
  "default_ai_settings =
     \<lparr>openai_api_key = None, gemini_api_key = None, claude_api_key = None,
      ai_default_provider = OPENAI, ai_model_openai = ''gpt-5-mini'', ai_model_claude = ''claude-sonnet-5'',
      ai_model_gemini = ''gemini-3.1-flash-lite'', ai_max_output_tokens_fast = 512,
      ai_max_output_tokens_standard = 1024, ai_max_output_tokens_deep = 4096, ai_max_tool_rounds = 4,
      ai_max_context_chars = 8000, ai_budget_soft_usd_per_customer_month = 20,
      ai_budget_hard_usd_per_customer_month = 80, ai_deep_request_cost_ceiling_usd = 2\<rparr>"

section \<open>What goes to a model and comes back (ai/types.py)\<close>

datatype chat_role = Role_USER | Role_ASSISTANT | Role_TOOL

record tool_spec =
  ts_name :: string
  ts_description :: string
  ts_parameters_schema :: json

record tool_call_request =
  call_id :: string
  call_name :: string
  call_arguments_json :: string

record chat_turn =
  turn_role :: chat_role
  turn_content :: string
  turn_tool_call_id :: "string option"
  turn_tool_calls :: "tool_call_request list option"

record gateway_usage =
  gu_input_tokens :: int
  gu_output_tokens :: int
  gu_cached_input_tokens :: int

datatype gateway_event =
    TextDelta string
  | ToolCallReady tool_call_request
  | StructuredOutputReady json
  | Completed gateway_usage string
  | GatewayErrorEvent app_error

record gateway_request =
  gr_model :: string
  gr_mode :: usage_mode
  gr_instructions :: string
  gr_history :: "chat_turn list"
  gr_tools :: "tool_spec list"
  gr_max_output_tokens :: int

text \<open>What a call yields before it ends, and the exception it ends with, with its text.\<close>

type_synonym gateway_reply = "gateway_event list \<times> (app_error \<times> string) option"

type_synonym adapters = "nat \<Rightarrow> provider \<Rightarrow> gateway_request \<Rightarrow> gateway_reply"

text \<open>\<open>NullModelGateway.stream_chat\<close> answers when a provider has no key.\<close>

definition null_reply_text :: string where
  "null_reply_text = ''AI javob provayderi hali tanlanmagan yoki sozlanmagan. Bu xabar ''
     @ ''saqlandi, lekin hech qanday tashqi modelga yuborilmadi.''"

definition null_gateway :: gateway_reply where
  "null_gateway =
     ([TextDelta null_reply_text,
       Completed \<lparr>gu_input_tokens = 0, gu_output_tokens = 0, gu_cached_input_tokens = 0\<rparr> ''stop''], None)"

section \<open>Which adapter (ai/factory.py)\<close>

definition all_providers :: "provider list" where
  "all_providers = [OPENAI, GEMINI, CLAUDE]"

primrec api_key_for :: "provider \<Rightarrow> ai_settings \<Rightarrow> string option" where
  "api_key_for OPENAI settings = openai_api_key settings"
| "api_key_for GEMINI settings = gemini_api_key settings"
| "api_key_for CLAUDE settings = claude_api_key settings"

definition is_provider_configured :: "provider \<Rightarrow> ai_settings \<Rightarrow> bool" where
  "is_provider_configured p settings \<longleftrightarrow> api_key_for p settings \<noteq> None"

definition get_gateway :: "adapters \<Rightarrow> provider \<Rightarrow> ai_settings \<Rightarrow> nat \<Rightarrow> gateway_request \<Rightarrow> gateway_reply" where
  "get_gateway world p settings n request =
     (case api_key_for p settings of None \<Rightarrow> null_gateway | Some _ \<Rightarrow> world n p request)"

section \<open>What a provider can do (ai/capabilities.py)\<close>

record model_capabilities =
  mc_streaming :: bool
  mc_tool_calling :: bool
  mc_structured_output :: bool
  mc_vision_input :: bool

primrec capabilities_for :: "provider \<Rightarrow> model_capabilities" where
  "capabilities_for OPENAI =
     \<lparr>mc_streaming = True, mc_tool_calling = True, mc_structured_output = True, mc_vision_input = False\<rparr>"
| "capabilities_for GEMINI =
     \<lparr>mc_streaming = True, mc_tool_calling = True, mc_structured_output = True, mc_vision_input = False\<rparr>"
| "capabilities_for CLAUDE =
     \<lparr>mc_streaming = True, mc_tool_calling = True, mc_structured_output = True, mc_vision_input = False\<rparr>"

definition assert_supports_tools :: "provider \<Rightarrow> string list \<Rightarrow> app_error option" where
  "assert_supports_tools p requested_tools =
     (if requested_tools \<noteq> [] \<and> \<not> mc_tool_calling (capabilities_for p)
      then Some (UnsupportedModelCapabilityError (provider_value p @ '' does not support tool calling''))
      else None)"

definition assert_supports_structured_output :: "provider \<Rightarrow> app_error option" where
  "assert_supports_structured_output p =
     (if \<not> mc_structured_output (capabilities_for p)
      then Some (UnsupportedModelCapabilityError (provider_value p @ '' does not support structured output''))
      else None)"

section \<open>Prices (infrastructure/ai_pricing.py)\<close>

record model_pricing =
  input_usd_per_million :: rat
  output_usd_per_million :: rat

primrec model_prices :: "provider \<Rightarrow> (string \<times> model_pricing) list" where
  "model_prices OPENAI =
     [(''gpt-5-mini'', \<lparr>input_usd_per_million = 1 / 4, output_usd_per_million = 2\<rparr>),
      (''gpt-5-nano'', \<lparr>input_usd_per_million = 1 / 20, output_usd_per_million = 2 / 5\<rparr>),
      (''gpt-4.1-mini'', \<lparr>input_usd_per_million = 2 / 5, output_usd_per_million = 8 / 5\<rparr>)]"
| "model_prices CLAUDE = [(''claude-sonnet-5'', \<lparr>input_usd_per_million = 2, output_usd_per_million = 10\<rparr>)]"
| "model_prices GEMINI =
     [(''gemini-3.1-flash-lite'', \<lparr>input_usd_per_million = 1 / 4, output_usd_per_million = 3 / 2\<rparr>)]"

definition cents_per_dollar :: rat where "cents_per_dollar = 100"

definition tokens_per_pricing_unit :: rat where "tokens_per_pricing_unit = 1000000"

definition estimate_cost_cents :: "provider \<Rightarrow> string \<Rightarrow> int \<Rightarrow> int \<Rightarrow> app_error + int" where
  "estimate_cost_cents p model input_tokens output_tokens =
     (case map_of (model_prices p) model of
        None \<Rightarrow> Inl (UnknownModelPricingError (''no pricing entry for '' @ provider_value p @ ''/'' @ model))
      | Some pricing \<Rightarrow>
          Inr (py_round (((of_int input_tokens / tokens_per_pricing_unit) * input_usd_per_million pricing
                 + (of_int output_tokens / tokens_per_pricing_unit) * output_usd_per_million pricing)
               * cents_per_dollar)))"

definition estimate_input_tokens_from_chars :: "nat \<Rightarrow> int" where
  "estimate_input_tokens_from_chars char_count = max 1 (- (- int char_count div 3))"

section \<open>Which provider and model (application/ai\_preference\_service.py)\<close>

primrec default_model_for :: "provider \<Rightarrow> ai_settings \<Rightarrow> string" where
  "default_model_for OPENAI settings = ai_model_openai settings"
| "default_model_for GEMINI settings = ai_model_gemini settings"
| "default_model_for CLAUDE settings = ai_model_claude settings"

text \<open>Python's \<open>x or y\<close> of an optional string: the empty string counts as absent.\<close>

definition str_or :: "string option \<Rightarrow> string \<Rightarrow> string" where
  "str_or m d = (case m of None \<Rightarrow> d | Some x \<Rightarrow> if x = [] then d else x)"

definition provider_of :: "string \<Rightarrow> provider option" where
  "provider_of text = find (\<lambda>p. provider_value p = text) all_providers"

type_synonym provider_choice = "provider \<times> string"

definition resolve_provider_choice ::
  "ai_settings \<Rightarrow> conversation_row \<Rightarrow> uuid \<Rightarrow> uuid \<Rightarrow> uuid \<Rightarrow> db \<Rightarrow> app_error + provider_choice" where
  "resolve_provider_choice settings conversation customer_id user_id workspace_id s =
     (case cv_pinned_provider conversation of
        Some pin \<Rightarrow>
          (case provider_of pin of
             None \<Rightarrow> Inl (Unhandled ''ValueError'')
           | Some p \<Rightarrow> Inr (p, str_or (cv_pinned_model conversation) (default_model_for p settings)))
      | None \<Rightarrow>
         (case user_ai_preferences s (customer_id, user_id) of
            Some pref \<Rightarrow>
              Inr (uap_provider pref, str_or (uap_model pref) (default_model_for (uap_provider pref) settings))
          | None \<Rightarrow>
             (case workspace_ai_preferences s workspace_id of
                Some pref \<Rightarrow>
                  Inr (wap_provider pref, str_or (wap_model pref) (default_model_for (wap_provider pref) settings))
              | None \<Rightarrow>
                  Inr (ai_default_provider settings, default_model_for (ai_default_provider settings) settings))))"

definition get_user_ai_preference :: "uuid \<Rightarrow> uuid \<Rightarrow> db \<Rightarrow> user_ai_preference_row option" where
  "get_user_ai_preference customer_id user_id s = user_ai_preferences s (customer_id, user_id)"

definition get_workspace_ai_preference :: "uuid \<Rightarrow> db \<Rightarrow> workspace_ai_preference_row option" where
  "get_workspace_ai_preference workspace_id s = workspace_ai_preferences s workspace_id"

text \<open>
  A flush writes the columns that differ from what was loaded; nothing differs, nothing is
  written.  \<open>seen\<close> is the row this request loaded, if it found one; without one it inserts, and a
  row that appeared in the meantime is loaded again and overwritten.
\<close>

definition written :: "'a \<Rightarrow> 'a \<Rightarrow> 'a \<Rightarrow> 'a" where
  "written loaded new stored = (if new = loaded then stored else new)"

lemma written_same [simp]: "written x new x = new"
  by (simp add: written_def)

definition set_user_ai_preference_after ::
  "user_ai_preference_row option \<Rightarrow> uuid \<Rightarrow> uuid \<Rightarrow> provider \<Rightarrow> string option \<Rightarrow> db
     \<Rightarrow> (app_error + provider \<times> string option) \<times> db" where
  "set_user_ai_preference_after seen customer_id user_id p model s =
     (let key = (customer_id, user_id) in
      case seen of
        Some pref \<Rightarrow>
          if uap_provider pref = p \<and> uap_model pref = model then ok (p, model) s
          else (case user_ai_preferences s key of
                  None \<Rightarrow> raise (Unhandled ''StaleDataError'') s
                | Some stored \<Rightarrow>
                    ok (p, model) (s\<lparr>user_ai_preferences := (user_ai_preferences s)(key \<mapsto>
                      stored\<lparr>uap_provider := written (uap_provider pref) p (uap_provider stored),
                             uap_model := written (uap_model pref) model (uap_model stored)\<rparr>)\<rparr>))
      | None \<Rightarrow>
          let (now, s) = utcnow s in
          (case user_ai_preferences s key of
             None \<Rightarrow>
               ok (p, model) (s\<lparr>user_ai_preferences := (user_ai_preferences s)(key \<mapsto>
                 \<lparr>uap_created_at = now, uap_provider = p, uap_model = model\<rparr>)\<rparr>)
           | Some stored \<Rightarrow>
               ok (p, model) (s\<lparr>user_ai_preferences := (user_ai_preferences s)(key \<mapsto>
                 stored\<lparr>uap_provider := p, uap_model := model\<rparr>)\<rparr>)))"

definition set_user_ai_preference ::
  "uuid \<Rightarrow> uuid \<Rightarrow> provider \<Rightarrow> string option \<Rightarrow> db \<Rightarrow> (app_error + provider \<times> string option) \<times> db" where
  "set_user_ai_preference customer_id user_id p model s =
     set_user_ai_preference_after (user_ai_preferences s (customer_id, user_id)) customer_id user_id p model s"

definition set_workspace_ai_preference_after ::
  "workspace_ai_preference_row option \<Rightarrow> uuid \<Rightarrow> uuid \<Rightarrow> provider \<Rightarrow> string option \<Rightarrow> db
     \<Rightarrow> (app_error + provider \<times> string option) \<times> db" where
  "set_workspace_ai_preference_after seen workspace_id customer_id p model s =
     (case seen of
        Some pref \<Rightarrow>
          if wap_provider pref = p \<and> wap_model pref = model then ok (p, model) s
          else (case workspace_ai_preferences s workspace_id of
                  None \<Rightarrow> raise (Unhandled ''StaleDataError'') s
                | Some stored \<Rightarrow>
                    ok (p, model) (s\<lparr>workspace_ai_preferences := (workspace_ai_preferences s)(workspace_id \<mapsto>
                      stored\<lparr>wap_provider := written (wap_provider pref) p (wap_provider stored),
                             wap_model := written (wap_model pref) model (wap_model stored)\<rparr>)\<rparr>))
      | None \<Rightarrow>
          (case workspace_ai_preferences s workspace_id of
             None \<Rightarrow>
               ok (p, model) (s\<lparr>workspace_ai_preferences := (workspace_ai_preferences s)(workspace_id \<mapsto>
                 \<lparr>wap_customer_id = customer_id, wap_provider = p, wap_model = model\<rparr>)\<rparr>)
           | Some stored \<Rightarrow>
               ok (p, model) (s\<lparr>workspace_ai_preferences := (workspace_ai_preferences s)(workspace_id \<mapsto>
                 stored\<lparr>wap_provider := p, wap_model := model\<rparr>)\<rparr>)))"

definition set_workspace_ai_preference ::
  "uuid \<Rightarrow> uuid \<Rightarrow> provider \<Rightarrow> string option \<Rightarrow> db \<Rightarrow> (app_error + provider \<times> string option) \<times> db" where
  "set_workspace_ai_preference workspace_id customer_id p model s =
     set_workspace_ai_preference_after (workspace_ai_preferences s workspace_id) workspace_id customer_id p model s"

definition clear_user_ai_preference :: "uuid \<Rightarrow> uuid \<Rightarrow> db \<Rightarrow> db" where
  "clear_user_ai_preference customer_id user_id s =
     s\<lparr>user_ai_preferences := (user_ai_preferences s)((customer_id, user_id) := None)\<rparr>"

definition clear_workspace_ai_preference :: "uuid \<Rightarrow> db \<Rightarrow> db" where
  "clear_workspace_ai_preference workspace_id s =
     s\<lparr>workspace_ai_preferences := (workspace_ai_preferences s)(workspace_id := None)\<rparr>"

section \<open>Which providers a customer allows (application/ai\_provider\_settings\_service.py)\<close>

definition is_provider_enabled_for_customer :: "uuid \<Rightarrow> provider \<Rightarrow> db \<Rightarrow> bool" where
  "is_provider_enabled_for_customer customer_id p s =
     (case ai_customer_provider_settings s (customer_id, p) of None \<Rightarrow> True | Some enabled \<Rightarrow> enabled)"

definition assert_provider_enabled :: "uuid \<Rightarrow> provider \<Rightarrow> db \<Rightarrow> app_error option" where
  "assert_provider_enabled customer_id p s =
     (if \<not> is_provider_enabled_for_customer customer_id p s then Some (ProviderDisabledError p) else None)"

definition set_provider_enabled_after ::
  "bool option \<Rightarrow> uuid \<Rightarrow> provider \<Rightarrow> bool \<Rightarrow> db \<Rightarrow> (app_error + bool) \<times> db" where
  "set_provider_enabled_after seen customer_id p enabled s =
     (let key = (customer_id, p);
          stored = s\<lparr>ai_customer_provider_settings := (ai_customer_provider_settings s)(key \<mapsto> enabled)\<rparr>
      in case seen of
           Some loaded \<Rightarrow>
             if loaded = enabled then ok enabled s
             else if ai_customer_provider_settings s key = None then raise (Unhandled ''StaleDataError'') s
             else ok enabled stored
         | None \<Rightarrow> ok enabled stored)"

definition set_provider_enabled_for_customer ::
  "uuid \<Rightarrow> provider \<Rightarrow> bool \<Rightarrow> db \<Rightarrow> (app_error + bool) \<times> db" where
  "set_provider_enabled_for_customer customer_id p enabled s =
     set_provider_enabled_after (ai_customer_provider_settings s (customer_id, p)) customer_id p enabled s"

definition is_fallback_enabled_for_customer :: "uuid \<Rightarrow> db \<Rightarrow> bool" where
  "is_fallback_enabled_for_customer customer_id s =
     (case ai_customer_fallback_settings s customer_id of None \<Rightarrow> False | Some enabled \<Rightarrow> enabled)"

definition set_fallback_enabled_after ::
  "bool option \<Rightarrow> uuid \<Rightarrow> bool \<Rightarrow> db \<Rightarrow> (app_error + bool) \<times> db" where
  "set_fallback_enabled_after seen customer_id enabled s =
     (let stored = s\<lparr>ai_customer_fallback_settings := (ai_customer_fallback_settings s)(customer_id \<mapsto> enabled)\<rparr>
      in case seen of
           Some loaded \<Rightarrow>
             if loaded = enabled then ok enabled s
             else if ai_customer_fallback_settings s customer_id = None then raise (Unhandled ''StaleDataError'') s
             else ok enabled stored
         | None \<Rightarrow> ok enabled stored)"

definition set_fallback_enabled_for_customer :: "uuid \<Rightarrow> bool \<Rightarrow> db \<Rightarrow> (app_error + bool) \<times> db" where
  "set_fallback_enabled_for_customer customer_id enabled s =
     set_fallback_enabled_after (ai_customer_fallback_settings s customer_id) customer_id enabled s"

definition fallback_order :: "provider list" where
  "fallback_order = [OPENAI, CLAUDE, GEMINI]"

definition pick_fallback_provider :: "uuid \<Rightarrow> provider \<Rightarrow> ai_settings \<Rightarrow> db \<Rightarrow> provider option" where
  "pick_fallback_provider customer_id excluding settings s =
     find (\<lambda>candidate. candidate \<noteq> excluding \<and> is_provider_configured candidate settings
             \<and> is_provider_enabled_for_customer customer_id candidate s) fallback_order"

section \<open>Testing a connection\<close>

text \<open>The subclasses of \<open>ModelGatewayError\<close> (ai/errors.py), by name.\<close>

definition model_gateway_error_name :: "app_error \<Rightarrow> string option" where
  "model_gateway_error_name e =
     (case e of
        ModelNotConfiguredError \<Rightarrow> Some ''ModelNotConfiguredError''
      | ModelTimeoutError \<Rightarrow> Some ''ModelTimeoutError''
      | ModelRateLimitedError _ \<Rightarrow> Some ''ModelRateLimitedError''
      | ModelProviderError _ \<Rightarrow> Some ''ModelProviderError''
      | ModelAuthenticationError \<Rightarrow> Some ''ModelAuthenticationError''
      | BudgetExceededError _ \<Rightarrow> Some ''BudgetExceededError''
      | OutboundContentBlockedError _ \<Rightarrow> Some ''OutboundContentBlockedError''
      | _ \<Rightarrow> None)"

definition test_connection_request :: "string \<Rightarrow> gateway_request" where
  "test_connection_request model =
     \<lparr>gr_model = model, gr_mode = FAST, gr_instructions = [],
      gr_history = [\<lparr>turn_role = Role_USER, turn_content = ''Reply with the single word OK.'',
                     turn_tool_call_id = None, turn_tool_calls = None\<rparr>],
      gr_tools = [], gr_max_output_tokens = 16\<rparr>"

definition test_provider_connection ::
  "adapters \<Rightarrow> provider \<Rightarrow> ai_settings \<Rightarrow> app_error + bool \<times> string option \<times> string option" where
  "test_provider_connection world p settings =
     (if \<not> is_provider_configured p settings
      then Inr (False, Some ''ModelNotConfiguredError'', Some ''no API key is configured for this provider'')
      else case snd (get_gateway world p settings 0 (test_connection_request (default_model_for p settings))) of
             None \<Rightarrow> Inr (True, None, None)
           | Some (e, message) \<Rightarrow>
               (case model_gateway_error_name e of
                  Some name \<Rightarrow> Inr (False, Some name, Some message)
                | None \<Rightarrow> Inl e))"

definition record_provider_verification_after ::
  "ai_provider_verification_row option \<Rightarrow> provider \<Rightarrow> bool \<Rightarrow> string option \<Rightarrow> string option \<Rightarrow> db
     \<Rightarrow> (app_error + ai_provider_verification_row) \<times> db" where
  "record_provider_verification_after seen p succeeded error_type error_message s =
     (let (now, s) = utcnow s;
          new = \<lparr>pv_last_verified_at = now, pv_last_verified_ok = succeeded, pv_last_error = error_message,
                 pv_last_error_type = error_type\<rparr>
      in case seen of
           Some loaded \<Rightarrow>
             if loaded = new then ok new s
             else (case ai_provider_verifications s p of
                     None \<Rightarrow> raise (Unhandled ''StaleDataError'') s
                   | Some stored \<Rightarrow>
                       ok new (s\<lparr>ai_provider_verifications := (ai_provider_verifications s)(p \<mapsto>
                         \<lparr>pv_last_verified_at = written (pv_last_verified_at loaded) now (pv_last_verified_at stored),
                          pv_last_verified_ok = written (pv_last_verified_ok loaded) succeeded (pv_last_verified_ok stored),
                          pv_last_error = written (pv_last_error loaded) error_message (pv_last_error stored),
                          pv_last_error_type =
                            written (pv_last_error_type loaded) error_type (pv_last_error_type stored)\<rparr>)\<rparr>))
         | None \<Rightarrow> ok new (s\<lparr>ai_provider_verifications := (ai_provider_verifications s)(p \<mapsto> new)\<rparr>))"

definition record_provider_verification ::
  "provider \<Rightarrow> bool \<Rightarrow> string option \<Rightarrow> string option \<Rightarrow> db
     \<Rightarrow> (app_error + ai_provider_verification_row) \<times> db" where
  "record_provider_verification p succeeded error_type error_message s =
     record_provider_verification_after (ai_provider_verifications s p) p succeeded error_type error_message s"

definition get_verification_status :: "provider \<Rightarrow> db \<Rightarrow> ai_provider_verification_row option" where
  "get_verification_status p s = ai_provider_verifications s p"

section \<open>Prices and providers\<close>

lemma provider_of_value [simp]: "provider_of (provider_value p) = Some p"
  by (cases p) (simp_all add: provider_of_def all_providers_def)

lemma provider_of_eq: "provider_of t = Some p \<longleftrightarrow> t = provider_value p"
proof
  assume "provider_of t = Some p"
  then show "t = provider_value p" by (auto simp: provider_of_def find_Some_iff)
qed simp

lemma capabilities_tools [simp]: "assert_supports_tools p ts = None"
  by (cases p) (simp_all add: assert_supports_tools_def)

lemma py_round_mono: "x \<le> y \<Longrightarrow> py_round x \<le> py_round y"
proof -
  assume le: "x \<le> y"
  have f: "\<lfloor>x\<rfloor> \<le> \<lfloor>y\<rfloor>" by (rule floor_mono [OF le])
  show ?thesis
  proof (cases "\<lfloor>x\<rfloor> = \<lfloor>y\<rfloor>")
    case True
    then show ?thesis using le by (auto simp: py_round_def Let_def)
  next
    case False
    with f have "\<lfloor>x\<rfloor> + 1 \<le> \<lfloor>y\<rfloor>" by simp
    moreover have "py_round x \<le> \<lfloor>x\<rfloor> + 1" "\<lfloor>y\<rfloor> \<le> py_round y" by (auto simp: py_round_def Let_def)
    ultimately show ?thesis by linarith
  qed
qed

lemma py_round_nonneg: "0 \<le> x \<Longrightarrow> 0 \<le> py_round x"
  using py_round_mono [of 0 x] by (simp add: py_round_def)

lemma prices_nonneg:
  "map_of (model_prices p) m = Some pr \<Longrightarrow> 0 \<le> input_usd_per_million pr \<and> 0 \<le> output_usd_per_million pr"
  by (cases p) (auto split: if_splits)

lemma estimate_cost_mono:
  assumes "estimate_cost_cents p m i oo = Inr c" "estimate_cost_cents p m i' oo' = Inr c'" "i \<le> i'" "oo \<le> oo'"
  shows "c \<le> c'"
proof -
  obtain pr where pr: "map_of (model_prices p) m = Some pr"
    using assms(1) by (auto simp: estimate_cost_cents_def split: option.splits)
  have "(of_int i :: rat) \<le> of_int i'" "(of_int oo :: rat) \<le> of_int oo'" using assms(3,4) by simp_all
  then have "(of_int i / tokens_per_pricing_unit * input_usd_per_million pr
        + of_int oo / tokens_per_pricing_unit * output_usd_per_million pr) * cents_per_dollar
      \<le> (of_int i' / tokens_per_pricing_unit * input_usd_per_million pr
        + of_int oo' / tokens_per_pricing_unit * output_usd_per_million pr) * cents_per_dollar"
    using prices_nonneg [OF pr]
    by (intro mult_right_mono add_mono divide_right_mono)
      (simp_all add: cents_per_dollar_def tokens_per_pricing_unit_def)
  from py_round_mono [OF this] show ?thesis
    using assms(1,2) pr by (simp add: estimate_cost_cents_def)
qed

lemma estimate_cost_nonneg:
  assumes "estimate_cost_cents p m i oo = Inr c" "0 \<le> i" "0 \<le> oo"
  shows "0 \<le> c"
proof -
  obtain pr where pr: "map_of (model_prices p) m = Some pr"
    using assms(1) by (auto simp: estimate_cost_cents_def split: option.splits)
  have "estimate_cost_cents p m 0 0 = Inr 0"
    using pr by (simp add: estimate_cost_cents_def py_round_def)
  from estimate_cost_mono [OF this assms(1-3)] show ?thesis .
qed

lemma pick_fallback_SomeD:
  "pick_fallback_provider c p settings s = Some q
     \<Longrightarrow> q \<noteq> p \<and> is_provider_configured q settings \<and> is_provider_enabled_for_customer c q s"
  by (auto simp: pick_fallback_provider_def find_Some_iff)

section \<open>The switches and preferences are setting stores\<close>

definition put_provider_switch :: "uuid \<times> provider \<Rightarrow> bool \<Rightarrow> db \<Rightarrow> db" where
  "put_provider_switch k enabled s = snd (set_provider_enabled_for_customer (fst k) (snd k) enabled s)"

definition get_provider_switch :: "uuid \<times> provider \<Rightarrow> db \<Rightarrow> bool" where
  "get_provider_switch k s = is_provider_enabled_for_customer (fst k) (snd k) s"

interpretation provider_switch:
  setting_store put_provider_switch get_provider_switch "\<lambda>_ _. True" "\<lambda>_. True"
  by unfold_locales
    (auto simp: put_provider_switch_def get_provider_switch_def is_provider_enabled_for_customer_def
       set_provider_enabled_for_customer_def set_provider_enabled_after_def Let_def split: option.splits)

definition put_fallback :: "uuid \<Rightarrow> bool \<Rightarrow> db \<Rightarrow> db" where
  "put_fallback k enabled s = snd (set_fallback_enabled_for_customer k enabled s)"

definition get_fallback :: "uuid \<Rightarrow> db \<Rightarrow> bool" where
  "get_fallback k s = is_fallback_enabled_for_customer k s"

interpretation fallback_switch: setting_store put_fallback get_fallback "\<lambda>_ _. True" "\<lambda>_. True"
  by unfold_locales
    (auto simp: put_fallback_def get_fallback_def is_fallback_enabled_for_customer_def
       set_fallback_enabled_for_customer_def set_fallback_enabled_after_def Let_def split: option.splits)

definition put_user_choice :: "uuid \<times> uuid \<Rightarrow> (provider \<times> string option) option \<Rightarrow> db \<Rightarrow> db" where
  "put_user_choice k choice s =
     (case choice of
        None \<Rightarrow> clear_user_ai_preference (fst k) (snd k) s
      | Some (p, model) \<Rightarrow> snd (set_user_ai_preference (fst k) (snd k) p model s))"

definition get_user_choice :: "uuid \<times> uuid \<Rightarrow> db \<Rightarrow> (provider \<times> string option) option" where
  "get_user_choice k s =
     map_option (\<lambda>pref. (uap_provider pref, uap_model pref)) (get_user_ai_preference (fst k) (snd k) s)"

lemma user_choice_put:
  "get_user_choice j (put_user_choice k c s) = (if j = k then c else get_user_choice j s)"
  by (cases j; cases k)
    (auto simp: put_user_choice_def get_user_choice_def get_user_ai_preference_def clear_user_ai_preference_def
       set_user_ai_preference_def set_user_ai_preference_after_def utcnow_def Let_def split: option.splits prod.splits)

interpretation user_choice: setting_store put_user_choice get_user_choice "\<lambda>_ _. True" "\<lambda>_. True"
  by unfold_locales (simp_all add: user_choice_put)

end
