(* ===== verification/Ai_Budget.thy ===== *)
theory Ai_Budget
  imports Ai_Settings
begin

text \<open>
  \<open>doda/application/ai_budget_service.py\<close>: the monthly ledger of a customer, reserved before a
  provider is called and reconciled after, the usage events that explain it, and the reports.
  Instants are microseconds since 1970; of the calendar only the month of an instant is
  needed, which is found by walking the months from January 1970.
\<close>

section \<open>Months\<close>

definition leap_year :: "nat \<Rightarrow> bool" where
  "leap_year y \<longleftrightarrow> y mod 4 = 0 \<and> (y mod 100 \<noteq> 0 \<or> y mod 400 = 0)"

text \<open>Months are numbered from January 1970, which is 0.\<close>

definition month_days :: "nat \<Rightarrow> nat" where
  "month_days k = (let m = k mod 12; y = 1970 + k div 12 in
     if m = 1 then (if leap_year y then 29 else 28)
     else if m = 3 \<or> m = 5 \<or> m = 8 \<or> m = 10 then 30 else 31)"

lemma month_days_pos [simp]: "0 < month_days k"
  by (simp add: month_days_def Let_def)

function month_of_day :: "nat \<Rightarrow> nat \<Rightarrow> nat" where
  "month_of_day k d = (if d < month_days k then k else month_of_day (Suc k) (d - month_days k))"
  by pat_completeness auto
termination
proof (relation "measure snd")
  fix k d :: nat
  assume "\<not> d < month_days k"
  then show "((Suc k, d - month_days k), (k, d)) \<in> measure snd"
    using month_days_pos [of k] unfolding in_measure snd_conv by linarith
qed simp

declare month_of_day.simps [simp del]

primrec days_before :: "nat \<Rightarrow> nat" where
  "days_before 0 = 0"
| "days_before (Suc k) = days_before k + month_days k"

definition day_microseconds :: int where
  "day_microseconds = 24 * 60 * 60 * 1000000"

definition month_of :: "instant \<Rightarrow> nat" where
  "month_of t = month_of_day 0 (nat (t div day_microseconds))"

definition two_digits :: "nat \<Rightarrow> string" where
  "two_digits n = (if n < 10 then ''0'' @ dec_nat n else dec_nat n)"

text \<open>\<open>strftime("%Y-%m")\<close>.\<close>

definition month_text :: "nat \<Rightarrow> string" where
  "month_text k = dec_nat (1970 + k div 12) @ ''-'' @ two_digits (Suc (k mod 12))"

definition current_year_month :: "db \<Rightarrow> string \<times> db" where
  "current_year_month s = (let (now, s) = utcnow s in (month_text (month_of now), s))"

text \<open>
  \<open>_month_bounds_utc\<close> of the text of a year and a month; a month outside 1 to 12 makes
  \<open>datetime\<close> raise.  Years before 1970 have no usage, and no bounds here.
\<close>

fun split_once :: "char \<Rightarrow> string \<Rightarrow> string \<times> string" where
  "split_once c [] = ([], [])"
| "split_once c (x # xs) = (if x = c then ([], xs) else (x # fst (split_once c xs), snd (split_once c xs)))"

definition month_start :: "nat \<Rightarrow> instant" where
  "month_start k = int (days_before k) * day_microseconds"

definition month_bounds_utc :: "string \<Rightarrow> app_error + instant \<times> instant" where
  "month_bounds_utc year_month =
     (let year = dec_value (fst (split_once (CHR ''-'') year_month));
          month = dec_value (snd (split_once (CHR ''-'') year_month))
      in if month < 1 \<or> 12 < month then Inl (Unhandled ''ValueError'')
         else if year < 1970 then (if year < 1 then Inl (Unhandled ''ValueError'') else Inr (0, 0))
         else if 9999 < (if month = 12 then Suc year else year) then Inl (Unhandled ''ValueError'')
         else let k = 12 * (year - 1970) + (month - 1) in Inr (month_start k, month_start (Suc k)))"

section \<open>The ledger\<close>

type_synonym ledger_key = "uuid \<times> string"

text \<open>
  \<open>SELECT \<dots> FOR UPDATE\<close> of the row, which is inserted first if it is not there.  The row stays
  locked until the transaction ends, so it is read as it is.
\<close>

definition get_or_create_locked_ledger :: "ledger_key \<Rightarrow> db \<Rightarrow> ai_budget_ledger_row \<times> db" where
  "get_or_create_locked_ledger key s =
     (case ai_budget_ledgers s key of
        Some ledger \<Rightarrow> (ledger, s)
      | None \<Rightarrow>
          let ledger = \<lparr>bl_reserved_cents = 0, bl_actual_cents = 0\<rparr>
          in (ledger, s\<lparr>ai_budget_ledgers := (ai_budget_ledgers s)(key \<mapsto> ledger)\<rparr>))"

definition hard_cap_cents :: "ai_settings \<Rightarrow> int" where
  "hard_cap_cents settings = py_round (ai_budget_hard_usd_per_customer_month settings * cents_per_dollar)"

definition soft_cap_cents :: "ai_settings \<Rightarrow> int" where
  "soft_cap_cents settings = py_round (ai_budget_soft_usd_per_customer_month settings * cents_per_dollar)"

definition reserve_budget :: "ai_settings \<Rightarrow> uuid \<Rightarrow> int \<Rightarrow> db \<Rightarrow> (app_error + unit) \<times> db" where
  "reserve_budget settings customer_id estimated_cost_cents s =
     (let (year_month, s) = current_year_month s;
          (ledger, s) = get_or_create_locked_ledger (customer_id, year_month) s;
          projected_cents = bl_reserved_cents ledger + bl_actual_cents ledger + estimated_cost_cents
      in if projected_cents > hard_cap_cents settings
         then raise (BudgetExceededError ''customer_month'') s
         else ok () (s\<lparr>ai_budget_ledgers := (ai_budget_ledgers s)((customer_id, year_month) \<mapsto>
                ledger\<lparr>bl_reserved_cents := bl_reserved_cents ledger + estimated_cost_cents\<rparr>)\<rparr>))"

definition reconcile_budget :: "uuid \<Rightarrow> int \<Rightarrow> int \<Rightarrow> db \<Rightarrow> db" where
  "reconcile_budget customer_id estimated_cost_cents actual_cost_cents s =
     (let (year_month, s) = current_year_month s;
          (ledger, s) = get_or_create_locked_ledger (customer_id, year_month) s
      in s\<lparr>ai_budget_ledgers := (ai_budget_ledgers s)((customer_id, year_month) \<mapsto>
            \<lparr>bl_reserved_cents = max 0 (bl_reserved_cents ledger - estimated_cost_cents),
             bl_actual_cents = bl_actual_cents ledger + actual_cost_cents\<rparr>)\<rparr>)"

definition record_usage_event ::
  "uuid \<Rightarrow> uuid \<Rightarrow> uuid option \<Rightarrow> uuid \<Rightarrow> string \<Rightarrow> provider \<Rightarrow> string \<Rightarrow> usage_mode \<Rightarrow> gateway_usage
     \<Rightarrow> int \<Rightarrow> int \<Rightarrow> usage_event_status \<Rightarrow> db \<Rightarrow> ai_usage_event_row \<times> db" where
  "record_usage_event customer_id workspace_id conversation_id trace_id actor_id p model mode usage
      estimated_cost_cents actual_cost_cents status s =
     (let (new_id, created, s) = row_defaults s;
          event = \<lparr>ue_id = new_id, ue_created_at = created, ue_customer_id = customer_id,
            ue_workspace_id = workspace_id, ue_conversation_id = conversation_id, ue_trace_id = trace_id,
            ue_actor_id = actor_id, ue_provider = p, ue_mode = mode, ue_model = model,
            ue_input_tokens = gu_input_tokens usage, ue_output_tokens = gu_output_tokens usage,
            ue_cached_input_tokens = gu_cached_input_tokens usage,
            ue_estimated_cost_cents = estimated_cost_cents, ue_actual_cost_cents = Some actual_cost_cents,
            ue_status = status\<rparr>
      in (event, s\<lparr>ai_usage_events := ai_usage_events s @ [event]\<rparr>))"

section \<open>Reports\<close>

record budget_status =
  bs_year_month :: string
  bs_soft_cap_cents :: int
  bs_hard_cap_cents :: int
  bs_spent_cents :: int
  bs_over_soft_budget :: bool

definition get_budget_status :: "ai_settings \<Rightarrow> uuid \<Rightarrow> db \<Rightarrow> budget_status \<times> db" where
  "get_budget_status settings customer_id s =
     (let (year_month, s) = current_year_month s;
          spent = (case ai_budget_ledgers s (customer_id, year_month) of
                     None \<Rightarrow> 0 | Some ledger \<Rightarrow> bl_reserved_cents ledger + bl_actual_cents ledger)
      in (\<lparr>bs_year_month = year_month, bs_soft_cap_cents = soft_cap_cents settings,
           bs_hard_cap_cents = hard_cap_cents settings, bs_spent_cents = spent,
           bs_over_soft_budget = (spent > soft_cap_cents settings)\<rparr>, s))"

record usage_breakdown_row =
  ub_workspace_id :: uuid
  ub_workspace_name :: string
  ub_provider :: provider
  ub_model :: string
  ub_cost_cents :: int
  ub_event_count :: nat

definition event_cost :: "ai_usage_event_row \<Rightarrow> int" where
  "event_cost e = (case ue_actual_cost_cents e of None \<Rightarrow> 0 | Some c \<Rightarrow> c)"

definition usage_slice :: "ai_usage_event_row \<times> workspace_row \<Rightarrow> uuid \<times> string \<times> provider \<times> string" where
  "usage_slice ew = (ue_workspace_id (fst ew), ws_name (snd ew), ue_provider (fst ew), ue_model (fst ew))"

text \<open>
  The join, the \<open>WHERE\<close>, \<open>GROUP BY\<close> with its sum and count, and \<open>ORDER BY\<close> the sum descending.
  A sum over no known cost is \<open>NULL\<close>, which becomes 0.
\<close>

definition reported_usage :: "uuid \<Rightarrow> instant \<Rightarrow> instant \<Rightarrow> db \<Rightarrow> (ai_usage_event_row \<times> workspace_row) list" where
  "reported_usage customer_id start stop s =
     [(e, w). e \<leftarrow> ai_usage_events s, w \<leftarrow> workspace_workspaces s,
        ws_id w = ue_workspace_id e \<and> ue_customer_id e = customer_id \<and> ws_customer_id w = customer_id
        \<and> ue_status e = U_RECONCILED \<and> start \<le> ue_created_at e \<and> ue_created_at e < stop]"

definition get_usage_report :: "uuid \<Rightarrow> string \<Rightarrow> db \<Rightarrow> app_error + usage_breakdown_row list" where
  "get_usage_report customer_id year_month s =
     (case month_bounds_utc year_month of
        Inl e \<Rightarrow> Inl e
      | Inr (start, stop) \<Rightarrow>
          let rows = reported_usage customer_id start stop s in
          Inr (sort_key (\<lambda>r. - ub_cost_cents r)
            (map (\<lambda>slice. let members = filter (\<lambda>ew. usage_slice ew = slice) rows in
               \<lparr>ub_workspace_id = fst slice, ub_workspace_name = fst (snd slice),
                ub_provider = fst (snd (snd slice)), ub_model = snd (snd (snd slice)),
                ub_cost_cents = sum_list (map (\<lambda>ew. event_cost (fst ew)) members),
                ub_event_count = length members\<rparr>)
              (remdups (map usage_slice rows)))))"

section \<open>A month and its bounds\<close>

lemma month_of_day_bounds:
  "days_before (month_of_day k d) \<le> days_before k + d \<and> days_before k + d < days_before (Suc (month_of_day k d))"
proof (induction k d rule: month_of_day.induct)
  case (1 k d)
  show ?case
  proof (cases "d < month_days k")
    case True
    then show ?thesis by (simp add: month_of_day.simps [of k d])
  next
    case False
    with 1 show ?thesis by (simp add: month_of_day.simps [of k d])
  qed
qed

lemma month_of_bounds:
  assumes "0 \<le> t"
  shows "month_start (month_of t) \<le> t \<and> t < month_start (Suc (month_of t))"
proof -
  let ?d = "nat (t div day_microseconds)"
  have pos: "0 < day_microseconds" by (simp add: day_microseconds_def)
  have d: "int ?d = t div day_microseconds" using assms pos by (simp add: pos_imp_zdiv_nonneg_iff)
  have "days_before (month_of t) \<le> ?d \<and> ?d < days_before (Suc (month_of t))"
    using month_of_day_bounds [of 0 ?d] by (simp add: month_of_def)
  then have low: "int (days_before (month_of t)) \<le> t div day_microseconds"
    and high: "t div day_microseconds + 1 \<le> int (days_before (Suc (month_of t)))"
    using d by linarith+
  have "t = t div day_microseconds * day_microseconds + t mod day_microseconds" by simp
  moreover have "0 \<le> t mod day_microseconds" "t mod day_microseconds < day_microseconds"
    using pos by simp_all
  moreover have "int (days_before (month_of t)) * day_microseconds \<le> t div day_microseconds * day_microseconds"
    "(t div day_microseconds + 1) * day_microseconds \<le> int (days_before (Suc (month_of t))) * day_microseconds"
    using low high pos by (intro mult_right_mono; simp)+
  ultimately show ?thesis unfolding month_start_def distrib_right by linarith
qed

lemma days_before_mono: "j \<le> k \<Longrightarrow> days_before j \<le> days_before k"
  by (induction k) (auto simp: le_Suc_eq)

lemma month_start_mono: "j \<le> k \<Longrightarrow> month_start j \<le> month_start k"
  using days_before_mono [of j k] by (simp add: month_start_def day_microseconds_def)

lemma month_of_iff:
  assumes "0 \<le> t"
  shows "month_of t = k \<longleftrightarrow> month_start k \<le> t \<and> t < month_start (Suc k)"
proof
  assume "month_start k \<le> t \<and> t < month_start (Suc k)"
  then have "\<not> Suc k \<le> month_of t" "\<not> Suc (month_of t) \<le> k"
    using month_of_bounds [OF assms] month_start_mono [of "Suc k" "month_of t"]
      month_start_mono [of "Suc (month_of t)" k] by auto
  then show "month_of t = k" by simp
qed (use month_of_bounds [OF assms] in auto)

lemma split_once_digits:
  "(\<And>c. c \<in> set xs \<Longrightarrow> is_digit_char c) \<Longrightarrow> split_once (CHR ''-'') (xs @ CHR ''-'' # ys) = (xs, ys)"
proof (induction xs)
  case (Cons x xs)
  have "x \<noteq> CHR ''-''" using Cons.prems [of x] minus_not_digit by auto
  with Cons show ?case by simp
qed simp

lemma dec_value_two_digits [simp]: "dec_value (two_digits n) = n"
proof -
  have "dec_value (CHR ''0'' # xs) = dec_value xs" for xs
    by (simp add: dec_value_def digit_value_def)
  then show ?thesis by (simp add: two_digits_def)
qed

lemma split_month_text: "split_once (CHR ''-'') (month_text k) = (dec_nat (1970 + k div 12), two_digits (Suc (k mod 12)))"
  using split_once_digits [of "dec_nat (1970 + k div 12)" "two_digits (Suc (k mod 12))"]
  by (simp add: month_text_def dec_nat_digits)

lemma month_text_inj [simp]: "month_text j = month_text k \<longleftrightarrow> j = k"
proof
  assume "month_text j = month_text k"
  then have "j div 12 = k div 12" "j mod 12 = k mod 12"
    using split_month_text [of j] split_month_text [of k] dec_value_two_digits [of "Suc (j mod 12)"]
      dec_value_two_digits [of "Suc (k mod 12)"] by auto
  then show "j = k" by (metis div_mult_mod_eq)
qed simp

text \<open>Until the end of 9999 the bounds of a month's text are the bounds of the month.\<close>

lemma bounds_of_month_text:
  assumes "Suc k < 12 * (10000 - 1970)"
  shows "month_bounds_utc (month_text k) = Inr (month_start k, month_start (Suc k))"
proof -
  have "12 * (1970 + k div 12 - 1970) + (Suc (k mod 12) - 1) = k"
    by (metis add_diff_cancel_left' diff_Suc_1 mult_div_mod_eq)
  moreover have "\<not> 9999 < (if Suc (k mod 12) = 12 then Suc (1970 + k div 12) else 1970 + k div 12)"
  proof -
    have "k div 12 < 8030" using assms by simp
    moreover have "k div 12 < 8029" if "Suc (k mod 12) = 12"
    proof (rule ccontr)
      assume "\<not> k div 12 < 8029"
      then have "12 * 8029 + 11 \<le> k" using that mult_div_mod_eq [of 12 k] by linarith
      with assms show False by simp
    qed
    ultimately show ?thesis by auto
  qed
  moreover have "Suc (k mod 12) \<le> 12" by (simp add: Suc_le_eq)
  ultimately show ?thesis
    by (simp add: month_bounds_utc_def split_month_text Let_def del: days_before.simps)
qed

section \<open>What the operations do to the ledger\<close>

definition ledger_of :: "ledger_key \<Rightarrow> db \<Rightarrow> ai_budget_ledger_row" where
  "ledger_of key s =
     (case ai_budget_ledgers s key of None \<Rightarrow> \<lparr>bl_reserved_cents = 0, bl_actual_cents = 0\<rparr> | Some l \<Rightarrow> l)"

abbreviation this_month :: "db \<Rightarrow> string" where
  "this_month s \<equiv> month_text (month_of (clock s (ticks s)))"

lemmas ledger_defs = current_year_month_def utcnow_def get_or_create_locked_ledger_def Let_def

lemma reserve_budget_iff:
  "reserve_budget settings c est s = (Inr u, t) \<longleftrightarrow>
     (let key = (c, this_month s); l = ledger_of key s in
        bl_reserved_cents l + bl_actual_cents l + est \<le> hard_cap_cents settings
        \<and> t = s\<lparr>ticks := Suc (ticks s), ai_budget_ledgers := (ai_budget_ledgers s)(key \<mapsto>
                l\<lparr>bl_reserved_cents := bl_reserved_cents l + est\<rparr>)\<rparr>)"
  by (auto simp: reserve_budget_def ledger_defs ledger_of_def raise_def ok_def split: option.splits if_splits)

lemma reserve_budget_raises:
  "reserve_budget settings c est s = (Inl e, t) \<Longrightarrow> e = BudgetExceededError ''customer_month''"
  by (auto simp: reserve_budget_def ledger_defs raise_def ok_def split: option.splits if_splits)

lemma reconcile_budget_eq:
  "reconcile_budget c est cost s =
     (let key = (c, this_month s); l = ledger_of key s in
      s\<lparr>ticks := Suc (ticks s), ai_budget_ledgers := (ai_budget_ledgers s)(key \<mapsto>
        \<lparr>bl_reserved_cents = max 0 (bl_reserved_cents l - est), bl_actual_cents = bl_actual_cents l + cost\<rparr>)\<rparr>)"
  by (simp add: reconcile_budget_def ledger_defs ledger_of_def split: option.splits)

text \<open>A refunded event is never reported, whatever it cost; the ledger counts it.\<close>

lemma report_ignores_refunded:
  assumes "ue_status e = U_REFUNDED"
  shows "get_usage_report c ym (s\<lparr>ai_usage_events := ai_usage_events s @ [e]\<rparr>) = get_usage_report c ym s"
proof -
  have "reported_usage c start stop (s\<lparr>ai_usage_events := ai_usage_events s @ [e]\<rparr>) = reported_usage c start stop s"
    for start stop
    by (auto simp: reported_usage_def assms)
  moreover have "workspace_workspaces (s\<lparr>ai_usage_events := ai_usage_events s @ [e]\<rparr>) = workspace_workspaces s" by simp
  ultimately show ?thesis by (simp only: get_usage_report_def)
qed

section \<open>Reservations that interleave\<close>

text \<open>
  What is outstanding is not in the database: a run keeps, beside it, a book per customer and
  month.  It holds the estimates reserved under the month and not yet reconciled, what was reserved
  under it and reconciled in another month (where \<open>reconcile_budget\<close> releases nothing here), by how
  much calls cost more than their estimates, and, of the calls reserved in another month and
  reconciled in this one, the estimates released here and the costs booked here.
\<close>

record month_book =
  mb_pending :: "int multiset"
  mb_left :: int
  mb_overrun :: int
  mb_taken :: int
  mb_late :: int

definition empty_book :: month_book where
  "empty_book = \<lparr>mb_pending = {#}, mb_left = 0, mb_overrun = 0, mb_taken = 0, mb_late = 0\<rparr>"

record budget_run =
  br_book :: "ledger_key \<Rightarrow> month_book"
  br_db :: db

text \<open>What the month has reserved and not reconciled in it.\<close>

definition outstanding :: "month_book \<Rightarrow> int" where
  "outstanding b = sum_mset (mb_pending b) + mb_left b"

inductive budget_step :: "ai_settings \<Rightarrow> budget_run \<Rightarrow> budget_run \<Rightarrow> bool" for settings where
  reserve: "0 \<le> est \<Longrightarrow> reserve_budget settings c est (br_db r) = (Inr u, t) \<Longrightarrow> key = (c, this_month (br_db r)) \<Longrightarrow>
    b = br_book r key \<Longrightarrow>
    budget_step settings r
      (r\<lparr>br_book := (br_book r)(key := b\<lparr>mb_pending := add_mset est (mb_pending b)\<rparr>), br_db := t\<rparr>)"
| reconcile: "key = (c, this_month (br_db r)) \<Longrightarrow> b = br_book r key \<Longrightarrow> est \<in># mb_pending b \<Longrightarrow> 0 \<le> cost \<Longrightarrow>
    budget_step settings r
      (r\<lparr>br_book := (br_book r)(key := b\<lparr>mb_pending := mb_pending b - {#est#},
                                         mb_overrun := mb_overrun b + max 0 (cost - est)\<rparr>),
         br_db := reconcile_budget c est cost (br_db r)\<rparr>)"
| reconcile_late: "key = (c, this_month (br_db r)) \<Longrightarrow> old = (c, m) \<Longrightarrow> m \<noteq> this_month (br_db r) \<Longrightarrow>
    b = br_book r key \<Longrightarrow> b' = br_book r old \<Longrightarrow> est \<in># mb_pending b' \<Longrightarrow> 0 \<le> cost \<Longrightarrow>
    budget_step settings r
      (r\<lparr>br_book := (br_book r)(
           old := b'\<lparr>mb_pending := mb_pending b' - {#est#}, mb_left := mb_left b' + est\<rparr>,
           key := b\<lparr>mb_taken := mb_taken b + est, mb_late := mb_late b + cost\<rparr>),
         br_db := reconcile_budget c est cost (br_db r)\<rparr>)"
| elsewhere: "ai_budget_ledgers t = ai_budget_ledgers (br_db r) \<Longrightarrow> budget_step settings r (r\<lparr>br_db := t\<rparr>)"

inductive_cases budget_stepE: "budget_step settings r r'"

definition capped :: "ai_settings \<Rightarrow> month_book \<Rightarrow> ai_budget_ledger_row option \<Rightarrow> bool" where
  "capped settings b ledger \<longleftrightarrow>
     0 \<le> mb_overrun b \<and> 0 \<le> mb_left b \<and> 0 \<le> mb_taken b \<and> 0 \<le> mb_late b \<and> (\<forall>est \<in># mb_pending b. 0 \<le> est)
     \<and> (mb_pending b \<noteq> {#} \<longrightarrow> 0 \<le> hard_cap_cents settings)
     \<and> (case ledger of
          None \<Rightarrow> mb_pending b = {#} \<and> mb_left b = 0
        | Some l \<Rightarrow> 0 \<le> bl_reserved_cents l \<and> 0 \<le> bl_actual_cents l
            \<and> bl_reserved_cents l \<le> outstanding b \<and> outstanding b - mb_taken b \<le> bl_reserved_cents l
            \<and> outstanding b + bl_actual_cents l \<le> hard_cap_cents settings + mb_overrun b + mb_taken b + mb_late b)"

definition budget_inv :: "ai_settings \<Rightarrow> budget_run \<Rightarrow> bool" where
  "budget_inv settings r \<longleftrightarrow> (\<forall>key. capped settings (br_book r key) (ai_budget_ledgers (br_db r) key))"

definition no_spending :: "budget_run \<Rightarrow> bool" where
  "no_spending r \<longleftrightarrow> br_book r = (\<lambda>_. empty_book) \<and> ai_budget_ledgers (br_db r) = Map.empty"

lemma no_spending_inv: "no_spending r \<Longrightarrow> budget_inv settings r"
  by (simp add: no_spending_def budget_inv_def capped_def empty_book_def)

lemma sum_mset_nonneg: "(\<forall>x \<in># M. (0 :: int) \<le> x) \<Longrightarrow> 0 \<le> sum_mset M"
  by (induction M) auto

text \<open>The row that a lookup finds or inserts.\<close>

lemma capped_ledger_of:
  assumes "capped settings b (ai_budget_ledgers s key)"
  shows "0 \<le> bl_reserved_cents (ledger_of key s)" "0 \<le> bl_actual_cents (ledger_of key s)"
    "bl_reserved_cents (ledger_of key s) \<le> outstanding b"
    "outstanding b - mb_taken b \<le> bl_reserved_cents (ledger_of key s)"
    "0 \<le> hard_cap_cents settings \<Longrightarrow>
       outstanding b + bl_actual_cents (ledger_of key s)
         \<le> hard_cap_cents settings + mb_overrun b + mb_taken b + mb_late b"
  using assms by (auto simp: capped_def ledger_of_def outstanding_def split: option.splits)

lemma budget_invD:
  "budget_inv settings r \<Longrightarrow> capped settings (br_book r key) (ai_budget_ledgers (br_db r) key)"
  unfolding budget_inv_def by blast

lemma budget_inv_update:
  assumes "budget_inv settings r" "capped settings b (Some l)"
    "br_book r' = (br_book r)(key := b)" "ai_budget_ledgers (br_db r') = (ai_budget_ledgers (br_db r))(key \<mapsto> l)"
  shows "budget_inv settings r'"
  unfolding budget_inv_def
proof
  fix j
  show "capped settings (br_book r' j) (ai_budget_ledgers (br_db r') j)"
    using budget_invD [OF assms(1), of j] assms(2) by (cases "j = key") (simp_all only: assms(3-4) fun_upd_apply if_True if_False refl)
qed

text \<open>A book whose reservation is reconciled in another month: the sum does not change.\<close>

lemma outstanding_remove: "est \<in># mb_pending b \<Longrightarrow> sum_mset (mb_pending b - {#est#}) = sum_mset (mb_pending b) - est"
  using sum_mset.add_mset [of est "mb_pending b - {#est#}"] by simp

lemma capped_left:
  assumes "capped settings b ledger" "est \<in># mb_pending b"
  shows "capped settings (b\<lparr>mb_pending := mb_pending b - {#est#}, mb_left := mb_left b + est\<rparr>) ledger"
    and "0 \<le> est \<and> 0 \<le> hard_cap_cents settings"
proof -
  from assms show est: "0 \<le> est \<and> 0 \<le> hard_cap_cents settings" by (auto simp: capped_def)
  with assms show "capped settings (b\<lparr>mb_pending := mb_pending b - {#est#}, mb_left := mb_left b + est\<rparr>) ledger"
    by (auto simp: capped_def outstanding_def outstanding_remove dest: in_diffD split: option.splits)
qed

lemma budget_inv_step:
  assumes "budget_step settings r r'" "budget_inv settings r"
  shows "budget_inv settings r'"
  using assms(1)
proof (cases rule: budget_step.cases)
  case (reserve est c u t key b)
  let ?l = "ledger_of key (br_db r)"
  from reserve(3) have cap: "bl_reserved_cents ?l + bl_actual_cents ?l + est \<le> hard_cap_cents settings"
    and t: "ai_budget_ledgers t = (ai_budget_ledgers (br_db r))(key \<mapsto>
        ?l\<lparr>bl_reserved_cents := bl_reserved_cents ?l + est\<rparr>)"
    unfolding reserve_budget_iff Let_def reserve(4) [symmetric] by auto
  have b: "capped settings b (ai_budget_ledgers (br_db r) key)"
    using budget_invD [OF assms(2), of key] by (simp add: reserve(5))
  note l = capped_ledger_of [OF b]
  have "capped settings (b\<lparr>mb_pending := add_mset est (mb_pending b)\<rparr>)
      (Some (?l\<lparr>bl_reserved_cents := bl_reserved_cents ?l + est\<rparr>))"
    using l reserve(2) cap b by (auto simp: capped_def outstanding_def)
  from budget_inv_update [OF assms(2) this] show ?thesis by (simp add: reserve(1) t)
next
  case (reconcile key c b est cost)
  let ?l = "ledger_of key (br_db r)"
  let ?new = "\<lparr>bl_reserved_cents = max 0 (bl_reserved_cents ?l - est), bl_actual_cents = bl_actual_cents ?l + cost\<rparr>"
  have t: "ai_budget_ledgers (reconcile_budget c est cost (br_db r)) = (ai_budget_ledgers (br_db r))(key \<mapsto> ?new)"
    by (simp add: reconcile_budget_eq Let_def reconcile(2))
  have b: "capped settings b (ai_budget_ledgers (br_db r) key)"
    using budget_invD [OF assms(2), of key] by (simp add: reconcile(3))
  note l = capped_ledger_of [OF b] and est = capped_left(2) [OF b reconcile(4)]
  have rest: "\<forall>x \<in># mb_pending b - {#est#}. 0 \<le> x" using b by (auto simp: capped_def dest: in_diffD)
  have "0 \<le> mb_left b" using b by (simp add: capped_def)
  with sum_mset_nonneg [OF rest] have "est \<le> outstanding b"
    by (simp add: outstanding_remove [OF reconcile(4)] outstanding_def)
  then have "capped settings (b\<lparr>mb_pending := mb_pending b - {#est#}, mb_overrun := mb_overrun b + max 0 (cost - est)\<rparr>)
      (Some ?new)"
    using l est b rest reconcile(5)
    by (auto simp: capped_def outstanding_def outstanding_remove [OF reconcile(4)] max_def)
  from budget_inv_update [OF assms(2) this] show ?thesis by (simp add: reconcile(1) t)
next
  case (reconcile_late key c old m b b' est cost)
  let ?l = "ledger_of key (br_db r)"
  let ?new = "\<lparr>bl_reserved_cents = max 0 (bl_reserved_cents ?l - est), bl_actual_cents = bl_actual_cents ?l + cost\<rparr>"
  let ?mid = "r\<lparr>br_book := (br_book r)(old := b'\<lparr>mb_pending := mb_pending b' - {#est#}, mb_left := mb_left b' + est\<rparr>)\<rparr>"
  have t: "ai_budget_ledgers (reconcile_budget c est cost (br_db r)) = (ai_budget_ledgers (br_db r))(key \<mapsto> ?new)"
    by (simp add: reconcile_budget_eq Let_def reconcile_late(2))
  have b: "capped settings b (ai_budget_ledgers (br_db r) key)" "capped settings b' (ai_budget_ledgers (br_db r) old)"
    using budget_invD [OF assms(2), of key] budget_invD [OF assms(2), of old] by (simp_all add: reconcile_late(5,6))
  note l = capped_ledger_of [OF b(1)] and old = capped_left [OF b(2) reconcile_late(7)]
  have mid: "budget_inv settings ?mid"
    using assms(2) old(1) by (auto simp: budget_inv_def)
  have "0 \<le> outstanding b"
    using l(1,3) by linarith
  then have "capped settings (b\<lparr>mb_taken := mb_taken b + est, mb_late := mb_late b + cost\<rparr>) (Some ?new)"
    using l old(2) b(1) reconcile_late(8) by (auto simp: capped_def outstanding_def max_def)
  from budget_inv_update [OF mid this] show ?thesis
    by (simp add: reconcile_late(1) t)
next
  case (elsewhere t)
  with assms(2) show ?thesis by (simp add: budget_inv_def)
qed

interpretation budget_run: invariant_system "budget_step settings" no_spending "budget_inv settings" for settings
  by unfold_locales (fact no_spending_inv budget_inv_step)+

section \<open>Properties\<close>

text \<open>
  C35: whatever turns reserve and reconcile, in whatever order and however many at a time, within a
  month or across its end.  What a customer has reserved in a month is what is outstanding in it (of
  which a turn reconciled in another month leaves its estimate behind), less at most the estimates
  of turns of other months that were reconciled in this one; and reserved and spent together stay
  within the hard cap, exceeded at most by what the month's calls cost more than they were
  estimated at and, for each turn reserved in another month and reconciled in this one, by its
  estimate and its cost.  With no such turn the reservation is exact and the cap is exceeded only by
  the overruns.
\<close>

theorem spending_is_capped:
  assumes "no_spending r" "(budget_step settings)\<^sup>*\<^sup>* r r'" "ai_budget_ledgers (br_db r') key = Some l"
    and "b = br_book r' key"
  shows "0 \<le> bl_reserved_cents l \<and> bl_reserved_cents l \<le> sum_mset (mb_pending b) + mb_left b
       \<and> sum_mset (mb_pending b) + mb_left b - mb_taken b \<le> bl_reserved_cents l
       \<and> bl_reserved_cents l + bl_actual_cents l
           \<le> hard_cap_cents settings + mb_overrun b + mb_taken b + mb_late b"
proof -
  have "budget_inv settings r'" by (rule budget_run.reachable [OF assms(1,2)])
  then have "capped settings b (Some l)"
    using budget_invD [of settings r' key] by (simp add: assms(3,4))
  then show ?thesis by (simp add: capped_def outstanding_def)
qed

lemma month_text_0: "month_text 0 = ''1970-01''"
  by (simp add: month_text_def two_digits_def, code_simp)

lemma month_text_1: "month_text 1 = ''1970-02''"
  by (simp add: month_text_def two_digits_def, code_simp)

lemma month_of_early [simp]: "0 \<le> t \<Longrightarrow> t < 1000000 \<Longrightarrow> month_of t = 0"
  by (simp add: month_of_iff month_start_def month_days_def day_microseconds_def)

text \<open>A turn reserves 10 cents in January and reconciles them at a cost of 12 in February.\<close>

definition sample_spending :: budget_run where
  "sample_spending = \<lparr>br_book = \<lambda>_. empty_book, br_db = empty_db\<rparr>"

definition january :: ledger_key where
  "january = (7, ''1970-01'')"

definition february :: ledger_key where
  "february = (7, ''1970-02'')"

definition sample_reserved :: budget_run where
  "sample_reserved = \<lparr>br_book = (\<lambda>_. empty_book)(january := empty_book\<lparr>mb_pending := {#10#}\<rparr>),
     br_db = empty_db\<lparr>ticks := 1, ai_budget_ledgers := [january \<mapsto> \<lparr>bl_reserved_cents = 10, bl_actual_cents = 0\<rparr>]\<rparr>\<rparr>"

definition sample_late :: budget_run where
  "sample_late = sample_reserved\<lparr>br_db := (br_db sample_reserved)\<lparr>ticks := 2678400000000\<rparr>\<rparr>"

definition sample_spent :: budget_run where
  "sample_spent = sample_late\<lparr>
     br_book := (\<lambda>_. empty_book)(january := empty_book\<lparr>mb_left := 10\<rparr>, february := empty_book\<lparr>mb_taken := 10, mb_late := 12\<rparr>),
     br_db := reconcile_budget 7 10 12 (br_db sample_late)\<rparr>"

lemma sample_hard_cap: "hard_cap_cents default_ai_settings = 8000"
  by (simp add: hard_cap_cents_def default_ai_settings_def cents_per_dollar_def py_round_def Let_def)

lemma month_of_late: "month_of 2678400000000 = 1"
proof -
  have "days_before (Suc 0) = 31" "days_before (Suc (Suc 0)) = 59"
    by (simp_all add: month_days_def leap_year_def)
  then show ?thesis
    by (simp add: month_of_iff month_start_def day_microseconds_def numeral_eq_Suc del: days_before.simps)
qed

lemma sample_spent_steps: "(budget_step default_ai_settings)\<^sup>*\<^sup>* sample_spending sample_spent"
proof -
  have "budget_step default_ai_settings sample_spending
     (sample_spending\<lparr>br_book := (br_book sample_spending)(january := empty_book\<lparr>mb_pending := add_mset 10 (mb_pending empty_book)\<rparr>),
          br_db := br_db sample_reserved\<rparr>)"
    by (rule budget_step.reserve [where c = 7])
      (simp_all add: reserve_budget_iff Let_def sample_hard_cap ledger_of_def january_def sample_reserved_def
        sample_spending_def month_text_0)
  then have "budget_step default_ai_settings sample_spending sample_reserved"
    by (simp add: sample_reserved_def sample_spending_def empty_book_def)
  moreover have "budget_step default_ai_settings sample_reserved sample_late"
    unfolding sample_late_def by (rule budget_step.elsewhere) simp
  moreover have "budget_step default_ai_settings sample_late sample_spent"
  proof -
    let ?b = "br_book sample_late"
    have spent: "sample_spent = sample_late\<lparr>
        br_book := ?b(january := (?b january)\<lparr>mb_pending := mb_pending (?b january) - {#10#}, mb_left := mb_left (?b january) + 10\<rparr>,
          february := (?b february)\<lparr>mb_taken := mb_taken (?b february) + 10, mb_late := mb_late (?b february) + 12\<rparr>),
        br_db := reconcile_budget 7 10 12 (br_db sample_late)\<rparr>"
      by (simp add: sample_spent_def)
        (simp add: sample_late_def sample_reserved_def january_def february_def empty_book_def)
    have feb: "february = (7, this_month (br_db sample_late))"
      by (simp add: sample_late_def sample_reserved_def february_def month_of_late month_text_1 [simplified])
    have other: "''1970-01'' \<noteq> this_month (br_db sample_late)"
      by (simp add: sample_late_def sample_reserved_def month_of_late month_text_1 [simplified])
    show ?thesis
      unfolding spent
      by (rule budget_step.reconcile_late [OF feb january_def other refl refl])
        (simp_all add: sample_late_def sample_reserved_def)
  qed
  ultimately show ?thesis by (meson rtranclp.rtrancl_into_rtrancl rtranclp.rtrancl_refl)
qed

theorem spending_is_capped_witness:
  "(\<exists>l. ai_budget_ledgers (br_db sample_spent) january = Some l \<and> bl_reserved_cents l = 10 \<and> bl_actual_cents l = 0)
   \<and> (\<exists>l. ai_budget_ledgers (br_db sample_spent) february = Some l \<and> bl_reserved_cents l = 0 \<and> bl_actual_cents l = 12
        \<and> bl_reserved_cents l + bl_actual_cents l \<le> hard_cap_cents default_ai_settings + 0 + 10 + 12)"
proof -
  have ledgers: "ai_budget_ledgers (br_db sample_spent) january = Some \<lparr>bl_reserved_cents = 10, bl_actual_cents = 0\<rparr>"
    "ai_budget_ledgers (br_db sample_spent) february = Some \<lparr>bl_reserved_cents = 0, bl_actual_cents = 12\<rparr>"
    by (simp_all add: sample_spent_def sample_late_def reconcile_budget_eq Let_def ledger_of_def sample_reserved_def
        january_def february_def month_of_late month_text_1 [simplified])
  have "no_spending sample_spending" by (simp add: no_spending_def sample_spending_def)
  from spending_is_capped [OF this sample_spent_steps ledgers(2) refl] ledgers show ?thesis
    by (simp add: sample_spent_def january_def february_def empty_book_def)
qed

text \<open>
  The month a report is asked for and the month the ledger is kept under are the same: an
  instant lies in the bounds of a month, read back from the text of the month, exactly when the
  ledger of that instant has that text for its key.
\<close>

theorem report_month_is_ledger_month:
  assumes "0 \<le> t" "Suc k < 12 * (10000 - 1970)"
  shows "\<exists>start stop. month_bounds_utc (month_text k) = Inr (start, stop)
     \<and> (start \<le> t \<and> t < stop \<longleftrightarrow> month_text (month_of t) = month_text k)"
  using bounds_of_month_text [OF assms(2)] month_of_iff [OF assms(1)] by auto

theorem report_month_is_ledger_month_witness:
  "\<exists>start stop. month_bounds_utc (month_text 1) = Inr (start, stop)
     \<and> (start \<le> 5 \<and> 5 < stop \<longleftrightarrow> month_text (month_of 5) = month_text 1)"
  by (rule report_month_is_ledger_month) simp_all

end
