(* ===== verification/Ai_Text.thy ===== *)
theory Ai_Text
  imports Errors
begin

text \<open>
  What is done to the text of a message before a model sees it: \<open>doda/ai/outbound_guard.py\<close>
  refuses text that looks like a credential, \<open>doda/ai/language.py\<close> guesses its language.  The
  guard's regular expressions are sequences of a few kinds of items, matched by backtracking as
  \<open>re\<close> does; a search only asks whether there is a match.  The language is guessed from code
  points, of which the characters of a message are the first 256.
\<close>

section \<open>Patterns (ai/outbound\_guard.py)\<close>

datatype pattern_item =
    Boundary
  | One "char \<Rightarrow> bool"
  | Times nat "char \<Rightarrow> bool"
  | At_least nat "char \<Rightarrow> bool"
  | Either "string list"

definition is_upper :: "char \<Rightarrow> bool" where
  "is_upper c \<longleftrightarrow> 65 \<le> (of_char c :: nat) \<and> (of_char c :: nat) \<le> 90"

definition is_lower :: "char \<Rightarrow> bool" where
  "is_lower c \<longleftrightarrow> 97 \<le> (of_char c :: nat) \<and> (of_char c :: nat) \<le> 122"

definition is_alnum :: "char \<Rightarrow> bool" where
  "is_alnum c \<longleftrightarrow> is_upper c \<or> is_lower c \<or> is_digit_char c"

text \<open>\<open>\w\<close> of \<open>re\<close> on the characters up to 255: letters, digits and numeric characters, and the underscore.\<close>

definition is_word :: "char \<Rightarrow> bool" where
  "is_word c \<longleftrightarrow> is_alnum c \<or> c = CHR ''_''
     \<or> (let n = (of_char c :: nat) in n \<in> {170, 178, 179, 181, 185, 186, 188, 189, 190}
           \<or> 192 \<le> n \<and> n \<noteq> 215 \<and> n \<noteq> 247)"

definition is_space_char :: "char \<Rightarrow> bool" where
  "is_space_char c \<longleftrightarrow> (let n = (of_char c :: nat) in (9 \<le> n \<and> n \<le> 13) \<or> (28 \<le> n \<and> n \<le> 32) \<or> n = 133 \<or> n = 160)"

text \<open>A word boundary between the character before, if any, and the one that follows, if any.\<close>

definition at_boundary :: "char option \<Rightarrow> string \<Rightarrow> bool" where
  "at_boundary prev text \<longleftrightarrow>
     ((case prev of None \<Rightarrow> False | Some c \<Rightarrow> is_word c) \<noteq> (case text of [] \<Rightarrow> False | c # _ \<Rightarrow> is_word c))"

definition last_of :: "string \<Rightarrow> char option \<Rightarrow> char option" where
  "last_of word prev = (if word = [] then prev else Some (last word))"

fun item_ends :: "pattern_item \<Rightarrow> char option \<Rightarrow> string \<Rightarrow> (char option \<times> string) list" where
  "item_ends Boundary prev text = (if at_boundary prev text then [(prev, text)] else [])"
| "item_ends (One p) prev text = (case text of [] \<Rightarrow> [] | c # cs \<Rightarrow> if p c then [(Some c, cs)] else [])"
| "item_ends (Times 0 p) prev text = [(prev, text)]"
| "item_ends (Times (Suc n) p) prev text =
     (case text of [] \<Rightarrow> [] | c # cs \<Rightarrow> if p c then item_ends (Times n p) (Some c) cs else [])"
| "item_ends (At_least 0 p) prev text =
     (prev, text) # (case text of [] \<Rightarrow> [] | c # cs \<Rightarrow> if p c then item_ends (At_least 0 p) (Some c) cs else [])"
| "item_ends (At_least (Suc n) p) prev text =
     (case text of [] \<Rightarrow> [] | c # cs \<Rightarrow> if p c then item_ends (At_least n p) (Some c) cs else [])"
| "item_ends (Either ws) prev text =
     map (\<lambda>w. (last_of w prev, drop (length w) text)) (filter (\<lambda>w. take (length w) text = w) ws)"

fun matches_at :: "pattern_item list \<Rightarrow> char option \<Rightarrow> string \<Rightarrow> bool" where
  "matches_at [] prev text = True"
| "matches_at (i # items) prev text = list_ex (\<lambda>(b, t). matches_at items b t) (item_ends i prev text)"

fun search_from :: "pattern_item list \<Rightarrow> char option \<Rightarrow> string \<Rightarrow> bool" where
  "search_from items prev [] = matches_at items prev []"
| "search_from items prev (c # cs) = (matches_at items prev (c # cs) \<or> search_from items (Some c) cs)"

definition lit :: "string \<Rightarrow> pattern_item list" where
  "lit = map (\<lambda>c. One (\<lambda>d. d = c))"

definition key_char :: "string \<Rightarrow> char \<Rightarrow> bool" where
  "key_char extra c \<longleftrightarrow> is_alnum c \<or> c \<in> set extra"

definition secret_patterns :: "(string \<times> pattern_item list) list" where
  "secret_patterns =
     [(''anthropic_api_key'', [Boundary] @ lit ''sk-ant-'' @ [At_least 20 (key_char ''_-''), Boundary]),
      (''openai_api_key'', [Boundary] @ lit ''sk-'' @ [At_least 20 (key_char ''_-''), Boundary]),
      (''aws_access_key_id'', [Boundary] @ lit ''AKIA'' @ [Times 16 (\<lambda>c. is_digit_char c \<or> is_upper c), Boundary]),
      (''google_api_key'', [Boundary] @ lit ''AIza'' @ [At_least 35 (key_char ''_-''), Boundary]),
      (''github_token'', [Boundary] @ lit ''gh'' @ [One (\<lambda>c. c \<in> set ''pousr'')] @ lit ''_''
         @ [At_least 36 is_alnum, Boundary]),
      (''slack_token'', [Boundary] @ lit ''xox'' @ [One (\<lambda>c. c \<in> set ''baprs'')] @ lit ''-''
         @ [At_least 10 (key_char ''-''), Boundary]),
      (''private_key_block'', lit ''-----BEGIN '' @ [Either [''RSA '', ''EC '', ''OPENSSH '', ''DSA '', []]]
         @ lit ''PRIVATE KEY-----''),
      (''jwt'', [Boundary] @ lit ''eyJ'' @ [At_least 10 (key_char ''_-'')] @ lit ''.''
         @ [At_least 10 (key_char ''_-'')] @ lit ''.'' @ [At_least 10 (key_char ''_-''), Boundary]),
      (''bearer_token'', [Boundary, One (\<lambda>c. c = CHR ''B'' \<or> c = CHR ''b'')] @ lit ''earer''
         @ [At_least 1 is_space_char, At_least 20 (key_char ''._-''), Boundary])]"

definition detect_likely_secret :: "string \<Rightarrow> string option" where
  "detect_likely_secret content =
     map_option fst (find (\<lambda>(label, items). search_from items None content) secret_patterns)"

section \<open>Languages (ai/language.py)\<close>

type_synonym code_points = "nat list"

definition points :: "string \<Rightarrow> code_points" where
  "points = map of_char"

definition supported_languages :: "string list" where
  "supported_languages = [''UZ'', ''RU'', ''EN'']"

definition is_space_point :: "nat \<Rightarrow> bool" where
  "is_space_point n \<longleftrightarrow> (9 \<le> n \<and> n \<le> 13) \<or> (28 \<le> n \<and> n \<le> 32) \<or> n = 133 \<or> n = 160 \<or> n = 5760
     \<or> (8192 \<le> n \<and> n \<le> 8202) \<or> n = 8232 \<or> n = 8233 \<or> n = 8239 \<or> n = 8287 \<or> n = 12288"

definition strip_points :: "code_points \<Rightarrow> code_points" where
  "strip_points t = rev (dropWhile is_space_point (rev (dropWhile is_space_point t)))"

definition is_cyrillic :: "nat \<Rightarrow> bool" where
  "is_cyrillic n \<longleftrightarrow> 0x400 \<le> n \<and> n \<le> 0x4FF"

text \<open>The letters of Uzbek that Russian does not have, small and capital.\<close>

definition uzbek_cyrillic_only :: "nat list" where
  "uzbek_cyrillic_only = [0x45E, 0x49B, 0x493, 0x4B3, 0x40E, 0x49A, 0x492, 0x4B2]"

definition normalize_apostrophe :: "nat \<Rightarrow> nat" where
  "normalize_apostrophe n = (if n \<in> {0x2019, 0x2BB, 0x2BC} then 39 else n)"

text \<open>
  \<open>str.lower\<close>, as far as it matters: ASCII capitals, and the two other characters whose small
  form is or starts with an ASCII letter.  Every other character stays what it is, a character no
  word is made of.
\<close>

definition lower_point :: "nat \<Rightarrow> code_points" where
  "lower_point n = (if 65 \<le> n \<and> n \<le> 90 then [n + 32]
     else if n = 0x212A then [107] else if n = 0x130 then [105, 0x307] else [n])"

definition is_token_point :: "nat \<Rightarrow> bool" where
  "is_token_point n \<longleftrightarrow> (65 \<le> n \<and> n \<le> 90) \<or> (97 \<le> n \<and> n \<le> 122) \<or> n = 39"

text \<open>\<open>findall\<close> of the token pattern: the maximal runs of letters and apostrophes.\<close>

fun tokens_from :: "code_points \<Rightarrow> code_points \<Rightarrow> code_points list" where
  "tokens_from run [] = (if run = [] then [] else [run])"
| "tokens_from run (n # ns) =
     (if is_token_point n then tokens_from (run @ [n]) ns
      else if run = [] then tokens_from [] ns else run # tokens_from [] ns)"

definition uzbek_latin_words :: "string list" where
  "uzbek_latin_words = [''va'', ''bu'', ''shu'', ''uchun'', ''bilan'', ''kerak'', ''salom'', ''rahmat'',
     ''iltimos'', ''qanday'', ''nima'', ''qachon'', ''qayerda'', ''ha'', ''yo'q'', ''yoq'', ''bor'', ''bugun'',
     ''ertaga'', ''kechirasiz'', ''tushunarli'', ''albatta'', ''menga'', ''sizga'']"

definition english_words :: "string list" where
  "english_words = [''the'', ''is'', ''are'', ''and'', ''you'', ''please'', ''thanks'', ''thank'', ''hello'',
     ''what'', ''how'', ''when'', ''where'', ''today'', ''tomorrow'', ''sorry'', ''understand'', ''sure'',
     ''yes'', ''no'', ''need'', ''help'', ''with'', ''for'']"

definition score :: "code_points list \<Rightarrow> string list \<Rightarrow> nat" where
  "score tokens ws = length (filter (\<lambda>w. points w \<in> set tokens) ws)"

fun contains :: "code_points \<Rightarrow> code_points \<Rightarrow> bool" where
  "contains part [] = (part = [])"
| "contains part (n # ns) = (take (length part) (n # ns) = part \<or> contains part ns)"

definition detect_language :: "code_points \<Rightarrow> string option" where
  "detect_language text =
     (let stripped = strip_points text in
      if stripped = [] then None
      else if list_ex is_cyrillic stripped
      then Some (if list_ex (\<lambda>n. n \<in> set uzbek_cyrillic_only) stripped then ''UZ'' else ''RU'')
      else
        let normalized = concat (map lower_point (map normalize_apostrophe stripped)) in
        if contains (points ''o''@ [39]) normalized \<or> contains (points ''g'' @ [39]) normalized then Some ''UZ''
        else
          let tokens = tokens_from [] normalized;
              uzbek_score = score tokens uzbek_latin_words;
              english_score = score tokens english_words
          in if uzbek_score = 0 \<and> english_score = 0 then None
             else if uzbek_score \<ge> english_score then Some ''UZ'' else Some ''EN'')"

definition language_names_uz :: "(string \<times> string) list" where
  "language_names_uz = [(''UZ'', ''o'zbek''), (''RU'', ''rus''), (''EN'', ''ingliz'')]"

definition response_language_instruction :: "string option \<Rightarrow> app_error + string" where
  "response_language_instruction language =
     (case language of
        None \<Rightarrow> Inr []
      | Some l \<Rightarrow>
          (case map_of language_names_uz l of
             None \<Rightarrow> Inl (Unhandled ''KeyError'')
           | Some name \<Rightarrow> Inr (''Har doim '' @ name @ '' tilida javob ber.'')))"

section \<open>What they find\<close>

lemma detected_language_supported: "detect_language t = Some l \<Longrightarrow> l \<in> set supported_languages"
  by (auto simp: detect_language_def supported_languages_def Let_def split: if_splits)

lemma instruction_supported: "l \<in> set supported_languages \<Longrightarrow> \<exists>t. response_language_instruction (Some l) = Inr t"
  by (auto simp: supported_languages_def response_language_instruction_def language_names_uz_def)

lemma search_from_append: "search_from items (if xs = [] then prev else Some (last xs)) ys \<Longrightarrow> search_from items prev (xs @ ys)"
proof (induction xs arbitrary: prev)
  case (Cons x xs)
  show ?case
  proof (cases xs)
    case Nil
    with Cons.prems show ?thesis by simp
  next
    case (Cons y zs)
    with Cons.prems Cons.IH [of "Some x"] show ?thesis by simp
  qed
qed simp

end
