(* ===== verification/Ai_Tools.thy ===== *)
theory Ai_Tools
  imports Ai_Settings Tasks Actions
begin

text \<open>
  \<open>doda/application/ai_tools.py\<close>: the tools a model may call.  A read tool runs at once; a write
  tool only proposes an action, through the same chain as every other action.  The validation of
  arguments is pydantic's and the parsing of JSON is its parser's: both are parameters.
\<close>

text \<open>
  What is not the program's: the schemas and the validators of the two argument models (the limit
  it yields, or that the arguments are valid), \<open>json.loads\<close>, and the text of an exception.
\<close>

record tool_world =
  tw_schema :: "string \<Rightarrow> json"
  tw_read_args :: "string \<Rightarrow> string + int"
  tw_write_args :: "string \<Rightarrow> string + unit"
  tw_json_loads :: "string \<Rightarrow> json"
  tw_exc_text :: "app_error \<Rightarrow> string"

definition list_tool :: string where "list_tool = ''list_my_open_tasks''"

definition send_tool :: string where "send_tool = ''telegram_send_message''"

definition write_tool_action_name :: "string \<Rightarrow> string option" where
  "write_tool_action_name = [send_tool \<mapsto> telegram_tool]"

definition available_tool_specs :: "tool_world \<Rightarrow> tool_spec list" where
  "available_tool_specs world =
     [\<lparr>ts_name = list_tool,
       ts_description = ''List the caller's own open (TODO/IN_PROGRESS) tasks in this workspace.'',
       ts_parameters_schema = tw_schema world list_tool\<rparr>,
      \<lparr>ts_name = send_tool,
       ts_description = ''Propose sending a Telegram message. This never sends immediately - it creates an ''
         @ ''action that requires human approval before anything is sent.'',
       ts_parameters_schema = tw_schema world send_tool\<rparr>]"

definition is_read_tool :: "string \<Rightarrow> bool" where
  "is_read_tool tool_name \<longleftrightarrow> tool_name = list_tool"

definition is_write_tool :: "string \<Rightarrow> bool" where
  "is_write_tool tool_name \<longleftrightarrow> tool_name = send_tool"

definition arguments_invalid :: "string \<Rightarrow> string \<Rightarrow> app_error" where
  "arguments_invalid tool_name reason = ToolArgumentsInvalidError (tool_name @ '': '' @ reason)"

definition validate_read_arguments :: "tool_world \<Rightarrow> string \<Rightarrow> string \<Rightarrow> app_error + int" where
  "validate_read_arguments world tool_name arguments_json =
     (if \<not> is_read_tool tool_name then Inl (ToolNotFoundError tool_name)
      else case tw_read_args world arguments_json of
             Inl reason \<Rightarrow> Inl (arguments_invalid tool_name reason) | Inr limit \<Rightarrow> Inr limit)"

definition validate_write_arguments :: "tool_world \<Rightarrow> string \<Rightarrow> string \<Rightarrow> app_error option" where
  "validate_write_arguments world tool_name arguments_json =
     (if \<not> is_write_tool tool_name then Some (ToolNotFoundError tool_name)
      else case tw_write_args world arguments_json of
             Inl reason \<Rightarrow> Some (arguments_invalid tool_name reason) | Inr _ \<Rightarrow> None)"

primrec task_status_value :: "task_status \<Rightarrow> string" where
  "task_status_value T_TODO = ''TODO''"
| "task_status_value T_IN_PROGRESS = ''IN_PROGRESS''"
| "task_status_value T_DONE = ''DONE''"
| "task_status_value T_CANCELLED = ''CANCELLED''"

definition task_line :: "task_row \<Rightarrow> string" where
  "task_line t = ''- ['' @ task_status_value (tsk_status t) @ ''] '' @ tsk_title t @ '' (id='' @ uuid_str (tsk_id t) @ '')''"

definition dispatch_read_tool :: "tool_world \<Rightarrow> string \<Rightarrow> string \<Rightarrow> uuid \<Rightarrow> db \<Rightarrow> app_error + string" where
  "dispatch_read_tool world tool_name arguments_json workspace_id s =
     (case validate_read_arguments world tool_name arguments_json of
        Inl e \<Rightarrow> Inl e
      | Inr limit \<Rightarrow>
         (case list_tasks_for_workspace workspace_id (Some T_TODO) limit s of
            Inl e \<Rightarrow> Inl e
          | Inr todo \<Rightarrow>
             (case list_tasks_for_workspace workspace_id (Some T_IN_PROGRESS) limit s of
                Inl e \<Rightarrow> Inl e
              | Inr in_progress \<Rightarrow>
                  let tasks = take (nat limit) (todo @ in_progress) in
                  Inr (if tasks = [] then ''No open tasks.'' else join_with [CHR 0x0A] (map task_line tasks)))))"

definition propose_write_tool_action ::
  "tool_world \<Rightarrow> string \<Rightarrow> string \<Rightarrow> workspace_context \<Rightarrow> uuid \<Rightarrow> string \<Rightarrow> db
     \<Rightarrow> (app_error + action_row \<times> approval_row option) \<times> db" where
  "propose_write_tool_action world tool_name arguments_json context trace_id idempotency_key s =
     bind_err (require (validate_write_arguments world tool_name arguments_json) s) (\<lambda>_ s.
     (case write_tool_action_name tool_name of
        None \<Rightarrow> raise (Unhandled ''KeyError'') s
      | Some action_tool_name \<Rightarrow>
          let actor_id = user_actor (wc_user_id context) in
          bind_err (propose_action (wc_customer_id context) (wc_workspace_id context) trace_id actor_id
                      action_tool_name R0 (tw_json_loads world arguments_json) idempotency_key None s)
            (\<lambda>(action, created) s.
               if created then submit_action_for_execution action actor_id s
               else ok (action, resolve_replay_approval action actor_id s) s)))"

section \<open>What a tool call can do\<close>

lemma tool_kinds [simp]: "is_read_tool list_tool" "is_write_tool send_tool" "\<not> is_write_tool list_tool" "\<not> is_read_tool send_tool"
  by (simp_all add: is_read_tool_def is_write_tool_def list_tool_def send_tool_def)

end
