(* ===== verification/Conversation.thy ===== *)
theory Conversation
  imports Ai_Budget Ai_Text Ai_Tools Workspaces Action_System
begin

text \<open>
  \<open>doda/application/conversation_service.py\<close>: conversations, their messages and the turn of a
  chat, which resolves a provider, reserves the budget, calls the model for a bounded number of
  rounds and reconciles the budget whatever happens.  The turn is an asynchronous generator: its
  state is a record that holds what it has yielded, what it has asked the models, its local
  variables and the database.  The consumer may close it at any item: the generator then receives
  \<open>GeneratorExit\<close> at that \<open>yield\<close>.
\<close>

section \<open>Conversations\<close>

definition start_conversation :: "uuid \<Rightarrow> uuid \<Rightarrow> string \<Rightarrow> string option \<Rightarrow> db \<Rightarrow> conversation_row \<times> db" where
  "start_conversation customer_id workspace_id owner_id title s =
     (let (new_id, created, s) = row_defaults s;
          conversation = \<lparr>cv_id = new_id, cv_created_at = created, cv_customer_id = customer_id,
            cv_workspace_id = workspace_id, cv_owner_id = owner_id, cv_title = title,
            cv_pinned_provider = None, cv_pinned_model = None, cv_pinned_language = None\<rparr>
      in (conversation, s\<lparr>conversation_conversations := conversation_conversations s @ [conversation]\<rparr>))"

definition list_conversations_for_workspace :: "uuid \<Rightarrow> int \<Rightarrow> db \<Rightarrow> app_error + conversation_row list" where
  "list_conversations_for_workspace workspace_id limit s =
     sql_limit (min limit 200) (rev (sort_key cv_created_at
       (filter (\<lambda>c. cv_workspace_id c = workspace_id) (conversation_conversations s))))"

definition list_messages :: "uuid \<Rightarrow> int \<Rightarrow> db \<Rightarrow> app_error + message_row list" where
  "list_messages conversation_id limit s =
     sql_limit (min limit 200) (sort_key msg_created_at
       (filter (\<lambda>m. msg_conversation_id m = conversation_id) (conversation_messages s)))"

section \<open>Search\<close>

text \<open>\<open>LIKE\<close> with the backslash as escape character; \<open>ILIKE\<close> compares small letters.\<close>

fun like :: "string \<Rightarrow> string \<Rightarrow> bool" where
  "like [] t = (t = [])"
| "like (c # p) t =
     (if c = CHR 0x5C then
        (case p of [] \<Rightarrow> False | d # q \<Rightarrow> (case t of [] \<Rightarrow> False | x # xs \<Rightarrow> x = d \<and> like q xs))
      else if c = CHR ''%'' then like p t \<or> (case t of [] \<Rightarrow> False | x # xs \<Rightarrow> like (c # p) xs)
      else if c = CHR ''_'' then (case t of [] \<Rightarrow> False | x # xs \<Rightarrow> like p xs)
      else (case t of [] \<Rightarrow> False | x # xs \<Rightarrow> x = c \<and> like p xs))"

definition small_letter :: "char \<Rightarrow> char" where
  "small_letter c = (let n = (of_char c :: nat) in
     if 65 \<le> n \<and> n \<le> 90 \<or> 192 \<le> n \<and> n \<le> 222 \<and> n \<noteq> 215 then char_of (n + 32) else c)"

definition ilike :: "string \<Rightarrow> string \<Rightarrow> bool" where
  "ilike p t = like (map small_letter p) (map small_letter t)"

definition escape_like :: "string \<Rightarrow> string" where
  "escape_like q = concat (map (\<lambda>c. if c = CHR 0x5C \<or> c = CHR ''%'' \<or> c = CHR ''_'' then [CHR 0x5C, c] else [c]) q)"

definition strip_text :: "string \<Rightarrow> string" where
  "strip_text t = rev (dropWhile is_space_char (rev (dropWhile is_space_char t)))"

definition search_messages_in_workspace :: "uuid \<Rightarrow> string \<Rightarrow> int \<Rightarrow> db \<Rightarrow> app_error + message_row list" where
  "search_messages_in_workspace workspace_id query limit s =
     (let stripped = strip_text query in
      if stripped = [] then Inr []
      else sql_limit (min limit 200) (rev (sort_key msg_created_at
        [m. m \<leftarrow> conversation_messages s, c \<leftarrow> conversation_conversations s,
            msg_conversation_id m = cv_id c \<and> cv_workspace_id c = workspace_id
            \<and> ilike (''%'' @ escape_like stripped @ ''%'') (msg_content m)])))"

section \<open>Pins\<close>

text \<open>
  The row of a conversation is found in the request that changes it; nothing deletes one, so the
  update of the columns that differ from the loaded ones finds it.
\<close>

definition switch_conversation_provider ::
  "conversation_row \<Rightarrow> provider \<Rightarrow> string option \<Rightarrow> db \<Rightarrow> conversation_row \<times> db" where
  "switch_conversation_provider conversation p model s =
     (conversation\<lparr>cv_pinned_provider := Some (provider_value p), cv_pinned_model := model\<rparr>,
      s\<lparr>conversation_conversations := tupd cv_id (cv_id conversation)
          (\<lambda>c. c\<lparr>cv_pinned_provider := written (cv_pinned_provider conversation) (Some (provider_value p))
                                        (cv_pinned_provider c),
                 cv_pinned_model := written (cv_pinned_model conversation) model (cv_pinned_model c)\<rparr>)
          (conversation_conversations s)\<rparr>)"

definition switch_conversation_language ::
  "conversation_row \<Rightarrow> string option \<Rightarrow> db \<Rightarrow> conversation_row \<times> db" where
  "switch_conversation_language conversation language s =
     (conversation\<lparr>cv_pinned_language := language\<rparr>,
      s\<lparr>conversation_conversations := tupd cv_id (cv_id conversation)
          (\<lambda>c. c\<lparr>cv_pinned_language := written (cv_pinned_language conversation) language (cv_pinned_language c)\<rparr>)
          (conversation_conversations s)\<rparr>)"

text \<open>The first of three that is there; an empty text counts as absent, but for the last.\<close>

definition resolve_effective_language :: "conversation_row \<Rightarrow> string \<Rightarrow> uuid \<Rightarrow> db \<Rightarrow> string option" where
  "resolve_effective_language conversation content workspace_id s =
     (case cv_pinned_language conversation of
        Some (c # cs) \<Rightarrow> Some (c # cs)
      | _ \<Rightarrow> (case detect_language (points content) of
                Some l \<Rightarrow> Some l
              | None \<Rightarrow> get_workspace_language workspace_id s))"

section \<open>History\<close>

definition message_cost :: "message_row \<Rightarrow> int" where
  "message_cost m = int (length (msg_content m)) + int (length (str_or (msg_tool_arguments_json m) []))"

fun most_recent :: "int \<Rightarrow> message_row list \<Rightarrow> int \<Rightarrow> message_row list \<Rightarrow> message_row list" where
  "most_recent max_chars selected chars [] = selected"
| "most_recent max_chars selected chars (m # ms) =
     (if selected \<noteq> [] \<and> chars + message_cost m > max_chars then selected
      else most_recent max_chars (m # selected) (chars + message_cost m) ms)"

definition plain_turn :: "chat_role \<Rightarrow> string \<Rightarrow> chat_turn" where
  "plain_turn role content =
     \<lparr>turn_role = role, turn_content = content, turn_tool_call_id = None, turn_tool_calls = None\<rparr>"

definition message_turn :: "message_row \<Rightarrow> chat_turn" where
  "message_turn m =
     (if msg_role m = M_TOOL
      then \<lparr>turn_role = Role_TOOL, turn_content = msg_content m, turn_tool_call_id = msg_tool_call_id m,
            turn_tool_calls = None\<rparr>
      else case (msg_role m, msg_tool_name m) of
        (M_ASSISTANT, Some name) \<Rightarrow>
          \<lparr>turn_role = Role_ASSISTANT, turn_content = [], turn_tool_call_id = None,
           turn_tool_calls = Some
             [\<lparr>call_id = str_or (msg_tool_call_id m) (uuid_str (msg_id m)), call_name = name,
               call_arguments_json = str_or (msg_tool_arguments_json m) ''{}''\<rparr>]\<rparr>
      | _ \<Rightarrow> plain_turn (if msg_role m = M_USER then Role_USER else Role_ASSISTANT) (msg_content m))"

definition messages_to_history :: "int \<Rightarrow> message_row list \<Rightarrow> chat_turn list" where
  "messages_to_history max_chars messages = map message_turn (most_recent max_chars [] 0 (rev messages))"

primrec max_output_tokens :: "usage_mode \<Rightarrow> ai_settings \<Rightarrow> int" where
  "max_output_tokens FAST settings = ai_max_output_tokens_fast settings"
| "max_output_tokens STANDARD settings = ai_max_output_tokens_standard settings"
| "max_output_tokens DEEP settings = ai_max_output_tokens_deep settings"

section \<open>A turn\<close>

datatype turn_chunk = Chunk_text string | Chunk_tool_status string | Chunk_done message_row

text \<open>What a turn knows from its start to its end.\<close>

record turn_env =
  te_adapters :: adapters
  te_tools :: tool_world
  te_settings :: ai_settings
  te_conversation :: conversation_row
  te_context :: workspace_context
  te_mode :: usage_mode
  te_trace_id :: uuid
  te_instructions :: string
  te_estimate_cents :: int
  te_close_at :: "nat option"

record turn =
  tn_chunks :: "turn_chunk list"
  tn_calls :: "(provider \<times> gateway_request) list"
  tn_history :: "chat_turn list"
  tn_usage :: gateway_usage
  tn_provider :: provider
  tn_model :: string
  tn_round :: nat
  tn_text :: string
  tn_tools :: "tool_call_request list"
  tn_finish :: string
  tn_db :: db

text \<open>\<open>yield\<close>: the consumer may close the generator while it is suspended at this item.\<close>

definition yield_chunk :: "turn_env \<Rightarrow> turn_chunk \<Rightarrow> turn \<Rightarrow> (app_error + unit) \<times> turn" where
  "yield_chunk env chunk t =
     (let t = t\<lparr>tn_chunks := tn_chunks t @ [chunk]\<rparr> in
      if te_close_at env = Some (length (tn_chunks t)) then raise (Unhandled ''GeneratorExit'') t else ok () t)"

definition add_usage :: "gateway_usage \<Rightarrow> gateway_usage \<Rightarrow> gateway_usage" where
  "add_usage a b =
     \<lparr>gu_input_tokens = gu_input_tokens a + gu_input_tokens b,
      gu_output_tokens = gu_output_tokens a + gu_output_tokens b,
      gu_cached_input_tokens = gu_cached_input_tokens a + gu_cached_input_tokens b\<rparr>"

definition handle_event :: "turn_env \<Rightarrow> gateway_event \<Rightarrow> turn \<Rightarrow> (app_error + unit) \<times> turn" where
  "handle_event env event t =
     (case event of
        TextDelta text \<Rightarrow> yield_chunk env (Chunk_text text) (t\<lparr>tn_text := tn_text t @ text\<rparr>)
      | ToolCallReady call \<Rightarrow> ok () (t\<lparr>tn_tools := tn_tools t @ [call]\<rparr>)
      | StructuredOutputReady data \<Rightarrow> ok () (t\<lparr>tn_text := json_dumps data\<rparr>)
      | Completed usage finish_reason \<Rightarrow>
          ok () (t\<lparr>tn_finish := finish_reason, tn_usage := add_usage (tn_usage t) usage\<rparr>)
      | GatewayErrorEvent e \<Rightarrow> ok () t)"

definition turn_request :: "turn_env \<Rightarrow> turn \<Rightarrow> gateway_request" where
  "turn_request env t =
     \<lparr>gr_model = tn_model t, gr_mode = te_mode env, gr_instructions = te_instructions env,
      gr_history = tn_history t, gr_tools = available_tool_specs (te_tools env),
      gr_max_output_tokens = max_output_tokens (te_mode env) (te_settings env)\<rparr>"

definition call_gateway :: "turn_env \<Rightarrow> turn \<Rightarrow> (app_error + unit) \<times> turn" where
  "call_gateway env t =
     (let request = turn_request env t;
          reply = get_gateway (te_adapters env) (tn_provider t) (te_settings env) (length (tn_calls t)) request;
          t = t\<lparr>tn_calls := tn_calls t @ [(tn_provider t, request)]\<rparr>
      in bind_err (each_err (handle_event env) (fst reply) t) (\<lambda>_ t.
         case snd reply of None \<Rightarrow> ok () t | Some (e, _) \<Rightarrow> raise e t))"

text \<open>A message being added: what its columns are beside the identifier, the time and the conversation.\<close>

definition add_message :: "conversation_row \<Rightarrow> message_row \<Rightarrow> db \<Rightarrow> message_row \<times> db" where
  "add_message conversation blank s =
     (let (new_id, created, s) = row_defaults s;
          message = blank\<lparr>msg_id := new_id, msg_created_at := created,
            msg_customer_id := cv_customer_id conversation, msg_conversation_id := cv_id conversation\<rparr>
      in (message, s\<lparr>conversation_messages := conversation_messages s @ [message]\<rparr>))"

definition user_message :: "string \<Rightarrow> message_row" where
  "user_message content =
     \<lparr>msg_id = 0, msg_created_at = 0, msg_customer_id = 0, msg_conversation_id = 0, msg_role = M_USER,
      msg_content = content, msg_tool_call_id = None, msg_tool_name = None, msg_tool_arguments_json = None,
      msg_provider = None, msg_model = None, msg_finish_reason = None\<rparr>"

definition assistant_message :: "turn \<Rightarrow> string \<Rightarrow> string \<Rightarrow> message_row" where
  "assistant_message t content finish_reason =
     (user_message content)\<lparr>msg_role := M_ASSISTANT, msg_provider := Some (provider_value (tn_provider t)),
        msg_model := Some (tn_model t), msg_finish_reason := Some finish_reason\<rparr>"

definition tool_call_message :: "turn \<Rightarrow> tool_call_request \<Rightarrow> message_row" where
  "tool_call_message t call =
     (assistant_message t (tn_text t) ''tool_calls'')\<lparr>msg_tool_call_id := Some (call_id call),
        msg_tool_name := Some (call_name call), msg_tool_arguments_json := Some (call_arguments_json call)\<rparr>"

definition tool_result_message :: "tool_call_request \<Rightarrow> string \<Rightarrow> message_row" where
  "tool_result_message call result =
     (user_message result)\<lparr>msg_role := M_TOOL, msg_tool_call_id := Some (call_id call)\<rparr>"

definition say :: "turn_env \<Rightarrow> message_row \<Rightarrow> turn \<Rightarrow> message_row \<times> turn" where
  "say env blank t = (let (m, s) = add_message (te_conversation env) blank (tn_db t) in (m, t\<lparr>tn_db := s\<rparr>))"

definition record_tool_calls :: "turn_env \<Rightarrow> turn \<Rightarrow> turn" where
  "record_tool_calls env t =
     (fold (\<lambda>call t. snd (say env (tool_call_message t call) t)) (tn_tools t) t)
       \<lparr>tn_history := tn_history t @
         [\<lparr>turn_role = Role_ASSISTANT, turn_content = tn_text t, turn_tool_call_id = None,
           turn_tool_calls = Some (tn_tools t)\<rparr>]\<rparr>"

definition chat_key :: "turn_env \<Rightarrow> tool_call_request \<Rightarrow> string" where
  "chat_key env call = ''chat:'' @ uuid_str (cv_id (te_conversation env)) @ '':'' @ call_id call"

definition proposal_text :: "tool_call_request \<Rightarrow> action_row \<Rightarrow> string" where
  "proposal_text call action =
     ''Men ''  @ [CHR 0x27] @ call_name call @ [CHR 0x27] @ '' vositasini taklif qildim - holati: ''
       @ action_status_value (act_status action) @ ''. Bu amal inson tasdig'isiz bajarilmaydi.''"

definition propose_call :: "turn_env \<Rightarrow> tool_call_request \<Rightarrow> turn \<Rightarrow> (app_error + message_row) \<times> turn" where
  "propose_call env call t =
     (case propose_write_tool_action (te_tools env) (call_name call) (call_arguments_json call)
             (te_context env) (te_trace_id env) (chat_key env call) (tn_db t) of
        (Inl e, s) \<Rightarrow> raise e (t\<lparr>tn_db := s\<rparr>)
      | (Inr (action, _), s) \<Rightarrow>
          let status_text = proposal_text call action;
              (m, t) = say env (assistant_message t status_text ''tool_calls'') (t\<lparr>tn_db := s\<rparr>)
          in bind_err (yield_chunk env (Chunk_tool_status status_text) t) (\<lambda>_ t. ok m t))"

definition answer_read_call :: "turn_env \<Rightarrow> tool_call_request \<Rightarrow> turn \<Rightarrow> turn" where
  "answer_read_call env call t =
     (let result = (case dispatch_read_tool (te_tools env) (call_name call) (call_arguments_json call)
                           (wc_workspace_id (te_context env)) (tn_db t) of
                      Inl e \<Rightarrow> ''Tool error: '' @ tw_exc_text (te_tools env) e
                    | Inr text \<Rightarrow> text)
      in (snd (say env (tool_result_message call result) t))
           \<lparr>tn_history := tn_history t @
             [\<lparr>turn_role = Role_TOOL, turn_content = result, turn_tool_call_id = Some (call_id call),
               turn_tool_calls = None\<rparr>]\<rparr>)"

text \<open>One round: the final message of the turn, if this round ends it.\<close>

definition run_round :: "turn_env \<Rightarrow> turn \<Rightarrow> (app_error + message_row option) \<times> turn" where
  "run_round env t =
     bind_err (call_gateway env (t\<lparr>tn_text := [], tn_tools := [], tn_finish := ''stop''\<rparr>)) (\<lambda>_ t.
       if tn_tools t = [] then
         let (m, t) = say env (assistant_message t (tn_text t) (tn_finish t)) t in ok (Some m) t
       else
         let t = record_tool_calls env t in
         case filter (\<lambda>c. is_write_tool (call_name c)) (tn_tools t) of
           call # _ \<Rightarrow> bind_err (propose_call env call t) (\<lambda>m t. ok (Some m) t)
         | [] \<Rightarrow>
             ok None (fold (answer_read_call env) (filter (\<lambda>c. is_read_tool (call_name c)) (tn_tools t)) t))"

definition exhausted_text :: string where
  "exhausted_text = ''Juda ko'p vosita chaqiruvidan so'ng yakuniy javob topilmadi.''"

fun run_rounds :: "nat \<Rightarrow> turn_env \<Rightarrow> turn \<Rightarrow> (app_error + message_row) \<times> turn" where
  "run_rounds 0 env t =
     (let (m, t) = say env (assistant_message t exhausted_text ''length'') t in ok m t)"
| "run_rounds (Suc n) env t =
     bind_err (run_round env t) (\<lambda>r t.
       case r of Some m \<Rightarrow> ok m t | None \<Rightarrow> run_rounds n env (t\<lparr>tn_round := Suc (tn_round t)\<rparr>))"

definition is_transient :: "app_error \<Rightarrow> bool" where
  "is_transient e \<longleftrightarrow>
     (case e of ModelTimeoutError \<Rightarrow> True | ModelRateLimitedError _ \<Rightarrow> True | ModelProviderError _ \<Rightarrow> True | _ \<Rightarrow> False)"

definition may_fall_back :: "turn_env \<Rightarrow> bool \<Rightarrow> app_error \<Rightarrow> turn \<Rightarrow> provider option" where
  "may_fall_back env attempted e t =
     (let customer_id = wc_customer_id (te_context env) in
      if \<not> is_transient e \<or> attempted \<or> tn_round t \<noteq> 0 \<or> tn_text t \<noteq> [] \<or> tn_tools t \<noteq> [] then None
      else if \<not> is_fallback_enabled_for_customer customer_id (tn_db t) then None
      else pick_fallback_provider customer_id (tn_provider t) (te_settings env) (tn_db t))"

function turn_loop :: "bool \<Rightarrow> turn_env \<Rightarrow> turn \<Rightarrow> (app_error + message_row) \<times> turn" where
  "turn_loop attempted env t =
     (case run_rounds (nat (ai_max_tool_rounds (te_settings env))) env (t\<lparr>tn_round := 0\<rparr>) of
        (Inr m, t) \<Rightarrow> ok m t
      | (Inl e, t) \<Rightarrow>
          (case may_fall_back env attempted e t of
             None \<Rightarrow> raise e t
           | Some p \<Rightarrow>
               turn_loop True env (t\<lparr>tn_provider := p, tn_model := default_model_for p (te_settings env)\<rparr>)))"
  by pat_completeness auto
termination
  by (relation "measure (\<lambda>(attempted, _). if attempted then 0 else 1)")
    (auto simp: may_fall_back_def Let_def split: if_splits)

declare turn_loop.simps [simp del]

definition reconcile_and_record :: "turn_env \<Rightarrow> usage_event_status \<Rightarrow> turn \<Rightarrow> (app_error + unit) \<times> turn" where
  "reconcile_and_record env status t =
     (case estimate_cost_cents (tn_provider t) (tn_model t) (gu_input_tokens (tn_usage t))
             (gu_output_tokens (tn_usage t)) of
        Inl e \<Rightarrow> raise e t
      | Inr actual_cost_cents \<Rightarrow>
          let ctx = te_context env;
              s = reconcile_budget (wc_customer_id ctx) (te_estimate_cents env) actual_cost_cents (tn_db t)
          in ok () (t\<lparr>tn_db := snd (record_usage_event (wc_customer_id ctx) (wc_workspace_id ctx)
                  (Some (cv_id (te_conversation env))) (te_trace_id env) (user_actor (wc_user_id ctx))
                  (tn_provider t) (tn_model t) (te_mode env) (tn_usage t) (te_estimate_cents env)
                  actual_cost_cents status s)\<rparr>))"

definition finish_turn :: "turn_env \<Rightarrow> turn \<Rightarrow> (app_error + unit) \<times> turn" where
  "finish_turn env t =
     (case turn_loop False env t of
        (Inl e, t) \<Rightarrow> bind_err (reconcile_and_record env U_REFUNDED t) (\<lambda>_ t. raise e t)
      | (Inr m, t) \<Rightarrow>
          bind_err (reconcile_and_record env U_RECONCILED t) (\<lambda>_ t.
            ok () (t\<lparr>tn_chunks := tn_chunks t @ [Chunk_done m]\<rparr>)))"

section \<open>The start of a turn\<close>

definition estimate_turn_cents :: "ai_settings \<Rightarrow> usage_mode \<Rightarrow> provider_choice \<Rightarrow> chat_turn list \<Rightarrow> app_error + int" where
  "estimate_turn_cents settings mode choice history =
     (case estimate_cost_cents (fst choice) (snd choice)
             (estimate_input_tokens_from_chars (sum_list (map (\<lambda>t. length (turn_content t)) history)))
             (max_output_tokens mode settings) of
        Inl e \<Rightarrow> Inl e
      | Inr per_round \<Rightarrow>
          let total = per_round * ai_max_tool_rounds settings in
          if mode = DEEP \<and> total > py_round (ai_deep_request_cost_ceiling_usd settings * 100)
          then Inl DeepRequestCostCeilingExceededError else Inr total)"

definition from_sum :: "('e + 'a) \<Rightarrow> 's \<Rightarrow> ('e + 'a) \<times> 's" where
  "from_sum r s = (r, s)"

record turn_start =
  st_instructions :: string
  st_choice :: provider_choice
  st_history :: "chat_turn list"
  st_estimate :: int

definition begin_turn ::
  "tool_world \<Rightarrow> ai_settings \<Rightarrow> conversation_row \<Rightarrow> workspace_context \<Rightarrow> string \<Rightarrow> usage_mode \<Rightarrow> db
     \<Rightarrow> (app_error + turn_start) \<times> db" where
  "begin_turn world settings conversation context content mode s =
     bind_err (require (map_option OutboundContentBlockedError (detect_likely_secret content)) s) (\<lambda>_ s.
     let s = snd (add_message conversation (user_message content) s);
         language = resolve_effective_language conversation content (wc_workspace_id context) s
     in bind_err (from_sum (response_language_instruction language) s) (\<lambda>instructions s.
     bind_err (from_sum (resolve_provider_choice settings conversation (wc_customer_id context)
                 (wc_user_id context) (wc_workspace_id context) s) s) (\<lambda>choice s.
     bind_err (require (assert_provider_enabled (wc_customer_id context) (fst choice) s) s) (\<lambda>_ s.
     bind_err (require (assert_supports_tools (fst choice) (map ts_name (available_tool_specs world))) s) (\<lambda>_ s.
     bind_err (from_sum (list_messages (cv_id conversation) 200 s) s) (\<lambda>messages s.
     let history = messages_to_history (ai_max_context_chars settings) messages in
     bind_err (from_sum (estimate_turn_cents settings mode choice history) s) (\<lambda>estimate s.
     bind_err (reserve_budget settings (wc_customer_id context) estimate s) (\<lambda>_ s.
     ok \<lparr>st_instructions = instructions, st_choice = choice, st_history = history, st_estimate = estimate\<rparr> s))))))))"

text \<open>The whole generator: what it yielded, whom it asked what, how it ended, and the database.\<close>

record stream =
  sm_chunks :: "turn_chunk list"
  sm_calls :: "(provider \<times> gateway_request) list"
  sm_error :: "app_error option"
  sm_db :: db

definition turn_of :: "turn_start \<Rightarrow> db \<Rightarrow> turn" where
  "turn_of start s =
     \<lparr>tn_chunks = [], tn_calls = [], tn_history = st_history start,
      tn_usage = \<lparr>gu_input_tokens = 0, gu_output_tokens = 0, gu_cached_input_tokens = 0\<rparr>,
      tn_provider = fst (st_choice start), tn_model = snd (st_choice start), tn_round = 0, tn_text = [],
      tn_tools = [], tn_finish = ''stop'', tn_db = s\<rparr>"

definition stream_message ::
  "adapters \<Rightarrow> tool_world \<Rightarrow> ai_settings \<Rightarrow> nat option \<Rightarrow> conversation_row \<Rightarrow> workspace_context \<Rightarrow> string
     \<Rightarrow> usage_mode \<Rightarrow> uuid \<Rightarrow> db \<Rightarrow> stream" where
  "stream_message adapters world settings close_at conversation context content mode trace_id s =
     (case begin_turn world settings conversation context content mode s of
        (Inl e, s) \<Rightarrow> \<lparr>sm_chunks = [], sm_calls = [], sm_error = Some e, sm_db = s\<rparr>
      | (Inr start, s) \<Rightarrow>
          let env = \<lparr>te_adapters = adapters, te_tools = world, te_settings = settings,
                te_conversation = conversation, te_context = context, te_mode = mode, te_trace_id = trace_id,
                te_instructions = st_instructions start, te_estimate_cents = st_estimate start,
                te_close_at = close_at\<rparr>;
              (r, t) = finish_turn env (turn_of start s)
          in \<lparr>sm_chunks = tn_chunks t, sm_calls = tn_calls t,
              sm_error = (case r of Inl e \<Rightarrow> Some e | Inr _ \<Rightarrow> None), sm_db = tn_db t\<rparr>)"

section \<open>Every turn is a run of small steps\<close>

text \<open>
  What a turn can do to its state, whatever the adapters answer: change its local variables, yield,
  ask a model, store a message, propose an action, or switch to the fallback provider.
\<close>

inductive turn_step :: "turn_env \<Rightarrow> turn \<Rightarrow> turn \<Rightarrow> bool" for env where
  local_change: "tn_db t' = tn_db t \<Longrightarrow> tn_provider t' = tn_provider t \<Longrightarrow> tn_model t' = tn_model t
     \<Longrightarrow> tn_calls t' = tn_calls t \<Longrightarrow> turn_step env t t'"
| ask: "turn_step env t (t\<lparr>tn_calls := tn_calls t @ [(tn_provider t, turn_request env t)]\<rparr>)"
| store: "turn_step env t (snd (say env m t))"
| propose: "(r, s) = propose_write_tool_action (te_tools env) (call_name call) (call_arguments_json call)
       (te_context env) (te_trace_id env) (chat_key env call) (tn_db t)
     \<Longrightarrow> turn_step env t (t\<lparr>tn_db := s\<rparr>)"
| switch: "is_fallback_enabled_for_customer (wc_customer_id (te_context env)) (tn_db t)
     \<Longrightarrow> pick_fallback_provider (wc_customer_id (te_context env)) (tn_provider t) (te_settings env) (tn_db t) = Some p
     \<Longrightarrow> turn_step env t (t\<lparr>tn_provider := p, tn_model := default_model_for p (te_settings env)\<rparr>)"

abbreviation turn_run :: "turn_env \<Rightarrow> turn \<Rightarrow> turn \<Rightarrow> bool" where
  "turn_run env \<equiv> (turn_step env)\<^sup>*\<^sup>*"

lemma run_local [intro]:
  "tn_db t' = tn_db t \<Longrightarrow> tn_provider t' = tn_provider t \<Longrightarrow> tn_model t' = tn_model t
     \<Longrightarrow> tn_calls t' = tn_calls t \<Longrightarrow> turn_run env t t'"
  by (rule r_into_rtranclp, rule turn_step.local_change)

lemma run_trans [trans]: "turn_run env t u \<Longrightarrow> turn_run env u v \<Longrightarrow> turn_run env t v"
  by (rule rtranclp_trans)

lemma run_bind:
  assumes "turn_run env t (snd r)" "\<And>a u. r = (Inr a, u) \<Longrightarrow> turn_run env t u \<Longrightarrow> turn_run env u (snd (k a u))"
  shows "turn_run env t (snd (bind_err r k))"
proof (cases r)
  case (Pair x u)
  with assms show ?thesis by (cases x) (auto intro: run_trans)
qed

lemma run_fold:
  assumes "\<And>x u. turn_run env u (f x u)"
  shows "turn_run env t (fold f xs t)"
  by (induction xs arbitrary: t) (auto intro: run_trans assms)

lemma yield_chunk_run: "turn_run env t (snd (yield_chunk env c t))"
  by (auto simp: yield_chunk_def Let_def)

lemma handle_event_run: "turn_run env t (snd (handle_event env e t))"
proof (cases e)
  case (TextDelta x1)
  have "turn_run env t (t\<lparr>tn_text := tn_text t @ x1\<rparr>)" by (rule run_local) simp_all
  from run_trans [OF this yield_chunk_run] TextDelta show ?thesis by (simp add: handle_event_def)
qed (auto simp: handle_event_def)

lemma each_event_run: "turn_run env t (snd (each_err (handle_event env) es t))"
proof (induction es arbitrary: t)
  case (Cons e es)
  show ?case
    by (simp only: each_err.simps) (intro run_bind handle_event_run Cons.IH, simp)
qed simp

lemma call_gateway_run: "turn_run env t (snd (call_gateway env t))"
proof -
  let ?t = "t\<lparr>tn_calls := tn_calls t @ [(tn_provider t, turn_request env t)]\<rparr>"
  have "turn_run env t ?t" by (rule r_into_rtranclp, rule turn_step.ask)
  also have "turn_run env ?t (snd (call_gateway env t))"
    unfolding call_gateway_def Let_def
    by (intro run_bind each_event_run) (auto split: option.splits)
  finally show ?thesis .
qed

lemma say_run: "turn_run env t (snd (say env m t))"
  by (rule r_into_rtranclp, rule turn_step.store)

lemma record_tool_calls_run: "turn_run env t (record_tool_calls env t)"
  unfolding record_tool_calls_def
  by (rule run_trans [OF run_fold [where f = "\<lambda>call t. snd (say env (tool_call_message t call) t)"]])
    (auto intro: say_run)

lemma answer_read_call_run: "turn_run env t (answer_read_call env c t)"
  unfolding answer_read_call_def Let_def by (rule run_trans [OF say_run]) auto

lemma propose_call_run: "turn_run env t (snd (propose_call env c t))"
proof -
  obtain r s where rs: "propose_write_tool_action (te_tools env) (call_name c) (call_arguments_json c)
      (te_context env) (te_trace_id env) (chat_key env c) (tn_db t) = (r, s)" by fastforce
  have p: "turn_run env t (t\<lparr>tn_db := s\<rparr>)"
    by (rule r_into_rtranclp, rule turn_step.propose [OF rs [symmetric]])
  show ?thesis
  proof (cases r)
    case (Inl e)
    with p rs show ?thesis by (simp add: propose_call_def)
  next
    case (Inr ab)
    obtain a b where ab: "ab = (a, b)" by fastforce
    obtain m u where mu: "say env (assistant_message t (proposal_text c a) ''tool_calls'') (t\<lparr>tn_db := s\<rparr>) = (m, u)"
      by fastforce
    have "turn_run env (t\<lparr>tn_db := s\<rparr>) u" using say_run mu by (metis snd_conv)
    then have "turn_run env t (snd (bind_err (yield_chunk env (Chunk_tool_status (proposal_text c a)) u) (\<lambda>_ t. ok m t)))"
      by (rule run_trans [OF run_trans [OF p]]) (rule run_bind [OF yield_chunk_run], simp)
    with rs Inr ab mu show ?thesis by (simp add: propose_call_def)
  qed
qed

lemma run_round_run: "turn_run env t (snd (run_round env t))"
proof -
  have final: "turn_run env u (snd (case say env m u of (m, t) \<Rightarrow> ok (Some m) t))" for u m
    using say_run [of env u m] by (simp add: split_beta)
  have calls: "turn_run env u (snd (case ws of
        call # _ \<Rightarrow> bind_err (propose_call env call (record_tool_calls env u)) (\<lambda>m t. ok (Some m) t)
      | [] \<Rightarrow> ok None (fold (answer_read_call env) rs (record_tool_calls env u))))" for u ws rs
  proof (cases ws)
    case Nil
    have "turn_run env u (fold (answer_read_call env) rs (record_tool_calls env u))"
      by (rule run_trans [OF record_tool_calls_run run_fold [OF answer_read_call_run]])
    with Nil show ?thesis by simp
  next
    case (Cons w ws')
    have "turn_run env (record_tool_calls env u) (snd (bind_err (propose_call env w (record_tool_calls env u)) (\<lambda>m t. ok (Some m) t)))"
      by (rule run_bind [OF propose_call_run]) simp
    with Cons show ?thesis by (simp add: run_trans [OF record_tool_calls_run])
  qed
  have "turn_run env t (t\<lparr>tn_text := [], tn_tools := [], tn_finish := ''stop''\<rparr>)" by (rule run_local) simp_all
  then show ?thesis
    unfolding run_round_def Let_def
    by (rule run_trans) (rule run_bind [OF call_gateway_run], simp add: final calls)
qed

lemma run_rounds_run: "turn_run env t (snd (run_rounds n env t))"
proof (induction n arbitrary: t)
  case 0
  then show ?case using say_run [of env t] by (simp add: split_beta)
next
  case (Suc n)
  have "turn_run env u (snd (run_rounds n env (u\<lparr>tn_round := Suc (tn_round u)\<rparr>)))" for u
    by (rule run_trans [OF run_local Suc.IH]) simp_all
  then show ?case by (auto intro!: run_bind run_round_run split: option.splits)
qed

lemma may_fall_back_SomeD:
  "may_fall_back env attempted e t = Some p \<Longrightarrow> \<not> attempted \<and> tn_round t = 0
     \<and> is_fallback_enabled_for_customer (wc_customer_id (te_context env)) (tn_db t)
     \<and> pick_fallback_provider (wc_customer_id (te_context env)) (tn_provider t) (te_settings env) (tn_db t) = Some p"
  by (auto simp: may_fall_back_def Let_def split: if_splits)

lemma turn_loop_run: "turn_run env t (snd (turn_loop attempted env t))"
proof (induction attempted env t rule: turn_loop.induct)
  case (1 attempted env t)
  obtain r u where ru: "run_rounds (nat (ai_max_tool_rounds (te_settings env))) env (t\<lparr>tn_round := 0\<rparr>) = (r, u)"
    by fastforce
  have start: "turn_run env t (t\<lparr>tn_round := 0\<rparr>)" by (rule run_local) simp_all
  have u: "turn_run env t u" using run_trans [OF start run_rounds_run] ru by (metis snd_conv)
  show ?case
  proof (cases r)
    case (Inr m)
    with u ru show ?thesis by (simp add: turn_loop.simps [of attempted])
  next
    case (Inl e)
    show ?thesis
    proof (cases "may_fall_back env attempted e u")
      case None
      with u ru Inl show ?thesis by (simp add: turn_loop.simps [of attempted])
    next
      case (Some p)
      let ?u = "u\<lparr>tn_provider := p, tn_model := default_model_for p (te_settings env)\<rparr>"
      have "turn_run env u ?u"
        by (rule r_into_rtranclp, rule turn_step.switch) (use may_fall_back_SomeD [OF Some] in simp_all)
      with u "1.IH" [OF ru [symmetric] Inl Some] ru Inl Some show ?thesis
        by (simp add: turn_loop.simps [of attempted])
    qed
  qed
qed


section \<open>What a turn leaves alone\<close>

definition chat_kept :: "db \<Rightarrow> db \<Rightarrow> bool" where
  "chat_kept s t \<longleftrightarrow> ai_usage_events t = ai_usage_events s \<and> ai_budget_ledgers t = ai_budget_ledgers s
     \<and> ai_customer_provider_settings t = ai_customer_provider_settings s
     \<and> ai_customer_fallback_settings t = ai_customer_fallback_settings s
     \<and> clock t = clock s \<and> ticks s \<le> ticks t"

lemma chat_kept_refl [simp]: "chat_kept s s"
  by (simp add: chat_kept_def)

lemma chat_kept_trans: "chat_kept s t \<Longrightarrow> chat_kept t u \<Longrightarrow> chat_kept s u"
  by (simp add: chat_kept_def)

text \<open>A proposal leaves the messages alone too.\<close>

definition proposal_kept :: "db \<Rightarrow> db \<Rightarrow> bool" where
  "proposal_kept s t \<longleftrightarrow> chat_kept s t \<and> conversation_messages t = conversation_messages s"

lemmas proposal_kept_defs = proposal_kept_def chat_kept_def

lemma proposal_kept_refl [simp]: "proposal_kept s s"
  by (simp add: proposal_kept_def)

lemma proposal_kept_trans: "proposal_kept s t \<Longrightarrow> proposal_kept t u \<Longrightarrow> proposal_kept s u"
  by (simp add: proposal_kept_defs)

lemma proposal_kept_bind:
  assumes "proposal_kept s (snd r)" "\<And>a u. r = (Inr a, u) \<Longrightarrow> proposal_kept u (snd (k a u))"
  shows "proposal_kept s (snd (bind_err r k))"
proof (cases r)
  case (Pair x u)
  with assms show ?thesis by (cases x) (auto intro: proposal_kept_trans)
qed

lemma proposal_kept_notify_transition: "proposal_kept s (notify_transition a target s)"
  by (auto simp: proposal_kept_defs notify_transition_def effect)

lemma proposal_kept_log: "proposal_kept s (log_event c t a ty w m s)"
  by (simp add: proposal_kept_defs effect)

lemma proposal_kept_transition: "proposal_kept s (snd (apply_transition a target who receipt s))"
proof (cases "apply_transition a target who receipt s")
  case (Pair r t)
  show ?thesis
  proof (cases r)
    case (Inl e)
    with Pair show ?thesis
      by (auto simp: apply_transition_def Let_def proposal_kept_log split: if_splits sum.splits)
  next
    case (Inr b)
    have kept: "proposal_kept s (s\<lparr>action_actions := x\<rparr>)" for x by (simp add: proposal_kept_defs)
    obtain x d where "t = notify_transition b target (log_event (act_customer_id b) (act_trace_id b) who
        (transition_event target) (Some (act_workspace_id b)) d (s\<lparr>action_actions := x\<rparr>))"
      using Pair Inr by (auto simp: apply_transition_ok_iff)
    then have "proposal_kept s t"
      by (metis proposal_kept_trans kept proposal_kept_log proposal_kept_notify_transition)
    with Pair show ?thesis by simp
  qed
qed

lemma proposal_kept_submit: "proposal_kept s (snd (submit_action_for_execution a who s))"
proof -
  have ready: "proposal_kept u (enqueue_ready b e u)" for b e u
    by (simp add: proposal_kept_defs enqueue_ready_def enqueue_outbox_message_def row_defaults_def Let_def)
  have approval: "proposal_kept u (snd (request_approval b u))" for b u
    by (simp add: proposal_kept_defs request_approval_def token_urlsafe_def utcnow_def row_defaults_def Let_def)
  show ?thesis
    unfolding submit_action_for_execution_def validate_action_def
    by (auto intro!: proposal_kept_bind proposal_kept_transition ready approval)
qed

lemma proposal_kept_propose: "proposal_kept s (snd (propose_action c w tr who tool risk payload key task s))"
  by (auto simp: propose_action_def Let_def row_defaults_def split: option.splits
      intro!: proposal_kept_trans [OF _ proposal_kept_log]) (auto simp: proposal_kept_defs)

lemma proposal_kept_write_tool: "proposal_kept s (snd (propose_write_tool_action world name args ctx trace key s))"
  unfolding propose_write_tool_action_def Let_def
  by (intro proposal_kept_bind)
    (auto simp: require_def split: option.splits
       intro!: proposal_kept_bind proposal_kept_propose proposal_kept_submit)

lemma chat_kept_add_message [simp]: "chat_kept s (snd (add_message conversation m s))"
  by (simp add: add_message_def row_defaults_def Let_def chat_kept_def)

lemma say_db [simp]:
  "tn_db (snd (say env m t)) = snd (add_message (te_conversation env) m (tn_db t))"
  "tn_provider (snd (say env m t)) = tn_provider t" "tn_model (snd (say env m t)) = tn_model t"
  "tn_calls (snd (say env m t)) = tn_calls t" "tn_round (snd (say env m t)) = tn_round t"
  "tn_tools (snd (say env m t)) = tn_tools t" "tn_usage (snd (say env m t)) = tn_usage t"
  by (simp_all add: say_def split_beta)

lemma turn_run_kept: "turn_run env t u \<Longrightarrow> chat_kept (tn_db t) (tn_db u)"
proof (induction rule: rtranclp_induct)
  case (step u v)
  have "chat_kept (tn_db u) (tn_db v)"
    using step(2)
  proof cases
    case (propose r s call)
    then show ?thesis by (simp, metis proposal_kept_write_tool proposal_kept_def snd_conv)
  qed simp_all
  with step(3) show ?case by (rule chat_kept_trans)
qed simp

lemma enabled_kept:
  "chat_kept s t \<Longrightarrow> is_provider_enabled_for_customer c p t = is_provider_enabled_for_customer c p s"
  "chat_kept s t \<Longrightarrow> is_fallback_enabled_for_customer c t = is_fallback_enabled_for_customer c s"
  by (simp_all add: chat_kept_def is_provider_enabled_for_customer_def is_fallback_enabled_for_customer_def)

section \<open>Whom a turn asks\<close>

text \<open>
  The provider a turn is at, and those it has asked, are enabled; one it fell back to is configured,
  and the customer allows to fall back.
\<close>

definition allowed_providers :: "turn_env \<Rightarrow> provider \<Rightarrow> turn \<Rightarrow> bool" where
  "allowed_providers env first t \<longleftrightarrow>
     (\<forall>p \<in> insert (tn_provider t) (fst ` set (tn_calls t)).
        is_provider_enabled_for_customer (wc_customer_id (te_context env)) p (tn_db t)
        \<and> (p = first \<or> is_provider_configured p (te_settings env)
             \<and> is_fallback_enabled_for_customer (wc_customer_id (te_context env)) (tn_db t)))"

lemma allowed_providers_run:
  assumes "turn_run env t u" "allowed_providers env first t"
  shows "allowed_providers env first u"
  using assms
proof (induction rule: rtranclp_induct)
  case (step u v)
  note kept = enabled_kept [OF turn_run_kept [OF r_into_rtranclp [of "turn_step env", OF step(2)]]]
  have "allowed_providers env first u" by (rule step.IH [OF step.prems])
  with step(2) show ?case
    unfolding allowed_providers_def kept
    by cases (auto dest: pick_fallback_SomeD)
qed

section \<open>How often a turn asks\<close>

definition quiet :: "turn \<Rightarrow> turn \<Rightarrow> bool" where
  "quiet t u \<longleftrightarrow> tn_calls u = tn_calls t \<and> tn_round u = tn_round t"

lemma quiet_refl [simp]: "quiet t t"
  by (simp add: quiet_def)

lemma quiet_trans: "quiet t u \<Longrightarrow> quiet u v \<Longrightarrow> quiet t v"
  by (simp add: quiet_def)

lemma quiet_bind:
  assumes "quiet t (snd r)" "\<And>a u. r = (Inr a, u) \<Longrightarrow> quiet u (snd (k a u))"
  shows "quiet t (snd (bind_err r k))"
proof (cases r)
  case (Pair x u)
  with assms show ?thesis by (cases x) (auto intro: quiet_trans)
qed

lemma quiet_fold: "(\<And>x u. quiet u (f x u)) \<Longrightarrow> quiet t (fold f xs t)"
  by (induction xs arbitrary: t) (auto intro: quiet_trans)

lemma yield_chunk_quiet: "quiet t (snd (yield_chunk env c t))"
  by (simp add: yield_chunk_def Let_def quiet_def)

lemma handle_event_quiet: "quiet t (snd (handle_event env e t))"
proof (cases e)
  case (TextDelta x1)
  then show ?thesis by (auto simp: handle_event_def quiet_def yield_chunk_def Let_def)
qed (auto simp: handle_event_def quiet_def)

lemma each_event_quiet: "quiet t (snd (each_err (handle_event env) es t))"
proof (induction es arbitrary: t)
  case (Cons e es)
  show ?case by (simp only: each_err.simps) (intro quiet_bind handle_event_quiet Cons.IH, simp)
qed simp

lemma call_gateway_calls:
  "length (tn_calls (snd (call_gateway env t))) = Suc (length (tn_calls t)) \<and> tn_round (snd (call_gateway env t)) = tn_round t"
proof -
  let ?t = "t\<lparr>tn_calls := tn_calls t @ [(tn_provider t, turn_request env t)]\<rparr>"
  have "quiet ?t (snd (call_gateway env t))"
    unfolding call_gateway_def Let_def
    by (intro quiet_bind each_event_quiet) (auto split: option.splits)
  then show ?thesis by (simp add: quiet_def)
qed

lemma propose_call_quiet: "quiet t (snd (propose_call env c t))"
  by (auto simp: propose_call_def quiet_def yield_chunk_def Let_def split_beta split: prod.splits sum.splits)

lemma record_tool_calls_quiet: "quiet t (record_tool_calls env t)"
proof -
  have "quiet t (fold (\<lambda>call t. snd (say env (tool_call_message t call) t)) (tn_tools t) t)"
    by (rule quiet_fold) (simp add: quiet_def)
  then show ?thesis by (simp add: record_tool_calls_def quiet_def)
qed

lemma answer_read_call_quiet: "quiet t (answer_read_call env c t)"
  by (simp add: answer_read_call_def quiet_def Let_def)

lemma run_round_calls:
  "length (tn_calls (snd (run_round env t))) = Suc (length (tn_calls t)) \<and> tn_round (snd (run_round env t)) = tn_round t"
proof -
  let ?t = "t\<lparr>tn_text := [], tn_tools := [], tn_finish := ''stop''\<rparr>"
  have calls: "quiet u (snd (case ws of
        call # _ \<Rightarrow> bind_err (propose_call env call (record_tool_calls env u)) (\<lambda>m t. ok (Some m) t)
      | [] \<Rightarrow> ok None (fold (answer_read_call env) rs (record_tool_calls env u))))" for u ws rs
  proof (cases ws)
    case Nil
    then show ?thesis by (simp add: quiet_trans [OF record_tool_calls_quiet quiet_fold [OF answer_read_call_quiet]])
  next
    case (Cons w ws')
    have "quiet (record_tool_calls env u) (snd (bind_err (propose_call env w (record_tool_calls env u)) (\<lambda>m t. ok (Some m) t)))"
      by (rule quiet_bind [OF propose_call_quiet]) simp
    with Cons show ?thesis by (simp add: quiet_trans [OF record_tool_calls_quiet])
  qed
  have final: "quiet u (snd (case say env m u of (m, t) \<Rightarrow> ok (Some m) t))" for u m
    by (simp add: split_beta quiet_def)
  have "quiet (snd (call_gateway env ?t)) (snd (run_round env t))"
  proof (cases "call_gateway env ?t")
    case (Pair x u)
    with calls final show ?thesis unfolding run_round_def Let_def by (cases x) auto
  qed
  then show ?thesis using call_gateway_calls [of env ?t] by (simp add: quiet_def)
qed

lemma run_rounds_calls:
  "length (tn_calls (snd (run_rounds n env t))) \<le> length (tn_calls t) + n
   \<and> tn_round t \<le> tn_round (snd (run_rounds n env t))
   \<and> (fst (run_rounds n env t) = Inl e \<and> tn_round (snd (run_rounds n env t)) = tn_round t
        \<longrightarrow> length (tn_calls (snd (run_rounds n env t))) \<le> Suc (length (tn_calls t)))"
proof (induction n arbitrary: t)
  case 0
  show ?case by (simp add: split_beta)
next
  case (Suc n)
  obtain r u where ru: "run_round env t = (r, u)" by fastforce
  with run_round_calls [of env t]
  have u: "length (tn_calls u) = Suc (length (tn_calls t))" "tn_round u = tn_round t" by simp_all
  show ?case
  proof (cases r)
    case (Inl e')
    with ru u show ?thesis by simp
  next
    case (Inr m)
    show ?thesis
    proof (cases m)
      case None
      with Suc.IH [of "u\<lparr>tn_round := Suc (tn_round u)\<rparr>"] ru u Inr show ?thesis by auto
    next
      case (Some x)
      with ru u Inr show ?thesis by simp
    qed
  qed
qed

lemma turn_loop_calls:
  "length (tn_calls (snd (turn_loop attempted env t)))
     \<le> length (tn_calls t) + nat (ai_max_tool_rounds (te_settings env)) + (if attempted then 0 else 1)"
proof (induction attempted env t rule: turn_loop.induct)
  case (1 attempted env t)
  let ?n = "nat (ai_max_tool_rounds (te_settings env))"
  obtain r u where ru: "run_rounds ?n env (t\<lparr>tn_round := 0\<rparr>) = (r, u)" by fastforce
  show ?case
  proof (cases r)
    case (Inr m)
    with run_rounds_calls [of ?n env "t\<lparr>tn_round := 0\<rparr>"] ru show ?thesis
      by (auto simp: turn_loop.simps [of attempted])
  next
    case (Inl e)
    show ?thesis
    proof (cases "may_fall_back env attempted e u")
      case None
      with run_rounds_calls [of ?n env "t\<lparr>tn_round := 0\<rparr>" e] ru Inl show ?thesis
        by (auto simp: turn_loop.simps [of attempted])
    next
      case (Some p)
      with may_fall_back_SomeD [OF Some] run_rounds_calls [of ?n env "t\<lparr>tn_round := 0\<rparr>" e] ru Inl
      have "length (tn_calls u) \<le> Suc (length (tn_calls t))" "\<not> attempted" by auto
      with "1.IH" [OF ru [symmetric] Inl Some] ru Inl Some show ?thesis
        by (simp add: turn_loop.simps [of False env t])
    qed
  qed
qed


section \<open>The start and the end of a turn\<close>

lemma from_sum_ok [simp]: "from_sum r s = (Inr x, t) \<longleftrightarrow> r = Inr x \<and> t = s"
  by (auto simp: from_sum_def)

lemma require_Inr: "require c s = (Inr u, t) \<longleftrightarrow> c = None \<and> t = s"
  by simp

definition messages_of :: "uuid \<Rightarrow> db \<Rightarrow> message_row list" where
  "messages_of i s = filter (\<lambda>m. msg_conversation_id m = i) (conversation_messages s)"

lemma resolve_kept:
  "resolve_provider_choice settings conversation c u w (snd (add_message conversation' m s))
     = resolve_provider_choice settings conversation c u w s"
  by (simp add: resolve_provider_choice_def add_message_def row_defaults_def Let_def cong: option.case_cong)

text \<open>What is known of a turn that got past its start: \<open>s0\<close> holds the user's message, nothing reserved yet.\<close>

lemma begin_turn_ok:
  assumes "begin_turn world settings conversation context content mode s = (Inr start, s1)"
  defines "s0 \<equiv> snd (add_message conversation (user_message content) s)"
  shows "detect_likely_secret content = None"
    and "resolve_provider_choice settings conversation (wc_customer_id context) (wc_user_id context)
           (wc_workspace_id context) s0 = Inr (st_choice start)"
    and "is_provider_enabled_for_customer (wc_customer_id context) (fst (st_choice start)) s0"
    and "st_history start = messages_to_history (ai_max_context_chars settings)
           (take 200 (sort_key msg_created_at (messages_of (cv_id conversation) s0)))"
    and "estimate_turn_cents settings mode (st_choice start) (st_history start) = Inr (st_estimate start)"
    and "reserve_budget settings (wc_customer_id context) (st_estimate start) s0 = (Inr (), s1)"
  using assms(1)
  by (auto simp: begin_turn_def bind_err_ok_iff Let_def s0_def [symmetric] assert_provider_enabled_def list_messages_def
      messages_of_def split: if_splits)

lemma add_message_tables:
  "action_actions (snd (add_message c m s)) = action_actions s"
  "action_approvals (snd (add_message c m s)) = action_approvals s"
  "outbox_messages (snd (add_message c m s)) = outbox_messages s"
  "uuid_src (snd (add_message c m s)) = uuid_src s" "drawn s \<le> drawn (snd (add_message c m s))"
  by (simp_all add: add_message_def row_defaults_def Let_def)

lemma kept_bind:
  assumes "tables_kept s (snd r)" "\<And>a u. r = (Inr a, u) \<Longrightarrow> tables_kept u (snd (k a u))"
  shows "tables_kept s (snd (bind_err r k))"
proof (cases r)
  case (Pair x u)
  with assms show ?thesis by (cases x) (auto simp: tables_kept_def)
qed

lemma kept_refl [simp]: "tables_kept s s"
  by (simp add: tables_kept_def)

lemma kept_trans: "tables_kept s t \<Longrightarrow> tables_kept t u \<Longrightarrow> tables_kept s u"
  by (simp add: tables_kept_def)

lemma kept_reserve: "tables_kept s (snd (reserve_budget settings c est s))"
  by (auto simp: reserve_budget_def ledger_defs tables_kept_def split: option.splits)

lemma kept_reconcile: "tables_kept s (reconcile_budget c est cost s)"
  by (auto simp: reconcile_budget_eq tables_kept_def Let_def)

lemma kept_usage: "tables_kept s (snd (record_usage_event c w v tr a p m mode u est cost st s))"
  by (auto simp: record_usage_event_def row_defaults_def Let_def tables_kept_def)

lemma kept_from_sum [simp]: "tables_kept s (snd (from_sum r s))" "tables_kept s (snd (require c s))"
  by (simp_all add: from_sum_def require_def split: option.splits)

lemma kept_begin: "tables_kept s (snd (begin_turn world settings conversation context content mode s))"
proof -
  have say: "tables_kept u (snd (add_message conversation (user_message content) u))" for u
    by (simp add: tables_kept_def add_message_tables)
  show ?thesis
    unfolding begin_turn_def Let_def
    by (rule kept_bind, rule kept_from_sum, rule kept_trans [OF say], intro kept_bind kept_from_sum kept_reserve)
      (simp_all add: kept_reserve)
qed

lemma reconcile_and_record_ok:
  assumes "reconcile_and_record env status t = (Inr u, t')"
  shows "\<exists>cost. estimate_cost_cents (tn_provider t) (tn_model t) (gu_input_tokens (tn_usage t))
      (gu_output_tokens (tn_usage t)) = Inr cost
    \<and> tn_db t' = snd (record_usage_event (wc_customer_id (te_context env)) (wc_workspace_id (te_context env))
        (Some (cv_id (te_conversation env))) (te_trace_id env) (user_actor (wc_user_id (te_context env)))
        (tn_provider t) (tn_model t) (te_mode env) (tn_usage t) (te_estimate_cents env) cost status
        (reconcile_budget (wc_customer_id (te_context env)) (te_estimate_cents env) cost (tn_db t)))"
  using assms by (auto simp: reconcile_and_record_def Let_def split: sum.splits)

lemma reconcile_keeps:
  "tn_calls (snd (reconcile_and_record env status t)) = tn_calls t"
  "tn_chunks (snd (reconcile_and_record env status t)) = tn_chunks t"
  "tables_kept (tn_db t) (tn_db (snd (reconcile_and_record env status t)))"
  by (auto simp: reconcile_and_record_def Let_def split: sum.splits
      intro: kept_trans [OF kept_reconcile kept_usage])

lemma finish_turn_cases:
  assumes "turn_loop False env t = (r, u)"
  shows "tn_calls (snd (finish_turn env t)) = tn_calls u"
    and "tn_db (snd (finish_turn env t))
       = tn_db (snd (reconcile_and_record env (case r of Inl _ \<Rightarrow> U_REFUNDED | Inr _ \<Rightarrow> U_RECONCILED) u))"
proof -
  have calls: "tn_calls x = tn_calls u" if "reconcile_and_record env st u = (y, x)" for st x y
    using reconcile_keeps(1) [of env st u] that by simp
  show "tn_calls (snd (finish_turn env t)) = tn_calls u"
    by (auto simp: finish_turn_def assms bind_err_def calls split: sum.splits prod.splits)
  show "tn_db (snd (finish_turn env t))
       = tn_db (snd (reconcile_and_record env (case r of Inl _ \<Rightarrow> U_REFUNDED | Inr _ \<Rightarrow> U_RECONCILED) u))"
    by (auto simp: finish_turn_def assms bind_err_def split: sum.splits prod.splits)
qed

text \<open>The environment of a turn and the state in which its loop ends.\<close>

definition env_of ::
  "adapters \<Rightarrow> tool_world \<Rightarrow> ai_settings \<Rightarrow> nat option \<Rightarrow> conversation_row \<Rightarrow> workspace_context \<Rightarrow> usage_mode
     \<Rightarrow> uuid \<Rightarrow> turn_start \<Rightarrow> turn_env" where
  "env_of adapters world settings close_at conversation context mode trace_id start =
     \<lparr>te_adapters = adapters, te_tools = world, te_settings = settings,
      te_conversation = conversation, te_context = context, te_mode = mode, te_trace_id = trace_id,
      te_instructions = st_instructions start, te_estimate_cents = st_estimate start, te_close_at = close_at\<rparr>"

lemma env_of_sel [simp]:
  "te_settings (env_of a w st cl cv cx m tr sta) = st" "te_context (env_of a w st cl cv cx m tr sta) = cx"
  "te_conversation (env_of a w st cl cv cx m tr sta) = cv" "te_estimate_cents (env_of a w st cl cv cx m tr sta) = st_estimate sta"
  "te_tools (env_of a w st cl cv cx m tr sta) = w"
  by (simp_all add: env_of_def)

lemma stream_message_ok:
  assumes "begin_turn world settings conversation context content mode s = (Inr start, s1)"
    and "finish_turn (env_of adapters world settings close_at conversation context mode trace start)
           (turn_of start s1) = (r, t)"
  shows "stream_message adapters world settings close_at conversation context content mode trace s
     = \<lparr>sm_chunks = tn_chunks t, sm_calls = tn_calls t,
        sm_error = (case r of Inl e \<Rightarrow> Some e | Inr _ \<Rightarrow> None), sm_db = tn_db t\<rparr>"
  using assms by (simp add: stream_message_def env_of_def)

lemma stream_message_err:
  assumes "begin_turn world settings conversation context content mode s = (Inl e, s1)"
  shows "stream_message adapters world settings close_at conversation context content mode trace s
     = \<lparr>sm_chunks = [], sm_calls = [], sm_error = Some e, sm_db = s1\<rparr>"
  using assms by (simp add: stream_message_def)

section \<open>What a turn does to the actions\<close>

definition only_proposals :: "db \<Rightarrow> db \<Rightarrow> bool" where
  "only_proposals s t \<longleftrightarrow> outbox_messages t = outbox_messages s
     \<and> (\<exists>new asked. action_actions t = action_actions s @ new \<and> action_approvals t = action_approvals s @ asked
          \<and> list_all2 asks_for asked new
          \<and> (\<forall>a \<in> set new. act_tool_name a = telegram_tool \<and> act_status a = AWAITING_APPROVAL
               \<and> needs_approval (act_risk_level a)))"

lemma only_proposals_kept: "tables_kept s t \<Longrightarrow> only_proposals s t"
  by (simp add: tables_kept_def only_proposals_def)

lemma only_proposals_trans: "only_proposals s t \<Longrightarrow> only_proposals t u \<Longrightarrow> only_proposals s u"
  unfolding only_proposals_def
  by (elim conjE exE, intro conjI exI [of _ "_ @ _"]) (auto intro: list_all2_appendI)

lemma kept_step: "tables_kept s t \<Longrightarrow> action_step s t"
  by (rule action_step.elsewhere) (simp_all add: tables_kept_def)

lemma write_tool_step:
  assumes inv: "action_inv s" and auth: "authorize_propose_action ctx = None"
    and rt: "propose_write_tool_action world name args ctx trace key s = (r, t)"
  shows "action_step s t \<and> only_proposals s t"
proof (cases "validate_write_arguments world name args")
  case (Some e)
  then have "t = s" using rt by (simp add: propose_write_tool_action_def)
  then have "tables_kept s t" by simp
  then show ?thesis using kept_step only_proposals_kept by blast
next
  case None
  then have name: "write_tool_action_name name = Some telegram_tool"
    by (simp add: validate_write_arguments_def is_write_tool_def write_tool_action_name_def split: if_splits)
  let ?rc = "\<lparr>rc_workspace = ctx, rc_auth_strength = AAL1\<rparr>"
  let ?http = "propose_and_submit_action trace telegram_tool R0 (tw_json_loads world args) None key ?rc"
  have same: "snd (?http s) = t" and fst_same: "(\<exists>x. fst (?http s) = Inr x) \<longleftrightarrow> (\<exists>x. r = Inr x)"
    using rt None name auth
    by (auto simp: propose_write_tool_action_def propose_and_submit_action_def bind_err_def ok_def
        split: prod.splits sum.splits if_splits)
  show ?thesis
  proof (cases "\<exists>x. r = Inr x")
    case True
    then obtain x where "?http s = (Inr x, t)" using same fst_same by (metis prod.collapse)
    then have t: "t = snd (run_tx ?http s)" by (simp add: run_tx_def)
    show ?thesis
    proof
      show "action_step s t" by (rule action_step.propose [OF t])
      show "only_proposals s t"
      proof (rule propose_run [OF inv t])
        assume "tables_kept s t"
        then show ?thesis by (rule only_proposals_kept)
      next
        fix a b
        assume a: "act_tool_name a = telegram_tool" "act_risk_level a = enforce_minimum_risk_level telegram_tool R0"
          "action_actions t = action_actions s @ [b]"
          "if needs_approval (act_risk_level a)
           then b = a\<lparr>act_status := AWAITING_APPROVAL\<rparr> \<and> outbox_messages t = outbox_messages s
           else b = a\<lparr>act_status := READY\<rparr>
             \<and> (\<exists>m. outbox_messages t = outbox_messages s @ [m] \<and> announced m = (act_id a, ''action.ready.v1''))"
          "needs_approval (act_risk_level a) \<Longrightarrow> \<exists>q. action_approvals t = action_approvals s @ [q] \<and> asks_for q b"
        have risky: "needs_approval (act_risk_level a)"
          by (simp add: a(2), code_simp)
        with a(5) obtain q where "action_approvals t = action_approvals s @ [q]" "asks_for q b" by blast
        with a(1,3,4) risky show ?thesis
          by (auto simp: only_proposals_def intro!: exI [of _ "[b]"] exI [of _ "[q]"])
      qed
    qed
  next
    case False
    then obtain e where "r = Inl e" by (cases r) auto
    obtain q u where q: "propose_action (wc_customer_id ctx) (wc_workspace_id ctx) trace (user_actor (wc_user_id ctx))
        telegram_tool R0 (tw_json_loads world args) key None s = (q, u)" by fastforce
    have "t = s"
    proof (cases q)
      case (Inl e')
      with propose_action_err q have "u = s" by blast
      with Inl q rt None name show ?thesis by (simp add: propose_write_tool_action_def)
    next
      case (Inr ac)
      obtain a created where ac: "ac = (a, created)" by fastforce
      note P = propose_action_cases [OF q [unfolded Inr ac]]
      show ?thesis
      proof (cases created)
        case True
        then have a: "action_actions u = action_actions s @ [a]" "act_status a = DRAFT"
          "act_id a = uuid_src s (drawn s)" using P(1) by auto
        have "act_id a \<notin> act_id ` set (action_actions s)" using fresh_id [OF inv] a(3) by simp
        from submit_new [OF a(1) this a(2), of "user_actor (wc_user_id ctx)"] True q Inr ac rt None name False
        show ?thesis by (auto simp: propose_write_tool_action_def)
      next
        case False
        with q Inr ac rt None name \<open>\<not> (\<exists>x. r = Inr x)\<close> show ?thesis
          by (auto simp: propose_write_tool_action_def)
      qed
    qed
    then have "tables_kept s t" by simp
    then show ?thesis using kept_step only_proposals_kept by blast
  qed
qed

lemma use_chat_may_propose: "authorize_use_chat ctx = None \<Longrightarrow> authorize_propose_action ctx = None"
  by (auto simp: authorize_use_chat_def authorize_propose_action_def roles_that_may_propose_actions_def deny_def
      split: if_splits)

lemma turn_run_actions:
  assumes "turn_run env t u" "action_inv (tn_db t)" "authorize_use_chat (te_context env) = None"
  shows "action_step\<^sup>*\<^sup>* (tn_db t) (tn_db u) \<and> only_proposals (tn_db t) (tn_db u)"
  using assms(1)
proof (induction rule: rtranclp_induct)
  case base
  show ?case by (simp add: only_proposals_def)
next
  case (step u v)
  have inv: "action_inv (tn_db u)"
    by (rule action_run.steps_inv [OF conjunct1 [OF step.IH] assms(2)])
  have "action_step (tn_db u) (tn_db v) \<and> only_proposals (tn_db u) (tn_db v)"
    using step(2)
  proof cases
    case (propose r s call)
    then show ?thesis
      using write_tool_step [OF inv use_chat_may_propose [OF assms(3)] propose(2) [symmetric]] by simp
  qed (auto intro!: kept_step only_proposals_kept simp: tables_kept_def add_message_tables)
  with step.IH show ?case by (meson only_proposals_trans rtranclp.rtrancl_into_rtrancl)
qed


section \<open>What a turn costs\<close>

definition priced :: "provider \<Rightarrow> string \<Rightarrow> bool" where
  "priced p model \<longleftrightarrow> map_of (model_prices p) model \<noteq> None"

lemma priced_cost: "priced p model \<Longrightarrow> \<exists>c. estimate_cost_cents p model i oo = Inr c"
  by (auto simp: priced_def estimate_cost_cents_def)

lemma cost_priced: "estimate_cost_cents p model i oo = Inr c \<Longrightarrow> priced p model"
  by (auto simp: priced_def estimate_cost_cents_def split: option.splits)

lemma priced_run:
  assumes "turn_run env t u" "priced (tn_provider t) (tn_model t)"
    "\<And>p. priced p (default_model_for p (te_settings env))"
  shows "priced (tn_provider u) (tn_model u)"
  using assms(1)
proof (induction rule: rtranclp_induct)
  case (step u v)
  from step(2) step.IH show ?case by cases (simp_all add: assms(3))
qed (simp add: assms(2))

lemma ledger_of_kept: "chat_kept s t \<Longrightarrow> ledger_of key t = ledger_of key s"
  by (simp add: chat_kept_def ledger_of_def)

text \<open>A reservation and its reconciliation in one month: only what was spent remains.\<close>

lemma reserve_then_reconcile:
  assumes res: "reserve_budget settings c est s = (Inr (), s1)" and kept: "chat_kept s1 s2"
    and month: "month_of (clock s (ticks s)) = month" "month_of (clock s (ticks s2)) = month"
    and key: "key = (c, month_text month)" and pos: "0 \<le> bl_reserved_cents (ledger_of key s)"
  shows "ledger_of key (reconcile_budget c est cost s2)
     = (ledger_of key s)\<lparr>bl_actual_cents := bl_actual_cents (ledger_of key s) + cost\<rparr>"
proof -
  from res month(1) have l1: "ledger_of key s1 = (ledger_of key s)\<lparr>bl_reserved_cents := bl_reserved_cents (ledger_of key s) + est\<rparr>"
    and "clock s1 = clock s"
    by (auto simp: reserve_budget_iff Let_def key ledger_of_def)
  with kept have "clock s2 = clock s" by (simp add: chat_kept_def)
  with month(2) have "ledger_of key (reconcile_budget c est cost s2) =
     \<lparr>bl_reserved_cents = max 0 (bl_reserved_cents (ledger_of key s2) - est),
      bl_actual_cents = bl_actual_cents (ledger_of key s2) + cost\<rparr>"
    by (simp add: reconcile_budget_eq Let_def key ledger_of_def)
  with l1 pos ledger_of_kept [OF kept, of key] show ?thesis by simp
qed

lemma reconcile_budget_frame:
  "ai_usage_events (reconcile_budget c est cost s) = ai_usage_events s"
  "ticks (reconcile_budget c est cost s) = Suc (ticks s)"
  by (simp_all add: reconcile_budget_eq Let_def)

lemma usage_event_effect:
  "ai_usage_events (snd (record_usage_event c w v tr a p m mode u est cost st s))
     = ai_usage_events s @ [fst (record_usage_event c w v tr a p m mode u est cost st s)]"
  "ai_budget_ledgers (snd (record_usage_event c w v tr a p m mode u est cost st s)) = ai_budget_ledgers s"
  "ticks s \<le> ticks (snd (record_usage_event c w v tr a p m mode u est cost st s))"
  "event_cost (fst (record_usage_event c w v tr a p m mode u est cost st s)) = cost"
  "ue_status (fst (record_usage_event c w v tr a p m mode u est cost st s)) = st"
  "ue_customer_id (fst (record_usage_event c w v tr a p m mode u est cost st s)) = c"
  by (simp_all add: record_usage_event_def row_defaults_def Let_def event_cost_def)

lemma turn_end:
  assumes started: "begin_turn world settings conversation context content mode s = (Inr start, s1)"
    and prices: "\<And>p. priced p (default_model_for p settings)"
    and strm: "strm = stream_message adapters world settings close_at conversation context content mode trace s"
  defines "c \<equiv> wc_customer_id context"
  obtains u cost made where "chat_kept s1 u"
    "made = record_usage_event c (wc_workspace_id context) (Some (cv_id conversation)) trace
        (user_actor (wc_user_id context)) (ue_provider (fst made)) (ue_model (fst made)) mode
        \<lparr>gu_input_tokens = ue_input_tokens (fst made), gu_output_tokens = ue_output_tokens (fst made),
         gu_cached_input_tokens = ue_cached_input_tokens (fst made)\<rparr> (st_estimate start) cost
        (if sm_error strm = None then U_RECONCILED else U_REFUNDED)
        (reconcile_budget c (st_estimate start) cost u)"
    "sm_db strm = snd made"
proof -
  let ?env = "env_of adapters world settings close_at conversation context mode trace start"
  obtain y u where tl: "turn_loop False ?env (turn_of start s1) = (y, u)" by fastforce
  let ?status = "case y of Inl _ \<Rightarrow> U_REFUNDED | Inr _ \<Rightarrow> U_RECONCILED"
  note B = begin_turn_ok [OF started]
  have run: "turn_run ?env (turn_of start s1) u" using turn_loop_run [of ?env "turn_of start s1" False] tl by simp
  from turn_run_kept [OF run] have kept: "chat_kept s1 (tn_db u)" by (simp add: turn_of_def)
  have "priced (fst (st_choice start)) (snd (st_choice start))"
    using B(5) by (auto simp: estimate_turn_cents_def cost_priced split: sum.splits)
  then have "priced (tn_provider u) (tn_model u)"
    using priced_run [OF run] prices by (simp add: turn_of_def)
  then obtain cost where cost: "estimate_cost_cents (tn_provider u) (tn_model u) (gu_input_tokens (tn_usage u))
      (gu_output_tokens (tn_usage u)) = Inr cost"
    using priced_cost by blast
  define made where "made = record_usage_event c (wc_workspace_id context)
        (Some (cv_id conversation)) trace (user_actor (wc_user_id context))
        (tn_provider u) (tn_model u) mode (tn_usage u) (st_estimate start) cost ?status
        (reconcile_budget c (st_estimate start) cost (tn_db u))"
  have "te_trace_id ?env = trace" "te_mode ?env = mode" by (simp_all add: env_of_def)
  then have reconciled: "reconcile_and_record ?env ?status u = ok () (u\<lparr>tn_db := snd made\<rparr>)"
    by (simp add: reconcile_and_record_def cost made_def c_def)
  have ft: "finish_turn ?env (turn_of start s1)
      = (case y of Inl e \<Rightarrow> raise e (u\<lparr>tn_db := snd made\<rparr>)
         | Inr m \<Rightarrow> ok () (u\<lparr>tn_db := snd made, tn_chunks := tn_chunks u @ [Chunk_done m]\<rparr>))"
    using reconciled by (cases y) (simp_all add: finish_turn_def tl)
  obtain x v where xv: "finish_turn ?env (turn_of start s1) = (x, v)" by fastforce
  have sm: "sm_db strm = snd made" "sm_error strm = (case y of Inl e \<Rightarrow> Some e | Inr _ \<Rightarrow> None)"
    using stream_message_ok [OF started xv] ft xv
    by (cases y; simp add: strm raise_def ok_def; metis)+
  have fst_made: "ue_provider (fst made) = tn_provider u" "ue_model (fst made) = tn_model u"
    "ue_input_tokens (fst made) = gu_input_tokens (tn_usage u)"
    "ue_output_tokens (fst made) = gu_output_tokens (tn_usage u)"
    "ue_cached_input_tokens (fst made) = gu_cached_input_tokens (tn_usage u)"
    by (simp_all add: made_def record_usage_event_def row_defaults_def Let_def)
  have status: "?status = (if sm_error strm = None then U_RECONCILED else U_REFUNDED)"
    using sm(2) by (cases y) simp_all
  have usage: "\<lparr>gu_input_tokens = gu_input_tokens (tn_usage u), gu_output_tokens = gu_output_tokens (tn_usage u),
      gu_cached_input_tokens = gu_cached_input_tokens (tn_usage u)\<rparr> = tn_usage u"
    by (cases "tn_usage u") simp
  show thesis
    by (rule that [OF kept _ sm(1), of cost]) (simp add: fst_made usage status [symmetric], simp add: made_def)
qed

section \<open>What a model is told of a long conversation\<close>

lemma insort_key_snoc: "f x \<le> f y \<Longrightarrow> insort_key f x (ys @ [y]) = insort_key f x ys @ [y]"
  by (induction ys) auto

lemma sort_key_snoc: "(\<And>x. x \<in> set xs \<Longrightarrow> f x \<le> f y) \<Longrightarrow> sort_key f (xs @ [y]) = sort_key f xs @ [y]"
  by (induction xs) (auto simp: insort_key_snoc)

lemma messages_of_added:
  "messages_of (cv_id conversation) (snd (add_message conversation m s))
     = messages_of (cv_id conversation) s @ [fst (add_message conversation m s)]"
  by (simp add: messages_of_def add_message_def row_defaults_def Let_def)

lemma added_message_time: "msg_created_at (fst (add_message conversation m s)) = clock s (ticks s)"
  by (simp add: add_message_def row_defaults_def Let_def)

section \<open>Searching is literal\<close>

lemma like_any: "like (CHR ''%'' # p) t \<longleftrightarrow> (\<exists>u v. t = u @ v \<and> like p v)"
proof (induction t)
  case (Cons x xs)
  have "like (CHR ''%'' # p) (x # xs) \<longleftrightarrow> like p (x # xs) \<or> like (CHR ''%'' # p) xs" by simp
  also have "\<dots> \<longleftrightarrow> (\<exists>u v. x # xs = u @ v \<and> like p v)"
    using Cons.IH by (metis Cons_eq_append_conv append_Cons append_Nil)
  finally show ?case .
qed simp

lemma like_percent_end: "like ''%'' t"
  unfolding like_any by (rule exI [of _ t]) simp

lemma like_literal:
  "like (escape_like q @ p) t \<longleftrightarrow> (\<exists>v. t = q @ v \<and> like p v)"
proof (induction q arbitrary: t)
  case (Cons c q)
  show ?case
  proof (cases t)
    case Nil
    then show ?thesis by (simp add: escape_like_def)
  next
    case (Cons x xs)
    with Cons.IH [of xs] show ?thesis by (auto simp: escape_like_def)
  qed
qed (simp add: escape_like_def)

text \<open>Small letters of special characters, and no others, are special.\<close>

lemma small_letter_special: "small_letter c = d \<longleftrightarrow> c = d" if "d \<in> {CHR 0x5C, CHR ''%'', CHR ''_''}"
proof -
  have "(of_char d :: nat) < 97" using that by auto
  moreover have "small_letter d = d" using that by (auto simp: small_letter_def)
  moreover have "97 \<le> (of_char (small_letter c) :: nat)" if "small_letter c \<noteq> c"
    using that by (auto simp: small_letter_def Let_def split: if_splits)
  ultimately show ?thesis by (metis not_less)
qed

lemma small_escaped: "map small_letter (escape_like q) = escape_like (map small_letter q)"
  by (induction q) (auto simp: escape_like_def small_letter_special)

lemma search_pattern_is_literal:
  "ilike (''%'' @ escape_like q @ ''%'') t
     \<longleftrightarrow> (\<exists>u v. map small_letter t = u @ map small_letter q @ v)"
proof -
  have "map small_letter (''%'' @ escape_like q @ ''%'') = CHR ''%'' # (escape_like (map small_letter q) @ ''%'')"
    by (simp add: small_escaped small_letter_special)
  then show ?thesis
    unfolding ilike_def by (simp only: like_any like_literal like_percent_end) auto
qed

section \<open>Calls with the same identifier\<close>

lemma map_key_status [simp]:
  "map action_key (tupd act_id i (\<lambda>x. x\<lparr>act_status := st\<rparr>) as) = map action_key as"
  by (induction as) (simp_all add: tupd_def action_key_def)

lemma transition_keys:
  "apply_transition a target who receipt s = (Inr b, t) \<Longrightarrow> map action_key (action_actions t) = map action_key (action_actions s)"
  by (simp add: apply_transition_ok(3))

lemma submit_keys:
  assumes "submit_action_for_execution a who s = (Inr x, t)"
  shows "map action_key (action_actions t) = map action_key (action_actions s)"
  using assms
  by (auto simp: submit_action_for_execution_def validate_action_def bind_err_ok_iff
      dest!: transition_keys request_approval_ok(1) split: if_splits)

lemma write_tool_key:
  assumes "propose_write_tool_action world name args ctx trace key s = (Inr x, t)"
  shows "(wc_customer_id ctx, wc_workspace_id ctx, key) \<in> action_key ` set (action_actions t)"
proof -
  obtain tool a created u where q: "propose_action (wc_customer_id ctx) (wc_workspace_id ctx) trace
      (user_actor (wc_user_id ctx)) tool R0 (tw_json_loads world args) key None s = (Inr (a, created), u)"
    and rest: "if created then submit_action_for_execution a (user_actor (wc_user_id ctx)) u = (Inr x, t) else t = u"
    using assms
    by (auto simp: propose_write_tool_action_def bind_err_ok_iff Let_def split: option.splits if_splits)
  from propose_action_cases(1) [OF q]
  have "(wc_customer_id ctx, wc_workspace_id ctx, key) \<in> set (map action_key (action_actions u))"
    by (auto dest!: tget_SomeD intro: rev_image_eqI)
  moreover have "map action_key (action_actions t) = map action_key (action_actions u)"
    using rest submit_keys by (cases created) auto
  ultimately show ?thesis by (metis image_set)
qed

lemma write_tool_existing:
  assumes "(wc_customer_id ctx, wc_workspace_id ctx, key) \<in> action_key ` set (action_actions s)"
  shows "action_actions (snd (propose_write_tool_action world name args ctx trace key s)) = action_actions s"
proof -
  have "tget action_key (wc_customer_id ctx, wc_workspace_id ctx, key) (action_actions s) \<noteq> None"
    using assms by (simp add: tget_None_iff)
  then obtain r where "tget action_key (wc_customer_id ctx, wc_workspace_id ctx, key) (action_actions s) = Some r"
    by blast
  then show ?thesis
    by (simp add: propose_write_tool_action_def propose_action_def require_def Let_def row_defaults_def split: option.splits)
qed

lemma propose_call_actions:
  "propose_write_tool_action (te_tools env) (call_name call) (call_arguments_json call) (te_context env)
     (te_trace_id env) (chat_key env call) (tn_db t) = (r, s)
   \<Longrightarrow> action_actions (tn_db (snd (propose_call env call t))) = action_actions s"
  by (auto simp: propose_call_def yield_chunk_def say_def Let_def split_beta add_message_tables split: sum.splits)

lemma propose_call_ok:
  "propose_call env call t = (Inr m, u) \<Longrightarrow> \<exists>x s. propose_write_tool_action (te_tools env) (call_name call)
     (call_arguments_json call) (te_context env) (te_trace_id env) (chat_key env call) (tn_db t) = (Inr x, s)"
  by (auto simp: propose_call_def split: prod.splits sum.splits)

section \<open>A sample turn\<close>

text \<open>A member says hello in an empty database in which no provider has a key.\<close>

definition sample_conversation :: conversation_row where
  "sample_conversation = \<lparr>cv_id = 5, cv_created_at = 0, cv_customer_id = 7, cv_workspace_id = 3, cv_owner_id = ''user:1'',
     cv_title = None, cv_pinned_provider = None, cv_pinned_model = None, cv_pinned_language = Some ''EN''\<rparr>"

definition sample_chatter :: workspace_context where
  "sample_chatter = \<lparr>wc_customer_id = 7, wc_workspace_id = 3, wc_user_id = 1, wc_role = WR_MEMBER\<rparr>"

definition sample_tools :: tool_world where
  "sample_tools = \<lparr>tw_schema = \<lambda>_. JObj [], tw_read_args = \<lambda>_. Inr 20, tw_write_args = \<lambda>_. Inr (),
     tw_json_loads = JStr, tw_exc_text = \<lambda>_. []\<rparr>"

definition sample_message :: message_row where
  "sample_message = (user_message ''ha'')\<lparr>msg_customer_id := 7, msg_conversation_id := 5\<rparr>"

lemma sample_no_secret: "detect_likely_secret ''ha'' = None"
  by code_simp

lemma sample_cost: "estimate_cost_cents OPENAI ''gpt-5-mini'' 1 512 = Inr 0"
proof -
  have "\<lfloor>4097 / 40000 :: rat\<rfloor> = 0" by (simp add: floor_eq_iff)
  then show ?thesis
    by (simp add: estimate_cost_cents_def py_round_def Let_def tokens_per_pricing_unit_def cents_per_dollar_def)
qed

definition sample_start :: turn_start where
  "sample_start = \<lparr>st_instructions = ''Har doim ingliz tilida javob ber.'', st_choice = (OPENAI, ''gpt-5-mini''),
     st_history = [plain_turn Role_USER ''ha''], st_estimate = 0\<rparr>"

definition sample_begun :: db where
  "sample_begun = empty_db\<lparr>ticks := 2, drawn := 1, conversation_messages := [sample_message],
      ai_budget_ledgers := [(7, month_text 0) \<mapsto> \<lparr>bl_reserved_cents = 0, bl_actual_cents = 0\<rparr>]\<rparr>"

lemma sample_begin:
  "begin_turn sample_tools default_ai_settings sample_conversation sample_chatter ''ha'' FAST empty_db
     = (Inr sample_start, sample_begun)"
  by (simp add: begin_turn_def sample_no_secret sample_conversation_def sample_chatter_def default_ai_settings_def add_message_def row_defaults_def Let_def
     resolve_effective_language_def response_language_instruction_def language_names_uz_def from_sum_def
     resolve_provider_choice_def assert_provider_enabled_def is_provider_enabled_for_customer_def
     list_messages_def messages_to_history_def message_turn_def user_message_def sample_message_def
     estimate_turn_cents_def estimate_input_tokens_from_chars_def plain_turn_def
     sample_cost [unfolded One_nat_def] reserve_budget_def ledger_defs hard_cap_cents_def cents_per_dollar_def py_round_def
     sample_start_def sample_begun_def ok_def)


definition sample_env :: turn_env where
  "sample_env = env_of (\<lambda>_ _ _. null_gateway) sample_tools default_ai_settings None sample_conversation sample_chatter FAST 9 sample_start"

lemma zero_cost: "estimate_cost_cents OPENAI ''gpt-5-mini'' 0 0 = Inr 0"
  by (simp add: estimate_cost_cents_def py_round_def Let_def)

definition sample_answered :: turn where
  "sample_answered =
     (let t = turn_of sample_start sample_begun;
          m = assistant_message t null_reply_text ''stop''
      in (snd (say sample_env m t))\<lparr>tn_chunks := [Chunk_text null_reply_text], tn_text := null_reply_text,
           tn_calls := [(OPENAI, turn_request sample_env t)]\<rparr>)"

lemma sample_loop:
  "turn_loop False sample_env (turn_of sample_start sample_begun)
     = (Inr (fst (say sample_env (assistant_message (turn_of sample_start sample_begun) null_reply_text ''stop'')
          (turn_of sample_start sample_begun))), sample_answered)"
proof -
  have rounds: "nat (ai_max_tool_rounds default_ai_settings) = 4" by (simp add: default_ai_settings_def)
  have four: "run_rounds 4 e t = bind_err (run_round e t) (\<lambda>r t.
       case r of Some m \<Rightarrow> ok m t | None \<Rightarrow> run_rounds 3 e (t\<lparr>tn_round := Suc (tn_round t)\<rparr>))" for e t
    using run_rounds.simps(2) [of 3 e t] by (simp del: run_rounds.simps)
  have null: "get_gateway (te_adapters sample_env) OPENAI default_ai_settings n r = null_gateway" for n r
    by (simp add: get_gateway_def default_ai_settings_def)
  have env: "te_settings sample_env = default_ai_settings" "te_close_at sample_env = None"
    "te_conversation sample_env = sample_conversation"
    by (simp_all add: sample_env_def) (simp add: env_of_def)
  show ?thesis
    by (simp add: turn_loop.simps env rounds four run_round_def call_gateway_def Let_def turn_of_def sample_start_def
        null null_gateway_def handle_event_def yield_chunk_def add_usage_def say_def split_beta
        assistant_message_def sample_answered_def turn_request_def ok_def)
qed

lemma sample_answered_sel:
  "tn_provider sample_answered = OPENAI" "tn_model sample_answered = ''gpt-5-mini''"
  "gu_input_tokens (tn_usage sample_answered) = 0" "gu_output_tokens (tn_usage sample_answered) = 0"
  "tn_calls sample_answered = [(OPENAI, turn_request sample_env (turn_of sample_start sample_begun))]"
  "ticks (tn_db sample_answered) = 3"
  by (simp_all add: sample_answered_def turn_of_def sample_start_def Let_def add_message_def row_defaults_def sample_begun_def)

definition sample_stream :: stream where
  "sample_stream = stream_message (\<lambda>_ _ _. null_gateway) sample_tools default_ai_settings None sample_conversation
     sample_chatter ''ha'' FAST 9 empty_db"

lemma sample_stream_sel:
  "sm_calls sample_stream = tn_calls sample_answered" "sm_error sample_stream = None" "ticks (sm_db sample_stream) = 5"
proof -
  note f = sample_loop [unfolded sample_env_def]
  show "sm_calls sample_stream = tn_calls sample_answered" "sm_error sample_stream = None" "ticks (sm_db sample_stream) = 5"
    by (simp_all add: sample_stream_def stream_message_def sample_begin env_of_def [symmetric] finish_turn_def f
        reconcile_and_record_def sample_answered_sel zero_cost Let_def split_beta record_usage_event_def row_defaults_def reconcile_budget_frame ok_def)
qed


text \<open>A call of the write tool, and another with the same identifier.\<close>

definition sample_call :: "string \<Rightarrow> tool_call_request" where
  "sample_call args = \<lparr>call_id = ''gemini-call-telegram_send_message-0'', call_name = send_tool, call_arguments_json = args\<rparr>"

lemma first_proposal:
  assumes env: "te_context env = sample_chatter" "te_tools env = sample_tools" "te_close_at env = None"
    and none: "action_actions (tn_db t) = []" "customer_kill_switches (tn_db t) 7 = None" "workspace_kill_switches (tn_db t) 3 = None"
    and name: "call_name c = send_tool"
  shows "\<exists>m u. propose_call env c t = (Inr m, u)"
proof -
  let ?key = "chat_key env c" and ?payload = "JStr (call_arguments_json c)"
  obtain a u where a: "propose_action 7 3 (te_trace_id env) (user_actor 1) telegram_tool R0 ?payload ?key None (tn_db t)
      = (Inr (a, True), u)" "action_actions u = [] @ [a]" "act_status a = DRAFT"
    by (auto simp: propose_action_def assert_not_killed_def Let_def row_defaults_def ok_def effect none)
  obtain x v where "submit_action_for_execution a (user_actor 1) u = (Inr x, v)"
    using submit_new [OF a(2) _ a(3), of "user_actor 1"] by auto
  with a(1) have "propose_write_tool_action sample_tools send_tool (call_arguments_json c) sample_chatter (te_trace_id env)
      ?key (tn_db t) = (Inr x, v)"
    by (simp add: propose_write_tool_action_def validate_write_arguments_def write_tool_action_name_def
        sample_tools_def sample_chatter_def Let_def is_write_tool_def)
  then show ?thesis
    by (cases x) (simp add: propose_call_def env name yield_chunk_def Let_def split_beta ok_def)
qed

lemma sample_proposal:
  "\<exists>m u. propose_call sample_env (sample_call args) (turn_of sample_start empty_db) = (Inr m, u)"
proof (rule first_proposal)
  show "te_context sample_env = sample_chatter" "te_tools sample_env = sample_tools" "te_close_at sample_env = None"
    by (simp_all add: sample_env_def) (simp add: env_of_def)
qed (simp_all add: turn_of_def sample_call_def)

text \<open>
  The same turn of a customer who allows to fall back, where two providers have a key: the first one
  times out; or it calls the write tool.
\<close>

definition keyed_settings :: ai_settings where
  "keyed_settings = default_ai_settings\<lparr>openai_api_key := Some ''k'', claude_api_key := Some ''k''\<rparr>"

definition lenient_db :: db where
  "lenient_db = empty_db\<lparr>ai_customer_fallback_settings := [7 \<mapsto> True]\<rparr>"

definition lenient_begun :: db where
  "lenient_begun = sample_begun\<lparr>ai_customer_fallback_settings := [7 \<mapsto> True]\<rparr>"

lemma lenient_begin:
  "begin_turn sample_tools keyed_settings sample_conversation sample_chatter ''ha'' FAST lenient_db
     = (Inr sample_start, lenient_begun)"
  by (simp add: begin_turn_def sample_no_secret sample_conversation_def sample_chatter_def default_ai_settings_def
     keyed_settings_def lenient_db_def lenient_begun_def add_message_def row_defaults_def Let_def
     resolve_effective_language_def response_language_instruction_def language_names_uz_def from_sum_def
     resolve_provider_choice_def assert_provider_enabled_def is_provider_enabled_for_customer_def
     list_messages_def messages_to_history_def message_turn_def user_message_def sample_message_def
     estimate_turn_cents_def estimate_input_tokens_from_chars_def plain_turn_def
     sample_cost [unfolded One_nat_def] reserve_budget_def ledger_defs hard_cap_cents_def cents_per_dollar_def py_round_def
     sample_start_def sample_begun_def ok_def)

definition timing_out :: adapters where
  "timing_out n p r = (if p = OPENAI then ([], Some (ModelTimeoutError, ''timeout'')) else null_gateway)"

definition calling_tool :: adapters where
  "calling_tool n p r = ([ToolCallReady (sample_call ''hi''),
     Completed \<lparr>gu_input_tokens = 0, gu_output_tokens = 0, gu_cached_input_tokens = 0\<rparr> ''tool_calls''], None)"

abbreviation lenient_stream :: "adapters \<Rightarrow> stream" where
  "lenient_stream world \<equiv> stream_message world sample_tools keyed_settings None sample_conversation
     sample_chatter ''ha'' FAST 9 lenient_db"

abbreviation lenient_env :: "adapters \<Rightarrow> turn_env" where
  "lenient_env world \<equiv> env_of world sample_tools keyed_settings None sample_conversation sample_chatter FAST 9 sample_start"

lemma lenient_rounds: "nat (ai_max_tool_rounds keyed_settings) = Suc (Suc (Suc (Suc 0)))"
  by (simp add: keyed_settings_def default_ai_settings_def)

lemma lenient_gateway:
  "get_gateway world OPENAI keyed_settings n r = world n OPENAI r"
  "get_gateway world CLAUDE keyed_settings n r = world n CLAUDE r"
  by (simp_all add: get_gateway_def keyed_settings_def)

lemma lenient_claude: "is_provider_configured CLAUDE keyed_settings"
  by (simp add: is_provider_configured_def keyed_settings_def)

lemma lenient_loop:
  assumes "turn_loop False (lenient_env world) (turn_of sample_start lenient_begun) = (y, u)"
  shows "sm_calls (lenient_stream world) = tn_calls u" "tables_kept (tn_db u) (sm_db (lenient_stream world))"
proof -
  obtain x t where ft: "finish_turn (lenient_env world) (turn_of sample_start lenient_begun) = (x, t)" by fastforce
  show "sm_calls (lenient_stream world) = tn_calls u"
    using finish_turn_cases(1) [OF assms] ft stream_message_ok [OF lenient_begin ft] by simp
  show "tables_kept (tn_db u) (sm_db (lenient_stream world))"
    using reconcile_keeps(3) finish_turn_cases(2) [OF assms] ft stream_message_ok [OF lenient_begin ft] by simp
qed

lemma lenient_falls_back:
  "\<exists>request. (CLAUDE, request) \<in> set (sm_calls (lenient_stream timing_out))"
proof -
  let ?env = "lenient_env timing_out" and ?t = "turn_of sample_start lenient_begun"
  have env: "te_adapters ?env = timing_out" "te_close_at ?env = None" by (simp_all add: env_of_def)
  have first: "run_rounds n ?env t
      = raise ModelTimeoutError (t\<lparr>tn_text := [], tn_tools := [], tn_finish := ''stop'',
          tn_calls := tn_calls t @ [(OPENAI, turn_request ?env (t\<lparr>tn_text := [], tn_tools := [], tn_finish := ''stop''\<rparr>))]\<rparr>)"
    if "n = Suc m" "tn_provider t = OPENAI" for n m t
    by (simp add: that run_round_def call_gateway_def Let_def env lenient_gateway timing_out_def)
  let ?u = "?t\<lparr>tn_calls := [(OPENAI, turn_request ?env ?t)]\<rparr>"
  have rounds: "run_rounds (nat (ai_max_tool_rounds (te_settings ?env))) ?env (?t\<lparr>tn_round := 0\<rparr>)
      = raise ModelTimeoutError ?u"
    using first [of "nat (ai_max_tool_rounds keyed_settings)" _ "?t\<lparr>tn_round := 0\<rparr>", OF lenient_rounds]
    by (simp add: turn_of_def sample_start_def)
  have db: "tn_db ?u = lenient_begun" by (simp add: turn_of_def)
  have fallback: "may_fall_back ?env False ModelTimeoutError ?u = Some CLAUDE"
    by (simp add: may_fall_back_def is_transient_def turn_of_def sample_start_def Let_def lenient_begun_def
        is_fallback_enabled_for_customer_def pick_fallback_provider_def fallback_order_def
        lenient_claude is_provider_enabled_for_customer_def sample_begun_def sample_chatter_def)
  let ?v = "?u\<lparr>tn_provider := CLAUDE, tn_model := default_model_for CLAUDE keyed_settings\<rparr>"
  have loop: "turn_loop False ?env ?t = turn_loop True ?env ?v"
    using rounds fallback by (simp add: turn_loop.simps [of False] raise_def)
  obtain y u where u: "turn_loop True ?env ?v = (y, u)" by fastforce
  have "\<exists>r. (CLAUDE, r) \<in> set (tn_calls u)"
    using u
    by (auto simp: turn_loop.simps [of True] lenient_rounds run_round_def call_gateway_def Let_def env lenient_gateway
        timing_out_def null_gateway_def handle_event_def yield_chunk_def say_def split_beta ok_def turn_of_def)
  with lenient_loop(1) [OF trans [OF loop u]] show ?thesis by simp
qed

lemma lenient_proposes: "action_actions (sm_db (lenient_stream calling_tool)) \<noteq> []"
proof -
  let ?env = "lenient_env calling_tool" and ?t = "turn_of sample_start lenient_begun" and ?c = "sample_call ''hi''"
  have env: "te_adapters ?env = calling_tool" "te_close_at ?env = None" by (simp_all add: env_of_def)
  have t: "tn_provider ?t = OPENAI" "tn_tools ?t = []" "tn_db ?t = lenient_begun"
    by (simp_all add: turn_of_def) (simp add: sample_start_def)
  define called where "called = snd (call_gateway ?env ?t)"
  have gateway: "call_gateway ?env ?t = (Inr (), called)" and called: "tn_tools called = [?c]" "tn_db called = lenient_begun"
    by (simp_all add: called_def call_gateway_def Let_def env lenient_gateway calling_tool_def handle_event_def
        t ok_def)
  have said: "action_actions (tn_db (record_tool_calls ?env called)) = []"
    "customer_kill_switches (tn_db (record_tool_calls ?env called)) 7 = None"
    "workspace_kill_switches (tn_db (record_tool_calls ?env called)) 3 = None"
    "tn_tools (record_tool_calls ?env called) = [?c]"
    by (simp_all add: record_tool_calls_def called say_def split_beta add_message_def row_defaults_def Let_def
        lenient_begun_def sample_begun_def)
  obtain m v where p: "propose_call ?env ?c (record_tool_calls ?env called) = (Inr m, v)"
    using first_proposal [of ?env "record_tool_calls ?env called" ?c] said env by (auto simp: sample_call_def)
  have "run_round ?env ?t = (Inr (Some m), v)"
  proof -
    have "?t\<lparr>tn_text := [], tn_tools := [], tn_finish := ''stop''\<rparr> = ?t" by (simp add: turn_of_def)
    moreover have "is_write_tool (call_name ?c)" by (simp add: sample_call_def is_write_tool_def)
    ultimately show ?thesis using gateway p by (simp add: run_round_def called said ok_def Let_def)
  qed
  moreover have "?t\<lparr>tn_round := 0\<rparr> = ?t" by (simp add: turn_of_def)
  ultimately have loop: "turn_loop False ?env ?t = (Inr m, v)"
    by (simp add: turn_loop.simps [of False] lenient_rounds ok_def)
  obtain x s where x: "propose_write_tool_action (te_tools ?env) (call_name ?c) (call_arguments_json ?c) (te_context ?env)
      (te_trace_id ?env) (chat_key ?env ?c) (tn_db (record_tool_calls ?env called)) = (Inr x, s)"
    using propose_call_ok [OF p] by blast
  from write_tool_key [OF this] have "action_actions s \<noteq> []" by auto
  with propose_call_actions [OF x] p have "action_actions (tn_db v) \<noteq> []" by simp
  with lenient_loop(2) [OF loop] show ?thesis by (simp add: tables_kept_def)
qed

text \<open>A conversation that already holds two hundred messages.\<close>

definition long_conversation :: db where
  "long_conversation = empty_db\<lparr>conversation_messages := replicate 200 ((user_message [])\<lparr>msg_conversation_id := 5\<rparr>)\<rparr>"

lemma most_recent_subset: "set (most_recent mx sel c ms) \<subseteq> set sel \<union> set ms"
  by (induction mx sel c ms rule: most_recent.induct) (auto split: if_splits)

lemma long_conversation_messages:
  "messages_of 5 long_conversation = replicate 200 ((user_message [])\<lparr>msg_conversation_id := 5\<rparr>)"
  by (simp add: messages_of_def long_conversation_def)

lemma long_conversation_begins:
  "\<exists>start s1. begin_turn sample_tools default_ai_settings sample_conversation sample_chatter ''ha'' FAST long_conversation
     = (Inr start, s1)"
proof -
  let ?blank = "(user_message [])\<lparr>msg_conversation_id := 5\<rparr>"
  let ?s0 = "snd (add_message sample_conversation (user_message ''ha'') long_conversation)"
  have id: "cv_id sample_conversation = 5" by (simp add: sample_conversation_def)
  have "messages_of 5 ?s0 = replicate 200 ?blank @ [fst (add_message sample_conversation (user_message ''ha'') long_conversation)]"
    using messages_of_added [of sample_conversation "user_message ''ha''" long_conversation]
    by (simp only: id long_conversation_messages)
  moreover have "sort_key msg_created_at (replicate 200 ?blank @ [fst (add_message sample_conversation (user_message ''ha'') long_conversation)])
      = sort_key msg_created_at (replicate 200 ?blank) @ [fst (add_message sample_conversation (user_message ''ha'') long_conversation)]"
    by (rule sort_key_snoc) (simp add: added_message_time, simp add: long_conversation_def user_message_def)
  moreover have "sort_key msg_created_at (replicate 200 ?blank) = replicate 200 ?blank"
    by (rule sort_key_id_if_sorted) (simp only: map_replicate sorted_replicate)
  ultimately have "take 200 (sort_key msg_created_at (messages_of 5 ?s0)) = replicate 200 ?blank"
    by simp
  then have messages: "list_messages 5 200 ?s0 = Inr (replicate 200 ?blank)"
    by (simp add: list_messages_def messages_of_def)
  let ?hist = "messages_to_history 8000 (replicate 200 ?blank)"
  have "turn_content h = []" if "h \<in> set ?hist" for h
  proof -
    obtain m where m: "m \<in> set (most_recent 8000 [] 0 (rev (replicate 200 ?blank)))" "h = message_turn m"
      using \<open>h \<in> set ?hist\<close> unfolding messages_to_history_def by auto
    have "m = ?blank" using subsetD [OF most_recent_subset m(1)] by simp
    then show ?thesis by (simp add: m(2) message_turn_def user_message_def plain_turn_def)
  qed
  then have "sum_list (map (\<lambda>h. length (turn_content h)) ?hist) = 0"
    by (simp add: sum_list_eq_0_iff)
  then have "estimate_turn_cents default_ai_settings FAST (OPENAI, ''gpt-5-mini'') ?hist = Inr 0"
    by (simp add: estimate_turn_cents_def estimate_input_tokens_from_chars_def default_ai_settings_def
        sample_cost [unfolded One_nat_def])
  then show ?thesis
    using messages
    by (simp add: begin_turn_def sample_no_secret sample_conversation_def sample_chatter_def Let_def
        resolve_effective_language_def response_language_instruction_def language_names_uz_def from_sum_def
        resolve_provider_choice_def assert_provider_enabled_def is_provider_enabled_for_customer_def
        default_ai_settings_def long_conversation_def add_message_def row_defaults_def
        reserve_budget_def ledger_defs hard_cap_cents_def cents_per_dollar_def py_round_def ok_def)
qed

section \<open>Properties\<close>

text \<open>
  C36: a turn ends, whatever the models answer: it asks at most once more than the number of
  rounds that is configured, the once more being the call that failed before a fallback.
\<close>

theorem turn_asks_boundedly:
  "length (sm_calls (stream_message adapters world settings close_at conversation context content mode trace s))
     \<le> nat (ai_max_tool_rounds settings) + 1"
proof (cases "begin_turn world settings conversation context content mode s")
  case (Pair r s1)
  show ?thesis
  proof (cases r)
    case (Inl e)
    with Pair show ?thesis by (simp add: stream_message_err)
  next
    case (Inr start)
    let ?env = "env_of adapters world settings close_at conversation context mode trace start"
    obtain x t where ft: "finish_turn ?env (turn_of start s1) = (x, t)" by fastforce
    obtain y u where tl: "turn_loop False ?env (turn_of start s1) = (y, u)" by fastforce
    have "tn_calls t = tn_calls u" using finish_turn_cases(1) [OF tl] ft by simp
    moreover have "length (tn_calls u) \<le> nat (ai_max_tool_rounds settings) + 1"
      using turn_loop_calls [of False ?env "turn_of start s1"] tl by (simp add: turn_of_def)
    ultimately show ?thesis using stream_message_ok [OF _ ft] Pair Inr by simp
  qed
qed

text \<open>
  C32: a turn asks the provider that the pin of the conversation and the preferences of the user and
  the workspace resolve to, and another one only if the customer allows to fall back and that one has
  a key; and it asks none that the customer has switched off.
\<close>

theorem only_enabled_providers_are_asked:
  assumes "(p, request) \<in> set (sm_calls (stream_message adapters world settings close_at conversation
     context content mode trace s))"
  shows "is_provider_enabled_for_customer (wc_customer_id context) p s
     \<and> (\<exists>choice. resolve_provider_choice settings conversation (wc_customer_id context) (wc_user_id context)
            (wc_workspace_id context) s = Inr choice
          \<and> (p = fst choice
             \<or> is_fallback_enabled_for_customer (wc_customer_id context) s \<and> is_provider_configured p settings))"
proof (cases "begin_turn world settings conversation context content mode s")
  case (Pair r s1)
  with assms obtain start where r: "r = Inr start" by (cases r) (auto simp: stream_message_err)
  let ?env = "env_of adapters world settings close_at conversation context mode trace start"
  obtain x t where ft: "finish_turn ?env (turn_of start s1) = (x, t)" by fastforce
  obtain y u where tl: "turn_loop False ?env (turn_of start s1) = (y, u)" by fastforce
  have calls: "(p, request) \<in> set (tn_calls u)"
    using assms finish_turn_cases(1) [OF tl] ft stream_message_ok [OF Pair [unfolded r] ft] by simp
  note B = begin_turn_ok [OF Pair [unfolded r]]
  have settings: "ai_customer_provider_settings s1 = ai_customer_provider_settings s"
    "ai_customer_fallback_settings s1 = ai_customer_fallback_settings s"
    using B(6) by (auto simp: reserve_budget_iff Let_def add_message_def row_defaults_def)
  have choice: "resolve_provider_choice settings conversation (wc_customer_id context) (wc_user_id context)
      (wc_workspace_id context) s = Inr (st_choice start)"
    using B(2) by (simp add: resolve_kept)
  have run: "turn_run ?env (turn_of start s1) u" using turn_loop_run [of ?env "turn_of start s1" False] tl by simp
  have "allowed_providers ?env (fst (st_choice start)) (turn_of start s1)"
    using B(3) by (simp add: allowed_providers_def turn_of_def is_provider_enabled_for_customer_def settings
        add_message_def row_defaults_def Let_def)
  from allowed_providers_run [OF run this] calls
  have "is_provider_enabled_for_customer (wc_customer_id context) p (tn_db u)
      \<and> (p = fst (st_choice start) \<or> is_provider_configured p settings
           \<and> is_fallback_enabled_for_customer (wc_customer_id context) (tn_db u))"
    unfolding allowed_providers_def by force
  moreover have "ai_customer_provider_settings (tn_db u) = ai_customer_provider_settings s"
    "ai_customer_fallback_settings (tn_db u) = ai_customer_fallback_settings s"
    using turn_run_kept [OF run] settings by (simp_all add: chat_kept_def turn_of_def)
  ultimately show ?thesis
    by (auto simp: choice is_provider_enabled_for_customer_def is_fallback_enabled_for_customer_def)
qed

theorem only_enabled_providers_are_asked_witness:
  "(\<exists>request. (CLAUDE, request) \<in> set (sm_calls (lenient_stream timing_out)))
   \<and> is_provider_enabled_for_customer 7 CLAUDE lenient_db \<and> is_fallback_enabled_for_customer 7 lenient_db
   \<and> is_provider_configured CLAUDE keyed_settings"
proof -
  obtain request where r: "(CLAUDE, request) \<in> set (sm_calls (lenient_stream timing_out))"
    using lenient_falls_back by blast
  have "resolve_provider_choice keyed_settings sample_conversation 7 1 3 lenient_db = Inr (OPENAI, ''gpt-5-mini'')"
    by (simp add: resolve_provider_choice_def sample_conversation_def keyed_settings_def default_ai_settings_def lenient_db_def)
  with only_enabled_providers_are_asked [OF r] r show ?thesis
    by (auto simp: sample_chatter_def)
qed

text \<open>
  C33: a chat only proposes: whatever the models answer and whenever the client goes away, a turn
  of a user who may chat is a run of the system of action requests.  The actions it adds are sends of
  a Telegram message that wait for an approval; each comes with one approval row, of its payload,
  pending and without an approver; the approvals there were stay as they are, and nothing is announced
  as ready.
\<close>

theorem chat_only_proposes:
  assumes "action_inv s" "authorize_use_chat context = None"
    and t: "t = sm_db (stream_message adapters world settings close_at conversation context content mode trace s)"
  shows "action_step\<^sup>*\<^sup>* s t \<and> outbox_messages t = outbox_messages s
     \<and> (\<exists>new asked. action_actions t = action_actions s @ new \<and> action_approvals t = action_approvals s @ asked
          \<and> list_all2 asks_for asked new
          \<and> (\<forall>a \<in> set new. act_tool_name a = telegram_tool \<and> act_status a = AWAITING_APPROVAL
               \<and> needs_approval (act_risk_level a)))"
proof (cases "begin_turn world settings conversation context content mode s")
  case (Pair r s1)
  have kept: "tables_kept s s1" using kept_begin [of s world settings conversation "context" content mode] Pair by simp
  have "action_step\<^sup>*\<^sup>* s t \<and> only_proposals s t"
  proof (cases r)
    case (Inl e)
    with Pair kept show ?thesis by (simp add: t stream_message_err r_into_rtranclp kept_step only_proposals_kept)
  next
    case (Inr start)
    let ?env = "env_of adapters world settings close_at conversation context mode trace start"
    obtain x v where ft: "finish_turn ?env (turn_of start s1) = (x, v)" by fastforce
    obtain y u where tl: "turn_loop False ?env (turn_of start s1) = (y, u)" by fastforce
    have inv: "action_inv s1" by (rule action_step_inv [OF kept_step [OF kept] assms(1)])
    have run: "turn_run ?env (turn_of start s1) u" using turn_loop_run [of ?env "turn_of start s1" False] tl by simp
    have "action_step\<^sup>*\<^sup>* s1 (tn_db u) \<and> only_proposals s1 (tn_db u)"
      using turn_run_actions [OF run] inv assms(2) by (simp add: turn_of_def)
    moreover have "tables_kept (tn_db u) t"
      using reconcile_keeps(3) finish_turn_cases(2) [OF tl] ft stream_message_ok [OF Pair [unfolded Inr] ft] t by simp
    ultimately show ?thesis
      by (meson converse_rtranclp_into_rtranclp kept kept_step only_proposals_kept only_proposals_trans
          rtranclp.rtrancl_into_rtrancl)
  qed
  then show ?thesis by (simp add: only_proposals_def)
qed

theorem chat_only_proposes_witness:
  "\<exists>a as q qs. action_actions (sm_db (lenient_stream calling_tool)) = a # as
     \<and> action_approvals (sm_db (lenient_stream calling_tool)) = q # qs \<and> asks_for q a
     \<and> act_tool_name a = telegram_tool \<and> act_status a = AWAITING_APPROVAL
     \<and> outbox_messages (sm_db (lenient_stream calling_tool)) = []"
proof -
  have "no_actions lenient_db" by (simp add: no_actions_def inj_def lenient_db_def)
  then have inv: "action_inv lenient_db" by (rule action_inv_initial)
  have may: "authorize_use_chat sample_chatter = None"
    by (simp add: authorize_use_chat_def sample_chatter_def)
  have empty: "action_actions lenient_db = []" "action_approvals lenient_db = []" "outbox_messages lenient_db = []"
    by (simp_all add: lenient_db_def)
  note chat = chat_only_proposes [OF inv may refl, of calling_tool sample_tools keyed_settings None sample_conversation
      "''ha''" FAST 9]
  with lenient_proposes show ?thesis
    by (auto simp: empty neq_Nil_conv list_all2_Cons2)
qed

text \<open>
  C34: every turn that got past its reservation is accounted for, however it ended, where the default
  model of every provider has a price (a turn that falls back to a model without one fails when it is
  priced).  It adds one usage event, refunded exactly when the turn ended with an exception or was
  closed by the client.  In a turn whose instants all lie in one month, and with a reservation that is
  not negative, the ledger of that month ends with the cost of the event added to what was spent and
  what others had reserved as it was; a turn that crosses the end of a month leaves its estimate
  reserved in the old one.
\<close>

theorem turn_is_accounted:
  assumes started: "begin_turn world settings conversation context content mode s = (Inr start, s1)"
    and strm: "strm = stream_message adapters world settings close_at conversation context content mode trace s"
    and prices: "\<And>p. priced p (default_model_for p settings)"
  shows "\<exists>e. ai_usage_events (sm_db strm) = ai_usage_events s @ [e] \<and> ue_customer_id e = wc_customer_id context
     \<and> ue_status e = (if sm_error strm = None then U_RECONCILED else U_REFUNDED)
     \<and> (\<forall>month key. (\<forall>i. ticks s \<le> i \<and> i < ticks (sm_db strm) \<longrightarrow> month_of (clock s i) = month)
          \<longrightarrow> key = (wc_customer_id context, month_text month) \<longrightarrow> 0 \<le> bl_reserved_cents (ledger_of key s)
          \<longrightarrow> ledger_of key (sm_db strm)
              = (ledger_of key s)\<lparr>bl_actual_cents := bl_actual_cents (ledger_of key s) + event_cost e\<rparr>)"
proof -
  let ?s0 = "snd (add_message conversation (user_message content) s)"
  note B = begin_turn_ok [OF started]
  obtain u cost made where kept: "chat_kept s1 u" and made: "made = record_usage_event (wc_customer_id context)
        (wc_workspace_id context) (Some (cv_id conversation)) trace
        (user_actor (wc_user_id context)) (ue_provider (fst made)) (ue_model (fst made)) mode
        \<lparr>gu_input_tokens = ue_input_tokens (fst made), gu_output_tokens = ue_output_tokens (fst made),
         gu_cached_input_tokens = ue_cached_input_tokens (fst made)\<rparr> (st_estimate start) cost
        (if sm_error strm = None then U_RECONCILED else U_REFUNDED)
        (reconcile_budget (wc_customer_id context) (st_estimate start) cost u)" and db: "sm_db strm = snd made"
    by (rule turn_end [OF started prices strm])
  let ?reconciled = "reconcile_budget (wc_customer_id context) (st_estimate start) cost u"
  have M: "ai_usage_events (snd made) = ai_usage_events ?reconciled @ [fst made]"
      "ai_budget_ledgers (snd made) = ai_budget_ledgers ?reconciled" "ticks ?reconciled \<le> ticks (snd made)"
      "event_cost (fst made) = cost" "ue_customer_id (fst made) = wc_customer_id context"
      "ue_status (fst made) = (if sm_error strm = None then U_RECONCILED else U_REFUNDED)"
    by (subst (1 2) made, rule usage_event_effect | subst made, rule usage_event_effect)+
  have s0: "\<And>key. ledger_of key ?s0 = ledger_of key s" "clock ?s0 = clock s" "ticks ?s0 = Suc (ticks s)"
      "ai_usage_events ?s0 = ai_usage_events s"
    by (simp_all add: add_message_def row_defaults_def Let_def ledger_of_def)
  have s1: "ticks s1 = Suc (ticks ?s0)" "ai_usage_events s1 = ai_usage_events ?s0"
    using B(6) by (auto simp: reserve_budget_iff Let_def)
  have "Suc (Suc (ticks s)) \<le> ticks u" using kept s1(1) s0(3) by (simp add: chat_kept_def)
  with M(3) have "ticks u < ticks (sm_db strm)" "ticks s \<le> ticks u" "Suc (ticks s) < ticks (sm_db strm)"
    unfolding db reconcile_budget_frame by linarith+
  then have "ledger_of key (sm_db strm)
      = (ledger_of key s)\<lparr>bl_actual_cents := bl_actual_cents (ledger_of key s) + event_cost (fst made)\<rparr>"
    if month: "\<forall>i. ticks s \<le> i \<and> i < ticks (sm_db strm) \<longrightarrow> month_of (clock s i) = month"
      and key: "key = (wc_customer_id context, month_text month)" and pos: "0 \<le> bl_reserved_cents (ledger_of key s)"
    for month key
  proof -
    have m: "month_of (clock ?s0 (ticks ?s0)) = month" "month_of (clock ?s0 (ticks u)) = month"
      using month \<open>ticks u < ticks (sm_db strm)\<close> \<open>ticks s \<le> ticks u\<close> \<open>Suc (ticks s) < ticks (sm_db strm)\<close>
      by (simp_all add: s0)
    have "ledger_of key ?reconciled = (ledger_of key s)\<lparr>bl_actual_cents := bl_actual_cents (ledger_of key s) + cost\<rparr>"
      using reserve_then_reconcile [OF B(6) kept m key] pos by (simp add: s0)
    then show ?thesis by (simp add: db ledger_of_def M)
  qed
  moreover have "ai_usage_events (sm_db strm) = ai_usage_events s @ [fst made]"
    using kept s1 s0 by (simp add: db M reconcile_budget_frame chat_kept_def)
  ultimately show ?thesis using M(5,6) by blast
qed

theorem turn_is_accounted_witness:
  "\<exists>e. ai_usage_events (sm_db sample_stream) = [e] \<and> ue_customer_id e = 7 \<and> ue_status e = U_RECONCILED
     \<and> bl_reserved_cents (ledger_of (7, month_text 0) (sm_db sample_stream)) = 0
     \<and> bl_actual_cents (ledger_of (7, month_text 0) (sm_db sample_stream)) = event_cost e"
proof -
  have priced: "priced p (default_model_for p default_ai_settings)" for p
    by (cases p) (simp_all add: priced_def default_ai_settings_def)
  have month: "month_of (clock empty_db i) = 0" if "i < ticks (sm_db sample_stream)" for i
    using that by (simp add: sample_stream_sel)
  have none: "ledger_of key empty_db = \<lparr>bl_reserved_cents = 0, bl_actual_cents = 0\<rparr>" for key
    by (simp add: ledger_of_def)
  obtain e where e: "ai_usage_events (sm_db sample_stream) = ai_usage_events empty_db @ [e]" "ue_customer_id e = 7"
      "ue_status e = U_RECONCILED"
    and ledger: "\<forall>month key. (\<forall>i. ticks empty_db \<le> i \<and> i < ticks (sm_db sample_stream) \<longrightarrow> month_of (clock empty_db i) = month)
      \<longrightarrow> key = (wc_customer_id sample_chatter, month_text month) \<longrightarrow> 0 \<le> bl_reserved_cents (ledger_of key empty_db)
      \<longrightarrow> ledger_of key (sm_db sample_stream)
        = (ledger_of key empty_db)\<lparr>bl_actual_cents := bl_actual_cents (ledger_of key empty_db) + event_cost e\<rparr>"
    using turn_is_accounted [OF sample_begin sample_stream_def priced]
    by (auto simp: sample_chatter_def sample_stream_sel(2))
  have "ledger_of (7, month_text 0) (sm_db sample_stream) = \<lparr>bl_reserved_cents = 0, bl_actual_cents = event_cost e\<rparr>"
    using ledger [rule_format, of 0 "(7, month_text 0)"] month by (simp add: none sample_chatter_def)
  with e show ?thesis by (intro exI [of _ e]) simp
qed

text \<open>
  The model is given the first two hundred messages of a conversation, not the last: once there
  are two hundred, what the user writes is stored and paid for, but no model is ever told of it.
\<close>

theorem long_conversation_is_not_heard:
  assumes "begin_turn world settings conversation context content mode s = (Inr start, s1)"
    and "200 \<le> length (messages_of (cv_id conversation) s)"
    and "\<forall>m \<in> set (messages_of (cv_id conversation) s). msg_created_at m \<le> clock s (ticks s)"
  shows "st_history start = messages_to_history (ai_max_context_chars settings)
     (take 200 (sort_key msg_created_at (messages_of (cv_id conversation) s)))"
  using begin_turn_ok(4) [OF assms(1)] assms(2,3)
  by (simp add: messages_of_added sort_key_snoc added_message_time)

theorem long_conversation_is_not_heard_witness:
  "\<exists>start s1. begin_turn sample_tools default_ai_settings sample_conversation sample_chatter ''ha'' FAST long_conversation
       = (Inr start, s1)
     \<and> st_history start = messages_to_history 8000 (take 200 (sort_key msg_created_at (messages_of 5 long_conversation)))"
proof -
  obtain start s1 where b: "begin_turn sample_tools default_ai_settings sample_conversation sample_chatter ''ha'' FAST
      long_conversation = (Inr start, s1)"
    using long_conversation_begins by blast
  have "cv_id sample_conversation = 5" "ai_max_context_chars default_ai_settings = 8000"
    by (simp_all add: sample_conversation_def default_ai_settings_def)
  moreover have "\<forall>m \<in> set (messages_of 5 long_conversation). msg_created_at m \<le> clock long_conversation (ticks long_conversation)"
    unfolding long_conversation_messages by (simp add: user_message_def long_conversation_def)
  ultimately have "st_history start
      = messages_to_history 8000 (take 200 (sort_key msg_created_at (messages_of 5 long_conversation)))"
    using long_conversation_is_not_heard [OF b] by (simp add: long_conversation_messages)
  with b show ?thesis by blast
qed

text \<open>
  A call of the write tool whose identifier was used before in the same conversation proposes
  nothing, whatever its arguments: the turn answers with the action of the earlier call.  The
  identifiers that stand in for those Gemini leaves out repeat from call to call.
\<close>

theorem reused_call_id_proposes_nothing:
  assumes "propose_call env call t = (Inr m, t1)"
    and "te_conversation env' = te_conversation env" "te_context env' = te_context env"
    and "call_id call' = call_id call"
    and "action_key ` set (action_actions (tn_db t1)) \<subseteq> action_key ` set (action_actions (tn_db t2))"
  shows "action_actions (tn_db (snd (propose_call env' call' t2))) = action_actions (tn_db t2)"
proof -
  obtain x s where s: "propose_write_tool_action (te_tools env) (call_name call) (call_arguments_json call) (te_context env)
     (te_trace_id env) (chat_key env call) (tn_db t) = (Inr x, s)"
    using propose_call_ok [OF assms(1)] by blast
  have "action_actions (tn_db t1) = action_actions s" using propose_call_actions [OF s] assms(1) by simp
  with write_tool_key [OF s] assms(5)
  have "(wc_customer_id (te_context env), wc_workspace_id (te_context env), chat_key env call)
      \<in> action_key ` set (action_actions (tn_db t2))" by auto
  moreover have "chat_key env' call' = chat_key env call" by (simp add: chat_key_def assms(2,4))
  ultimately have kept: "action_actions (snd (propose_write_tool_action (te_tools env') (call_name call')
      (call_arguments_json call') (te_context env') (te_trace_id env') (chat_key env' call') (tn_db t2)))
    = action_actions (tn_db t2)"
    using write_tool_existing [of "te_context env'"] by (simp add: assms(3))
  show ?thesis by (metis kept propose_call_actions prod.collapse)
qed

theorem reused_call_id_proposes_nothing_witness:
  "\<exists>m u. propose_call sample_env (sample_call ''first'') (turn_of sample_start empty_db) = (Inr m, u)
     \<and> action_actions (tn_db (snd (propose_call sample_env (sample_call ''second'') u))) = action_actions (tn_db u)"
proof -
  obtain m u where p: "propose_call sample_env (sample_call ''first'') (turn_of sample_start empty_db) = (Inr m, u)"
    using sample_proposal by blast
  have "call_id (sample_call ''second'') = call_id (sample_call ''first'')" by (simp add: sample_call_def)
  from p reused_call_id_proposes_nothing [OF p refl refl this subset_refl] show ?thesis by blast
qed

end
