(* ===== verification/Chat_Api.thy ===== *)
theory Chat_Api
  imports Conversation Api_Context
begin

text \<open>
  \<open>doda/api/conversations.py\<close> and \<open>doda/api/ai_settings.py\<close> with their schemas: the routes of
  conversations, the reply of a turn as a stream of server-sent events, and the settings of the
  language models.  The reply's first item is drawn before the response starts, so that a failure
  before it is an error response like any other; later failures become a last event.
\<close>

section \<open>Conversations (api/conversations.py)\<close>

record conversation_out =
  co_id :: uuid
  co_workspace_id :: uuid
  co_owner_id :: string
  co_title :: "string option"
  co_pinned_provider :: "string option"
  co_pinned_model :: "string option"
  co_pinned_language :: "string option"
  co_created_at :: instant

definition to_conversation_out :: "conversation_row \<Rightarrow> conversation_out" where
  "to_conversation_out c =
     \<lparr>co_id = cv_id c, co_workspace_id = cv_workspace_id c, co_owner_id = cv_owner_id c, co_title = cv_title c,
      co_pinned_provider = cv_pinned_provider c, co_pinned_model = cv_pinned_model c,
      co_pinned_language = cv_pinned_language c, co_created_at = cv_created_at c\<rparr>"

record message_out =
  mo_id :: uuid
  mo_conversation_id :: uuid
  mo_role :: message_role
  mo_content :: string
  mo_tool_call_id :: "string option"
  mo_tool_name :: "string option"
  mo_provider :: "string option"
  mo_model :: "string option"
  mo_finish_reason :: "string option"
  mo_created_at :: instant

definition to_message_out :: "message_row \<Rightarrow> message_out" where
  "to_message_out m =
     \<lparr>mo_id = msg_id m, mo_conversation_id = msg_conversation_id m, mo_role = msg_role m,
      mo_content = msg_content m, mo_tool_call_id = msg_tool_call_id m, mo_tool_name = msg_tool_name m,
      mo_provider = msg_provider m, mo_model = msg_model m, mo_finish_reason = msg_finish_reason m,
      mo_created_at = msg_created_at m\<rparr>"

definition create_conversation :: "string option \<Rightarrow> request_context \<Rightarrow> db \<Rightarrow> conversation_out response" where
  "create_conversation title ctx s =
     bind_err (require (authorize_use_chat (rc_workspace ctx)) s) (\<lambda>_ s.
     (let (conversation, s) = start_conversation (wc_customer_id (rc_workspace ctx))
            (wc_workspace_id (rc_workspace ctx)) (ctx_actor ctx) title s
      in ok (to_conversation_out conversation) s))"

definition list_workspace_conversations :: "int \<Rightarrow> request_context \<Rightarrow> db \<Rightarrow> conversation_out list response" where
  "list_workspace_conversations limit ctx s =
     bind_err (require (authorize_use_chat (rc_workspace ctx)) s) (\<lambda>_ s.
     bind_err (from_sum (list_conversations_for_workspace (wc_workspace_id (rc_workspace ctx)) limit s) s) (\<lambda>cs s.
     ok (map to_conversation_out cs) s))"

definition search_workspace_conversations ::
  "string \<Rightarrow> int \<Rightarrow> request_context \<Rightarrow> db \<Rightarrow> message_out list response" where
  "search_workspace_conversations q limit ctx s =
     bind_err (require (authorize_use_chat (rc_workspace ctx)) s) (\<lambda>_ s.
     bind_err (from_sum (search_messages_in_workspace (wc_workspace_id (rc_workspace ctx)) q limit s) s) (\<lambda>ms s.
     ok (map to_message_out ms) s))"

definition get_owned_conversation :: "request_context \<Rightarrow> uuid \<Rightarrow> db \<Rightarrow> conversation_row response" where
  "get_owned_conversation ctx conversation_id s =
     (case tget cv_id conversation_id (conversation_conversations s) of
        None \<Rightarrow> raise (HttpException 404 ''conversation not found'') s
      | Some conversation \<Rightarrow>
          if cv_workspace_id conversation \<noteq> wc_workspace_id (rc_workspace ctx)
          then raise (HttpException 404 ''conversation not found'') s
          else ok conversation s)"

definition list_conversation_messages :: "uuid \<Rightarrow> request_context \<Rightarrow> db \<Rightarrow> message_out list response" where
  "list_conversation_messages conversation_id ctx s =
     bind_err (require (authorize_use_chat (rc_workspace ctx)) s) (\<lambda>_ s.
     bind_err (get_owned_conversation ctx conversation_id s) (\<lambda>conversation s.
     bind_err (from_sum (list_messages (cv_id conversation) 200 s) s) (\<lambda>ms s.
     ok (map to_message_out ms) s)))"

definition switch_provider ::
  "uuid \<Rightarrow> provider \<Rightarrow> string option \<Rightarrow> request_context \<Rightarrow> db \<Rightarrow> conversation_out response" where
  "switch_provider conversation_id p model ctx s =
     bind_err (require (authorize_use_chat (rc_workspace ctx)) s) (\<lambda>_ s.
     bind_err (get_owned_conversation ctx conversation_id s) (\<lambda>conversation s.
     (let (conversation, s) = switch_conversation_provider conversation p model s
      in ok (to_conversation_out conversation) s)))"

text \<open>The schema admits no other language than the three, or none.\<close>

definition switch_language :: "uuid \<Rightarrow> string option \<Rightarrow> request_context \<Rightarrow> db \<Rightarrow> conversation_out response" where
  "switch_language conversation_id language ctx s =
     (if \<not> (case language of None \<Rightarrow> True | Some l \<Rightarrow> l \<in> set supported_languages)
      then raise (HttpException 422 ''language'') s
      else
        bind_err (require (authorize_use_chat (rc_workspace ctx)) s) (\<lambda>_ s.
        bind_err (get_owned_conversation ctx conversation_id s) (\<lambda>conversation s.
        (let (conversation, s) = switch_conversation_language conversation language s
         in ok (to_conversation_out conversation) s))))"

section \<open>The reply as events\<close>

definition newline :: string where "newline = [CHR 0x0A]"

definition sse_frame :: "string \<Rightarrow> json \<Rightarrow> string" where
  "sse_frame event data = ''event: '' @ event @ newline @ ''data: '' @ json_dumps data @ newline @ newline"

definition error_frame :: "string \<Rightarrow> string \<Rightarrow> uuid \<Rightarrow> bool \<Rightarrow> string" where
  "error_frame code message trace_id retryable =
     sse_frame ''error'' (JObj [(''code'', JStr code), (''message'', JStr message),
       (''trace_id'', JStr (uuid_str trace_id)), (''retryable'', JBool retryable)])"

definition opt_json :: "string option \<Rightarrow> json" where
  "opt_json v = (case v of None \<Rightarrow> JNull | Some t \<Rightarrow> JStr t)"

primrec message_role_value :: "message_role \<Rightarrow> string" where
  "message_role_value M_USER = ''USER''"
| "message_role_value M_ASSISTANT = ''ASSISTANT''"
| "message_role_value M_TOOL = ''TOOL''"

definition message_out_json :: "message_out \<Rightarrow> json" where
  "message_out_json m =
     JObj [(''id'', JStr (uuid_str (mo_id m))), (''conversation_id'', JStr (uuid_str (mo_conversation_id m))),
       (''role'', JStr (message_role_value (mo_role m))), (''content'', JStr (mo_content m)),
       (''tool_call_id'', opt_json (mo_tool_call_id m)), (''tool_name'', opt_json (mo_tool_name m)),
       (''provider'', opt_json (mo_provider m)), (''model'', opt_json (mo_model m)),
       (''finish_reason'', opt_json (mo_finish_reason m)), (''created_at'', JStr (iso (mo_created_at m)))]"

primrec chunk_frame :: "turn_chunk \<Rightarrow> string" where
  "chunk_frame (Chunk_text text) = sse_frame ''text'' (JObj [(''text'', JStr text)])"
| "chunk_frame (Chunk_tool_status text) = sse_frame ''tool_status'' (JObj [(''text'', JStr text)])"
| "chunk_frame (Chunk_done m) = sse_frame ''done'' (JObj [(''message'', message_out_json (to_message_out m))])"

text \<open>
  The body of the response.  Before each item it is asked whether the client has gone: if it has,
  at the item of number \<open>i\<close>, the turn is closed there and the items before it are what was sent.
\<close>

definition body_frames :: "nat option \<Rightarrow> uuid \<Rightarrow> stream \<Rightarrow> string list" where
  "body_frames gone_at trace_id r =
     (case gone_at of
        Some (Suc i) \<Rightarrow>
          if i < length (sm_chunks r) then map chunk_frame (take i (sm_chunks r))
          else map chunk_frame (sm_chunks r)
            @ (if sm_error r = None then []
               else [error_frame ''AI_STREAM_ERROR'' ''Suhbat davomida xato yuz berdi.'' trace_id True])
      | _ \<Rightarrow>
          map chunk_frame (sm_chunks r)
            @ (if sm_error r = None then []
               else [error_frame ''AI_STREAM_ERROR'' ''Suhbat davomida xato yuz berdi.'' trace_id True]))"

definition post_conversation_message ::
  "adapters \<Rightarrow> tool_world \<Rightarrow> ai_settings \<Rightarrow> nat option \<Rightarrow> uuid \<Rightarrow> uuid \<Rightarrow> string \<Rightarrow> usage_mode
     \<Rightarrow> request_context \<Rightarrow> db \<Rightarrow> string list response" where
  "post_conversation_message adapters world settings gone_at trace_id conversation_id content mode ctx s =
     bind_err (require (authorize_use_chat (rc_workspace ctx)) s) (\<lambda>_ s.
     bind_err (get_owned_conversation ctx conversation_id s) (\<lambda>conversation s.
     (let r = stream_message adapters world settings gone_at conversation (rc_workspace ctx) content mode trace_id s
      in case (sm_chunks r, sm_error r) of
           ([], Some e) \<Rightarrow> raise e (sm_db r)
         | _ \<Rightarrow> ok (body_frames gone_at trace_id r) (sm_db r))))"

section \<open>Settings of the language models (api/ai\_settings.py)\<close>

record provider_status_out =
  pso_provider :: provider
  pso_configured :: bool
  pso_enabled :: bool
  pso_verified_at :: "instant option"
  pso_verified_ok :: "bool option"
  pso_verified_error :: "string option"

definition to_provider_status_out ::
  "ai_settings \<Rightarrow> provider \<Rightarrow> bool \<Rightarrow> ai_provider_verification_row option \<Rightarrow> provider_status_out" where
  "to_provider_status_out settings p enabled verification =
     \<lparr>pso_provider = p, pso_configured = is_provider_configured p settings, pso_enabled = enabled,
      pso_verified_at = map_option pv_last_verified_at verification,
      pso_verified_ok = map_option pv_last_verified_ok verification,
      pso_verified_error = Option.bind verification pv_last_error\<rparr>"

definition list_provider_statuses :: "ai_settings \<Rightarrow> customer_context \<Rightarrow> db \<Rightarrow> provider_status_out list response" where
  "list_provider_statuses settings ctx s =
     ok (map (\<lambda>p. to_provider_status_out settings p
                (is_provider_enabled_for_customer (cc_customer_id ctx) p s) (get_verification_status p s))
           all_providers) s"

definition set_provider_enabled ::
  "ai_settings \<Rightarrow> provider \<Rightarrow> bool \<Rightarrow> customer_context \<Rightarrow> db \<Rightarrow> provider_status_out response" where
  "set_provider_enabled settings p enabled ctx s =
     bind_err (require (authorize_manage_ai_provider_settings ctx) s) (\<lambda>_ s.
     bind_err (set_provider_enabled_for_customer (cc_customer_id ctx) p enabled s) (\<lambda>_ s.
     ok (to_provider_status_out settings p enabled (get_verification_status p s)) s))"

definition test_connection ::
  "adapters \<Rightarrow> ai_settings \<Rightarrow> provider \<Rightarrow> customer_context \<Rightarrow> db \<Rightarrow> (provider \<times> bool \<times> string option) response" where
  "test_connection adapters settings p ctx s =
     bind_err (require (authorize_manage_ai_provider_settings ctx) s) (\<lambda>_ s.
     bind_err (from_sum (test_provider_connection adapters p settings) s) (\<lambda>(succeeded, error_type, error_message) s.
     bind_err (record_provider_verification p succeeded error_type error_message s) (\<lambda>_ s.
     ok (p, succeeded, error_message) s)))"

definition get_fallback_setting :: "customer_context \<Rightarrow> db \<Rightarrow> bool response" where
  "get_fallback_setting ctx s = ok (is_fallback_enabled_for_customer (cc_customer_id ctx) s) s"

definition set_fallback_setting :: "bool \<Rightarrow> customer_context \<Rightarrow> db \<Rightarrow> bool response" where
  "set_fallback_setting enabled ctx s =
     bind_err (require (authorize_manage_ai_provider_settings ctx) s) (\<lambda>_ s.
     set_fallback_enabled_for_customer (cc_customer_id ctx) enabled s)"

record budget_status_out =
  bso_year_month :: string
  bso_soft_cap_usd :: rat
  bso_hard_cap_usd :: rat
  bso_spent_usd :: rat
  bso_over_soft_budget :: bool

definition get_ai_budget_status :: "ai_settings \<Rightarrow> customer_context \<Rightarrow> db \<Rightarrow> budget_status_out response" where
  "get_ai_budget_status settings ctx s =
     bind_err (require (authorize_view_ai_budget ctx) s) (\<lambda>_ s.
     (let (status, s) = get_budget_status settings (cc_customer_id ctx) s in
      ok \<lparr>bso_year_month = bs_year_month status,
          bso_soft_cap_usd = of_int (bs_soft_cap_cents status) / cents_per_dollar,
          bso_hard_cap_usd = of_int (bs_hard_cap_cents status) / cents_per_dollar,
          bso_spent_usd = of_int (bs_spent_cents status) / cents_per_dollar,
          bso_over_soft_budget = bs_over_soft_budget status\<rparr> s))"

record usage_report_row_out =
  uro_workspace_id :: uuid
  uro_workspace_name :: string
  uro_provider :: provider
  uro_model :: string
  uro_cost_usd :: rat
  uro_event_count :: nat

text \<open>The month of the query is absent, or four digits, a hyphen and two digits.\<close>

definition is_month_text :: "string \<Rightarrow> bool" where
  "is_month_text m \<longleftrightarrow> length m = 7 \<and> m ! 4 = CHR ''-''
     \<and> (\<forall>c \<in> set (take 4 m @ drop 5 m). is_digit_char c)"

definition get_ai_usage_report :: "string option \<Rightarrow> customer_context \<Rightarrow> db \<Rightarrow> usage_report_row_out list response" where
  "get_ai_usage_report year_month ctx s =
     (if \<not> (case year_month of None \<Rightarrow> True | Some m \<Rightarrow> is_month_text m)
      then raise (HttpException 422 ''year_month'') s
      else
        bind_err (require (authorize_view_ai_budget ctx) s) (\<lambda>_ s.
        (let (resolved_month, s) = (case year_month of None \<Rightarrow> current_year_month s | Some m \<Rightarrow> (m, s)) in
         bind_err (from_sum (get_usage_report (cc_customer_id ctx) resolved_month s) s) (\<lambda>rows s.
         ok (map (\<lambda>r. \<lparr>uro_workspace_id = ub_workspace_id r, uro_workspace_name = ub_workspace_name r,
               uro_provider = ub_provider r, uro_model = ub_model r,
               uro_cost_usd = of_int (ub_cost_cents r) / cents_per_dollar,
               uro_event_count = ub_event_count r\<rparr>) rows) s))))"

type_synonym preference_out = "provider option \<times> string option"

definition get_my_ai_preference :: "customer_context \<Rightarrow> db \<Rightarrow> preference_out response" where
  "get_my_ai_preference ctx s =
     ok (case get_user_ai_preference (cc_customer_id ctx) (cc_user_id ctx) s of
           None \<Rightarrow> (None, None) | Some pref \<Rightarrow> (Some (uap_provider pref), uap_model pref)) s"

definition set_my_ai_preference ::
  "provider \<Rightarrow> string option \<Rightarrow> customer_context \<Rightarrow> db \<Rightarrow> preference_out response" where
  "set_my_ai_preference p model ctx s =
     bind_err (set_user_ai_preference (cc_customer_id ctx) (cc_user_id ctx) p model s) (\<lambda>(p, model) s.
     ok (Some p, model) s)"

definition clear_my_ai_preference :: "customer_context \<Rightarrow> db \<Rightarrow> unit response" where
  "clear_my_ai_preference ctx s = ok () (clear_user_ai_preference (cc_customer_id ctx) (cc_user_id ctx) s)"

definition get_workspace_preference :: "request_context \<Rightarrow> db \<Rightarrow> preference_out response" where
  "get_workspace_preference ctx s =
     bind_err (require (authorize_use_chat (rc_workspace ctx)) s) (\<lambda>_ s.
     ok (case get_workspace_ai_preference (wc_workspace_id (rc_workspace ctx)) s of
           None \<Rightarrow> (None, None) | Some pref \<Rightarrow> (Some (wap_provider pref), wap_model pref)) s)"

definition set_workspace_preference ::
  "provider \<Rightarrow> string option \<Rightarrow> request_context \<Rightarrow> db \<Rightarrow> preference_out response" where
  "set_workspace_preference p model ctx s =
     bind_err (require (authorize_manage_workspace_ai_preference (rc_workspace ctx)) s) (\<lambda>_ s.
     bind_err (set_workspace_ai_preference (wc_workspace_id (rc_workspace ctx)) (wc_customer_id (rc_workspace ctx))
                 p model s) (\<lambda>(p, model) s.
     ok (Some p, model) s))"

definition clear_workspace_preference :: "request_context \<Rightarrow> db \<Rightarrow> unit response" where
  "clear_workspace_preference ctx s =
     bind_err (require (authorize_manage_workspace_ai_preference (rc_workspace ctx)) s) (\<lambda>_ s.
     ok () (clear_workspace_ai_preference (wc_workspace_id (rc_workspace ctx)) s))"

section \<open>Conversations of another workspace\<close>

interpretation conversation_guard: tenant_guard "\<lambda>i s. tget cv_id i (conversation_conversations s)"
    cv_workspace_id "\<lambda>ctx. wc_workspace_id (rc_workspace ctx)" get_owned_conversation
    "HttpException 404 ''conversation not found''"
  by unfold_locales (simp_all add: get_owned_conversation_def)

lemma foreign_conversation_refused:
  assumes "authorize_use_chat (rc_workspace ctx) = None"
    and "\<And>c. tget cv_id i (conversation_conversations s) = Some c \<Longrightarrow> cv_workspace_id c \<noteq> wc_workspace_id (rc_workspace ctx)"
  shows "list_conversation_messages i ctx s = raise (HttpException 404 ''conversation not found'') s"
    and "switch_provider i p model ctx s = raise (HttpException 404 ''conversation not found'') s"
    and "post_conversation_message adapters world settings gone trace i content mode ctx s
       = raise (HttpException 404 ''conversation not found'') s"
  using conversation_guard.guard_refuses [of i s ctx, OF assms(2)] assms(1)
  by (simp_all add: list_conversation_messages_def switch_provider_def post_conversation_message_def)

section \<open>What a client reads\<close>

text \<open>A reader of an event stream: a field per line, an empty line ends an event.\<close>

fun read_events :: "string \<Rightarrow> string \<Rightarrow> string \<Rightarrow> string \<Rightarrow> (string \<times> string) list" where
  "read_events event data line [] = []"
| "read_events event data line (c # cs) =
     (if c \<noteq> CHR 0x0A then read_events event data (line @ [c]) cs
      else if line = [] then (event, data) # read_events [] [] [] cs
      else if take 7 line = ''event: '' then read_events (drop 7 line) data [] cs
      else if take 6 line = ''data: '' then read_events event (drop 6 line) [] cs
      else read_events event data [] cs)"

definition one_line :: "string \<Rightarrow> bool" where
  "one_line t \<longleftrightarrow> CHR 0x0A \<notin> set t"

definition visible :: "char \<Rightarrow> bool" where
  "visible c \<longleftrightarrow> 32 \<le> (of_char c :: nat)"

lemma esc_char_visible: "d \<in> set (esc_char c) \<Longrightarrow> visible d"
proof -
  have hex: "visible (hex_digit (n mod 16))" "visible (hex_digit (of_char c div 16))" for n
  proof -
    have low: "visible (hex_digit m)" if "m < 16" for m
      using that by (auto simp: visible_def hex_digit_def)
    have "(of_char c :: nat) < 256" by (rule of_char_less_256)
    then show "visible (hex_digit (n mod 16))" "visible (hex_digit (of_char c div 16))"
      by (auto intro!: low)
  qed
  assume "d \<in> set (esc_char c)"
  then show "visible d"
    using hex by (auto simp: esc_char_def Let_def visible_def split: if_splits)
qed

lemma quote_visible: "c \<in> set (json_quote t) \<Longrightarrow> visible c"
  by (auto simp: json_quote_def esc_char_visible) (simp_all add: visible_def)

lemma dec_int_visible: "c \<in> set (dec_int i) \<Longrightarrow> visible c"
  by (auto simp: dec_int_def visible_def is_digit_char_def dest!: dec_nat_digits split: if_splits)

lemma join_with_set: "c \<in> set (join_with sep ts) \<Longrightarrow> c \<in> set sep \<or> (\<exists>t \<in> set ts. c \<in> set t)"
  by (induction sep ts rule: join_with.induct) auto

lemma json_dumps_visible: "c \<in> set (json_dumps j) \<Longrightarrow> visible c"
proof (induction j rule: json_dumps.induct)
  case (5 xs)
  then show ?case by (auto dest!: join_with_set simp: visible_def)
next
  case (6 kvs)
  then show ?case
    by (auto dest!: join_with_set quote_visible simp: visible_def)
qed (auto simp: dec_int_visible quote_visible, auto simp: visible_def split: if_splits)

lemma json_dumps_one_line: "one_line (json_dumps j)"
  using json_dumps_visible [of "CHR 0x0A" j] by (auto simp: one_line_def visible_def)

lemma read_line: "one_line t \<Longrightarrow> read_events event data line (t @ cs) = read_events event data (line @ t) cs"
  by (induction t arbitrary: line) (auto simp: one_line_def)

lemma read_frame:
  assumes "one_line event"
  shows "read_events [] [] [] (sse_frame event data @ cs) = (event, json_dumps data) # read_events [] [] [] cs"
proof -
  have e: "one_line (''event: '' @ event)" and d: "one_line (''data: '' @ json_dumps data)"
    using assms json_dumps_one_line [of data] by (auto simp: one_line_def)
  have "read_events [] [] [] (sse_frame event data @ cs)
      = read_events [] [] [] ((''event: '' @ event) @ newline @ (''data: '' @ json_dumps data) @ newline @ newline @ cs)"
    by (simp add: sse_frame_def)
  also have "\<dots> = read_events event [] [] ((''data: '' @ json_dumps data) @ newline @ newline @ cs)"
    unfolding read_line [OF e] by (simp add: newline_def)
  also have "\<dots> = (event, json_dumps data) # read_events [] [] [] cs"
    unfolding read_line [OF d] by (simp add: newline_def)
  finally show ?thesis .
qed

primrec chunk_event :: "turn_chunk \<Rightarrow> string \<times> string" where
  "chunk_event (Chunk_text text) = (''text'', json_dumps (JObj [(''text'', JStr text)]))"
| "chunk_event (Chunk_tool_status text) = (''tool_status'', json_dumps (JObj [(''text'', JStr text)]))"
| "chunk_event (Chunk_done m) = (''done'', json_dumps (JObj [(''message'', message_out_json (to_message_out m))]))"

lemma read_chunk: "read_events [] [] [] (chunk_frame ch @ cs) = chunk_event ch # read_events [] [] [] cs"
  by (cases ch) (simp_all add: read_frame one_line_def del: json_dumps.simps)

lemma read_chunks: "read_events [] [] [] (concat (map chunk_frame chs) @ cs) = map chunk_event chs @ read_events [] [] [] cs"
  by (induction chs) (simp_all add: read_chunk)


section \<open>A month that is none\<close>

lemma month_thirteen_is_not_refused:
  assumes "authorize_view_ai_budget ctx = None"
  shows "get_ai_usage_report (Some ''2026-13'') ctx s = raise (Unhandled ''ValueError'') s"
  using assms by (simp add: get_ai_usage_report_def is_month_text_def is_digit_char_def get_usage_report_def
      month_bounds_utc_def dec_value_def digit_value_def from_sum_def raise_def)

section \<open>Properties\<close>

text \<open>
  A client that reads the reply of a turn as an event stream, until it ends or until the client
  goes away, reads back exactly what the turn yielded: one event for each item, and a last one if
  the turn failed after it had begun to answer.
\<close>

theorem reply_is_read_back:
  "read_events [] [] [] (concat (body_frames gone_at trace r))
     = map chunk_event (case gone_at of Some (Suc i) \<Rightarrow> take i (sm_chunks r) | _ \<Rightarrow> sm_chunks r)
       @ (if sm_error r = None \<or> (\<exists>i. gone_at = Some (Suc i) \<and> i < length (sm_chunks r)) then []
          else [(''error'', json_dumps (JObj [(''code'', JStr ''AI_STREAM_ERROR''),
                  (''message'', JStr ''Suhbat davomida xato yuz berdi.''),
                  (''trace_id'', JStr (uuid_str trace)), (''retryable'', JBool True)]))])"
proof -
  have all: "read_events [] [] [] (concat (map chunk_frame chs)) = map chunk_event chs" for chs
    using read_chunks [of chs "[]"] by simp
  have err: "read_events [] [] [] (error_frame code message trace retryable)
      = [(''error'', json_dumps (JObj [(''code'', JStr code), (''message'', JStr message),
          (''trace_id'', JStr (uuid_str trace)), (''retryable'', JBool retryable)]))]" for code message retryable
    using read_frame [of "''error''" _ "[]"] by (simp add: error_frame_def one_line_def del: json_dumps.simps)
  show ?thesis
  proof (cases "\<exists>i. gone_at = Some (Suc i)")
    case True
    then show ?thesis by (auto simp: body_frames_def all err read_chunks simp del: json_dumps.simps)
  next
    case False
    then show ?thesis
      by (auto simp: body_frames_def all err read_chunks simp del: json_dumps.simps split: option.splits nat.splits)
  qed
qed

text \<open>
  A turn that fails before it has said anything leaves no trace, although a model was asked and
  may have been paid: the usage event that accounts for it is rolled back with everything else.
\<close>

theorem early_failure_is_not_accounted:
  assumes "authorize_use_chat (rc_workspace ctx) = None"
    and conversation: "tget cv_id i (conversation_conversations s) = Some conversation"
      "cv_workspace_id conversation = wc_workspace_id (rc_workspace ctx)"
    and started: "begin_turn world settings conversation (rc_workspace ctx) content mode s = (Inr start, s1)"
    and prices: "\<And>p. priced p (default_model_for p settings)"
    and r: "r = stream_message adapters world settings gone conversation (rc_workspace ctx) content mode trace s"
      "sm_chunks r = []" "sm_error r = Some e"
  shows "\<exists>event t. ai_usage_events (sm_db r) = ai_usage_events s @ [event] \<and> ue_status event = U_REFUNDED
     \<and> run_tx (post_conversation_message adapters world settings gone trace i content mode ctx) s = (Inl e, t)
     \<and> same_tables s t"
proof -
  obtain u cost made where kept: "chat_kept s1 u" and made: "made = record_usage_event (wc_customer_id (rc_workspace ctx))
        (wc_workspace_id (rc_workspace ctx)) (Some (cv_id conversation)) trace
        (user_actor (wc_user_id (rc_workspace ctx))) (ue_provider (fst made)) (ue_model (fst made)) mode
        \<lparr>gu_input_tokens = ue_input_tokens (fst made), gu_output_tokens = ue_output_tokens (fst made),
         gu_cached_input_tokens = ue_cached_input_tokens (fst made)\<rparr> (st_estimate start) cost
        (if sm_error r = None then U_RECONCILED else U_REFUNDED)
        (reconcile_budget (wc_customer_id (rc_workspace ctx)) (st_estimate start) cost u)" and db: "sm_db r = snd made"
    by (rule turn_end [OF started prices r(1)])
  have M: "ai_usage_events (snd made)
        = ai_usage_events (reconcile_budget (wc_customer_id (rc_workspace ctx)) (st_estimate start) cost u) @ [fst made]"
      "ue_status (fst made) = U_REFUNDED"
    by (subst (1 2) made, rule usage_event_effect) (subst made, simp add: usage_event_effect r(3))
  have "ai_usage_events s1 = ai_usage_events s"
    using begin_turn_ok(6) [OF started] by (auto simp: reserve_budget_iff Let_def add_message_def row_defaults_def)
  then have events: "ai_usage_events (sm_db r) = ai_usage_events s @ [fst made]"
    using kept by (simp add: db M reconcile_budget_frame chat_kept_def)
  let ?post = "post_conversation_message adapters world settings gone trace i content mode ctx"
  have "?post s = (Inl e, sm_db r)"
    using assms(1) conversation r by (simp add: post_conversation_message_def get_owned_conversation_def Let_def raise_def)
  then have "fst (run_tx ?post s) = Inl e" by simp
  moreover then have "same_tables s (snd (run_tx ?post s))"
    using run_tx_raises_same_tables [of ?post s e] by simp
  ultimately show ?thesis using events M(2) by (metis prod.collapse)
qed

text \<open>The sample conversation with a key of OpenAI that its server refuses.\<close>

definition refused_settings :: ai_settings where
  "refused_settings = default_ai_settings\<lparr>openai_api_key := Some ''k''\<rparr>"

definition refusing :: adapters where
  "refusing = (\<lambda>_ _ _. ([], Some (ModelAuthenticationError, [])))"

definition sample_chat_db :: db where
  "sample_chat_db = empty_db\<lparr>conversation_conversations := [sample_conversation]\<rparr>"

definition sample_chat_ctx :: request_context where
  "sample_chat_ctx = \<lparr>rc_workspace = sample_chatter, rc_auth_strength = AAL1\<rparr>"

lemma refused_begin:
  "\<exists>s1. begin_turn sample_tools refused_settings sample_conversation sample_chatter ''ha'' FAST sample_chat_db
     = (Inr sample_start, s1)"
  by (simp add: begin_turn_def sample_no_secret sample_conversation_def sample_chatter_def default_ai_settings_def
     refused_settings_def sample_chat_db_def add_message_def row_defaults_def Let_def
     resolve_effective_language_def response_language_instruction_def language_names_uz_def from_sum_def
     resolve_provider_choice_def assert_provider_enabled_def is_provider_enabled_for_customer_def
     list_messages_def messages_to_history_def message_turn_def user_message_def
     estimate_turn_cents_def estimate_input_tokens_from_chars_def plain_turn_def
     sample_cost [unfolded One_nat_def] reserve_budget_def ledger_defs hard_cap_cents_def cents_per_dollar_def py_round_def
     sample_start_def ok_def)

lemma refused_stream:
  "sm_chunks (stream_message refusing sample_tools refused_settings None sample_conversation sample_chatter
      ''ha'' FAST 9 sample_chat_db) = []"
  "sm_error (stream_message refusing sample_tools refused_settings None sample_conversation sample_chatter
      ''ha'' FAST 9 sample_chat_db) = Some ModelAuthenticationError"
proof -
  obtain s1 where s1: "begin_turn sample_tools refused_settings sample_conversation sample_chatter ''ha'' FAST
      sample_chat_db = (Inr sample_start, s1)"
    using refused_begin by blast
  define env where "env = env_of refusing sample_tools refused_settings None sample_conversation sample_chatter FAST 9 sample_start"
  have rounds: "nat (ai_max_tool_rounds (te_settings env)) = 4"
    by (simp add: env_def refused_settings_def default_ai_settings_def)
  have four: "run_rounds 4 e t = bind_err (run_round e t) (\<lambda>r t.
       case r of Some m \<Rightarrow> ok m t | None \<Rightarrow> run_rounds 3 e (t\<lparr>tn_round := Suc (tn_round t)\<rparr>))" for e t
    using run_rounds.simps(2) [of 3 e t] by (simp del: run_rounds.simps)
  have reply: "get_gateway (te_adapters env) OPENAI (te_settings env) n q = ([], Some (ModelAuthenticationError, []))" for n q
    by (simp add: env_def get_gateway_def refused_settings_def) (simp add: env_of_def refusing_def)
  obtain u where u: "turn_loop False env (turn_of sample_start s1) = raise ModelAuthenticationError u"
      "tn_chunks u = []" "tn_provider u = OPENAI" "tn_model u = ''gpt-5-mini''" "gu_input_tokens (tn_usage u) = 0"
      "gu_output_tokens (tn_usage u) = 0"
  proof
    let ?t = "turn_of sample_start s1"
    show "turn_loop False env ?t = raise ModelAuthenticationError
        (?t\<lparr>tn_calls := [(OPENAI, turn_request env ?t)]\<rparr>)"
      by (simp add: turn_loop.simps rounds four run_round_def call_gateway_def Let_def turn_of_def sample_start_def reply
          may_fall_back_def is_transient_def turn_request_def raise_def del: run_rounds.simps)
  qed (simp_all add: turn_of_def sample_start_def)
  have "\<exists>v. finish_turn env (turn_of sample_start s1) = (Inl ModelAuthenticationError, v) \<and> tn_chunks v = []"
    by (simp add: finish_turn_def reconcile_and_record_def u zero_cost Let_def raise_def)
  then show "sm_chunks (stream_message refusing sample_tools refused_settings None sample_conversation sample_chatter
      ''ha'' FAST 9 sample_chat_db) = []"
    "sm_error (stream_message refusing sample_tools refused_settings None sample_conversation sample_chatter
      ''ha'' FAST 9 sample_chat_db) = Some ModelAuthenticationError"
    using stream_message_ok [OF s1] unfolding env_def by auto
qed

theorem early_failure_is_not_accounted_witness:
  "\<exists>t. run_tx (post_conversation_message refusing sample_tools refused_settings None 9 5 ''ha'' FAST sample_chat_ctx)
       sample_chat_db = (Inl ModelAuthenticationError, t) \<and> same_tables sample_chat_db t"
proof -
  obtain s1 where s1: "begin_turn sample_tools refused_settings sample_conversation (rc_workspace sample_chat_ctx) ''ha''
      FAST sample_chat_db = (Inr sample_start, s1)"
    using refused_begin by (auto simp: sample_chat_ctx_def)
  have priced: "priced p (default_model_for p refused_settings)" for p
    by (cases p) (simp_all add: priced_def refused_settings_def default_ai_settings_def)
  have "authorize_use_chat (rc_workspace sample_chat_ctx) = None"
      "tget cv_id 5 (conversation_conversations sample_chat_db) = Some sample_conversation"
      "cv_workspace_id sample_conversation = wc_workspace_id (rc_workspace sample_chat_ctx)"
    by (simp_all add: authorize_use_chat_def sample_chat_ctx_def sample_chatter_def sample_chat_db_def sample_conversation_def)
  moreover have "rc_workspace sample_chat_ctx = sample_chatter" by (simp add: sample_chat_ctx_def)
  ultimately show ?thesis
    using early_failure_is_not_accounted [OF _ _ _ s1 priced refl refused_stream [folded \<open>rc_workspace sample_chat_ctx = sample_chatter\<close>],
        where i = 5]
    by auto
qed

end
