(* ===== verification/Gateways.thy ===== *)
theory Gateways
  imports Ai_Settings "HOL-Library.Sublist"
begin

text \<open>
  The three adapters of \<open>doda/infrastructure\<close> (\<open>openai_gateway.py\<close>, \<open>gemini_gateway.py\<close>,
  \<open>claude_gateway.py\<close>): how the neutral history, tools and limits become a provider's request, how
  the provider's stream becomes neutral events, and how an exception of its SDK becomes an error of
  \<open>ai/errors.py\<close>.  The SDKs are parameters: a function from the request to what it raises or
  streams.  \<open>json.loads\<close> and \<open>float\<close> are parameters too, since neither of the values they return
  (floating point numbers) is one of the model.
\<close>

section \<open>What an SDK raises\<close>

text \<open>
  An exception is what the adapters ask of it: the class name, the answers of their \<open>isinstance\<close>
  tests, the status code of an API status error, the type or message it reports, and the
  \<open>retry-after\<close> header of its response.
\<close>

record sdk_exception =
  sx_class :: string
  sx_authentication :: bool
  sx_rate_limit :: bool
  sx_timeout :: bool
  sx_status :: "int option"
  sx_type :: "string option"
  sx_message :: "string option"
  sx_retry_after :: "string option"

definition json_decode_error :: sdk_exception where
  "json_decode_error =
     \<lparr>sx_class = ''JSONDecodeError'', sx_authentication = False, sx_rate_limit = False, sx_timeout = False,
      sx_status = None, sx_type = None, sx_message = None, sx_retry_after = None\<rparr>"

text \<open>A call raises, or streams events and then ends or raises.\<close>

type_synonym 'e sdk_reply = "sdk_exception + 'e list \<times> sdk_exception option"

text \<open>An error of the neutral layer, with its text.\<close>

type_synonym model_error = "app_error \<times> string"

definition parse_retry_after_header :: "(string \<Rightarrow> rat option) \<Rightarrow> sdk_exception \<Rightarrow> rat option" where
  "parse_retry_after_header float exc = (case sx_retry_after exc of None \<Rightarrow> None | Some raw \<Rightarrow> float raw)"

section \<open>Streams\<close>

text \<open>
  An adapter's loop over a stream: every event yields some neutral events, may end the loop with an
  error, and changes the local variables.
\<close>

fun run_stream ::
  "('e \<Rightarrow> 's \<Rightarrow> gateway_event list \<times> model_error option \<times> 's) \<Rightarrow> 'e list \<Rightarrow> 's
     \<Rightarrow> gateway_event list \<times> model_error option \<times> 's" where
  "run_stream step [] s = ([], None, s)"
| "run_stream step (e # es) s =
     (case step e s of
        (out, Some err, t) \<Rightarrow> (out, Some err, t)
      | (out, None, t) \<Rightarrow> (case run_stream step es t of (out', r, u) \<Rightarrow> (out @ out', r, u)))"

definition next_event :: "'s \<Rightarrow> gateway_event list \<times> model_error option \<times> 's" where
  "next_event s = ([], None, s)"

definition emit :: "gateway_event \<Rightarrow> 's \<Rightarrow> gateway_event list \<times> model_error option \<times> 's" where
  "emit e s = ([e], None, s)"

definition no_usage :: gateway_usage where
  "no_usage = \<lparr>gu_input_tokens = 0, gu_output_tokens = 0, gu_cached_input_tokens = 0\<rparr>"

definition or_zero :: "int option \<Rightarrow> int" where
  "or_zero n = (case n of None \<Rightarrow> 0 | Some n \<Rightarrow> n)"

definition opt_str :: "string option \<Rightarrow> json" where
  "opt_str x = (case x of None \<Rightarrow> JNull | Some text \<Rightarrow> JStr text)"

definition calls_of :: "chat_turn \<Rightarrow> tool_call_request list" where
  "calls_of turn = (case turn_tool_calls turn of None \<Rightarrow> [] | Some calls \<Rightarrow> calls)"

section \<open>Claude\<close>

definition claude_structured_tool :: string where
  "claude_structured_tool = ''__doda_structured_output__''"

definition to_claude_message :: "(string \<Rightarrow> json option) \<Rightarrow> chat_turn \<Rightarrow> json option" where
  "to_claude_message loads turn =
     (if turn_role turn = Role_TOOL then
        Some (JObj [(''role'', JStr ''user''),
          (''content'', JArr [JObj [(''type'', JStr ''tool_result''),
             (''tool_use_id'', opt_str (turn_tool_call_id turn)), (''content'', JStr (turn_content turn))]])])
      else if calls_of turn \<noteq> [] then
        map_option (\<lambda>blocks. JObj [(''role'', JStr ''assistant''), (''content'', JArr blocks)])
          (those (map (\<lambda>call. map_option (\<lambda>args. JObj [(''type'', JStr ''tool_use''), (''id'', JStr (call_id call)),
               (''name'', JStr (call_name call)), (''input'', args)]) (loads (call_arguments_json call)))
             (calls_of turn)))
      else
        Some (JObj [(''role'', JStr (if turn_role turn = Role_USER then ''user'' else ''assistant'')),
          (''content'', JStr (turn_content turn))]))"

definition to_claude_messages :: "(string \<Rightarrow> json option) \<Rightarrow> chat_turn list \<Rightarrow> json list option" where
  "to_claude_messages loads history = those (map (to_claude_message loads) history)"

definition to_claude_tool :: "tool_spec \<Rightarrow> json" where
  "to_claude_tool tool =
     JObj [(''name'', JStr (ts_name tool)), (''description'', JStr (ts_description tool)),
           (''input_schema'', ts_parameters_schema tool)]"

definition to_claude_tools :: "tool_spec list \<Rightarrow> json list" where
  "to_claude_tools tools = map to_claude_tool tools"

definition claude_translate_error :: "(string \<Rightarrow> rat option) \<Rightarrow> sdk_exception \<Rightarrow> model_error" where
  "claude_translate_error float exc =
     (if sx_authentication exc then (ModelAuthenticationError, ''Claude rejected the configured API key'')
      else if sx_rate_limit exc
      then (ModelRateLimitedError (parse_retry_after_header float exc), ''Claude rate-limited this request'')
      else if sx_timeout exc
      then (ModelTimeoutError, ''Claude did not respond within the configured timeout'')
      else case sx_status exc of
             Some code \<Rightarrow> (ModelProviderError (Some code), ''Claude returned an error: '' @ sx_class exc)
           | None \<Rightarrow> (ModelProviderError None, ''Claude request failed: '' @ sx_class exc))"

text \<open>The keyword arguments of \<open>messages.create\<close>, in the order they are set.\<close>

definition claude_request ::
  "(string \<Rightarrow> json option) \<Rightarrow> gateway_request \<Rightarrow> json option \<Rightarrow> json option" where
  "claude_request loads request schema =
     map_option (\<lambda>messages.
       let claude_tools = to_claude_tools (gr_tools request)
             @ (case schema of None \<Rightarrow> []
                | Some sch \<Rightarrow> [JObj [(''name'', JStr claude_structured_tool),
                    (''description'', JStr (''Return the final answer as structured data ''
                       @ ''matching the required schema.'')),
                    (''input_schema'', sch)]])
       in JObj ([(''model'', JStr (gr_model request)), (''max_tokens'', JInt (gr_max_output_tokens request)),
                 (''messages'', JArr messages), (''stream'', JBool True)]
            @ (if gr_instructions request = [] then [] else [(''system'', JStr (gr_instructions request))])
            @ (case schema of None \<Rightarrow> []
               | Some _ \<Rightarrow> [(''tool_choice'',
                   JObj [(''type'', JStr ''tool''), (''name'', JStr claude_structured_tool)])])
            @ (if claude_tools = [] then [] else [(''tools'', JArr claude_tools)])))
       (to_claude_messages loads (gr_history request))"

datatype claude_block = Tool_use_block string string | Other_block

datatype claude_delta = Text_delta string | Input_json_delta string | Other_delta

datatype claude_event =
    Message_start int "int option"
  | Content_block_start nat claude_block
  | Content_block_delta nat claude_delta
  | Content_block_stop nat
  | Message_delta int "string option"
  | Other_claude_event

record claude_state =
  cs_blocks :: "nat \<Rightarrow> (string \<times> string) option"
  cs_json :: "nat \<Rightarrow> string option"
  cs_usage :: gateway_usage
  cs_stop :: "string option"

definition claude_start :: claude_state where
  "claude_start = \<lparr>cs_blocks = (\<lambda>_. None), cs_json = (\<lambda>_. None), cs_usage = no_usage, cs_stop = None\<rparr>"

definition collected :: "nat \<Rightarrow> claude_state \<Rightarrow> string" where
  "collected i s = (case cs_json s i of None \<Rightarrow> [] | Some text \<Rightarrow> text)"

definition finished_call :: "nat \<Rightarrow> string \<times> string \<Rightarrow> claude_state \<Rightarrow> tool_call_request" where
  "finished_call i info s =
     \<lparr>call_id = fst info, call_name = snd info,
      call_arguments_json = (if collected i s = [] then ''{}'' else collected i s)\<rparr>"

definition claude_step ::
  "(string \<Rightarrow> json option) \<Rightarrow> (string \<Rightarrow> rat option) \<Rightarrow> claude_event \<Rightarrow> claude_state
     \<Rightarrow> gateway_event list \<times> model_error option \<times> claude_state" where
  "claude_step loads float event s =
     (case event of
        Message_start tokens cached \<Rightarrow>
          next_event (s\<lparr>cs_usage := \<lparr>gu_input_tokens = tokens, gu_output_tokens = 0,
            gu_cached_input_tokens = or_zero cached\<rparr>\<rparr>)
      | Content_block_start i block \<Rightarrow>
          (case block of
             Tool_use_block block_id name \<Rightarrow>
               next_event (s\<lparr>cs_blocks := (cs_blocks s)(i \<mapsto> (block_id, name)), cs_json := (cs_json s)(i \<mapsto> [])\<rparr>)
           | Other_block \<Rightarrow> next_event s)
      | Content_block_delta i delta \<Rightarrow>
          (case delta of
             Text_delta text \<Rightarrow> emit (TextDelta text) s
           | Input_json_delta part \<Rightarrow> next_event (s\<lparr>cs_json := (cs_json s)(i \<mapsto> collected i s @ part)\<rparr>)
           | Other_delta \<Rightarrow> next_event s)
      | Content_block_stop i \<Rightarrow>
          (case cs_blocks s i of
             None \<Rightarrow> next_event s
           | Some info \<Rightarrow>
               let call = finished_call i info s in
               if snd info = claude_structured_tool then
                 (case loads (call_arguments_json call) of
                    None \<Rightarrow> ([], Some (claude_translate_error float json_decode_error), s)
                  | Some data \<Rightarrow> emit (StructuredOutputReady data) s)
               else emit (ToolCallReady call) s)
      | Message_delta tokens reason \<Rightarrow>
          next_event (s\<lparr>cs_usage := (cs_usage s)\<lparr>gu_output_tokens := tokens\<rparr>,
            cs_stop := (case reason of None \<Rightarrow> cs_stop s | Some _ \<Rightarrow> reason)\<rparr>)
      | Other_claude_event \<Rightarrow> next_event s)"

definition claude_finish_reason :: "string option \<Rightarrow> string" where
  "claude_finish_reason reason =
     (if reason = Some ''tool_use'' then ''tool_calls''
      else if reason = Some ''max_tokens'' then ''length'' else ''stop'')"

definition claude_stream_chat ::
  "(string \<Rightarrow> json option) \<Rightarrow> (string \<Rightarrow> rat option) \<Rightarrow> (json \<Rightarrow> claude_event sdk_reply)
     \<Rightarrow> json option \<Rightarrow> gateway_request \<Rightarrow> gateway_reply" where
  "claude_stream_chat loads float sdk schema request =
     (case claude_request loads request schema of
        None \<Rightarrow> ([], Some (Unhandled ''JSONDecodeError'', []))
      | Some kwargs \<Rightarrow>
         (case sdk kwargs of
            Inl exc \<Rightarrow> ([], Some (claude_translate_error float exc))
          | Inr (events, failure) \<Rightarrow>
             (case run_stream (claude_step loads float) events claude_start of
                (out, Some err, _) \<Rightarrow> (out, Some err)
              | (out, None, s) \<Rightarrow>
                 (case failure of
                    Some exc \<Rightarrow> (out, Some (claude_translate_error float exc))
                  | None \<Rightarrow> (out @ [Completed (cs_usage s) (claude_finish_reason (cs_stop s))], None)))))"

section \<open>OpenAI\<close>

definition to_openai_items :: "chat_turn \<Rightarrow> json list" where
  "to_openai_items turn =
     (if turn_role turn = Role_TOOL then
        [JObj [(''type'', JStr ''function_call_output''), (''call_id'', opt_str (turn_tool_call_id turn)),
               (''output'', JStr (turn_content turn))]]
      else if calls_of turn \<noteq> [] then
        map (\<lambda>call. JObj [(''type'', JStr ''function_call''), (''call_id'', JStr (call_id call)),
               (''name'', JStr (call_name call)), (''arguments'', JStr (call_arguments_json call))]) (calls_of turn)
      else
        [JObj [(''role'', JStr (if turn_role turn = Role_USER then ''user'' else ''assistant'')),
               (''content'', JStr (turn_content turn))]])"

definition to_openai_input :: "chat_turn list \<Rightarrow> json list" where
  "to_openai_input history = concat (map to_openai_items history)"

definition to_openai_tools :: "tool_spec list \<Rightarrow> json list" where
  "to_openai_tools tools =
     map (\<lambda>tool. JObj [(''type'', JStr ''function''), (''name'', JStr (ts_name tool)),
            (''description'', JStr (ts_description tool)), (''parameters'', ts_parameters_schema tool),
            (''strict'', JBool False)]) tools"

definition openai_translate_error :: "(string \<Rightarrow> rat option) \<Rightarrow> sdk_exception \<Rightarrow> model_error" where
  "openai_translate_error float exc =
     (if sx_authentication exc then (ModelAuthenticationError, ''OpenAI rejected the configured API key'')
      else if sx_rate_limit exc
      then (ModelRateLimitedError (parse_retry_after_header float exc), ''OpenAI rate-limited this request'')
      else if sx_timeout exc
      then (ModelTimeoutError, ''OpenAI did not respond within the configured timeout'')
      else case sx_status exc of
             Some code \<Rightarrow>
               (ModelProviderError (Some code), ''OpenAI returned an error: '' @ str_or (sx_type exc) (sx_class exc))
           | None \<Rightarrow> (ModelProviderError None, ''OpenAI request failed: '' @ sx_class exc))"

definition openai_structured_name :: string where
  "openai_structured_name = ''doda_structured_output''"

definition openai_request :: "gateway_request \<Rightarrow> json option \<Rightarrow> json" where
  "openai_request request schema =
     JObj ([(''model'', JStr (gr_model request)), (''instructions'', JStr (gr_instructions request)),
            (''input'', JArr (to_openai_input (gr_history request))),
            (''max_output_tokens'', JInt (gr_max_output_tokens request)),
            (''stream'', JBool True), (''store'', JBool False)]
       @ (if gr_tools request = [] then [] else [(''tools'', JArr (to_openai_tools (gr_tools request)))])
       @ (case schema of None \<Rightarrow> []
          | Some sch \<Rightarrow> [(''text'', JObj [(''format'', JObj [(''type'', JStr ''json_schema''),
              (''name'', JStr openai_structured_name), (''schema'', sch), (''strict'', JBool True)])])]))"

datatype openai_item =
    Function_call_item "string option" string string
  | Message_item "string option list"
  | Other_item

record openai_response =
  or_status :: string
  or_output :: "openai_item list"
  or_usage :: "gateway_usage option"

datatype openai_event =
    Output_text_delta string
  | Output_item_added openai_item
  | Function_call_arguments_done string string
  | Error_event string
  | Response_completed openai_response
  | Other_openai_event

type_synonym openai_state = "string \<Rightarrow> (string \<times> string) option"

definition has_function_call :: "openai_response \<Rightarrow> bool" where
  "has_function_call response =
     (\<exists>item \<in> set (or_output response). case item of Function_call_item _ _ _ \<Rightarrow> True | _ \<Rightarrow> False)"

text \<open>The parts of a message: its text, or \<open>None\<close> for a part that is not output text.\<close>

definition output_text :: "openai_response \<Rightarrow> string" where
  "output_text response =
     concat (concat (map (\<lambda>item. case item of
       Message_item parts \<Rightarrow> map (\<lambda>part. case part of None \<Rightarrow> [] | Some text \<Rightarrow> text) parts | _ \<Rightarrow> [])
       (or_output response)))"

definition openai_completed :: "openai_response \<Rightarrow> gateway_event" where
  "openai_completed response =
     Completed (case or_usage response of None \<Rightarrow> no_usage | Some usage \<Rightarrow> usage)
       (if has_function_call response then ''tool_calls''
        else if or_status response = ''incomplete'' then ''length'' else ''stop'')"

definition openai_step ::
  "(string \<Rightarrow> json option) \<Rightarrow> (string \<Rightarrow> rat option) \<Rightarrow> json option \<Rightarrow> openai_event \<Rightarrow> openai_state
     \<Rightarrow> gateway_event list \<times> model_error option \<times> openai_state" where
  "openai_step loads float schema event s =
     (case event of
        Output_text_delta text \<Rightarrow> emit (TextDelta text) s
      | Output_item_added item \<Rightarrow>
          (case item of
             Function_call_item (Some item_id) c name \<Rightarrow> next_event (s(item_id \<mapsto> (c, name)))
           | _ \<Rightarrow> next_event s)
      | Function_call_arguments_done item_id arguments \<Rightarrow>
          (case s item_id of
             None \<Rightarrow> next_event s
           | Some (c, name) \<Rightarrow>
               emit (ToolCallReady \<lparr>call_id = c, call_name = name, call_arguments_json = arguments\<rparr>) s)
      | Error_event message \<Rightarrow> ([], Some (ModelProviderError None, ''OpenAI stream error: '' @ message), s)
      | Response_completed response \<Rightarrow>
          (if schema \<noteq> None \<and> \<not> has_function_call response \<and> output_text response \<noteq> [] then
             (case loads (output_text response) of
                None \<Rightarrow> ([], Some (openai_translate_error float json_decode_error), s)
              | Some data \<Rightarrow> ([StructuredOutputReady data, openai_completed response], None, s))
           else emit (openai_completed response) s)
      | Other_openai_event \<Rightarrow> next_event s)"

definition openai_stream_chat ::
  "(string \<Rightarrow> json option) \<Rightarrow> (string \<Rightarrow> rat option) \<Rightarrow> (json \<Rightarrow> openai_event sdk_reply)
     \<Rightarrow> json option \<Rightarrow> gateway_request \<Rightarrow> gateway_reply" where
  "openai_stream_chat loads float sdk schema request =
     (case sdk (openai_request request schema) of
        Inl exc \<Rightarrow> ([], Some (openai_translate_error float exc))
      | Inr (events, failure) \<Rightarrow>
         (case run_stream (openai_step loads float schema) events (\<lambda>_. None) of
            (out, Some err, _) \<Rightarrow> (out, Some err)
          | (out, None, _) \<Rightarrow> (out, map_option (openai_translate_error float) failure)))"

section \<open>Gemini\<close>

datatype gemini_part =
    Part_text string
  | Part_function_call string json
  | Part_function_response string "(string \<times> string) list"

record gemini_content =
  gc_role :: string
  gc_parts :: "gemini_part list"

definition function_result_key :: string where
  "function_result_key = ''result''"

definition to_gemini_content :: "(string \<Rightarrow> json option) \<Rightarrow> chat_turn \<Rightarrow> gemini_content option" where
  "to_gemini_content loads turn =
     (if turn_role turn = Role_TOOL then
        Some \<lparr>gc_role = ''user'', gc_parts = [Part_function_response (str_or (turn_tool_call_id turn) [])
                [(function_result_key, turn_content turn)]]\<rparr>
      else if calls_of turn \<noteq> [] then
        map_option (\<lambda>parts. \<lparr>gc_role = ''model'', gc_parts = parts\<rparr>)
          (those (map (\<lambda>call. map_option (Part_function_call (call_name call)) (loads (call_arguments_json call)))
             (calls_of turn)))
      else Some \<lparr>gc_role = (if turn_role turn = Role_USER then ''user'' else ''model''),
                 gc_parts = [Part_text (turn_content turn)]\<rparr>)"

definition to_gemini_contents :: "(string \<Rightarrow> json option) \<Rightarrow> chat_turn list \<Rightarrow> gemini_content list option" where
  "to_gemini_contents loads history = those (map (to_gemini_content loads) history)"

record gemini_declaration =
  gd_name :: string
  gd_description :: string
  gd_parameters_json_schema :: json

text \<open>One tool with one declaration for each.\<close>

definition to_gemini_tools :: "tool_spec list \<Rightarrow> gemini_declaration list list" where
  "to_gemini_tools tools =
     map (\<lambda>tool. [\<lparr>gd_name = ts_name tool, gd_description = ts_description tool,
                   gd_parameters_json_schema = ts_parameters_schema tool\<rparr>]) tools"

definition gemini_translate_error :: "sdk_exception \<Rightarrow> model_error" where
  "gemini_translate_error exc =
     (if sx_timeout exc then (ModelTimeoutError, ''Gemini did not respond within the configured timeout'')
      else case sx_status exc of
             Some code \<Rightarrow>
               if code = 429
               then (ModelRateLimitedError None, py_strip (''Gemini rate-limited this request: '' @ str_or (sx_message exc) []))
               else (ModelProviderError (Some code),
                     ''Gemini returned an error: '' @ str_or (sx_message exc) (sx_class exc))
           | None \<Rightarrow> (ModelProviderError None, ''Gemini request failed: '' @ sx_class exc))"

record gemini_request =
  gq_model :: string
  gq_contents :: "gemini_content list"
  gq_system_instruction :: "string option"
  gq_max_output_tokens :: int
  gq_automatic_function_calling_disable :: bool
  gq_tools :: "gemini_declaration list list option"
  gq_response_mime_type :: "string option"
  gq_response_json_schema :: "json option"

definition gemini_request_of ::
  "(string \<Rightarrow> json option) \<Rightarrow> gateway_request \<Rightarrow> json option \<Rightarrow> gemini_request option" where
  "gemini_request_of loads request schema =
     map_option (\<lambda>contents.
       \<lparr>gq_model = gr_model request, gq_contents = contents,
        gq_system_instruction = (if gr_instructions request = [] then None else Some (gr_instructions request)),
        gq_max_output_tokens = gr_max_output_tokens request, gq_automatic_function_calling_disable = True,
        gq_tools = (if gr_tools request = [] then None else Some (to_gemini_tools (gr_tools request))),
        gq_response_mime_type = map_option (\<lambda>_. ''application/json'') schema,
        gq_response_json_schema = schema\<rparr>) (to_gemini_contents loads (gr_history request))"

record gemini_call =
  gf_id :: "string option"
  gf_name :: "string option"
  gf_args :: "jdict option"

record gemini_chunk =
  gk_function_calls :: "gemini_call list"
  gk_text :: "string option"
  gk_usage :: "(int option \<times> int option \<times> int option) option"
  gk_finish_reasons :: "string option list"

record gemini_state =
  gs_finish :: string
  gs_usage :: gateway_usage
  gs_saw_tool_call :: bool
  gs_structured :: string

definition gemini_start :: gemini_state where
  "gemini_start = \<lparr>gs_finish = ''stop'', gs_usage = no_usage, gs_saw_tool_call = False, gs_structured = []\<rparr>"

definition gemini_call_id :: "nat \<Rightarrow> gemini_call \<Rightarrow> string" where
  "gemini_call_id index call =
     str_or (gf_id call)
       (''gemini-call-'' @ (case gf_name call of None \<Rightarrow> ''None'' | Some name \<Rightarrow> name) @ ''-'' @ dec_nat index)"

definition gemini_tool_call :: "nat \<Rightarrow> gemini_call \<Rightarrow> tool_call_request" where
  "gemini_tool_call index call =
     \<lparr>call_id = gemini_call_id index call, call_name = str_or (gf_name call) [],
      call_arguments_json = json_dumps (JObj (case gf_args call of None \<Rightarrow> [] | Some args \<Rightarrow> args))\<rparr>"

definition gemini_reason :: "string \<Rightarrow> string option \<Rightarrow> string" where
  "gemini_reason finish reason =
     (case reason of None \<Rightarrow> finish | Some r \<Rightarrow> if sublist ''MAX_TOKENS'' r then ''length'' else finish)"

definition gemini_step ::
  "json option \<Rightarrow> gemini_chunk \<Rightarrow> gemini_state \<Rightarrow> gateway_event list \<times> model_error option \<times> gemini_state" where
  "gemini_step schema chunk s =
     (let calls = map (\<lambda>(index, call). ToolCallReady (gemini_tool_call index call))
                    (enumerate 0 (gk_function_calls chunk));
          text = str_or (gk_text chunk) []
      in (calls @ (if text = [] \<or> schema \<noteq> None then [] else [TextDelta text]), None,
          \<lparr>gs_finish = fold (\<lambda>r finish. gemini_reason finish r) (gk_finish_reasons chunk) (gs_finish s),
           gs_usage = (case gk_usage chunk of None \<Rightarrow> gs_usage s
             | Some (prompt, candidates, cached) \<Rightarrow>
                 \<lparr>gu_input_tokens = or_zero prompt, gu_output_tokens = or_zero candidates,
                  gu_cached_input_tokens = or_zero cached\<rparr>),
           gs_saw_tool_call = (gs_saw_tool_call s \<or> gk_function_calls chunk \<noteq> []),
           gs_structured = gs_structured s @ (if schema \<noteq> None then text else [])\<rparr>))"

definition gemini_stream_chat ::
  "(string \<Rightarrow> json option) \<Rightarrow> (gemini_request \<Rightarrow> gemini_chunk sdk_reply) \<Rightarrow> json option \<Rightarrow> gateway_request
     \<Rightarrow> gateway_reply" where
  "gemini_stream_chat loads sdk schema request =
     (case gemini_request_of loads request schema of
        None \<Rightarrow> ([], Some (gemini_translate_error json_decode_error))
      | Some call \<Rightarrow>
         (case sdk call of
            Inl exc \<Rightarrow> ([], Some (gemini_translate_error exc))
          | Inr (chunks, failure) \<Rightarrow>
             (case run_stream (gemini_step schema) chunks gemini_start of
                (out, Some err, _) \<Rightarrow> (out, Some err)
              | (out, None, s) \<Rightarrow>
                 (case failure of
                    Some exc \<Rightarrow> (out, Some (gemini_translate_error exc))
                  | None \<Rightarrow>
                     let completed = Completed (gs_usage s)
                           (if gs_saw_tool_call s then ''tool_calls'' else gs_finish s)
                     in if schema \<noteq> None \<and> gs_structured s \<noteq> [] \<and> \<not> gs_saw_tool_call s then
                          (case loads (gs_structured s) of
                             None \<Rightarrow> (out, Some (Unhandled ''JSONDecodeError'', []))
                           | Some data \<Rightarrow> (out @ [StructuredOutputReady data, completed], None))
                        else (out @ [completed], None)))))"

section \<open>The adapters behind a turn\<close>

record sdk_world =
  sw_loads :: "string \<Rightarrow> json option"
  sw_float :: "string \<Rightarrow> rat option"
  sw_openai :: "nat \<Rightarrow> json \<Rightarrow> openai_event sdk_reply"
  sw_gemini :: "nat \<Rightarrow> gemini_request \<Rightarrow> gemini_chunk sdk_reply"
  sw_claude :: "nat \<Rightarrow> json \<Rightarrow> claude_event sdk_reply"

primrec gateway_for :: "sdk_world \<Rightarrow> nat \<Rightarrow> provider \<Rightarrow> gateway_request \<Rightarrow> gateway_reply" where
  "gateway_for w n OPENAI = openai_stream_chat (sw_loads w) (sw_float w) (sw_openai w n) None"
| "gateway_for w n GEMINI = gemini_stream_chat (sw_loads w) (sw_gemini w n) None"
| "gateway_for w n CLAUDE = claude_stream_chat (sw_loads w) (sw_float w) (sw_claude w n) None"

section \<open>Streams in general\<close>

lemma run_stream_append:
  "run_stream step (xs @ ys) s =
     (case run_stream step xs s of
        (out, Some err, t) \<Rightarrow> (out, Some err, t)
      | (out, None, t) \<Rightarrow> (case run_stream step ys t of (out', r, u) \<Rightarrow> (out @ out', r, u)))"
  by (induction xs arbitrary: s) (auto split: prod.splits option.splits)

lemma run_stream_snoc:
  assumes "run_stream step (es @ [e]) s = (out, None, u)"
  obtains out1 t out2 where "run_stream step es s = (out1, None, t)" "step e t = (out2, None, u)" "out = out1 @ out2"
  using assms by (auto simp: run_stream_append split: prod.splits option.splits)

lemma run_stream_error:
  "run_stream step es s = (out, Some err, t) \<Longrightarrow> \<exists>e u out' v. step e u = (out', Some err, v)"
  by (induction es arbitrary: s out) (auto split: prod.splits option.splits)

lemma emit_simps [simp]: "next_event s = ([], None, s)" "emit e s = ([e], None, s)"
  by (simp_all add: next_event_def emit_def)

section \<open>The blocks of a Claude reply\<close>

text \<open>
  What the call that ends at an event is, read off the events before it and nothing else: the last
  tool block that was started under its index, with the argument parts of that index since then.
  Blocks of other indices may be open at the same time.
\<close>

definition starts_tool :: "nat \<Rightarrow> claude_event \<Rightarrow> bool" where
  "starts_tool i e = (case e of Content_block_start j (Tool_use_block _ _) \<Rightarrow> j = i | _ \<Rightarrow> False)"

definition part_of :: "nat \<Rightarrow> claude_event \<Rightarrow> string" where
  "part_of i e = (case e of Content_block_delta j (Input_json_delta part) \<Rightarrow> if j = i then part else [] | _ \<Rightarrow> [])"

definition opened :: "nat \<Rightarrow> claude_event list \<Rightarrow> (string \<times> string) option" where
  "opened i es =
     (case filter (starts_tool i) (rev es) of
        Content_block_start _ (Tool_use_block block_id name) # _ \<Rightarrow> Some (block_id, name) | _ \<Rightarrow> None)"

definition arguments_of :: "nat \<Rightarrow> claude_event list \<Rightarrow> string" where
  "arguments_of i es = concat (map (part_of i) (rev (takeWhile (\<lambda>e. \<not> starts_tool i e) (rev es))))"

definition claude_call_at :: "claude_event list \<Rightarrow> nat \<Rightarrow> tool_call_request option" where
  "claude_call_at es k =
     (case es ! k of
        Content_block_stop i \<Rightarrow>
          (case opened i (take k es) of
             Some (block_id, name) \<Rightarrow>
               if name = claude_structured_tool then None
               else Some \<lparr>call_id = block_id, call_name = name, call_arguments_json =
                  (let text = arguments_of i (take k es) in if text = [] then ''{}'' else text)\<rparr>
           | None \<Rightarrow> None)
      | _ \<Rightarrow> None)"

definition opt_list :: "'a option \<Rightarrow> 'a list" where
  "opt_list x = (case x of None \<Rightarrow> [] | Some y \<Rightarrow> [y])"

lemma opt_list_simps [simp]: "opt_list None = []" "opt_list (Some y) = [y]"
  by (simp_all add: opt_list_def)

definition ready_calls :: "gateway_event list \<Rightarrow> tool_call_request list" where
  "ready_calls out = concat (map (\<lambda>e. case e of ToolCallReady call \<Rightarrow> [call] | _ \<Rightarrow> []) out)"

lemma ready_calls_simps [simp]:
  "ready_calls [] = []" "ready_calls (xs @ ys) = ready_calls xs @ ready_calls ys"
  "ready_calls (e # es) = (case e of ToolCallReady call \<Rightarrow> [call] | _ \<Rightarrow> []) @ ready_calls es"
  by (simp_all add: ready_calls_def)

lemma opened_snoc:
  "opened i (es @ [e]) =
     (case e of Content_block_start j (Tool_use_block block_id name) \<Rightarrow> if j = i then Some (block_id, name) else opened i es
      | _ \<Rightarrow> opened i es)"
  by (auto simp: opened_def starts_tool_def split: claude_event.splits claude_block.splits)

lemma arguments_snoc:
  "arguments_of i (es @ [e]) = (if starts_tool i e then [] else arguments_of i es @ part_of i e)"
  by (simp add: arguments_of_def)

lemma opened_Nil [simp]: "opened i [] = None" and arguments_Nil [simp]: "arguments_of i [] = []"
  by (simp_all add: opened_def arguments_of_def)

lemma collected_simps [simp]:
  "collected i (s\<lparr>cs_usage := u\<rparr>) = collected i s" "collected i (s\<lparr>cs_stop := r\<rparr>) = collected i s"
  "collected i (s\<lparr>cs_blocks := b, cs_json := j\<rparr>) = collected i (s\<lparr>cs_json := j\<rparr>)"
  "collected i (s\<lparr>cs_json := (cs_json s)(k \<mapsto> text)\<rparr>) = (if i = k then text else collected i s)"
  by (simp_all add: collected_def)

text \<open>After any events the local variables say what is open and what was collected for it.\<close>

lemma claude_state_after:
  assumes "run_stream (claude_step loads float) es claude_start = (out, None, s)"
  shows "cs_blocks s i = opened i es \<and> collected i s = arguments_of i es"
  using assms
proof (induction es arbitrary: out s rule: rev_induct)
  case Nil
  then show ?case by (auto simp: claude_start_def collected_def)
next
  case (snoc e es)
  from snoc.prems obtain out1 t out2 where t: "run_stream (claude_step loads float) es claude_start = (out1, None, t)"
    and e: "claude_step loads float e t = (out2, None, s)"
    by (rule run_stream_snoc)
  note ih = snoc.IH [OF t]
  show ?case
    using e ih
    by (cases e)
      (auto simp: claude_step_def opened_snoc arguments_snoc starts_tool_def part_of_def Let_def
         split: claude_block.splits claude_delta.splits option.splits if_splits)
qed

lemma claude_call_at_append:
  assumes "k < length es"
  shows "claude_call_at (es @ fs) k = claude_call_at es k"
proof -
  have "take k (es @ fs) = take k es" "(es @ fs) ! k = es ! k"
    using assms by (simp_all add: nth_append)
  then show ?thesis unfolding claude_call_at_def by presburger
qed

lemma claude_step_calls:
  assumes "run_stream (claude_step loads float) es claude_start = (out1, None, t)"
    and "claude_step loads float e t = (out2, None, u)"
  shows "ready_calls out2 = opt_list (claude_call_at (es @ [e]) (length es))"
proof (cases e)
  case (Content_block_stop i)
  with assms claude_state_after [OF assms(1), of i] show ?thesis
    by (auto simp: claude_call_at_def claude_step_def finished_call_def Let_def split: option.splits if_splits)
qed (use assms(2) in \<open>auto simp: claude_call_at_def claude_step_def split: claude_block.splits claude_delta.splits\<close>)

definition claude_calls :: "claude_event list \<Rightarrow> tool_call_request list" where
  "claude_calls es = concat (map (\<lambda>k. opt_list (claude_call_at es k)) [0..<length es])"

lemma claude_calls_snoc:
  "claude_calls (es @ [e]) = claude_calls es @ opt_list (claude_call_at (es @ [e]) (length es))"
proof -
  have "map (\<lambda>k. opt_list (claude_call_at (es @ [e]) k)) [0..<length es]
      = map (\<lambda>k. opt_list (claude_call_at es k)) [0..<length es]"
    by (rule map_cong) (simp_all add: claude_call_at_append)
  then show ?thesis unfolding claude_calls_def by (simp del: map_eq_conv)
qed

section \<open>How a reply ends\<close>

definition is_adapter_error :: "app_error \<Rightarrow> bool" where
  "is_adapter_error e =
     (case e of
        ModelAuthenticationError \<Rightarrow> True | ModelRateLimitedError _ \<Rightarrow> True | ModelTimeoutError \<Rightarrow> True
      | ModelProviderError _ \<Rightarrow> True | _ \<Rightarrow> False)"

lemma translated_errors [simp]:
  "is_adapter_error (fst (claude_translate_error float exc))"
  "is_adapter_error (fst (openai_translate_error float exc))"
  "is_adapter_error (fst (gemini_translate_error exc))"
  by (simp_all add: is_adapter_error_def claude_translate_error_def openai_translate_error_def
      gemini_translate_error_def split: option.splits)

lemma claude_step_error:
  "claude_step loads float e s = (out, Some err, t) \<Longrightarrow> is_adapter_error (fst err)"
  by (auto simp: claude_step_def Let_def split: claude_event.splits claude_block.splits claude_delta.splits
      option.splits if_splits)

lemma openai_step_error:
  "openai_step loads float schema e s = (out, Some err, t) \<Longrightarrow> is_adapter_error (fst err)"
  by (auto simp: openai_step_def is_adapter_error_def [of "ModelProviderError _"] split: openai_event.splits
      openai_item.splits option.splits if_splits)

lemma gemini_step_no_error: "gemini_step schema e s \<noteq> (out, Some err, t)"
  by (simp add: gemini_step_def Let_def)

text \<open>
  The calls a request carries to Claude and Gemini are parsed when it is built; in a history that
  came from elsewhere they need not be JSON.
\<close>

definition parsable_calls :: "(string \<Rightarrow> json option) \<Rightarrow> chat_turn list \<Rightarrow> bool" where
  "parsable_calls loads history \<longleftrightarrow>
     (\<forall>turn \<in> set history. turn_role turn \<noteq> Role_TOOL
        \<longrightarrow> (\<forall>call \<in> set (calls_of turn). loads (call_arguments_json call) \<noteq> None))"

lemma those_None_iff: "those xs = None \<longleftrightarrow> None \<in> set xs"
  by (induction xs) (auto split: option.splits)

lemma claude_message_None_iff:
  "to_claude_message loads turn = None
     \<longleftrightarrow> turn_role turn \<noteq> Role_TOOL \<and> (\<exists>call \<in> set (calls_of turn). loads (call_arguments_json call) = None)"
  by (auto simp: to_claude_message_def those_None_iff)

lemma claude_request_None_iff:
  "claude_request loads request schema = None \<longleftrightarrow> \<not> parsable_calls loads (gr_history request)"
proof -
  have "claude_request loads request schema = None
      \<longleftrightarrow> (\<exists>turn \<in> set (gr_history request). to_claude_message loads turn = None)"
    unfolding claude_request_def to_claude_messages_def option.map_disc_iff those_None_iff
    by (auto simp: eq_commute [of None] intro: rev_image_eqI)
  also have "\<dots> \<longleftrightarrow> \<not> parsable_calls loads (gr_history request)"
    by (auto simp: claude_message_None_iff parsable_calls_def)
  finally show ?thesis .
qed

section \<open>What a client may rely on\<close>

text \<open>
  The contract of a gateway: a request that can be sent is answered with neutral events and, if it
  fails, with one of the errors of \<open>ai/errors.py\<close>.
\<close>

locale model_gateway =
  fixes ask :: "gateway_request \<Rightarrow> gateway_reply" and sendable :: "gateway_request \<Rightarrow> bool"
  assumes only_typed_errors: "sendable request \<Longrightarrow> ask request = (out, Some err) \<Longrightarrow> is_adapter_error (fst err)"
begin

text \<open>Such an error has a response of its own: no failure of a provider is an internal error.\<close>

lemma failure_is_answered:
  assumes "sendable request" "ask request = (out, Some (e, text))"
  shows "er_status (error_response trace_id e) \<in> {429, 502, 504}"
  using only_typed_errors [OF assms]
  by (cases e) (simp_all add: is_adapter_error_def error_response_def access_error_response_def
      membership_error_response_def login_and_cost_error_response_def provider_error_response_def envelope_def)

text \<open>Testing a connection has a verdict, and keeps the name of the error.\<close>

lemma connection_verdict:
  assumes "sendable (test_connection_request (default_model_for p settings))"
    and "api_key_for p settings \<noteq> None"
  shows "test_provider_connection (\<lambda>_ _. ask) p settings =
     Inr (case snd (ask (test_connection_request (default_model_for p settings))) of
        None \<Rightarrow> (True, None, None)
      | Some (e, message) \<Rightarrow> (False, model_gateway_error_name e, Some message))"
proof (cases "ask (test_connection_request (default_model_for p settings))")
  case (Pair out r)
  show ?thesis
  proof (cases r)
    case (Some err)
    with only_typed_errors [OF assms(1)] Pair have "is_adapter_error (fst err)" by simp
    then have "model_gateway_error_name (fst err) \<noteq> None"
      by (auto simp: is_adapter_error_def model_gateway_error_name_def split: app_error.splits)
    with assms(2) Pair Some show ?thesis
      by (auto simp: test_provider_connection_def is_provider_configured_def get_gateway_def split: option.splits prod.splits)
  qed (use assms(2) Pair in \<open>auto simp: test_provider_connection_def is_provider_configured_def get_gateway_def split: option.splits\<close>)
qed

end

lemma openai_errors:
  "openai_stream_chat loads float sdk schema request = (out, Some err) \<Longrightarrow> is_adapter_error (fst err)"
  by (auto simp: openai_stream_chat_def split: sum.splits prod.splits option.splits
      dest!: run_stream_error openai_step_error)

lemma claude_errors:
  assumes "parsable_calls loads (gr_history request)"
    and "claude_stream_chat loads float sdk schema request = (out, Some err)"
  shows "is_adapter_error (fst err)"
  using assms
  by (auto simp: claude_stream_chat_def claude_request_None_iff split: sum.splits prod.splits option.splits
      dest!: run_stream_error claude_step_error)

lemma gemini_errors:
  "gemini_stream_chat loads sdk None request = (out, Some err) \<Longrightarrow> is_adapter_error (fst err)"
  by (auto simp: gemini_stream_chat_def Let_def gemini_step_no_error split: sum.splits prod.splits option.splits
      dest!: run_stream_error)

interpretation openai: model_gateway "openai_stream_chat loads float sdk schema" "\<lambda>_. True" for loads float sdk schema
  by unfold_locales (rule openai_errors)

interpretation gemini: model_gateway "gemini_stream_chat loads sdk None" "\<lambda>_. True" for loads sdk
  by unfold_locales (rule gemini_errors)

interpretation claude:
  model_gateway "claude_stream_chat loads float sdk schema" "\<lambda>request. parsable_calls loads (gr_history request)"
  for loads float sdk schema
  by unfold_locales (rule claude_errors)

definition sendable_to :: "sdk_world \<Rightarrow> provider \<Rightarrow> gateway_request \<Rightarrow> bool" where
  "sendable_to w p request \<longleftrightarrow> p \<noteq> CLAUDE \<or> parsable_calls (sw_loads w) (gr_history request)"

interpretation gateways: model_gateway "gateway_for w n p" "sendable_to w p" for w n p
  by unfold_locales
    (cases p; auto simp: sendable_to_def intro: openai_errors gemini_errors claude_errors)

section \<open>Properties\<close>

definition is_completed :: "gateway_event \<Rightarrow> bool" where
  "is_completed e = (case e of Completed _ _ \<Rightarrow> True | _ \<Rightarrow> False)"

definition event_text :: "gateway_event \<Rightarrow> string" where
  "event_text e = (case e of TextDelta text \<Rightarrow> text | _ \<Rightarrow> [])"

definition claude_text :: "claude_event \<Rightarrow> string" where
  "claude_text e = (case e of Content_block_delta _ (Text_delta text) \<Rightarrow> text | _ \<Rightarrow> [])"

lemma claude_step_text:
  "claude_step loads float e s = (out, None, t)
     \<Longrightarrow> concat (map event_text out) = claude_text e \<and> (\<forall>x \<in> set out. \<not> is_completed x)"
  by (cases e) (auto simp: claude_step_def event_text_def claude_text_def is_completed_def Let_def
      split: claude_block.splits claude_delta.splits option.splits if_splits)

lemma claude_run:
  assumes "run_stream (claude_step loads float) es claude_start = (out, None, s)"
  shows "ready_calls out = claude_calls es \<and> concat (map event_text out) = concat (map claude_text es)
     \<and> (\<forall>x \<in> set out. \<not> is_completed x)"
  using assms
proof (induction es arbitrary: out s rule: rev_induct)
  case Nil
  then show ?case by (simp add: claude_calls_def)
next
  case (snoc e es)
  from snoc.prems obtain out1 t out2 where t: "run_stream (claude_step loads float) es claude_start = (out1, None, t)"
    and e: "claude_step loads float e t = (out2, None, s)" and out: "out = out1 @ out2"
    by (rule run_stream_snoc)
  from snoc.IH [OF t] claude_step_calls [OF t e] claude_step_text [OF e] show ?case
    by (auto simp: out claude_calls_snoc)
qed

text \<open>
  C37: a reply of Claude that does not fail says what the stream said, however its blocks are cut
  into parts and however they overlap: the text in order, each tool call with the arguments of
  its own block put together, and one completion, at the end.
\<close>

theorem claude_calls_are_assembled:
  assumes "claude_stream_chat loads float sdk schema request = (out, None)"
  shows "\<exists>kwargs es said usage reason.
       claude_request loads request schema = Some kwargs \<and> sdk kwargs = Inr (es, None)
       \<and> out = said @ [Completed usage reason] \<and> (\<forall>x \<in> set said. \<not> is_completed x)
       \<and> ready_calls said = claude_calls es
       \<and> concat (map event_text said) = concat (map claude_text es)"
  using assms
  by (auto simp: claude_stream_chat_def split: option.splits sum.splits prod.splits dest: claude_run)

definition sample_request :: gateway_request where
  "sample_request =
     \<lparr>gr_model = ''m'', gr_mode = FAST, gr_instructions = [],
      gr_history = [\<lparr>turn_role = Role_USER, turn_content = ''hi'', turn_tool_call_id = None, turn_tool_calls = None\<rparr>],
      gr_tools = [], gr_max_output_tokens = 16\<rparr>"

text \<open>Two tool blocks that overlap, the first cut into two parts, the second without arguments.\<close>

definition sample_events :: "claude_event list" where
  "sample_events =
     [Message_start 7 None, Content_block_start 0 (Tool_use_block ''a'' ''list''),
      Content_block_delta 0 (Input_json_delta ''{''), Content_block_start 1 (Tool_use_block ''b'' ''list''),
      Content_block_delta 2 (Text_delta ''ok''), Content_block_stop 1,
      Content_block_delta 0 (Input_json_delta ''}''), Content_block_stop 0,
      Message_delta 5 (Some ''tool_use'')]"

definition sample_reply :: "gateway_event list" where
  "sample_reply =
     [TextDelta ''ok'', ToolCallReady \<lparr>call_id = ''b'', call_name = ''list'', call_arguments_json = ''{}''\<rparr>,
      ToolCallReady \<lparr>call_id = ''a'', call_name = ''list'', call_arguments_json = ''{}''\<rparr>,
      Completed \<lparr>gu_input_tokens = 7, gu_output_tokens = 5, gu_cached_input_tokens = 0\<rparr> ''tool_calls'']"

lemma sample_chat:
  "claude_stream_chat (\<lambda>_. None) (\<lambda>_. None) (\<lambda>_. Inr (sample_events, None)) None sample_request = (sample_reply, None)"
  by (simp add: claude_stream_chat_def claude_request_def to_claude_messages_def to_claude_message_def calls_of_def
      to_claude_tools_def sample_request_def sample_events_def claude_step_def claude_start_def collected_def
      finished_call_def claude_structured_tool_def no_usage_def or_zero_def Let_def claude_finish_reason_def sample_reply_def)

theorem claude_calls_are_assembled_witness:
  "\<exists>said usage reason. sample_reply = said @ [Completed usage reason]
     \<and> (\<forall>x \<in> set said. \<not> is_completed x)
     \<and> ready_calls said = claude_calls sample_events \<and> concat (map event_text said) = ''ok''"
proof -
  have words: "concat (map claude_text sample_events) = ''ok''"
    by (simp add: sample_events_def claude_text_def)
  from claude_calls_are_assembled [OF sample_chat] obtain kwargs es said usage reason where
    "Inr (sample_events, None) = (Inr (es, None) :: claude_event sdk_reply)" "sample_reply = said @ [Completed usage reason]"
    "\<forall>x \<in> set said. \<not> is_completed x" "ready_calls said = claude_calls es"
    "concat (map event_text said) = concat (map claude_text es)"
    by blast
  with words show ?thesis by auto
qed

lemma unsendable_claude:
  "\<not> parsable_calls loads (gr_history request)
     \<Longrightarrow> claude_stream_chat loads float sdk schema request = ([], Some (Unhandled ''JSONDecodeError'', []))"
  using claude_request_None_iff [of loads request schema] by (simp add: claude_stream_chat_def)

text \<open>
  When a provider fails, whatever its SDK raises and whenever it does, the caller gets one of
  the errors of the neutral layer, which has a response of its own, with one exception: a request
  to Claude whose history holds a call with arguments that are not JSON raises what
  \<open>json.loads\<close> raises, which is answered as an internal error.
\<close>

theorem provider_failures_are_typed:
  assumes "gateway_for w n p request = (out, Some (e, text))"
  shows "(if p = CLAUDE \<and> \<not> parsable_calls (sw_loads w) (gr_history request)
          then e = Unhandled ''JSONDecodeError'' \<and> out = [] \<and> er_status (error_response trace_id e) = 500
          else is_adapter_error e \<and> er_status (error_response trace_id e) \<in> {429, 502, 504})"
proof (cases "sendable_to w p request")
  case True
  with gateways.only_typed_errors [OF True assms] gateways.failure_is_answered [OF True assms]
  show ?thesis by (auto simp: sendable_to_def)
next
  case False
  have "er_status (error_response trace_id (Unhandled ''JSONDecodeError'')) = 500"
    by (simp add: error_response_def access_error_response_def membership_error_response_def
        login_and_cost_error_response_def provider_error_response_def envelope_def)
  with False assms unsendable_claude [of "sw_loads w" request "sw_float w" "sw_claude w n" None] show ?thesis
    by (auto simp: sendable_to_def)
qed

text \<open>An SDK whose calls all time out, and a \<open>json.loads\<close> that accepts nothing.\<close>

definition timeout_error :: sdk_exception where
  "timeout_error = json_decode_error\<lparr>sx_class := ''APITimeoutError'', sx_timeout := True\<rparr>"

definition sample_world :: sdk_world where
  "sample_world = \<lparr>sw_loads = (\<lambda>_. None), sw_float = (\<lambda>_. None), sw_openai = (\<lambda>_ _. Inl timeout_error),
     sw_gemini = (\<lambda>_ _. Inl timeout_error), sw_claude = (\<lambda>_ _. Inl timeout_error)\<rparr>"

theorem provider_failures_are_typed_witness:
  "gateway_for sample_world 0 CLAUDE sample_request
       = ([], Some (ModelTimeoutError, ''Claude did not respond within the configured timeout''))
   \<and> er_status (error_response ''t'' ModelTimeoutError) \<in> {429, 502, 504}"
proof -
  have plain: "parsable_calls loads (gr_history sample_request)" for loads
    by (simp add: parsable_calls_def sample_request_def calls_of_def)
  then obtain kwargs where "claude_request (\<lambda>_. None) sample_request None = Some kwargs"
    using claude_request_None_iff [of "\<lambda>_. None" sample_request None] by auto
  then have failed: "gateway_for sample_world 0 CLAUDE sample_request
      = ([], Some (ModelTimeoutError, ''Claude did not respond within the configured timeout''))"
    by (simp add: sample_world_def claude_stream_chat_def claude_translate_error_def timeout_error_def json_decode_error_def)
  with provider_failures_are_typed [OF failed, of "''t''"] plain show ?thesis by simp
qed

text \<open>Testing a connection always has a verdict, whatever the provider does.\<close>

lemma connection_test_has_verdict: "\<exists>verdict. test_provider_connection (gateway_for w) p settings = Inr verdict"
proof (cases "api_key_for p settings")
  case None
  then show ?thesis by (auto simp: test_provider_connection_def is_provider_configured_def)
next
  case (Some key)
  have "sendable_to w p (test_connection_request m)" for m
    by (simp add: sendable_to_def parsable_calls_def test_connection_request_def calls_of_def)
  note verdict = gateways.connection_verdict [where n = 0 and p = p and w = w and pa = p, OF this]
  have same: "test_provider_connection (gateway_for w) p settings
      = test_provider_connection (\<lambda>_ _. gateway_for w 0 p) p settings"
    by (simp add: test_provider_connection_def get_gateway_def)
  from Some have "api_key_for p settings \<noteq> None" by simp
  from verdict [OF this] show ?thesis unfolding same by (rule exI)
qed

end
