(* ===== verification/Gateway_Turns.thy ===== *)
theory Gateway_Turns
  imports Gateways Conversation
begin

text \<open>
  Turns of a chat over the three adapters: what the history a turn builds and stores becomes in the
  request of a provider, and what the identifiers and arguments that come back become in the
  database.
\<close>

section \<open>Calls and answers in a history\<close>

definition turn_calls :: "chat_turn \<Rightarrow> string set" where
  "turn_calls turn = (if turn_role turn = Role_TOOL then {} else call_id ` set (calls_of turn))"

definition turn_answers :: "chat_turn \<Rightarrow> string set" where
  "turn_answers turn = (if turn_role turn = Role_TOOL then set_option (turn_tool_call_id turn) else {})"

definition called_in :: "chat_turn list \<Rightarrow> string set" where
  "called_in history = (\<Union>turn \<in> set history. turn_calls turn)"

definition answered_in :: "chat_turn list \<Rightarrow> string set" where
  "answered_in history = (\<Union>turn \<in> set history. turn_answers turn)"

text \<open>The identifiers of the calls and of the results in a request, as the provider reads them.\<close>

definition field :: "string \<Rightarrow> json \<Rightarrow> json option" where
  "field k j = (case j of JObj kvs \<Rightarrow> map_of kvs k | _ \<Rightarrow> None)"

definition str_of :: "json option \<Rightarrow> string option" where
  "str_of x = (case x of Some (JStr text) \<Rightarrow> Some text | _ \<Rightarrow> None)"

definition tagged_ids :: "string \<Rightarrow> string \<Rightarrow> json list \<Rightarrow> string list" where
  "tagged_ids kind key blocks =
     concat (map (\<lambda>b. if field ''type'' b = Some (JStr kind) then opt_list (str_of (field key b)) else []) blocks)"

definition openai_ids :: "string \<Rightarrow> json list \<Rightarrow> string set" where
  "openai_ids kind items = set (tagged_ids kind ''call_id'' items)"

definition claude_ids :: "string \<Rightarrow> string \<Rightarrow> json list \<Rightarrow> string set" where
  "claude_ids kind key messages =
     (\<Union>m \<in> set messages. case field ''content'' m of Some (JArr blocks) \<Rightarrow> set (tagged_ids kind key blocks) | _ \<Rightarrow> {})"

lemma tagged_ids_simps [simp]:
  "tagged_ids kind key [] = []" "tagged_ids kind key (xs @ ys) = tagged_ids kind key xs @ tagged_ids kind key ys"
  "tagged_ids kind key (b # bs) =
     (if field ''type'' b = Some (JStr kind) then opt_list (str_of (field key b)) else []) @ tagged_ids kind key bs"
  by (simp_all add: tagged_ids_def)

lemma tagged_ids_map:
  assumes "\<And>c. field ''type'' (f c) = Some (JStr kind)" "\<And>c. str_of (field key (f c)) = Some (g c)"
  shows "tagged_ids kind key (map f cs) = map g cs"
  by (induction cs) (simp_all add: assms)

lemma tagged_ids_none:
  assumes "\<And>c. field ''type'' (f c) \<noteq> Some (JStr kind)"
  shows "tagged_ids kind key (map f cs) = []"
  by (induction cs) (simp_all add: assms)

lemma openai_turn_calls: "openai_ids ''function_call'' (to_openai_items turn) = turn_calls turn"
  by (simp add: to_openai_items_def openai_ids_def turn_calls_def field_def str_of_def tagged_ids_map [where g = call_id])

lemma openai_turn_answers: "openai_ids ''function_call_output'' (to_openai_items turn) = turn_answers turn"
  by (simp add: to_openai_items_def openai_ids_def turn_answers_def field_def str_of_def opt_str_def
      tagged_ids_none split: option.splits)

lemma openai_calls: "openai_ids ''function_call'' (to_openai_input history) = called_in history"
  using openai_turn_calls
  by (induction history) (auto simp: to_openai_input_def called_in_def openai_ids_def)

lemma openai_answers: "openai_ids ''function_call_output'' (to_openai_input history) = answered_in history"
  using openai_turn_answers
  by (induction history) (auto simp: to_openai_input_def answered_in_def openai_ids_def)

lemma those_Some_iff: "those xs = Some ys \<longleftrightarrow> xs = map Some ys"
  by (induction xs arbitrary: ys) (auto split: option.splits simp: Cons_eq_map_conv)

lemma claude_blocks:
  assumes "those (map (\<lambda>call. map_option (\<lambda>args. JObj [(''type'', JStr ''tool_use''), (''id'', JStr (call_id call)),
     (''name'', JStr (call_name call)), (''input'', args)]) (loads (call_arguments_json call))) calls) = Some blocks"
  shows "tagged_ids ''tool_use'' ''id'' blocks = map call_id calls" "tagged_ids ''tool_result'' ''tool_use_id'' blocks = []"
  using assms
  by (induction calls arbitrary: blocks) (auto split: option.splits simp: field_def str_of_def)

lemma claude_turn:
  assumes "to_claude_message loads turn = Some m"
  shows "claude_ids ''tool_use'' ''id'' [m] = turn_calls turn"
    and "claude_ids ''tool_result'' ''tool_use_id'' [m] = turn_answers turn"
  using assms
  by (auto simp: to_claude_message_def claude_ids_def turn_calls_def turn_answers_def field_def str_of_def opt_str_def
      claude_blocks split: if_splits option.splits)

lemma claude_ids_Cons: "claude_ids kind key (m # ms) = claude_ids kind key [m] \<union> claude_ids kind key ms"
  by (simp add: claude_ids_def)

lemma claude_history:
  assumes "to_claude_messages loads history = Some ms"
  shows "claude_ids ''tool_use'' ''id'' ms = called_in history \<and> claude_ids ''tool_result'' ''tool_use_id'' ms = answered_in history"
  using assms
proof (induction history arbitrary: ms)
  case Nil
  then show ?case by (auto simp: to_claude_messages_def claude_ids_def called_in_def answered_in_def)
next
  case (Cons turn h)
  then obtain m ns where m: "to_claude_message loads turn = Some m" "to_claude_messages loads h = Some ns" "ms = m # ns"
    by (auto simp: to_claude_messages_def split: option.splits)
  have "claude_ids kind key ms = claude_ids kind key [m] \<union> claude_ids kind key ns" for kind key
    unfolding m(3) by (rule claude_ids_Cons)
  with Cons.IH [OF m(2)] claude_turn [OF m(1)] show ?case
    by (simp add: called_in_def answered_in_def)
qed

section \<open>What a round stores\<close>

text \<open>A call of a gateway changes neither the database nor the history.\<close>

definition same_ground :: "turn \<Rightarrow> turn \<Rightarrow> bool" where
  "same_ground t u \<longleftrightarrow> tn_db u = tn_db t \<and> tn_history u = tn_history t \<and> tn_provider u = tn_provider t"

lemma same_ground_bind:
  assumes "same_ground t (snd r)" "\<And>a u. r = (Inr a, u) \<Longrightarrow> same_ground u (snd (k a u))"
  shows "same_ground t (snd (bind_err r k))"
proof (cases r)
  case (Pair x u)
  with assms show ?thesis by (cases x) (auto simp: same_ground_def)
qed

lemma handle_event_ground: "same_ground t (snd (handle_event env e t))"
  by (cases e) (simp_all add: same_ground_def handle_event_def yield_chunk_def Let_def)

lemma each_event_ground: "same_ground t (snd (each_err (handle_event env) es t))"
proof (induction es arbitrary: t)
  case (Cons e es)
  show ?case unfolding each_err.simps
    by (intro same_ground_bind handle_event_ground Cons.IH) (simp add: same_ground_def)
qed (simp add: same_ground_def)

lemma call_gateway_ground: "same_ground t (snd (call_gateway env t))"
proof -
  let ?t = "t\<lparr>tn_calls := tn_calls t @ [(tn_provider t, turn_request env t)]\<rparr>"
  have "same_ground ?t (snd (call_gateway env t))"
    unfolding call_gateway_def Let_def
    by (intro same_ground_bind each_event_ground) (auto simp: same_ground_def split: option.splits)
  then show ?thesis by (simp add: same_ground_def)
qed

text \<open>A stored message that is the call \<open>c\<close>, said with a text.\<close>

definition is_call_message :: "string \<Rightarrow> message_row \<Rightarrow> tool_call_request \<Rightarrow> bool" where
  "is_call_message said m c \<longleftrightarrow> msg_content m = said \<and> msg_role m = M_ASSISTANT \<and> msg_tool_name m = Some (call_name c)
     \<and> msg_tool_call_id m = Some (call_id c) \<and> msg_tool_arguments_json m = Some (call_arguments_json c)"

lemma call_message_added:
  "is_call_message (tn_text t) (fst (add_message conversation (tool_call_message t c) s)) c"
  by (simp add: is_call_message_def add_message_def tool_call_message_def assistant_message_def user_message_def
      row_defaults_def Let_def)

lemma stored_calls:
  "\<exists>new. messages_of (cv_id (te_conversation env)) (tn_db (fold (\<lambda>call t. snd (say env (tool_call_message t call) t)) calls t))
       = messages_of (cv_id (te_conversation env)) (tn_db t) @ new \<and> list_all2 (is_call_message (tn_text t)) new calls"
proof (induction calls arbitrary: t)
  case (Cons c calls)
  let ?m = "fst (add_message (te_conversation env) (tool_call_message t c) (tn_db t))"
  from Cons.IH [of "snd (say env (tool_call_message t c) t)"] obtain new where
    "messages_of (cv_id (te_conversation env)) (tn_db (fold (\<lambda>call t. snd (say env (tool_call_message t call) t)) calls
        (snd (say env (tool_call_message t c) t))))
       = (messages_of (cv_id (te_conversation env)) (tn_db t) @ [?m]) @ new" "list_all2 (is_call_message (tn_text t)) new calls"
    by (auto simp: messages_of_added say_def split_beta)
  then show ?case by (auto intro!: exI [of _ "?m # new"] simp: call_message_added)
qed simp

lemma propose_call_messages:
  assumes "propose_call env c t = (Inr m, u)"
  shows "\<exists>x. messages_of (cv_id (te_conversation env)) (tn_db u)
       = messages_of (cv_id (te_conversation env)) (tn_db t) @ [x] \<and> msg_role x = M_ASSISTANT \<and> msg_tool_name x = None
     \<and> msg_tool_arguments_json x = None \<and> (\<exists>a. msg_content x = proposal_text c a)"
proof -
  obtain a s where p: "propose_write_tool_action (te_tools env) (call_name c) (call_arguments_json c) (te_context env)
      (te_trace_id env) (chat_key env c) (tn_db t) = (Inr a, s)"
    using propose_call_ok [OF assms] by blast
  have kept: "conversation_messages s = conversation_messages (tn_db t)"
    using proposal_kept_write_tool [of "tn_db t" "te_tools env" "call_name c" "call_arguments_json c" "te_context env"
        "te_trace_id env" "chat_key env c"] by (simp add: p proposal_kept_def)
  let ?blank = "assistant_message (t\<lparr>tn_db := s\<rparr>) (proposal_text c (fst a)) ''tool_calls''"
  let ?x = "fst (add_message (te_conversation env) (assistant_message t (proposal_text c (fst a)) ''tool_calls'') s)"
  have "tn_db u = snd (add_message (te_conversation env) (assistant_message t (proposal_text c (fst a)) ''tool_calls'') s)"
    using assms p
    by (auto simp: propose_call_def Let_def split_beta yield_chunk_def say_def assistant_message_def bind_err_ok_iff
        split: if_splits)
  then have "messages_of (cv_id (te_conversation env)) (tn_db u) = messages_of (cv_id (te_conversation env)) s @ [?x]"
    by (simp add: messages_of_added)
  moreover have "msg_role ?x = M_ASSISTANT" "msg_tool_name ?x = None" "msg_tool_arguments_json ?x = None"
    "msg_content ?x = proposal_text c (fst a)"
    by (simp_all add: add_message_def assistant_message_def user_message_def row_defaults_def Let_def)
  ultimately show ?thesis using kept by (auto simp: messages_of_def)
qed

text \<open>A round that ends the turn though the model called tools: it stored the calls and no result.\<close>

lemma round_with_write_call:
  assumes "run_round env t = (Inr (Some m), t')" "tn_tools t' \<noteq> []"
  shows "\<exists>calls x. messages_of (cv_id (te_conversation env)) (tn_db t')
       = messages_of (cv_id (te_conversation env)) (tn_db t) @ calls @ [x]
     \<and> list_all2 (is_call_message (tn_text t')) calls (tn_tools t') \<and> msg_role x = M_ASSISTANT \<and> msg_tool_name x = None
     \<and> msg_tool_arguments_json x = None \<and> (\<exists>w \<in> set (tn_tools t'). \<exists>a. msg_content x = proposal_text w a)"
proof -
  let ?t0 = "t\<lparr>tn_text := [], tn_tools := [], tn_finish := ''stop''\<rparr>"
  obtain u where u: "call_gateway env ?t0 = (Inr (), u)"
    using assms(1) by (auto simp: run_round_def bind_err_ok_iff)
  have db: "tn_db u = tn_db t" using call_gateway_ground [of ?t0 env] by (simp add: u same_ground_def)
  have tools: "tn_tools u \<noteq> []"
    using assms u by (auto simp: run_round_def say_def split_beta Let_def)
  have same: "tn_tools (record_tool_calls env u) = tn_tools u \<and> tn_text (record_tool_calls env u) = tn_text u"
  proof -
    have "tn_tools (fold (\<lambda>call t. snd (say env (tool_call_message t call) t)) cs v) = tn_tools v
        \<and> tn_text (fold (\<lambda>call t. snd (say env (tool_call_message t call) t)) cs v) = tn_text v" for cs v
      by (induction cs arbitrary: v) (simp_all add: say_def split_beta)
    then show ?thesis by (simp add: record_tool_calls_def)
  qed
  let ?r = "record_tool_calls env u"
  obtain w ws where w: "filter (\<lambda>c. is_write_tool (call_name c)) (tn_tools u) = w # ws"
    and p: "propose_call env w ?r = (Inr m, t')"
    using assms(1) u tools same
    by (auto simp: run_round_def Let_def bind_err_ok_iff split: list.splits)
  have tools': "tn_tools t' = tn_tools u \<and> tn_text t' = tn_text u"
    using p same by (auto simp: propose_call_def Let_def split_beta yield_chunk_def say_def bind_err_ok_iff
        split: prod.splits sum.splits if_splits)
  obtain new where new: "messages_of (cv_id (te_conversation env)) (tn_db ?r)
       = messages_of (cv_id (te_conversation env)) (tn_db u) @ new" "list_all2 (is_call_message (tn_text u)) new (tn_tools u)"
    using stored_calls [of env "tn_tools u" u] by (auto simp: record_tool_calls_def)
  have "w \<in> set (tn_tools u)" using w by (metis filter_eq_ConsD in_set_conv_decomp)
  with propose_call_messages [OF p] new show ?thesis by (auto simp: db tools')
qed

section \<open>What the next turn is told\<close>

lemma most_recent_all:
  "chars + sum_list (map message_cost ms) \<le> mx \<Longrightarrow> most_recent mx sel chars ms = rev ms @ sel"
proof (induction ms arbitrary: sel chars)
  case (Cons m ms)
  have "0 \<le> sum_list (map message_cost ms)"
    by (induction ms) (auto simp: message_cost_def)
  with Cons.prems have "chars + message_cost m \<le> mx" by simp
  with Cons show ?case by (simp add: add.assoc)
qed simp

lemma call_message_turn:
  assumes "is_call_message said m c" "call_id c \<noteq> []"
  shows "turn_calls (message_turn m) = {call_id c}" "turn_answers (message_turn m) = {}"
  using assms
  by (simp_all add: is_call_message_def message_turn_def turn_calls_def turn_answers_def calls_of_def str_or_def)

lemma answer_turn:
  "x \<in> turn_answers (message_turn m) \<Longrightarrow> msg_role m = M_TOOL \<and> msg_tool_call_id m = Some x"
  by (auto simp: message_turn_def turn_answers_def plain_turn_def split: if_splits message_role.splits option.splits)

text \<open>
  A call of the write tool is never answered.  A turn in which a model called it ends with the
  proposal; every call of its last round is stored, and no result of any.  The request of the next
  turn, to OpenAI or to Claude, holds these calls without an output or a result.
\<close>

theorem write_call_is_never_answered:
  assumes "run_round env t = (Inr (Some m), t')" "c \<in> set (tn_tools t')" "call_id c \<noteq> []"
    and "\<forall>x \<in> set (messages_of (cv_id (te_conversation env)) (tn_db t)).
           msg_role x = M_TOOL \<longrightarrow> msg_tool_call_id x \<noteq> Some (call_id c)"
    and "begin_turn world settings (te_conversation env) context content mode (tn_db t') = (Inr start, s1)"
    and "length (messages_of (cv_id (te_conversation env)) (tn_db t')) < 200"
    and "sum_list (map message_cost (messages_of (cv_id (te_conversation env)) (tn_db t'))) + int (length content)
           \<le> ai_max_context_chars settings"
  shows "call_id c \<in> openai_ids ''function_call'' (to_openai_input (st_history start))
             - openai_ids ''function_call_output'' (to_openai_input (st_history start))
         \<and> (\<forall>ms. to_claude_messages loads (st_history start) = Some ms \<longrightarrow>
                  call_id c \<in> claude_ids ''tool_use'' ''id'' ms - claude_ids ''tool_result'' ''tool_use_id'' ms)"
proof -
  let ?conv = "te_conversation env"
  let ?said = "messages_of (cv_id ?conv) (tn_db t')"
  let ?new = "fst (add_message ?conv (user_message content) (tn_db t'))"
  from assms(2) have "tn_tools t' \<noteq> []" by auto
  from round_with_write_call [OF assms(1) this] obtain calls x where
    said: "?said = messages_of (cv_id ?conv) (tn_db t) @ calls @ [x]"
    and calls: "list_all2 (is_call_message (tn_text t')) calls (tn_tools t')" and x: "msg_role x = M_ASSISTANT" "msg_tool_name x = None"
    by blast
  from calls assms(2) obtain k where k: "k \<in> set calls" "is_call_message (tn_text t') k c"
    by (metis in_set_conv_nth list_all2_conv_all_nth)
  have new: "msg_role ?new = M_USER" "message_cost ?new = int (length content)"
    by (simp_all add: add_message_def user_message_def row_defaults_def Let_def message_cost_def str_or_def)
  let ?all = "sort_key msg_created_at (?said @ [?new])"
  have set_all: "set ?all = insert ?new (set ?said)" by simp
  have short: "length ?all \<le> 200" using assms(6) by simp
  have "sum_list (map message_cost ?all) = sum_list (map message_cost (?said @ [?new]))"
    by (metis mset_map mset_sort sum_mset_sum_list)
  with assms(7) new(2) have "0 + sum_list (map message_cost (rev ?all)) \<le> ai_max_context_chars settings"
    by (simp add: rev_map [symmetric])
  then have "st_history start = map message_turn ?all"
    using begin_turn_ok(4) [OF assms(5)] short most_recent_all [of 0 "rev ?all" "ai_max_context_chars settings" "[]"]
    by (simp add: messages_to_history_def messages_of_added)
  then have hist: "set (st_history start) = message_turn ` set ?all" by simp
  have "call_id c \<in> called_in (st_history start)"
    using k call_message_turn(1) [OF k(2) assms(3)] by (auto simp: called_in_def hist set_all said)
  moreover have "call_id c \<notin> answered_in (st_history start)"
  proof
    assume "call_id c \<in> answered_in (st_history start)"
    then obtain y where y: "y \<in> set ?all" "msg_role y = M_TOOL" "msg_tool_call_id y = Some (call_id c)"
      using answer_turn by (auto simp: answered_in_def hist simp del: set_sort)
    have "y \<noteq> ?new" "y \<noteq> x" using y(2) new(1) x(1) by auto
    moreover have "y \<notin> set calls"
      using y(2) calls by (auto simp: list_all2_conv_all_nth in_set_conv_nth is_call_message_def)
    ultimately have "y \<in> set (messages_of (cv_id ?conv) (tn_db t))" using y(1) by (auto simp: set_all said)
    with y(2,3) assms(4) show False by blast
  qed
  ultimately show ?thesis
    using claude_history [of loads "st_history start"] by (auto simp: openai_calls openai_answers)
qed

section \<open>Arguments that are not JSON\<close>

lemma claude_cannot_be_asked:
  assumes "te_adapters env = gateway_for w" "tn_provider t = CLAUDE" "claude_api_key (te_settings env) \<noteq> None"
    and "\<not> parsable_calls (sw_loads w) (tn_history t)"
  shows "fst (run_rounds (Suc n) env t) = Inl (Unhandled ''JSONDecodeError'')"
proof -
  have reply: "get_gateway (te_adapters env) CLAUDE (te_settings env) k (turn_request env u)
      = ([], Some (Unhandled ''JSONDecodeError'', []))" if "tn_history u = tn_history t" for k u
    using assms that by (auto simp: get_gateway_def turn_request_def intro!: unsendable_claude)
  show ?thesis
    by (simp add: run_round_def call_gateway_def Let_def assms(2) reply)
qed

lemma answered_reads:
  "tn_provider (fold (answer_read_call env) cs t) = tn_provider t
   \<and> set (tn_history t) \<subseteq> set (tn_history (fold (answer_read_call env) cs t))"
proof (induction cs arbitrary: t)
  case (Cons c cs)
  from Cons.IH [of "answer_read_call env c t"] show ?case by (auto simp: answer_read_call_def Let_def)
qed simp

text \<open>After a round that goes on, the history holds every call of it.\<close>

lemma round_goes_on:
  assumes "run_round env t = (Inr None, t1)"
  shows "tn_provider t1 = tn_provider t"
    and "\<exists>calls. \<lparr>turn_role = Role_ASSISTANT, turn_content = tn_text t1, turn_tool_call_id = None, turn_tool_calls = Some calls\<rparr>
           \<in> set (tn_history t1) \<and> calls = tn_tools t1"
proof -
  let ?t0 = "t\<lparr>tn_text := [], tn_tools := [], tn_finish := ''stop''\<rparr>"
  obtain u where u: "call_gateway env ?t0 = (Inr (), u)"
    using assms(1) by (auto simp: run_round_def bind_err_ok_iff)
  let ?reads = "filter (\<lambda>c. is_read_tool (call_name c)) (tn_tools (record_tool_calls env u))"
  have stored: "tn_tools (fold (\<lambda>call t. snd (say env (tool_call_message t call) t)) cs v) = tn_tools v
      \<and> tn_provider (fold (\<lambda>call t. snd (say env (tool_call_message t call) t)) cs v) = tn_provider v" for cs v
    by (induction cs arbitrary: v) simp_all
  have t1: "t1 = fold (answer_read_call env) ?reads (record_tool_calls env u)"
    using assms u by (auto simp: run_round_def Let_def split_beta bind_err_ok_iff split: if_splits list.splits)
  have kept: "tn_text (fold (answer_read_call env) cs v) = tn_text v \<and> tn_tools (fold (answer_read_call env) cs v) = tn_tools v"
    for cs v by (induction cs arbitrary: v) (simp_all add: answer_read_call_def Let_def say_def split_beta)
  have said: "tn_text (fold (\<lambda>call t. snd (say env (tool_call_message t call) t)) cs v) = tn_text v" for cs v
    by (induction cs arbitrary: v) (simp_all add: say_def split_beta)
  show "tn_provider t1 = tn_provider t"
    using call_gateway_ground [of ?t0 env] stored answered_reads [of env ?reads "record_tool_calls env u"]
    by (simp add: t1 u same_ground_def record_tool_calls_def)
  show "\<exists>calls. \<lparr>turn_role = Role_ASSISTANT, turn_content = tn_text t1, turn_tool_call_id = None, turn_tool_calls = Some calls\<rparr>
           \<in> set (tn_history t1) \<and> calls = tn_tools t1"
    using answered_reads [of env ?reads "record_tool_calls env u"] kept said stored
    unfolding t1 by (auto simp: record_tool_calls_def)
qed

text \<open>
  A model that called a read tool with arguments that are not JSON is told of the error in the
  next round, unless it is Claude: the request cannot be built, and the turn ends with what
  \<open>json.loads\<close> raises, without a fallback, since that is not an error of the provider.
\<close>

theorem malformed_call_ends_claude_turn:
  assumes "te_adapters env = gateway_for w" "tn_provider t = CLAUDE" "claude_api_key (te_settings env) \<noteq> None"
    and "2 \<le> ai_max_tool_rounds (te_settings env)"
    and "run_round env (t\<lparr>tn_round := 0\<rparr>) = (Inr None, t1)"
    and "c \<in> set (tn_tools t1)" "sw_loads w (call_arguments_json c) = None"
  shows "fst (turn_loop attempted env t) = Inl (Unhandled ''JSONDecodeError'')"
proof -
  obtain n where n: "nat (ai_max_tool_rounds (te_settings env)) = Suc (Suc n)"
    using assms(4) by (metis Suc_le_D Suc_le_mono nat_2 nat_mono)
  from round_goes_on [OF assms(5)] assms(2) have t1: "tn_provider t1 = CLAUDE"
    "\<lparr>turn_role = Role_ASSISTANT, turn_content = tn_text t1, turn_tool_call_id = None, turn_tool_calls = Some (tn_tools t1)\<rparr>
       \<in> set (tn_history t1)"
    by auto
  from t1(2) assms(6,7) have "\<not> parsable_calls (sw_loads w) (tn_history t1)"
    by (force simp: parsable_calls_def calls_of_def)
  then have "fst (run_rounds (Suc n) env (t1\<lparr>tn_round := Suc (tn_round t1)\<rparr>)) = Inl (Unhandled ''JSONDecodeError'')"
    using assms(1,3) t1(1) by (intro claude_cannot_be_asked) simp_all
  then obtain u where u: "run_rounds (Suc n) env (t1\<lparr>tn_round := Suc (tn_round t1)\<rparr>) = (Inl (Unhandled ''JSONDecodeError''), u)"
    by (cases "run_rounds (Suc n) env (t1\<lparr>tn_round := Suc (tn_round t1)\<rparr>)") auto
  have "run_rounds (Suc (Suc n)) env (t\<lparr>tn_round := 0\<rparr>) = (Inl (Unhandled ''JSONDecodeError''), u)"
    using u by (subst run_rounds.simps(2)) (simp add: assms(5) del: run_rounds.simps)
  then show ?thesis
    by (simp add: turn_loop.simps n may_fall_back_def is_transient_def del: run_rounds.simps)
qed

section \<open>The identifiers Gemini leaves out\<close>

lemma gemini_id_repeats:
  assumes "str_or (gf_id a) [] = []" "str_or (gf_id b) [] = []" "gf_name b = gf_name a"
  shows "call_id (gemini_tool_call i b) = call_id (gemini_tool_call i a)"
proof -
  have "gemini_call_id i x = ''gemini-call-'' @ (case gf_name x of None \<Rightarrow> ''None'' | Some name \<Rightarrow> name) @ ''-'' @ dec_nat i"
    if "str_or (gf_id x) [] = []" for x
    using that by (simp add: gemini_call_id_def str_or_def split: option.splits if_splits)
  with assms show ?thesis by (simp add: gemini_tool_call_def)
qed

text \<open>
  Gemini may leave out the identifier of a call, and the one made up for it depends on the name
  and the place of the call in its chunk alone.  So a message Gemini proposes to send is proposed
  only the first time in a conversation: a later proposal of another message is answered with the
  earlier action, in whatever turn.
\<close>

theorem gemini_second_proposal_is_lost:
  assumes "propose_call env (gemini_tool_call i a) t = (Inr m, t1)"
    and "str_or (gf_id a) [] = []" "str_or (gf_id b) [] = []" "gf_name b = gf_name a"
    and "te_conversation env' = te_conversation env" "te_context env' = te_context env"
    and "action_key ` set (action_actions (tn_db t1)) \<subseteq> action_key ` set (action_actions (tn_db t2))"
  shows "action_actions (tn_db (snd (propose_call env' (gemini_tool_call i b) t2))) = action_actions (tn_db t2)"
  by (rule reused_call_id_proposes_nothing [OF assms(1,5,6) gemini_id_repeats [OF assms(2,3,4)] assms(7)])

definition sample_gemini_call :: "string \<Rightarrow> gemini_call" where
  "sample_gemini_call message = \<lparr>gf_id = None, gf_name = Some send_tool, gf_args = Some [(''text'', JStr message)]\<rparr>"

lemma sample_gemini_tool_call:
  "gemini_tool_call 0 (sample_gemini_call message) = sample_call (json_dumps (JObj [(''text'', JStr message)]))"
  by (simp add: gemini_tool_call_def gemini_call_id_def sample_gemini_call_def sample_call_def str_or_def dec_nat_0
      send_tool_def del: json_dumps.simps)

theorem gemini_second_proposal_is_lost_witness:
  "\<exists>m u. propose_call sample_env (gemini_tool_call 0 (sample_gemini_call ''one'')) (turn_of sample_start empty_db) = (Inr m, u)
     \<and> action_actions (tn_db (snd (propose_call sample_env (gemini_tool_call 0 (sample_gemini_call ''two'')) u)))
         = action_actions (tn_db u)"
proof -
  obtain m u where p: "propose_call sample_env (gemini_tool_call 0 (sample_gemini_call ''one'')) (turn_of sample_start empty_db)
      = (Inr m, u)"
    unfolding sample_gemini_tool_call using sample_proposal by blast
  have "str_or (gf_id (sample_gemini_call x)) [] = []" "gf_name (sample_gemini_call x) = gf_name (sample_gemini_call y)" for x y
    by (simp_all add: sample_gemini_call_def str_or_def)
  from gemini_second_proposal_is_lost [OF p this(1,1,2) refl refl subset_refl] p show ?thesis by blast
qed

text \<open>Claude calls the read tool with an opening brace for arguments.\<close>

definition broken_call :: tool_call_request where
  "broken_call = \<lparr>call_id = ''a'', call_name = list_tool, call_arguments_json = ''{''\<rparr>"

definition broken_world :: sdk_world where
  "broken_world = sample_world\<lparr>sw_claude := (\<lambda>_ _. Inr ([Content_block_start 0 (Tool_use_block ''a'' list_tool),
     Content_block_delta 0 (Input_json_delta ''{''), Content_block_stop 0, Message_delta 1 (Some ''max_tokens'')], None))\<rparr>"

definition claude_settings :: ai_settings where
  "claude_settings = default_ai_settings\<lparr>claude_api_key := Some ''k'', openai_api_key := Some ''k''\<rparr>"

definition claude_env :: turn_env where
  "claude_env = env_of (gateway_for broken_world) sample_tools claude_settings None sample_conversation sample_chatter FAST 9
     sample_start"

definition claude_turn_start :: turn where
  "claude_turn_start = turn_of (sample_start\<lparr>st_choice := (CLAUDE, ''claude-sonnet-5'')\<rparr>) empty_db"

lemma broken_reply:
  assumes "gr_history request = [plain_turn Role_USER ''ha'']"
  shows "fst (gateway_for broken_world n CLAUDE request) = [ToolCallReady broken_call,
       Completed \<lparr>gu_input_tokens = 0, gu_output_tokens = 1, gu_cached_input_tokens = 0\<rparr> ''length'']
   \<and> snd (gateway_for broken_world n CLAUDE request) = None"
proof -
  have "parsable_calls (\<lambda>_. None) (gr_history request)"
    by (simp add: assms parsable_calls_def calls_of_def plain_turn_def)
  then obtain kwargs where "claude_request (\<lambda>_. None) request None = Some kwargs"
    using claude_request_None_iff [of "\<lambda>_. None" request None] by auto
  then show ?thesis
    by (simp add: broken_world_def sample_world_def claude_stream_chat_def claude_step_def claude_start_def collected_def
        finished_call_def claude_structured_tool_def list_tool_def no_usage_def claude_finish_reason_def broken_call_def Let_def)
qed

lemma broken_round:
  "\<exists>t1. run_round claude_env (claude_turn_start\<lparr>tn_round := 0\<rparr>) = (Inr None, t1) \<and> tn_tools t1 = [broken_call]"
proof -
  have env: "te_adapters claude_env = gateway_for broken_world" "te_settings claude_env = claude_settings"
    "te_close_at claude_env = None"
    by (simp_all add: claude_env_def) (simp_all add: env_of_def)
  have asked: "get_gateway (gateway_for broken_world) CLAUDE claude_settings n (turn_request claude_env t) =
      ([ToolCallReady broken_call,
        Completed \<lparr>gu_input_tokens = 0, gu_output_tokens = 1, gu_cached_input_tokens = 0\<rparr> ''length''], None)"
    if "tn_history t = [plain_turn Role_USER ''ha'']" for n t
    using broken_reply [of "turn_request claude_env t" n] that
    by (simp add: get_gateway_def claude_settings_def turn_request_def prod_eq_iff)
  have tools: "is_read_tool (call_name broken_call)" "\<not> is_write_tool (call_name broken_call)"
    by (simp_all add: is_read_tool_def is_write_tool_def broken_call_def list_tool_def send_tool_def)
  show ?thesis
    by (simp add: run_round_def call_gateway_def env Let_def claude_turn_start_def turn_of_def sample_start_def asked
        handle_event_def record_tool_calls_def tools answer_read_call_def say_def split_beta ok_def)
qed

theorem malformed_call_ends_claude_turn_witness:
  "fst (turn_loop False claude_env claude_turn_start) = Inl (Unhandled ''JSONDecodeError'')"
proof -
  obtain t1 where t1: "run_round claude_env (claude_turn_start\<lparr>tn_round := 0\<rparr>) = (Inr None, t1)" "tn_tools t1 = [broken_call]"
    using broken_round by blast
  have env: "te_adapters claude_env = gateway_for broken_world" "claude_api_key (te_settings claude_env) \<noteq> None"
    "2 \<le> ai_max_tool_rounds (te_settings claude_env)"
    by (simp_all add: claude_env_def claude_settings_def) (simp_all add: env_of_def default_ai_settings_def)
  have "tn_provider claude_turn_start = CLAUDE" by (simp add: claude_turn_start_def turn_of_def)
  moreover have "broken_call \<in> set (tn_tools t1)" "sw_loads broken_world (call_arguments_json broken_call) = None"
    by (simp_all add: t1(2) broken_world_def sample_world_def)
  ultimately show ?thesis
    using malformed_call_ends_claude_turn [OF env(1) _ env(2,3) t1(1)] by blast
qed

lemma proposal_text_length: "length (proposal_text c a) \<le> length (call_name c) + 200"
proof -
  have "length (action_status_value st) \<le> 20" for st by (cases st) simp_all
  from this [of "act_status a"] show ?thesis by (simp add: proposal_text_def)
qed

text \<open>OpenAI calls the write tool; the next turn begins.\<close>

definition pinned_conversation :: conversation_row where
  "pinned_conversation = sample_conversation\<lparr>cv_pinned_provider := Some ''OPENAI''\<rparr>"

definition write_settings :: ai_settings where
  "write_settings = default_ai_settings\<lparr>openai_api_key := Some ''k''\<rparr>"

definition write_env :: turn_env where
  "write_env = env_of (\<lambda>_ _ _. ([ToolCallReady (sample_call ''{}'')], None)) sample_tools write_settings None
     pinned_conversation sample_chatter FAST 9 sample_start"

lemma write_env_sel [simp]:
  "te_context write_env = sample_chatter" "te_tools write_env = sample_tools" "te_close_at write_env = None"
  "te_conversation write_env = pinned_conversation" "te_settings write_env = write_settings"
  "te_adapters write_env = (\<lambda>_ _ _. ([ToolCallReady (sample_call ''{}'')], None))"
  by (simp_all add: write_env_def) (simp_all add: env_of_def)

lemma write_round:
  "\<exists>m t1. run_round write_env (turn_of sample_start empty_db) = (Inr (Some m), t1) \<and> tn_tools t1 = [sample_call ''{}'']
     \<and> tn_text t1 = [] \<and> chat_kept empty_db (tn_db t1)"
proof -
  let ?t0 = "(turn_of sample_start empty_db)\<lparr>tn_text := [], tn_tools := [], tn_finish := ''stop''\<rparr>"
  obtain u where u: "call_gateway write_env ?t0 = (Inr (), u)" "tn_tools u = [sample_call ''{}'']" "tn_text u = []"
    by (simp add: call_gateway_def Let_def turn_of_def sample_start_def get_gateway_def write_settings_def handle_event_def ok_def)
  have db: "tn_db u = empty_db"
  proof -
    have "same_ground ?t0 u" using call_gateway_ground [of ?t0 write_env] by (simp only: u(1) snd_conv)
    then show ?thesis by (simp add: same_ground_def turn_of_def)
  qed
  let ?r = "record_tool_calls write_env u"
  have r: "tn_tools ?r = [sample_call ''{}'']" "tn_text ?r = []"
    "tn_db ?r = snd (add_message pinned_conversation (tool_call_message u (sample_call ''{}'')) empty_db)"
    by (simp_all add: record_tool_calls_def u db) (simp add: say_def split_beta u)
  have "\<exists>m v. propose_call write_env (sample_call ''{}'') ?r = (Inr m, v)"
    by (rule first_proposal) (simp_all add: r add_message_def row_defaults_def Let_def sample_call_def)
  then obtain m v where p: "propose_call write_env (sample_call ''{}'') ?r = (Inr m, v)" by blast
  have kept: "tn_tools v = tn_tools ?r \<and> tn_text v = tn_text ?r"
    using p by (auto simp: propose_call_def Let_def split_beta yield_chunk_def say_def bind_err_ok_iff
        split: prod.splits sum.splits if_splits)
  have round: "run_round write_env (turn_of sample_start empty_db) = (Inr (Some m), v)"
    using r p by (simp add: run_round_def u Let_def is_write_tool_def sample_call_def ok_def)
  have "turn_run write_env (turn_of sample_start empty_db) (snd (run_round write_env (turn_of sample_start empty_db)))"
    by (rule run_round_run)
  from turn_run_kept [OF this] have "chat_kept empty_db (tn_db v)"
    unfolding round by (simp add: turn_of_def)
  with round kept r show ?thesis by auto
qed

lemma small_cost:
  assumes "0 \<le> tokens" "tokens \<le> 1000"
  shows "estimate_cost_cents OPENAI ''gpt-5-mini'' tokens 512 = Inr 0"
proof -
  have "\<lfloor>1274 / 10000 :: rat\<rfloor> = 0" by (simp add: floor_eq_iff)
  then have top: "estimate_cost_cents OPENAI ''gpt-5-mini'' 1000 512 = Inr 0"
    by (simp add: estimate_cost_cents_def py_round_def Let_def tokens_per_pricing_unit_def cents_per_dollar_def)
  obtain c where c: "estimate_cost_cents OPENAI ''gpt-5-mini'' tokens 512 = Inr c"
    by (simp add: estimate_cost_cents_def)
  from estimate_cost_mono [OF c top assms(2)] estimate_cost_nonneg [OF c assms(1)] c show ?thesis by simp
qed

lemma turn_content_cost: "int (length (turn_content (message_turn m))) \<le> message_cost m"
  by (auto simp: message_turn_def message_cost_def plain_turn_def split: message_role.splits option.splits)

lemma pinned_begins:
  assumes "chat_kept empty_db s" "length (messages_of 5 s) < 200" "sum_list (map message_cost (messages_of 5 s)) \<le> 2000"
  shows "\<exists>start s1. begin_turn sample_tools write_settings pinned_conversation sample_chatter ''ha'' FAST s = (Inr start, s1)"
proof -
  let ?new = "fst (add_message pinned_conversation (user_message ''ha'') s)"
  let ?s0 = "snd (add_message pinned_conversation (user_message ''ha'') s)"
  let ?all = "sort_key msg_created_at (messages_of 5 s @ [?new])"
  have id: "cv_id pinned_conversation = 5" by (simp add: pinned_conversation_def sample_conversation_def)
  have messages: "list_messages 5 200 ?s0 = Inr ?all"
    using messages_of_added [of pinned_conversation "user_message ''ha''" s] assms(2)
    by (simp add: list_messages_def id messages_of_def [symmetric])
  have "message_cost ?new = 2"
    by (simp add: add_message_def user_message_def row_defaults_def Let_def message_cost_def str_or_def)
  then have "sum_list (map message_cost (messages_of 5 s @ [?new])) \<le> 2002" using assms(3) by simp
  moreover have "sum_list (map message_cost ?all) = sum_list (map message_cost (messages_of 5 s @ [?new]))"
    by (metis mset_map mset_sort sum_mset_sum_list)
  ultimately have cost: "sum_list (map message_cost ?all) \<le> 2002" by simp
  let ?hist = "messages_to_history 8000 ?all"
  have "0 + sum_list (map message_cost (rev ?all)) \<le> 8000" using cost by (simp add: rev_map [symmetric])
  from most_recent_all [OF this, of "[]"] have hist: "?hist = map message_turn ?all"
    by (simp add: messages_to_history_def)
  have "int (sum_list (map (\<lambda>h. length (turn_content h)) (map message_turn ms))) \<le> sum_list (map message_cost ms)" for ms
    using turn_content_cost by (induction ms) (auto intro: add_mono)
  from this [of ?all] cost hist have len: "sum_list (map (\<lambda>h. length (turn_content h)) ?hist) \<le> 2002" by simp
  let ?n = "sum_list (map (\<lambda>h. length (turn_content h)) ?hist)"
  have "0 \<le> estimate_input_tokens_from_chars ?n" "estimate_input_tokens_from_chars ?n \<le> 1000"
    using len unfolding estimate_input_tokens_from_chars_def by linarith+
  then have "estimate_turn_cents write_settings FAST (OPENAI, ''gpt-5-mini'') ?hist = Inr 0"
    by (simp add: estimate_turn_cents_def write_settings_def default_ai_settings_def small_cost)
  then show ?thesis
    using messages assms(1)
    by (simp add: begin_turn_def sample_no_secret id sample_chatter_def Let_def
        pinned_conversation_def sample_conversation_def
        resolve_effective_language_def response_language_instruction_def language_names_uz_def from_sum_def
        resolve_provider_choice_def provider_of_def all_providers_def str_or_def
        assert_provider_enabled_def is_provider_enabled_for_customer_def chat_kept_def
        write_settings_def default_ai_settings_def add_message_def row_defaults_def
        reserve_budget_def ledger_defs hard_cap_cents_def cents_per_dollar_def py_round_def ok_def)
qed

theorem write_call_is_never_answered_witness:
  "\<exists>m t1 start s1. run_round write_env (turn_of sample_start empty_db) = (Inr (Some m), t1)
     \<and> begin_turn sample_tools write_settings pinned_conversation sample_chatter ''ha'' FAST (tn_db t1) = (Inr start, s1)
     \<and> ''gemini-call-telegram_send_message-0'' \<in> openai_ids ''function_call'' (to_openai_input (st_history start))
         - openai_ids ''function_call_output'' (to_openai_input (st_history start))"
proof -
  obtain m t1 where round: "run_round write_env (turn_of sample_start empty_db) = (Inr (Some m), t1)"
    and t1: "tn_tools t1 = [sample_call ''{}'']" "tn_text t1 = []" "chat_kept empty_db (tn_db t1)"
    using write_round by blast
  have id: "cv_id pinned_conversation = 5" by (simp add: pinned_conversation_def sample_conversation_def)
  from round_with_write_call [OF round] t1(1,2) obtain k x a where said: "messages_of 5 (tn_db t1) = [k, x]"
    and k: "is_call_message [] k (sample_call ''{}'')" and x: "msg_tool_arguments_json x = None"
      "msg_content x = proposal_text (sample_call ''{}'') a"
    by (auto simp: id list_all2_Cons2 messages_of_def turn_of_def)
  have "length (call_name (sample_call ''{}'')) = 21" by (simp add: sample_call_def send_tool_def)
  with proposal_text_length [of "sample_call ''{}''" a] have "message_cost x \<le> 500"
    by (simp add: message_cost_def str_or_def x)
  moreover have "message_cost k = 2"
    using k by (simp add: message_cost_def str_or_def is_call_message_def sample_call_def)
  ultimately have cost: "sum_list (map message_cost (messages_of 5 (tn_db t1))) \<le> 502" by (simp add: said)
  obtain start s1 where b: "begin_turn sample_tools write_settings pinned_conversation sample_chatter ''ha'' FAST (tn_db t1)
      = (Inr start, s1)"
    using pinned_begins [OF t1(3)] cost by (auto simp: said)
  have mx: "ai_max_context_chars write_settings = 8000" by (simp add: write_settings_def default_ai_settings_def)
  have "call_id (sample_call ''{}'') \<in> openai_ids ''function_call'' (to_openai_input (st_history start))
         - openai_ids ''function_call_output'' (to_openai_input (st_history start))"
  proof (rule write_call_is_never_answered [OF round, THEN conjunct1])
    show "begin_turn sample_tools write_settings (te_conversation write_env) sample_chatter ''ha'' FAST (tn_db t1) = (Inr start, s1)"
      by (simp add: b)
  qed (use cost in \<open>simp_all add: t1(1) id messages_of_def [of 5 empty_db] turn_of_def said mx sample_call_def\<close>)
  with round b show ?thesis by (auto simp: sample_call_def)
qed

end
