(* ===== verification/Trace_System.thy ===== *)
theory Trace_System
  imports Jobs
begin

text \<open>
  The traces of actions: every audit event that names an action carries the trace of that action,
  in every state the requests reach, so the job of \<open>verify_trace_completeness_job.py\<close> has nothing
  to report.
\<close>

section \<open>Which actions new events name\<close>

definition names_only :: "uuid \<Rightarrow> uuid \<Rightarrow> db \<Rightarrow> db \<Rightarrow> bool" where
  "names_only i tr s t \<longleftrightarrow>
     (\<forall>e \<in> set (audit_events t). e \<in> set (audit_events s) \<or> event_action_id e = None
        \<or> event_action_id e = Some (JStr (uuid_str i)) \<and> ae_trace_id e = tr)"

definition names_none :: "db \<Rightarrow> db \<Rightarrow> bool" where
  "names_none s t \<longleftrightarrow> (\<forall>e \<in> set (audit_events t). e \<in> set (audit_events s) \<or> event_action_id e = None)"

lemma names_none_only: "names_none s t \<Longrightarrow> names_only i tr s t"
  by (auto simp: names_none_def names_only_def)

lemma names_only_trans: "names_only i tr s t \<Longrightarrow> names_only i tr t u \<Longrightarrow> names_only i tr s u"
  unfolding names_only_def by blast

lemma names_only_none: "names_only i tr s t \<Longrightarrow> names_none t u \<Longrightarrow> names_only i tr s u"
  by (rule names_only_trans [OF _ names_none_only])

lemma names_same: "audit_events t = audit_events s \<Longrightarrow> names_none s t"
  by (simp add: names_none_def)

lemma names_notify: "names_none s (notify_transition a target s)"
  by (auto simp: names_none_def notify_transition_def create_notification_def Let_def row_defaults_def uuid4_def effect
      event_action_id_def)

lemma names_log:
  assumes "map_of (rev m) ''action_id'' = Some (JStr (uuid_str i))"
  shows "names_only i tr s (log_event c tr who ty w m s)"
  using assms by (auto simp: names_only_def effect event_action_id_def)

lemma transition_names:
  assumes "apply_transition a target who receipt s = (Inr b, t)"
  shows "names_only (act_id b) (act_trace_id b) s t" "current_action b t = b"
    "act_id b = act_id (current_action a s)" "act_trace_id b = act_trace_id (current_action a s)"
proof -
  let ?s = "s\<lparr>action_actions := tupd act_id (act_id b) (\<lambda>x. x\<lparr>act_status := target\<rparr>) (action_actions s)\<rparr>"
  obtain w m where t: "t = notify_transition b target (log_event (act_customer_id b) (act_trace_id b) who
      (transition_event target) w m ?s)" and m: "map_of (rev m) ''action_id'' = Some (JStr (uuid_str (act_id b)))"
    using assms by (simp add: apply_transition_ok_iff)
  have "names_only (act_id b) (act_trace_id b) s ?s" by (simp add: names_only_def)
  from names_only_trans [OF names_only_trans [OF this names_log [OF m]] names_none_only [OF names_notify]]
  show "names_only (act_id b) (act_trace_id b) s t" by (simp add: t)
  show b: "act_id b = act_id (current_action a s)" "act_trace_id b = act_trace_id (current_action a s)"
    by (simp_all add: apply_transition_ok(1) [OF assms])
  have "act_id (current_action a s) = act_id a"
    by (auto simp: current_action_def dest: tget_SomeD split: option.splits)
  then have "act_id b = act_id a" by (simp add: b(1))
  then show "current_action b t = b"
    using apply_transition_ok(1) [OF assms]
    by (auto simp: current_action_def apply_transition_ok(3) [OF assms] tget_tupd_same split: option.splits)
qed

lemma submit_names:
  assumes "submit_action_for_execution a who s = (Inr x, t)"
  shows "names_only (act_id (current_action a s)) (act_trace_id (current_action a s)) s t"
proof -
  obtain b s1 where v: "apply_transition a VALIDATING who None s = (Inr b, s1)"
    using assms by (auto simp: submit_action_for_execution_def validate_action_def bind_err_ok_iff)
  note V = transition_names [OF v]
  have next_one: "names_only (act_id b) (act_trace_id b) s u"
    if "apply_transition b target who None s1 = (Inr d, u)" for target d u
    using names_only_trans [OF V(1)] transition_names(1,3,4) [OF that] V(2) by simp
  have ready: "names_none u (enqueue_ready d m u)" for d m u by (simp add: names_same)
  have approval: "names_none u v" if "request_approval d u = (Inr q, v)" for d q u v
    using that by (auto simp: request_approval_def token_urlsafe_def utcnow_def row_defaults_def Let_def names_same
        split: if_splits)
  show ?thesis
    using assms v
    by (auto simp: submit_action_for_execution_def validate_action_def bind_err_ok_iff V(3,4) [symmetric]
        split: if_splits dest!: next_one approval
        intro: names_only_none names_only_none [OF _ ready] names_only_none [OF names_only_none [OF _ ready]])
qed

text \<open>What a proposal adds: nothing, or one action, and events of that action.\<close>

lemma propose_names:
  assumes inv: "action_inv s" and t: "t = snd (run_tx (propose_and_submit_action trace tool risk payload task key ctx) s)"
  shows "action_actions t = action_actions s \<and> names_none s t
     \<or> (\<exists>b. action_actions t = action_actions s @ [b] \<and> act_id b = uuid_src s (drawn s)
            \<and> names_only (act_id b) (act_trace_id b) s t)"
proof (cases "fst (propose_and_submit_action trace tool risk payload task key ctx s)")
  case (Inl e)
  then show ?thesis
    by (cases "propose_and_submit_action trace tool risk payload task key ctx s")
      (simp add: t run_tx_def rollback_def names_none_def)
next
  case (Inr r)
  then obtain u where ok: "propose_and_submit_action trace tool risk payload task key ctx s = (Inr r, u)" and u: "t = u"
    by (cases "propose_and_submit_action trace tool risk payload task key ctx s") (simp add: t run_tx_def)
  let ?c = "wc_customer_id (rc_workspace ctx)" and ?w = "wc_workspace_id (rc_workspace ctx)"
  obtain a created s1 where p: "propose_action ?c ?w trace (ctx_actor ctx) tool risk payload key task s
      = (Inr (a, created), s1)"
    and rest: "if created then \<exists>x. submit_action_for_execution a (ctx_actor ctx) s1 = (Inr x, u) else u = s1"
    using ok by (auto simp: propose_and_submit_action_def bind_err_ok_iff ok_def split: if_splits)
  show ?thesis
  proof (cases created)
    case False
    with p rest show ?thesis
      by (auto simp: u propose_action_def Let_def row_defaults_def names_none_def split: option.splits)
  next
    case True
    with rest obtain x where x: "submit_action_for_execution a (ctx_actor ctx) s1 = (Inr x, u)" by auto
    from p True have a: "action_actions s1 = action_actions s @ [a]" "act_id a = uuid_src s (drawn s)" "act_status a = DRAFT"
      using propose_action_cases(1) [OF p] by auto
    have fresh: "act_id a \<notin> act_id ` set (action_actions s)"
      using inv by (auto simp: a(2) action_inv_def inj_eq)
    have "names_only (act_id a) (act_trace_id a) s s1"
      using p True
      by (auto simp: propose_action_def Let_def row_defaults_def names_only_def effect event_action_id_def split: option.splits)
    moreover have "current_action a s1 = a"
      using fresh by (simp add: current_action_def a(1) tget_append tget_None_iff [THEN iffD2])
    ultimately have "names_only (act_id a) (act_trace_id a) s u"
      using submit_names [OF x] names_only_trans by metis
    moreover obtain st where "action_actions u = action_actions s @ [a\<lparr>act_status := st\<rparr>]"
      using submit_new [OF a(1) fresh a(3), of "ctx_actor ctx"] x by (auto split: if_splits)
    ultimately show ?thesis using a(2) by (auto simp: u)
  qed
qed

section \<open>The invariant\<close>

definition trace_inv :: "db \<Rightarrow> bool" where
  "trace_inv s \<longleftrightarrow> action_inv s
     \<and> (\<forall>e \<in> set (audit_events s). \<forall>i. event_action_id e = Some (JStr (uuid_str i)) \<longrightarrow>
          i \<in> issued s \<and> (\<forall>a \<in> set (action_actions s). act_id a = i \<longrightarrow> ae_trace_id e = act_trace_id a))"

lemma trace_inv_keep:
  assumes inv: "trace_inv s" and act: "action_inv t" and issued: "issued s \<subseteq> issued t"
    and names: "names_only i tr s t"
    and rows: "\<And>a. a \<in> set (action_actions t) \<Longrightarrow> act_id a \<in> issued s
       \<Longrightarrow> \<exists>r \<in> set (action_actions s). act_id r = act_id a \<and> act_trace_id r = act_trace_id a"
    and named: "b \<in> set (action_actions t)" "act_id b = i" "act_trace_id b = tr"
  shows "trace_inv t"
proof -
  have dist: "distinct (map act_id (action_actions t))" and ids: "act_id ` set (action_actions t) \<subseteq> issued t"
    using act by (auto simp: action_inv_def issued_def)
  have "j \<in> issued t \<and> (\<forall>a \<in> set (action_actions t). act_id a = j \<longrightarrow> ae_trace_id e = act_trace_id a)"
    if e: "e \<in> set (audit_events t)" "event_action_id e = Some (JStr (uuid_str j))" for e j
  proof (cases "e \<in> set (audit_events s)")
    case True
    with e inv have old: "j \<in> issued s" "\<And>a. a \<in> set (action_actions s) \<Longrightarrow> act_id a = j \<Longrightarrow> ae_trace_id e = act_trace_id a"
      by (auto simp: trace_inv_def)
    with issued rows show ?thesis by fastforce
  next
    case False
    with names e have ji: "j = i" "ae_trace_id e = tr" by (auto simp: names_only_def)
    have "j \<in> issued t" using ids named(1,2) ji(1) by blast
    moreover have "ae_trace_id e = act_trace_id a" if a: "a \<in> set (action_actions t)" "act_id a = j" for a
    proof -
      have "act_id a = act_id b" by (simp add: a(2) ji(1) named(2))
      then have "a = b" by (rule unique_by_key [OF dist a(1) named(1)])
      then show ?thesis by (simp add: ji(2) named(3))
    qed
    ultimately show ?thesis by blast
  qed
  with act show ?thesis unfolding trace_inv_def by blast
qed

lemma trace_inv_unnamed:
  assumes "trace_inv s" "action_inv t" "issued s \<subseteq> issued t" "names_none s t" "action_actions t = action_actions s"
  shows "trace_inv t"
  using assms unfolding trace_inv_def names_none_def by (metis option.distinct(1) subsetD)

text \<open>Moving an action that was loaded, with events of that action.\<close>

lemma trace_inv_move:
  assumes inv: "trace_inv s" and act: "action_inv t" and load: "loaded a s"
    and ok: "apply_transition a target who receipt s1 = (Inr b, t1)"
    and s1: "action_actions s1 = action_actions s" "audit_events s1 = audit_events s"
    and t: "action_actions t = action_actions t1" "audit_events t = audit_events t1"
    and mono: "issued s \<subseteq> issued t"
  shows "trace_inv t"
proof -
  have dist: "distinct (map act_id (action_actions s))" using inv by (simp add: trace_inv_def action_inv_def)
  obtain r where r: "r \<in> set (action_actions s)" "current_action a s = r"
    by (rule current_action_loaded [OF load dist]) blast
  have cur: "current_action a s1 = r" using r(2) by (simp add: current_action_def s1)
  note T = transition_names [OF ok, unfolded cur] and rows = apply_transition_ok(3) [OF ok]
  have "names_only (act_id b) (act_trace_id b) s t" using T(1) by (simp add: names_only_def s1 t)
  moreover have "\<exists>x \<in> set (action_actions s). act_id x = act_id y \<and> act_trace_id x = act_trace_id y"
    if "y \<in> set (action_actions t)" for y
  proof -
    from that obtain x where "x \<in> set (action_actions s)" "y = (if act_id x = act_id b then x\<lparr>act_status := target\<rparr> else x)"
      unfolding t rows in_set_tupd s1 by blast
    then show ?thesis by (intro bexI [of _ x]) auto
  qed
  moreover have "r\<lparr>act_status := target\<rparr> \<in> set (action_actions t)"
    unfolding t rows in_set_tupd s1 using r(1) T(3) by auto
  ultimately show ?thesis
    by (intro trace_inv_keep [OF inv act mono]) (auto simp: T(3,4))
qed

section \<open>Runs\<close>

text \<open>
  The requests and the connector as in \<open>Action_System\<close>, with whatever events they log, also where
  they leave the actions alone (a replayed proposal, a request that is refused).  Of what goes on
  elsewhere it is assumed that it logs no event that names an action: no other service writes
  \<open>action_id\<close> in the metadata of an event.
\<close>

inductive trace_step :: "db \<Rightarrow> db \<Rightarrow> bool" where
  propose: "t = snd (run_tx (propose_and_submit_action trace tool risk payload task key ctx) s)
     \<Longrightarrow> trace_step s t"
| consume: "loaded a s \<Longrightarrow> loaded_approval p s \<Longrightarrow> apv_action_id p = act_id a
     \<Longrightarrow> t = snd (run_tx (consume_approval a p who nonce) s) \<Longrightarrow> trace_step s t"
| cancel: "loaded a s \<Longrightarrow> t = snd (run_tx (request_cancellation a who) s) \<Longrightarrow> trace_step s t"
| compensate: "loaded a s \<Longrightarrow> t = snd (run_tx (complete_compensation a outcome who) s) \<Longrightarrow> trace_step s t"
| connector: "loaded a s \<Longrightarrow> target \<in> {RUNNING, SUCCEEDED, FAILED}
     \<Longrightarrow> t = snd (run_tx (apply_transition a target who receipt) s) \<Longrightarrow> trace_step s t"
| elsewhere: "action_actions t = action_actions s \<Longrightarrow> action_approvals t = action_approvals s
     \<Longrightarrow> map announced (outbox_messages t) = map announced (outbox_messages s)
     \<Longrightarrow> uuid_src t = uuid_src s \<Longrightarrow> drawn s \<le> drawn t \<Longrightarrow> names_none s t \<Longrightarrow> trace_step s t"

inductive_cases trace_stepE: "trace_step s t"

lemma trace_step_action:
  assumes "trace_step s t"
  shows "action_step s t"
  using assms
  by (cases rule: trace_step.cases) (auto intro: action_step.intros)

definition no_traces :: "db \<Rightarrow> bool" where
  "no_traces s \<longleftrightarrow> no_actions s \<and> (\<forall>e \<in> set (audit_events s). event_action_id e = None)"

text \<open>A request in its transaction that, when it succeeds, moves the loaded action once.\<close>

lemma trace_inv_tx:
  assumes inv: "trace_inv s" and act: "action_inv t" and t: "t = snd (run_tx oper s)"
    and drawn: "drawn s \<le> drawn (snd (oper s))" and load: "loaded a s"
    and ok: "\<And>x u. oper s = (Inr x, u) \<Longrightarrow> \<exists>target who receipt s1 b t1.
       apply_transition a target who receipt s1 = (Inr b, t1)
       \<and> (action_actions s1 = action_actions s \<and> audit_events s1 = audit_events s)
       \<and> (action_actions u = action_actions t1 \<and> audit_events u = audit_events t1) \<and> uuid_src u = uuid_src s"
  shows "trace_inv t"
proof (cases "oper s")
  case (Pair r u)
  show ?thesis
  proof (cases r)
    case (Inl e)
    with Pair have "t = rollback s u" by (simp add: t run_tx_def)
    then show ?thesis
      using drawn Pair
      by (intro trace_inv_unnamed [OF inv act issued_mono]) (simp_all add: rollback_def names_same)
  next
    case (Inr x)
    with Pair have tu: "t = u" by (simp add: t run_tx_def)
    from ok Pair Inr obtain target who receipt s1 b t1 where m: "apply_transition a target who receipt s1 = (Inr b, t1)"
      "action_actions s1 = action_actions s" "audit_events s1 = audit_events s"
      "action_actions u = action_actions t1" "audit_events u = audit_events t1" "uuid_src u = uuid_src s"
      by blast
    have "issued s \<subseteq> issued t" using drawn Pair by (intro issued_mono) (simp_all add: tu m(6))
    with m show ?thesis by (intro trace_inv_move [OF inv act load m(1-3)]) (simp_all add: tu)
  qed
qed

lemma trace_step_inv:
  assumes "trace_step s t" "trace_inv s"
  shows "trace_inv t"
proof -
  have step: "action_step s t" by (rule trace_step_action [OF assms(1)])
  have pre: "action_inv s" using assms(2) by (simp add: trace_inv_def)
  have act: "action_inv t" by (rule action_step_inv [OF step pre])
  have single: "trace_inv t" if "loaded a s" "t = snd (run_tx oper s)"
    "oper = apply_transition a target who receipt \<or> oper = raise e" for a oper target who receipt e
    using that(3)
  proof
    assume o: "oper = apply_transition a target who receipt"
    show ?thesis
    proof (rule trace_inv_tx [OF assms(2) act that(2) _ that(1)])
      show "drawn s \<le> drawn (snd (oper s))" by (simp add: o apply_transition_drawn)
      show "\<exists>target who receipt s1 b t1. apply_transition a target who receipt s1 = (Inr b, t1)
          \<and> (action_actions s1 = action_actions s \<and> audit_events s1 = audit_events s)
          \<and> (action_actions u = action_actions t1 \<and> audit_events u = audit_events t1) \<and> uuid_src u = uuid_src s"
        if "oper s = (Inr x, u)" for x u
        using that apply_transition_ok(6) [of a target who receipt s] unfolding o by blast
    qed
  next
    assume "oper = raise e"
    then show ?thesis using that(2) assms(2) by simp
  qed
  show ?thesis
    using assms(1)
  proof (cases rule: trace_step.cases)
    case (propose trace tool risk payload task key ctx)
    have mono: "issued s \<subseteq> issued t"
      by (rule propose_run [OF pre propose]) (simp_all add: tables_kept_def issued_mono less_imp_le)
    from propose_names [OF pre propose] show ?thesis
    proof
      assume "action_actions t = action_actions s \<and> names_none s t"
      then show ?thesis by (intro trace_inv_unnamed [OF assms(2) act mono]) simp_all
    next
      assume "\<exists>b. action_actions t = action_actions s @ [b] \<and> act_id b = uuid_src s (drawn s)
          \<and> names_only (act_id b) (act_trace_id b) s t"
      then obtain b where b: "action_actions t = action_actions s @ [b]" "act_id b = uuid_src s (drawn s)"
        "names_only (act_id b) (act_trace_id b) s t" by blast
      have "act_id b \<notin> issued s" using pre by (simp add: b(2) action_inv_def next_not_issued)
      then show ?thesis by (intro trace_inv_keep [OF assms(2) act mono b(3)]) (auto simp: b(1))
    qed
  next
    case (consume a p who nonce)
    show ?thesis
    proof (rule trace_inv_tx [OF assms(2) act consume(4) consume_approval_drawn consume(1)])
      fix x u
      assume c: "consume_approval a p who nonce s = (Inr x, u)"
      let ?s1 = "set_approval p (\<lambda>q. q\<lparr>apv_status := A_APPROVED, apv_approver_id := Some who\<rparr>) (s\<lparr>ticks := Suc (ticks s)\<rparr>)"
      from c obtain b t1 where "apply_transition a READY who None ?s1 = (Inr b, t1)"
        "u = enqueue_ready b [(''approval_id'', JStr (uuid_str (apv_id p)))] t1"
        by (auto simp: consume_approval_def utcnow_def Let_def bind_err_ok_iff split: if_splits sum.splits)
      then show "\<exists>target who receipt s1 b t1. apply_transition a target who receipt s1 = (Inr b, t1)
          \<and> (action_actions s1 = action_actions s \<and> audit_events s1 = audit_events s)
          \<and> (action_actions u = action_actions t1 \<and> audit_events u = audit_events t1) \<and> uuid_src u = uuid_src s"
        using apply_transition_ok(6) [of a READY who None ?s1 b t1]
        by (intro exI [of _ READY] exI [of _ who] exI [of _ None] exI [of _ ?s1] exI [of _ b] exI [of _ t1])
          (simp add: set_approval_def)
    qed
  next
    case (cancel a who)
    have "request_cancellation a who = apply_transition a CANCELLED who None
        \<or> request_cancellation a who = apply_transition a COMPENSATING who None
        \<or> request_cancellation a who = raise (ActionNotCancellableError (act_status a))"
      by (auto simp: request_cancellation_def fun_eq_iff)
    then show ?thesis using single [OF cancel] by blast
  next
    case (compensate a outcome who)
    have "complete_compensation a outcome who = apply_transition a outcome who None
        \<or> complete_compensation a outcome who = raise (InvalidCompensationOutcomeError outcome)"
      by (auto simp: complete_compensation_def fun_eq_iff)
    then show ?thesis using single [OF compensate] by blast
  next
    case (connector a target who receipt)
    then show ?thesis using single [OF connector(1,3)] by blast
  next
    case elsewhere
    then show ?thesis
      by (intro trace_inv_unnamed [OF assms(2) act issued_mono]) simp_all
  qed
qed

lemma trace_inv_initial: "no_traces s \<Longrightarrow> trace_inv s"
  by (simp add: no_traces_def trace_inv_def action_inv_initial)

interpretation trace_run: invariant_system trace_step no_traces trace_inv
  by unfold_locales (fact trace_inv_initial trace_step_inv)+

section \<open>The job\<close>

lemma trace_inv_check:
  assumes "trace_inv s"
  shows "check_customer_trace_completeness c s = []"
proof -
  have "ae_trace_id e = tr"
    if e: "e \<in> set (audit_events s)" "event_action_id e = Some (JStr i)"
      and m: "map_of (rev (map (\<lambda>a. (uuid_str (act_id a), act_trace_id a)) as)) i = Some tr" "set as \<subseteq> set (action_actions s)"
    for e i tr as
  proof -
    from map_of_SomeD [OF m(1)] m(2) obtain a where "a \<in> set (action_actions s)" "i = uuid_str (act_id a)" "tr = act_trace_id a"
      by auto
    with assms e show ?thesis by (auto simp: trace_inv_def)
  qed
  then show ?thesis
    by (force simp: check_customer_trace_completeness_def Let_def split: option.splits json.splits)
qed

text \<open>
  C39: however proposals, approvals, cancellations, compensations and the connector interleave,
  replays and refused requests among them, every audit event that names an action carries that
  action's trace: the trace completeness job finds nothing to report and exits with 0.  The other
  services, which may run in between, are assumed to name no action in their events.
\<close>

theorem traces_are_complete:
  assumes "no_traces s" "trace_step\<^sup>*\<^sup>* s t"
  shows "verify_trace_completeness_job t = (0, [])
     \<and> (\<forall>e \<in> set (audit_events t). \<forall>a \<in> set (action_actions t).
          event_action_id e = Some (JStr (uuid_str (act_id a))) \<longrightarrow> ae_trace_id e = act_trace_id a)"
proof -
  have inv: "trace_inv t" by (rule trace_run.reachable [OF assms])
  then show ?thesis
    by (auto simp: verify_trace_completeness_job_def trace_inv_check) (auto simp: trace_inv_def)
qed

text \<open>The proposal again, with another trace.\<close>

definition sample_replayed :: db where
  "sample_replayed = snd (run_tx (propose_and_submit_action 10 telegram_tool R0
     (JObj [(''chat_id'', JStr ''c''), (''text'', JStr ''hi'')]) None ''k1'' sample_ctx) sample_pending)"

theorem traces_are_complete_witness:
  "verify_trace_completeness_job sample_replayed = (0, [])
   \<and> action_actions sample_pending = [sample_action AWAITING_APPROVAL]"
proof -
  have start: "no_traces empty_db" using no_actions_empty_db by (simp add: no_traces_def)
  have "trace_step empty_db sample_pending"
    unfolding sample_pending_def sample_propose_def by (rule trace_step.propose) (rule refl)
  moreover have "trace_step sample_pending sample_replayed"
    unfolding sample_replayed_def by (rule trace_step.propose) (rule refl)
  ultimately have "trace_step\<^sup>*\<^sup>* empty_db sample_replayed"
    by (meson converse_rtranclp_into_rtranclp rtranclp.rtrancl_refl)
  from traces_are_complete [OF start this] show ?thesis by (simp add: sample_pending_tables)
qed

end
