(* ===== verification/Delivery.thy ===== *)
theory Delivery
  imports Outbox_Relay Telegram "HOL-Library.Sublist"
begin

text \<open>
  The two workers end to end: the polling loops of \<open>outbox_relay.py\<close> and \<open>telegram_relay.py\<close>, and
  the way of a ready action from its outbox row over the Redis stream to the answer of Telegram.
  Redis is not under src/: what each of its calls gives is part of a poll, arbitrary in the loops.
\<close>

section \<open>The consumer (telegram_relay.py)\<close>

definition telegram_stream :: string where
  "telegram_stream = ''doda:outbox:action.ready.v1''"

text \<open>\<open>refusal\<close> is the text of what \<open>xgroup_create\<close> raised, if it did.\<close>

definition ensure_consumer_group :: "string option \<Rightarrow> app_error + unit" where
  "ensure_consumer_group refusal =
     (case refusal of
        None \<Rightarrow> Inr ()
      | Some message \<Rightarrow> if sublist ''BUSYGROUP'' message then Inr () else Inl (Unhandled message))"

text \<open>
  An entry as \<open>xreadgroup\<close> hands it over, with what the requests for it will meet, and whether
  its \<open>xack\<close> fails.
\<close>

record delivered =
  dl_id :: nat
  dl_entry :: stream_entry
  dl_outcomes :: "http_outcome list"
  dl_xack_fails :: bool

definition process_delivered :: "bool \<Rightarrow> delivered \<Rightarrow> db \<times> send_log \<Rightarrow> (app_error + unit) \<times> db \<times> send_log" where
  "process_delivered bot_token_set d w =
     (case (parse_uuid (se_customer_id (dl_entry d)), parse_uuid (se_aggregate_id (dl_entry d))) of
        (Some customer_id, Some action_id) \<Rightarrow> process_entry bot_token_set action_id (dl_outcomes d) No_Crash w
      | _ \<Rightarrow> (Inl (Unhandled ''ValueError''), w))"

text \<open>
  An entry whose processing raises is left unacknowledged and the next one is taken; a failing
  \<open>xack\<close> ends the call.  The result comes with the entries acknowledged so far.
\<close>

fun process_entries ::
  "bool \<Rightarrow> delivered list \<Rightarrow> nat \<Rightarrow> nat list \<Rightarrow> db \<times> send_log \<Rightarrow> (app_error + nat) \<times> nat list \<times> db \<times> send_log" where
  "process_entries bot_token_set [] processed acked w = (Inr processed, acked, w)"
| "process_entries bot_token_set (d # ds) processed acked w =
     (let (r, w1) = process_delivered bot_token_set d w in
      if isl r then process_entries bot_token_set ds processed acked w1
      else if dl_xack_fails d then (Inl (Unhandled ''RedisError''), acked, w1)
      else process_entries bot_token_set ds (Suc processed) (acked @ [dl_id d]) w1)"

text \<open>One poll: what \<open>xgroup_create\<close> raised and what \<open>xreadgroup\<close> gave (None: it raised).\<close>

record telegram_poll =
  tp_group :: "string option"
  tp_read :: "delivered list option"

definition telegram_relay_once ::
  "bool \<Rightarrow> telegram_poll \<Rightarrow> nat list \<Rightarrow> db \<times> send_log \<Rightarrow> (app_error + nat) \<times> nat list \<times> db \<times> send_log" where
  "telegram_relay_once bot_token_set p acked w =
     (case ensure_consumer_group (tp_group p) of
        Inl e \<Rightarrow> (Inl e, acked, w)
      | Inr _ \<Rightarrow>
          (case tp_read p of
             None \<Rightarrow> (Inl (Unhandled ''RedisError''), acked, w)
           | Some entries \<Rightarrow> process_entries bot_token_set entries 0 acked w))"

text \<open>\<open>run_forever\<close> over the polls made before the stop event is set; an exception ends it.\<close>

fun telegram_run_forever ::
  "bool \<Rightarrow> telegram_poll list \<Rightarrow> nat list \<Rightarrow> db \<times> send_log \<Rightarrow> (app_error + unit) \<times> nat list \<times> db \<times> send_log" where
  "telegram_run_forever bot_token_set [] acked w = (Inr (), acked, w)"
| "telegram_run_forever bot_token_set (p # ps) acked w =
     (case telegram_relay_once bot_token_set p acked w of
        (Inl e, acked, w) \<Rightarrow> (Inl e, acked, w)
      | (Inr _, acked, w) \<Rightarrow> telegram_run_forever bot_token_set ps acked w)"

section \<open>The publisher's loop (outbox_relay.py)\<close>

record outbox_poll =
  op_fails :: "uuid \<Rightarrow> bool"
  op_locked :: "uuid \<Rightarrow> bool"
  op_commits :: bool

text \<open>
  The loop over the polls made before the stop event is set, with what it did after each: it
  polls again at once after publishing something and waits after an empty poll.
\<close>

datatype pause = At_Once nat | Waited

fun outbox_run_forever ::
  "nat \<Rightarrow> outbox_poll list \<Rightarrow> db \<times> stream_entry list \<Rightarrow> (app_error + pause list) \<times> db \<times> stream_entry list" where
  "outbox_run_forever batch_size [] w = (Inr [], w)"
| "outbox_run_forever batch_size (p # ps) w =
     (case relay_once (op_fails p) (op_locked p) (op_commits p) batch_size w of
        (Inl e, w) \<Rightarrow> (Inl e, w)
      | (Inr published, w) \<Rightarrow>
          (case outbox_run_forever batch_size ps w of
             (Inl e, w) \<Rightarrow> (Inl e, w)
           | (Inr pauses, w) \<Rightarrow> (Inr ((if published \<noteq> 0 then At_Once published else Waited) # pauses), w)))"

section \<open>What the publisher leaves in the stream\<close>

definition clean_poll :: outbox_poll where
  "clean_poll = \<lparr>op_fails = \<lambda>_. False, op_locked = \<lambda>_. False, op_commits = True\<rparr>"

lemma mark_published_actions [simp]: "action_actions (mark_published m s) = action_actions s"
  by (simp add: mark_published_def utcnow_def)

lemma publish_all_actions [simp]:
  "action_actions (snd (fst (publish_all fails ms k s redis))) = action_actions s"
  by (induction ms arbitrary: k s redis) simp_all

lemma poll_actions: "action_actions (fst (poll n w)) = action_actions (fst w)"
  by (simp add: poll_def relay_once_def Let_def rollback_def split: sum.splits)

lemma relay_once_clean:
  "\<exists>k. relay_once (\<lambda>_. False) (\<lambda>_. False) True n w = (Inr k, poll n w)"
proof -
  obtain t redis where "publish_all (\<lambda>_. False) (take n (sort_key om_created_at (pending (fst w)))) 0 (fst w) (snd w)
      = (ok (length (take n (sort_key om_created_at (pending (fst w))))) t, redis)"
    using publish_all_clean [of "take n (sort_key om_created_at (pending (fst w)))" 0 "fst w" "snd w"] by auto
  then show ?thesis by (simp add: poll_def relay_once_def Let_def ok_def)
qed

lemma outbox_run_clean:
  "\<exists>pauses. outbox_run_forever n (replicate k clean_poll) w = (Inr pauses, (poll n ^^ k) w)"
proof (induction k arbitrary: w)
  case (Suc k)
  obtain j where j: "relay_once (\<lambda>_. False) (\<lambda>_. False) True n w = (Inr j, poll n w)"
    using relay_once_clean by blast
  obtain pauses where "outbox_run_forever n (replicate k clean_poll) (poll n w) = (Inr pauses, (poll n ^^ k) (poll n w))"
    using Suc.IH by blast
  with j show ?case by (simp add: clean_poll_def funpow_swap1)
qed simp

lemma polls_append:
  assumes "distinct (map om_id (outbox_messages (fst w)))"
  shows "\<exists>new. snd ((poll n ^^ k) w) = snd w @ new \<and> (\<forall>e \<in> set new. \<exists>m. e = entry_of m)
    \<and> action_actions (fst ((poll n ^^ k) w)) = action_actions (fst w)"
  using assms
proof (induction k arbitrary: w)
  case (Suc k)
  obtain t sel where t: "poll n w = (t, snd w @ map entry_of sel)"
      "map om_id (outbox_messages t) = map om_id (outbox_messages (fst w))"
    using poll_spec [OF Suc.prems, of n "snd w"] by (metis prod.collapse)
  obtain new where "snd ((poll n ^^ k) (poll n w)) = snd (poll n w) @ new" "\<forall>e \<in> set new. \<exists>m. e = entry_of m"
      "action_actions (fst ((poll n ^^ k) (poll n w))) = action_actions (fst (poll n w))"
    using Suc.IH [of "poll n w"] Suc.prems t by auto
  then show ?case
    using t poll_actions [of n w]
    by (intro exI [of _ "map entry_of sel @ new"]) (auto simp: funpow_swap1)
qed simp


section \<open>What the consumer makes of an entry\<close>

abbreviation action_of :: "uuid \<Rightarrow> db \<Rightarrow> action_row option" where
  "action_of i s \<equiv> tget act_id i (action_actions s)"

lemma apply_transition_of:
  assumes "run_tx (apply_transition a target who receipt) s = (r, t)"
  shows "i \<noteq> act_id a \<Longrightarrow> action_of i t = action_of i s"
proof (cases r)
  case (Inr b)
  with assms have "apply_transition a target who receipt s = (Inr b, t)" by simp
  note T = apply_transition_ok [OF this]
  have "act_id b = act_id a" using T(1) by (simp add: current_action_id)
  then show "i \<noteq> act_id a \<Longrightarrow> action_of i t = action_of i s" by (simp add: T(3) tget_tupd)
next
  case (Inl e)
  with assms show "action_of i t = action_of i s" by (auto simp: run_tx_err_iff rollback_def)
qed

lemma transition_of:
  assumes "action_of i s = Some a" "allowed_edge (act_status a) target" "target = SUCCEEDED \<longrightarrow> receipt \<noteq> None"
  shows "\<exists>t. apply_transition a target who receipt s = (Inr (a\<lparr>act_status := target\<rparr>), t)
    \<and> action_of i t = Some (a\<lparr>act_status := target\<rparr>)"
proof -
  have i: "act_id a = i" using assms(1) by (auto dest: tget_SomeD)
  have cur: "current_action a s = a" using assms(1) by (simp add: current_action_def i)
  obtain b t where ok: "apply_transition a target who receipt s = (Inr b, t)"
    using assms(2,3) by (simp add: apply_transition_ok_iff cur)
  note T = apply_transition_ok [OF ok, unfolded cur]
  have "action_of i t = Some (a\<lparr>act_status := target\<rparr>)"
    using assms(1) by (simp add: T(1,3) i tget_tupd)
  with ok T(1) show ?thesis by simp
qed

lemma drive_to_running_other:
  assumes "i \<noteq> j" "run_tx (drive_to_running j) s = (r, t)"
  shows "action_of i t = action_of i s"
proof (cases "\<exists>a. action_of j s = Some a \<and> act_tool_name a = telegram_tool \<and> act_status a = READY")
  case True
  then obtain a where a: "action_of j s = Some a" "act_tool_name a = telegram_tool" "act_status a = READY" by blast
  then have "act_id a = j" by (auto dest: tget_SomeD)
  moreover have "snd (run_tx (apply_transition a RUNNING connector_actor None) s) = t"
    using assms(2) a
    by (auto simp: run_tx_def drive_to_running_def drive_to_running_after_def bind_err_def ok_def
        split: sum.splits prod.splits)
  ultimately show ?thesis
    using assms(1) apply_transition_of [of a RUNNING connector_actor None s _ t i] by (metis prod.collapse)
next
  case False
  then have "t = s"
    using assms(2)
    by (auto simp: run_tx_def drive_to_running_def drive_to_running_after_def ok_def split: option.splits if_splits)
  then show ?thesis by simp
qed

lemma finish_other:
  assumes "i \<noteq> j"
  shows "action_of i (fst (snd (finish j target receipt w))) = action_of i (fst w)"
proof (cases "action_of j (fst w)")
  case None
  then show ?thesis by (simp add: finish_def resolve_action_def resolve_action_after_def run_tx_raise)
next
  case (Some a)
  then have "act_id a = j" by (auto dest: tget_SomeD)
  moreover have "fst (snd (finish j target receipt w)) = snd (run_tx (apply_transition a target connector_actor receipt) (fst w))"
    using Some
    by (simp add: finish_def run_tx_def resolve_action_def resolve_action_after_def bind_err_def ok_def Let_def
        split: sum.split prod.split)
  ultimately show ?thesis
    using assms apply_transition_of [of a target connector_actor receipt "fst w"] by (metis prod.collapse)
qed

lemma process_entry_other:
  assumes "i \<noteq> j"
  shows "action_of i (fst (snd (process_entry token j outcomes crash w))) = action_of i (fst w)"
proof -
  obtain r t where drive: "run_tx (drive_to_running j) (fst w) = (r, t)" by fastforce
  have "action_of i t = action_of i (fst w)" by (rule drive_to_running_other [OF assms drive])
  note kept = this finish_other [OF assms]
  show ?thesis
  proof (cases "\<exists>a. r = Inr (Some a)")
    case True
    then obtain a where r: "r = Inr (Some a)" by blast
    obtain result sends where "send_with_retries j outcomes (snd w) = (result, sends)" by fastforce
    then show ?thesis by (cases result) (simp_all add: process_entry_def drive r kept Let_def)
  next
    case False
    then show ?thesis using kept(1) by (auto simp: process_entry_def drive Let_def split: sum.split option.split)
  qed
qed

lemma send_attempts_result: "fst (send_attempts n i outcomes sends) = fst (send_attempts n i outcomes sends')"
proof (induction n arbitrary: outcomes sends sends')
  case (Suc n)
  show ?case
  proof (cases outcomes)
    case (Cons outcome more)
    then show ?thesis
      using Suc [of more "sends @ [(i, Transient_Error)]" "sends' @ [(i, Transient_Error)]"]
      by (simp add: Let_def)
  qed simp
qed simp

definition telegram_accepts :: "uuid \<Rightarrow> http_outcome list \<Rightarrow> bool" where
  "telegram_accepts i outcomes \<longleftrightarrow> (case fst (send_with_retries i outcomes []) of Sent _ \<Rightarrow> True | _ \<Rightarrow> False)"

lemma process_entry_delivers:
  assumes "action_of i s = Some a" "act_tool_name a = telegram_tool" "act_status a = READY"
    and "well_formed_payload a" "telegram_accepts i outcomes"
  shows "\<exists>t sends'. process_entry True i outcomes No_Crash (s, sends) = (Inr (), t, sends')
    \<and> action_of i t = Some (a\<lparr>act_status := SUCCEEDED\<rparr>)"
proof -
  let ?b = "a\<lparr>act_status := RUNNING\<rparr>"
  obtain u where u: "apply_transition a RUNNING connector_actor None s = (Inr ?b, u)" "action_of i u = Some ?b"
    using transition_of [OF assms(1), of RUNNING None] assms(3) by auto
  then have drive: "run_tx (drive_to_running i) s = (Inr (Some ?b), u)"
    using assms(1-3) by (simp add: drive_to_running_def drive_to_running_after_def ok_def)
  obtain x sends' where x: "send_with_retries i outcomes sends = (Sent x, sends')"
    using assms(5) send_attempts_result [of telegram_send_attempts i outcomes "[]" sends]
    by (cases "send_with_retries i outcomes sends")
      (auto simp: telegram_accepts_def send_with_retries_def split: send_result.splits)
  obtain t where t: "apply_transition ?b SUCCEEDED connector_actor (Some [(''message_id'', x)]) u
        = (Inr (?b\<lparr>act_status := SUCCEEDED\<rparr>), t)" "action_of i t = Some (?b\<lparr>act_status := SUCCEEDED\<rparr>)"
    using transition_of [OF u(2), of SUCCEEDED "Some [(''message_id'', x)]"] by auto
  have "finish i SUCCEEDED (Some [(''message_id'', x)]) (u, sends') = (Inr (), t, sends')"
    using t(1) u(2) by (simp add: finish_def run_tx_def resolve_action_def resolve_action_after_def ok_def)
  moreover have "well_formed_payload ?b" using assms(4) by (simp add: well_formed_payload_def)
  ultimately have "process_entry True i outcomes No_Crash (s, sends) = (Inr (), t, sends')"
    by (simp add: process_entry_def drive x)
  with t(2) show ?thesis by simp
qed

section \<open>The loops as folds\<close>

definition deliveries :: "telegram_poll list \<Rightarrow> delivered list" where
  "deliveries polls = concat (map (\<lambda>p. the (tp_read p)) polls)"

definition serve :: "bool \<Rightarrow> delivered \<Rightarrow> nat list \<times> db \<times> send_log \<Rightarrow> nat list \<times> db \<times> send_log" where
  "serve token d aw =
     (let (r, w1) = process_delivered token d (snd aw) in (if isl r then fst aw else fst aw @ [dl_id d], w1))"

lemma process_entries_fold:
  "\<forall>d \<in> set ds. \<not> dl_xack_fails d \<Longrightarrow>
     \<exists>p. process_entries token ds k acked w = (Inr p, fold (serve token) ds (acked, w))"
  by (induction ds arbitrary: k acked w) (auto simp: serve_def split: prod.splits)

lemma telegram_run_fold:
  assumes "\<forall>p \<in> set ps. ensure_consumer_group (tp_group p) = Inr () \<and> tp_read p \<noteq> None
      \<and> (\<forall>d \<in> set (the (tp_read p)). \<not> dl_xack_fails d)"
  shows "telegram_run_forever token ps acked w
    = (Inr (), fold (serve token) (deliveries ps) (acked, w))"
  using assms
proof (induction ps arbitrary: acked w)
  case (Cons p ps)
  then obtain ds where ds: "tp_read p = Some ds" by auto
  have "\<forall>d \<in> set ds. \<not> dl_xack_fails d" using Cons.prems ds by simp
  then obtain k where "process_entries token ds 0 acked w = (Inr k, fold (serve token) ds (acked, w))"
    using process_entries_fold by blast
  then have "telegram_relay_once token p acked w = (Inr k, fold (serve token) ds (acked, w))"
    using Cons.prems ds by (simp add: telegram_relay_once_def)
  with Cons ds show ?case by (cases "fold (serve token) ds (acked, w)") (simp add: deliveries_def)
qed (simp add: deliveries_def)

lemma serve_acked: "set (fst aw) \<subseteq> set (fst (serve token d aw))"
  by (auto simp: serve_def split: prod.split)

lemma fold_serve_acked: "set (fst aw) \<subseteq> set (fst (fold (serve token) ds aw))"
proof (induction ds arbitrary: aw)
  case (Cons d ds)
  from serve_acked [of aw token d] Cons [of "serve token d aw"] show ?case by simp
qed simp

lemma serve_other:
  assumes "dl_entry d = entry_of m" "om_aggregate_id m \<noteq> i"
  shows "action_of i (fst (snd (serve token d aw))) = action_of i (fst (snd aw))"
proof -
  have "fst (snd (serve token d aw))
      = fst (snd (process_entry token (om_aggregate_id m) (dl_outcomes d) No_Crash (snd aw)))"
    by (simp add: serve_def process_delivered_def assms(1) entry_of_def split: prod.split)
  then show ?thesis using process_entry_other [of i "om_aggregate_id m"] assms(2) by simp
qed

lemma fold_serve_other:
  assumes "\<forall>d \<in> set ds. \<exists>m. dl_entry d = entry_of m \<and> om_aggregate_id m \<noteq> i"
  shows "action_of i (fst (snd (fold (serve token) ds aw))) = action_of i (fst (snd aw))"
  using assms by (induction ds arbitrary: aw) (auto simp: serve_other)

lemma fold_serve_delivers:
  assumes "\<forall>d \<in> set (xs @ ys). \<exists>m. dl_entry d = entry_of m \<and> om_aggregate_id m \<noteq> i"
    and "dl_entry d = entry_of m" "om_aggregate_id m = i"
    and "action_of i s = Some a" "act_tool_name a = telegram_tool" "act_status a = READY"
    and "well_formed_payload a" "telegram_accepts i (dl_outcomes d)"
  shows "action_of i (fst (snd (fold (serve True) (xs @ d # ys) (acked, s, sends)))) = Some (a\<lparr>act_status := SUCCEEDED\<rparr>)
    \<and> dl_id d \<in> set (fst (fold (serve True) (xs @ d # ys) (acked, s, sends)))"
proof -
  obtain acked1 s1 sends1 where one: "fold (serve True) xs (acked, s, sends) = (acked1, s1, sends1)"
    by (metis prod.collapse)
  have "action_of i s1 = Some a"
    using fold_serve_other [of xs i True "(acked, s, sends)"] assms(1,4) one by simp
  from process_entry_delivers [OF this assms(5-8), of sends1] obtain t sends2 where
    "process_entry True i (dl_outcomes d) No_Crash (s1, sends1) = (Inr (), t, sends2)"
    and t: "action_of i t = Some (a\<lparr>act_status := SUCCEEDED\<rparr>)" by blast
  then have two: "serve True d (acked1, s1, sends1) = (acked1 @ [dl_id d], t, sends2)"
    by (simp add: serve_def process_delivered_def assms(2,3) entry_of_def)
  have "action_of i (fst (snd (fold (serve True) ys (acked1 @ [dl_id d], t, sends2)))) = action_of i t"
    using fold_serve_other [of ys i True "(acked1 @ [dl_id d], t, sends2)"] assms(1) by simp
  moreover have "dl_id d \<in> set (fst (fold (serve True) ys (acked1 @ [dl_id d], t, sends2)))"
    using fold_serve_acked [of "(acked1 @ [dl_id d], t, sends2)"] by auto
  ultimately show ?thesis by (simp add: one two t)
qed


section \<open>The consumer's loop as a worker\<close>

definition world_of :: "db \<times> send_log \<Rightarrow> connector_world" where
  "world_of w = \<lparr>cw_db = fst w, cw_jobs = [], cw_sends = snd w\<rparr>"

lemma process_delivered_runs:
  assumes "process_delivered token d w = (r, v)"
  shows "connector_step\<^sup>*\<^sup>* (world_of w) (world_of v)"
proof (cases "\<exists>c i. parse_uuid (se_customer_id (dl_entry d)) = Some c \<and> parse_uuid (se_aggregate_id (dl_entry d)) = Some i")
  case True
  then obtain i where "process_entry token i (dl_outcomes d) No_Crash w = (r, v)"
    using assms by (auto simp: process_delivered_def)
  then show ?thesis
    using process_entry_runs [of token i "dl_outcomes d" No_Crash "world_of w" r "fst v" "snd v"]
    by (simp add: world_of_def)
next
  case False
  then have "v = w" using assms by (auto simp: process_delivered_def split: option.splits)
  then show ?thesis by simp
qed

lemma process_entries_runs:
  "process_entries token ds k acked w = (r, acked', v) \<Longrightarrow> connector_step\<^sup>*\<^sup>* (world_of w) (world_of v)"
proof (induction ds arbitrary: k acked w)
  case (Cons d ds)
  obtain x u where x: "process_delivered token d w = (x, u)" by (metis prod.collapse)
  have first: "connector_step\<^sup>*\<^sup>* (world_of w) (world_of u)" by (rule process_delivered_runs [OF x])
  consider "u = v" | k' acked'' where "process_entries token ds k' acked'' u = (r, acked', v)"
    using Cons.prems x by (auto split: if_splits)
  then show ?case
  proof cases
    case 2
    with Cons.IH first show ?thesis by (meson rtranclp_trans)
  qed (use first in simp)
qed simp

lemma telegram_relay_once_runs:
  "telegram_relay_once token p acked w = (r, acked', v) \<Longrightarrow> connector_step\<^sup>*\<^sup>* (world_of w) (world_of v)"
  by (auto simp: telegram_relay_once_def split: sum.splits option.splits dest: process_entries_runs)

text \<open>
  C21: whatever Redis, Telegram and the entries do, the polling loop of the connector is a run of
  the interleaved workers that starts and ends with nothing in hand.
\<close>

theorem telegram_run_refines:
  "telegram_run_forever token ps acked w = (r, acked', v) \<Longrightarrow> connector_step\<^sup>*\<^sup>* (world_of w) (world_of v)"
proof (induction ps arbitrary: acked w)
  case (Cons p ps)
  obtain x acked1 u where x: "telegram_relay_once token p acked w = (x, acked1, u)"
    by (metis prod.collapse)
  note first = telegram_relay_once_runs [OF x]
  show ?case
  proof (cases x)
    case (Inr k)
    with Cons.prems x have "telegram_run_forever token ps acked1 u = (r, acked', v)" by simp
    with Cons.IH first show ?thesis by (meson rtranclp_trans)
  next
    case (Inl e)
    with Cons.prems x first show ?thesis by simp
  qed
qed simp

section \<open>End to end\<close>

lemma telegram_stream_iff: "se_stream (entry_of m) = telegram_stream \<longleftrightarrow> om_event_type m = ''action.ready.v1''"
  by (simp add: entry_of_def telegram_stream_def)

text \<open>The entry of a ready action among those that the drained outbox has put into the stream.\<close>

lemma ready_entry_once:
  assumes inv: "action_inv s" and a: "a \<in> set (action_actions s)" "act_status a = READY"
    and queued: "\<forall>m \<in> set (outbox_messages s). is_ready_message (act_id a) m \<longrightarrow> om_published_at m = None"
    and new: "mset new = mset (map entry_of (pending s))"
  obtains xs m ys where "filter (\<lambda>e. se_stream e = telegram_stream) new = xs @ entry_of m # ys"
    "om_aggregate_id m = act_id a" "\<forall>e \<in> set (xs @ ys). \<exists>m. e = entry_of m \<and> om_aggregate_id m \<noteq> act_id a"
proof -
  let ?i = "act_id a"
  let ?mine = "\<lambda>e. se_stream e = telegram_stream \<and> se_aggregate_id e = uuid_str ?i"
  have mine: "?mine (entry_of m) \<longleftrightarrow> is_ready_message ?i m" for m
    unfolding telegram_stream_iff is_ready_message_def by (auto simp: entry_of_def)
  have filt: "filter ?mine (map entry_of ms) = map entry_of (filter (is_ready_message ?i) ms)" for ms
    unfolding filter_map comp_def mine ..
  let ?es = "filter (\<lambda>e. se_stream e = telegram_stream) new"
  have "mset (filter ?mine new) = mset (filter ?mine (map entry_of (pending s)))"
    by (simp only: mset_filter new)
  then have "length (filter ?mine new) = length (filter ?mine (map entry_of (pending s)))"
    by (rule mset_eq_length)
  also have "\<dots> = length (filter (is_ready_message ?i) (pending s))"
    by (simp only: filt length_map)
  also have "filter (is_ready_message ?i) (pending s) = filter (is_ready_message ?i) (outbox_messages s)"
    unfolding pending_def filter_filter by (rule filter_cong) (use queued in auto)
  also have "length \<dots> = 1"
    using inv a by (simp add: action_inv_def action_ok_def ready_count_def)
  finally have "length (filter (\<lambda>e. se_aggregate_id e = uuid_str ?i) ?es) = 1"
    by (simp add: conj_commute)
  then obtain e where "filter (\<lambda>e. se_aggregate_id e = uuid_str ?i) ?es = [e]"
    by (auto simp: length_Suc_conv)
  then obtain xs ys where split: "?es = xs @ e # ys" "se_aggregate_id e = uuid_str ?i"
      "\<forall>x \<in> set xs. se_aggregate_id x \<noteq> uuid_str ?i" "filter (\<lambda>e. se_aggregate_id e = uuid_str ?i) ys = []"
    by (auto simp: filter_eq_Cons_iff)
  have "set new = set (map entry_of (pending s))" using new by (metis set_mset_mset)
  then have from_outbox: "\<exists>m. x = entry_of m" if "x \<in> set ?es" for x using that by auto
  obtain m where m: "e = entry_of m" using from_outbox [of e] split(1) by auto
  have "\<exists>m. x = entry_of m \<and> om_aggregate_id m \<noteq> ?i" if "x \<in> set (xs @ ys)" for x
  proof -
    have "x \<in> set ?es" using that by (auto simp: split(1))
    then obtain m' where "x = entry_of m'" using from_outbox by blast
    moreover have "se_aggregate_id x \<noteq> uuid_str ?i" using that split(3,4) by (auto simp: filter_empty_conv)
    ultimately show ?thesis by (auto simp: entry_of_def)
  qed
  then show thesis using that [of xs m ys] split(1,2) by (simp add: m) (auto simp: entry_of_def)
qed

text \<open>
  C23: a ready Telegram action is carried out when nothing fails for it.  The action is READY in a
  reachable state, its payload is well-formed, and its ready message is not yet published.  Then the
  outbox relay polls without a failure, often enough for all that is pending; the connector, which
  has a bot token and its consumer group, reads without a failure, in any batches, exactly what that
  put into its stream, and can acknowledge; and Telegram accepts this action within the attempts it
  is given.  No other request comes in between, so nobody cancels it.  Then the action has succeeded
  and its entry is acknowledged, however the other entries fare.
\<close>

theorem ready_action_is_delivered:
  assumes "no_actions s0" "action_step\<^sup>*\<^sup>* s0 s"
    and "a \<in> set (action_actions s)" "act_tool_name a = telegram_tool" "act_status a = READY" "well_formed_payload a"
    and "distinct (map om_id (outbox_messages s))" "length (pending s) \<le> k * n"
    and "\<forall>m \<in> set (outbox_messages s). is_ready_message (act_id a) m \<longrightarrow> om_published_at m = None"
    and "outbox_run_forever n (replicate k clean_poll) (s, redis) = (r, t, redis @ new)"
    and "\<forall>p \<in> set polls. ensure_consumer_group (tp_group p) = Inr () \<and> tp_read p \<noteq> None
      \<and> (\<forall>d \<in> set (the (tp_read p)). \<not> dl_xack_fails d)"
    and "map dl_entry (deliveries polls) = filter (\<lambda>e. se_stream e = telegram_stream) new"
    and "\<forall>d \<in> set (deliveries polls). se_aggregate_id (dl_entry d) = uuid_str (act_id a)
      \<longrightarrow> telegram_accepts (act_id a) (dl_outcomes d)"
    and "telegram_run_forever True polls acked (t, sends) = (r', acked', t', sends')"
  shows "r' = Inr () \<and> a\<lparr>act_status := SUCCEEDED\<rparr> \<in> set (action_actions t')
    \<and> (\<exists>d \<in> set (deliveries polls). se_aggregate_id (dl_entry d) = uuid_str (act_id a) \<and> dl_id d \<in> set acked')"
proof -
  let ?i = "act_id a" and ?ds = "deliveries polls"
  have inv: "action_inv s" by (rule action_run.reachable [OF assms(1,2)])
  have "(t, redis @ new) = (poll n ^^ k) (s, redis)"
    using outbox_run_clean [of n k "(s, redis)"] assms(10) by auto
  then have t: "t = fst ((poll n ^^ k) (s, redis))" "redis @ new = snd ((poll n ^^ k) (s, redis))"
    by (metis fst_conv snd_conv)+
  have actions: "action_actions t = action_actions s"
    using polls_append [of "(s, redis)" k n] assms(7) by (auto simp: t(1))
  have "mset (redis @ new) = mset redis + mset (map entry_of (pending s))"
    using outbox_is_drained [OF assms(7,8), of redis] by (simp add: t(2))
  then have new: "mset new = mset (map entry_of (pending s))" by simp
  from ready_entry_once [OF inv assms(3,5,9) new] obtain xs m ys where
    split: "filter (\<lambda>e. se_stream e = telegram_stream) new = xs @ entry_of m # ys" "om_aggregate_id m = ?i"
      "\<forall>e \<in> set (xs @ ys). \<exists>m. e = entry_of m \<and> om_aggregate_id m \<noteq> ?i" by blast
  then obtain us d vs where ds: "?ds = us @ d # vs" "map dl_entry us = xs" "dl_entry d = entry_of m" "map dl_entry vs = ys"
    using assms(12) by (auto simp: map_eq_append_conv)
  have others: "\<forall>d \<in> set (us @ vs). \<exists>m. dl_entry d = entry_of m \<and> om_aggregate_id m \<noteq> ?i"
    using split(3) ds(2,4) by auto
  have mine: "se_aggregate_id (dl_entry d) = uuid_str ?i" by (simp add: ds(3) entry_of_def split(2))
  then have accepts: "telegram_accepts ?i (dl_outcomes d)" using assms(13) ds(1) by simp
  have row: "action_of ?i t = Some a"
    using tget_distinct [of act_id "action_actions t" a] inv assms(3) by (simp add: action_inv_def actions)
  have run: "telegram_run_forever True polls acked (t, sends) = (Inr (), fold (serve True) (us @ d # vs) (acked, t, sends))"
    using telegram_run_fold [OF assms(11), of True acked "(t, sends)"] ds(1) by simp
  note D = fold_serve_delivers [OF others ds(3) split(2) row assms(4-6) accepts, of acked sends]
  have r': "r' = Inr ()" and out: "fold (serve True) (us @ d # vs) (acked, t, sends) = (acked', t', sends')"
    using run assms(14) by simp_all
  from D have "action_of ?i t' = Some (a\<lparr>act_status := SUCCEEDED\<rparr>)" "dl_id d \<in> set acked'"
    by (simp_all only: out fst_conv snd_conv)
  then show ?thesis using r' ds(1) mine by (auto dest: tget_SomeD)
qed


text \<open>One batch that hands over a ready message; the first request meets a dead connection.\<close>

definition sample_delivery :: "nat \<times> stream_entry \<Rightarrow> delivered" where
  "sample_delivery e = \<lparr>dl_id = fst e, dl_entry = snd e, dl_outcomes = [Connect_Failure, sample_answer],
     dl_xack_fails = False\<rparr>"

definition sample_polls :: "stream_entry list \<Rightarrow> telegram_poll list" where
  "sample_polls new =
     [\<lparr>tp_group = Some ''BUSYGROUP Consumer Group name already exists'',
       tp_read = Some (map sample_delivery (enumerate 0 (filter (\<lambda>e. se_stream e = telegram_stream) new)))\<rparr>]"

lemma sample_pending_outbox: "outbox_messages sample_pending = []"
  by (simp add: sample_pending_def sample_propose_def run_tx_def propose_and_submit_action_def sample_ctx_def
      authorize_propose_action_def roles_that_may_propose_actions_def propose_action_def assert_not_killed_def
      row_defaults_def Let_def enforce_minimum_risk_level_def tool_minimum_risk_level_def risk_order_def
      submit_action_for_execution_def validate_action_def apply_transition_def current_action_def effect
      transition_def notify_transition_def is_notification_type_enabled_def always_on_types_def
      auto_approved_risk_levels_def request_approval_def token_urlsafe_def utcnow_def tupd_def ok_def)

lemma sample_approved_outbox:
  "\<exists>m. outbox_messages sample_approved = [m] \<and> om_published_at m = None"
  by (simp add: sample_approved_def run_tx_def consume_approval_def compare_digest_def is_ascii_def sample_approval_def utcnow_def
      sample_pending_tables default_approval_ttl_def apply_transition_def Let_def current_action_def
      set_approval_def transition_def notify_transition_def tupd_def ok_def)
    (simp add: sample_action_def effect sample_pending_outbox)

theorem ready_action_is_delivered_witness:
  "\<exists>t new t'. fst (snd (outbox_run_forever 1 (replicate 1 clean_poll) (sample_approved, []))) = t
     \<and> snd (snd (outbox_run_forever 1 (replicate 1 clean_poll) (sample_approved, []))) = new
     \<and> fst (snd (snd (telegram_run_forever True (sample_polls new) [] (t, [])))) = t'
     \<and> sample_action SUCCEEDED \<in> set (action_actions t')"
proof -
  obtain r t new where out: "outbox_run_forever 1 (replicate 1 clean_poll) (sample_approved, []) = (r, t, [] @ new)"
    by (metis append_Nil prod.collapse)
  obtain r' acked' t' sends' where tel: "telegram_run_forever True (sample_polls new) [] (t, []) = (r', acked', t', sends')"
    by (metis prod.collapse)
  obtain m where m: "outbox_messages sample_approved = [m]" "om_published_at m = None"
    using sample_approved_outbox by blast
  have a: "sample_action READY \<in> set (action_actions sample_approved)" "act_tool_name (sample_action READY) = telegram_tool"
    "act_status (sample_action READY) = READY" "act_id (sample_action READY) = 0"
    by (simp_all add: sample_approved_actions sample_action_def)
  have payload: "well_formed_payload (sample_action READY)"
    by (simp add: well_formed_payload_def sample_action_def dict_get_def)
  have accepts: "telegram_accepts 0 [Connect_Failure, sample_answer]"
    by (simp add: telegram_accepts_def send_with_retries_def telegram_send_attempts_def numeral_3_eq_3
        send_message_def sample_answer_def dict_get_def truthy_def Let_def)
  have group: "ensure_consumer_group (Some ''BUSYGROUP Consumer Group name already exists'') = Inr ()"
    unfolding ensure_consumer_group_def by code_simp
  have "sample_action SUCCEEDED \<in> set (action_actions t')"
  proof -
    have "(sample_action READY)\<lparr>act_status := SUCCEEDED\<rparr> \<in> set (action_actions t')"
      by (rule ready_action_is_delivered [OF no_actions_empty_db sample_approved_steps a(1-3) payload _ _ _ out _ _ _ tel,
            THEN conjunct2, THEN conjunct1])
        (auto simp: m pending_def a(4) accepts group sample_polls_def deliveries_def sample_delivery_def comp_def)
    then show ?thesis by (simp add: sample_action_def)
  qed
  with out tel show ?thesis by simp
qed


text \<open>An entry of a ready action whose acknowledgement fails: the loop ends after the message was sent.\<close>

definition broken_polls :: "telegram_poll list" where
  "broken_polls =
     [\<lparr>tp_group = None, tp_read = Some [\<lparr>dl_id = 1, dl_entry = entry_of (last (outbox_messages sample_approved)),
         dl_outcomes = [sample_answer], dl_xack_fails = True\<rparr>]\<rparr>,
      \<lparr>tp_group = None, tp_read = None\<rparr>]"

theorem telegram_run_refines_witness:
  "connector_step\<^sup>*\<^sup>* (world_of (sample_approved, []))
     (world_of (snd (snd (telegram_run_forever True broken_polls [] (sample_approved, [])))))"
  by (rule telegram_run_refines [of True broken_polls "[]" "(sample_approved, [])"
        "fst (telegram_run_forever True broken_polls [] (sample_approved, []))"
        "fst (snd (telegram_run_forever True broken_polls [] (sample_approved, [])))"]) simp

end
