(* ===== verification/Ops_Scripts.thy ===== *)
theory Ops_Scripts
  imports Chat_Api Jobs Config "HOL-Library.Sublist"
begin

text \<open>
  Scripts run by hand: the restore drill (\<open>backup_restore_drill.py\<close>) and the evaluation of the
  providers (\<open>run_ai_eval_suite.py\<close>).  The tools of PostgreSQL and the models are not under src/:
  what a command prints, and whether it fails, is a function of the commands run before it.
\<close>

section \<open>Addresses of databases (backup\_restore\_drill.py)\<close>

text \<open>\<open>str.replace\<close>, for a text to replace that is not empty.\<close>

fun replace_all :: "string \<Rightarrow> string \<Rightarrow> string \<Rightarrow> string" where
  "replace_all old new [] = []"
| "replace_all old new (c # cs) =
     (if starts_with old (c # cs) then new @ replace_all old new (drop (length old - 1) cs)
      else c # replace_all old new cs)"

definition libpq_url :: "string \<Rightarrow> string" where
  "libpq_url asyncpg_url = replace_all asyncpg_scheme ''postgresql://'' asyncpg_url"

text \<open>What \<open>rpartition("/")\<close> has before the last slash; nothing when there is none.\<close>

definition before_last_slash :: "string \<Rightarrow> string" where
  "before_last_slash url = rev (tl (dropWhile (\<lambda>c. c \<noteq> CHR ''/'') (rev url)))"

definition with_database :: "string \<Rightarrow> string \<Rightarrow> string" where
  "with_database url database = before_last_slash url @ ''/'' @ database"

section \<open>The restore drill (backup\_restore\_drill.py)\<close>

datatype pg_command =
    Pg_Dump string
  | Drop_Database string string
  | Create_Database string string
  | Pg_Restore string
  | List_Tables string
  | Count_Rows string string

type_synonym pg_tools = "pg_command list \<Rightarrow> pg_command \<Rightarrow> string option"

text \<open>\<open>check=True\<close>: a command that fails raises; its output else.\<close>

definition issue :: "pg_tools \<Rightarrow> pg_command \<Rightarrow> pg_command list \<Rightarrow> (app_error + string) \<times> pg_command list" where
  "issue tools command sent =
     (case tools sent command of
        None \<Rightarrow> raise (Unhandled ''CalledProcessError'') (sent @ [command])
      | Some out \<Rightarrow> ok out (sent @ [command]))"

fun count_tables ::
  "pg_tools \<Rightarrow> (string \<Rightarrow> int option) \<Rightarrow> string \<Rightarrow> string list \<Rightarrow> pg_command list
     \<Rightarrow> (app_error + (string \<times> int) list) \<times> pg_command list" where
  "count_tables tools int_of url [] sent = ok [] sent"
| "count_tables tools int_of url (table # tables) sent =
     bind_err (issue tools (Count_Rows url table) sent) (\<lambda>count sent.
     (case int_of (py_strip count) of
        None \<Rightarrow> raise (Unhandled ''ValueError'') sent
      | Some n \<Rightarrow>
          bind_err (count_tables tools int_of url tables sent) (\<lambda>counts sent. ok ((table, n) # counts) sent)))"

definition table_row_counts ::
  "pg_tools \<Rightarrow> (string \<Rightarrow> int option) \<Rightarrow> string \<Rightarrow> pg_command list
     \<Rightarrow> (app_error + (string \<times> int) list) \<times> pg_command list" where
  "table_row_counts tools int_of url sent =
     bind_err (issue tools (List_Tables url) sent) (\<lambda>tables sent.
     count_tables tools int_of url
       (map py_strip (filter (\<lambda>t. py_strip t \<noteq> []) (split_char (CHR 0x0A) tables))) sent)"

text \<open>A dictionary keeps the last value of a key.\<close>

definition count_mismatches :: "(string \<times> int) list \<Rightarrow> (string \<times> int) list \<Rightarrow> string list" where
  "count_mismatches source_counts drill_counts =
     filter (\<lambda>t. map_of (rev source_counts) t \<noteq> map_of (rev drill_counts) t) (remdups (map fst source_counts))"

text \<open>The restored copy as the services read it; the customers checked, and those with a broken chain.\<close>

definition verify_restored_audit_chains :: "db \<Rightarrow> nat \<times> nat" where
  "verify_restored_audit_chains restored =
     (let customer_ids = list_all_customer_ids restored
      in (length customer_ids,
          length (filter (\<lambda>c. \<not> verification_ok (verify_audit_chain c restored)) customer_ids)))"

text \<open>The body of the \<open>try\<close>: the exit status of \<open>pg_restore\<close> is not looked at.\<close>

definition restore_and_verify ::
  "pg_tools \<Rightarrow> (string \<Rightarrow> int option) \<Rightarrow> db option \<Rightarrow> string \<Rightarrow> string \<Rightarrow> pg_command list
     \<Rightarrow> (app_error + nat) \<times> pg_command list" where
  "restore_and_verify tools int_of restored source drill sent =
     bind_err (table_row_counts tools int_of source (sent @ [Pg_Restore drill])) (\<lambda>source_counts sent.
     bind_err (table_row_counts tools int_of drill sent) (\<lambda>drill_counts sent.
     (case restored of
        None \<Rightarrow> raise (Unhandled ''OperationalError'') sent
      | Some copy \<Rightarrow>
          (let (checked, broken) = verify_restored_audit_chains copy
           in ok (if count_mismatches source_counts drill_counts = [] \<and> broken = 0 then 0 else 1) sent))))"

text \<open>The \<open>finally\<close>: an exception of the clean-up replaces the outcome.\<close>

definition restore_drill ::
  "pg_tools \<Rightarrow> (string \<Rightarrow> int option) \<Rightarrow> db option \<Rightarrow> settings \<Rightarrow> string \<Rightarrow> (app_error + nat) \<times> pg_command list" where
  "restore_drill tools int_of restored settings drill_db_name =
     (let source = libpq_url (cf_migration_database_url settings);
          maintenance = with_database source ''postgres'';
          drill = with_database source drill_db_name
      in bind_err (issue tools (Pg_Dump source) []) (\<lambda>_ sent.
         bind_err (issue tools (Drop_Database maintenance drill_db_name) sent) (\<lambda>_ sent.
         bind_err (issue tools (Create_Database maintenance drill_db_name) sent) (\<lambda>_ sent.
         (let (r, sent) = restore_and_verify tools int_of restored source drill sent
          in bind_err (issue tools (Drop_Database maintenance drill_db_name) sent) (\<lambda>_ sent. (r, sent)))))))"

section \<open>The evaluation of the providers (run\_ai\_eval\_suite.py)\<close>

record eval_task =
  et_name :: string
  et_prompt :: string
  et_mode :: usage_mode

record eval_result =
  er_task_name :: string
  er_provider :: provider
  er_reply_text :: string
  er_tool_status_text :: "string option"
  er_finish_reason :: "string option"
  er_error :: "app_error option"

text \<open>The parts of the reply, the last tool status and the finish reason, chunk by chunk.\<close>

primrec note_chunk ::
  "turn_chunk \<Rightarrow> string list \<times> string option \<times> string option \<Rightarrow> string list \<times> string option \<times> string option" where
  "note_chunk (Chunk_text part) r = (fst r @ [part], snd r)"
| "note_chunk (Chunk_tool_status status) r = (fst r, Some status, snd (snd r))"
| "note_chunk (Chunk_done message) r =
     (if fst r = [] \<and> msg_content message \<noteq> [] then fst r @ [msg_content message] else fst r,
      fst (snd r), msg_finish_reason message)"

definition run_task_against_provider ::
  "adapters \<Rightarrow> tool_world \<Rightarrow> ai_settings \<Rightarrow> workspace_context \<Rightarrow> eval_task \<Rightarrow> provider \<Rightarrow> db \<Rightarrow> eval_result \<times> db" where
  "run_task_against_provider adapters world settings ctx task p s =
     (let (started, s1) = start_conversation (wc_customer_id ctx) (wc_workspace_id ctx)
            (user_actor (wc_user_id ctx)) (Some (''eval:'' @ et_name task)) s;
          conversation = started\<lparr>cv_pinned_provider := Some (provider_value p)\<rparr>;
          s2 = s1\<lparr>conversation_conversations := tupd cv_id (cv_id started)
                (\<lambda>c. c\<lparr>cv_pinned_provider := Some (provider_value p)\<rparr>) (conversation_conversations s1)\<rparr>;
          (trace_id, s3) = uuid4 s2;
          st = stream_message adapters world settings None conversation ctx (et_prompt task) (et_mode task) trace_id s3;
          (text_parts, tool_status, finish_reason) = fold note_chunk (sm_chunks st) ([], None, None)
      in (\<lparr>er_task_name = et_name task, er_provider = p, er_reply_text = concat text_parts,
           er_tool_status_text = tool_status, er_finish_reason = finish_reason, er_error = sm_error st\<rparr>,
          case sm_error st of None \<Rightarrow> sm_db st | Some _ \<Rightarrow> rollback s (sm_db st)))"

definition eval_providers :: "ai_settings \<Rightarrow> provider list" where
  "eval_providers settings =
     (let configured = filter (\<lambda>p. is_provider_configured p settings) all_providers
      in if configured = [] then [ai_default_provider settings] else configured)"

fun run_evals ::
  "(nat \<Rightarrow> adapters) \<Rightarrow> tool_world \<Rightarrow> ai_settings \<Rightarrow> workspace_context \<Rightarrow> nat \<Rightarrow> (provider \<times> eval_task) list \<Rightarrow> db
     \<Rightarrow> eval_result list \<times> db" where
  "run_evals adapters world settings ctx n [] s = ([], s)"
| "run_evals adapters world settings ctx n ((p, task) # evals) s =
     (let (result, s) = run_task_against_provider (adapters n) world settings ctx task p s;
          (results, s) = run_evals adapters world settings ctx (Suc n) evals s
      in (result # results, s))"

text \<open>The exit code, with the results that are printed.\<close>

definition run_eval_suite ::
  "(nat \<Rightarrow> adapters) \<Rightarrow> tool_world \<Rightarrow> ai_settings \<Rightarrow> workspace_context \<Rightarrow> eval_task list \<Rightarrow> db
     \<Rightarrow> nat \<times> eval_result list \<times> db" where
  "run_eval_suite adapters world settings ctx tasks s =
     (let evals = concat (map (\<lambda>p. map (Pair p) tasks) (eval_providers settings));
          (results, s) = run_evals adapters world settings ctx 0 evals s
      in (if list_ex (\<lambda>r. er_error r \<noteq> None) results then 1 else 0, results, s))"


section \<open>What the drill does\<close>

lemma replace_all_absent: "\<not> sublist old s \<Longrightarrow> replace_all old new s = s"
proof (induction old new s rule: replace_all.induct)
  case (2 old new c cs)
  from 2(3) have "\<not> starts_with old (c # cs)" by (auto simp: starts_with_iff)
  moreover from 2(3) have "\<not> sublist old cs" by (auto simp: sublist_Cons_right)
  ultimately show ?case using 2(2) by simp
qed simp

lemma libpq_url_of_loaded:
  assumes "\<not> sublist asyncpg_scheme rest"
  shows "libpq_url (default_to_the_asyncpg_driver (''postgres://'' @ rest)) = ''postgresql://'' @ rest"
    "libpq_url (default_to_the_asyncpg_driver (''postgresql://'' @ rest)) = ''postgresql://'' @ rest"
  using replace_all_absent [OF assms, of "''postgresql://''"]
  by (simp_all only: asyncpg_driver_bare) (simp_all add: libpq_url_def asyncpg_scheme_def starts_with_def)

lemma with_database_last:
  assumes "CHR ''/'' \<notin> set db"
  shows "with_database (server @ CHR ''/'' # db) name = server @ CHR ''/'' # name"
proof -
  have "dropWhile (\<lambda>c. c \<noteq> CHR ''/'') (rev db @ CHR ''/'' # rev server) = CHR ''/'' # rev server"
    using assms by (auto simp: dropWhile_append)
  then show ?thesis by (simp add: with_database_def before_last_slash_def)
qed

lemma issue_sent: "snd (issue tools command sent) = sent @ [command]"
  by (simp add: issue_def split: option.split)

lemma issue_ok: "issue tools command sent = (Inr out, sent') \<longleftrightarrow> tools sent command = Some out \<and> sent' = sent @ [command]"
  by (auto simp: issue_def ok_def raise_def split: option.splits)

lemma bind_err_Inr: "bind_err r k = (Inr x, t) \<longleftrightarrow> (\<exists>y u. r = (Inr y, u) \<and> k y u = (Inr x, t))"
  by (cases r) (auto simp: bind_err_def split: sum.splits)

definition drill_preparation :: "settings \<Rightarrow> string \<Rightarrow> pg_command list" where
  "drill_preparation settings name =
     (let source = libpq_url (cf_migration_database_url settings); maintenance = with_database source ''postgres''
      in [Pg_Dump source, Drop_Database maintenance name, Create_Database maintenance name])"

lemma restore_drill_cases:
  assumes "restore_drill tools int_of restored settings name = (r, sent)"
  obtains (unprepared) n e where "r = Inl e" "sent = take n (drill_preparation settings name)"
    | (prepared) r1 sent1 where
      "restore_and_verify tools int_of restored (libpq_url (cf_migration_database_url settings))
         (with_database (libpq_url (cf_migration_database_url settings)) name) (drill_preparation settings name) = (r1, sent1)"
      "sent = sent1 @ [Drop_Database (with_database (libpq_url (cf_migration_database_url settings)) ''postgres'') name]"
      "r = r1 \<or> (\<exists>e. r = Inl e)"
proof -
  let ?source = "libpq_url (cf_migration_database_url settings)"
  let ?maint = "with_database ?source ''postgres''"
  let ?p = "drill_preparation settings name"
  have p: "?p = [Pg_Dump ?source, Drop_Database ?maint name, Create_Database ?maint name]"
    by (simp add: drill_preparation_def Let_def)
  consider "tools [] (Pg_Dump ?source) = None" | "tools [Pg_Dump ?source] (Drop_Database ?maint name) = None"
    | "tools [Pg_Dump ?source, Drop_Database ?maint name] (Create_Database ?maint name) = None"
    | a b c where "tools [] (Pg_Dump ?source) = Some a" "tools [Pg_Dump ?source] (Drop_Database ?maint name) = Some b"
        "tools [Pg_Dump ?source, Drop_Database ?maint name] (Create_Database ?maint name) = Some c"
    by auto
  then show thesis
  proof cases
    case 4
    obtain r1 sent1 where rv: "restore_and_verify tools int_of restored ?source (with_database ?source name) ?p = (r1, sent1)"
      by (metis prod.collapse)
    have "(r, sent) = bind_err (issue tools (Drop_Database ?maint name) sent1) (\<lambda>_ sent. (r1, sent))"
      using assms 4 rv by (simp add: restore_drill_def Let_def issue_def bind_err_def ok_def p)
    then show thesis
      using prepared [OF rv] by (auto simp: issue_def bind_err_def ok_def raise_def split: option.splits)
  qed (use assms unprepared [of _ 1] unprepared [of _ 2] unprepared [of _ 3] in
      \<open>auto simp: restore_drill_def Let_def issue_def bind_err_def ok_def raise_def p split: option.splits\<close>)
qed

text \<open>
  A drill that passes has compared every table of the source, found the same number of rows in
  the copy, and found the chain of every customer of the copy intact.
\<close>

theorem passed_drill_is_sound:
  assumes "restore_drill tools int_of restored settings name = (Inr 0, sent)"
  shows "\<exists>copy source_counts drill_counts before between after.
    restored = Some copy
    \<and> table_row_counts tools int_of (libpq_url (cf_migration_database_url settings)) before = (Inr source_counts, between)
    \<and> table_row_counts tools int_of
        (with_database (libpq_url (cf_migration_database_url settings)) name) between = (Inr drill_counts, after)
    \<and> (\<forall>t \<in> set (map fst source_counts). map_of (rev drill_counts) t = map_of (rev source_counts) t)
    \<and> (\<forall>c \<in> set (list_all_customer_ids copy). verification_ok (verify_audit_chain c copy))"
proof -
  let ?source = "libpq_url (cf_migration_database_url settings)"
  from assms obtain sent2 where rv: "restore_and_verify tools int_of restored ?source (with_database ?source name)
      (drill_preparation settings name) = (Inr 0, sent2)"
    by (cases rule: restore_drill_cases) auto
  then obtain source_counts drill_counts between after where
    counts: "table_row_counts tools int_of ?source (drill_preparation settings name @ [Pg_Restore (with_database ?source name)]) = (Inr source_counts, between)"
      "table_row_counts tools int_of (with_database ?source name) between = (Inr drill_counts, after)"
    and verdict: "(case restored of None \<Rightarrow> raise (Unhandled ''OperationalError'') after
      | Some copy \<Rightarrow> (let (checked, broken) = verify_restored_audit_chains copy
         in ok (if count_mismatches source_counts drill_counts = [] \<and> broken = 0 then 0 else 1) after)) = (Inr (0::nat), sent2)"
    unfolding restore_and_verify_def bind_err_Inr by (elim exE conjE) (rule that)
  from verdict obtain copy where "restored = Some copy" "count_mismatches source_counts drill_counts = []"
      "snd (verify_restored_audit_chains copy) = 0"
    by (cases restored) (auto simp: ok_def raise_def Let_def split: prod.splits if_splits)
  then show ?thesis
    using counts
    by (intro exI [of _ copy] exI [of _ source_counts] exI [of _ drill_counts]
        exI [of _ "drill_preparation settings name @ [Pg_Restore (with_database ?source name)]"] exI [of _ between] exI [of _ after])
      (auto simp: count_mismatches_def filter_empty_conv verify_restored_audit_chains_def Let_def)
qed

text \<open>Once the copy has been created it is dropped last, whatever fails in between.\<close>

theorem drill_cleans_up:
  assumes "restore_drill tools int_of restored settings name = (r, sent)"
    and "Pg_Restore drill \<in> set sent"
  shows "last sent = Drop_Database (with_database (libpq_url (cf_migration_database_url settings)) ''postgres'') name"
proof -
  from assms(1) show ?thesis
  proof (cases rule: restore_drill_cases)
    case (unprepared n e)
    then have "Pg_Restore drill \<in> set (drill_preparation settings name)" using assms(2) by (meson in_set_takeD)
    then show ?thesis by (simp add: drill_preparation_def Let_def)
  qed simp
qed

lemma bind_err_prefix:
  assumes "prefix sent (snd r)" "\<And>x t. prefix sent t \<Longrightarrow> prefix sent (snd (k x t))"
  shows "prefix sent (snd (bind_err r k))"
  using assms by (cases r) (auto simp: bind_err_def split: sum.split)

lemma issue_prefix: "prefix sent t \<Longrightarrow> prefix sent (snd (issue tools command t))"
  by (auto simp: issue_sent prefix_def)

lemma count_tables_prefix: "prefix sent t \<Longrightarrow> prefix sent (snd (count_tables tools int_of url tables t))"
proof (induction tables arbitrary: t)
  case (Cons table tables)
  show ?case
    unfolding count_tables.simps
  proof (rule bind_err_prefix [OF issue_prefix [OF Cons.prems]])
    fix x u assume u: "prefix sent u"
    have "prefix sent (snd (bind_err (count_tables tools int_of url tables u) (\<lambda>counts sent. ok ((table, n) # counts) sent)))" for n
      by (rule bind_err_prefix [OF Cons.IH [OF u]]) simp
    then show "prefix sent (snd (case int_of (py_strip x) of None \<Rightarrow> raise (Unhandled ''ValueError'') u
        | Some n \<Rightarrow> bind_err (count_tables tools int_of url tables u) (\<lambda>counts sent. ok ((table, n) # counts) sent)))"
      using u by (simp add: raise_def split: option.split)
  qed
qed simp

lemma restore_and_verify_prefix:
  "prefix sent (snd (restore_and_verify tools int_of restored source drill sent))"
  unfolding restore_and_verify_def table_row_counts_def
  by (intro bind_err_prefix issue_prefix count_tables_prefix)
    (auto simp: ok_def raise_def Let_def split: option.split prod.split)

text \<open>
  Nothing compares the name given for the copy with the source: a drill under the name of the
  source drops the source right after dumping it, and drops what it restored at the end.
\<close>

theorem drill_named_like_the_source_destroys_it:
  assumes "libpq_url (cf_migration_database_url settings) = server @ CHR ''/'' # db" "CHR ''/'' \<notin> set db"
    and "restore_drill tools int_of restored settings db = (Inr n, sent)"
  shows "take 3 sent = [Pg_Dump (server @ CHR ''/'' # db), Drop_Database (server @ ''/postgres'') db,
      Create_Database (server @ ''/postgres'') db]
    \<and> last sent = Drop_Database (server @ ''/postgres'') db"
proof -
  have maint: "with_database (server @ CHR ''/'' # db) ''postgres'' = server @ ''/postgres''"
    by (simp add: with_database_last [OF assms(2)])
  have p: "drill_preparation settings db = [Pg_Dump (server @ CHR ''/'' # db), Drop_Database (server @ ''/postgres'') db,
      Create_Database (server @ ''/postgres'') db]"
    by (simp add: drill_preparation_def Let_def assms(1) maint)
  from assms(3) show ?thesis
  proof (cases rule: restore_drill_cases)
    case (prepared r1 sent1)
    then have "prefix (drill_preparation settings db) sent1"
      using restore_and_verify_prefix by (metis snd_conv)
    then show ?thesis
      unfolding prepared(2) assms(1) maint by (auto simp: p prefix_def)
  qed simp
qed

section \<open>What an evaluation leaves behind\<close>

lemma failed_task_leaves_nothing:
  "er_error (fst (run_task_against_provider adapters world settings ctx task p s)) \<noteq> None \<Longrightarrow>
     same_tables s (snd (run_task_against_provider adapters world settings ctx task p s))"
  by (auto simp: run_task_against_provider_def Let_def same_tables_def rollback_def split: prod.splits option.splits)

text \<open>
  The suite runs every task against every provider it chose, and there is always one: its exit
  code is 0 exactly when none of them ended with an exception.
\<close>

lemma run_task_names [simp]:
  "er_provider (fst (run_task_against_provider adapters world settings ctx task p s)) = p"
  "er_task_name (fst (run_task_against_provider adapters world settings ctx task p s)) = et_name task"
  by (simp_all add: run_task_against_provider_def Let_def split: prod.split)

lemma run_evals_results:
  "map (\<lambda>r. (er_provider r, er_task_name r)) (fst (run_evals adapters world settings ctx n evals s))
   = map (\<lambda>e. (fst e, et_name (snd e))) evals"
proof (induction evals arbitrary: n s)
  case (Cons e evals)
  obtain p task where e: "e = (p, task)" by fastforce
  obtain r u where r: "run_task_against_provider (adapters n) world settings ctx task p s = (r, u)" by (metis prod.collapse)
  have "er_provider r = p" "er_task_name r = et_name task"
    using run_task_names [of "adapters n" world settings ctx task p s] by (simp_all only: r fst_conv)
  then show ?case using Cons [of "Suc n" u] by (auto simp: e r split: prod.split)
qed simp

theorem every_provider_is_evaluated:
  assumes "run_eval_suite adapters world settings ctx tasks s = (code, results, t)"
  shows "eval_providers settings \<noteq> []
    \<and> map (\<lambda>r. (er_provider r, er_task_name r)) results
      = concat (map (\<lambda>p. map (\<lambda>task. (p, et_name task)) tasks) (eval_providers settings))
    \<and> (code = 0 \<longleftrightarrow> (\<forall>r \<in> set results. er_error r = None))"
proof -
  let ?evals = "concat (map (\<lambda>p. map (Pair p) tasks) (eval_providers settings))"
  have r: "results = fst (run_evals adapters world settings ctx 0 ?evals s)"
    "code = (if list_ex (\<lambda>r. er_error r \<noteq> None) results then 1 else 0)"
    using assms by (auto simp: run_eval_suite_def Let_def split: prod.splits)
  have "eval_providers settings \<noteq> []" by (simp add: eval_providers_def Let_def)
  moreover have "map (\<lambda>r. (er_provider r, er_task_name r)) results
      = concat (map (\<lambda>p. map (\<lambda>task. (p, et_name task)) tasks) (eval_providers settings))"
    unfolding r(1) run_evals_results by (simp add: map_concat comp_def)
  ultimately show ?thesis using r(2) by (auto simp: list_ex_iff)
qed

end
