(* ===== verification/Catalog.thy ===== *)
theory Catalog
  imports Main
begin

text \<open>
  The language the migrations of \<open>backend/migrations\<close> are written in: operations of the schema, as
  alembic's \<open>op\<close> offers them and as statements of PostgreSQL, and what they do to the catalog of a
  database.  An operation that PostgreSQL refuses is \<open>None\<close>.
\<close>

section \<open>Tables\<close>

text \<open>The tables, under the names the migrations give them.\<close>

datatype table_name =
    Identity_Users | Customer_Customers | Customer_Memberships
  | Workspace_Workspaces | Workspace_Memberships | Audit_Events
  | Task_Tasks | Task_History | Action_Actions
  | Action_Approvals | Outbox_Messages | Identity_Sessions
  | Workspace_Tenant_Index | Audit_Chain_Tips | Workspace_Kill_Switches
  | Customer_Kill_Switches | Notifications | Notification_Preferences
  | User_Customer_Index | Conversation_Conversations | Conversation_Messages
  | AI_Usage_Events | AI_Budget_Ledgers | User_AI_Preferences
  | Workspace_AI_Preferences | AI_Customer_Provider_Settings | AI_Provider_Verifications
  | AI_Customer_Fallback_Settings | Task_Decisions | Workspace_Language_Settings
  | Task_Reminders

datatype sql_type = Uuid | Timestamptz | Varchar nat | Text_Type | Jsonb | Integer | Boolean

record column =
  cl_name :: string
  cl_type :: sql_type
  cl_nullable :: bool
  cl_primary :: bool
  cl_references :: "table_name option"
  cl_default :: "string option"

text \<open>The constructors of \<open>sa.Column\<close>: a plain column, one that may be null, a part of the primary key.\<close>

definition col :: "string \<Rightarrow> sql_type \<Rightarrow> column" where
  "col name ty = \<lparr>cl_name = name, cl_type = ty, cl_nullable = False, cl_primary = False,
     cl_references = None, cl_default = None\<rparr>"

definition null_col :: "string \<Rightarrow> sql_type \<Rightarrow> column" where
  "null_col name ty = (col name ty)\<lparr>cl_nullable := True\<rparr>"

definition key_col :: "string \<Rightarrow> sql_type \<Rightarrow> column" where
  "key_col name ty = (col name ty)\<lparr>cl_primary := True\<rparr>"

definition references :: "table_name \<Rightarrow> column \<Rightarrow> column" where
  "references table c = c\<lparr>cl_references := Some table\<rparr>"

definition server_default :: "string \<Rightarrow> column \<Rightarrow> column" where
  "server_default text c = c\<lparr>cl_default := Some text\<rparr>"

text \<open>
  A check that a column holds one of some texts (or is null, where that is said), and a key that is
  unique; PostgreSQL names those that have no name.
\<close>

datatype constr =
    Check string string bool "string list"
  | Unique "string option" "string list"

primrec constr_name :: "constr \<Rightarrow> string option" where
  "constr_name (Check name column null_ok values) = Some name"
| "constr_name (Unique name columns) = name"

primrec constr_columns :: "constr \<Rightarrow> string list" where
  "constr_columns (Check name column null_ok values) = [column]"
| "constr_columns (Unique name columns) = columns"

text \<open>
  Every index of the migrations is of one column and is named \<open>ix_<table>_<column>\<close>: the column stands
  for the index.  A policy compares the named column with the tenant the session has set; a trigger
  names the function it runs before an update or a delete.
\<close>

record table_def =
  tb_columns :: "column list"
  tb_constraints :: "constr list"
  tb_indexes :: "string list"
  tb_rls :: bool
  tb_forced :: bool
  tb_policies :: "(string \<times> string) list"
  tb_triggers :: "(string \<times> string) list"

definition new_table :: "column list \<Rightarrow> constr list \<Rightarrow> table_def" where
  "new_table columns constraints =
     \<lparr>tb_columns = columns, tb_constraints = constraints, tb_indexes = [], tb_rls = False, tb_forced = False,
      tb_policies = [], tb_triggers = []\<rparr>"

record catalog =
  ct_functions :: "string list"
  ct_tables :: "table_name \<Rightarrow> table_def option"

definition empty_catalog :: catalog where
  "empty_catalog = \<lparr>ct_functions = [], ct_tables = (\<lambda>_. None)\<rparr>"

section \<open>Operations\<close>

text \<open>
  \<open>CREATE EXTENSION IF NOT EXISTS\<close> changes nothing that is modelled.  A back-fill copies rows of a
  table into another; here it needs the two tables.
\<close>

datatype ddl =
    Create_Extension string
  | Create_Table table_name "column list" "constr list"
  | Drop_Table table_name
  | Add_Column table_name column
  | Drop_Column table_name string
  | Create_Index table_name string
  | Drop_Index table_name string
  | Add_Constraint table_name constr
  | Drop_Constraint table_name string
  | Enable_RLS table_name
  | Force_RLS table_name
  | No_Force_RLS table_name
  | Create_Policy string table_name string
  | Drop_Policy string table_name
  | Create_Function string
  | Drop_Function string
  | Create_Trigger string table_name string
  | Drop_Trigger string table_name
  | Backfill table_name table_name

primrec target :: "ddl \<Rightarrow> table_name option" where
  "target (Create_Extension e) = None"
| "target (Create_Table t columns constraints) = Some t"
| "target (Drop_Table t) = Some t"
| "target (Add_Column t k) = Some t"
| "target (Drop_Column t name) = Some t"
| "target (Create_Index t column) = Some t"
| "target (Drop_Index t column) = Some t"
| "target (Add_Constraint t k) = Some t"
| "target (Drop_Constraint t name) = Some t"
| "target (Enable_RLS t) = Some t"
| "target (Force_RLS t) = Some t"
| "target (No_Force_RLS t) = Some t"
| "target (Create_Policy name t column) = Some t"
| "target (Drop_Policy name t) = Some t"
| "target (Create_Function f) = None"
| "target (Drop_Function f) = None"
| "target (Create_Trigger name t f) = Some t"
| "target (Drop_Trigger name t) = Some t"
| "target (Backfill t source) = Some t"

definition has_column :: "string \<Rightarrow> table_def \<Rightarrow> bool" where
  "has_column name d \<longleftrightarrow> list_ex (\<lambda>k. cl_name k = name) (tb_columns d)"

definition has_constraint :: "string \<Rightarrow> table_def \<Rightarrow> bool" where
  "has_constraint name d \<longleftrightarrow> list_ex (\<lambda>k. constr_name k = Some name) (tb_constraints d)"

text \<open>What an operation makes of its table, if that exists, is as it has to be and takes it.\<close>

definition alter :: "bool \<Rightarrow> (table_def \<Rightarrow> table_def) \<Rightarrow> table_def \<Rightarrow> table_def option option" where
  "alter fits f d = (if fits then Some (Some (f d)) else None)"

primrec on_existing :: "ddl \<Rightarrow> table_def \<Rightarrow> table_def option option" where
  "on_existing (Create_Extension e) d = Some (Some d)"
| "on_existing (Create_Table t columns constraints) d = None"
| "on_existing (Drop_Table t) d = Some None"
| "on_existing (Add_Column t k) d =
     alter (\<not> has_column (cl_name k) d) (\<lambda>d. d\<lparr>tb_columns := tb_columns d @ [k]\<rparr>) d"
| "on_existing (Drop_Column t name) d =
     alter (has_column name d)
       (\<lambda>d. d\<lparr>tb_columns := filter (\<lambda>k. cl_name k \<noteq> name) (tb_columns d),
              tb_constraints := filter (\<lambda>k. name \<notin> set (constr_columns k)) (tb_constraints d),
              tb_indexes := filter (\<lambda>i. i \<noteq> name) (tb_indexes d)\<rparr>) d"
| "on_existing (Create_Index t column) d =
     alter (column \<notin> set (tb_indexes d) \<and> has_column column d) (\<lambda>d. d\<lparr>tb_indexes := tb_indexes d @ [column]\<rparr>) d"
| "on_existing (Drop_Index t column) d =
     alter (column \<in> set (tb_indexes d)) (\<lambda>d. d\<lparr>tb_indexes := filter (\<lambda>i. i \<noteq> column) (tb_indexes d)\<rparr>) d"
| "on_existing (Add_Constraint t k) d =
     alter ((case constr_name k of None \<Rightarrow> True | Some name \<Rightarrow> \<not> has_constraint name d)
         \<and> list_all (\<lambda>n. has_column n d) (constr_columns k))
       (\<lambda>d. d\<lparr>tb_constraints := tb_constraints d @ [k]\<rparr>) d"
| "on_existing (Drop_Constraint t name) d =
     alter (has_constraint name d)
       (\<lambda>d. d\<lparr>tb_constraints := filter (\<lambda>k. constr_name k \<noteq> Some name) (tb_constraints d)\<rparr>) d"
| "on_existing (Enable_RLS t) d = alter True (\<lambda>d. d\<lparr>tb_rls := True\<rparr>) d"
| "on_existing (Force_RLS t) d = alter True (\<lambda>d. d\<lparr>tb_forced := True\<rparr>) d"
| "on_existing (No_Force_RLS t) d = alter True (\<lambda>d. d\<lparr>tb_forced := False\<rparr>) d"
| "on_existing (Create_Policy name t column) d =
     alter (map_of (tb_policies d) name = None \<and> has_column column d)
       (\<lambda>d. d\<lparr>tb_policies := tb_policies d @ [(name, column)]\<rparr>) d"
| "on_existing (Drop_Policy name t) d =
     alter True (\<lambda>d. d\<lparr>tb_policies := filter (\<lambda>p. fst p \<noteq> name) (tb_policies d)\<rparr>) d"
| "on_existing (Create_Function f) d = Some (Some d)"
| "on_existing (Drop_Function f) d = Some (Some d)"
| "on_existing (Create_Trigger name t f) d =
     alter (map_of (tb_triggers d) name = None) (\<lambda>d. d\<lparr>tb_triggers := tb_triggers d @ [(name, f)]\<rparr>) d"
| "on_existing (Drop_Trigger name t) d =
     alter True (\<lambda>d. d\<lparr>tb_triggers := filter (\<lambda>g. fst g \<noteq> name) (tb_triggers d)\<rparr>) d"
| "on_existing (Backfill t source) d = Some (Some d)"

definition on_table :: "ddl \<Rightarrow> table_def option \<Rightarrow> table_def option option" where
  "on_table op x =
     (case x of
        Some d \<Rightarrow> on_existing op d
      | None \<Rightarrow> (case op of
                   Create_Table t columns constraints \<Rightarrow> Some (Some (new_table columns constraints))
                 | _ \<Rightarrow> None))"

text \<open>The foreign keys of a table, and the functions its triggers run.\<close>

definition foreign_keys :: "column list \<Rightarrow> (string \<times> table_name) list" where
  "foreign_keys ks = concat (map (\<lambda>k. case cl_references k of None \<Rightarrow> [] | Some t \<Rightarrow> [(cl_name k, t)]) ks)"

definition refers_to :: "table_name \<Rightarrow> table_def option \<Rightarrow> bool" where
  "refers_to t x \<longleftrightarrow> (case x of None \<Rightarrow> False | Some d \<Rightarrow> t \<in> snd ` set (foreign_keys (tb_columns d)))"

definition runs :: "string \<Rightarrow> table_def option \<Rightarrow> bool" where
  "runs f x \<longleftrightarrow> (case x of None \<Rightarrow> False | Some d \<Rightarrow> f \<in> snd ` set (tb_triggers d))"

text \<open>
  What an operation asks of the rest of the catalog: a foreign key refers to a table that is there, a
  table that is dropped has none referring to it, a function that is dropped is run by no trigger.
\<close>

primrec guard :: "ddl \<Rightarrow> catalog \<Rightarrow> bool" where
  "guard (Create_Extension e) c = True"
| "guard (Create_Table t columns constraints) c =
     (\<forall>(k, other) \<in> set (foreign_keys columns). other = t \<or> ct_tables c other \<noteq> None)"
| "guard (Drop_Table t) c = (\<forall>u. u \<noteq> t \<longrightarrow> \<not> refers_to t (ct_tables c u))"
| "guard (Add_Column t k) c = (\<forall>(k, other) \<in> set (foreign_keys [k]). other = t \<or> ct_tables c other \<noteq> None)"
| "guard (Drop_Column t name) c = True"
| "guard (Create_Index t column) c = True"
| "guard (Drop_Index t column) c = True"
| "guard (Add_Constraint t k) c = True"
| "guard (Drop_Constraint t name) c = True"
| "guard (Enable_RLS t) c = True"
| "guard (Force_RLS t) c = True"
| "guard (No_Force_RLS t) c = True"
| "guard (Create_Policy name t column) c = True"
| "guard (Drop_Policy name t) c = True"
| "guard (Create_Function f) c = (f \<notin> set (ct_functions c))"
| "guard (Drop_Function f) c = (\<forall>t. \<not> runs f (ct_tables c t))"
| "guard (Create_Trigger name t f) c = (f \<in> set (ct_functions c))"
| "guard (Drop_Trigger name t) c = True"
| "guard (Backfill t source) c = (ct_tables c source \<noteq> None)"

fun functions_after :: "ddl \<Rightarrow> string list \<Rightarrow> string list" where
  "functions_after (Create_Function f) fs = fs @ [f]"
| "functions_after (Drop_Function f) fs = filter (\<lambda>g. g \<noteq> f) fs"
| "functions_after _ fs = fs"

definition apply_ddl :: "ddl \<Rightarrow> catalog \<Rightarrow> catalog option" where
  "apply_ddl op c =
     (if \<not> guard op c then None
      else case target op of
        None \<Rightarrow> Some (c\<lparr>ct_functions := functions_after op (ct_functions c)\<rparr>)
      | Some t \<Rightarrow> (case on_table op (ct_tables c t) of
                     None \<Rightarrow> None
                   | Some x \<Rightarrow> Some (c\<lparr>ct_tables := (ct_tables c)(t := x)\<rparr>)))"

fun run_ddl :: "ddl list \<Rightarrow> catalog \<Rightarrow> catalog option" where
  "run_ddl [] c = Some c"
| "run_ddl (op # ops) c = (case apply_ddl op c of None \<Rightarrow> None | Some c' \<Rightarrow> run_ddl ops c')"

lemma run_ddl_append: "run_ddl (ops @ more_ops) c = (case run_ddl ops c of None \<Rightarrow> None | Some c' \<Rightarrow> run_ddl more_ops c')"
  by (induction ops arbitrary: c) (simp_all split: option.split)

end
