(* ===== verification/Migrations.thy ===== *)
theory Migrations
  imports Catalog
begin

text \<open>
  The migrations of \<open>backend/migrations/versions\<close>, each an upgrade and a downgrade over the catalog of
  theory \<open>Catalog\<close>, and their history from the empty database to the schema the services run on.
\<close>

section \<open>The migrations\<close>

text \<open>The three statements that put a table under the tenant policy.\<close>

definition protect :: "table_name \<Rightarrow> ddl list" where
  "protect t = [Enable_RLS t, Force_RLS t, Create_Policy ''tenant_isolation'' t ''customer_id'']"

definition tenant_scoped_tables_0001 :: "table_name list" where
  "tenant_scoped_tables_0001 = [Customer_Memberships, Workspace_Workspaces, Workspace_Memberships, Audit_Events]"

definition upgrade_0001 :: "ddl list" where
  "upgrade_0001 =
     [Create_Extension ''pgcrypto'',
      Create_Extension ''vector'',
      Create_Table Identity_Users
        [key_col ''id'' Uuid,
         col ''created_at'' Timestamptz,
         col ''oidc_subject_hash'' (Varchar 128),
         col ''display_name'' (Varchar 256)]
        [Unique None [''oidc_subject_hash'']],
      Create_Table Customer_Customers
        [key_col ''id'' Uuid,
         col ''created_at'' Timestamptz,
         col ''name'' (Varchar 256)]
        [],
      Create_Table Customer_Memberships
        [key_col ''id'' Uuid,
         col ''created_at'' Timestamptz,
         references Customer_Customers (col ''customer_id'' Uuid),
         col ''user_id'' Uuid,
         col ''role'' (Varchar 32)]
        [],
      Create_Index Customer_Memberships ''customer_id'',
      Create_Index Customer_Memberships ''user_id'',
      Create_Table Workspace_Workspaces
        [key_col ''id'' Uuid,
         col ''created_at'' Timestamptz,
         col ''customer_id'' Uuid,
         col ''name'' (Varchar 256),
         null_col ''archived_at'' Timestamptz]
        [],
      Create_Index Workspace_Workspaces ''customer_id'',
      Create_Table Workspace_Memberships
        [key_col ''id'' Uuid,
         col ''created_at'' Timestamptz,
         col ''customer_id'' Uuid,
         col ''customer_membership_id'' Uuid,
         references Workspace_Workspaces (col ''workspace_id'' Uuid),
         col ''role'' (Varchar 32)]
        [],
      Create_Index Workspace_Memberships ''customer_id'',
      Create_Index Workspace_Memberships ''workspace_id'',
      Create_Table Audit_Events
        [key_col ''id'' Uuid,
         col ''created_at'' Timestamptz,
         col ''customer_id'' Uuid,
         col ''trace_id'' Uuid,
         col ''actor_id'' (Varchar 256),
         col ''event_type'' (Varchar 128),
         col ''occurred_at'' Timestamptz,
         server_default ''{}'' (col ''safe_metadata'' Jsonb),
         null_col ''prev_hash'' (Varchar 64),
         col ''hash'' (Varchar 64)]
        [],
      Create_Index Audit_Events ''customer_id'',
      Create_Index Audit_Events ''trace_id''] @
     concat (map protect tenant_scoped_tables_0001) @
     [Create_Function ''audit_events_immutable'',
      Create_Trigger ''audit_events_no_update_delete'' Audit_Events ''audit_events_immutable'']"

definition downgrade_0001 :: "ddl list" where
  "downgrade_0001 =
     [Drop_Trigger ''audit_events_no_update_delete'' Audit_Events,
      Drop_Function ''audit_events_immutable''] @
     map (Drop_Policy ''tenant_isolation'') tenant_scoped_tables_0001 @
     [Drop_Table Audit_Events,
      Drop_Table Workspace_Memberships,
      Drop_Table Workspace_Workspaces,
      Drop_Table Customer_Memberships,
      Drop_Table Customer_Customers,
      Drop_Table Identity_Users]"

definition tenant_scoped_tables_0002 :: "table_name list" where
  "tenant_scoped_tables_0002 = [Task_Tasks, Task_History, Action_Actions, Action_Approvals]"

definition task_statuses_0002 :: "string list" where
  "task_statuses_0002 = [''TODO'', ''IN_PROGRESS'', ''DONE'', ''CANCELLED'']"

definition risk_levels_0002 :: "string list" where
  "risk_levels_0002 = [''R0'', ''R1'', ''R2'', ''R3'', ''R4'', ''R5'']"

definition action_statuses_0002 :: "string list" where
  "action_statuses_0002 = [''DRAFT'', ''VALIDATING'', ''AWAITING_APPROVAL'', ''READY'', ''RUNNING'', ''SUCCEEDED'', ''FAILED'', ''RETRYING'', ''COMPENSATING'', ''COMPENSATED'', ''DENIED'', ''REJECTED'', ''EXPIRED'', ''CANCELLED'']"

definition approval_statuses_0002 :: "string list" where
  "approval_statuses_0002 = [''PENDING'', ''APPROVED'', ''DENIED'', ''EXPIRED'']"

definition upgrade_0002 :: "ddl list" where
  "upgrade_0002 =
     [Create_Table Task_Tasks
        [key_col ''id'' Uuid,
         col ''created_at'' Timestamptz,
         col ''customer_id'' Uuid,
         col ''workspace_id'' Uuid,
         col ''owner_id'' (Varchar 256),
         col ''title'' (Varchar 512),
         references Task_Tasks (null_col ''parent_task_id'' Uuid),
         col ''status'' (Varchar 32),
         null_col ''due_date'' Timestamptz]
        [Check ''ck_task_tasks_status'' ''status'' False task_statuses_0002],
      Create_Index Task_Tasks ''customer_id'',
      Create_Index Task_Tasks ''workspace_id'',
      Create_Table Task_History
        [key_col ''id'' Uuid,
         col ''created_at'' Timestamptz,
         col ''customer_id'' Uuid,
         references Task_Tasks (col ''task_id'' Uuid),
         col ''actor_id'' (Varchar 256),
         null_col ''from_status'' (Varchar 32),
         col ''to_status'' (Varchar 32)]
        [Check ''ck_task_history_from_status'' ''from_status'' True task_statuses_0002,
         Check ''ck_task_history_to_status'' ''to_status'' False task_statuses_0002],
      Create_Index Task_History ''customer_id'',
      Create_Index Task_History ''task_id'',
      Create_Table Action_Actions
        [key_col ''id'' Uuid,
         col ''created_at'' Timestamptz,
         col ''customer_id'' Uuid,
         col ''workspace_id'' Uuid,
         col ''trace_id'' Uuid,
         null_col ''task_id'' Uuid,
         col ''actor_id'' (Varchar 256),
         col ''tool_name'' (Varchar 128),
         col ''risk_level'' (Varchar 2),
         col ''payload'' Jsonb,
         col ''payload_hash'' (Varchar 64),
         col ''idempotency_key'' (Varchar 256),
         col ''status'' (Varchar 32)]
        [Check ''ck_action_actions_risk_level'' ''risk_level'' False risk_levels_0002,
         Check ''ck_action_actions_status'' ''status'' False action_statuses_0002,
         Unique (Some ''uq_action_customer_idempotency_key'') [''customer_id'', ''idempotency_key'']],
      Create_Index Action_Actions ''customer_id'',
      Create_Index Action_Actions ''workspace_id'',
      Create_Index Action_Actions ''trace_id'',
      Create_Table Action_Approvals
        [key_col ''id'' Uuid,
         col ''created_at'' Timestamptz,
         col ''customer_id'' Uuid,
         references Action_Actions (col ''action_id'' Uuid),
         col ''payload_hash'' (Varchar 64),
         null_col ''approver_id'' (Varchar 256),
         col ''nonce'' (Varchar 64),
         col ''status'' (Varchar 16),
         col ''expires_at'' Timestamptz]
        [Unique None [''nonce''],
         Check ''ck_action_approvals_status'' ''status'' False approval_statuses_0002],
      Create_Index Action_Approvals ''customer_id'',
      Create_Index Action_Approvals ''action_id'',
      Create_Table Outbox_Messages
        [key_col ''id'' Uuid,
         col ''created_at'' Timestamptz,
         col ''customer_id'' Uuid,
         col ''aggregate_type'' (Varchar 64),
         col ''aggregate_id'' Uuid,
         col ''event_type'' (Varchar 128),
         col ''payload'' Jsonb,
         server_default ''0'' (col ''attempts'' Integer),
         null_col ''published_at'' Timestamptz]
        [],
      Create_Index Outbox_Messages ''customer_id'',
      Create_Index Outbox_Messages ''aggregate_id'',
      Create_Index Outbox_Messages ''published_at''] @
     concat (map protect tenant_scoped_tables_0002)"

definition downgrade_0002 :: "ddl list" where
  "downgrade_0002 =
     map (Drop_Policy ''tenant_isolation'') tenant_scoped_tables_0002 @
     [Drop_Table Outbox_Messages,
      Drop_Table Action_Approvals,
      Drop_Table Action_Actions,
      Drop_Table Task_History,
      Drop_Table Task_Tasks]"

definition customer_roles_0003 :: "string list" where
  "customer_roles_0003 = [''platform_owner'', ''customer_owner'', ''member'', ''auditor'']"

definition workspace_roles_0003 :: "string list" where
  "workspace_roles_0003 = [''workspace_admin'', ''member'']"

definition auth_strengths_0003 :: "string list" where
  "auth_strengths_0003 = [''AAL1'', ''AAL2'']"

definition upgrade_0003 :: "ddl list" where
  "upgrade_0003 =
     [Create_Table Identity_Sessions
        [key_col ''id'' Uuid,
         col ''created_at'' Timestamptz,
         references Identity_Users (col ''user_id'' Uuid),
         col ''auth_strength'' (Varchar 8),
         col ''last_seen_at'' Timestamptz,
         col ''expires_at'' Timestamptz,
         null_col ''revoked_at'' Timestamptz]
        [Check ''ck_identity_sessions_auth_strength'' ''auth_strength'' False auth_strengths_0003],
      Create_Index Identity_Sessions ''user_id'',
      Add_Constraint Customer_Memberships (Check ''ck_customer_memberships_role'' ''role'' False customer_roles_0003),
      Add_Constraint Workspace_Memberships (Check ''ck_workspace_memberships_role'' ''role'' False workspace_roles_0003)]"

definition downgrade_0003 :: "ddl list" where
  "downgrade_0003 =
     [Drop_Constraint Workspace_Memberships ''ck_workspace_memberships_role'',
      Drop_Constraint Customer_Memberships ''ck_customer_memberships_role'',
      Drop_Table Identity_Sessions]"

definition upgrade_0004 :: "ddl list" where
  "upgrade_0004 =
     [Create_Table Workspace_Tenant_Index
        [key_col ''workspace_id'' Uuid,
         col ''customer_id'' Uuid]
        [],
      Create_Index Workspace_Tenant_Index ''customer_id'',
      No_Force_RLS Workspace_Workspaces,
      Backfill Workspace_Tenant_Index Workspace_Workspaces,
      Force_RLS Workspace_Workspaces]"

definition downgrade_0004 :: "ddl list" where
  "downgrade_0004 =
     [Drop_Table Workspace_Tenant_Index]"

definition upgrade_0005 :: "ddl list" where
  "upgrade_0005 =
     [Create_Table Audit_Chain_Tips
        [key_col ''customer_id'' Uuid,
         null_col ''tip_hash'' (Varchar 64)]
        []] @
     protect Audit_Chain_Tips @
     [No_Force_RLS Audit_Events,
      No_Force_RLS Audit_Chain_Tips,
      Backfill Audit_Chain_Tips Audit_Events,
      Force_RLS Audit_Chain_Tips,
      Force_RLS Audit_Events]"

definition downgrade_0005 :: "ddl list" where
  "downgrade_0005 =
     [Drop_Policy ''tenant_isolation'' Audit_Chain_Tips,
      Drop_Table Audit_Chain_Tips]"

definition upgrade_0006 :: "ddl list" where
  "upgrade_0006 =
     [Create_Table Workspace_Kill_Switches
        [key_col ''workspace_id'' Uuid,
         col ''customer_id'' Uuid,
         col ''engaged_at'' Timestamptz,
         col ''engaged_by'' (Varchar 256),
         col ''reason'' (Varchar 512)]
        [],
      Create_Index Workspace_Kill_Switches ''customer_id''] @
     protect Workspace_Kill_Switches @
     [Create_Table Customer_Kill_Switches
        [key_col ''customer_id'' Uuid,
         col ''engaged_at'' Timestamptz,
         col ''engaged_by'' (Varchar 256),
         col ''reason'' (Varchar 512)]
        []] @
     protect Customer_Kill_Switches"

definition downgrade_0006 :: "ddl list" where
  "downgrade_0006 =
     [Drop_Policy ''tenant_isolation'' Customer_Kill_Switches,
      Drop_Table Customer_Kill_Switches,
      Drop_Policy ''tenant_isolation'' Workspace_Kill_Switches,
      Drop_Table Workspace_Kill_Switches]"

definition upgrade_0007 :: "ddl list" where
  "upgrade_0007 =
     [Add_Column Audit_Events (null_col ''workspace_id'' Uuid),
      Create_Index Audit_Events ''workspace_id'']"

definition downgrade_0007 :: "ddl list" where
  "downgrade_0007 =
     [Drop_Index Audit_Events ''workspace_id'',
      Drop_Column Audit_Events ''workspace_id'']"

definition notification_types_0008 :: "string list" where
  "notification_types_0008 = [''PENDING_APPROVAL'', ''FAILED_ACTION'', ''COMPLETED_TASK'', ''SECURITY_ALERT'']"

definition upgrade_0008 :: "ddl list" where
  "upgrade_0008 =
     [Create_Table Notifications
        [key_col ''id'' Uuid,
         col ''created_at'' Timestamptz,
         col ''customer_id'' Uuid,
         null_col ''workspace_id'' Uuid,
         col ''recipient_id'' (Varchar 256),
         col ''notification_type'' (Varchar 32),
         col ''reference_type'' (Varchar 64),
         col ''reference_id'' Uuid,
         server_default ''{}'' (col ''safe_metadata'' Jsonb),
         null_col ''read_at'' Timestamptz]
        [Check ''ck_notifications_type'' ''notification_type'' False notification_types_0008],
      Create_Index Notifications ''customer_id'',
      Create_Index Notifications ''workspace_id'',
      Create_Index Notifications ''recipient_id''] @
     protect Notifications"

definition downgrade_0008 :: "ddl list" where
  "downgrade_0008 =
     [Drop_Policy ''tenant_isolation'' Notifications,
      Drop_Table Notifications]"

definition notification_types_0009 :: "string list" where
  "notification_types_0009 = [''PENDING_APPROVAL'', ''FAILED_ACTION'', ''COMPLETED_TASK'', ''SECURITY_ALERT'']"

definition upgrade_0009 :: "ddl list" where
  "upgrade_0009 =
     [Create_Table Notification_Preferences
        [key_col ''id'' Uuid,
         col ''created_at'' Timestamptz,
         col ''customer_id'' Uuid,
         col ''recipient_id'' (Varchar 256),
         col ''notification_type'' (Varchar 32),
         server_default ''true'' (col ''enabled'' Boolean)]
        [Check ''ck_notification_preferences_type'' ''notification_type'' False notification_types_0009,
         Unique (Some ''uq_notification_preferences_scope'') [''customer_id'', ''recipient_id'', ''notification_type'']],
      Create_Index Notification_Preferences ''customer_id'',
      Create_Index Notification_Preferences ''recipient_id''] @
     protect Notification_Preferences"

definition downgrade_0009 :: "ddl list" where
  "downgrade_0009 =
     [Drop_Policy ''tenant_isolation'' Notification_Preferences,
      Drop_Table Notification_Preferences]"

definition upgrade_0010 :: "ddl list" where
  "upgrade_0010 =
     [Drop_Constraint Action_Actions ''uq_action_customer_idempotency_key'',
      Add_Constraint Action_Actions (Unique (Some ''uq_action_workspace_idempotency_key'') [''customer_id'', ''workspace_id'', ''idempotency_key''])]"

definition downgrade_0010 :: "ddl list" where
  "downgrade_0010 =
     [Drop_Constraint Action_Actions ''uq_action_workspace_idempotency_key'',
      Add_Constraint Action_Actions (Unique (Some ''uq_action_customer_idempotency_key'') [''customer_id'', ''idempotency_key''])]"

definition upgrade_0011 :: "ddl list" where
  "upgrade_0011 =
     [Create_Table User_Customer_Index
        [key_col ''user_id'' Uuid,
         key_col ''customer_id'' Uuid]
        [],
      Create_Index User_Customer_Index ''customer_id'',
      No_Force_RLS Customer_Memberships,
      Backfill User_Customer_Index Customer_Memberships,
      Force_RLS Customer_Memberships]"

definition downgrade_0011 :: "ddl list" where
  "downgrade_0011 =
     [Drop_Table User_Customer_Index]"

definition upgrade_0012 :: "ddl list" where
  "upgrade_0012 =
     [Add_Constraint Customer_Memberships (Unique (Some ''uq_customer_membership_customer_user'') [''customer_id'', ''user_id'']),
      Add_Constraint Workspace_Memberships (Unique (Some ''uq_workspace_membership_customer_membership_workspace'') [''customer_membership_id'', ''workspace_id''])]"

definition downgrade_0012 :: "ddl list" where
  "downgrade_0012 =
     [Drop_Constraint Workspace_Memberships ''uq_workspace_membership_customer_membership_workspace'',
      Drop_Constraint Customer_Memberships ''uq_customer_membership_customer_user'']"

definition tenant_scoped_tables_0013 :: "table_name list" where
  "tenant_scoped_tables_0013 = [Conversation_Conversations, Conversation_Messages]"

definition message_roles_0013 :: "string list" where
  "message_roles_0013 = [''USER'', ''ASSISTANT'']"

definition upgrade_0013 :: "ddl list" where
  "upgrade_0013 =
     [Create_Table Conversation_Conversations
        [key_col ''id'' Uuid,
         col ''created_at'' Timestamptz,
         col ''customer_id'' Uuid,
         col ''workspace_id'' Uuid,
         col ''owner_id'' (Varchar 256),
         null_col ''title'' (Varchar 256)]
        [],
      Create_Index Conversation_Conversations ''customer_id'',
      Create_Index Conversation_Conversations ''workspace_id'',
      Create_Table Conversation_Messages
        [key_col ''id'' Uuid,
         col ''created_at'' Timestamptz,
         col ''customer_id'' Uuid,
         references Conversation_Conversations (col ''conversation_id'' Uuid),
         col ''role'' (Varchar 16),
         col ''content'' Text_Type]
        [Check ''ck_conversation_messages_role'' ''role'' False message_roles_0013],
      Create_Index Conversation_Messages ''customer_id'',
      Create_Index Conversation_Messages ''conversation_id''] @
     concat (map protect tenant_scoped_tables_0013)"

definition downgrade_0013 :: "ddl list" where
  "downgrade_0013 =
     map (Drop_Policy ''tenant_isolation'') tenant_scoped_tables_0013 @
     [Drop_Table Conversation_Messages,
      Drop_Table Conversation_Conversations]"

definition usage_modes_0014 :: "string list" where
  "usage_modes_0014 = [''FAST'', ''STANDARD'', ''DEEP'']"

definition usage_providers_0014 :: "string list" where
  "usage_providers_0014 = [''OPENAI'', ''GEMINI'', ''CLAUDE'']"

definition usage_event_statuses_0014 :: "string list" where
  "usage_event_statuses_0014 = [''RESERVED'', ''RECONCILED'', ''REFUNDED'']"

definition tenant_scoped_tables_0014 :: "table_name list" where
  "tenant_scoped_tables_0014 = [AI_Usage_Events, AI_Budget_Ledgers]"

definition upgrade_0014 :: "ddl list" where
  "upgrade_0014 =
     [Create_Table AI_Usage_Events
        [key_col ''id'' Uuid,
         col ''created_at'' Timestamptz,
         col ''customer_id'' Uuid,
         col ''workspace_id'' Uuid,
         null_col ''conversation_id'' Uuid,
         col ''trace_id'' Uuid,
         col ''actor_id'' (Varchar 256),
         col ''provider'' (Varchar 16),
         col ''mode'' (Varchar 16),
         col ''model'' (Varchar 64),
         server_default ''0'' (col ''input_tokens'' Integer),
         server_default ''0'' (col ''output_tokens'' Integer),
         server_default ''0'' (col ''cached_input_tokens'' Integer),
         server_default ''0'' (col ''estimated_cost_cents'' Integer),
         null_col ''actual_cost_cents'' Integer,
         server_default ''RESERVED'' (col ''status'' (Varchar 16))]
        [Check ''ck_ai_usage_events_provider'' ''provider'' False usage_providers_0014,
         Check ''ck_ai_usage_events_mode'' ''mode'' False usage_modes_0014,
         Check ''ck_ai_usage_events_status'' ''status'' False usage_event_statuses_0014],
      Create_Index AI_Usage_Events ''customer_id'',
      Create_Index AI_Usage_Events ''workspace_id'',
      Create_Index AI_Usage_Events ''trace_id'',
      Create_Table AI_Budget_Ledgers
        [key_col ''customer_id'' Uuid,
         key_col ''year_month'' (Varchar 7),
         server_default ''0'' (col ''reserved_cents'' Integer),
         server_default ''0'' (col ''actual_cents'' Integer)]
        [],
      Create_Index AI_Budget_Ledgers ''customer_id''] @
     concat (map protect tenant_scoped_tables_0014)"

definition downgrade_0014 :: "ddl list" where
  "downgrade_0014 =
     map (Drop_Policy ''tenant_isolation'') tenant_scoped_tables_0014 @
     [Drop_Table AI_Budget_Ledgers,
      Drop_Table AI_Usage_Events]"

definition old_message_roles_0015 :: "string list" where
  "old_message_roles_0015 = [''USER'', ''ASSISTANT'']"

definition new_message_roles_0015 :: "string list" where
  "new_message_roles_0015 = [''USER'', ''ASSISTANT'', ''TOOL'']"

definition upgrade_0015 :: "ddl list" where
  "upgrade_0015 =
     [Add_Column Conversation_Conversations (null_col ''pinned_provider'' (Varchar 16)),
      Add_Column Conversation_Conversations (null_col ''pinned_model'' (Varchar 64)),
      Add_Column Conversation_Messages (null_col ''tool_call_id'' (Varchar 128)),
      Add_Column Conversation_Messages (null_col ''tool_name'' (Varchar 128)),
      Add_Column Conversation_Messages (null_col ''tool_arguments_json'' Text_Type),
      Add_Column Conversation_Messages (null_col ''provider'' (Varchar 16)),
      Add_Column Conversation_Messages (null_col ''model'' (Varchar 64)),
      Add_Column Conversation_Messages (null_col ''finish_reason'' (Varchar 16)),
      Drop_Constraint Conversation_Messages ''ck_conversation_messages_role'',
      Add_Constraint Conversation_Messages (Check ''ck_conversation_messages_role'' ''role'' False new_message_roles_0015)]"

definition downgrade_0015 :: "ddl list" where
  "downgrade_0015 =
     [Drop_Constraint Conversation_Messages ''ck_conversation_messages_role'',
      Add_Constraint Conversation_Messages (Check ''ck_conversation_messages_role'' ''role'' False old_message_roles_0015),
      Drop_Column Conversation_Messages ''finish_reason'',
      Drop_Column Conversation_Messages ''model'',
      Drop_Column Conversation_Messages ''provider'',
      Drop_Column Conversation_Messages ''tool_arguments_json'',
      Drop_Column Conversation_Messages ''tool_name'',
      Drop_Column Conversation_Messages ''tool_call_id'',
      Drop_Column Conversation_Conversations ''pinned_model'',
      Drop_Column Conversation_Conversations ''pinned_provider'']"

definition providers_0016 :: "string list" where
  "providers_0016 = [''OPENAI'', ''GEMINI'', ''CLAUDE'']"

definition tenant_scoped_tables_0016 :: "table_name list" where
  "tenant_scoped_tables_0016 = [User_AI_Preferences, Workspace_AI_Preferences]"

definition upgrade_0016 :: "ddl list" where
  "upgrade_0016 =
     [Create_Table User_AI_Preferences
        [col ''created_at'' Timestamptz,
         key_col ''customer_id'' Uuid,
         key_col ''user_id'' Uuid,
         col ''provider'' (Varchar 16),
         null_col ''model'' (Varchar 64)]
        [Check ''ck_user_ai_preferences_provider'' ''provider'' False providers_0016],
      Create_Table Workspace_AI_Preferences
        [key_col ''workspace_id'' Uuid,
         col ''customer_id'' Uuid,
         col ''provider'' (Varchar 16),
         null_col ''model'' (Varchar 64)]
        [Check ''ck_workspace_ai_preferences_provider'' ''provider'' False providers_0016],
      Create_Index Workspace_AI_Preferences ''customer_id''] @
     concat (map protect tenant_scoped_tables_0016)"

definition downgrade_0016 :: "ddl list" where
  "downgrade_0016 =
     map (Drop_Policy ''tenant_isolation'') tenant_scoped_tables_0016 @
     [Drop_Table Workspace_AI_Preferences,
      Drop_Table User_AI_Preferences]"

definition providers_0017 :: "string list" where
  "providers_0017 = [''OPENAI'', ''GEMINI'', ''CLAUDE'']"

definition upgrade_0017 :: "ddl list" where
  "upgrade_0017 =
     [Create_Table AI_Customer_Provider_Settings
        [key_col ''customer_id'' Uuid,
         key_col ''provider'' (Varchar 16),
         server_default ''true'' (col ''enabled'' Boolean)]
        [Check ''ck_ai_customer_provider_settings_provider'' ''provider'' False providers_0017]] @
     protect AI_Customer_Provider_Settings @
     [Create_Table AI_Provider_Verifications
        [key_col ''provider'' (Varchar 16),
         col ''last_verified_at'' Timestamptz,
         col ''last_verified_ok'' Boolean,
         null_col ''last_error'' Text_Type,
         null_col ''last_error_type'' (Varchar 64)]
        [Check ''ck_ai_provider_verifications_provider'' ''provider'' False providers_0017]]"

definition downgrade_0017 :: "ddl list" where
  "downgrade_0017 =
     [Drop_Table AI_Provider_Verifications,
      Drop_Policy ''tenant_isolation'' AI_Customer_Provider_Settings,
      Drop_Table AI_Customer_Provider_Settings]"

definition upgrade_0018 :: "ddl list" where
  "upgrade_0018 =
     [Create_Table AI_Customer_Fallback_Settings
        [key_col ''customer_id'' Uuid,
         server_default ''false'' (col ''enabled'' Boolean)]
        []] @
     protect AI_Customer_Fallback_Settings"

definition downgrade_0018 :: "ddl list" where
  "downgrade_0018 =
     [Drop_Policy ''tenant_isolation'' AI_Customer_Fallback_Settings,
      Drop_Table AI_Customer_Fallback_Settings]"

definition upgrade_0019 :: "ddl list" where
  "upgrade_0019 =
     [Add_Column Conversation_Conversations (null_col ''pinned_language'' (Varchar 2))]"

definition downgrade_0019 :: "ddl list" where
  "downgrade_0019 =
     [Drop_Column Conversation_Conversations ''pinned_language'']"

definition upgrade_0020 :: "ddl list" where
  "upgrade_0020 =
     [Create_Table Task_Decisions
        [key_col ''id'' Uuid,
         col ''created_at'' Timestamptz,
         col ''customer_id'' Uuid,
         references Task_Tasks (col ''task_id'' Uuid),
         col ''actor_id'' (Varchar 256),
         col ''variant'' Text_Type,
         col ''tradeoff'' Text_Type,
         col ''decision'' Text_Type,
         col ''reason'' Text_Type]
        [],
      Create_Index Task_Decisions ''customer_id'',
      Create_Index Task_Decisions ''task_id''] @
     protect Task_Decisions @
     [Create_Function ''task_decisions_immutable'',
      Create_Trigger ''task_decisions_no_update_delete'' Task_Decisions ''task_decisions_immutable'']"

definition downgrade_0020 :: "ddl list" where
  "downgrade_0020 =
     [Drop_Trigger ''task_decisions_no_update_delete'' Task_Decisions,
      Drop_Function ''task_decisions_immutable'',
      Drop_Policy ''tenant_isolation'' Task_Decisions,
      Drop_Table Task_Decisions]"

definition upgrade_0021 :: "ddl list" where
  "upgrade_0021 =
     [Create_Table Workspace_Language_Settings
        [key_col ''id'' Uuid,
         col ''created_at'' Timestamptz,
         col ''customer_id'' Uuid,
         references Workspace_Workspaces (col ''workspace_id'' Uuid),
         col ''actor_id'' (Varchar 256),
         null_col ''language'' (Varchar 2)]
        [],
      Create_Index Workspace_Language_Settings ''customer_id'',
      Create_Index Workspace_Language_Settings ''workspace_id''] @
     protect Workspace_Language_Settings @
     [Create_Function ''workspace_language_settings_immutable'',
      Create_Trigger ''workspace_language_settings_no_update_delete'' Workspace_Language_Settings ''workspace_language_settings_immutable'']"

definition downgrade_0021 :: "ddl list" where
  "downgrade_0021 =
     [Drop_Trigger ''workspace_language_settings_no_update_delete'' Workspace_Language_Settings,
      Drop_Function ''workspace_language_settings_immutable'',
      Drop_Policy ''tenant_isolation'' Workspace_Language_Settings,
      Drop_Table Workspace_Language_Settings]"

definition reminder_statuses_0022 :: "string list" where
  "reminder_statuses_0022 = [''PENDING_CONFIRMATION'', ''CONFIRMED'', ''CANCELLED'', ''FIRED'']"

definition old_notification_types_0022 :: "string list" where
  "old_notification_types_0022 = [''PENDING_APPROVAL'', ''FAILED_ACTION'', ''COMPLETED_TASK'', ''SECURITY_ALERT'']"

definition new_notification_types_0022 :: "string list" where
  "new_notification_types_0022 = old_notification_types_0022 @ [''REMINDER_DUE'']"

definition upgrade_0022 :: "ddl list" where
  "upgrade_0022 =
     [Create_Table Task_Reminders
        [key_col ''id'' Uuid,
         col ''created_at'' Timestamptz,
         col ''customer_id'' Uuid,
         col ''workspace_id'' Uuid,
         references Task_Tasks (col ''task_id'' Uuid),
         col ''actor_id'' (Varchar 256),
         col ''remind_at'' Timestamptz,
         col ''status'' (Varchar 32),
         null_col ''confirmed_at'' Timestamptz,
         null_col ''fired_at'' Timestamptz]
        [Check ''ck_task_reminders_status'' ''status'' False reminder_statuses_0022],
      Create_Index Task_Reminders ''customer_id'',
      Create_Index Task_Reminders ''workspace_id'',
      Create_Index Task_Reminders ''task_id''] @
     protect Task_Reminders @
     [Drop_Constraint Notifications ''ck_notifications_type'',
      Add_Constraint Notifications (Check ''ck_notifications_type'' ''notification_type'' False new_notification_types_0022),
      Drop_Constraint Notification_Preferences ''ck_notification_preferences_type'',
      Add_Constraint Notification_Preferences (Check ''ck_notification_preferences_type'' ''notification_type'' False new_notification_types_0022)]"

definition downgrade_0022 :: "ddl list" where
  "downgrade_0022 =
     [Drop_Constraint Notification_Preferences ''ck_notification_preferences_type'',
      Add_Constraint Notification_Preferences (Check ''ck_notification_preferences_type'' ''notification_type'' False old_notification_types_0022),
      Drop_Constraint Notifications ''ck_notifications_type'',
      Add_Constraint Notifications (Check ''ck_notifications_type'' ''notification_type'' False old_notification_types_0022),
      Drop_Policy ''tenant_isolation'' Task_Reminders,
      Drop_Table Task_Reminders]"

definition upgrade_0023 :: "ddl list" where
  "upgrade_0023 =
     [Add_Column Identity_Sessions (null_col ''user_agent'' (Varchar 512))]"

definition downgrade_0023 :: "ddl list" where
  "downgrade_0023 =
     [Drop_Column Identity_Sessions ''user_agent'']"

section \<open>History\<close>

record revision =
  rv_id :: string
  rv_down :: "string option"
  rv_upgrade :: "ddl list"
  rv_downgrade :: "ddl list"

definition revision_of :: "string \<Rightarrow> string option \<Rightarrow> ddl list \<Rightarrow> ddl list \<Rightarrow> revision" where
  "revision_of i d up down = \<lparr>rv_id = i, rv_down = d, rv_upgrade = up, rv_downgrade = down\<rparr>"

definition revision_0001 :: revision where
  "revision_0001 = revision_of ''0001'' None upgrade_0001 downgrade_0001"

definition revision_0002 :: revision where
  "revision_0002 = revision_of ''0002'' (Some ''0001'') upgrade_0002 downgrade_0002"

definition revision_0003 :: revision where
  "revision_0003 = revision_of ''0003'' (Some ''0002'') upgrade_0003 downgrade_0003"

definition revision_0004 :: revision where
  "revision_0004 = revision_of ''0004'' (Some ''0003'') upgrade_0004 downgrade_0004"

definition revision_0005 :: revision where
  "revision_0005 = revision_of ''0005'' (Some ''0004'') upgrade_0005 downgrade_0005"

definition revision_0006 :: revision where
  "revision_0006 = revision_of ''0006'' (Some ''0005'') upgrade_0006 downgrade_0006"

definition revision_0007 :: revision where
  "revision_0007 = revision_of ''0007'' (Some ''0006'') upgrade_0007 downgrade_0007"

definition revision_0008 :: revision where
  "revision_0008 = revision_of ''0008'' (Some ''0007'') upgrade_0008 downgrade_0008"

definition revision_0009 :: revision where
  "revision_0009 = revision_of ''0009'' (Some ''0008'') upgrade_0009 downgrade_0009"

definition revision_0010 :: revision where
  "revision_0010 = revision_of ''0010'' (Some ''0009'') upgrade_0010 downgrade_0010"

definition revision_0011 :: revision where
  "revision_0011 = revision_of ''0011'' (Some ''0010'') upgrade_0011 downgrade_0011"

definition revision_0012 :: revision where
  "revision_0012 = revision_of ''0012'' (Some ''0011'') upgrade_0012 downgrade_0012"

definition revision_0013 :: revision where
  "revision_0013 = revision_of ''0013'' (Some ''0012'') upgrade_0013 downgrade_0013"

definition revision_0014 :: revision where
  "revision_0014 = revision_of ''0014'' (Some ''0013'') upgrade_0014 downgrade_0014"

definition revision_0015 :: revision where
  "revision_0015 = revision_of ''0015'' (Some ''0014'') upgrade_0015 downgrade_0015"

definition revision_0016 :: revision where
  "revision_0016 = revision_of ''0016'' (Some ''0015'') upgrade_0016 downgrade_0016"

definition revision_0017 :: revision where
  "revision_0017 = revision_of ''0017'' (Some ''0016'') upgrade_0017 downgrade_0017"

definition revision_0018 :: revision where
  "revision_0018 = revision_of ''0018'' (Some ''0017'') upgrade_0018 downgrade_0018"

definition revision_0019 :: revision where
  "revision_0019 = revision_of ''0019'' (Some ''0018'') upgrade_0019 downgrade_0019"

definition revision_0020 :: revision where
  "revision_0020 = revision_of ''0020'' (Some ''0019'') upgrade_0020 downgrade_0020"

definition revision_0021 :: revision where
  "revision_0021 = revision_of ''0021'' (Some ''0020'') upgrade_0021 downgrade_0021"

definition revision_0022 :: revision where
  "revision_0022 = revision_of ''0022'' (Some ''0021'') upgrade_0022 downgrade_0022"

definition revision_0023 :: revision where
  "revision_0023 = revision_of ''0023'' (Some ''0022'') upgrade_0023 downgrade_0023"

definition history :: "revision list" where
  "history =
     [revision_0001, revision_0002, revision_0003, revision_0004, revision_0005, revision_0006,
      revision_0007, revision_0008, revision_0009, revision_0010, revision_0011, revision_0012,
      revision_0013, revision_0014, revision_0015, revision_0016, revision_0017, revision_0018,
      revision_0019, revision_0020, revision_0021, revision_0022, revision_0023]"

end
