(* ===== verification/Schema_History.thy ===== *)
theory Schema_History
  imports Migrations
begin

text \<open>
  Running the migrations table by table.  An operation changes one table and asks little of the
  others (theory \<open>Catalog\<close>): a run is described by what it does to each table alone and by an outline
  of the rest, which is what makes the whole history easy to evaluate.
\<close>

section \<open>A run on one table\<close>

fun local_run :: "table_name \<Rightarrow> ddl list \<Rightarrow> table_def option \<Rightarrow> table_def option option" where
  "local_run t [] x = Some x"
| "local_run t (op # ops) x =
     (if target op = Some t then (case on_table op x of None \<Rightarrow> None | Some y \<Rightarrow> local_run t ops y)
      else local_run t ops x)"

definition same_constraints :: "constr list \<Rightarrow> constr list \<Rightarrow> bool" where
  "same_constraints xs ys \<longleftrightarrow> length xs = length ys \<and> set xs \<subseteq> set ys \<and> set ys \<subseteq> set xs"

definition same_table :: "table_def option \<Rightarrow> table_def option \<Rightarrow> bool" where
  "same_table x y \<longleftrightarrow>
     (case (x, y) of
        (None, None) \<Rightarrow> True
      | (Some d, Some e) \<Rightarrow> tb_columns d = tb_columns e \<and> same_constraints (tb_constraints d) (tb_constraints e)
          \<and> tb_indexes d = tb_indexes e \<and> tb_rls d = tb_rls e \<and> tb_forced d = tb_forced e
          \<and> tb_policies d = tb_policies e \<and> tb_triggers d = tb_triggers e
      | _ \<Rightarrow> False)"

text \<open>
  One table through the history: the upgrades, each with its downgrade tried on the way.  The result
  is the table at the end, if nothing failed and every downgrade gave the table back.
\<close>

fun sweep :: "table_name \<Rightarrow> revision list \<Rightarrow> table_def option \<Rightarrow> table_def option option" where
  "sweep t [] x = Some x"
| "sweep t (r # rs) x =
     (case local_run t (rv_upgrade r) x of
        None \<Rightarrow> None
      | Some y \<Rightarrow> (case local_run t (rv_downgrade r) y of
                    None \<Rightarrow> None
                  | Some z \<Rightarrow> if same_table z x then sweep t rs y else None))"

definition touched :: "revision \<Rightarrow> table_name list" where
  "touched r = remdups (map the (filter (\<lambda>x. x \<noteq> None) (map target (rv_upgrade r @ rv_downgrade r))))"

lemma local_run_untouched: "Some t \<notin> target ` set ops \<Longrightarrow> local_run t ops x = Some x"
  by (induction ops) auto

lemma same_constraints_refl [simp]: "same_constraints xs xs"
  by (simp add: same_constraints_def)

lemma same_table_refl [simp]: "same_table x x"
  by (simp add: same_table_def split: option.split)

lemma touched_iff: "t \<in> set (touched r) \<longleftrightarrow> Some t \<in> target ` set (rv_upgrade r @ rv_downgrade r)"
proof -
  have "set (map the (filter (\<lambda>x. x \<noteq> None) (map target ops))) = {u. Some u \<in> target ` set ops}" for ops
    by (induction ops) auto
  from this [of "rv_upgrade r @ rv_downgrade r"] show ?thesis by (simp add: touched_def)
qed

lemma sweep_relevant: "sweep t rs x = sweep t (filter (\<lambda>r. t \<in> set (touched r)) rs) x"
proof (induction rs arbitrary: x)
  case (Cons r rs)
  show ?case
  proof (cases "t \<in> set (touched r)")
    case True
    with Cons show ?thesis by (simp split: option.split)
  next
    case False
    then have "Some t \<notin> target ` set (rv_upgrade r)" "Some t \<notin> target ` set (rv_downgrade r)"
      by (auto simp: touched_iff image_Un)
    with False Cons show ?thesis by (simp add: local_run_untouched)
  qed
qed simp

section \<open>What a run asks of the other tables\<close>

text \<open>
  An outline keeps what the guards look at: the tables there are, the foreign keys and the triggers
  there may be, and the functions.
\<close>

record outline =
  ol_tables :: "table_name list"
  ol_keys :: "(table_name \<times> string \<times> table_name) list"
  ol_functions :: "string list"
  ol_triggers :: "(table_name \<times> string \<times> string) list"

definition empty_outline :: outline where
  "empty_outline = \<lparr>ol_tables = [], ol_keys = [], ol_functions = [], ol_triggers = []\<rparr>"

definition known :: "outline \<Rightarrow> table_name \<Rightarrow> column list \<Rightarrow> bool" where
  "known ol t ks \<longleftrightarrow> list_all (\<lambda>(name, other). other = t \<or> other \<in> set (ol_tables ol)) (foreign_keys ks)"

primrec outline_guard :: "ddl \<Rightarrow> outline \<Rightarrow> bool" where
  "outline_guard (Create_Extension e) ol = True"
| "outline_guard (Create_Table t columns constraints) ol = known ol t columns"
| "outline_guard (Drop_Table t) ol = list_all (\<lambda>(u, name, other). other = t \<longrightarrow> u = t) (ol_keys ol)"
| "outline_guard (Add_Column t k) ol = known ol t [k]"
| "outline_guard (Drop_Column t name) ol = True"
| "outline_guard (Create_Index t column) ol = True"
| "outline_guard (Drop_Index t column) ol = True"
| "outline_guard (Add_Constraint t k) ol = True"
| "outline_guard (Drop_Constraint t name) ol = True"
| "outline_guard (Enable_RLS t) ol = True"
| "outline_guard (Force_RLS t) ol = True"
| "outline_guard (No_Force_RLS t) ol = True"
| "outline_guard (Create_Policy name t column) ol = True"
| "outline_guard (Drop_Policy name t) ol = True"
| "outline_guard (Create_Function f) ol = (f \<notin> set (ol_functions ol))"
| "outline_guard (Drop_Function f) ol = list_all (\<lambda>(t, name, g). g \<noteq> f) (ol_triggers ol)"
| "outline_guard (Create_Trigger name t f) ol = (f \<in> set (ol_functions ol))"
| "outline_guard (Drop_Trigger name t) ol = True"
| "outline_guard (Backfill t source) ol = (source \<in> set (ol_tables ol))"

fun outline_step :: "ddl \<Rightarrow> outline \<Rightarrow> outline" where
  "outline_step (Create_Table t columns constraints) ol =
     ol\<lparr>ol_tables := t # ol_tables ol,
       ol_keys := map (Pair t) (foreign_keys columns) @ ol_keys ol\<rparr>"
| "outline_step (Drop_Table t) ol =
     ol\<lparr>ol_tables := filter (\<lambda>u. u \<noteq> t) (ol_tables ol),
       ol_keys := filter (\<lambda>k. fst k \<noteq> t) (ol_keys ol),
       ol_triggers := filter (\<lambda>g. fst g \<noteq> t) (ol_triggers ol)\<rparr>"
| "outline_step (Add_Column t k) ol =
     ol\<lparr>ol_keys := map (Pair t) (foreign_keys [k]) @ ol_keys ol\<rparr>"
| "outline_step (Drop_Column t name) ol =
     ol\<lparr>ol_keys := filter (\<lambda>(u, n, other). \<not> (u = t \<and> n = name)) (ol_keys ol)\<rparr>"
| "outline_step (Create_Function f) ol = ol\<lparr>ol_functions := ol_functions ol @ [f]\<rparr>"
| "outline_step (Drop_Function f) ol = ol\<lparr>ol_functions := filter (\<lambda>g. g \<noteq> f) (ol_functions ol)\<rparr>"
| "outline_step (Create_Trigger name t f) ol = ol\<lparr>ol_triggers := (t, name, f) # ol_triggers ol\<rparr>"
| "outline_step (Drop_Trigger name t) ol =
     ol\<lparr>ol_triggers := filter (\<lambda>(u, n, f). \<not> (u = t \<and> n = name)) (ol_triggers ol)\<rparr>"
| "outline_step _ ol = ol"

fun run_outline :: "ddl list \<Rightarrow> outline \<Rightarrow> outline option" where
  "run_outline [] ol = Some ol"
| "run_outline (op # ops) ol = (if outline_guard op ol then run_outline ops (outline_step op ol) else None)"

definition outlines :: "outline \<Rightarrow> catalog \<Rightarrow> bool" where
  "outlines ol c \<longleftrightarrow>
     ol_functions ol = ct_functions c \<and>
     (\<forall>t \<in> set (ol_tables ol). ct_tables c t \<noteq> None) \<and>
     (\<forall>t d name other. ct_tables c t = Some d \<longrightarrow> (name, other) \<in> set (foreign_keys (tb_columns d)) \<longrightarrow>
        (t, name, other) \<in> set (ol_keys ol)) \<and>
     (\<forall>t d name f. ct_tables c t = Some d \<longrightarrow> (name, f) \<in> set (tb_triggers d) \<longrightarrow>
        (t, name, f) \<in> set (ol_triggers ol))"

lemma outlines_empty: "outlines empty_outline empty_catalog"
  by (simp add: outlines_def empty_outline_def empty_catalog_def)

lemma foreign_keys_append [simp]: "foreign_keys (xs @ ys) = foreign_keys xs @ foreign_keys ys"
  by (simp add: foreign_keys_def)

lemma foreign_keys_filter:
  "set (foreign_keys (filter (\<lambda>k. cl_name k \<noteq> name) ks)) = {p \<in> set (foreign_keys ks). fst p \<noteq> name}"
  by (auto simp: foreign_keys_def split: option.splits)

section \<open>The parts together\<close>

definition after_ddl :: "ddl \<Rightarrow> table_def option \<Rightarrow> catalog \<Rightarrow> catalog" where
  "after_ddl op y c =
     \<lparr>ct_functions = functions_after op (ct_functions c),
      ct_tables = (case target op of None \<Rightarrow> ct_tables c | Some t \<Rightarrow> (ct_tables c)(t := y))\<rparr>"

lemma outline_guard_sound: "outlines ol c \<Longrightarrow> outline_guard op ol \<Longrightarrow> guard op c"
  by (cases op)
    (fastforce simp: outlines_def known_def list_all_iff refers_to_def runs_def split: option.splits)+

lemma functions_after_target: "target op = Some t \<Longrightarrow> functions_after op fs = fs"
  by (cases op) auto

lemma apply_ddl_after:
  assumes "guard op c" "\<And>t. target op = Some t \<Longrightarrow> on_table op (ct_tables c t) = Some y"
  shows "apply_ddl op c = Some (after_ddl op y c)"
  using assms by (cases "target op") (auto simp: apply_ddl_def after_ddl_def functions_after_target)

lemma on_table_keys:
  assumes "outlines ol c" "target op = Some t" "on_table op (ct_tables c t) = Some (Some d)"
    "(name, other) \<in> set (foreign_keys (tb_columns d))"
  shows "(t, name, other) \<in> set (ol_keys (outline_step op ol))"
proof (cases "ct_tables c t")
  case None
  with assms show ?thesis
    by (cases op) (auto simp: on_table_def new_table_def)
next
  case (Some e)
  with assms(1) have "(n, k) \<in> set (foreign_keys (tb_columns e)) \<Longrightarrow> (t, n, k) \<in> set (ol_keys ol)" for n k
    by (auto simp: outlines_def)
  with Some assms(2-4) show ?thesis
    by (cases op) (auto simp: on_table_def alter_def foreign_keys_filter split: if_splits)
qed

lemma on_table_triggers:
  assumes "outlines ol c" "target op = Some t" "on_table op (ct_tables c t) = Some (Some d)"
    "(name, f) \<in> set (tb_triggers d)"
  shows "(t, name, f) \<in> set (ol_triggers (outline_step op ol))"
proof (cases "ct_tables c t")
  case None
  with assms show ?thesis
    by (cases op) (auto simp: on_table_def new_table_def)
next
  case (Some e)
  with assms(1) have "(n, g) \<in> set (tb_triggers e) \<Longrightarrow> (t, n, g) \<in> set (ol_triggers ol)" for n g
    by (auto simp: outlines_def)
  with Some assms(2-4) show ?thesis
    by (cases op) (auto simp: on_table_def alter_def split: if_splits)
qed

lemma outline_step_other:
  assumes "target op = Some t" "u \<noteq> t"
  shows "u \<in> set (ol_tables (outline_step op ol)) \<longleftrightarrow> u \<in> set (ol_tables ol)"
    "(u, name, other) \<in> set (ol_keys (outline_step op ol)) \<longleftrightarrow> (u, name, other) \<in> set (ol_keys ol)"
    "(u, name, f) \<in> set (ol_triggers (outline_step op ol)) \<longleftrightarrow> (u, name, f) \<in> set (ol_triggers ol)"
  using assms by (cases op; auto)+

lemma outline_step_present:
  "target op = Some t \<Longrightarrow> on_table op x = Some y \<Longrightarrow> t \<in> set (ol_tables (outline_step op ol)) \<Longrightarrow>
     t \<in> set (ol_tables ol) \<longrightarrow> x \<noteq> None \<Longrightarrow> y \<noteq> None"
  by (cases op) (auto simp: on_table_def alter_def split: option.splits if_splits)

lemma outline_step_functions: "ol_functions (outline_step op ol) = functions_after op (ol_functions ol)"
  by (cases op) auto

lemma outline_step_untargeted:
  "target op = None \<Longrightarrow> ol_tables (outline_step op ol) = ol_tables ol \<and>
     ol_keys (outline_step op ol) = ol_keys ol \<and> ol_triggers (outline_step op ol) = ol_triggers ol"
  by (cases op) auto

lemma outline_step_sound:
  assumes "outlines ol c" "\<And>t. target op = Some t \<Longrightarrow> on_table op (ct_tables c t) = Some y"
  shows "outlines (outline_step op ol) (after_ddl op y c)"
proof (cases "target op")
  case None
  with assms(1) show ?thesis
    by (simp add: outlines_def after_ddl_def outline_step_functions outline_step_untargeted)
next
  case (Some t)
  note y = assms(2) [OF Some]
  have fs: "ol_functions ol = ct_functions c" using assms(1) by (simp add: outlines_def)
  have there: "u \<in> set (ol_tables (outline_step op ol)) \<Longrightarrow> ((ct_tables c)(t := y)) u \<noteq> None" for u
    using assms(1) Some outline_step_present [OF Some y] outline_step_other(1) [OF Some, of u]
    by (auto simp: outlines_def)
  have keys: "(u, n, k) \<in> set (ol_keys (outline_step op ol))"
    if "((ct_tables c)(t := y)) u = Some d" "(n, k) \<in> set (foreign_keys (tb_columns d))" for u d n k
    using that assms(1) y on_table_keys [OF assms(1) Some] outline_step_other(2) [OF Some, of u]
    by (cases "u = t") (auto simp: outlines_def)
  have triggers: "(u, n, f) \<in> set (ol_triggers (outline_step op ol))"
    if "((ct_tables c)(t := y)) u = Some d" "(n, f) \<in> set (tb_triggers d)" for u d n f
    using that assms(1) y on_table_triggers [OF assms(1) Some] outline_step_other(3) [OF Some, of u]
    by (cases "u = t") (auto simp: outlines_def)
  show ?thesis
    using Some fs there keys triggers by (auto simp: outlines_def after_ddl_def outline_step_functions)
qed

lemma run_sound:
  assumes "outlines ol c" "run_outline ops ol = Some ol'" "\<And>t. local_run t ops (ct_tables c t) = Some (X t)"
  shows "run_ddl ops c = Some \<lparr>ct_functions = ol_functions ol', ct_tables = X\<rparr>"
    "outlines ol' \<lparr>ct_functions = ol_functions ol', ct_tables = X\<rparr>"
proof -
  have "run_ddl ops c = Some \<lparr>ct_functions = ol_functions ol', ct_tables = X\<rparr>
      \<and> outlines ol' \<lparr>ct_functions = ol_functions ol', ct_tables = X\<rparr>"
    using assms
  proof (induction ops arbitrary: ol c)
    case Nil
    have "X = ct_tables c" by (rule ext) (use Nil.prems(3) in simp)
    with Nil.prems(1,2) show ?case by (cases c) (simp add: outlines_def)
  next
    case (Cons op ops)
    from Cons.prems(2) have guard: "outline_guard op ol" and rest: "run_outline ops (outline_step op ol) = Some ol'"
      by (simp_all split: if_splits)
    obtain y where y: "\<And>t. target op = Some t \<Longrightarrow> on_table op (ct_tables c t) = Some y"
    proof (cases "target op")
      case (Some t)
      with Cons.prems(3) [of t] that show thesis by (auto split: option.splits)
    qed (use that in simp)
    have there: "local_run t ops (ct_tables (after_ddl op y c) t) = Some (X t)" for t
      using Cons.prems(3) [of t] y by (auto simp: after_ddl_def split: option.splits)
    have "apply_ddl op c = Some (after_ddl op y c)"
      by (rule apply_ddl_after [OF outline_guard_sound [OF Cons.prems(1) guard] y])
    with Cons.IH [OF outline_step_sound [OF Cons.prems(1) y] rest there] show ?case by simp
  qed
  then show "run_ddl ops c = Some \<lparr>ct_functions = ol_functions ol', ct_tables = X\<rparr>"
    "outlines ol' \<lparr>ct_functions = ol_functions ol', ct_tables = X\<rparr>" by simp_all
qed

section \<open>A history that can be gone back\<close>

definition same_catalog :: "catalog \<Rightarrow> catalog \<Rightarrow> bool" where
  "same_catalog c c' \<longleftrightarrow>
     ct_functions c = ct_functions c' \<and> (\<forall>t. same_table (ct_tables c t) (ct_tables c' t))"

definition upgrades :: "revision list \<Rightarrow> ddl list" where
  "upgrades rs = concat (map rv_upgrade rs)"

definition goes_back :: "revision \<Rightarrow> catalog \<Rightarrow> bool" where
  "goes_back r c \<longleftrightarrow>
     (\<exists>after before. run_ddl (rv_upgrade r) c = Some after \<and> run_ddl (rv_downgrade r) after = Some before
        \<and> same_catalog before c)"

fun outline_sweep :: "revision list \<Rightarrow> outline \<Rightarrow> outline option" where
  "outline_sweep [] ol = Some ol"
| "outline_sweep (r # rs) ol =
     (case run_outline (rv_upgrade r) ol of
        None \<Rightarrow> None
      | Some ol' \<Rightarrow> (case run_outline (rv_downgrade r) ol' of
                      None \<Rightarrow> None
                    | Some ol'' \<Rightarrow> if ol_functions ol'' = ol_functions ol then outline_sweep rs ol' else None))"

lemma upgrades_Cons [simp]: "upgrades (r # rs) = rv_upgrade r @ upgrades rs"
  by (simp add: upgrades_def)

lemma upgrades_Nil [simp]: "upgrades [] = []"
  by (simp add: upgrades_def)

lemma sweep_ConsE:
  assumes "sweep t (r # rs) x = Some w"
  obtains y z where "local_run t (rv_upgrade r) x = Some y" "local_run t (rv_downgrade r) y = Some z"
    "same_table z x" "sweep t rs y = Some w"
  using assms by (auto split: option.splits if_splits)

theorem sweep_sound:
  assumes "outlines ol c" "outline_sweep rs ol = Some ol'" "\<And>t. sweep t rs (ct_tables c t) = Some (X t)"
  shows "run_ddl (upgrades rs) c = Some \<lparr>ct_functions = ol_functions ol', ct_tables = X\<rparr>
    \<and> (\<forall>n < length rs. \<exists>d. run_ddl (upgrades (take n rs)) c = Some d \<and> goes_back (rs ! n) d)"
  using assms
proof (induction rs arbitrary: ol c)
  case Nil
  have "X = ct_tables c" by (rule ext) (use Nil.prems(3) in simp)
  with Nil.prems(1,2) show ?case by (cases c) (simp add: outlines_def)
next
  case (Cons r rs)
  from Cons.prems(2) obtain up down where up: "run_outline (rv_upgrade r) ol = Some up"
    and down: "run_outline (rv_downgrade r) up = Some down"
    and fs: "ol_functions down = ol_functions ol" and rest: "outline_sweep rs up = Some ol'"
    by (auto split: option.splits if_splits)
  define Y where "Y t = the (local_run t (rv_upgrade r) (ct_tables c t))" for t
  define Z where "Z t = the (local_run t (rv_downgrade r) (Y t))" for t
  have at_table: "local_run t (rv_upgrade r) (ct_tables c t) = Some (Y t)"
    "local_run t (rv_downgrade r) (Y t) = Some (Z t)" "same_table (Z t) (ct_tables c t)"
    "sweep t rs (Y t) = Some (X t)" for t
    by (rule sweep_ConsE [OF Cons.prems(3) [of t]]; simp add: Y_def Z_def)+
  let ?after = "\<lparr>ct_functions = ol_functions up, ct_tables = Y\<rparr>"
  let ?before = "\<lparr>ct_functions = ol_functions down, ct_tables = Z\<rparr>"
  have after: "run_ddl (rv_upgrade r) c = Some ?after" "outlines up ?after"
    by (rule run_sound [OF Cons.prems(1) up at_table(1)])+
  have before: "run_ddl (rv_downgrade r) ?after = Some ?before"
    by (rule run_sound(1) [OF after(2) down]) (simp add: at_table(2))
  have "same_catalog ?before c"
    using Cons.prems(1) fs at_table(3) by (simp add: same_catalog_def outlines_def)
  with after(1) before have "goes_back r c" by (auto simp: goes_back_def)
  moreover have "run_ddl (upgrades rs) ?after = Some \<lparr>ct_functions = ol_functions ol', ct_tables = X\<rparr>
    \<and> (\<forall>n < length rs. \<exists>d. run_ddl (upgrades (take n rs)) ?after = Some d \<and> goes_back (rs ! n) d)"
    by (rule Cons.IH [OF after(2) rest]) (simp add: at_table(4))
  ultimately show ?case
    using after(1) by (auto simp: run_ddl_append less_Suc_eq_0_disj)
qed

end
