(* ===== verification/Head_Schema.thy ===== *)
theory Head_Schema
  imports Schema_History
begin

text \<open>
  The schema the migrations arrive at, table by table, and the proof that they do: the upgrades all
  go through, each downgrade undoes its upgrade, and the tables at the end are the ones below.
\<close>

section \<open>The schema at the end of the history\<close>

primrec head_schema :: "table_name \<Rightarrow> table_def" where
  "head_schema Identity_Users =
     \<lparr>tb_columns =
        [key_col ''id'' Uuid,
         col ''created_at'' Timestamptz,
         col ''oidc_subject_hash'' (Varchar 128),
         col ''display_name'' (Varchar 256)],
      tb_constraints =
        [Unique None [''oidc_subject_hash'']],
      tb_indexes = [],
      tb_rls = False, tb_forced = False, tb_policies = [],
      tb_triggers = []\<rparr>"
| "head_schema Customer_Customers =
     \<lparr>tb_columns =
        [key_col ''id'' Uuid,
         col ''created_at'' Timestamptz,
         col ''name'' (Varchar 256)],
      tb_constraints =
        [],
      tb_indexes = [],
      tb_rls = False, tb_forced = False, tb_policies = [],
      tb_triggers = []\<rparr>"
| "head_schema Customer_Memberships =
     \<lparr>tb_columns =
        [key_col ''id'' Uuid,
         col ''created_at'' Timestamptz,
         references Customer_Customers (col ''customer_id'' Uuid),
         col ''user_id'' Uuid,
         col ''role'' (Varchar 32)],
      tb_constraints =
        [Check ''ck_customer_memberships_role'' ''role'' False [''platform_owner'', ''customer_owner'', ''member'', ''auditor''],
         Unique (Some ''uq_customer_membership_customer_user'') [''customer_id'', ''user_id'']],
      tb_indexes = [''customer_id'', ''user_id''],
      tb_rls = True, tb_forced = True, tb_policies = [(''tenant_isolation'', ''customer_id'')],
      tb_triggers = []\<rparr>"
| "head_schema Workspace_Workspaces =
     \<lparr>tb_columns =
        [key_col ''id'' Uuid,
         col ''created_at'' Timestamptz,
         col ''customer_id'' Uuid,
         col ''name'' (Varchar 256),
         null_col ''archived_at'' Timestamptz],
      tb_constraints =
        [],
      tb_indexes = [''customer_id''],
      tb_rls = True, tb_forced = True, tb_policies = [(''tenant_isolation'', ''customer_id'')],
      tb_triggers = []\<rparr>"
| "head_schema Workspace_Memberships =
     \<lparr>tb_columns =
        [key_col ''id'' Uuid,
         col ''created_at'' Timestamptz,
         col ''customer_id'' Uuid,
         col ''customer_membership_id'' Uuid,
         references Workspace_Workspaces (col ''workspace_id'' Uuid),
         col ''role'' (Varchar 32)],
      tb_constraints =
        [Check ''ck_workspace_memberships_role'' ''role'' False [''workspace_admin'', ''member''],
         Unique (Some ''uq_workspace_membership_customer_membership_workspace'') [''customer_membership_id'', ''workspace_id'']],
      tb_indexes = [''customer_id'', ''workspace_id''],
      tb_rls = True, tb_forced = True, tb_policies = [(''tenant_isolation'', ''customer_id'')],
      tb_triggers = []\<rparr>"
| "head_schema Audit_Events =
     \<lparr>tb_columns =
        [key_col ''id'' Uuid,
         col ''created_at'' Timestamptz,
         col ''customer_id'' Uuid,
         col ''trace_id'' Uuid,
         col ''actor_id'' (Varchar 256),
         col ''event_type'' (Varchar 128),
         col ''occurred_at'' Timestamptz,
         server_default ''{}'' (col ''safe_metadata'' Jsonb),
         null_col ''prev_hash'' (Varchar 64),
         col ''hash'' (Varchar 64),
         null_col ''workspace_id'' Uuid],
      tb_constraints =
        [],
      tb_indexes = [''customer_id'', ''trace_id'', ''workspace_id''],
      tb_rls = True, tb_forced = True, tb_policies = [(''tenant_isolation'', ''customer_id'')],
      tb_triggers = [(''audit_events_no_update_delete'', ''audit_events_immutable'')]\<rparr>"
| "head_schema Task_Tasks =
     \<lparr>tb_columns =
        [key_col ''id'' Uuid,
         col ''created_at'' Timestamptz,
         col ''customer_id'' Uuid,
         col ''workspace_id'' Uuid,
         col ''owner_id'' (Varchar 256),
         col ''title'' (Varchar 512),
         references Task_Tasks (null_col ''parent_task_id'' Uuid),
         col ''status'' (Varchar 32),
         null_col ''due_date'' Timestamptz],
      tb_constraints =
        [Check ''ck_task_tasks_status'' ''status'' False [''TODO'', ''IN_PROGRESS'', ''DONE'', ''CANCELLED'']],
      tb_indexes = [''customer_id'', ''workspace_id''],
      tb_rls = True, tb_forced = True, tb_policies = [(''tenant_isolation'', ''customer_id'')],
      tb_triggers = []\<rparr>"
| "head_schema Task_History =
     \<lparr>tb_columns =
        [key_col ''id'' Uuid,
         col ''created_at'' Timestamptz,
         col ''customer_id'' Uuid,
         references Task_Tasks (col ''task_id'' Uuid),
         col ''actor_id'' (Varchar 256),
         null_col ''from_status'' (Varchar 32),
         col ''to_status'' (Varchar 32)],
      tb_constraints =
        [Check ''ck_task_history_from_status'' ''from_status'' True [''TODO'', ''IN_PROGRESS'', ''DONE'', ''CANCELLED''],
         Check ''ck_task_history_to_status'' ''to_status'' False [''TODO'', ''IN_PROGRESS'', ''DONE'', ''CANCELLED'']],
      tb_indexes = [''customer_id'', ''task_id''],
      tb_rls = True, tb_forced = True, tb_policies = [(''tenant_isolation'', ''customer_id'')],
      tb_triggers = []\<rparr>"
| "head_schema Action_Actions =
     \<lparr>tb_columns =
        [key_col ''id'' Uuid,
         col ''created_at'' Timestamptz,
         col ''customer_id'' Uuid,
         col ''workspace_id'' Uuid,
         col ''trace_id'' Uuid,
         null_col ''task_id'' Uuid,
         col ''actor_id'' (Varchar 256),
         col ''tool_name'' (Varchar 128),
         col ''risk_level'' (Varchar 2),
         col ''payload'' Jsonb,
         col ''payload_hash'' (Varchar 64),
         col ''idempotency_key'' (Varchar 256),
         col ''status'' (Varchar 32)],
      tb_constraints =
        [Check ''ck_action_actions_risk_level'' ''risk_level'' False [''R0'', ''R1'', ''R2'', ''R3'', ''R4'', ''R5''],
         Check ''ck_action_actions_status'' ''status'' False [''DRAFT'', ''VALIDATING'', ''AWAITING_APPROVAL'', ''READY'', ''RUNNING'', ''SUCCEEDED'', ''FAILED'', ''RETRYING'', ''COMPENSATING'', ''COMPENSATED'', ''DENIED'', ''REJECTED'', ''EXPIRED'', ''CANCELLED''],
         Unique (Some ''uq_action_workspace_idempotency_key'') [''customer_id'', ''workspace_id'', ''idempotency_key'']],
      tb_indexes = [''customer_id'', ''workspace_id'', ''trace_id''],
      tb_rls = True, tb_forced = True, tb_policies = [(''tenant_isolation'', ''customer_id'')],
      tb_triggers = []\<rparr>"
| "head_schema Action_Approvals =
     \<lparr>tb_columns =
        [key_col ''id'' Uuid,
         col ''created_at'' Timestamptz,
         col ''customer_id'' Uuid,
         references Action_Actions (col ''action_id'' Uuid),
         col ''payload_hash'' (Varchar 64),
         null_col ''approver_id'' (Varchar 256),
         col ''nonce'' (Varchar 64),
         col ''status'' (Varchar 16),
         col ''expires_at'' Timestamptz],
      tb_constraints =
        [Unique None [''nonce''],
         Check ''ck_action_approvals_status'' ''status'' False [''PENDING'', ''APPROVED'', ''DENIED'', ''EXPIRED'']],
      tb_indexes = [''customer_id'', ''action_id''],
      tb_rls = True, tb_forced = True, tb_policies = [(''tenant_isolation'', ''customer_id'')],
      tb_triggers = []\<rparr>"
| "head_schema Outbox_Messages =
     \<lparr>tb_columns =
        [key_col ''id'' Uuid,
         col ''created_at'' Timestamptz,
         col ''customer_id'' Uuid,
         col ''aggregate_type'' (Varchar 64),
         col ''aggregate_id'' Uuid,
         col ''event_type'' (Varchar 128),
         col ''payload'' Jsonb,
         server_default ''0'' (col ''attempts'' Integer),
         null_col ''published_at'' Timestamptz],
      tb_constraints =
        [],
      tb_indexes = [''customer_id'', ''aggregate_id'', ''published_at''],
      tb_rls = False, tb_forced = False, tb_policies = [],
      tb_triggers = []\<rparr>"
| "head_schema Identity_Sessions =
     \<lparr>tb_columns =
        [key_col ''id'' Uuid,
         col ''created_at'' Timestamptz,
         references Identity_Users (col ''user_id'' Uuid),
         col ''auth_strength'' (Varchar 8),
         col ''last_seen_at'' Timestamptz,
         col ''expires_at'' Timestamptz,
         null_col ''revoked_at'' Timestamptz,
         null_col ''user_agent'' (Varchar 512)],
      tb_constraints =
        [Check ''ck_identity_sessions_auth_strength'' ''auth_strength'' False [''AAL1'', ''AAL2'']],
      tb_indexes = [''user_id''],
      tb_rls = False, tb_forced = False, tb_policies = [],
      tb_triggers = []\<rparr>"
| "head_schema Workspace_Tenant_Index =
     \<lparr>tb_columns =
        [key_col ''workspace_id'' Uuid,
         col ''customer_id'' Uuid],
      tb_constraints =
        [],
      tb_indexes = [''customer_id''],
      tb_rls = False, tb_forced = False, tb_policies = [],
      tb_triggers = []\<rparr>"
| "head_schema Audit_Chain_Tips =
     \<lparr>tb_columns =
        [key_col ''customer_id'' Uuid,
         null_col ''tip_hash'' (Varchar 64)],
      tb_constraints =
        [],
      tb_indexes = [],
      tb_rls = True, tb_forced = True, tb_policies = [(''tenant_isolation'', ''customer_id'')],
      tb_triggers = []\<rparr>"
| "head_schema Workspace_Kill_Switches =
     \<lparr>tb_columns =
        [key_col ''workspace_id'' Uuid,
         col ''customer_id'' Uuid,
         col ''engaged_at'' Timestamptz,
         col ''engaged_by'' (Varchar 256),
         col ''reason'' (Varchar 512)],
      tb_constraints =
        [],
      tb_indexes = [''customer_id''],
      tb_rls = True, tb_forced = True, tb_policies = [(''tenant_isolation'', ''customer_id'')],
      tb_triggers = []\<rparr>"
| "head_schema Customer_Kill_Switches =
     \<lparr>tb_columns =
        [key_col ''customer_id'' Uuid,
         col ''engaged_at'' Timestamptz,
         col ''engaged_by'' (Varchar 256),
         col ''reason'' (Varchar 512)],
      tb_constraints =
        [],
      tb_indexes = [],
      tb_rls = True, tb_forced = True, tb_policies = [(''tenant_isolation'', ''customer_id'')],
      tb_triggers = []\<rparr>"
| "head_schema Notifications =
     \<lparr>tb_columns =
        [key_col ''id'' Uuid,
         col ''created_at'' Timestamptz,
         col ''customer_id'' Uuid,
         null_col ''workspace_id'' Uuid,
         col ''recipient_id'' (Varchar 256),
         col ''notification_type'' (Varchar 32),
         col ''reference_type'' (Varchar 64),
         col ''reference_id'' Uuid,
         server_default ''{}'' (col ''safe_metadata'' Jsonb),
         null_col ''read_at'' Timestamptz],
      tb_constraints =
        [Check ''ck_notifications_type'' ''notification_type'' False [''PENDING_APPROVAL'', ''FAILED_ACTION'', ''COMPLETED_TASK'', ''SECURITY_ALERT'', ''REMINDER_DUE'']],
      tb_indexes = [''customer_id'', ''workspace_id'', ''recipient_id''],
      tb_rls = True, tb_forced = True, tb_policies = [(''tenant_isolation'', ''customer_id'')],
      tb_triggers = []\<rparr>"
| "head_schema Notification_Preferences =
     \<lparr>tb_columns =
        [key_col ''id'' Uuid,
         col ''created_at'' Timestamptz,
         col ''customer_id'' Uuid,
         col ''recipient_id'' (Varchar 256),
         col ''notification_type'' (Varchar 32),
         server_default ''true'' (col ''enabled'' Boolean)],
      tb_constraints =
        [Unique (Some ''uq_notification_preferences_scope'') [''customer_id'', ''recipient_id'', ''notification_type''],
         Check ''ck_notification_preferences_type'' ''notification_type'' False [''PENDING_APPROVAL'', ''FAILED_ACTION'', ''COMPLETED_TASK'', ''SECURITY_ALERT'', ''REMINDER_DUE'']],
      tb_indexes = [''customer_id'', ''recipient_id''],
      tb_rls = True, tb_forced = True, tb_policies = [(''tenant_isolation'', ''customer_id'')],
      tb_triggers = []\<rparr>"
| "head_schema User_Customer_Index =
     \<lparr>tb_columns =
        [key_col ''user_id'' Uuid,
         key_col ''customer_id'' Uuid],
      tb_constraints =
        [],
      tb_indexes = [''customer_id''],
      tb_rls = False, tb_forced = False, tb_policies = [],
      tb_triggers = []\<rparr>"
| "head_schema Conversation_Conversations =
     \<lparr>tb_columns =
        [key_col ''id'' Uuid,
         col ''created_at'' Timestamptz,
         col ''customer_id'' Uuid,
         col ''workspace_id'' Uuid,
         col ''owner_id'' (Varchar 256),
         null_col ''title'' (Varchar 256),
         null_col ''pinned_provider'' (Varchar 16),
         null_col ''pinned_model'' (Varchar 64),
         null_col ''pinned_language'' (Varchar 2)],
      tb_constraints =
        [],
      tb_indexes = [''customer_id'', ''workspace_id''],
      tb_rls = True, tb_forced = True, tb_policies = [(''tenant_isolation'', ''customer_id'')],
      tb_triggers = []\<rparr>"
| "head_schema Conversation_Messages =
     \<lparr>tb_columns =
        [key_col ''id'' Uuid,
         col ''created_at'' Timestamptz,
         col ''customer_id'' Uuid,
         references Conversation_Conversations (col ''conversation_id'' Uuid),
         col ''role'' (Varchar 16),
         col ''content'' Text_Type,
         null_col ''tool_call_id'' (Varchar 128),
         null_col ''tool_name'' (Varchar 128),
         null_col ''tool_arguments_json'' Text_Type,
         null_col ''provider'' (Varchar 16),
         null_col ''model'' (Varchar 64),
         null_col ''finish_reason'' (Varchar 16)],
      tb_constraints =
        [Check ''ck_conversation_messages_role'' ''role'' False [''USER'', ''ASSISTANT'', ''TOOL'']],
      tb_indexes = [''customer_id'', ''conversation_id''],
      tb_rls = True, tb_forced = True, tb_policies = [(''tenant_isolation'', ''customer_id'')],
      tb_triggers = []\<rparr>"
| "head_schema AI_Usage_Events =
     \<lparr>tb_columns =
        [key_col ''id'' Uuid,
         col ''created_at'' Timestamptz,
         col ''customer_id'' Uuid,
         col ''workspace_id'' Uuid,
         null_col ''conversation_id'' Uuid,
         col ''trace_id'' Uuid,
         col ''actor_id'' (Varchar 256),
         col ''provider'' (Varchar 16),
         col ''mode'' (Varchar 16),
         col ''model'' (Varchar 64),
         server_default ''0'' (col ''input_tokens'' Integer),
         server_default ''0'' (col ''output_tokens'' Integer),
         server_default ''0'' (col ''cached_input_tokens'' Integer),
         server_default ''0'' (col ''estimated_cost_cents'' Integer),
         null_col ''actual_cost_cents'' Integer,
         server_default ''RESERVED'' (col ''status'' (Varchar 16))],
      tb_constraints =
        [Check ''ck_ai_usage_events_provider'' ''provider'' False [''OPENAI'', ''GEMINI'', ''CLAUDE''],
         Check ''ck_ai_usage_events_mode'' ''mode'' False [''FAST'', ''STANDARD'', ''DEEP''],
         Check ''ck_ai_usage_events_status'' ''status'' False [''RESERVED'', ''RECONCILED'', ''REFUNDED'']],
      tb_indexes = [''customer_id'', ''workspace_id'', ''trace_id''],
      tb_rls = True, tb_forced = True, tb_policies = [(''tenant_isolation'', ''customer_id'')],
      tb_triggers = []\<rparr>"
| "head_schema AI_Budget_Ledgers =
     \<lparr>tb_columns =
        [key_col ''customer_id'' Uuid,
         key_col ''year_month'' (Varchar 7),
         server_default ''0'' (col ''reserved_cents'' Integer),
         server_default ''0'' (col ''actual_cents'' Integer)],
      tb_constraints =
        [],
      tb_indexes = [''customer_id''],
      tb_rls = True, tb_forced = True, tb_policies = [(''tenant_isolation'', ''customer_id'')],
      tb_triggers = []\<rparr>"
| "head_schema User_AI_Preferences =
     \<lparr>tb_columns =
        [col ''created_at'' Timestamptz,
         key_col ''customer_id'' Uuid,
         key_col ''user_id'' Uuid,
         col ''provider'' (Varchar 16),
         null_col ''model'' (Varchar 64)],
      tb_constraints =
        [Check ''ck_user_ai_preferences_provider'' ''provider'' False [''OPENAI'', ''GEMINI'', ''CLAUDE'']],
      tb_indexes = [],
      tb_rls = True, tb_forced = True, tb_policies = [(''tenant_isolation'', ''customer_id'')],
      tb_triggers = []\<rparr>"
| "head_schema Workspace_AI_Preferences =
     \<lparr>tb_columns =
        [key_col ''workspace_id'' Uuid,
         col ''customer_id'' Uuid,
         col ''provider'' (Varchar 16),
         null_col ''model'' (Varchar 64)],
      tb_constraints =
        [Check ''ck_workspace_ai_preferences_provider'' ''provider'' False [''OPENAI'', ''GEMINI'', ''CLAUDE'']],
      tb_indexes = [''customer_id''],
      tb_rls = True, tb_forced = True, tb_policies = [(''tenant_isolation'', ''customer_id'')],
      tb_triggers = []\<rparr>"
| "head_schema AI_Customer_Provider_Settings =
     \<lparr>tb_columns =
        [key_col ''customer_id'' Uuid,
         key_col ''provider'' (Varchar 16),
         server_default ''true'' (col ''enabled'' Boolean)],
      tb_constraints =
        [Check ''ck_ai_customer_provider_settings_provider'' ''provider'' False [''OPENAI'', ''GEMINI'', ''CLAUDE'']],
      tb_indexes = [],
      tb_rls = True, tb_forced = True, tb_policies = [(''tenant_isolation'', ''customer_id'')],
      tb_triggers = []\<rparr>"
| "head_schema AI_Provider_Verifications =
     \<lparr>tb_columns =
        [key_col ''provider'' (Varchar 16),
         col ''last_verified_at'' Timestamptz,
         col ''last_verified_ok'' Boolean,
         null_col ''last_error'' Text_Type,
         null_col ''last_error_type'' (Varchar 64)],
      tb_constraints =
        [Check ''ck_ai_provider_verifications_provider'' ''provider'' False [''OPENAI'', ''GEMINI'', ''CLAUDE'']],
      tb_indexes = [],
      tb_rls = False, tb_forced = False, tb_policies = [],
      tb_triggers = []\<rparr>"
| "head_schema AI_Customer_Fallback_Settings =
     \<lparr>tb_columns =
        [key_col ''customer_id'' Uuid,
         server_default ''false'' (col ''enabled'' Boolean)],
      tb_constraints =
        [],
      tb_indexes = [],
      tb_rls = True, tb_forced = True, tb_policies = [(''tenant_isolation'', ''customer_id'')],
      tb_triggers = []\<rparr>"
| "head_schema Task_Decisions =
     \<lparr>tb_columns =
        [key_col ''id'' Uuid,
         col ''created_at'' Timestamptz,
         col ''customer_id'' Uuid,
         references Task_Tasks (col ''task_id'' Uuid),
         col ''actor_id'' (Varchar 256),
         col ''variant'' Text_Type,
         col ''tradeoff'' Text_Type,
         col ''decision'' Text_Type,
         col ''reason'' Text_Type],
      tb_constraints =
        [],
      tb_indexes = [''customer_id'', ''task_id''],
      tb_rls = True, tb_forced = True, tb_policies = [(''tenant_isolation'', ''customer_id'')],
      tb_triggers = [(''task_decisions_no_update_delete'', ''task_decisions_immutable'')]\<rparr>"
| "head_schema Workspace_Language_Settings =
     \<lparr>tb_columns =
        [key_col ''id'' Uuid,
         col ''created_at'' Timestamptz,
         col ''customer_id'' Uuid,
         references Workspace_Workspaces (col ''workspace_id'' Uuid),
         col ''actor_id'' (Varchar 256),
         null_col ''language'' (Varchar 2)],
      tb_constraints =
        [],
      tb_indexes = [''customer_id'', ''workspace_id''],
      tb_rls = True, tb_forced = True, tb_policies = [(''tenant_isolation'', ''customer_id'')],
      tb_triggers = [(''workspace_language_settings_no_update_delete'', ''workspace_language_settings_immutable'')]\<rparr>"
| "head_schema Task_Reminders =
     \<lparr>tb_columns =
        [key_col ''id'' Uuid,
         col ''created_at'' Timestamptz,
         col ''customer_id'' Uuid,
         col ''workspace_id'' Uuid,
         references Task_Tasks (col ''task_id'' Uuid),
         col ''actor_id'' (Varchar 256),
         col ''remind_at'' Timestamptz,
         col ''status'' (Varchar 32),
         null_col ''confirmed_at'' Timestamptz,
         null_col ''fired_at'' Timestamptz],
      tb_constraints =
        [Check ''ck_task_reminders_status'' ''status'' False [''PENDING_CONFIRMATION'', ''CONFIRMED'', ''CANCELLED'', ''FIRED'']],
      tb_indexes = [''customer_id'', ''workspace_id'', ''task_id''],
      tb_rls = True, tb_forced = True, tb_policies = [(''tenant_isolation'', ''customer_id'')],
      tb_triggers = []\<rparr>"

section \<open>Which revisions touch a table\<close>

lemma touched_revisions:
  "touched revision_0001 =
     [Audit_Events, Workspace_Memberships, Workspace_Workspaces, Customer_Memberships, Customer_Customers, Identity_Users]"
  "touched revision_0002 =
     [Outbox_Messages, Action_Approvals, Action_Actions, Task_History, Task_Tasks]"
  "touched revision_0003 =
     [Workspace_Memberships, Customer_Memberships, Identity_Sessions]"
  "touched revision_0004 = [Workspace_Workspaces, Workspace_Tenant_Index]"
  "touched revision_0005 = [Audit_Events, Audit_Chain_Tips]"
  "touched revision_0006 = [Customer_Kill_Switches, Workspace_Kill_Switches]"
  "touched revision_0007 = [Audit_Events]"
  "touched revision_0008 = [Notifications]"
  "touched revision_0009 = [Notification_Preferences]"
  "touched revision_0010 = [Action_Actions]"
  "touched revision_0011 = [Customer_Memberships, User_Customer_Index]"
  "touched revision_0012 = [Workspace_Memberships, Customer_Memberships]"
  "touched revision_0013 = [Conversation_Messages, Conversation_Conversations]"
  "touched revision_0014 = [AI_Budget_Ledgers, AI_Usage_Events]"
  "touched revision_0015 = [Conversation_Messages, Conversation_Conversations]"
  "touched revision_0016 = [Workspace_AI_Preferences, User_AI_Preferences]"
  "touched revision_0017 = [AI_Provider_Verifications, AI_Customer_Provider_Settings]"
  "touched revision_0018 = [AI_Customer_Fallback_Settings]"
  "touched revision_0019 = [Conversation_Conversations]"
  "touched revision_0020 = [Task_Decisions]"
  "touched revision_0021 = [Workspace_Language_Settings]"
  "touched revision_0022 = [Notification_Preferences, Notifications, Task_Reminders]"
  "touched revision_0023 = [Identity_Sessions]"
  by code_simp+

lemma sweep_step:
  "t \<notin> set (touched r) \<Longrightarrow> sweep t (r # rs) x = sweep t rs x"
  using sweep_relevant [of t "r # rs" x] sweep_relevant [of t rs x] by simp

text \<open>The table alone, through the revisions that touch it.\<close>

definition arrives :: "table_name \<Rightarrow> revision list \<Rightarrow> bool" where
  "arrives t rs \<longleftrightarrow> sweep t rs None = Some (Some (head_schema t))"

lemma sweep_history:
  "arrives t (filter (\<lambda>r. t \<in> set (touched r)) history) \<Longrightarrow> sweep t history None = Some (Some (head_schema t))"
  by (simp only: arrives_def sweep_relevant [of t history])

lemma relevant_revisions:
  "filter (\<lambda>r. Identity_Users \<in> set (touched r)) history = [revision_0001]"
  "filter (\<lambda>r. Customer_Customers \<in> set (touched r)) history = [revision_0001]"
  "filter (\<lambda>r. Customer_Memberships \<in> set (touched r)) history = [revision_0001, revision_0003, revision_0011, revision_0012]"
  "filter (\<lambda>r. Workspace_Workspaces \<in> set (touched r)) history = [revision_0001, revision_0004]"
  "filter (\<lambda>r. Workspace_Memberships \<in> set (touched r)) history = [revision_0001, revision_0003, revision_0012]"
  "filter (\<lambda>r. Audit_Events \<in> set (touched r)) history = [revision_0001, revision_0005, revision_0007]"
  "filter (\<lambda>r. Task_Tasks \<in> set (touched r)) history = [revision_0002]"
  "filter (\<lambda>r. Task_History \<in> set (touched r)) history = [revision_0002]"
  "filter (\<lambda>r. Action_Actions \<in> set (touched r)) history = [revision_0002, revision_0010]"
  "filter (\<lambda>r. Action_Approvals \<in> set (touched r)) history = [revision_0002]"
  "filter (\<lambda>r. Outbox_Messages \<in> set (touched r)) history = [revision_0002]"
  "filter (\<lambda>r. Identity_Sessions \<in> set (touched r)) history = [revision_0003, revision_0023]"
  "filter (\<lambda>r. Workspace_Tenant_Index \<in> set (touched r)) history = [revision_0004]"
  "filter (\<lambda>r. Audit_Chain_Tips \<in> set (touched r)) history = [revision_0005]"
  "filter (\<lambda>r. Workspace_Kill_Switches \<in> set (touched r)) history = [revision_0006]"
  "filter (\<lambda>r. Customer_Kill_Switches \<in> set (touched r)) history = [revision_0006]"
  "filter (\<lambda>r. Notifications \<in> set (touched r)) history = [revision_0008, revision_0022]"
  "filter (\<lambda>r. Notification_Preferences \<in> set (touched r)) history = [revision_0009, revision_0022]"
  "filter (\<lambda>r. User_Customer_Index \<in> set (touched r)) history = [revision_0011]"
  "filter (\<lambda>r. Conversation_Conversations \<in> set (touched r)) history = [revision_0013, revision_0015, revision_0019]"
  "filter (\<lambda>r. Conversation_Messages \<in> set (touched r)) history = [revision_0013, revision_0015]"
  "filter (\<lambda>r. AI_Usage_Events \<in> set (touched r)) history = [revision_0014]"
  "filter (\<lambda>r. AI_Budget_Ledgers \<in> set (touched r)) history = [revision_0014]"
  "filter (\<lambda>r. User_AI_Preferences \<in> set (touched r)) history = [revision_0016]"
  "filter (\<lambda>r. Workspace_AI_Preferences \<in> set (touched r)) history = [revision_0016]"
  "filter (\<lambda>r. AI_Customer_Provider_Settings \<in> set (touched r)) history = [revision_0017]"
  "filter (\<lambda>r. AI_Provider_Verifications \<in> set (touched r)) history = [revision_0017]"
  "filter (\<lambda>r. AI_Customer_Fallback_Settings \<in> set (touched r)) history = [revision_0018]"
  "filter (\<lambda>r. Task_Decisions \<in> set (touched r)) history = [revision_0020]"
  "filter (\<lambda>r. Workspace_Language_Settings \<in> set (touched r)) history = [revision_0021]"
  "filter (\<lambda>r. Task_Reminders \<in> set (touched r)) history = [revision_0022]"
  by (simp_all add: history_def touched_revisions)

lemma arrivals:
  "arrives Identity_Users [revision_0001]"
  "arrives Customer_Customers [revision_0001]"
  "arrives Customer_Memberships [revision_0001, revision_0003, revision_0011, revision_0012]"
  "arrives Workspace_Workspaces [revision_0001, revision_0004]"
  "arrives Workspace_Memberships [revision_0001, revision_0003, revision_0012]"
  "arrives Audit_Events [revision_0001, revision_0005, revision_0007]"
  "arrives Task_Tasks [revision_0002]"
  "arrives Task_History [revision_0002]"
  "arrives Action_Actions [revision_0002, revision_0010]"
  "arrives Action_Approvals [revision_0002]"
  "arrives Outbox_Messages [revision_0002]"
  "arrives Identity_Sessions [revision_0003, revision_0023]"
  "arrives Workspace_Tenant_Index [revision_0004]"
  "arrives Audit_Chain_Tips [revision_0005]"
  "arrives Workspace_Kill_Switches [revision_0006]"
  "arrives Customer_Kill_Switches [revision_0006]"
  "arrives Notifications [revision_0008, revision_0022]"
  "arrives Notification_Preferences [revision_0009, revision_0022]"
  "arrives User_Customer_Index [revision_0011]"
  "arrives Conversation_Conversations [revision_0013, revision_0015, revision_0019]"
  "arrives Conversation_Messages [revision_0013, revision_0015]"
  "arrives AI_Usage_Events [revision_0014]"
  "arrives AI_Budget_Ledgers [revision_0014]"
  "arrives User_AI_Preferences [revision_0016]"
  "arrives Workspace_AI_Preferences [revision_0016]"
  "arrives AI_Customer_Provider_Settings [revision_0017]"
  "arrives AI_Provider_Verifications [revision_0017]"
  "arrives AI_Customer_Fallback_Settings [revision_0018]"
  "arrives Task_Decisions [revision_0020]"
  "arrives Workspace_Language_Settings [revision_0021]"
  "arrives Task_Reminders [revision_0022]"
  by code_simp+

theorem every_table_arrives: "sweep t history None = Some (Some (head_schema t))"
  by (rule sweep_history) (cases t; simp only: relevant_revisions arrivals)

section \<open>The outline of the history\<close>

definition head_functions :: "string list" where
  "head_functions = [''audit_events_immutable'', ''task_decisions_immutable'', ''workspace_language_settings_immutable'']"

lemma outline_history:
  "map_option ol_functions (outline_sweep history empty_outline) = Some head_functions"
  by code_simp

lemma outline_history_runs:
  obtains ol where "outline_sweep history empty_outline = Some ol" "ol_functions ol = head_functions"
  using outline_history by auto

definition head_catalog :: catalog where
  "head_catalog = \<lparr>ct_functions = head_functions, ct_tables = (\<lambda>t. Some (head_schema t))\<rparr>"

text \<open>
  The revisions form one line: each names the one before it, so that there is one head and alembic
  runs them in this order.
\<close>

lemma history_is_linear:
  "map rv_down history = None # map (Some \<circ> rv_id) (butlast history)" "distinct (map rv_id history)"
  by code_simp+

lemma head_is_reached:
  "run_ddl (upgrades history) empty_catalog = Some head_catalog"
  "n < length history \<Longrightarrow>
     \<exists>c. run_ddl (upgrades (take n history)) empty_catalog = Some c \<and> goes_back (history ! n) c"
proof -
  obtain ol where ol: "outline_sweep history empty_outline = Some ol" "ol_functions ol = head_functions"
    by (rule outline_history_runs)
  have "sweep t history (ct_tables empty_catalog t) = Some (Some (head_schema t))" for t
    by (simp add: empty_catalog_def every_table_arrives)
  from sweep_sound [OF outlines_empty ol(1) this]
  show "run_ddl (upgrades history) empty_catalog = Some head_catalog"
    "n < length history \<Longrightarrow>
       \<exists>c. run_ddl (upgrades (take n history)) empty_catalog = Some c \<and> goes_back (history ! n) c"
    by (auto simp: ol(2) head_catalog_def)
qed

text \<open>
  C26: the upgrades go through from an empty database and arrive at the tables above, and after each of
  them its downgrade goes through too and gives back the schema there was before it: every table with its
  columns, checks, keys, indexes, policies and triggers (a constraint put back may stand elsewhere among
  its table's constraints), and every function.
\<close>

theorem migrations_round_trip:
  "run_ddl (upgrades history) empty_catalog = Some head_catalog \<and>
   (\<forall>n < length history.
      \<exists>c. run_ddl (upgrades (take n history)) empty_catalog = Some c \<and> goes_back (history ! n) c)"
  using head_is_reached by blast

theorem migrations_round_trip_witness:
  "\<exists>c. run_ddl (upgrades (take 10 history)) empty_catalog = Some c \<and> goes_back revision_0011 c"
proof -
  have "10 < length history" "history ! 10 = revision_0011" by (simp_all add: history_def)
  with migrations_round_trip show ?thesis by fastforce
qed

section \<open>Back-fills and row security\<close>

text \<open>
  The owner of a table is held to its policies only while they are forced on it.  A back-fill that ran
  with one of its tables forced would see no rows, as no tenant is set while the migrations run.
\<close>

primrec forced_step :: "ddl \<Rightarrow> table_name list \<Rightarrow> table_name list" where
  "forced_step (Create_Extension e) ts = ts"
| "forced_step (Create_Table t columns constraints) ts = ts"
| "forced_step (Drop_Table t) ts = ts"
| "forced_step (Add_Column t k) ts = ts"
| "forced_step (Drop_Column t name) ts = ts"
| "forced_step (Create_Index t column) ts = ts"
| "forced_step (Drop_Index t column) ts = ts"
| "forced_step (Add_Constraint t k) ts = ts"
| "forced_step (Drop_Constraint t name) ts = ts"
| "forced_step (Enable_RLS t) ts = ts"
| "forced_step (Force_RLS t) ts = t # ts"
| "forced_step (No_Force_RLS t) ts = filter (\<lambda>u. u \<noteq> t) ts"
| "forced_step (Create_Policy name t column) ts = ts"
| "forced_step (Drop_Policy name t) ts = ts"
| "forced_step (Create_Function f) ts = ts"
| "forced_step (Drop_Function f) ts = ts"
| "forced_step (Create_Trigger name t f) ts = ts"
| "forced_step (Drop_Trigger name t) ts = ts"
| "forced_step (Backfill t source) ts = ts"

fun sighted :: "ddl list \<Rightarrow> table_name list \<Rightarrow> bool" where
  "sighted [] ts = True"
| "sighted (op # ops) ts =
     ((case op of Backfill t source \<Rightarrow> t \<notin> set ts \<and> source \<notin> set ts | _ \<Rightarrow> True) \<and> sighted ops (forced_step op ts))"

definition forced_within :: "catalog \<Rightarrow> table_name list \<Rightarrow> bool" where
  "forced_within c ts \<longleftrightarrow> (\<forall>t d. ct_tables c t = Some d \<longrightarrow> tb_forced d \<longrightarrow> t \<in> set ts)"

lemma forced_step_sound:
  assumes "forced_within c ts" "apply_ddl op c = Some c'"
  shows "forced_within c' (forced_step op ts)"
proof (cases "target op")
  case None
  with assms show ?thesis
    by (cases op) (auto simp: forced_within_def apply_ddl_def split: if_splits)
next
  case (Some t)
  with assms(2) obtain y where y: "on_table op (ct_tables c t) = Some y" "c' = c\<lparr>ct_tables := (ct_tables c)(t := y)\<rparr>"
    by (auto simp: apply_ddl_def split: if_splits option.splits)
  have kept: "u \<in> set (forced_step op ts)" if "u \<in> set ts" "u \<noteq> t" for u
    using Some that by (cases op) auto
  have here: "t \<in> set (forced_step op ts)" if "y = Some d" "tb_forced d" for d
  proof (cases "ct_tables c t")
    case None
    with Some y(1) that show ?thesis by (cases op) (auto simp: on_table_def new_table_def)
  next
    case (Some e)
    with assms(1) have "tb_forced e \<Longrightarrow> t \<in> set ts" by (auto simp: forced_within_def)
    with Some \<open>target op = Some t\<close> y(1) that show ?thesis
      by (cases op) (auto simp: on_table_def alter_def split: if_splits)
  qed
  show ?thesis using assms(1) y(2) kept here by (auto simp: forced_within_def)
qed

lemma sighted_backfill:
  assumes "sighted (pre @ Backfill t source # post) ts" "forced_within c ts"
    "run_ddl (pre @ Backfill t source # post) c = Some c'"
  shows "\<exists>b d e. run_ddl pre c = Some b \<and> ct_tables b t = Some d \<and> ct_tables b source = Some e
    \<and> \<not> tb_forced d \<and> \<not> tb_forced e"
  using assms
proof (induction pre arbitrary: c ts)
  case Nil
  from Nil.prems(3) obtain d e where "ct_tables c t = Some d" "ct_tables c source = Some e"
    by (auto simp: apply_ddl_def on_table_def split: if_splits option.splits)
  with Nil.prems(1,2) show ?case by (auto simp: forced_within_def)
next
  case (Cons op pre)
  from Cons.prems(3) obtain b where b: "apply_ddl op c = Some b"
    "run_ddl (pre @ Backfill t source # post) b = Some c'" by (auto split: option.splits)
  have "sighted (pre @ Backfill t source # post) (forced_step op ts)" using Cons.prems(1) by simp
  from Cons.IH [OF this forced_step_sound [OF Cons.prems(2) b(1)] b(2)] b(1) show ?case by simp
qed

lemma history_sighted: "sighted (upgrades history) []"
  by code_simp

text \<open>
  Wherever an upgrade copies rows of one table into another, both are there and neither has row
  security forced on it, so that the owner of the tables, who runs the migrations, sees every row.
\<close>

theorem backfills_see_rows:
  assumes "upgrades history = pre @ Backfill t source # post"
  shows "\<exists>c d e. run_ddl pre empty_catalog = Some c \<and> ct_tables c t = Some d \<and> ct_tables c source = Some e
    \<and> \<not> tb_forced d \<and> \<not> tb_forced e"
  using sighted_backfill [of pre t source post "[]" empty_catalog head_catalog]
    history_sighted head_is_reached(1) assms
  by (simp add: forced_within_def empty_catalog_def)

theorem backfills_see_rows_witness:
  "\<exists>c d e. run_ddl (upgrades (take 3 history) @ take 3 upgrade_0004) empty_catalog = Some c
    \<and> ct_tables c Workspace_Tenant_Index = Some d \<and> ct_tables c Workspace_Workspaces = Some e
    \<and> \<not> tb_forced d \<and> \<not> tb_forced e"
proof -
  have "rv_upgrade (history ! 3) = upgrade_0004"
    by (simp add: history_def revision_0004_def revision_of_def)
  moreover have "upgrade_0004 = take 3 upgrade_0004
      @ Backfill Workspace_Tenant_Index Workspace_Workspaces # drop 4 upgrade_0004"
    by (simp add: upgrade_0004_def)
  moreover have "upgrades history = upgrades (take 3 history) @ rv_upgrade (history ! 3) @ upgrades (drop 4 history)"
    by (simp add: upgrades_def history_def)
  ultimately have "upgrades history = (upgrades (take 3 history) @ take 3 upgrade_0004)
      @ Backfill Workspace_Tenant_Index Workspace_Workspaces # drop 4 upgrade_0004 @ upgrades (drop 4 history)"
    by simp
  then show ?thesis by (rule backfills_see_rows)
qed

end
