(* ===== verification/Stored_Rows.thy ===== *)
theory Stored_Rows
  imports Head_Schema Ai_Tools Chat_Api
begin

text \<open>
  The rows of the services (theory \<open>Schema\<close>) as the tables of the migrations hold them: the columns
  each mapped class of \<open>doda/domain/*/models.py\<close> writes, with what PostgreSQL accepts of a row.  The
  uniqueness of keys, which is a matter between rows, is not part of it.
\<close>

section \<open>Values\<close>

datatype sql_value =
    V_Null | V_Uuid uuid | V_Time instant | V_Text string | V_Json json | V_Int int | V_Bool bool

type_synonym sql_row = "(string \<times> sql_value) list"

definition or_null :: "('a \<Rightarrow> sql_value) \<Rightarrow> 'a option \<Rightarrow> sql_value" where
  "or_null f v = (case v of None \<Rightarrow> V_Null | Some a \<Rightarrow> f a)"

text \<open>The range of PostgreSQL's \<open>integer\<close>.\<close>

definition int4 :: "int \<Rightarrow> bool" where
  "int4 i \<longleftrightarrow> - (2 ^ 31) \<le> i \<and> i < 2 ^ 31"

fun of_type :: "sql_value \<Rightarrow> sql_type \<Rightarrow> bool" where
  "of_type (V_Uuid u) Uuid = True"
| "of_type (V_Time t) Timestamptz = True"
| "of_type (V_Text s) (Varchar n) = (length s \<le> n)"
| "of_type (V_Text s) Text_Type = True"
| "of_type (V_Json j) Jsonb = True"
| "of_type (V_Int i) Integer = int4 i"
| "of_type (V_Bool b) Boolean = True"
| "of_type v ty = False"

definition column_takes :: "column \<Rightarrow> sql_value \<Rightarrow> bool" where
  "column_takes k v = (if v = V_Null then cl_nullable k else of_type v (cl_type k))"

text \<open>A check is against a row only if it is false: a null does not violate it.\<close>

primrec check_takes :: "sql_row \<Rightarrow> constr \<Rightarrow> bool" where
  "check_takes vs (Check name c null_ok texts) =
     (case map_of vs c of Some (V_Text s) \<Rightarrow> s \<in> set texts | Some V_Null \<Rightarrow> True | _ \<Rightarrow> False)"
| "check_takes vs (Unique name cs) = True"

definition takes :: "table_def \<Rightarrow> sql_row \<Rightarrow> bool" where
  "takes d vs \<longleftrightarrow>
     list_all2 (\<lambda>k (name, v). name = cl_name k \<and> column_takes k v) (tb_columns d) vs \<and>
     list_all (check_takes vs) (tb_constraints d)"

lemma column_takes_null [simp]: "column_takes k V_Null = cl_nullable k"
  by (simp add: column_takes_def)

lemma column_takes_value [simp]: "v \<noteq> V_Null \<Longrightarrow> column_takes k v = of_type v (cl_type k)"
  by (simp add: column_takes_def)

lemma column_takes_or_null:
  assumes "\<And>a. f a \<noteq> V_Null"
  shows "column_takes k (or_null f v) \<longleftrightarrow>
    (v = None \<longrightarrow> cl_nullable k) \<and> pred_option (\<lambda>a. of_type (f a) (cl_type k)) v"
  using assms by (cases v) (simp_all add: or_null_def)

lemma nullable_forms [simp]:
  "column_takes k (or_null V_Uuid u) \<longleftrightarrow>
     (u = None \<longrightarrow> cl_nullable k) \<and> pred_option (\<lambda>a. of_type (V_Uuid a) (cl_type k)) u"
  "column_takes k (or_null V_Time t) \<longleftrightarrow>
     (t = None \<longrightarrow> cl_nullable k) \<and> pred_option (\<lambda>a. of_type (V_Time a) (cl_type k)) t"
  "column_takes k (or_null V_Text s) \<longleftrightarrow>
     (s = None \<longrightarrow> cl_nullable k) \<and> pred_option (\<lambda>a. of_type (V_Text a) (cl_type k)) s"
  "column_takes k (or_null V_Int i) \<longleftrightarrow>
     (i = None \<longrightarrow> cl_nullable k) \<and> pred_option (\<lambda>a. of_type (V_Int a) (cl_type k)) i"
  "column_takes k (or_null (V_Text \<circ> g) x) \<longleftrightarrow>
     (x = None \<longrightarrow> cl_nullable k) \<and> pred_option (\<lambda>a. of_type (V_Text (g a)) (cl_type k)) x"
  by (subst column_takes_or_null; simp)+

lemma checked_or_null [simp]:
  "(case or_null (V_Text \<circ> g) x of V_Null \<Rightarrow> True | V_Text s \<Rightarrow> P s | _ \<Rightarrow> False) = pred_option (\<lambda>a. P (g a)) x"
  by (cases x) (simp_all add: or_null_def)

lemma pred_option_True [simp]: "pred_option (\<lambda>a. True) v"
  by (cases v) simp_all

lemma column_name [simp]:
  "cl_name (col name ty) = name" "cl_name (null_col name ty) = name" "cl_name (key_col name ty) = name"
  "cl_name (references t k) = cl_name k" "cl_name (server_default s k) = cl_name k"
  by (simp_all add: col_def null_col_def key_col_def references_def server_default_def)

lemma column_type [simp]:
  "cl_type (col name ty) = ty" "cl_type (null_col name ty) = ty" "cl_type (key_col name ty) = ty"
  "cl_type (references t k) = cl_type k" "cl_type (server_default s k) = cl_type k"
  by (simp_all add: col_def null_col_def key_col_def references_def server_default_def)

lemma column_nullable [simp]:
  "\<not> cl_nullable (col name ty)" "cl_nullable (null_col name ty)" "\<not> cl_nullable (key_col name ty)"
  "cl_nullable (references t k) = cl_nullable k" "cl_nullable (server_default s k) = cl_nullable k"
  by (simp_all add: col_def null_col_def key_col_def references_def server_default_def)

section \<open>Enumerations\<close>

text \<open>SQLAlchemy stores the members of an enumeration under their names.\<close>

primrec auth_strength_value :: "auth_strength \<Rightarrow> string" where
  "auth_strength_value AAL1 = ''AAL1''"
| "auth_strength_value AAL2 = ''AAL2''"

primrec usage_mode_value :: "usage_mode \<Rightarrow> string" where
  "usage_mode_value FAST = ''FAST''"
| "usage_mode_value STANDARD = ''STANDARD''"
| "usage_mode_value DEEP = ''DEEP''"

primrec usage_event_status_value :: "usage_event_status \<Rightarrow> string" where
  "usage_event_status_value U_RESERVED = ''RESERVED''"
| "usage_event_status_value U_RECONCILED = ''RECONCILED''"
| "usage_event_status_value U_REFUNDED = ''REFUNDED''"

text \<open>The texts the checks of a table admit in a column.\<close>

definition admitted :: "table_name \<Rightarrow> string \<Rightarrow> string set" where
  "admitted t column =
     \<Union> (set (map (\<lambda>k. case k of Check name c null_ok texts \<Rightarrow> if c = column then set texts else {}
                           | Unique name cs \<Rightarrow> {}) (tb_constraints (head_schema t))))"

lemma admitted_values [simp]:
  "customer_role_value c \<in> set [''platform_owner'', ''customer_owner'', ''member'', ''auditor'']"
  "workspace_role_value w \<in> set [''workspace_admin'', ''member'']"
  "task_status_value t \<in> set [''TODO'', ''IN_PROGRESS'', ''DONE'', ''CANCELLED'']"
  "risk_level_value r \<in> set [''R0'', ''R1'', ''R2'', ''R3'', ''R4'', ''R5'']"
  "action_status_value a \<in> set [''DRAFT'', ''VALIDATING'', ''AWAITING_APPROVAL'', ''READY'', ''RUNNING'', ''SUCCEEDED'',
     ''FAILED'', ''RETRYING'', ''COMPENSATING'', ''COMPENSATED'', ''DENIED'', ''REJECTED'', ''EXPIRED'', ''CANCELLED'']"
  "approval_status_value v \<in> set [''PENDING'', ''APPROVED'', ''DENIED'', ''EXPIRED'']"
  "auth_strength_value s \<in> set [''AAL1'', ''AAL2'']"
  "notification_type_value n \<in> set [''PENDING_APPROVAL'', ''FAILED_ACTION'', ''COMPLETED_TASK'', ''SECURITY_ALERT'', ''REMINDER_DUE'']"
  "message_role_value m \<in> set [''USER'', ''ASSISTANT'', ''TOOL'']"
  "provider_value p \<in> set [''OPENAI'', ''GEMINI'', ''CLAUDE'']"
  "usage_mode_value u \<in> set [''FAST'', ''STANDARD'', ''DEEP'']"
  "usage_event_status_value e \<in> set [''RESERVED'', ''RECONCILED'', ''REFUNDED'']"
  "reminder_status_value i \<in> set [''PENDING_CONFIRMATION'', ''CONFIRMED'', ''CANCELLED'', ''FIRED'']"
  by ((cases c; simp), (cases w; simp), (cases t; simp), (cases r; simp), (cases a; simp), (cases v; simp),
    (cases s; simp), (cases n; simp), (cases m; simp), (cases p; simp), (cases u; simp), (cases e; simp), (cases i; simp))

lemma value_widths [simp]:
  "length (task_status_value t) \<le> 32" "length (risk_level_value r) \<le> 2" "length (action_status_value a) \<le> 32"
  "length (approval_status_value v) \<le> 16" "length (auth_strength_value s) \<le> 8"
  "length (notification_type_value n) \<le> 32" "length (message_role_value m) \<le> 16"
  "length (provider_value p) \<le> 16" "length (usage_mode_value u) \<le> 16"
  "length (usage_event_status_value e) \<le> 16" "length (reminder_status_value i) \<le> 32"
  by ((cases t; simp), (cases r; simp), (cases a; simp), (cases v; simp), (cases s; simp), (cases n; simp),
    (cases m; simp), (cases p; simp), (cases u; simp), (cases e; simp), (cases i; simp))

lemma role_widths:
  "s \<in> set [''platform_owner'', ''customer_owner'', ''member'', ''auditor''] \<Longrightarrow> length s \<le> 32"
  "s \<in> set [''workspace_admin'', ''member''] \<Longrightarrow> length s \<le> 32"
  by auto

section \<open>Rows\<close>

definition user_values :: "user_row \<Rightarrow> sql_row" where
  "user_values r =
     [(''id'', V_Uuid (usr_id r)),
      (''created_at'', V_Time (usr_created_at r)),
      (''oidc_subject_hash'', V_Text (usr_oidc_subject_hash r)),
      (''display_name'', V_Text (usr_display_name r))]"

definition session_values :: "session_row \<Rightarrow> sql_row" where
  "session_values r =
     [(''id'', V_Uuid (ses_id r)),
      (''created_at'', V_Time (ses_created_at r)),
      (''user_id'', V_Uuid (ses_user_id r)),
      (''auth_strength'', V_Text (auth_strength_value (ses_auth_strength r))),
      (''last_seen_at'', V_Time (ses_last_seen_at r)),
      (''expires_at'', V_Time (ses_expires_at r)),
      (''revoked_at'', or_null V_Time (ses_revoked_at r)),
      (''user_agent'', or_null V_Text (ses_user_agent r))]"

definition customer_values :: "customer_row \<Rightarrow> sql_row" where
  "customer_values r =
     [(''id'', V_Uuid (cus_id r)),
      (''created_at'', V_Time (cus_created_at r)),
      (''name'', V_Text (cus_name r))]"

definition customer_membership_values :: "customer_membership_row \<Rightarrow> sql_row" where
  "customer_membership_values r =
     [(''id'', V_Uuid (cm_id r)),
      (''created_at'', V_Time (cm_created_at r)),
      (''customer_id'', V_Uuid (cm_customer_id r)),
      (''user_id'', V_Uuid (cm_user_id r)),
      (''role'', V_Text (cm_role r))]"

definition workspace_values :: "workspace_row \<Rightarrow> sql_row" where
  "workspace_values r =
     [(''id'', V_Uuid (ws_id r)),
      (''created_at'', V_Time (ws_created_at r)),
      (''customer_id'', V_Uuid (ws_customer_id r)),
      (''name'', V_Text (ws_name r)),
      (''archived_at'', or_null V_Time (ws_archived_at r))]"

definition workspace_membership_values :: "workspace_membership_row \<Rightarrow> sql_row" where
  "workspace_membership_values r =
     [(''id'', V_Uuid (wm_id r)),
      (''created_at'', V_Time (wm_created_at r)),
      (''customer_id'', V_Uuid (wm_customer_id r)),
      (''customer_membership_id'', V_Uuid (wm_customer_membership_id r)),
      (''workspace_id'', V_Uuid (wm_workspace_id r)),
      (''role'', V_Text (wm_role r))]"

definition workspace_language_values :: "workspace_language_row \<Rightarrow> sql_row" where
  "workspace_language_values r =
     [(''id'', V_Uuid (wl_id r)),
      (''created_at'', V_Time (wl_created_at r)),
      (''customer_id'', V_Uuid (wl_customer_id r)),
      (''workspace_id'', V_Uuid (wl_workspace_id r)),
      (''actor_id'', V_Text (wl_actor_id r)),
      (''language'', or_null V_Text (wl_language r))]"

definition audit_event_values :: "audit_event_row \<Rightarrow> sql_row" where
  "audit_event_values r =
     [(''id'', V_Uuid (ae_id r)),
      (''created_at'', V_Time (ae_created_at r)),
      (''customer_id'', V_Uuid (ae_customer_id r)),
      (''trace_id'', V_Uuid (ae_trace_id r)),
      (''actor_id'', V_Text (ae_actor_id r)),
      (''event_type'', V_Text (ae_event_type r)),
      (''occurred_at'', V_Time (ae_occurred_at r)),
      (''safe_metadata'', V_Json (ae_safe_metadata r)),
      (''prev_hash'', or_null V_Text (ae_prev_hash r)),
      (''hash'', V_Text (ae_hash r)),
      (''workspace_id'', or_null V_Uuid (ae_workspace_id r))]"

definition outbox_message_values :: "outbox_message_row \<Rightarrow> sql_row" where
  "outbox_message_values r =
     [(''id'', V_Uuid (om_id r)),
      (''created_at'', V_Time (om_created_at r)),
      (''customer_id'', V_Uuid (om_customer_id r)),
      (''aggregate_type'', V_Text (om_aggregate_type r)),
      (''aggregate_id'', V_Uuid (om_aggregate_id r)),
      (''event_type'', V_Text (om_event_type r)),
      (''payload'', V_Json (om_payload r)),
      (''attempts'', V_Int (om_attempts r)),
      (''published_at'', or_null V_Time (om_published_at r))]"

definition action_values :: "action_row \<Rightarrow> sql_row" where
  "action_values r =
     [(''id'', V_Uuid (act_id r)),
      (''created_at'', V_Time (act_created_at r)),
      (''customer_id'', V_Uuid (act_customer_id r)),
      (''workspace_id'', V_Uuid (act_workspace_id r)),
      (''trace_id'', V_Uuid (act_trace_id r)),
      (''task_id'', or_null V_Uuid (act_task_id r)),
      (''actor_id'', V_Text (act_actor_id r)),
      (''tool_name'', V_Text (act_tool_name r)),
      (''risk_level'', V_Text (risk_level_value (act_risk_level r))),
      (''payload'', V_Json (act_payload r)),
      (''payload_hash'', V_Text (act_payload_hash r)),
      (''idempotency_key'', V_Text (act_idempotency_key r)),
      (''status'', V_Text (action_status_value (act_status r)))]"

definition approval_values :: "approval_row \<Rightarrow> sql_row" where
  "approval_values r =
     [(''id'', V_Uuid (apv_id r)),
      (''created_at'', V_Time (apv_created_at r)),
      (''customer_id'', V_Uuid (apv_customer_id r)),
      (''action_id'', V_Uuid (apv_action_id r)),
      (''payload_hash'', V_Text (apv_payload_hash r)),
      (''approver_id'', or_null V_Text (apv_approver_id r)),
      (''nonce'', V_Text (apv_nonce r)),
      (''status'', V_Text (approval_status_value (apv_status r))),
      (''expires_at'', V_Time (apv_expires_at r))]"

definition task_values :: "task_row \<Rightarrow> sql_row" where
  "task_values r =
     [(''id'', V_Uuid (tsk_id r)),
      (''created_at'', V_Time (tsk_created_at r)),
      (''customer_id'', V_Uuid (tsk_customer_id r)),
      (''workspace_id'', V_Uuid (tsk_workspace_id r)),
      (''owner_id'', V_Text (tsk_owner_id r)),
      (''title'', V_Text (tsk_title r)),
      (''parent_task_id'', or_null V_Uuid (tsk_parent_task_id r)),
      (''status'', V_Text (task_status_value (tsk_status r))),
      (''due_date'', or_null V_Time (tsk_due_date r))]"

definition task_history_values :: "task_history_row \<Rightarrow> sql_row" where
  "task_history_values r =
     [(''id'', V_Uuid (th_id r)),
      (''created_at'', V_Time (th_created_at r)),
      (''customer_id'', V_Uuid (th_customer_id r)),
      (''task_id'', V_Uuid (th_task_id r)),
      (''actor_id'', V_Text (th_actor_id r)),
      (''from_status'', or_null (V_Text \<circ> task_status_value) (th_from_status r)),
      (''to_status'', V_Text (task_status_value (th_to_status r)))]"

definition reminder_values :: "reminder_row \<Rightarrow> sql_row" where
  "reminder_values r =
     [(''id'', V_Uuid (rem_id r)),
      (''created_at'', V_Time (rem_created_at r)),
      (''customer_id'', V_Uuid (rem_customer_id r)),
      (''workspace_id'', V_Uuid (rem_workspace_id r)),
      (''task_id'', V_Uuid (rem_task_id r)),
      (''actor_id'', V_Text (rem_actor_id r)),
      (''remind_at'', V_Time (rem_remind_at r)),
      (''status'', V_Text (reminder_status_value (rem_status r))),
      (''confirmed_at'', or_null V_Time (rem_confirmed_at r)),
      (''fired_at'', or_null V_Time (rem_fired_at r))]"

definition task_decision_values :: "task_decision_row \<Rightarrow> sql_row" where
  "task_decision_values r =
     [(''id'', V_Uuid (td_id r)),
      (''created_at'', V_Time (td_created_at r)),
      (''customer_id'', V_Uuid (td_customer_id r)),
      (''task_id'', V_Uuid (td_task_id r)),
      (''actor_id'', V_Text (td_actor_id r)),
      (''variant'', V_Text (td_variant r)),
      (''tradeoff'', V_Text (td_tradeoff r)),
      (''decision'', V_Text (td_decision r)),
      (''reason'', V_Text (td_reason r))]"

definition notification_values :: "notification_row \<Rightarrow> sql_row" where
  "notification_values r =
     [(''id'', V_Uuid (ntf_id r)),
      (''created_at'', V_Time (ntf_created_at r)),
      (''customer_id'', V_Uuid (ntf_customer_id r)),
      (''workspace_id'', or_null V_Uuid (ntf_workspace_id r)),
      (''recipient_id'', V_Text (ntf_recipient_id r)),
      (''notification_type'', V_Text (notification_type_value (ntf_type r))),
      (''reference_type'', V_Text (ntf_reference_type r)),
      (''reference_id'', V_Uuid (ntf_reference_id r)),
      (''safe_metadata'', V_Json (ntf_safe_metadata r)),
      (''read_at'', or_null V_Time (ntf_read_at r))]"

definition notification_preference_values :: "notification_preference_row \<Rightarrow> sql_row" where
  "notification_preference_values r =
     [(''id'', V_Uuid (np_id r)),
      (''created_at'', V_Time (np_created_at r)),
      (''customer_id'', V_Uuid (np_customer_id r)),
      (''recipient_id'', V_Text (np_recipient_id r)),
      (''notification_type'', V_Text (notification_type_value (np_type r))),
      (''enabled'', V_Bool (np_enabled r))]"

definition conversation_values :: "conversation_row \<Rightarrow> sql_row" where
  "conversation_values r =
     [(''id'', V_Uuid (cv_id r)),
      (''created_at'', V_Time (cv_created_at r)),
      (''customer_id'', V_Uuid (cv_customer_id r)),
      (''workspace_id'', V_Uuid (cv_workspace_id r)),
      (''owner_id'', V_Text (cv_owner_id r)),
      (''title'', or_null V_Text (cv_title r)),
      (''pinned_provider'', or_null V_Text (cv_pinned_provider r)),
      (''pinned_model'', or_null V_Text (cv_pinned_model r)),
      (''pinned_language'', or_null V_Text (cv_pinned_language r))]"

definition message_values :: "message_row \<Rightarrow> sql_row" where
  "message_values r =
     [(''id'', V_Uuid (msg_id r)),
      (''created_at'', V_Time (msg_created_at r)),
      (''customer_id'', V_Uuid (msg_customer_id r)),
      (''conversation_id'', V_Uuid (msg_conversation_id r)),
      (''role'', V_Text (message_role_value (msg_role r))),
      (''content'', V_Text (msg_content r)),
      (''tool_call_id'', or_null V_Text (msg_tool_call_id r)),
      (''tool_name'', or_null V_Text (msg_tool_name r)),
      (''tool_arguments_json'', or_null V_Text (msg_tool_arguments_json r)),
      (''provider'', or_null V_Text (msg_provider r)),
      (''model'', or_null V_Text (msg_model r)),
      (''finish_reason'', or_null V_Text (msg_finish_reason r))]"

definition ai_usage_event_values :: "ai_usage_event_row \<Rightarrow> sql_row" where
  "ai_usage_event_values r =
     [(''id'', V_Uuid (ue_id r)),
      (''created_at'', V_Time (ue_created_at r)),
      (''customer_id'', V_Uuid (ue_customer_id r)),
      (''workspace_id'', V_Uuid (ue_workspace_id r)),
      (''conversation_id'', or_null V_Uuid (ue_conversation_id r)),
      (''trace_id'', V_Uuid (ue_trace_id r)),
      (''actor_id'', V_Text (ue_actor_id r)),
      (''provider'', V_Text (provider_value (ue_provider r))),
      (''mode'', V_Text (usage_mode_value (ue_mode r))),
      (''model'', V_Text (ue_model r)),
      (''input_tokens'', V_Int (ue_input_tokens r)),
      (''output_tokens'', V_Int (ue_output_tokens r)),
      (''cached_input_tokens'', V_Int (ue_cached_input_tokens r)),
      (''estimated_cost_cents'', V_Int (ue_estimated_cost_cents r)),
      (''actual_cost_cents'', or_null V_Int (ue_actual_cost_cents r)),
      (''status'', V_Text (usage_event_status_value (ue_status r)))]"

definition workspace_kill_switch_values :: "uuid \<Rightarrow> workspace_kill_switch_row \<Rightarrow> sql_row" where
  "workspace_kill_switch_values k r =
     [(''workspace_id'', V_Uuid k),
      (''customer_id'', V_Uuid (wks_customer_id r)),
      (''engaged_at'', V_Time (wks_engaged_at r)),
      (''engaged_by'', V_Text (wks_engaged_by r)),
      (''reason'', V_Text (wks_reason r))]"

definition customer_kill_switch_values :: "uuid \<Rightarrow> customer_kill_switch_row \<Rightarrow> sql_row" where
  "customer_kill_switch_values k r =
     [(''customer_id'', V_Uuid k),
      (''engaged_at'', V_Time (cks_engaged_at r)),
      (''engaged_by'', V_Text (cks_engaged_by r)),
      (''reason'', V_Text (cks_reason r))]"

definition audit_chain_tip_values :: "uuid \<Rightarrow> string option \<Rightarrow> sql_row" where
  "audit_chain_tip_values k tip =
     [(''customer_id'', V_Uuid k),
      (''tip_hash'', or_null V_Text tip)]"

definition ai_budget_ledger_values :: "uuid \<times> string \<Rightarrow> ai_budget_ledger_row \<Rightarrow> sql_row" where
  "ai_budget_ledger_values k r =
     [(''customer_id'', V_Uuid (fst k)),
      (''year_month'', V_Text (snd k)),
      (''reserved_cents'', V_Int (bl_reserved_cents r)),
      (''actual_cents'', V_Int (bl_actual_cents r))]"

definition user_ai_preference_values :: "uuid \<times> uuid \<Rightarrow> user_ai_preference_row \<Rightarrow> sql_row" where
  "user_ai_preference_values k r =
     [(''created_at'', V_Time (uap_created_at r)),
      (''customer_id'', V_Uuid (fst k)),
      (''user_id'', V_Uuid (snd k)),
      (''provider'', V_Text (provider_value (uap_provider r))),
      (''model'', or_null V_Text (uap_model r))]"

definition workspace_ai_preference_values :: "uuid \<Rightarrow> workspace_ai_preference_row \<Rightarrow> sql_row" where
  "workspace_ai_preference_values k r =
     [(''workspace_id'', V_Uuid k),
      (''customer_id'', V_Uuid (wap_customer_id r)),
      (''provider'', V_Text (provider_value (wap_provider r))),
      (''model'', or_null V_Text (wap_model r))]"

definition ai_provider_verification_values :: "provider \<Rightarrow> ai_provider_verification_row \<Rightarrow> sql_row" where
  "ai_provider_verification_values k r =
     [(''provider'', V_Text (provider_value k)),
      (''last_verified_at'', V_Time (pv_last_verified_at r)),
      (''last_verified_ok'', V_Bool (pv_last_verified_ok r)),
      (''last_error'', or_null V_Text (pv_last_error r)),
      (''last_error_type'', or_null V_Text (pv_last_error_type r))]"

section \<open>What the tables take\<close>

lemma takes_user:
  "takes (head_schema Identity_Users) (user_values r) \<longleftrightarrow>
     length (usr_oidc_subject_hash r) \<le> 128 \<and>
     length (usr_display_name r) \<le> 256"
  by (simp add: takes_def user_values_def del: list.set)

lemma takes_session:
  "takes (head_schema Identity_Sessions) (session_values r) \<longleftrightarrow>
     pred_option (\<lambda>s. length s \<le> 512) (ses_user_agent r)"
  by (simp add: takes_def session_values_def del: list.set)

lemma takes_customer:
  "takes (head_schema Customer_Customers) (customer_values r) \<longleftrightarrow>
     length (cus_name r) \<le> 256"
  by (simp add: takes_def customer_values_def del: list.set)

lemma takes_customer_membership:
  "takes (head_schema Customer_Memberships) (customer_membership_values r) \<longleftrightarrow>
     cm_role r \<in> set (''platform_owner'' # map customer_role_value [CR_OWNER, CR_MEMBER, CR_AUDITOR])"
  by (simp add: takes_def customer_membership_values_def del: list.set) (blast dest: role_widths)

lemma takes_workspace:
  "takes (head_schema Workspace_Workspaces) (workspace_values r) \<longleftrightarrow>
     length (ws_name r) \<le> 256"
  by (simp add: takes_def workspace_values_def del: list.set)

lemma takes_workspace_membership:
  "takes (head_schema Workspace_Memberships) (workspace_membership_values r) \<longleftrightarrow>
     wm_role r \<in> set (map workspace_role_value [WR_ADMIN, WR_MEMBER])"
  by (simp add: takes_def workspace_membership_values_def del: list.set) (blast dest: role_widths)

lemma takes_workspace_language:
  "takes (head_schema Workspace_Language_Settings) (workspace_language_values r) \<longleftrightarrow>
     length (wl_actor_id r) \<le> 256 \<and>
     pred_option (\<lambda>s. length s \<le> 2) (wl_language r)"
  by (simp add: takes_def workspace_language_values_def del: list.set)

lemma takes_audit_event:
  "takes (head_schema Audit_Events) (audit_event_values r) \<longleftrightarrow>
     length (ae_actor_id r) \<le> 256 \<and>
     length (ae_event_type r) \<le> 128 \<and>
     pred_option (\<lambda>s. length s \<le> 64) (ae_prev_hash r) \<and>
     length (ae_hash r) \<le> 64"
  by (simp add: takes_def audit_event_values_def del: list.set)

lemma takes_outbox_message:
  "takes (head_schema Outbox_Messages) (outbox_message_values r) \<longleftrightarrow>
     length (om_aggregate_type r) \<le> 64 \<and>
     length (om_event_type r) \<le> 128 \<and>
     int4 (om_attempts r)"
  by (simp add: takes_def outbox_message_values_def del: list.set)

lemma takes_action:
  "takes (head_schema Action_Actions) (action_values r) \<longleftrightarrow>
     length (act_actor_id r) \<le> 256 \<and>
     length (act_tool_name r) \<le> 128 \<and>
     length (act_payload_hash r) \<le> 64 \<and>
     length (act_idempotency_key r) \<le> 256"
  by (simp add: takes_def action_values_def del: list.set)

lemma takes_approval:
  "takes (head_schema Action_Approvals) (approval_values r) \<longleftrightarrow>
     length (apv_payload_hash r) \<le> 64 \<and>
     pred_option (\<lambda>s. length s \<le> 256) (apv_approver_id r) \<and>
     length (apv_nonce r) \<le> 64"
  by (simp add: takes_def approval_values_def del: list.set)

lemma takes_task:
  "takes (head_schema Task_Tasks) (task_values r) \<longleftrightarrow>
     length (tsk_owner_id r) \<le> 256 \<and>
     length (tsk_title r) \<le> 512"
  by (simp add: takes_def task_values_def del: list.set)

lemma takes_task_history:
  "takes (head_schema Task_History) (task_history_values r) \<longleftrightarrow>
     length (th_actor_id r) \<le> 256"
  by (simp add: takes_def task_history_values_def del: list.set)

lemma takes_reminder:
  "takes (head_schema Task_Reminders) (reminder_values r) \<longleftrightarrow>
     length (rem_actor_id r) \<le> 256"
  by (simp add: takes_def reminder_values_def del: list.set)

lemma takes_task_decision:
  "takes (head_schema Task_Decisions) (task_decision_values r) \<longleftrightarrow>
     length (td_actor_id r) \<le> 256"
  by (simp add: takes_def task_decision_values_def del: list.set)

lemma takes_notification:
  "takes (head_schema Notifications) (notification_values r) \<longleftrightarrow>
     length (ntf_recipient_id r) \<le> 256 \<and>
     length (ntf_reference_type r) \<le> 64"
  by (simp add: takes_def notification_values_def del: list.set)

lemma takes_notification_preference:
  "takes (head_schema Notification_Preferences) (notification_preference_values r) \<longleftrightarrow>
     length (np_recipient_id r) \<le> 256"
  by (simp add: takes_def notification_preference_values_def del: list.set)

lemma takes_conversation:
  "takes (head_schema Conversation_Conversations) (conversation_values r) \<longleftrightarrow>
     length (cv_owner_id r) \<le> 256 \<and>
     pred_option (\<lambda>s. length s \<le> 256) (cv_title r) \<and>
     pred_option (\<lambda>s. length s \<le> 16) (cv_pinned_provider r) \<and>
     pred_option (\<lambda>s. length s \<le> 64) (cv_pinned_model r) \<and>
     pred_option (\<lambda>s. length s \<le> 2) (cv_pinned_language r)"
  by (simp add: takes_def conversation_values_def del: list.set)

lemma takes_message:
  "takes (head_schema Conversation_Messages) (message_values r) \<longleftrightarrow>
     pred_option (\<lambda>s. length s \<le> 128) (msg_tool_call_id r) \<and>
     pred_option (\<lambda>s. length s \<le> 128) (msg_tool_name r) \<and>
     pred_option (\<lambda>s. length s \<le> 16) (msg_provider r) \<and>
     pred_option (\<lambda>s. length s \<le> 64) (msg_model r) \<and>
     pred_option (\<lambda>s. length s \<le> 16) (msg_finish_reason r)"
  by (simp add: takes_def message_values_def del: list.set)

lemma takes_ai_usage_event:
  "takes (head_schema AI_Usage_Events) (ai_usage_event_values r) \<longleftrightarrow>
     length (ue_actor_id r) \<le> 256 \<and>
     length (ue_model r) \<le> 64 \<and>
     int4 (ue_input_tokens r) \<and>
     int4 (ue_output_tokens r) \<and>
     int4 (ue_cached_input_tokens r) \<and>
     int4 (ue_estimated_cost_cents r) \<and>
     pred_option int4 (ue_actual_cost_cents r)"
  by (simp add: takes_def ai_usage_event_values_def del: list.set)

lemma takes_workspace_kill_switch:
  "takes (head_schema Workspace_Kill_Switches) (workspace_kill_switch_values k r) \<longleftrightarrow>
     length (wks_engaged_by r) \<le> 256 \<and>
     length (wks_reason r) \<le> 512"
  by (simp add: takes_def workspace_kill_switch_values_def del: list.set)

lemma takes_customer_kill_switch:
  "takes (head_schema Customer_Kill_Switches) (customer_kill_switch_values k r) \<longleftrightarrow>
     length (cks_engaged_by r) \<le> 256 \<and>
     length (cks_reason r) \<le> 512"
  by (simp add: takes_def customer_kill_switch_values_def del: list.set)

lemma takes_audit_chain_tip:
  "takes (head_schema Audit_Chain_Tips) (audit_chain_tip_values k tip) \<longleftrightarrow>
     pred_option (\<lambda>s. length s \<le> 64) tip"
  by (simp add: takes_def audit_chain_tip_values_def del: list.set)

lemma takes_ai_budget_ledger:
  "takes (head_schema AI_Budget_Ledgers) (ai_budget_ledger_values k r) \<longleftrightarrow>
     length (snd k) \<le> 7 \<and>
     int4 (bl_reserved_cents r) \<and>
     int4 (bl_actual_cents r)"
  by (simp add: takes_def ai_budget_ledger_values_def del: list.set)

lemma takes_user_ai_preference:
  "takes (head_schema User_AI_Preferences) (user_ai_preference_values k r) \<longleftrightarrow>
     pred_option (\<lambda>s. length s \<le> 64) (uap_model r)"
  by (simp add: takes_def user_ai_preference_values_def del: list.set)

lemma takes_workspace_ai_preference:
  "takes (head_schema Workspace_AI_Preferences) (workspace_ai_preference_values k r) \<longleftrightarrow>
     pred_option (\<lambda>s. length s \<le> 64) (wap_model r)"
  by (simp add: takes_def workspace_ai_preference_values_def del: list.set)

lemma takes_ai_provider_verification:
  "takes (head_schema AI_Provider_Verifications) (ai_provider_verification_values k r) \<longleftrightarrow>
     pred_option (\<lambda>s. length s \<le> 64) (pv_last_error_type r)"
  by (simp add: takes_def ai_provider_verification_values_def del: list.set)

text \<open>The members of the enumerations.\<close>

lemma members:
  "(UNIV :: task_status set) = {T_TODO, T_IN_PROGRESS, T_DONE, T_CANCELLED}"
  "(UNIV :: reminder_status set) = {R_PENDING_CONFIRMATION, R_CONFIRMED, R_CANCELLED, R_FIRED}"
  "(UNIV :: action_status set) = {DRAFT, VALIDATING, AWAITING_APPROVAL, READY, RUNNING, SUCCEEDED, FAILED, RETRYING, COMPENSATING, COMPENSATED, DENIED, REJECTED, EXPIRED, CANCELLED}"
  "(UNIV :: risk_level set) = {R0, R1, R2, R3, R4, R5}"
  "(UNIV :: approval_status set) = {A_PENDING, A_APPROVED, A_DENIED, A_EXPIRED}"
  "(UNIV :: auth_strength set) = {AAL1, AAL2}"
  "(UNIV :: notification_type set) = {PENDING_APPROVAL, FAILED_ACTION, COMPLETED_TASK, SECURITY_ALERT, REMINDER_DUE}"
  "(UNIV :: message_role set) = {M_USER, M_ASSISTANT, M_TOOL}"
  "(UNIV :: provider set) = {OPENAI, GEMINI, CLAUDE}"
  "(UNIV :: usage_mode set) = {FAST, STANDARD, DEEP}"
  "(UNIV :: usage_event_status set) = {U_RESERVED, U_RECONCILED, U_REFUNDED}"
  "(UNIV :: customer_role set) = {CR_OWNER, CR_MEMBER, CR_AUDITOR}"
  "(UNIV :: workspace_role set) = {WR_ADMIN, WR_MEMBER}"
  unfolding set_eq_iff
  using task_status.nchotomy
    reminder_status.nchotomy
    action_status.nchotomy
    risk_level.nchotomy
    approval_status.nchotomy
    auth_strength.nchotomy
    notification_type.nchotomy
    message_role.nchotomy
    provider.nchotomy
    usage_mode.nchotomy
    usage_event_status.nchotomy
    customer_role.nchotomy
    workspace_role.nchotomy
  by simp_all

text \<open>
  The checks of the tables admit in each column that holds a member of an enumeration exactly the
  values the code has for it, so that no status, role, level, type or provider the code writes is
  refused and no other can be stored; only the role of a customer member may also be
  \<open>platform_owner\<close>, a value no enumeration of the code has.
\<close>

theorem checks_admit_the_enumerations:
  "admitted Task_Tasks ''status'' = range task_status_value \<and>
   admitted Task_History ''from_status'' = range task_status_value \<and>
   admitted Task_History ''to_status'' = range task_status_value \<and>
   admitted Task_Reminders ''status'' = range reminder_status_value \<and>
   admitted Action_Actions ''status'' = range action_status_value \<and>
   admitted Action_Actions ''risk_level'' = range risk_level_value \<and>
   admitted Action_Approvals ''status'' = range approval_status_value \<and>
   admitted Identity_Sessions ''auth_strength'' = range auth_strength_value \<and>
   admitted Notifications ''notification_type'' = range notification_type_value \<and>
   admitted Notification_Preferences ''notification_type'' = range notification_type_value \<and>
   admitted Conversation_Messages ''role'' = range message_role_value \<and>
   admitted AI_Usage_Events ''provider'' = range provider_value \<and>
   admitted AI_Usage_Events ''mode'' = range usage_mode_value \<and>
   admitted AI_Usage_Events ''status'' = range usage_event_status_value \<and>
   admitted User_AI_Preferences ''provider'' = range provider_value \<and>
   admitted Workspace_AI_Preferences ''provider'' = range provider_value \<and>
   admitted AI_Customer_Provider_Settings ''provider'' = range provider_value \<and>
   admitted AI_Provider_Verifications ''provider'' = range provider_value \<and>
   admitted Workspace_Memberships ''role'' = range workspace_role_value \<and>
   admitted Customer_Memberships ''role'' = insert ''platform_owner'' (range customer_role_value)"
  by (intro conjI; simp add: admitted_def members; blast)

section \<open>Widths\<close>

text \<open>
  No request schema bounds the texts it takes, the tables do: a row of the services is taken exactly
  if its texts are no longer than their columns and its numbers fit.  So it is with the titles of tasks and
  conversations, the names of tools and keys of actions, the reasons of kill switches, the client a session
  names and the counts of a usage event; nothing else of such a row is ever refused.
\<close>

theorem rows_are_taken_within_widths:
  "(takes (head_schema Task_Tasks) (task_values t) \<longleftrightarrow> length (tsk_owner_id t) \<le> 256 \<and> length (tsk_title t) \<le> 512) \<and>
   (takes (head_schema Conversation_Conversations) (conversation_values c) \<longleftrightarrow>
      length (cv_owner_id c) \<le> 256 \<and> pred_option (\<lambda>s. length s \<le> 256) (cv_title c) \<and>
      pred_option (\<lambda>s. length s \<le> 16) (cv_pinned_provider c) \<and>
      pred_option (\<lambda>s. length s \<le> 64) (cv_pinned_model c) \<and>
      pred_option (\<lambda>s. length s \<le> 2) (cv_pinned_language c)) \<and>
   (takes (head_schema Action_Actions) (action_values a) \<longleftrightarrow>
      length (act_actor_id a) \<le> 256 \<and> length (act_tool_name a) \<le> 128 \<and>
      length (act_payload_hash a) \<le> 64 \<and> length (act_idempotency_key a) \<le> 256) \<and>
   (takes (head_schema Workspace_Kill_Switches) (workspace_kill_switch_values k w) \<longleftrightarrow>
      length (wks_engaged_by w) \<le> 256 \<and> length (wks_reason w) \<le> 512) \<and>
   (takes (head_schema Customer_Kill_Switches) (customer_kill_switch_values k v) \<longleftrightarrow>
      length (cks_engaged_by v) \<le> 256 \<and> length (cks_reason v) \<le> 512) \<and>
   (takes (head_schema Identity_Sessions) (session_values s) \<longleftrightarrow>
      pred_option (\<lambda>x. length x \<le> 512) (ses_user_agent s)) \<and>
   (takes (head_schema AI_Usage_Events) (ai_usage_event_values e) \<longleftrightarrow>
      length (ue_actor_id e) \<le> 256 \<and> length (ue_model e) \<le> 64 \<and>
      int4 (ue_input_tokens e) \<and> int4 (ue_output_tokens e) \<and> int4 (ue_cached_input_tokens e) \<and>
      int4 (ue_estimated_cost_cents e) \<and> pred_option int4 (ue_actual_cost_cents e))"
  by (simp only: takes_task takes_conversation takes_action takes_workspace_kill_switch
      takes_customer_kill_switch takes_session takes_ai_usage_event)

text \<open>So a task the service creates, and the handler answers with, may be one the database refuses.\<close>

lemma created_task_is_taken:
  assumes "create_task customer_id workspace_id owner_id title due_date parent s = (Inr t, u)"
  shows "takes (head_schema Task_Tasks) (task_values t) \<longleftrightarrow> length owner_id \<le> 256 \<and> length title \<le> 512"
  using assms by (auto simp: takes_task create_task_def Let_def raise_def ok_def
    simp del: head_schema.simps split: if_splits prod.splits)

end
