(* ===== verification/Row_Security.thy ===== *)
theory Row_Security
  imports Stored_Rows
begin

text \<open>
  The row security of the schema, as PostgreSQL enforces it in the sessions of
  \<open>doda/db.py\<close> (\<open>tenant_scoped_session\<close>), and what it leaves of a table in them.
\<close>

section \<open>Who sees which rows\<close>

text \<open>
  What PostgreSQL looks at of a role (\<open>rolsuper\<close> and \<open>rolbypassrls\<close> of \<open>pg_roles\<close>, which
  \<open>tests/integration/test_rls_coverage.py\<close> tests for the role the application connects as, and whether
  it owns the table).  A superuser and a role with \<open>BYPASSRLS\<close> are not held to policies, the owner of a
  table only where they are forced.  The tenant is
  the setting \<open>app.current_customer_id\<close> of the transaction, if it has one: comparing with a setting
  that is not there is not true of any row.  (On a connection that had one in an earlier transaction the
  setting is the empty text, whose conversion makes the statement fail: it sees no row either.)
\<close>

record db_role =
  rol_super :: bool
  rol_bypass_rls :: bool
  rol_owner :: bool

definition restricted :: "db_role \<Rightarrow> table_def \<Rightarrow> bool" where
  "restricted role d \<longleftrightarrow>
     tb_rls d \<and> \<not> rol_super role \<and> \<not> rol_bypass_rls role \<and> (rol_owner role \<longrightarrow> tb_forced d)"

definition policy_holds :: "uuid option \<Rightarrow> sql_row \<Rightarrow> string \<times> string \<Rightarrow> bool" where
  "policy_holds tenant row p = (case tenant of None \<Rightarrow> False | Some u \<Rightarrow> map_of row (snd p) = Some (V_Uuid u))"

text \<open>
  The policies have one expression for both: the rows a statement can see, and the rows it can leave
  behind.
\<close>

definition row_visible :: "db_role \<Rightarrow> uuid option \<Rightarrow> table_def \<Rightarrow> sql_row \<Rightarrow> bool" where
  "row_visible role tenant d row \<longleftrightarrow> (restricted role d \<longrightarrow> list_ex (policy_holds tenant row) (tb_policies d))"

definition select_rows :: "db_role \<Rightarrow> uuid option \<Rightarrow> table_def \<Rightarrow> sql_row list \<Rightarrow> sql_row list" where
  "select_rows role tenant d rows = filter (row_visible role tenant d) rows"

definition insert_row :: "db_role \<Rightarrow> uuid option \<Rightarrow> table_def \<Rightarrow> sql_row \<Rightarrow> sql_row list \<Rightarrow> sql_row list option" where
  "insert_row role tenant d row rows =
     (if takes d row \<and> row_visible role tenant d row then Some (rows @ [row]) else None)"

text \<open>
  An update changes the rows that are seen and chosen; it fails if one of the new rows is not taken or
  may not be left behind, or if a trigger forbids it.
\<close>

definition update_rows ::
  "db_role \<Rightarrow> uuid option \<Rightarrow> table_def \<Rightarrow> (sql_row \<Rightarrow> bool) \<Rightarrow> (sql_row \<Rightarrow> sql_row) \<Rightarrow> sql_row list \<Rightarrow>
     sql_row list option" where
  "update_rows role tenant d chosen f rows =
     (let hit = (\<lambda>row. row_visible role tenant d row \<and> chosen row) in
      if list_ex hit rows \<and> tb_triggers d \<noteq> []
          \<or> \<not> list_all (\<lambda>row. hit row \<longrightarrow> takes d (f row) \<and> row_visible role tenant d (f row)) rows then None
      else Some (map (\<lambda>row. if hit row then f row else row) rows))"

definition delete_rows ::
  "db_role \<Rightarrow> uuid option \<Rightarrow> table_def \<Rightarrow> (sql_row \<Rightarrow> bool) \<Rightarrow> sql_row list \<Rightarrow> sql_row list option" where
  "delete_rows role tenant d chosen rows =
     (let hit = (\<lambda>row. row_visible role tenant d row \<and> chosen row) in
      if list_ex hit rows \<and> tb_triggers d \<noteq> [] then None else Some (filter (\<lambda>row. \<not> hit row) rows))"

section \<open>Tenants\<close>

definition shared_tables :: "table_name list" where
  "shared_tables = [Outbox_Messages, Workspace_Tenant_Index, User_Customer_Index]"

definition of_tenant :: "uuid option \<Rightarrow> sql_row \<Rightarrow> bool" where
  "of_tenant tenant row = (case tenant of None \<Rightarrow> False | Some u \<Rightarrow> map_of row ''customer_id'' = Some (V_Uuid u))"

lemma tenant_tables:
  assumes "has_column ''customer_id'' (head_schema t)" "t \<notin> set shared_tables"
  shows "tb_rls (head_schema t)" "tb_forced (head_schema t)"
    "tb_policies (head_schema t) = [(''tenant_isolation'', ''customer_id'')]"
  using assms by (cases t; simp add: has_column_def shared_tables_def)+

lemma row_visible_tenant:
  assumes "has_column ''customer_id'' (head_schema t)" "t \<notin> set shared_tables" "\<not> rol_super role" "\<not> rol_bypass_rls role"
  shows "row_visible role tenant (head_schema t) row = of_tenant tenant row"
  using assms(3,4) tenant_tables [OF assms(1,2)]
  by (simp add: row_visible_def restricted_def policy_holds_def of_tenant_def split: option.split)

lemma others_after_update:
  assumes "list_all (\<lambda>r. P r \<and> chosen r \<longrightarrow> takes d (f r) \<and> P (f r)) rows"
  shows "filter (\<lambda>r. \<not> P r) (map (\<lambda>r. if P r \<and> chosen r then f r else r) rows) = filter (\<lambda>r. \<not> P r) rows"
  using assms by (induction rows) auto

lemma others_after_delete:
  "filter (\<lambda>r. \<not> P r) (filter (\<lambda>r. P r \<longrightarrow> \<not> chosen r) rows) = filter (\<lambda>r. \<not> P r) rows"
  by (induction rows) auto

text \<open>
  C6: in every table that says whose its rows are, but the three that are read before the tenant is known,
  a session of any role that is no superuser and has no \<open>BYPASSRLS\<close>, the owner of the tables
  included, sees exactly the rows of the tenant it has set and none
  if it has set none; what it inserts, changes or deletes are rows of this tenant that stay its own, and the
  rows of every other tenant are afterwards what they were.
\<close>

theorem tenants_are_isolated:
  assumes "run_ddl (upgrades history) empty_catalog = Some c" "ct_tables c t = Some d"
    "has_column ''customer_id'' d" "t \<notin> set shared_tables" "\<not> rol_super role" "\<not> rol_bypass_rls role"
  shows "select_rows role tenant d rows = filter (of_tenant tenant) rows
    \<and> (insert_row role tenant d row rows = Some after_insert \<longrightarrow> of_tenant tenant row)
    \<and> (update_rows role tenant d chosen f rows = Some after_update \<longrightarrow>
         filter (\<lambda>r. \<not> of_tenant tenant r) after_update = filter (\<lambda>r. \<not> of_tenant tenant r) rows)
    \<and> (delete_rows role tenant d chosen rows = Some after_delete \<longrightarrow>
         filter (\<lambda>r. \<not> of_tenant tenant r) after_delete = filter (\<lambda>r. \<not> of_tenant tenant r) rows)"
proof -
  have d: "d = head_schema t" using assms(1,2) head_is_reached(1) by (auto simp: head_catalog_def)
  have seen: "row_visible role tenant d = of_tenant tenant"
    unfolding d by (rule ext, rule row_visible_tenant) (use assms(3-6) d in simp_all)
  show ?thesis
    by (auto simp: select_rows_def insert_row_def update_rows_def delete_rows_def Let_def seen
        intro: others_after_update others_after_delete split: if_splits)
qed

text \<open>
  The role of the application, as \<open>infra/postgres-init\<close> creates it (\<open>NOSUPERUSER NOBYPASSRLS\<close>, the
  tables belong to another role), and why it must be so.
\<close>

definition app_role :: db_role where
  "app_role = \<lparr>rol_super = False, rol_bypass_rls = False, rol_owner = False\<rparr>"

lemma bypassing_role_sees_all:
  "rol_super role \<or> rol_bypass_rls role \<Longrightarrow> select_rows role tenant d rows = rows"
  by (auto simp: select_rows_def row_visible_def restricted_def)

theorem tenants_are_isolated_witness:
  "select_rows app_role (Some 7) (head_schema Audit_Chain_Tips)
     [audit_chain_tip_values 7 None, audit_chain_tip_values 8 (Some ''h'')] = [audit_chain_tip_values 7 None]
   \<and> select_rows (app_role\<lparr>rol_owner := True\<rparr>) (Some 7) (head_schema Audit_Chain_Tips)
     [audit_chain_tip_values 7 None, audit_chain_tip_values 8 (Some ''h'')] = [audit_chain_tip_values 7 None]"
proof -
  have here: "ct_tables head_catalog Audit_Chain_Tips = Some (head_schema Audit_Chain_Tips)"
    "has_column ''customer_id'' (head_schema Audit_Chain_Tips)" "Audit_Chain_Tips \<notin> set shared_tables"
    by (simp_all add: head_catalog_def has_column_def shared_tables_def)
  note seen = tenants_are_isolated [OF head_is_reached(1) here, THEN conjunct1]
  have "\<not> rol_super app_role" "\<not> rol_bypass_rls app_role"
    "\<not> rol_super (app_role\<lparr>rol_owner := True\<rparr>)" "\<not> rol_bypass_rls (app_role\<lparr>rol_owner := True\<rparr>)"
    by (simp_all add: app_role_def)
  then show ?thesis
    by (simp add: seen of_tenant_def audit_chain_tip_values_def del: head_schema.simps)
qed

section \<open>What the services see\<close>

text \<open>
  The services' models ask for the rows of a customer where the code relies on the policy: that is
  what a session of the tenant selects.
\<close>

lemma selected_tasks:
  assumes "\<not> rol_super role" "\<not> rol_bypass_rls role"
  shows "select_rows role (Some u) (head_schema Task_Tasks) (map task_values ts) =
    map task_values (filter (\<lambda>t. tsk_customer_id t = u) ts)"
proof -
  have "row_visible role (Some u) (head_schema Task_Tasks) = of_tenant (Some u)"
    by (rule ext, rule row_visible_tenant [OF _ _ assms(1,2)]) (simp_all add: has_column_def shared_tables_def)
  then show ?thesis
    by (simp add: select_rows_def filter_map comp_def of_tenant_def task_values_def del: head_schema.simps)
qed

section \<open>Rows that stay\<close>

definition append_only :: "table_name list" where
  "append_only = [Audit_Events, Task_Decisions, Workspace_Language_Settings]"

lemma append_only_triggers: "tb_triggers (head_schema t) \<noteq> [] \<longleftrightarrow> t \<in> set append_only"
  by (cases t) (simp_all add: append_only_def)

text \<open>Whoever asks, a superuser too: no row of these tables is changed or deleted.\<close>

lemma append_only_tables:
  assumes "t \<in> set append_only"
  shows "update_rows role tenant (head_schema t) chosen f rows \<in> {None, Some rows}"
    "delete_rows role tenant (head_schema t) chosen rows \<in> {None, Some rows}"
  using assms
  by (auto simp: update_rows_def delete_rows_def Let_def append_only_triggers list_ex_iff
      simp del: head_schema.simps intro!: map_idI filter_True)

end
