(* ===== verification/Backfills.thy ===== *)
theory Backfills
  imports Audit_Log Workspaces
begin

text \<open>
  The rows the migrations copy when they introduce a table beside one that already has rows
  (\<open>migrations/versions\<close> 0004, 0005 and 0011): the tables the services have to be in step with from then on.
\<close>

section \<open>The back-fills\<close>

text \<open>\<open>INSERT ... ON CONFLICT (key) DO NOTHING\<close>, into a table that is a map.\<close>

definition insert_missing :: "'k \<Rightarrow> 'v \<Rightarrow> ('k \<rightharpoonup> 'v) \<Rightarrow> 'k \<rightharpoonup> 'v" where
  "insert_missing k v m = (if m k = None then m(k \<mapsto> v) else m)"

definition backfill_workspace_tenant_index :: "db \<Rightarrow> db" where
  "backfill_workspace_tenant_index s =
     s\<lparr>workspace_tenant_index :=
        fold (\<lambda>w. insert_missing (ws_id w) (ws_customer_id w)) (workspace_workspaces s) (workspace_tenant_index s)\<rparr>"

text \<open>\<open>DISTINCT ON (customer_id) ... ORDER BY customer_id, created_at DESC\<close>.\<close>

definition newest_event :: "uuid \<Rightarrow> audit_event_row list \<Rightarrow> audit_event_row" where
  "newest_event c events = last (sort_key ae_created_at (filter (\<lambda>e. ae_customer_id e = c) events))"

definition backfill_audit_chain_tips :: "db \<Rightarrow> db" where
  "backfill_audit_chain_tips s =
     s\<lparr>audit_chain_tips :=
        fold (\<lambda>c. insert_missing c (Some (ae_hash (newest_event c (audit_events s)))))
          (remdups (map ae_customer_id (audit_events s))) (audit_chain_tips s)\<rparr>"

definition backfill_user_customer_index :: "db \<Rightarrow> db" where
  "backfill_user_customer_index s =
     s\<lparr>user_customer_index :=
        user_customer_index s
        @ filter (\<lambda>p. p \<notin> set (user_customer_index s)) (remdups (map index_pair (customer_memberships s)))\<rparr>"

section \<open>What they leave\<close>

lemma fold_insert_missing:
  "fold (\<lambda>x. insert_missing (key x) (val x)) xs m k =
     (case m k of Some v \<Rightarrow> Some v | None \<Rightarrow> map_option val (tget key k xs))"
  by (induction xs arbitrary: m) (auto simp: insert_missing_def split: option.split)

lemma backfilled_workspace_tenant_index:
  "workspace_tenant_index (backfill_workspace_tenant_index (s\<lparr>workspace_tenant_index := Map.empty\<rparr>))
     = (\<lambda>w. map_option ws_customer_id (tget ws_id w (workspace_workspaces s)))"
  by (rule ext) (simp add: backfill_workspace_tenant_index_def fold_insert_missing)

lemma tget_id: "tget (\<lambda>c. c) c cs = (if c \<in> set cs then Some c else None)"
  by (induction cs) auto

lemma newest_event_log:
  assumes "audit_inv s"
  shows "newest_event c (audit_events s) = last (customer_log c s)"
proof -
  have "sorted_wrt (<) (map ae_created_at (customer_log c s))"
    using assms by (auto simp: audit_inv_def customer_log_def sorted_wrt_map sorted_wrt_filter)
  then have "sorted (map ae_created_at (customer_log c s))"
    by (rule strict_sorted_imp_sorted)
  then show ?thesis
    by (simp add: newest_event_def sorted_sort_id sort_key_id_if_sorted flip: customer_log_def)
qed

lemma backfilled_tip_hash:
  assumes "audit_inv s"
  shows "tip_hash (backfill_audit_chain_tips (s\<lparr>audit_chain_tips := Map.empty\<rparr>)) c = tip_hash s c"
proof -
  have "audit_chain_tips (backfill_audit_chain_tips (s\<lparr>audit_chain_tips := Map.empty\<rparr>)) c =
      (if c \<in> ae_customer_id ` set (audit_events s) then Some (Some (ae_hash (last (customer_log c s)))) else None)"
    using fold_insert_missing [of "\<lambda>c. c" "\<lambda>c. Some (ae_hash (newest_event c (audit_events s)))"
        "remdups (map ae_customer_id (audit_events s))" Map.empty c]
    by (simp add: backfill_audit_chain_tips_def tget_id newest_event_log [OF assms])
  moreover have "customer_log c s = [] \<longleftrightarrow> c \<notin> ae_customer_id ` set (audit_events s)"
    by (auto simp: customer_log_def filter_empty_conv)
  moreover have "last_hash None (customer_log c s) = tip_hash s c"
    using assms by (simp add: audit_inv_def)
  ultimately show ?thesis by (auto simp: tip_hash_def last_hash_def split: if_splits)
qed

text \<open>
  C38: each back-fill brings its table in step with the one it is made from.  From a database
  in which the services' invariants hold, but which had lost the index of workspaces, the index of
  customers or the tips of the audit chains, it makes one in which they hold again.
\<close>

theorem backfills_restore_invariants:
  assumes "membership_inv s" "audit_inv s"
  shows "membership_inv (backfill_workspace_tenant_index (s\<lparr>workspace_tenant_index := Map.empty\<rparr>))
    \<and> membership_inv (backfill_user_customer_index (s\<lparr>user_customer_index := []\<rparr>))
    \<and> audit_inv (backfill_audit_chain_tips (s\<lparr>audit_chain_tips := Map.empty\<rparr>))"
proof (intro conjI)
  let ?w = "backfill_workspace_tenant_index (s\<lparr>workspace_tenant_index := Map.empty\<rparr>)"
  have same: "workspace_tenant_index ?w = workspace_tenant_index s"
    using assms(1) by (simp add: backfilled_workspace_tenant_index membership_inv_def)
  have "?w = s\<lparr>workspace_tenant_index := workspace_tenant_index ?w\<rparr>"
    by (simp add: backfill_workspace_tenant_index_def)
  then have "?w = s" by (simp only: same) simp
  with assms(1) show "membership_inv ?w" by simp
  show "membership_inv (backfill_user_customer_index (s\<lparr>user_customer_index := []\<rparr>))"
    using assms(1)
    by (auto simp: membership_inv_def backfill_user_customer_index_def memberships_unique_def
        memberships_in_tenant_def issued_def in_customer_def)
  let ?a = "backfill_audit_chain_tips (s\<lparr>audit_chain_tips := Map.empty\<rparr>)"
  have "clock ?a = clock s" "ticks ?a = ticks s" "sha256 ?a = sha256 s" "audit_events ?a = audit_events s"
    by (simp_all add: backfill_audit_chain_tips_def)
  with assms(2) show "audit_inv ?a"
    by (simp add: audit_inv_def customer_log_def backfilled_tip_hash [OF assms(2)])
qed

lemma sample_log_members: "membership_inv (sample_log n)"
proof -
  have "same_members empty_db (fold append_request rs empty_db)" for rs
    by (induction rs rule: rev_induct)
      (simp_all add: same_members_def append_request_def effect)
  then show ?thesis
    unfolding sample_log_def
    by (rule membership_inv_same [OF membership_inv_initial, rotated]) (simp add: no_members_def inj_def)
qed

theorem backfills_restore_invariants_witness:
  "membership_inv (backfill_workspace_tenant_index (sample_log 2\<lparr>workspace_tenant_index := Map.empty\<rparr>))
    \<and> membership_inv (backfill_user_customer_index (sample_log 2\<lparr>user_customer_index := []\<rparr>))
    \<and> audit_inv (backfill_audit_chain_tips (sample_log 2\<lparr>audit_chain_tips := Map.empty\<rparr>))"
  by (rule backfills_restore_invariants [OF sample_log_members audit_inv_sample])

end
