(* ===== verification/Seeds.thy ===== *)
theory Seeds
  imports Workspaces Action_System
begin

text \<open>
  The rows the scripts put into the database before they drive the running back end: the demo data of
  \<open>backend/scripts/seed_e2e_demo.py\<close>, the workspace of the evaluation (\<open>run_ai_eval_suite.py\<close>) and the
  sessions of the chat load test (\<open>load_test_ai_chat.py\<close>).  They insert members without the services.
\<close>

section \<open>Rows\<close>

definition seed_user :: "string \<Rightarrow> db \<Rightarrow> user_row \<times> db" where
  "seed_user display_name s =
     (let (subject, s1) = uuid4 s;
          (new_id, created, s2) = row_defaults s1;
          u = \<lparr>usr_id = new_id, usr_created_at = created, usr_oidc_subject_hash = uuid_str subject,
               usr_display_name = display_name\<rparr>
      in (u, s2\<lparr>identity_users := identity_users s2 @ [u]\<rparr>))"

definition seed_customer :: "uuid \<Rightarrow> string \<Rightarrow> db \<Rightarrow> db" where
  "seed_customer customer_id name s =
     (let (created, s1) = utcnow s
      in s1\<lparr>customer_customers := customer_customers s1
             @ [\<lparr>cus_id = customer_id, cus_created_at = created, cus_name = name\<rparr>]\<rparr>)"

definition seed_customer_membership :: "uuid \<Rightarrow> uuid \<Rightarrow> string \<Rightarrow> db \<Rightarrow> customer_membership_row \<times> db" where
  "seed_customer_membership customer_id user_id role s =
     (let (new_id, created, s1) = row_defaults s;
          m = \<lparr>cm_id = new_id, cm_created_at = created, cm_customer_id = customer_id, cm_user_id = user_id,
               cm_role = role\<rparr>
      in (m, s1\<lparr>customer_memberships := customer_memberships s1 @ [m]\<rparr>))"

definition seed_index :: "uuid \<Rightarrow> uuid \<Rightarrow> db \<Rightarrow> db" where
  "seed_index user_id customer_id s =
     s\<lparr>user_customer_index := user_customer_index s @ [(user_id, customer_id)]\<rparr>"

definition seed_workspace_membership :: "uuid \<Rightarrow> uuid \<Rightarrow> uuid \<Rightarrow> string \<Rightarrow> db \<Rightarrow> db" where
  "seed_workspace_membership customer_id customer_membership_id workspace_id role s =
     (let (new_id, created, s1) = row_defaults s
      in s1\<lparr>workspace_memberships := workspace_memberships s1
             @ [\<lparr>wm_id = new_id, wm_created_at = created, wm_customer_id = customer_id,
                 wm_customer_membership_id = customer_membership_id, wm_workspace_id = workspace_id,
                 wm_role = role\<rparr>]\<rparr>)"

text \<open>
  What the three scripts begin with: a user, a customer it belongs to in a role, and a workspace it
  administers.  Only the demo data enters the user in the index of customers.
\<close>

definition seed_tenant ::
  "uuid \<Rightarrow> string \<Rightarrow> string \<Rightarrow> string \<Rightarrow> bool \<Rightarrow> string \<Rightarrow> db \<Rightarrow> (user_row \<times> workspace_row) \<times> db" where
  "seed_tenant customer_id user_name customer_name role indexed workspace_name s =
     (let (u, s1) = seed_user user_name s;
          s2 = seed_customer customer_id customer_name s1;
          (m, s3) = seed_customer_membership customer_id (usr_id u) role s2;
          s4 = (if indexed then seed_index (usr_id u) customer_id s3 else s3);
          (w, s5) = create_workspace customer_id workspace_name ''system:provisioning'' s4;
          s6 = seed_workspace_membership customer_id (cm_id m) (ws_id w) ''workspace_admin'' s5
      in ((u, w), s6))"

section \<open>The scripts\<close>

record demo =
  dm_session_id :: uuid
  dm_workspace_id :: uuid
  dm_customer_id :: uuid
  dm_second_user_id :: uuid
  dm_auditor_session_id :: uuid

text \<open>
  One transaction: the tenant with an action that waits for its approval, then a user who is no member
  yet, and an auditor of the customer.
\<close>

definition seed_others :: "uuid \<Rightarrow> db \<Rightarrow> (uuid \<times> uuid) \<times> db" where
  "seed_others customer_id s =
     (let (invitee, s1) = seed_user ''Second User'' s;
          (auditor, s2) = seed_user ''Audit Reviewer'' s1;
          (m, s3) = seed_customer_membership customer_id (usr_id auditor) ''auditor'' s2;
          s4 = seed_index (usr_id auditor) customer_id s3;
          (session_record, s5) = create_session (usr_id auditor) AAL1 None s4
      in ((usr_id invitee, ses_id session_record), s5))"

definition seed_e2e_demo :: "db \<Rightarrow> (app_error + demo) \<times> db" where
  "seed_e2e_demo s0 =
     (let (customer_id, s0) = uuid4 s0 in
      run_tx (\<lambda>s.
        let ((owner, workspace), s1) = seed_tenant customer_id ''Demo User'' ''Demo Customer'' ''customer_owner'' True ''Demo Workspace'' s;
            (session_record, s2) = create_session (usr_id owner) AAL2 None s1;
            (trace_id, s3) = uuid4 s2;
            (key, s4) = uuid4 s3
        in bind_err (propose_action customer_id (ws_id workspace) trace_id (user_actor (usr_id owner)) ''send_email'' R3
               (JObj [(''to'', JStr ''demo@example.com'')]) (uuid_str key) None s4) (\<lambda>(action, created) s5.
           bind_err (submit_action_for_execution action (user_actor (usr_id owner)) s5) (\<lambda>submitted s6.
             let ((second_user_id, auditor_session_id), s7) = seed_others customer_id s6
             in ok \<lparr>dm_session_id = ses_id session_record, dm_workspace_id = ws_id workspace,
                     dm_customer_id = customer_id, dm_second_user_id = second_user_id,
                     dm_auditor_session_id = auditor_session_id\<rparr> s7))) s0)"

definition seed_eval_workspace :: "db \<Rightarrow> (uuid \<times> workspace_context) \<times> db" where
  "seed_eval_workspace s =
     (let (customer_id, s1) = uuid4 s;
          ((u, w), s2) = seed_tenant customer_id ''Eval Harness User'' ''AI Eval Harness Customer'' ''customer_owner'' False
            ''AI Eval Harness Workspace'' s1;
          (new_id, created, s3) = row_defaults s2;
          task = \<lparr>tsk_id = new_id, tsk_created_at = created, tsk_customer_id = customer_id, tsk_workspace_id = ws_id w,
            tsk_owner_id = user_actor (usr_id u), tsk_title = ''Oylik hisobotni yuborish'', tsk_parent_task_id = None,
            tsk_status = T_TODO, tsk_due_date = None\<rparr>
      in ((customer_id, \<lparr>wc_customer_id = customer_id, wc_workspace_id = ws_id w, wc_user_id = usr_id u, wc_role = WR_ADMIN\<rparr>),
          s3\<lparr>task_tasks := task_tasks s3 @ [task]\<rparr>))"

definition seed_one_customer_session :: "db \<Rightarrow> (uuid \<times> uuid) \<times> db" where
  "seed_one_customer_session s =
     (let (customer_id, s1) = uuid4 s;
          ((u, w), s2) = seed_tenant customer_id ''Load Test User'' ''Load Test Customer'' ''member'' False ''Load Test Workspace'' s1;
          (session_record, s3) = create_session (usr_id u) AAL1 None s2
      in ((ses_id session_record, ws_id w), s3))"

section \<open>What they leave\<close>

lemmas seed_rows = seed_user_def seed_customer_def seed_customer_membership_def seed_index_def
  seed_workspace_membership_def utcnow_def uuid4_def row_defaults_def Let_def

text \<open>The demo data keeps the invariant of members, and is found by the jobs.\<close>

lemma seed_user_same:
  "same_members s (snd (seed_user name s))" "uuid_src (snd (seed_user name s)) = uuid_src s"
  "drawn (snd (seed_user name s)) = Suc (Suc (drawn s))"
  by (simp_all add: seed_rows same_members_def)

lemma in_customer_same: "same_members s t \<Longrightarrow> in_customer c t = in_customer c s"
  by (simp add: in_customer_def same_members_def)

text \<open>The members of a customer are users whose identifiers were drawn.\<close>

definition known_members :: "uuid \<Rightarrow> db \<Rightarrow> bool" where
  "known_members c s \<longleftrightarrow> (\<forall>m \<in> set (customer_memberships s). cm_customer_id m = c \<longrightarrow> cm_user_id m \<in> issued s)"

lemma known_members_same: "same_members s t \<Longrightarrow> known_members c s \<Longrightarrow> known_members c t"
  using issued_mono [of t s] by (auto simp: known_members_def same_members_def)

text \<open>A member and its entry in the index, of a customer that is there.\<close>

lemma seed_member_inv:
  assumes inv: "membership_inv s" and c: "in_customer c s" and u: "(c, u) \<notin> member_key ` set (customer_memberships s)"
  shows "membership_inv (seed_index u c (snd (seed_customer_membership c u role s)))"
proof (rule membership_inv_join [OF inv, of "fst (seed_customer_membership c u role s)"])
  show "distinct (map cus_id (customer_customers (seed_index u c (snd (seed_customer_membership c u role s)))))"
    using inv by (simp add: membership_inv_def seed_rows)
qed (use c u in \<open>simp_all add: seed_rows member_key_def index_pair_def in_customer_def\<close>)

lemma no_member_yet:
  assumes "membership_inv s" "\<not> in_customer c s"
  shows "(c, u) \<notin> member_key ` set (customer_memberships s)"
  using assms by (auto simp: membership_inv_def member_key_def)

lemma seed_owner_inv:
  assumes inv: "membership_inv s" and new: "\<not> in_customer c s"
  shows "membership_inv (seed_index u c (snd (seed_customer_membership c u role (seed_customer c name s))))"
proof (rule membership_inv_join [OF inv, of "fst (seed_customer_membership c u role (seed_customer c name s))"])
  show "distinct (map cus_id (customer_customers
      (seed_index u c (snd (seed_customer_membership c u role (seed_customer c name s))))))"
    using inv new by (simp add: membership_inv_def seed_rows in_customer_def)
  show "member_key (fst (seed_customer_membership c u role (seed_customer c name s))) \<notin> member_key ` set (customer_memberships s)"
    using no_member_yet [OF inv new] by (simp add: seed_rows member_key_def)
qed (simp_all add: seed_rows index_pair_def in_customer_def)

lemma seed_tenant_inv:
  assumes inv: "membership_inv s" and new: "\<not> in_customer c s"
    and t: "seed_tenant c user_name customer_name role True workspace_name s = ((u, w), t)"
  shows "membership_inv t" "in_customer c t" "(usr_id u, c) \<in> set (user_customer_index t)"
    "known_members c t"
proof -
  let ?s1 = "snd (seed_user user_name s)"
  let ?u = "fst (seed_user user_name s)"
  let ?m = "fst (seed_customer_membership c (usr_id ?u) role (seed_customer c customer_name ?s1))"
  let ?s4 = "seed_index (usr_id ?u) c (snd (seed_customer_membership c (usr_id ?u) role (seed_customer c customer_name ?s1)))"
  let ?w = "fst (create_workspace c workspace_name ''system:provisioning'' ?s4)"
  let ?s5 = "snd (create_workspace c workspace_name ''system:provisioning'' ?s4)"
  have res: "u = ?u" "w = ?w" "t = seed_workspace_membership c (cm_id ?m) (ws_id ?w) ''workspace_admin'' ?s5"
    using t by (simp_all add: seed_tenant_def Let_def split: prod.splits)
  have inv1: "membership_inv ?s1" by (rule membership_inv_same [OF inv seed_user_same(1)])
  have new1: "\<not> in_customer c ?s1" using new by (simp add: in_customer_same [OF seed_user_same(1)])
  have inv4: "membership_inv ?s4" by (rule seed_owner_inv [OF inv1 new1])
  have inv5: "membership_inv ?s5" by (rule membership_inv_new_workspace [OF inv4])
  have rows5: "customer_memberships ?s5 = customer_memberships ?s1 @ [?m]"
    "workspace_memberships ?s5 = workspace_memberships ?s1" "workspace_workspaces ?s5 = workspace_workspaces ?s4 @ [?w]"
    "user_customer_index ?s5 = user_customer_index ?s1 @ [(usr_id ?u, c)]"
    "cus_id ` set (customer_customers ?s5) = insert c (cus_id ` set (customer_customers ?s1))"
    "cm_customer_id ?m = c" "ws_customer_id ?w = c" "cm_id ?m = uuid_src ?s1 (drawn ?s1)"
    "uuid_src ?s5 = uuid_src s" "drawn ?s1 < drawn ?s5" "uuid_src ?s1 = uuid_src s"
    by (simp_all add: create_workspace_def seed_rows effect)
  have "wm_customer_membership_id ` set (workspace_memberships ?s1) \<subseteq> issued ?s1" "inj (uuid_src ?s1)"
    using inv1 by (simp_all add: membership_inv_def)
  then have fresh: "(cm_id ?m, ws_id ?w) \<notin> workspace_member_key ` set (workspace_memberships ?s5)"
    using next_not_issued [of ?s1] by (auto simp: rows5(2,8) workspace_member_key_def)
  have "cm_id ?m \<in> issued ?s5"
    using rows5(8-11) by (auto simp: issued_def)
  moreover have "r = ?m" if "r \<in> set (customer_memberships ?s5)" "cm_id r = cm_id ?m" for r
    using inv5 that unique_by_key [of cm_id "customer_memberships ?s5" r ?m]
    by (auto simp: membership_inv_def memberships_unique_def rows5(1))
  moreover have "\<exists>x. ?m = r\<lparr>cm_role := x\<rparr>" if "r = ?m" for r
    unfolding that by (rule exI [of _ "cm_role ?m"]) simp
  ultimately have m: "loaded_member ?m ?s5"
    unfolding loaded_member_def by blast
  have w: "loaded_workspace ?w ?s5"
    unfolding loaded_workspace_def rows5(3)
    by (intro bexI [of _ ?w] exI [of _ "ws_archived_at ?w"]) simp_all
  show "membership_inv t"
    by (rule membership_inv_staff [OF inv5 w m _ fresh, where r = WR_ADMIN])
      (simp_all add: res(3) rows5(6,7) seed_workspace_membership_def row_defaults_def Let_def workspace_member_key_def)
  show "in_customer c t" "(usr_id u, c) \<in> set (user_customer_index t)"
    by (simp_all add: res in_customer_def rows5 seed_workspace_membership_def row_defaults_def Let_def)
  have "cm_user_id ?m \<in> issued t" "issued ?s5 \<subseteq> issued t" "customer_memberships t = customer_memberships ?s5"
    using rows5(9-11)
    by (auto simp: res seed_workspace_membership_def seed_customer_membership_def seed_user_def uuid4_def row_defaults_def
        Let_def issued_def create_workspace_def seed_rows effect)
  moreover have "cm_customer_id m \<noteq> c" if "m \<in> set (customer_memberships ?s1)" for m
    using inv1 new1 that by (auto simp: membership_inv_def)
  ultimately show "known_members c t" by (auto simp: known_members_def rows5(1))
qed

lemma same_members_transition: "apply_transition a target who receipt s = (Inr b, t) \<Longrightarrow> same_members s t"
  by (auto simp: apply_transition_ok_iff same_members_def effect intro: order_trans [OF _ drawn_mono(3)])

lemma same_members_trans: "same_members s t \<Longrightarrow> same_members t u \<Longrightarrow> same_members s u"
  by (simp add: same_members_def)

lemma same_members_propose: "propose_action c w tr who tool risk payload key task s = (Inr r, t) \<Longrightarrow> same_members s t"
  by (auto simp: propose_action_def row_defaults_def Let_def ok_def raise_def same_members_def effect
      split: option.splits)

lemma same_members_submit:
  assumes "submit_action_for_execution a who s = (Inr r, t)"
  shows "same_members s t"
proof -
  obtain b u where valid: "validate_action a who s = (Inr b, u)"
    and rest: "same_members u t"
    using assms
    by (auto simp: submit_action_for_execution_def bind_err_def request_approval_def row_defaults_def utcnow_def
        token_urlsafe_def Let_def ok_def raise_def same_members_def split: prod.splits sum.splits if_splits)
  have "same_members s u"
    using valid
    by (auto simp: validate_action_def bind_err_def ok_def split: prod.splits sum.splits if_splits
        dest!: same_members_transition intro: same_members_trans)
      (auto simp: same_members_def intro: order_trans [OF _ drawn_mono(4)])
  with rest show ?thesis by (rule same_members_trans [rotated])
qed

lemma same_members_session: "same_members s (snd (create_session u strength agent s))"
  by (simp add: create_session_def row_defaults_def utcnow_def Let_def same_members_def)

lemma seed_others_inv:
  assumes inv: "membership_inv s" and c: "in_customer c s" and k: "known_members c s"
  shows "membership_inv (snd (seed_others c s))"
    "set (user_customer_index s) \<subseteq> set (user_customer_index (snd (seed_others c s)))"
proof -
  let ?s1 = "snd (seed_user ''Second User'' s)"
  let ?s2 = "snd (seed_user ''Audit Reviewer'' ?s1)"
  let ?a = "usr_id (fst (seed_user ''Audit Reviewer'' ?s1))"
  let ?s4 = "seed_index ?a c (snd (seed_customer_membership c ?a ''auditor'' ?s2))"
  have same: "same_members s ?s1" "same_members ?s1 ?s2" by (rule seed_user_same)+
  have inv2: "membership_inv ?s2" by (rule membership_inv_same [OF membership_inv_same [OF inv same(1)] same(2)])
  have c2: "in_customer c ?s2" using c by (simp add: in_customer_same [OF same(2)] in_customer_same [OF same(1)])
  have "inj (uuid_src s)" using inv by (simp add: membership_inv_def)
  then have "?a \<notin> issued ?s1" by (auto simp: seed_rows issued_def inj_eq)
  then have "(c, ?a) \<notin> member_key ` set (customer_memberships ?s2)"
    using known_members_same [OF same(1) k] same(2) by (auto simp: known_members_def member_key_def same_members_def)
  from seed_member_inv [OF inv2 c2 this] have inv4: "membership_inv ?s4" .
  have res: "snd (seed_others c s) = snd (create_session ?a AAL1 None ?s4)"
    by (simp add: seed_others_def Let_def split: prod.split)
  show "membership_inv (snd (seed_others c s))"
    unfolding res by (rule membership_inv_same [OF inv4 same_members_session])
  show "set (user_customer_index s) \<subseteq> set (user_customer_index (snd (seed_others c s)))"
    using same same_members_session [of ?s4 ?a AAL1 None]
    by (auto simp: res same_members_def seed_index_def seed_rows)
qed

text \<open>
  The demo data is as the services would have left it: the invariant of customers, workspaces and their
  members holds, and the jobs find the customer.
\<close>

theorem demo_data_keeps_members:
  assumes inv: "membership_inv s" and new: "\<not> in_customer (uuid_src s (drawn s)) s"
    and d: "seed_e2e_demo s = (Inr d, t)"
  shows "membership_inv t" "dm_customer_id d \<in> set (list_all_customer_ids t)"
proof -
  let ?c = "uuid_src s (drawn s)"
  let ?s0 = "snd (uuid4 s)"
  have same0: "same_members s ?s0" by (simp add: uuid4_def same_members_def)
  obtain u w s1 where tenant: "seed_tenant ?c ''Demo User'' ''Demo Customer'' ''customer_owner'' True ''Demo Workspace'' ?s0
      = ((u, w), s1)" by (metis prod.collapse)
  let ?s2 = "snd (create_session (usr_id u) AAL2 None s1)"
  let ?s4 = "snd (uuid4 (snd (uuid4 ?s2)))"
  have d': "dm_customer_id d = ?c" and "\<exists>s6. same_members ?s4 s6 \<and> t = snd (seed_others ?c s6)"
    using d
    by (auto simp: seed_e2e_demo_def uuid4_def tenant [unfolded uuid4_def, simplified] Let_def bind_err_def ok_def
        split: prod.splits sum.splits
        intro: same_members_trans [OF same_members_propose same_members_submit])
  then obtain s6 where s6: "same_members ?s4 s6" "t = snd (seed_others ?c s6)" by blast
  note T = seed_tenant_inv [OF membership_inv_same [OF inv same0] _ tenant]
  have "same_members s1 ?s4"
    by (rule same_members_trans [OF same_members_session [of s1 "usr_id u" AAL2 None]])
      (simp add: uuid4_def same_members_def)
  then have to6: "same_members s1 s6" by (rule same_members_trans [OF _ s6(1)])
  have new0: "\<not> in_customer ?c ?s0" using new by (simp add: in_customer_same [OF same0])
  have at6: "membership_inv s6" "in_customer ?c s6" "known_members ?c s6"
    using T [OF new0] membership_inv_same [OF _ to6] known_members_same [OF to6] in_customer_same [OF to6] by auto
  show "membership_inv t" unfolding s6(2) by (rule seed_others_inv(1) [OF at6])
  have "(usr_id u, ?c) \<in> set (user_customer_index s6)"
    using T(3) [OF new0] to6 by (simp add: same_members_def)
  then have "(usr_id u, ?c) \<in> set (user_customer_index t)"
    using seed_others_inv(2) [OF at6] by (auto simp: s6(2))
  then show "dm_customer_id d \<in> set (list_all_customer_ids t)"
    by (force simp: d' list_all_customer_ids_def)
qed

text \<open>
  The other two scripts leave out the index: their customers are there, with members and audit events,
  and no job that goes through all customers ever looks at them.
\<close>

lemma seed_tenant_index:
  "user_customer_index (snd (seed_tenant c user_name customer_name role False workspace_name s)) = user_customer_index s"
  by (simp add: seed_tenant_def create_workspace_def seed_rows effect split: prod.split)

theorem seeded_customers_are_not_listed:
  "list_all_customer_ids (snd (seed_eval_workspace s)) = list_all_customer_ids s"
  "list_all_customer_ids (snd (seed_one_customer_session s)) = list_all_customer_ids s"
  by (simp_all add: seed_eval_workspace_def seed_one_customer_session_def create_session_def row_defaults_def uuid4_def
      utcnow_def list_all_customer_ids_def Let_def split_beta seed_tenant_index)

end
