(* ===== verification/Load_Tests.thy ===== *)
theory Load_Tests
  imports Complex_Main
begin

text \<open>
  What the load tests \<open>backend/scripts/load_test_api.py\<close> and \<open>load_test_ai_chat.py\<close> make of the
  times they measured.  Times are rationals, in milliseconds; what a server answered and when is not
  under src/ and is the argument.
\<close>

section \<open>The percentile\<close>

text \<open>
  The cut point \<open>i\<close> of \<open>statistics.quantiles(data, n=100)\<close>, method \<open>exclusive\<close>: it interpolates between
  two neighbours, and beyond the last two where the data are few.  With less than two points it raises.
\<close>

definition quantile :: "nat \<Rightarrow> rat list \<Rightarrow> rat option" where
  "quantile i samples =
     (let xs = sort samples; ld = length xs; m = ld + 1;
          j = (if i * m div 100 < 1 then 1 else if ld - 1 < i * m div 100 then ld - 1 else i * m div 100);
          delta = int (i * m) - int (j * 100)
      in if ld < 2 then None
         else Some ((xs ! (j - 1) * of_int (100 - delta) + xs ! j * of_int delta) / 100))"

definition p95 :: "rat list \<Rightarrow> rat option" where
  "p95 samples = quantile 95 samples"

definition chat_p95 :: "rat list \<Rightarrow> rat" where
  "chat_p95 samples = (if 1 < length samples then the (quantile 95 samples) else samples ! 0)"

section \<open>Verdicts\<close>

definition read_endpoints :: "string list" where
  "read_endpoints =
     [''/v1/me/workspaces'', ''/v1/workspaces/{workspace_id}/tasks'', ''/v1/workspaces/{workspace_id}/actions'',
      ''/v1/workspaces/{workspace_id}/notifications'', ''/v1/workspaces/{workspace_id}/audit'']"

text \<open>The test of the API passes if every endpoint does; a percentile that cannot be had ends the script.\<close>

fun api_main :: "(string \<Rightarrow> rat list) \<Rightarrow> string list \<Rightarrow> bool option" where
  "api_main samples [] = Some True"
| "api_main samples (path # paths) =
     (case p95 (samples path) of
        None \<Rightarrow> None
      | Some p \<Rightarrow> map_option (\<lambda>all_passed. p < 500 \<and> all_passed) (api_main samples paths))"

definition chat_main :: "rat \<Rightarrow> rat list \<Rightarrow> bool" where
  "chat_main baseline samples = (chat_p95 samples < 8000 \<and> chat_p95 samples < baseline * 3)"

section \<open>Bounds\<close>

lemma between:
  fixes a b w :: rat
  assumes "a \<le> b" "0 \<le> w" "w \<le> 100"
  shows "a \<le> (a * (100 - w) + b * w) / 100" "(a * (100 - w) + b * w) / 100 \<le> b"
proof -
  have "0 \<le> (b - a) * w" "0 \<le> (b - a) * (100 - w)" using assms by simp_all
  then show "a \<le> (a * (100 - w) + b * w) / 100" "(a * (100 - w) + b * w) / 100 \<le> b"
    by (simp_all add: field_simps)
qed

text \<open>
  From twenty samples on, the percentile lies between two of them that follow each other, the later one
  with at most a twentieth of the samples after it.
\<close>

theorem p95_between:
  assumes "20 \<le> length samples"
  shows "\<exists>p j. p95 samples = Some p \<and> 1 \<le> j \<and> j < length samples \<and> j = 95 * (length samples + 1) div 100
    \<and> sort samples ! (j - 1) \<le> p \<and> p \<le> sort samples ! j"
proof -
  let ?n = "length samples"
  define j where "j = 95 * (?n + 1) div 100"
  have j: "1 \<le> j" "j \<le> ?n - 1" "100 * j \<le> 95 * (?n + 1)" "95 * (?n + 1) < 100 * j + 100"
    using assms by (simp_all add: j_def)
  let ?w = "rat_of_int (int (95 * (?n + 1)) - int (j * 100))"
  have w: "0 \<le> ?w" "?w \<le> 100" using j(3,4) by linarith+
  have le: "sort samples ! (j - 1) \<le> sort samples ! j"
    using j(1,2) assms by (intro sorted_nth_mono) auto
  have "p95 samples = Some ((sort samples ! (j - 1) * (100 - ?w) + sort samples ! j * ?w) / 100)"
  proof -
    have "(if 95 * (?n + 1) div 100 < 1 then 1
        else if ?n - 1 < 95 * (?n + 1) div 100 then ?n - 1 else 95 * (?n + 1) div 100) = j"
      using j(1,2) by (simp only: flip: j_def) simp
    moreover have "\<not> ?n < 2" using assms by simp
    ultimately show ?thesis
      by (simp only: p95_def quantile_def Let_def length_sort if_False of_int_diff of_int_numeral)
  qed
  moreover have "j < ?n" using j(2) assms by linarith
  ultimately show ?thesis using between [OF le w] j(1) j_def by blast
qed

text \<open>With fewer samples it may lie beyond all of them: two times under the limit can fail the test.\<close>

theorem few_samples_fail:
  "p95 [300, 420] = Some 522" "api_main (\<lambda>_. [300, 420]) read_endpoints = Some False"
  by (simp_all add: p95_def quantile_def read_endpoints_def Let_def)

end
