(* ===== verification/Routes.thy ===== *)
theory Routes
  imports Main
begin

text \<open>
  The routes of the HTTP API as \<open>create_app\<close> of \<open>doda/main.py\<close> mounts them: for each its method, its
  path, its handler and the context it depends on (\<open>api/dependencies.py\<close>), and which of them a request
  is given to.  The pages FastAPI adds on its own and the metrics, whose handlers are not the program's,
  are among them.  Left out are the redirect of a path that ends in a slash, the preflight requests
  (\<open>OPTIONS\<close>) that the CORS middleware answers before any route, and \<open>HEAD\<close>, which the pages take like
  \<open>GET\<close>.
\<close>

section \<open>Routes\<close>

datatype http_method = GET | POST | PATCH | PUT | DELETE

datatype segment = Lit string | Par string

text \<open>
  The dependency of a handler: none, \<open>get_current_identity\<close>, \<open>get_request_context\<close>, the same for an
  archived workspace, \<open>get_customer_request_context\<close>.
\<close>

datatype access = Open | Session_Only | Workspace_Member | Workspace_Even_Archived | Customer_Member

record route =
  rt_method :: http_method
  rt_path :: "segment list"
  rt_handler :: string
  rt_access :: access

definition route_of :: "http_method \<Rightarrow> segment list \<Rightarrow> string \<Rightarrow> access \<Rightarrow> route" where
  "route_of m path handler a = \<lparr>rt_method = m, rt_path = path, rt_handler = handler, rt_access = a\<rparr>"

definition health_routes :: "route list" where
  "health_routes =
     [route_of GET [Lit ''v1'', Lit ''healthz''] ''healthz'' Open]"

definition auth_routes :: "route list" where
  "auth_routes =
     [route_of GET [Lit ''v1'', Lit ''auth'', Lit ''google'', Lit ''login''] ''start_google_login'' Open,
      route_of GET [Lit ''v1'', Lit ''auth'', Lit ''google'', Lit ''callback''] ''google_login_callback'' Open]"

definition actions_routes :: "route list" where
  "actions_routes =
     [route_of POST [Lit ''v1'', Lit ''workspaces'', Par ''workspace_id'', Lit ''actions''] ''propose_and_submit_action'' Workspace_Member,
      route_of GET [Lit ''v1'', Lit ''workspaces'', Par ''workspace_id'', Lit ''actions'', Par ''action_id''] ''get_action'' Workspace_Member,
      route_of GET [Lit ''v1'', Lit ''workspaces'', Par ''workspace_id'', Lit ''actions''] ''list_workspace_actions'' Workspace_Member,
      route_of POST [Lit ''v1'', Lit ''workspaces'', Par ''workspace_id'', Lit ''approvals'', Par ''approval_id'', Lit ''consume''] ''consume_action_approval'' Workspace_Member,
      route_of POST [Lit ''v1'', Lit ''workspaces'', Par ''workspace_id'', Lit ''actions'', Par ''action_id'', Lit ''cancel''] ''cancel_action'' Workspace_Member,
      route_of POST [Lit ''v1'', Lit ''workspaces'', Par ''workspace_id'', Lit ''actions'', Par ''action_id'', Lit ''compensate'', Lit ''complete''] ''complete_action_compensation'' Workspace_Member]"

definition tasks_routes :: "route list" where
  "tasks_routes =
     [route_of POST [Lit ''v1'', Lit ''workspaces'', Par ''workspace_id'', Lit ''tasks''] ''create_workspace_task'' Workspace_Member,
      route_of GET [Lit ''v1'', Lit ''workspaces'', Par ''workspace_id'', Lit ''tasks''] ''list_workspace_tasks'' Workspace_Member,
      route_of GET [Lit ''v1'', Lit ''workspaces'', Par ''workspace_id'', Lit ''tasks'', Lit ''plan''] ''get_workspace_task_plan'' Workspace_Member,
      route_of GET [Lit ''v1'', Lit ''workspaces'', Par ''workspace_id'', Lit ''tasks'', Par ''task_id''] ''get_task'' Workspace_Member,
      route_of POST [Lit ''v1'', Lit ''workspaces'', Par ''workspace_id'', Lit ''tasks'', Par ''task_id'', Lit ''status''] ''change_workspace_task_status'' Workspace_Member,
      route_of GET [Lit ''v1'', Lit ''workspaces'', Par ''workspace_id'', Lit ''tasks'', Par ''task_id'', Lit ''history''] ''get_task_history'' Workspace_Member,
      route_of POST [Lit ''v1'', Lit ''workspaces'', Par ''workspace_id'', Lit ''tasks'', Par ''task_id'', Lit ''decisions''] ''record_workspace_task_decision'' Workspace_Member,
      route_of GET [Lit ''v1'', Lit ''workspaces'', Par ''workspace_id'', Lit ''tasks'', Par ''task_id'', Lit ''decisions''] ''get_task_decisions'' Workspace_Member,
      route_of POST [Lit ''v1'', Lit ''workspaces'', Par ''workspace_id'', Lit ''tasks'', Par ''task_id'', Lit ''reminders''] ''request_task_reminder'' Workspace_Member,
      route_of GET [Lit ''v1'', Lit ''workspaces'', Par ''workspace_id'', Lit ''tasks'', Par ''task_id'', Lit ''reminders''] ''get_task_reminders'' Workspace_Member,
      route_of POST [Lit ''v1'', Lit ''workspaces'', Par ''workspace_id'', Lit ''tasks'', Par ''task_id'', Lit ''reminders'', Par ''reminder_id'', Lit ''confirm''] ''confirm_task_reminder'' Workspace_Member,
      route_of POST [Lit ''v1'', Lit ''workspaces'', Par ''workspace_id'', Lit ''tasks'', Par ''task_id'', Lit ''reminders'', Par ''reminder_id'', Lit ''cancel''] ''cancel_task_reminder'' Workspace_Member]"

definition conversations_routes :: "route list" where
  "conversations_routes =
     [route_of POST [Lit ''v1'', Lit ''workspaces'', Par ''workspace_id'', Lit ''conversations''] ''create_conversation'' Workspace_Member,
      route_of GET [Lit ''v1'', Lit ''workspaces'', Par ''workspace_id'', Lit ''conversations''] ''list_workspace_conversations'' Workspace_Member,
      route_of GET [Lit ''v1'', Lit ''workspaces'', Par ''workspace_id'', Lit ''conversations'', Lit ''search''] ''search_workspace_conversations'' Workspace_Member,
      route_of GET [Lit ''v1'', Lit ''workspaces'', Par ''workspace_id'', Lit ''conversations'', Par ''conversation_id'', Lit ''messages''] ''list_conversation_messages'' Workspace_Member,
      route_of POST [Lit ''v1'', Lit ''workspaces'', Par ''workspace_id'', Lit ''conversations'', Par ''conversation_id'', Lit ''provider''] ''switch_provider'' Workspace_Member,
      route_of POST [Lit ''v1'', Lit ''workspaces'', Par ''workspace_id'', Lit ''conversations'', Par ''conversation_id'', Lit ''language''] ''switch_language'' Workspace_Member,
      route_of POST [Lit ''v1'', Lit ''workspaces'', Par ''workspace_id'', Lit ''conversations'', Par ''conversation_id'', Lit ''messages''] ''post_conversation_message'' Workspace_Member]"

definition workspace_admin_routes :: "route list" where
  "workspace_admin_routes =
     [route_of POST [Lit ''v1'', Lit ''workspaces'', Par ''workspace_id'', Lit ''members''] ''add_member'' Workspace_Member,
      route_of GET [Lit ''v1'', Lit ''workspaces'', Par ''workspace_id'', Lit ''members''] ''list_members'' Workspace_Member,
      route_of PATCH [Lit ''v1'', Lit ''workspaces'', Par ''workspace_id'', Lit ''members'', Par ''membership_id''] ''change_member_role'' Workspace_Member,
      route_of DELETE [Lit ''v1'', Lit ''workspaces'', Par ''workspace_id'', Lit ''members'', Par ''membership_id''] ''remove_member'' Workspace_Member,
      route_of POST [Lit ''v1'', Lit ''workspaces'', Par ''workspace_id'', Lit ''archive''] ''archive_current_workspace'' Workspace_Member,
      route_of POST [Lit ''v1'', Lit ''workspaces'', Par ''workspace_id'', Lit ''restore''] ''restore_current_workspace'' Workspace_Even_Archived,
      route_of GET [Lit ''v1'', Lit ''workspaces'', Par ''workspace_id'', Lit ''language-setting''] ''get_current_workspace_language'' Workspace_Member,
      route_of PUT [Lit ''v1'', Lit ''workspaces'', Par ''workspace_id'', Lit ''language-setting''] ''set_current_workspace_language'' Workspace_Member]"

definition customer_admin_routes :: "route list" where
  "customer_admin_routes =
     [route_of POST [Lit ''v1'', Lit ''customers'', Par ''customer_id'', Lit ''members''] ''invite_member'' Customer_Member,
      route_of GET [Lit ''v1'', Lit ''customers'', Par ''customer_id'', Lit ''members''] ''list_members'' Customer_Member,
      route_of PATCH [Lit ''v1'', Lit ''customers'', Par ''customer_id'', Lit ''members'', Par ''membership_id''] ''change_member_role'' Customer_Member,
      route_of DELETE [Lit ''v1'', Lit ''customers'', Par ''customer_id'', Lit ''members'', Par ''membership_id''] ''remove_member'' Customer_Member,
      route_of GET [Lit ''v1'', Lit ''customers'', Par ''customer_id'', Lit ''workspaces'', Lit ''archived''] ''list_archived'' Customer_Member]"

definition kill_switch_routes :: "route list" where
  "kill_switch_routes =
     [route_of GET [Lit ''v1'', Lit ''workspaces'', Par ''workspace_id'', Lit ''kill-switch''] ''get_workspace_kill_switch'' Workspace_Member,
      route_of GET [Lit ''v1'', Lit ''customers'', Par ''customer_id'', Lit ''kill-switch''] ''get_customer_kill_switch'' Customer_Member,
      route_of POST [Lit ''v1'', Lit ''workspaces'', Par ''workspace_id'', Lit ''kill-switch'', Lit ''engage''] ''engage_workspace'' Workspace_Member,
      route_of POST [Lit ''v1'', Lit ''workspaces'', Par ''workspace_id'', Lit ''kill-switch'', Lit ''disengage''] ''disengage_workspace'' Workspace_Member,
      route_of POST [Lit ''v1'', Lit ''customers'', Par ''customer_id'', Lit ''kill-switch'', Lit ''engage''] ''engage_customer'' Customer_Member,
      route_of POST [Lit ''v1'', Lit ''customers'', Par ''customer_id'', Lit ''kill-switch'', Lit ''disengage''] ''disengage_customer'' Customer_Member]"

definition audit_routes :: "route list" where
  "audit_routes =
     [route_of GET [Lit ''v1'', Lit ''workspaces'', Par ''workspace_id'', Lit ''audit''] ''list_workspace_audit'' Workspace_Member,
      route_of GET [Lit ''v1'', Lit ''customers'', Par ''customer_id'', Lit ''audit''] ''list_customer_audit'' Customer_Member,
      route_of GET [Lit ''v1'', Lit ''customers'', Par ''customer_id'', Lit ''audit'', Lit ''verify''] ''verify_customer_audit_chain'' Customer_Member,
      route_of GET [Lit ''v1'', Lit ''customers'', Par ''customer_id'', Lit ''audit'', Lit ''evidence-package''] ''get_customer_audit_evidence_package'' Customer_Member]"

definition notifications_routes :: "route list" where
  "notifications_routes =
     [route_of GET [Lit ''v1'', Lit ''workspaces'', Par ''workspace_id'', Lit ''notifications''] ''list_my_notifications'' Workspace_Member,
      route_of POST [Lit ''v1'', Lit ''workspaces'', Par ''workspace_id'', Lit ''notifications'', Par ''notification_id'', Lit ''read''] ''mark_read'' Workspace_Member,
      route_of GET [Lit ''v1'', Lit ''customers'', Par ''customer_id'', Lit ''notification-preferences''] ''list_my_notification_preferences'' Customer_Member,
      route_of PUT [Lit ''v1'', Lit ''customers'', Par ''customer_id'', Lit ''notification-preferences'', Par ''notification_type''] ''set_my_notification_preference'' Customer_Member,
      route_of GET [Lit ''v1'', Lit ''customers'', Par ''customer_id'', Lit ''notifications''] ''list_my_notifications_across_workspaces'' Customer_Member,
      route_of POST [Lit ''v1'', Lit ''customers'', Par ''customer_id'', Lit ''notifications'', Par ''notification_id'', Lit ''read''] ''mark_read_across_workspaces'' Customer_Member]"

definition sessions_routes :: "route list" where
  "sessions_routes =
     [route_of GET [Lit ''v1'', Lit ''sessions''] ''list_my_sessions'' Session_Only,
      route_of DELETE [Lit ''v1'', Lit ''sessions'', Par ''session_id''] ''revoke_my_session'' Session_Only]"

definition me_routes :: "route list" where
  "me_routes =
     [route_of GET [Lit ''v1'', Lit ''me'', Lit ''workspaces''] ''list_my_workspaces_endpoint'' Session_Only,
      route_of GET [Lit ''v1'', Lit ''me'', Lit ''customers''] ''list_my_customers_endpoint'' Session_Only,
      route_of GET [Lit ''v1'', Lit ''me'', Lit ''export''] ''export_my_data_endpoint'' Session_Only]"

definition ai_settings_routes :: "route list" where
  "ai_settings_routes =
     [route_of GET [Lit ''v1'', Lit ''customers'', Par ''customer_id'', Lit ''ai-providers''] ''list_provider_statuses'' Customer_Member,
      route_of PUT [Lit ''v1'', Lit ''customers'', Par ''customer_id'', Lit ''ai-providers'', Par ''provider'', Lit ''enabled''] ''set_provider_enabled'' Customer_Member,
      route_of POST [Lit ''v1'', Lit ''customers'', Par ''customer_id'', Lit ''ai-providers'', Par ''provider'', Lit ''test-connection''] ''test_provider_connection'' Customer_Member,
      route_of GET [Lit ''v1'', Lit ''customers'', Par ''customer_id'', Lit ''ai-fallback''] ''get_fallback_setting'' Customer_Member,
      route_of PUT [Lit ''v1'', Lit ''customers'', Par ''customer_id'', Lit ''ai-fallback''] ''set_fallback_setting'' Customer_Member,
      route_of GET [Lit ''v1'', Lit ''customers'', Par ''customer_id'', Lit ''ai-budget''] ''get_ai_budget_status'' Customer_Member,
      route_of GET [Lit ''v1'', Lit ''customers'', Par ''customer_id'', Lit ''ai-usage-report''] ''get_ai_usage_report'' Customer_Member,
      route_of GET [Lit ''v1'', Lit ''customers'', Par ''customer_id'', Lit ''me'', Lit ''ai-preference''] ''get_my_ai_preference'' Customer_Member,
      route_of PUT [Lit ''v1'', Lit ''customers'', Par ''customer_id'', Lit ''me'', Lit ''ai-preference''] ''set_my_ai_preference'' Customer_Member,
      route_of DELETE [Lit ''v1'', Lit ''customers'', Par ''customer_id'', Lit ''me'', Lit ''ai-preference''] ''clear_my_ai_preference'' Customer_Member,
      route_of GET [Lit ''v1'', Lit ''workspaces'', Par ''workspace_id'', Lit ''ai-preference''] ''get_workspace_ai_preference'' Workspace_Member,
      route_of PUT [Lit ''v1'', Lit ''workspaces'', Par ''workspace_id'', Lit ''ai-preference''] ''set_workspace_ai_preference'' Workspace_Member,
      route_of DELETE [Lit ''v1'', Lit ''workspaces'', Par ''workspace_id'', Lit ''ai-preference''] ''clear_workspace_ai_preference'' Workspace_Member]"

text \<open>In the order in which the routers are included.\<close>

text \<open>The pages that \<open>FastAPI(\<dots>)\<close> mounts unless it is told not to, and \<open>/metrics\<close>, mounted last.\<close>

definition fastapi_pages :: "route list" where
  "fastapi_pages =
     [route_of GET [Lit ''openapi.json''] ''openapi'' Open,
      route_of GET [Lit ''docs''] ''swagger_ui_html'' Open,
      route_of GET [Lit ''docs'', Lit ''oauth2-redirect''] ''swagger_ui_redirect'' Open,
      route_of GET [Lit ''redoc''] ''redoc_html'' Open]"

definition metrics_routes :: "route list" where
  "metrics_routes =
     [route_of GET [Lit ''metrics''] ''metrics'' Open]"

definition app_routes :: "route list" where
  "app_routes =
     fastapi_pages @ health_routes @ auth_routes @ actions_routes @ tasks_routes @ conversations_routes @ workspace_admin_routes @
     customer_admin_routes @ kill_switch_routes @ audit_routes @ notifications_routes @ sessions_routes @ me_routes @
     ai_settings_routes @ metrics_routes"

section \<open>Dispatch\<close>

text \<open>A parameter of a path takes one segment that is not empty.\<close>

fun path_matches :: "segment list \<Rightarrow> string list \<Rightarrow> bool" where
  "path_matches [] [] = True"
| "path_matches (Lit s # p) (x # xs) = (s = x \<and> path_matches p xs)"
| "path_matches (Par n # p) (x # xs) = (x \<noteq> [] \<and> path_matches p xs)"
| "path_matches _ _ = False"

datatype dispatched = Found route | Method_Not_Allowed | Not_Found

text \<open>The first route that takes path and method; with one that takes the path only, a 405.\<close>

definition dispatch :: "route list \<Rightarrow> http_method \<Rightarrow> string list \<Rightarrow> dispatched" where
  "dispatch routes m path =
     (case filter (\<lambda>r. path_matches (rt_path r) path) routes of
        [] \<Rightarrow> Not_Found
      | here \<Rightarrow> (case find (\<lambda>r. rt_method r = m) here of None \<Rightarrow> Method_Not_Allowed | Some r \<Rightarrow> Found r))"

lemma dispatch_Found:
  assumes "dispatch routes m path = Found r"
  shows "r \<in> set routes" "rt_method r = m" "path_matches (rt_path r) path"
proof -
  have "find (\<lambda>r. rt_method r = m) (filter (\<lambda>r. path_matches (rt_path r) path) routes) = Some r"
    using assms by (auto simp: dispatch_def split: list.splits option.splits)
  then show "r \<in> set routes" "rt_method r = m" "path_matches (rt_path r) path"
    by (auto simp: find_Some_iff in_set_conv_nth dest!: nth_mem)
qed

section \<open>Who may call what\<close>

text \<open>The paths that are answered without a session.\<close>

definition open_paths :: "string list list" where
  "open_paths =
     [[''openapi.json''], [''docs''], [''docs'', ''oauth2-redirect''], [''redoc''], [''v1'', ''healthz''],
      [''v1'', ''auth'', ''google'', ''login''], [''v1'', ''auth'', ''google'', ''callback''], [''metrics'']]"

text \<open>What the beginning of another path says about the context its handler has to have.\<close>

fun guarded_path :: "access \<Rightarrow> segment list \<Rightarrow> bool" where
  "guarded_path x (Lit v # Lit a # rest) \<longleftrightarrow>
     v = ''v1'' \<and>
     (if a = ''workspaces'' then x \<in> {Workspace_Member, Workspace_Even_Archived} \<and> take 1 rest = [Par ''workspace_id'']
      else if a = ''customers'' then x = Customer_Member \<and> take 1 rest = [Par ''customer_id'']
      else (a = ''sessions'' \<or> a = ''me'') \<and> x = Session_Only)"
| "guarded_path x _ \<longleftrightarrow> False"

definition guarded :: "route \<Rightarrow> bool" where
  "guarded r \<longleftrightarrow>
     (if rt_access r = Open then list_ex (\<lambda>p. rt_path r = map Lit p) open_paths
      else guarded_path (rt_access r) (rt_path r))"

lemma all_guarded: "list_all guarded app_routes"
  by code_simp

lemma literal_path: "path_matches (map Lit p) xs \<longleftrightarrow> xs = p"
proof (induction p arbitrary: xs)
  case Nil
  show ?case by (cases xs) simp_all
next
  case (Cons s p)
  then show ?case by (cases xs) auto
qed

text \<open>
  C7: whatever a client asks for, it is answered without a session exactly on the health check, the two
  endpoints of the sign-in, the metrics and the four pages of FastAPI; what is under a workspace has a
  handler that asks for a role in that workspace, what is under a customer one that asks for a
  membership of that customer, and what is left asks for a session and is the user's own.
\<close>

theorem requests_meet_a_guard:
  assumes "dispatch app_routes m path = Found r"
  shows "(rt_access r = Open \<longleftrightarrow> path \<in> set open_paths)
    \<and> (take 2 path = [''v1'', ''workspaces''] \<longrightarrow>
         rt_access r \<in> {Workspace_Member, Workspace_Even_Archived} \<and> rt_path r ! 2 = Par ''workspace_id'')
    \<and> (take 2 path = [''v1'', ''customers''] \<longrightarrow>
         rt_access r = Customer_Member \<and> rt_path r ! 2 = Par ''customer_id'')
    \<and> (path \<notin> set open_paths \<and> take 2 path \<noteq> [''v1'', ''workspaces''] \<and> take 2 path \<noteq> [''v1'', ''customers''] \<longrightarrow>
         rt_access r = Session_Only \<and> take 2 path \<in> {[''v1'', ''sessions''], [''v1'', ''me'']})"
proof -
  from dispatch_Found [OF assms] all_guarded have r: "guarded r" "path_matches (rt_path r) path"
    by (auto simp: list_all_iff)
  show ?thesis
  proof (cases "rt_access r = Open")
    case True
    with r(1) obtain p where "p \<in> set open_paths" "rt_path r = map Lit p"
      by (auto simp: guarded_def list_ex_iff)
    with r(2) have "path \<in> set open_paths" by (simp add: literal_path)
    moreover from this have "take 2 path \<noteq> [''v1'', ''workspaces'']" "take 2 path \<noteq> [''v1'', ''customers'']"
      by (auto simp: open_paths_def)
    ultimately show ?thesis using True by simp
  next
    case False
    with r(1) have g: "guarded_path (rt_access r) (rt_path r)" by (simp add: guarded_def)
    then obtain a rest where path: "rt_path r = Lit ''v1'' # Lit a # rest"
      by (elim guarded_path.elims) auto
    from r(2) path obtain xs where xs: "path = ''v1'' # a # xs" "path_matches rest xs"
      by (cases path; cases "tl path") auto
    have "a \<in> {''workspaces'', ''customers'', ''sessions'', ''me''}"
      using g path by (auto split: if_splits)
    then have "path \<notin> set open_paths" by (auto simp: open_paths_def xs(1))
    with g path xs False show ?thesis
      by (cases rest; cases xs) (auto split: if_splits)
  qed
qed

theorem requests_meet_a_guard_witness:
  "rt_access (tasks_routes ! 2) \<in> {Workspace_Member, Workspace_Even_Archived} \<and> rt_path (tasks_routes ! 2) ! 2 = Par ''workspace_id''
   \<and> dispatch app_routes GET [''metrics''] = Found (hd metrics_routes) \<and> rt_access (hd metrics_routes) = Open"
proof -
  have "dispatch app_routes GET [''v1'', ''workspaces'', ''7'', ''tasks'', ''plan''] = Found (tasks_routes ! 2)"
    by code_simp
  from requests_meet_a_guard [OF this] have "rt_access (tasks_routes ! 2) \<in> {Workspace_Member, Workspace_Even_Archived}
      \<and> rt_path (tasks_routes ! 2) ! 2 = Par ''workspace_id''" by simp
  moreover have metrics: "dispatch app_routes GET [''metrics''] = Found (hd metrics_routes)" by code_simp
  from requests_meet_a_guard [OF this] have "rt_access (hd metrics_routes) = Open" by (simp add: open_paths_def)
  ultimately show ?thesis using metrics by blast
qed

section \<open>No route hides another\<close>

text \<open>The path of a request to a route, its parameters filled in.\<close>

definition fill :: "(string \<Rightarrow> string) \<Rightarrow> segment list \<Rightarrow> string list" where
  "fill f p = map (case_segment (\<lambda>s. s) f) p"

primrec literals :: "segment list \<Rightarrow> string list" where
  "literals [] = []"
| "literals (s # p) = (case s of Lit x \<Rightarrow> x # literals p | Par n \<Rightarrow> literals p)"

definition app_literals :: "string list" where
  "app_literals = concat (map (literals \<circ> rt_path) app_routes)"

text \<open>Whether a path with other values in its parameters than literals of the first is never taken by it.\<close>

fun apart :: "segment list \<Rightarrow> segment list \<Rightarrow> bool" where
  "apart [] [] = False"
| "apart (Lit a # p) (Lit b # q) = (if a = b then apart p q else True)"
| "apart (Par n # p) (s # q) = apart p q"
| "apart _ _ = True"

fun unhidden :: "route list \<Rightarrow> bool" where
  "unhidden [] = True"
| "unhidden (r # rs) =
     (list_all (\<lambda>q. if rt_method q \<noteq> rt_method r then True
                     else if length (rt_path q) \<noteq> length (rt_path r) then True
                     else apart (rt_path r) (rt_path q)) rs
      \<and> unhidden rs)"

lemma fill_matches:
  assumes "\<And>n. f n \<noteq> []"
  shows "path_matches p (fill f p)"
  using assms by (induction p) (auto simp: fill_def split: segment.split)

lemma apart_differs:
  assumes "apart p q" "\<And>n. f n \<notin> set (literals p)"
  shows "\<not> path_matches p (fill f q)"
  using assms by (induction p q rule: apart.induct) (auto simp: fill_def split: if_splits)

lemma path_matches_length: "path_matches p xs \<Longrightarrow> length xs = length p"
  by (induction p xs rule: path_matches.induct) auto

lemma first_is_found:
  assumes "r \<in> set rs" "unhidden rs" "\<And>q n. q \<in> set rs \<Longrightarrow> f n \<notin> set (literals (rt_path q))" "\<And>n. f n \<noteq> []"
  shows "find (\<lambda>q. rt_method q = rt_method r) (filter (\<lambda>q. path_matches (rt_path q) (fill f (rt_path r))) rs) = Some r"
  using assms(1-3)
proof (induction rs)
  case (Cons q rs)
  show ?case
  proof (cases "q = r")
    case True
    with fill_matches [OF assms(4)] show ?thesis by simp
  next
    case False
    with Cons.prems have r: "r \<in> set rs" "unhidden rs" by auto
    have "\<not> (path_matches (rt_path q) (fill f (rt_path r)) \<and> rt_method q = rt_method r)"
    proof (cases "rt_method q = rt_method r \<and> length (rt_path q) = length (rt_path r)")
      case True
      with Cons.prems(2) r(1) have "apart (rt_path q) (rt_path r)" by (force simp: list_all_iff split: if_splits)
      moreover have "f n \<notin> set (literals (rt_path q))" for n using Cons.prems(3) by simp
      ultimately show ?thesis using apart_differs by blast
    next
      case False
      then show ?thesis using path_matches_length by (fastforce simp: fill_def)
    qed
    with Cons.IH [OF r] Cons.prems(3) show ?thesis by auto
  qed
qed simp

lemma app_unhidden: "unhidden app_routes"
  by code_simp

text \<open>
  Every route of the program is reached: a request with its method, to its path with any values in the
  parameters that are not words of the API themselves, is given to it and to no route before it.
\<close>

theorem routes_are_reached:
  assumes "r \<in> set app_routes" "\<And>n. f n \<noteq> []" "\<And>n. f n \<notin> set app_literals"
  shows "dispatch app_routes (rt_method r) (fill f (rt_path r)) = Found r"
proof -
  have words: "f n \<notin> set (literals (rt_path q))" if "q \<in> set app_routes" for q n
    using assms(3) that by (auto simp: app_literals_def)
  let ?here = "filter (\<lambda>q. path_matches (rt_path q) (fill f (rt_path r))) app_routes"
  have found: "find (\<lambda>q. rt_method q = rt_method r) ?here = Some r"
    by (rule first_is_found [OF assms(1) app_unhidden words assms(2)])
  show ?thesis
  proof (cases ?here)
    case Nil
    with found show ?thesis by simp
  next
    case (Cons q qs)
    with found show ?thesis by (simp add: dispatch_def)
  qed
qed

end
