(* ===== verification/Spec2Isabelle.thy ===== *)
theory Spec2Isabelle
  imports Action_System Outbox_Relay Telegram Workspaces Me_Api Jobs Login Chat_Api
    Gateway_Turns Trace_System Delivery Ops_Scripts Row_Security Backfills
    Seeds Load_Tests Routes
begin

text \<open>
  DODA is a multi-tenant assistant back end (Python, FastAPI and SQLAlchemy over
  PostgreSQL, with Redis, Google sign-in, Telegram and several language model providers
  behind it). This development models the core of the back end under
  \<open>src/backend/src/doda\<close>: what it keeps in the database, the services of \<open>application/\<close> that
  change it, the HTTP handlers of \<open>api/\<close> that reach them, and the workers of
  \<open>infrastructure/\<close> that act on what was committed.

  \<^bold>\<open>How the parts interact.\<close> A request arrives with a bearer session (\<open>api/dependencies.py\<close>), is given
  a context that names its customer, workspace, user and role (\<open>application/authz_service.py\<close>),
  and runs one service function in one database transaction (\<open>db.py\<close>); a raised error rolls the
  transaction back and is turned into a response by \<open>api/errors.py\<close>. Every service that changes
  something writes an audit event (\<open>application/audit_service.py\<close>) whose hash continues the
  chain of its customer. A proposed action goes through \<open>application/action_service.py\<close>:
  proposal, validation against the risk policy, approval bound to the hash of its payload, and
  the ready message in the outbox; the outbox relay copies outbox messages to a Redis stream,
  and the Telegram relay executes what the stream delivers, possibly more than once. Two kill
  switches (per workspace and per customer) block proposals and executions.

  \<^bold>\<open>Theories and sources.\<close>
  \<^item> \<open>Prelude\<close>: fallible state-passing operations (\<open>ok\<close>, \<open>raise\<close>, \<open>bind_err\<close>, \<open>require\<close>,
    \<open>each_err\<close>), the operations of a table, decimal identifiers, and the rewrite collections
    \<open>frame\<close> and \<open>effect\<close>.
  \<^item> \<open>Json\<close>: \<open>application/hashing.py\<close>; canonical text is injective on canonical values.
  \<^item> \<open>Schema\<close>: the mapped classes of \<open>domain/\<close> as records, the enumerations as datatypes, the
    database \<open>db\<close> as one record of tables together with the clock, the source of identifiers
    and of tokens, and SHA-256 as fields that no operation assigns.
  \<^item> \<open>Errors\<close>: the exceptions as one datatype, \<open>api/errors.py\<close> and \<open>ai/errors.py\<close> as responses.
  \<^item> \<open>Runtime\<close>: \<open>db.py\<close>'s transaction (\<open>run_tx\<close>: commit on success, roll back on a raise),
    default columns of a new row (\<open>domain/base.py\<close>), \<open>LIMIT\<close>.
  \<^item> \<open>Audit_Log\<close>: \<open>application/audit_service.py\<close> and \<open>audit_query_service.py\<close>.
  \<^item> \<open>Access\<close>: \<open>application/authz_service.py\<close> and \<open>domain/security/roles.py\<close>.
  \<^item> \<open>Sessions\<close>: \<open>application/session_service.py\<close> and \<open>identity_service.py\<close>.
  \<^item> \<open>Interfaces\<close>: the locales by which components are used: \<open>setting_store\<close> (what a lookup
    returns after an upsert), \<open>audited_operation\<close> and its extensions (the trail only grows),
    \<open>tenant_guard\<close> (a handler's row lookup), \<open>state_machine\<close> and \<open>invariant_system\<close> (what every
    step keeps). Each is interpreted in the theory of the component that provides it.
  \<^item> \<open>Notifications\<close>, \<open>Kill_Switch\<close>: the services of those names.
  \<^item> \<open>Action_Policy\<close>: \<open>domain/action/state_machine.py\<close> and \<open>tool_policy.py\<close>; \<open>Actions\<close>:
    \<open>application/action_service.py\<close> and \<open>outbox_service.py\<close>; \<open>Action_System\<close>: the interleaved runs
    of its operations, each one transaction, and what holds in every reachable state.
  \<^item> \<open>Api_Context\<close>, \<open>Actions_Api\<close>: \<open>api/dependencies.py\<close>, \<open>api/actions.py\<close>.
  \<^item> \<open>Outbox_Relay\<close>: \<open>infrastructure/outbox_relay.py\<close> and the Redis stream; \<open>Telegram\<close>:
    \<open>infrastructure/telegram_client.py\<close> and \<open>telegram_relay.py\<close>: one entry
    sequentially, and any number of workers interleaved; \<open>Delivery\<close>: the polling loops of both, with
    the consumer group, and the way of a ready action from its outbox row to its execution.
  \<^item> \<open>Customers\<close>, \<open>Workspaces\<close>, \<open>Members_Api\<close>: the customer and workspace services and their
    routes; \<open>Tasks\<close>, \<open>Tasks_Api\<close>: tasks, their history, decisions and reminders.
  \<^item> \<open>Tenant_Api\<close>, \<open>Me_Api\<close>: the routes of kill switches, notifications, audit, the user's own
    sessions and data, and the trace middleware; \<open>Login\<close>: the Google client, the sign-in
    service and its routes; \<open>Jobs\<close>: the operational jobs that read or fire what is stored.
  \<^item> \<open>Ai_Settings\<close>: the neutral types of \<open>ai/\<close> (\<open>types.py\<close>, \<open>port.py\<close>, \<open>factory.py\<close>,
    \<open>capabilities.py\<close>), \<open>infrastructure/ai_pricing.py\<close>, the provider preferences and the
    provider switches with the fallback and the connection test
    (\<open>application/ai_preference_service.py\<close>, \<open>ai_provider_settings_service.py\<close>).
  \<^item> \<open>Ai_Budget\<close>: \<open>application/ai_budget_service.py\<close>, with the civil calendar that its months are
    computed in, and the system of interleaved reservations and reconciliations, in the month of the reservation or later.
  \<^item> \<open>Ai_Text\<close>: \<open>ai/outbound_guard.py\<close> and \<open>ai/language.py\<close>; \<open>Ai_Tools\<close>: \<open>application/ai_tools.py\<close>.
  \<^item> \<open>Conversation\<close>: \<open>application/conversation_service.py\<close>: conversations and messages, and the turn
    of a message: reservation, rounds of calls to a model and of its tools, fallback, accounting;
    \<open>Chat_Api\<close>: \<open>api/conversations.py\<close> with its event stream, and \<open>api/ai_settings.py\<close>.
  \<^item> \<open>Gateways\<close>: \<open>infrastructure/openai_gateway.py\<close>, \<open>gemini_gateway.py\<close>, \<open>claude_gateway.py\<close>: the
    request each adapter builds, the loop over the stream of its SDK, the translation of errors,
    and the contract \<open>model_gateway\<close> that all three keep; \<open>Gateway_Turns\<close>: turns of a chat over
    these adapters.
  \<^item> \<open>Trace_System\<close>: the operations of \<open>Action_System\<close> as requests and the connector run them, replays
    and refusals included, with the events they log, against the trace completeness job of \<open>Jobs\<close>.
  \<^item> \<open>Config\<close>: \<open>config.py\<close> (fields, defaults, validators) and what the engine of \<open>db.py\<close>, the CORS
    middleware of \<open>main.py\<close>, the sign-in, the chat and the connector take from it; \<open>Ops_Scripts\<close>: the
    restore drill and the evaluation of the providers of \<open>backend/scripts\<close>.
  \<^item> \<open>Routes\<close>: the routes \<open>main.py\<close> mounts, each with the context its handler depends on, and which of them
    a request is given to.
  \<^item> \<open>Catalog\<close>: the catalog of a database and the operations on it that the migrations are written
    in; \<open>Migrations\<close>: \<open>migrations/versions\<close> 0001 to 0023, each an upgrade and a downgrade;
    \<open>Schema_History\<close>: how a run of operations is checked table by table, with an outline of what the
    tables ask of each other; \<open>Head_Schema\<close>: the schema the history arrives at, and that it does;
    \<open>Stored_Rows\<close>: the rows of the services as rows of that schema; \<open>Row_Security\<close>: what its policies
    leave of a table in the session of a tenant (\<open>db.py\<close>), by the attributes of the role that asks; \<open>Backfills\<close>: the rows 0004, 0005 and 0011 copy.
  \<^item> \<open>Seeds\<close>: the rows the demo, the evaluation and the chat load test start from
    (\<open>seed_e2e_demo.py\<close>, \<open>run_ai_eval_suite.py\<close>, \<open>load_test_ai_chat.py\<close>); \<open>Load_Tests\<close>: the percentile
    and the verdicts of the load tests, on the times they are given.

  \<^bold>\<open>State and operations.\<close> A service function with a session argument is a HOL function from
  \<open>db\<close> to \<open>(app_error + 'a) \<times> db\<close>, every raise being an \<open>Inl\<close>. Where a function decides from an
  object that was loaded earlier in the request, the loaded row is an argument of its own
  (the functions named \<open>\<dots>_after\<close>, and the service functions that take a row): this is how two
  requests that race are expressed, since SQLAlchemy does not refresh a loaded object unless
  told to. A generator that yields (\<open>stream_message\<close>) is a function that also returns the list
  of chunks it yielded; the number of chunks after which its consumer goes away is an argument
  of it, and what a model answers is a function of the request. A flush writes only columns whose value differs from the loaded one, and a row that
  vanished makes it raise \<open>StaleDataError\<close>. Systems of several requests are relations on \<open>db\<close>
  whose steps are whole transactions; their invariants are proved by the rule of
  \<open>invariant_system\<close>.

  \<^bold>\<open>What the lemmas show.\<close> In the order of importance the properties are grouped by the part they are about:
  the audit trail (recorded chains verify, a changed row is reported, and what is not
  detected), access (a context is given exactly to those with a role; archived and suspended
  tenants; which handlers ask for one), sessions and sign-in, approvals (nothing of risk R3 or more passes without an
  approval of its payload; statuses along the table; readiness announced once), delivery
  (a published message is streamed; a message is sent at most once; a ready action is carried
  out once the workers have polled), owners, workspaces,
  tasks, reminders, the schema (tenants see and change their own rows only; the migrations run, can be
  gone back and keep the tables in step; which rows the tables take), and the chat (which providers a turn asks and how often, that it only
  proposes, what it reserves, costs and records, how spending stays under the cap, and what the adapters
  make of calls and results). Each states the code as it is, also where it does not do what a comment
  says.

  \<^bold>\<open>Bounds and fuel.\<close> No definition of the program uses fuel (only the client that follows the cursor of the
  audit log, \<open>read_pages\<close>, is given a number of pages; one more than there are events is enough): loops run over lists (retries over the list of
  attempts, polls over the selected batch, walks over the stored events) and recursion is
  structural, except the decimal rendering, whose argument decreases, the decoding of a day
  into its month (\<open>month_of_day\<close>, the number of days decreases), and the loop of a turn
  (\<open>turn_loop\<close>), which comes back only after a fallback and never falls back twice. The rounds
  of a turn count down from the configured number, as the source's \<open>for\<close> over it does.
  Python integers are
  \<open>int\<close> or \<open>nat\<close>; amounts of money in USD and time-outs in seconds that the source writes as
  floating point numbers are rationals.

  \<^bold>\<open>What is not modelled.\<close> The services are modelled over the \<open>db\<close> of theory \<open>Schema\<close>, which does not
  enforce the row security and the widths of the tables: they select the rows of their tenant
  where the code relies on the policy to (the fire job, adding a member, the user's own
  notifications), as a session of the tenant would (theory \<open>Row_Security\<close>), and a row too wide for its
  table is refused by PostgreSQL only (theory \<open>Stored_Rows\<close>). What PostgreSQL does with an operation
  of the schema is stated as its documentation has it; the version table of alembic, the extensions and
  the bodies of the trigger functions, which only refuse, are left out.
  Logging, tracing, what the handlers of \<open>/metrics\<close> and of the pages of FastAPI answer (their routes
  are in theory \<open>Routes\<close>), the requests of the load tests and the texts of
  the evaluation tasks only configure or call what is modelled. The SDKs of the language model
  providers, Redis, the Telegram and Google servers are
  parameters of the model. Identifiers are natural numbers
  drawn in order, of which only freshness and injectivity of their text is used; a string is a
  list of characters with codes below 256 (the detection of languages works on lists of code
  points), and some error messages are abbreviated. The bodies of requests arrive parsed; the
  JSON parser, the parser of floating point numbers and the argument classes of the tools are
  parameters, since their values include floats and the types of a validation library.
\<close>

end
